(* ===== verification/Prelude.thy ===== *)
theory Prelude
  imports Complex_Main "HOL-Library.Word"
begin

text \<open>
  Shared vocabulary of the development: the result type of Go functions that return
  \<open>(value, error)\<close>, the byte strings of Go, the helpers of package \<open>strings\<close> and \<open>strconv\<close>
  that the program calls, and the generic facts on lists and rows which the components share.
  A Go string is a sequence of bytes, which is what \<^typ>\<open>string\<close> is here.
\<close>

named_theorems go_simps \<open>unfolding equations of the operations, for evaluation\<close>
named_theorems preserved \<open>invariant preservation facts, one per operation\<close>

subsection \<open>Results\<close>

text \<open>\<open>Inl\<close> is a returned error, \<open>Inr\<close> the value of a call with a nil error.\<close>

type_synonym ('e, 'a) result = "'e + 'a"

definition bindr :: "('e, 'a) result \<Rightarrow> ('a \<Rightarrow> ('e, 'b) result) \<Rightarrow> ('e, 'b) result" where
  "bindr m f = (case m of Inl e \<Rightarrow> Inl e | Inr x \<Rightarrow> f x)"

lemma bindr_simps [simp]:
  "bindr (Inl e) f = Inl e"
  "bindr (Inr x) f = f x"
  by (simp_all add: bindr_def)

lemma bindr_Inr_iff: "bindr m f = Inr y \<longleftrightarrow> (\<exists>x. m = Inr x \<and> f x = Inr y)"
  by (cases m) auto

lemma bindr_Inl_iff:
  "bindr m f = Inl e \<longleftrightarrow> m = Inl e \<or> (\<exists>x. m = Inr x \<and> f x = Inl e)"
  by (cases m) auto

definition is_ok :: "('e, 'a) result \<Rightarrow> bool" where
  "is_ok r = (case r of Inl _ \<Rightarrow> False | Inr _ \<Rightarrow> True)"

lemma is_ok_simps [simp]: "is_ok (Inl e) = False" "is_ok (Inr x) = True"
  by (simp_all add: is_ok_def)

lemma is_ok_iff: "is_ok r \<longleftrightarrow> (\<exists>x. r = Inr x)"
  by (cases r) auto

text \<open>A guard: the Go idiom \<open>if cond { return err }\<close>.\<close>

definition ensure :: "bool \<Rightarrow> 'e \<Rightarrow> ('e, unit) result" where
  "ensure c e = (if c then Inr () else Inl e)"

lemma ensure_simps [simp]:
  "ensure True e = Inr ()"
  "ensure False e = Inl e"
  "ensure c e = Inr u \<longleftrightarrow> c"
  "ensure c e = Inl e' \<longleftrightarrow> \<not> c \<and> e' = e"
  by (auto simp: ensure_def)

subsection \<open>Strings\<close>

definition is_space :: "char \<Rightarrow> bool" where
  "is_space c = (of_char c \<in> {9, 10, 11, 12, 13, 32 :: nat})"

text \<open>\<open>strings.TrimSpace\<close> on ASCII text.\<close>

definition trim_space :: "string \<Rightarrow> string" where
  "trim_space s = rev (dropWhile is_space (rev (dropWhile is_space s)))"

definition to_lower_char :: "char \<Rightarrow> char" where
  "to_lower_char c =
     (if (of_char c :: nat) \<in> {65..90} then char_of ((of_char c :: nat) + 32) else c)"

text \<open>\<open>strings.ToLower\<close> on ASCII text.\<close>

definition to_lower :: "string \<Rightarrow> string" where
  "to_lower s = map to_lower_char s"

fun has_prefix :: "string \<Rightarrow> string \<Rightarrow> bool" where
  "has_prefix s [] = True"
| "has_prefix [] (p # ps) = False"
| "has_prefix (c # cs) (p # ps) = (c = p \<and> has_prefix cs ps)"

text \<open>\<open>strings.Contains\<close>.\<close>

fun str_contains :: "string \<Rightarrow> string \<Rightarrow> bool" where
  "str_contains [] p = (p = [])"
| "str_contains (c # cs) p = (has_prefix (c # cs) p \<or> str_contains cs p)"

text \<open>\<open>strings.Split\<close> by a single byte: always at least one field.\<close>

fun split_on :: "char \<Rightarrow> string \<Rightarrow> string list" where
  "split_on d [] = [[]]"
| "split_on d (c # cs) =
     (if c = d then [] # split_on d cs
      else (case split_on d cs of [] \<Rightarrow> [[c]] | w # ws \<Rightarrow> (c # w) # ws))"

text \<open>\<open>strings.Fields\<close>: the maximal runs of non-space bytes.\<close>

fun fields_acc :: "string \<Rightarrow> string \<Rightarrow> string list" where
  "fields_acc acc [] = (if acc = [] then [] else [rev acc])"
| "fields_acc acc (c # cs) =
     (if is_space c then (if acc = [] then fields_acc [] cs else rev acc # fields_acc [] cs)
      else fields_acc (c # acc) cs)"

definition fields :: "string \<Rightarrow> string list" where
  "fields s = fields_acc [] s"

text \<open>\<open>strings.Join\<close>.\<close>

fun str_join :: "string \<Rightarrow> string list \<Rightarrow> string" where
  "str_join d [] = []"
| "str_join d [s] = s"
| "str_join d (s # t # ts) = s @ d @ str_join d (t # ts)"

subsection \<open>Decimal numbers\<close>

definition digit_char :: "nat \<Rightarrow> char" where
  "digit_char n = char_of (48 + n)"

definition is_digit :: "char \<Rightarrow> bool" where
  "is_digit c = ((of_char c :: nat) \<in> {48..57})"

definition digit_val :: "char \<Rightarrow> nat" where
  "digit_val c = (of_char c :: nat) - 48"

fun dec :: "nat \<Rightarrow> string" where
  "dec n = (if n < 10 then [digit_char n] else dec (n div 10) @ [digit_char (n mod 10)])"

declare dec.simps [simp del]

text \<open>The value of a run of digits, most significant first.\<close>

definition undec :: "string \<Rightarrow> nat" where
  "undec s = foldl (\<lambda>a c. a * 10 + digit_val c) 0 s"

text \<open>\<open>strconv.ParseInt(s, 10, 64)\<close> and \<open>Atoi\<close>: an optional sign, digits, in range.\<close>

definition ParseInt64 :: "string \<Rightarrow> int option" where
  "ParseInt64 s =
     (let (sg, ds) = (case s of
            [] \<Rightarrow> (1, [])
          | c # cs \<Rightarrow> if c = CHR ''-'' then (-1, cs) else if c = CHR ''+'' then (1, cs) else (1, c # cs));
          v = sg * int (undec ds)
      in if ds \<noteq> [] \<and> list_all is_digit ds \<and> - (2 ^ 63) \<le> v \<and> v < 2 ^ 63 then Some v else None)"

text \<open>\<open>strconv.ParseFloat\<close> on plain decimal notation, as a rational number: an optional sign, digits,
  optionally a point and digits. Exponents, hexadecimal, infinities and NaN are not read.\<close>

definition ParseFloat :: "string \<Rightarrow> rat option" where
  "ParseFloat s =
     (let (sg, ds) = (case s of
            [] \<Rightarrow> (1, [])
          | c # cs \<Rightarrow> if c = CHR ''-'' then (-1, cs) else if c = CHR ''+'' then (1, cs) else (1, c # cs));
          whole = takeWhile (\<lambda>c. c \<noteq> CHR ''.'') ds;
          frac = drop (Suc (length whole)) ds
      in if (whole \<noteq> [] \<or> frac \<noteq> []) \<and> list_all is_digit whole \<and> list_all is_digit frac
         then Some (sg * (of_nat (undec whole) + of_nat (undec frac) / 10 ^ length frac)) else None)"

lemma of_char_digit_char: "n < 10 \<Longrightarrow> (of_char (digit_char n) :: nat) = 48 + n"
  by (simp add: digit_char_def)

lemma digit_char_simps [simp]:
  "n < 10 \<Longrightarrow> is_digit (digit_char n)"
  "n < 10 \<Longrightarrow> digit_val (digit_char n) = n"
  by (auto simp: is_digit_def digit_val_def of_char_digit_char)

lemma dec_digits: "list_all is_digit (dec n)"
  by (induction n rule: dec.induct) (subst dec.simps, simp)

lemma dec_not_Nil [simp]: "dec n \<noteq> []"
  by (subst dec.simps) simp

lemma undec_dec [simp]: "undec (dec n) = n"
proof (induction n rule: dec.induct)
  case (1 n)
  show ?case
  proof (cases "n < 10")
    case True
    then show ?thesis by (subst dec.simps) (simp add: undec_def)
  next
    case False
    with 1 show ?thesis by (subst dec.simps) (simp add: undec_def)
  qed
qed

lemma dec_leading: "0 < n \<Longrightarrow> digit_val (hd (dec n)) \<noteq> 0"
proof (induction n rule: dec.induct)
  case (1 n)
  show ?case
  proof (cases "n < 10")
    case True
    then show ?thesis using 1(2) by (subst dec.simps) simp
  next
    case False
    then have "0 < n div 10" by (simp add: div_greater_zero_iff)
    then show ?thesis using False 1(1) by (subst dec.simps) simp
  qed
qed

lemma is_digit_not_sep [simp]:
  "is_digit c \<Longrightarrow> c \<noteq> CHR ''.''" "is_digit c \<Longrightarrow> c \<noteq> CHR ''/''"
  "is_digit c \<Longrightarrow> c \<noteq> CHR '':''"
  by (auto simp: is_digit_def)

lemma dec_no_sep: "list_all (\<lambda>c. c \<noteq> CHR ''.'' \<and> c \<noteq> CHR ''/'' \<and> c \<noteq> CHR '':'') (dec n)"
  using dec_digits by (rule list.pred_mono_strong) auto

subsection \<open>Splitting a text at separators\<close>

lemma split_on_not_Nil [simp]: "split_on d s \<noteq> []"
  by (induction s) (auto split: list.splits)

lemma split_on_no_sep:
  "list_all (\<lambda>c. c \<noteq> d) s \<Longrightarrow> split_on d s = [s]"
  by (induction s) auto

lemma split_on_append_sep:
  "list_all (\<lambda>c. c \<noteq> d) s \<Longrightarrow> split_on d (s @ d # t) = s # split_on d t"
  by (induction s) auto

subsection \<open>Lists of rows\<close>

text \<open>The first row that satisfies a predicate: a \<open>:one\<close> query.\<close>

lemma find_Some_mem: "find P xs = Some x \<Longrightarrow> x \<in> set xs \<and> P x"
  by (auto simp: find_Some_iff)

lemma find_None_all: "find P xs = None \<longleftrightarrow> (\<forall>x\<in>set xs. \<not> P x)"
  by (auto simp: find_None_iff)

lemma distinct_map_filter_iff [simp]:
  "distinct (map f xs) \<Longrightarrow> distinct (map f (filter P xs))"
  by (simp add: distinct_map_filter)

lemma inj_on_key_find:
  assumes "distinct (map f xs)" and "x \<in> set xs"
  shows "find (\<lambda>y. f y = f x) xs = Some x"
  using assms by (induction xs) (auto simp: image_iff)

lemma distinct_map_unique:
  "\<lbrakk>distinct (map f xs); x \<in> set xs; y \<in> set xs; f x = f y\<rbrakk> \<Longrightarrow> x = y"
  by (simp add: distinct_map inj_on_def)

lemma map_if_key:
  assumes "\<And>x. x \<in> set xs \<Longrightarrow> P x \<Longrightarrow> f (g x) = f x"
  shows "map f (map (\<lambda>x. if P x then g x else x) xs) = map f xs"
  using assms by auto

section \<open>Operations on a state\<close>

text \<open>An operation takes the state and returns its result with the new state; an error keeps the
  changes made so far. The combinators name the ways the code composes calls: run the next call
  only after success, wrap the error, look at the outcome and go on.\<close>

definition returnS :: "'a \<Rightarrow> 's \<Rightarrow> ('e, 'a) result \<times> 's" where
  "returnS x s = (Inr x, s)"

definition failS :: "'e \<Rightarrow> 's \<Rightarrow> ('e, 'a) result \<times> 's" where
  "failS e s = (Inl e, s)"

definition liftS :: "('e, 'a) result \<Rightarrow> 's \<Rightarrow> ('e, 'a) result \<times> 's" where
  "liftS r s = (r, s)"

definition getS :: "'s \<Rightarrow> ('e, 's) result \<times> 's" where
  "getS s = (Inr s, s)"

definition bindS ::
  "('s \<Rightarrow> ('e, 'a) result \<times> 's) \<Rightarrow> ('a \<Rightarrow> 's \<Rightarrow> ('e, 'b) result \<times> 's) \<Rightarrow> 's \<Rightarrow> ('e, 'b) result \<times> 's" where
  "bindS m f s = (case m s of (Inl e, s') \<Rightarrow> (Inl e, s') | (Inr x, s') \<Rightarrow> f x s')"

definition map_errS ::
  "('e \<Rightarrow> 'e) \<Rightarrow> ('s \<Rightarrow> ('e, 'a) result \<times> 's) \<Rightarrow> 's \<Rightarrow> ('e, 'a) result \<times> 's" where
  "map_errS g m s = (case m s of (Inl e, s') \<Rightarrow> (Inl (g e), s') | (Inr x, s') \<Rightarrow> (Inr x, s'))"

definition tryS :: "('s \<Rightarrow> ('e, 'a) result \<times> 's) \<Rightarrow> 's \<Rightarrow> ('e, ('e, 'a) result) result \<times> 's" where
  "tryS m s = (case m s of (r, s') \<Rightarrow> (Inr r, s'))"

lemma stateS_simps [simp]:
  "returnS x s = (Inr x, s)" "failS e s = (Inl e, s)" "liftS r s = (r, s)" "getS s = (Inr s, s)"
  by (simp_all add: returnS_def failS_def liftS_def getS_def)

lemma bindS_simps:
  "m s = (Inl e, s') \<Longrightarrow> bindS m f s = (Inl e, s')"
  "m s = (Inr x, s') \<Longrightarrow> bindS m f s = f x s'"
  by (simp_all add: bindS_def)

lemma bindS_pure [simp]:
  "bindS (returnS x) f s = f x s" "bindS (failS e) f s = (Inl e, s)" "bindS getS g s = g s s"
  "bindS (liftS (Inl e)) f s = (Inl e, s)" "bindS (liftS (Inr x)) f s = f x s"
  by (simp_all add: bindS_def)

lemma bindS_Inr_iff: "bindS m f s = (Inr y, s'') \<longleftrightarrow> (\<exists>x s'. m s = (Inr x, s') \<and> f x s' = (Inr y, s''))"
  by (auto simp: bindS_def split: prod.splits sum.splits)

lemma bindS_Inl_iff:
  "bindS m f s = (Inl e, s'') \<longleftrightarrow> m s = (Inl e, s'') \<or> (\<exists>x s'. m s = (Inr x, s') \<and> f x s' = (Inl e, s''))"
  by (auto simp: bindS_def split: prod.splits sum.splits)

lemma map_errS_Inr_iff [simp]: "map_errS g m s = (Inr y, s') \<longleftrightarrow> m s = (Inr y, s')"
  by (auto simp: map_errS_def split: prod.splits sum.splits)

lemma map_errS_Inl_iff: "map_errS g m s = (Inl e', s') \<longleftrightarrow> (\<exists>e. m s = (Inl e, s') \<and> e' = g e)"
  by (auto simp: map_errS_def split: prod.splits sum.splits)

lemma map_errS_snd [simp]: "snd (map_errS g m s) = snd (m s)"
  by (auto simp: map_errS_def split: prod.splits sum.splits)

lemma tryS_simps [simp]: "snd (tryS m s) = snd (m s)" "tryS m s = (Inr (fst (m s)), snd (m s))"
  by (simp_all add: tryS_def case_prod_beta)

text \<open>What an operation does to the state whatever its result: \<open>stays R m\<close>.\<close>

definition stays :: "('s \<Rightarrow> 's \<Rightarrow> bool) \<Rightarrow> ('s \<Rightarrow> 'r \<times> 's) \<Rightarrow> bool" where
  "stays R m = (\<forall>s. R s (snd (m s)))"

lemma staysD: "stays R m \<Longrightarrow> m s = (r, s') \<Longrightarrow> R s s'"
  by (metis snd_conv stays_def)

lemma stays_pure:
  assumes "reflp R"
  shows "stays R (returnS x)" "stays R (failS e)" "stays R (liftS r)" "stays R getS"
  using assms by (simp_all add: stays_def reflp_def)

lemma stays_map_errS: "stays R m \<Longrightarrow> stays R (map_errS g m)"
  by (simp add: stays_def)

lemma stays_tryS: "stays R m \<Longrightarrow> stays R (tryS m)"
  by (simp add: stays_def)

lemma stays_bindS:
  assumes "transp R" "stays R m" "\<And>x. stays R (f x)"
  shows "stays R (bindS m f)"
  unfolding stays_def
proof
  fix s
  have a: "R s (snd (m s))" "\<And>x t. R t (snd (f x t))" using assms(2,3) by (auto simp: stays_def)
  then show "R s (snd (bindS m f s))"
    using assms(1) by (cases "m s") (auto simp: bindS_def transp_def split: sum.splits)
qed

text \<open>Triples: from a state with \<open>P\<close>, the operation ends with \<open>Q\<close> of its value or with \<open>E\<close> of its error.\<close>

definition hoare ::
  "('s \<Rightarrow> bool) \<Rightarrow> ('s \<Rightarrow> ('e, 'a) result \<times> 's) \<Rightarrow> ('a \<Rightarrow> 's \<Rightarrow> bool) \<Rightarrow> ('e \<Rightarrow> 's \<Rightarrow> bool) \<Rightarrow> bool" where
  "hoare P m Q E = (\<forall>s. P s \<longrightarrow> (case m s of (Inr x, s') \<Rightarrow> Q x s' | (Inl e, s') \<Rightarrow> E e s'))"

lemma hoareI:
  assumes "\<And>s x s'. P s \<Longrightarrow> m s = (Inr x, s') \<Longrightarrow> Q x s'" "\<And>s e s'. P s \<Longrightarrow> m s = (Inl e, s') \<Longrightarrow> E e s'"
  shows "hoare P m Q E"
  using assms unfolding hoare_def by (auto split: prod.splits sum.splits)

lemma hoareD:
  assumes "hoare P m Q E" "P s"
  shows "m s = (Inr x, s') \<Longrightarrow> Q x s'" "m s = (Inl e, s') \<Longrightarrow> E e s'"
  using assms unfolding hoare_def by (auto split: prod.splits sum.splits)

lemma hoare_bind:
  assumes "hoare P m Q E" "\<And>x. hoare (Q x) (f x) Q' E"
  shows "hoare P (bindS m f) Q' E"
proof (rule hoareI)
  fix s y s'' assume p: "P s" and "bindS m f s = (Inr y, s'')"
  then obtain x s' where x: "m s = (Inr x, s')" "f x s' = (Inr y, s'')" by (auto simp: bindS_Inr_iff)
  show "Q' y s''" by (rule hoareD(1) [OF assms(2) hoareD(1) [OF assms(1) p x(1)] x(2)])
next
  fix s e s'' assume p: "P s" and "bindS m f s = (Inl e, s'')"
  then consider "m s = (Inl e, s'')" | x s' where "m s = (Inr x, s')" "f x s' = (Inl e, s'')"
    by (auto simp: bindS_Inl_iff)
  then show "E e s''"
  proof cases
    case 1
    then show ?thesis by (rule hoareD(2) [OF assms(1) p])
  next
    case (2 x s')
    show ?thesis by (rule hoareD(2) [OF assms(2) hoareD(1) [OF assms(1) p 2(1)] 2(2)])
  qed
qed

lemma hoare_bind_pair:
  assumes "hoare P m (\<lambda>(x, y). Q x y) E" "\<And>x y. hoare (Q x y) (f x y) Q' E"
  shows "hoare P (bindS m (\<lambda>(x, y). f x y)) Q' E"
  using assms(1) by (rule hoare_bind) (auto simp: assms(2) split: prod.splits)

lemma hoare_return: "hoare (Q x) (returnS x) Q E"
  by (auto intro: hoareI)

lemma hoare_weaken:
  assumes "hoare P' m Q' E'" "\<And>s. P s \<Longrightarrow> P' s" "\<And>x s. Q' x s \<Longrightarrow> Q x s" "\<And>e s. E' e s \<Longrightarrow> E e s"
  shows "hoare P m Q E"
  using assms unfolding hoare_def by (fastforce split: prod.splits sum.splits)

lemma hoare_stays:
  assumes "stays R m" "\<And>s s'. P s \<Longrightarrow> R s s' \<Longrightarrow> P s'"
  shows "hoare P m (\<lambda>_. P) (\<lambda>_. P)"
  by (rule hoareI) (blast intro: assms(2) staysD [OF assms(1)])+

lemma hoare_if: "hoare P a Q E \<Longrightarrow> hoare P b Q E \<Longrightarrow> hoare P (if c then a else b) Q E"
  by simp

lemma hoare_tryS: "hoare P m (\<lambda>x. Q (Inr x)) (\<lambda>e. Q (Inl e)) \<Longrightarrow> hoare P (tryS m) Q E"
  unfolding hoare_def tryS_def by (fastforce split: prod.splits sum.splits)

section \<open>Lines of fields\<close>

text \<open>A token: what \<open>strings.Fields\<close> returns.\<close>

definition token :: "string \<Rightarrow> bool" where
  "token s = (s \<noteq> [] \<and> list_all (\<lambda>c. \<not> is_space c) s)"

lemma fields_acc_token: "list_all (\<lambda>c. \<not> is_space c) s \<Longrightarrow> fields_acc acc (s @ t) = fields_acc (rev s @ acc) t"
  by (induction s arbitrary: acc) auto

lemma fields_join:
  assumes "is_space d" "list_all token ts"
  shows "fields (str_join [d] ts) = ts"
  using assms(2) unfolding fields_def
proof (induction ts)
  case (Cons t ts)
  then have t: "t \<noteq> []" "list_all (\<lambda>c. \<not> is_space c) t" by (simp_all add: token_def)
  show ?case
  proof (cases ts)
    case Nil
    then show ?thesis using fields_acc_token [OF t(2), of "[]" "[]"] t(1) by simp
  next
    case (Cons u us)
    then show ?thesis using fields_acc_token [OF t(2), of "[]" "d # str_join [d] ts"] t(1) Cons.IH Cons.prems assms(1)
      by simp
  qed
qed simp

lemma str_join_ends:
  assumes "list_all token ts" "ts \<noteq> []"
  shows "str_join d ts \<noteq> [] \<and> hd (str_join d ts) = hd (hd ts) \<and> last (str_join d ts) = last (last ts)"
  using assms by (induction d ts rule: str_join.induct) (auto simp: token_def)

lemma trim_space_id:
  assumes "s \<noteq> []" "\<not> is_space (hd s)" "\<not> is_space (last s)"
  shows "trim_space s = s"
proof -
  have a: "dropWhile is_space s = s" using assms(1,2) by (cases s) auto
  have "rev s \<noteq> []" "\<not> is_space (hd (rev s))" using assms(1,3) by (auto simp: hd_rev)
  then have "dropWhile is_space (rev s) = rev s" by (cases "rev s") auto
  then show ?thesis by (simp add: trim_space_def a)
qed

lemma token_ends: "token t \<Longrightarrow> \<not> is_space (hd t) \<and> \<not> is_space (last t)"
  by (auto simp: token_def list_all_iff)

lemma trim_join:
  assumes "list_all token ts" "ts \<noteq> []"
  shows "trim_space (str_join d ts) = str_join d ts"
proof (rule trim_space_id)
  have "token (hd ts)" "token (last ts)" using assms by (auto simp: list_all_iff)
  then show "str_join d ts \<noteq> []" "\<not> is_space (hd (str_join d ts))" "\<not> is_space (last (str_join d ts))"
    using str_join_ends [OF assms] token_ends by auto
qed

text \<open>Text made of lines, each ended by the separator.\<close>

lemma split_on_lines:
  assumes "\<forall>l\<in>set ls. list_all (\<lambda>c. c \<noteq> d) l"
  shows "split_on d (concat (map (\<lambda>l. l @ [d]) ls)) = ls @ [[]]"
  using assms by (induction ls) (simp_all add: split_on_append_sep)

end
