(* ===== verification/DomainErrors.thy ===== *)
theory DomainErrors
  imports Prelude
begin

text \<open>
  The structured errors of \<open>pkg/errors/domain_errors.go\<close>. A Go \<open>error\<close> value is a
  \<open>*BaseError\<close>, an error made by \<open>fmt.Errorf\<close> with \<open>%w\<close> (which keeps the wrapped one) or an
  opaque one. The timestamp of a \<open>BaseError\<close> is left out: nothing in the program branches on it.
\<close>

datatype meta_value = MString string | MInt int | MBool bool

datatype go_error =
    BaseError (err_domain: string) (err_code: string) (err_message: string)
      (err_retryable: bool) (err_cause: "go_error option")
      (err_metadata: "(string \<times> meta_value) list")
  | WrapError string go_error
  | PlainError string

type_synonym 'a res = "(go_error, 'a) result"

text \<open>A run-time panic, as a value of its own.\<close>

definition GoPanic :: "string \<Rightarrow> go_error" where
  "GoPanic what = PlainError (''panic: '' @ what)"

subsection \<open>Codes and domains\<close>

abbreviation ErrCodeNodeNotFound :: string where
  "ErrCodeNodeNotFound \<equiv> ''node_not_found''"
abbreviation ErrCodeNodeAtCapacity :: string where
  "ErrCodeNodeAtCapacity \<equiv> ''node_at_capacity''"
abbreviation ErrCodeNodeUnhealthy :: string where
  "ErrCodeNodeUnhealthy \<equiv> ''node_unhealthy''"
abbreviation ErrCodeNodeProvisioning :: string where
  "ErrCodeNodeProvisioning \<equiv> ''node_provisioning''"
abbreviation ErrCodeNodeDestroying :: string where
  "ErrCodeNodeDestroying \<equiv> ''node_destroying''"
abbreviation ErrCodeNodeValidation :: string where
  "ErrCodeNodeValidation \<equiv> ''node_validation''"
abbreviation ErrCodeNodeConflict :: string where
  "ErrCodeNodeConflict \<equiv> ''node_conflict''"
abbreviation ErrCodeNodeNotReady :: string where
  "ErrCodeNodeNotReady \<equiv> ''node_not_ready''"
abbreviation ErrCodePeerNotFound :: string where
  "ErrCodePeerNotFound \<equiv> ''peer_not_found''"
abbreviation ErrCodePeerConflict :: string where
  "ErrCodePeerConflict \<equiv> ''peer_conflict''"
abbreviation ErrCodePeerValidation :: string where
  "ErrCodePeerValidation \<equiv> ''peer_validation''"
abbreviation ErrCodePeerIPConflict :: string where
  "ErrCodePeerIPConflict \<equiv> ''peer_ip_conflict''"
abbreviation ErrCodePeerKeyConflict :: string where
  "ErrCodePeerKeyConflict \<equiv> ''peer_public_key_conflict''"
abbreviation ErrCodeProvisionInProgress :: string where
  "ErrCodeProvisionInProgress \<equiv> ''provision_in_progress''"
abbreviation ErrCodeProvisionTimeout :: string where
  "ErrCodeProvisionTimeout \<equiv> ''provision_timeout''"
abbreviation ErrCodeProvisionFailed :: string where
  "ErrCodeProvisionFailed \<equiv> ''provision_failed''"
abbreviation ErrCodeDestructionFailed :: string where
  "ErrCodeDestructionFailed \<equiv> ''destruction_failed''"
abbreviation ErrCodeSSHConnection :: string where
  "ErrCodeSSHConnection \<equiv> ''ssh_connection''"
abbreviation ErrCodeSSHTimeout :: string where
  "ErrCodeSSHTimeout \<equiv> ''ssh_timeout''"
abbreviation ErrCodeSSHCommand :: string where
  "ErrCodeSSHCommand \<equiv> ''ssh_command_failed''"
abbreviation ErrCodeWireGuardError :: string where
  "ErrCodeWireGuardError \<equiv> ''wireguard_error''"
abbreviation ErrCodeHealthCheckFailed :: string where
  "ErrCodeHealthCheckFailed \<equiv> ''health_check_failed''"
abbreviation ErrCodeCircuitOpen :: string where
  "ErrCodeCircuitOpen \<equiv> ''circuit_breaker_open''"
abbreviation ErrCodeRateLimit :: string where
  "ErrCodeRateLimit \<equiv> ''rate_limit_exceeded''"
abbreviation ErrCodeQuotaExceeded :: string where
  "ErrCodeQuotaExceeded \<equiv> ''quota_exceeded''"
abbreviation ErrCodeNetworkError :: string where
  "ErrCodeNetworkError \<equiv> ''network_error''"
abbreviation ErrCodeDatabase :: string where
  "ErrCodeDatabase \<equiv> ''database_error''"
abbreviation ErrCodeFileOperation :: string where
  "ErrCodeFileOperation \<equiv> ''file_operation_error''"
abbreviation ErrCodeConfiguration :: string where
  "ErrCodeConfiguration \<equiv> ''config_error''"
abbreviation ErrCodeInternal :: string where
  "ErrCodeInternal \<equiv> ''internal_error''"
abbreviation ErrCodeValidation :: string where
  "ErrCodeValidation \<equiv> ''validation_error''"
abbreviation ErrCodeTimeout :: string where
  "ErrCodeTimeout \<equiv> ''timeout''"
abbreviation ErrCodeCapacityExceeded :: string where
  "ErrCodeCapacityExceeded \<equiv> ''capacity_exceeded''"
abbreviation ErrCodeIPAllocation :: string where
  "ErrCodeIPAllocation \<equiv> ''ip_allocation_failed''"
abbreviation ErrCodeSubnetExhausted :: string where
  "ErrCodeSubnetExhausted \<equiv> ''subnet_exhausted''"
abbreviation ErrCodeInvalidCIDR :: string where
  "ErrCodeInvalidCIDR \<equiv> ''invalid_cidr''"
abbreviation ErrCodeInvalidIPAddress :: string where
  "ErrCodeInvalidIPAddress \<equiv> ''invalid_ip_address''"
abbreviation ErrCodeSubnetNotFound :: string where
  "ErrCodeSubnetNotFound \<equiv> ''resource_not_found''"

abbreviation DomainNode :: string where
  "DomainNode \<equiv> ''node''"
abbreviation DomainPeer :: string where
  "DomainPeer \<equiv> ''peer''"
abbreviation DomainInfrastructure :: string where
  "DomainInfrastructure \<equiv> ''infrastructure''"
abbreviation DomainProvisioning :: string where
  "DomainProvisioning \<equiv> ''provisioning''"
abbreviation DomainIP :: string where
  "DomainIP \<equiv> ''ip''"
abbreviation DomainDatabase :: string where
  "DomainDatabase \<equiv> ''database''"
abbreviation DomainSystem :: string where
  "DomainSystem \<equiv> ''system''"
abbreviation DomainAPI :: string where
  "DomainAPI \<equiv> ''api''"
abbreviation DomainEvent :: string where
  "DomainEvent \<equiv> ''event''"

subsection \<open>Constructors\<close>

definition NewBaseError ::
  "string \<Rightarrow> string \<Rightarrow> string \<Rightarrow> bool \<Rightarrow> go_error option \<Rightarrow> go_error" where
  "NewBaseError d code msg retry cause = BaseError d code msg retry cause []"

definition NewNodeError :: "string \<Rightarrow> string \<Rightarrow> bool \<Rightarrow> go_error option \<Rightarrow> go_error" where
  "NewNodeError = NewBaseError DomainNode"

definition NewPeerError :: "string \<Rightarrow> string \<Rightarrow> bool \<Rightarrow> go_error option \<Rightarrow> go_error" where
  "NewPeerError = NewBaseError DomainPeer"

definition NewInfrastructureError :: "string \<Rightarrow> string \<Rightarrow> bool \<Rightarrow> go_error option \<Rightarrow> go_error" where
  "NewInfrastructureError = NewBaseError DomainInfrastructure"

definition NewProvisioningError :: "string \<Rightarrow> string \<Rightarrow> bool \<Rightarrow> go_error option \<Rightarrow> go_error" where
  "NewProvisioningError = NewBaseError DomainProvisioning"

definition NewIPError :: "string \<Rightarrow> string \<Rightarrow> bool \<Rightarrow> go_error option \<Rightarrow> go_error" where
  "NewIPError = NewBaseError DomainIP"

definition NewDatabaseError :: "string \<Rightarrow> string \<Rightarrow> bool \<Rightarrow> go_error option \<Rightarrow> go_error" where
  "NewDatabaseError = NewBaseError DomainDatabase"

definition NewSystemError :: "string \<Rightarrow> string \<Rightarrow> bool \<Rightarrow> go_error option \<Rightarrow> go_error" where
  "NewSystemError = NewBaseError DomainSystem"

definition NewDomainAPIError :: "string \<Rightarrow> string \<Rightarrow> bool \<Rightarrow> go_error option \<Rightarrow> go_error" where
  "NewDomainAPIError = NewBaseError DomainAPI"

lemmas new_error_defs [simp] =
  NewBaseError_def NewNodeError_def NewPeerError_def NewInfrastructureError_def
  NewProvisioningError_def NewIPError_def NewDatabaseError_def NewSystemError_def
  NewDomainAPIError_def

text \<open>\<open>WithMetadata\<close> copies the metadata map and sets one key in the copy.\<close>

fun meta_update :: "string \<Rightarrow> meta_value \<Rightarrow> (string \<times> meta_value) list
    \<Rightarrow> (string \<times> meta_value) list" where
  "meta_update k v [] = [(k, v)]"
| "meta_update k v ((k', v') # m) =
     (if k = k' then (k, v) # m else (k', v') # meta_update k v m)"

fun WithMetadata :: "go_error \<Rightarrow> string \<Rightarrow> meta_value \<Rightarrow> go_error" where
  "WithMetadata (BaseError d c m r cause md) k v = BaseError d c m r cause (meta_update k v md)"
| "WithMetadata e k v = e"

subsection \<open>Inspection\<close>

fun err_unwrap :: "go_error \<Rightarrow> go_error option" where
  "err_unwrap (BaseError d c m r cause md) = cause"
| "err_unwrap (WrapError m e) = Some e"
| "err_unwrap (PlainError m) = None"

text \<open>The text of an error; \<open>fmt.Errorf\<close> with \<open>%w\<close> joins message and cause by a colon.\<close>

fun error_text :: "go_error \<Rightarrow> string" where
  "error_text (BaseError d c m r None md) = ''['' @ d @ '':'' @ c @ ''] '' @ m"
| "error_text (BaseError d c m r (Some cause) md) = ''['' @ d @ '':'' @ c @ ''] '' @ m @ '': '' @ error_text cause"
| "error_text (WrapError m e) = m @ '': '' @ error_text e"
| "error_text (PlainError m) = m"

fun IsDomainError :: "go_error \<Rightarrow> bool" where
  "IsDomainError (BaseError d c m r cause md) = True"
| "IsDomainError e = False"

fun IsRetryable :: "go_error \<Rightarrow> bool" where
  "IsRetryable (BaseError d c m r cause md) = r"
| "IsRetryable e = False"

fun GetErrorCode :: "go_error \<Rightarrow> string" where
  "GetErrorCode (BaseError d c m r cause md) = c"
| "GetErrorCode e = ''unknown''"

fun GetErrorDomain :: "go_error \<Rightarrow> string" where
  "GetErrorDomain (BaseError d c m r cause md) = d"
| "GetErrorDomain e = ''unknown''"

definition HasErrorCode :: "go_error \<Rightarrow> string \<Rightarrow> bool" where
  "HasErrorCode e code = (GetErrorCode e = code)"

fun chain_size :: "go_error option \<Rightarrow> nat" where
  "chain_size None = 0"
| "chain_size (Some e) = Suc (size e)"

lemma chain_size_unwrap: "chain_size (err_unwrap e) < Suc (size e)"
proof (cases e)
  case (BaseError d c m r cause md)
  then show ?thesis by (cases cause) auto
qed auto

text \<open>The loop of \<open>IsErrorCode\<close> over \<open>errors.Unwrap\<close>.\<close>

function IsErrorCode :: "go_error option \<Rightarrow> string \<Rightarrow> bool" where
  "IsErrorCode None code = False"
| "IsErrorCode (Some e) code =
     (if HasErrorCode e code then True else IsErrorCode (err_unwrap e) code)"
  by pat_completeness auto
termination
proof (relation "measure (\<lambda>(x, _). chain_size x)")
  fix e :: go_error and code :: string
  show "((err_unwrap e, code), Some e, code) \<in> measure (\<lambda>(x, _). chain_size x)"
    by (simp add: chain_size_unwrap)
qed auto

definition WrapWithDomain :: "go_error \<Rightarrow> string \<Rightarrow> string \<Rightarrow> string \<Rightarrow> bool \<Rightarrow> go_error" where
  "WrapWithDomain e d code msg retry = NewBaseError d code msg retry (Some e)"

text \<open>\<open>UnpackError\<close>, without the timestamp.\<close>

definition UnpackError ::
  "go_error \<Rightarrow> string \<times> string \<times> string \<times> bool \<times> (string \<times> meta_value) list \<times> go_error option" where
  "UnpackError e = (case e of
       BaseError d c m r cause md \<Rightarrow> (d, c, error_text e, r, md, err_unwrap e)
     | _ \<Rightarrow> (''unknown'', ''unknown'', error_text e, False, [], None))"

text \<open>The chain of errors an error carries, outermost first.\<close>

function err_chain :: "go_error option \<Rightarrow> go_error list" where
  "err_chain None = []"
| "err_chain (Some e) = e # err_chain (err_unwrap e)"
  by pat_completeness auto
termination
proof (relation "measure chain_size")
  fix e :: go_error
  show "(err_unwrap e, Some e) \<in> measure chain_size"
    by (simp add: chain_size_unwrap)
qed auto

lemma IsErrorCode_chain: "IsErrorCode e code \<longleftrightarrow> code \<in> GetErrorCode ` set (err_chain e)"
  by (induction e rule: err_chain.induct) (auto simp: HasErrorCode_def)

lemma meta_update_lookup:
  "map_of (meta_update k v m) = (map_of m)(k \<mapsto> v)"
  by (induction m) (auto simp: fun_eq_iff)

lemma GetErrorCode_WithMetadata [simp]: "GetErrorCode (WithMetadata e k v) = GetErrorCode e"
  by (cases e) auto

lemma err_unwrap_WithMetadata [simp]: "err_unwrap (WithMetadata e k v) = err_unwrap e"
  by (cases e) auto

lemma IsErrorCode_WithMetadata [simp]:
  "IsErrorCode (Some (WithMetadata e k v)) code = IsErrorCode (Some e) code"
  by (simp add: HasErrorCode_def)

lemma IsErrorCode_Base [simp]:
  "IsErrorCode (Some (BaseError d c m r cause md)) code \<longleftrightarrow> c = code \<or> IsErrorCode cause code"
  by (simp add: HasErrorCode_def)

end
