(* ===== verification/Crypto.thy ===== *)
theory Crypto
  imports DomainErrors
begin

text \<open>
  Key handling of \<open>pkg/crypto/wireguard.go\<close>: base64 (the standard alphabet, padded, as Go's
  \<open>base64.StdEncoding\<close> reads and writes it), the key clamp, key generation and derivation, and
  the format check. \<open>curve25519.X25519\<close> is third-party code: the parameter \<open>x25519\<close>, with the
  basepoint fixed. The random bytes are an argument.
\<close>

unbundle bit_operations_syntax

type_synonym byte = "8 word"

record KeyPair =
  PrivateKey :: string
  PublicKey :: string

subsection \<open>base64.StdEncoding\<close>

definition b64_alphabet :: string where
  "b64_alphabet = ''ABCDEFGHIJKLMNOPQRSTUVWXYZabcdefghijklmnopqrstuvwxyz0123456789+/''"

text \<open>The character of a six-bit value and back.\<close>

definition b64_char :: "nat \<Rightarrow> char" where
  "b64_char n =
     (if n < 26 then char_of (65 + n)
      else if n < 52 then char_of (71 + n)
      else if n < 62 then char_of (n - 4)
      else if n = 62 then CHR ''+'' else CHR ''/'')"

definition b64_val :: "char \<Rightarrow> nat option" where
  "b64_val c = (let k = (of_char c :: nat) in
     if 65 \<le> k \<and> k \<le> 90 then Some (k - 65)
     else if 97 \<le> k \<and> k \<le> 122 then Some (k - 71)
     else if 48 \<le> k \<and> k \<le> 57 then Some (k + 4)
     else if k = 43 then Some 62
     else if k = 47 then Some 63 else None)"

fun b64_encode :: "byte list \<Rightarrow> string" where
  "b64_encode [] = []"
| "b64_encode [x] =
     [b64_char (unat x div 4), b64_char (unat x mod 4 * 16), CHR ''='', CHR ''='']"
| "b64_encode [x, y] =
     [b64_char (unat x div 4), b64_char (unat x mod 4 * 16 + unat y div 16),
      b64_char (unat y mod 16 * 4), CHR ''='']"
| "b64_encode (x # y # z # bs) =
     b64_char (unat x div 4) # b64_char (unat x mod 4 * 16 + unat y div 16) #
     b64_char (unat y mod 16 * 4 + unat z div 64) # b64_char (unat z mod 64) # b64_encode bs"

definition b64_byte1 :: "nat \<Rightarrow> nat \<Rightarrow> byte" where
  "b64_byte1 a b = word_of_nat (a * 4 + b div 16)"

definition b64_byte2 :: "nat \<Rightarrow> nat \<Rightarrow> byte" where
  "b64_byte2 b c = word_of_nat (b mod 16 * 16 + c div 4)"

definition b64_byte3 :: "nat \<Rightarrow> nat \<Rightarrow> byte" where
  "b64_byte3 c d = word_of_nat (c mod 4 * 64 + d)"

text \<open>Groups of four: padding only in the last one, and never in its first two places. Like
  Go's decoder (without \<open>Strict\<close>) it does not look at the unused low bits of the last symbol.\<close>

fun b64_groups :: "string \<Rightarrow> byte list option" where
  "b64_groups [] = Some []"
| "b64_groups (a # b # c # d # rest) =
     (case (b64_val a, b64_val b) of
        (Some va, Some vb) \<Rightarrow>
          (if c = CHR ''='' then
             (if d = CHR ''='' \<and> rest = [] then Some [b64_byte1 va vb] else None)
           else (case b64_val c of
               None \<Rightarrow> None
             | Some vc \<Rightarrow>
                 (if d = CHR ''='' then
                    (if rest = [] then Some [b64_byte1 va vb, b64_byte2 vb vc] else None)
                  else (case (b64_val d, b64_groups rest) of
                      (Some vd, Some bs) \<Rightarrow>
                        Some (b64_byte1 va vb # b64_byte2 vb vc # b64_byte3 vc vd # bs)
                    | _ \<Rightarrow> None))))
      | _ \<Rightarrow> None)"
| "b64_groups _ = None"

text \<open>The decoder skips carriage returns and line feeds.\<close>

definition b64_decode :: "string \<Rightarrow> byte list option" where
  "b64_decode s = b64_groups (filter (\<lambda>c. of_char c \<notin> {10, 13 :: nat}) s)"

subsection \<open>Keys\<close>

text \<open>\<open>clampPrivateKey\<close>: it indexes bytes 0 and 31, so a slice shorter than 32 panics
  (\<open>None\<close>).\<close>

definition clampPrivateKey :: "byte list \<Rightarrow> byte list option" where
  "clampPrivateKey key =
     (if 32 \<le> length key then
        Some (let k1 = key[0 := key ! 0 AND 248];
                  k2 = k1[31 := k1 ! 31 AND 127] in
              k2[31 := k2 ! 31 OR 64])
      else None)"

text \<open>\<open>GenerateKeyPair\<close> on the 32 bytes that \<open>rand.Read\<close> delivers (\<open>None\<close>: it failed).\<close>

definition GenerateKeyPair ::
  "(byte list \<Rightarrow> byte list option) \<Rightarrow> byte list option \<Rightarrow> KeyPair res" where
  "GenerateKeyPair x25519 rnd =
     (case rnd of
        None \<Rightarrow> Inl (WrapError ''failed to generate random bytes for private key'' (PlainError ''rand''))
      | Some bytes \<Rightarrow>
          (case clampPrivateKey bytes of
             None \<Rightarrow> Inl (GoPanic ''index out of range'')
           | Some priv \<Rightarrow>
               (case x25519 priv of
                  None \<Rightarrow> Inl (WrapError ''failed to generate public key'' (PlainError ''x25519''))
                | Some pub \<Rightarrow> Inr \<lparr>PrivateKey = b64_encode priv, PublicKey = b64_encode pub\<rparr>)))"

definition DerivePublicKey ::
  "(byte list \<Rightarrow> byte list option) \<Rightarrow> string \<Rightarrow> string res" where
  "DerivePublicKey x25519 priv =
     (case b64_decode priv of
        None \<Rightarrow> Inl (WrapError ''private key is not valid base64'' (PlainError ''illegal base64 data''))
      | Some bytes \<Rightarrow>
          if length bytes \<noteq> 32 then
            Inl (PlainError ''private key has incorrect length: expected 32 bytes'')
          else (case clampPrivateKey bytes of
              None \<Rightarrow> Inl (GoPanic ''index out of range'')
            | Some k \<Rightarrow>
                (case x25519 k of
                   None \<Rightarrow> Inl (WrapError ''failed to derive public key'' (PlainError ''x25519''))
                 | Some pub \<Rightarrow> Inr (b64_encode pub))))"

definition is_b64_char :: "char \<Rightarrow> bool" where
  "is_b64_char c = (b64_val c \<noteq> None)"

text \<open>The regular expression of the format check: a non-empty run of alphabet characters, then
  only padding.\<close>

definition b64_regexp :: "string \<Rightarrow> bool" where
  "b64_regexp key =
     (takeWhile is_b64_char key \<noteq> [] \<and>
      list_all (\<lambda>c. c = CHR ''='') (dropWhile is_b64_char key))"

definition IsValidWireGuardKey :: "string \<Rightarrow> bool" where
  "IsValidWireGuardKey key =
     (if length key \<noteq> 44 then False
      else if \<not> b64_regexp key then False
      else b64_decode key \<noteq> None)"

subsection \<open>Round trip\<close>

lemma unat_byte_bound: "unat (x :: byte) < 256"
  using unsigned_less [of x, where 'a = nat] by simp

lemma b64_val_char [simp]: "n < 64 \<Longrightarrow> b64_val (b64_char n) = Some n"
  by (auto simp: b64_val_def b64_char_def Let_def)

lemma b64_char_neq [simp]:
  "n < 64 \<Longrightarrow> b64_char n \<noteq> CHR ''=''"
  "n < 64 \<Longrightarrow> (of_char (b64_char n) :: nat) \<noteq> 10"
  "n < 64 \<Longrightarrow> (of_char (b64_char n) :: nat) \<noteq> 13"
proof -
  show "b64_char n \<noteq> CHR ''=''" if "n < 64"
  proof
    assume "b64_char n = CHR ''=''"
    then have "b64_val (b64_char n) = None" by (simp add: b64_val_def)
    with that show False by simp
  qed
  show "(of_char (b64_char n) :: nat) \<noteq> 10" "(of_char (b64_char n) :: nat) \<noteq> 13" if "n < 64"
    using b64_val_char [OF that] by (auto simp: b64_val_def Let_def split: if_splits)
qed

lemma join_div: "q < n \<Longrightarrow> (m * n + q) div n = (m :: nat)" by simp

lemma join_mod: "q < n \<Longrightarrow> (m * n + q) mod n = (q :: nat)" by simp

lemma b64_bytes [simp]:
  fixes x y z :: byte
  shows "b64_byte1 (unat x div 4) (unat x mod 4 * 16 + unat y div 16) = x"
    and "b64_byte1 (unat x div 4) (unat x mod 4 * 16) = x"
    and "b64_byte2 (unat x mod 4 * 16 + unat y div 16) (unat y mod 16 * 4 + unat z div 64) = y"
    and "b64_byte2 (unat x mod 4 * 16 + unat y div 16) (unat y mod 16 * 4) = y"
    and "b64_byte3 (unat y mod 16 * 4 + unat z div 64) (unat z mod 64) = z"
proof -
  have b: "unat x < 256" "unat y < 256" "unat z < 256" by (rule unat_byte_bound)+
  then have q: "unat y div 16 < 16" "unat z div 64 < 4" by (auto intro: less_mult_imp_div_less)
  have *: "unat x div 4 * 4 + (unat x mod 4 * 16 + unat y div 16) div 16 = unat x"
    "unat x div 4 * 4 + unat x mod 4 * 16 div 16 = unat x"
    "(unat x mod 4 * 16 + unat y div 16) mod 16 * 16 + (unat y mod 16 * 4 + unat z div 64) div 4 = unat y"
    "(unat x mod 4 * 16 + unat y div 16) mod 16 * 16 + unat y mod 16 * 4 div 4 = unat y"
    "(unat y mod 16 * 4 + unat z div 64) mod 4 * 64 + unat z mod 64 = unat z"
    using q by (simp_all add: join_div join_mod del: add_mult_distrib)
  show "b64_byte1 (unat x div 4) (unat x mod 4 * 16 + unat y div 16) = x"
    by (simp only: b64_byte1_def * of_nat_unat ucast_id)
  show "b64_byte1 (unat x div 4) (unat x mod 4 * 16) = x"
    by (simp only: b64_byte1_def * of_nat_unat ucast_id)
  show "b64_byte2 (unat x mod 4 * 16 + unat y div 16) (unat y mod 16 * 4 + unat z div 64) = y"
    by (simp only: b64_byte2_def * of_nat_unat ucast_id)
  show "b64_byte2 (unat x mod 4 * 16 + unat y div 16) (unat y mod 16 * 4) = y"
    by (simp only: b64_byte2_def * of_nat_unat ucast_id)
  show "b64_byte3 (unat y mod 16 * 4 + unat z div 64) (unat z mod 64) = z"
    by (simp only: b64_byte3_def * of_nat_unat ucast_id)
qed

lemma b64_sextets [simp]:
  fixes x y z :: byte
  shows "unat x div 4 < 64" "unat x mod 4 * 16 + unat y div 16 < 64"
    "unat y mod 16 * 4 + unat z div 64 < 64" "unat z mod 64 < 64"
    "unat x mod 4 * 16 < 64" "unat y mod 16 * 4 < 64"
proof -
  have b: "unat x < 256" "unat y < 256" "unat z < 256" by (rule unat_byte_bound)+
  then have q: "unat x div 4 < 64" "unat y div 16 < 16" "unat z div 64 < 4"
    by (auto intro: less_mult_imp_div_less)
  have m: "unat x mod 4 < 4" "unat y mod 16 < 16" by simp_all
  show "unat x div 4 < 64" "unat z mod 64 < 64" using q by simp_all
  show "unat x mod 4 * 16 + unat y div 16 < 64" "unat y mod 16 * 4 + unat z div 64 < 64"
    "unat x mod 4 * 16 < 64" "unat y mod 16 * 4 < 64"
    using q m by linarith+
qed

lemma b64_groups_encode: "b64_groups (b64_encode bs) = Some bs"
  by (induction bs rule: b64_encode.induct) (simp_all del: add_mult_distrib)

lemma b64_encode_no_newline:
  "list_all (\<lambda>c. (of_char c :: nat) \<notin> {10, 13}) (b64_encode bs)"
  by (induction bs rule: b64_encode.induct) simp_all

lemma b64_decode_encode [simp]: "b64_decode (b64_encode bs) = Some bs"
proof -
  have "filter (\<lambda>c. of_char c \<notin> {10, 13 :: nat}) (b64_encode bs) = b64_encode bs"
    using b64_encode_no_newline [of bs] by (simp add: filter_id_conv list_all_iff)
  then show ?thesis by (simp add: b64_decode_def b64_groups_encode)
qed

lemma length_b64_encode: "length (b64_encode bs) = 4 * ((length bs + 2) div 3)"
proof (induction bs rule: b64_encode.induct)
  case (4 x y z bs)
  have "(length (x # y # z # bs) + 2) div 3 = Suc ((length bs + 2) div 3)" by simp
  with 4 show ?case by simp
qed simp_all

lemma is_b64_pad: "b64_val (CHR ''='') = None"
  by (simp add: b64_val_def)

lemma b64_regexp_encode: "bs \<noteq> [] \<Longrightarrow> b64_regexp (b64_encode bs)"
proof (induction bs rule: b64_encode.induct)
  case (4 x y z bs)
  then show ?case by (cases "bs = []") (simp_all add: b64_regexp_def is_b64_char_def)
qed (simp_all add: b64_regexp_def is_b64_char_def is_b64_pad)

lemma valid_key_encode: "length bs = 32 \<Longrightarrow> IsValidWireGuardKey (b64_encode bs)"
  using b64_regexp_encode [of bs]
  by (cases "bs = []") (auto simp: IsValidWireGuardKey_def length_b64_encode)

subsection \<open>Clamping\<close>

lemma clampPrivateKey_Some: "32 \<le> length key \<Longrightarrow> \<exists>k. clampPrivateKey key = Some k"
  by (simp add: clampPrivateKey_def)

lemma clampPrivateKey_eq:
  "32 \<le> length key \<Longrightarrow>
   clampPrivateKey key = Some (key[0 := key ! 0 AND 248, 31 := key ! 31 AND 127 OR 64])"
  by (simp add: clampPrivateKey_def Let_def)

lemma clamp_byte31: "((x :: byte) AND 127 OR 64) AND 127 OR 64 = x AND 127 OR 64"
proof -
  have "(127 :: byte) AND 127 = 127" "(64 :: byte) AND 127 = 64" by simp_all
  then show ?thesis by (simp add: bit.conj_disj_distrib2 and.assoc or.assoc)
qed

lemma clampPrivateKey_idem:
  assumes "clampPrivateKey key = Some k"
  shows "clampPrivateKey k = Some k"
proof -
  have len: "32 \<le> length key" using assms by (auto simp: clampPrivateKey_def split: if_splits)
  have k: "k = key[0 := key ! 0 AND 248, 31 := key ! 31 AND 127 OR 64]"
    using assms clampPrivateKey_eq [OF len] by simp
  have "key \<noteq> []" using len by auto
  then have "k ! 0 = key ! 0 AND 248" "k ! 31 = key ! 31 AND 127 OR 64" "32 \<le> length k"
    using len by (simp_all add: k)
  then show ?thesis
    using clampPrivateKey_eq [of k] by (simp add: k clamp_byte31 list_update_swap and.assoc)
qed

lemma clampPrivateKey_length: "clampPrivateKey key = Some k \<Longrightarrow> length k = length key"
  by (auto simp: clampPrivateKey_def Let_def split: if_splits)

subsection \<open>Lengths\<close>

lemma b64_groups_length:
  "b64_groups s = Some bs \<Longrightarrow>
     \<exists>n. length s = 4 * n \<and> length bs \<le> 3 * n \<and> 3 * n \<le> length bs + 2"
proof (induction s arbitrary: bs rule: b64_groups.induct)
  case (2 a b c d rest)
  show ?case
  proof (cases "rest = []")
    case True
    then show ?thesis
      using 2(2) by (intro exI [of _ 1]) (auto split: option.splits if_splits)
  next
    case False
    then obtain va vb vc vd bs' where vals: "b64_val a = Some va" "b64_val b = Some vb" "c \<noteq> CHR ''=''"
        "b64_val c = Some vc" "d \<noteq> CHR ''=''" "b64_val d = Some vd" "b64_groups rest = Some bs'"
      and bs: "bs = b64_byte1 va vb # b64_byte2 vb vc # b64_byte3 vc vd # bs'"
      using 2(2) by (auto split: option.splits if_splits)
    obtain n where "length rest = 4 * n" "length bs' \<le> 3 * n" "3 * n \<le> length bs' + 2"
      using "2.IH" vals by blast
    then show ?thesis by (intro exI [of _ "Suc n"]) (simp add: bs)
  qed
qed auto

lemma b64_regexp_no_newline:
  assumes "b64_regexp key" shows "filter (\<lambda>c. of_char c \<notin> {10, 13 :: nat}) key = key"
proof (rule filter_True, intro ballI)
  fix c assume "c \<in> set key"
  then have "c \<in> set (takeWhile is_b64_char key) \<or> c \<in> set (dropWhile is_b64_char key)"
    by (metis Un_iff set_append takeWhile_dropWhile_id)
  then have "is_b64_char c \<or> c = CHR ''=''"
    using assms by (auto simp: b64_regexp_def list_all_iff dest: set_takeWhileD)
  then show "of_char c \<notin> {10, 13 :: nat}"
    by (auto simp: is_b64_char_def b64_val_def Let_def split: if_splits)
qed

subsection \<open>Properties\<close>

text \<open>Whenever random bytes and the curve deliver 32 bytes, key generation returns a pair
  whose two keys pass the format check every request is validated with, and deriving the public
  key from the private one gives the same public key (the clamp is idempotent and base64
  round-trips).\<close>

theorem generated_keys_valid:
  assumes "length rnd = 32"
    and "\<And>k. length k = 32 \<Longrightarrow> \<exists>p. x25519 k = Some p \<and> length p = 32"
  shows "\<exists>kp. GenerateKeyPair x25519 (Some rnd) = Inr kp \<and>
     IsValidWireGuardKey (PrivateKey kp) \<and> IsValidWireGuardKey (PublicKey kp) \<and>
     DerivePublicKey x25519 (PrivateKey kp) = Inr (PublicKey kp)"
proof -
  obtain k where k: "clampPrivateKey rnd = Some k"
    using clampPrivateKey_Some [of rnd] assms(1) by auto
  have len: "length k = 32" using clampPrivateKey_length [OF k] assms(1) by simp
  obtain p where p: "x25519 k = Some p" "length p = 32" using assms(2) [OF len] by auto
  show ?thesis
    using k len p valid_key_encode clampPrivateKey_idem [OF k]
    by (simp add: GenerateKeyPair_def DerivePublicKey_def)
qed

theorem generated_keys_valid_witness:
  "\<exists>kp. GenerateKeyPair Some (Some (replicate 32 7)) = Inr kp \<and>
     IsValidWireGuardKey (PrivateKey kp) \<and> IsValidWireGuardKey (PublicKey kp) \<and>
     DerivePublicKey Some (PrivateKey kp) = Inr (PublicKey kp)"
  by (rule generated_keys_valid) simp_all

text \<open>A string that passes the format check decodes to 31, 32 or 33 bytes: the check bounds
  the decoded length but does not force 32 bytes (see \<open>key_check_accepts_33_bytes\<close>).\<close>

theorem valid_key_decoded_length:
  assumes "IsValidWireGuardKey key"
  shows "\<exists>bs. b64_decode key = Some bs \<and> length bs \<in> {31, 32, 33}"
proof -
  have len: "length key = 44" and re: "b64_regexp key" and "b64_decode key \<noteq> None"
    using assms by (auto simp: IsValidWireGuardKey_def split: if_splits)
  then obtain bs where bs: "b64_decode key = Some bs" by auto
  then have "b64_groups key = Some bs"
    unfolding b64_decode_def b64_regexp_no_newline [OF re] .
  then obtain n where "length key = 4 * n" "length bs \<le> 3 * n" "3 * n \<le> length bs + 2"
    using b64_groups_length by blast
  then show ?thesis using bs len by auto
qed

theorem valid_key_decoded_length_witness:
  "\<exists>bs. b64_decode (b64_encode (replicate 32 1)) = Some bs \<and> length bs \<in> {31, 32, 33}"
  by (rule valid_key_decoded_length) (simp add: valid_key_encode)

text \<open>44 alphabet characters without padding pass the check and stand for 33 bytes, which
  \<open>DerivePublicKey\<close> refuses.\<close>

lemma key_check_accepts_33_bytes:
  "IsValidWireGuardKey (b64_encode (replicate 33 0)) \<and>
   DerivePublicKey x25519 (b64_encode (replicate 33 0)) =
     Inl (PlainError ''private key has incorrect length: expected 32 bytes'')"
proof -
  have "b64_regexp (b64_encode (replicate 33 0))" by (rule b64_regexp_encode) simp
  then show ?thesis
    by (simp add: IsValidWireGuardKey_def DerivePublicKey_def length_b64_encode)
qed

end
