(* ===== verification/IpNet.thy ===== *)
theory IpNet
  imports DomainErrors
begin

text \<open>
  What the program uses of Go's package \<open>net\<close>, for IPv4: addresses as 32-bit words with their
  four bytes, CIDR networks, the text forms and their parsers, containment and masking, and the
  byte loops the allocator runs on addresses. IPv6 texts are not modelled: the parsers refuse
  them (the program's own checks refuse them through \<open>To4\<close>).
\<close>

unbundle bit_operations_syntax

type_synonym ip4 = "32 word"

text \<open>\<open>net.IPNet\<close>: the masked address and the number of leading ones of the mask.\<close>

record IPNet =
  net_ip :: ip4
  net_ones :: nat

subsection \<open>Bytes\<close>

definition ip_bytes :: "ip4 \<Rightarrow> nat list" where
  "ip_bytes w = [unat w div 2 ^ 24, unat w div 2 ^ 16 mod 256, unat w div 2 ^ 8 mod 256,
     unat w mod 256]"

definition ip_of_bytes :: "nat list \<Rightarrow> ip4" where
  "ip_of_bytes bs = word_of_nat (foldl (\<lambda>a b. a * 256 + b) 0 bs)"

text \<open>The increment loop: from the last byte, add one and stop unless the byte wrapped.\<close>

fun inc_rev :: "nat list \<Rightarrow> nat list" where
  "inc_rev [] = []"
| "inc_rev (b # bs) =
     (if (b + 1) mod 256 \<noteq> 0 then (b + 1) mod 256 # bs else 0 # inc_rev bs)"

definition inc_ip :: "ip4 \<Rightarrow> ip4" where
  "inc_ip w = ip_of_bytes (rev (inc_rev (rev (ip_bytes w))))"

text \<open>\<open>ip[len-1]++\<close> and \<open>ip[len-1]--\<close>: the last byte alone, wrapping at 256.\<close>

definition inc_last :: "ip4 \<Rightarrow> ip4" where
  "inc_last w = ip_of_bytes ((ip_bytes w)[3 := (ip_bytes w ! 3 + 1) mod 256])"

definition dec_last :: "ip4 \<Rightarrow> ip4" where
  "dec_last w = ip_of_bytes ((ip_bytes w)[3 := (ip_bytes w ! 3 + 255) mod 256])"

text \<open>\<open>ipGreaterThan\<close>: compares the bytes from the first.\<close>

fun bytes_greater :: "nat list \<Rightarrow> nat list \<Rightarrow> bool" where
  "bytes_greater (a # as) (b # bs) =
     (if a > b then True else if a < b then False else bytes_greater as bs)"
| "bytes_greater _ _ = False"

definition ipGreaterThan :: "ip4 \<Rightarrow> ip4 \<Rightarrow> bool" where
  "ipGreaterThan x y = bytes_greater (ip_bytes x) (ip_bytes y)"

lemma unat32_bound: "unat (w :: ip4) < 4294967296"
  using unsigned_less [of w, where 'a = nat] by simp

lemma div_div_pow: "(n :: nat) div 16777216 = n div 256 div 256 div 256"
  "n div 65536 = n div 256 div 256"
  by (simp_all add: div_mult2_eq [symmetric])

lemma ip_bytes_value: "foldl (\<lambda>a b. a * 256 + b) 0 (ip_bytes w) = unat w"
proof -
  have "m div 256 * 256 + m mod 256 = m" for m :: nat by simp
  note this [of "unat w"] this [of "unat w div 256"] this [of "unat w div 256 div 256"]
  then show ?thesis by (simp add: ip_bytes_def div_div_pow)
qed

lemma ip_of_ip_bytes [simp]: "ip_of_bytes (ip_bytes w) = w"
  by (simp add: ip_of_bytes_def ip_bytes_value)

lemma unat_word_of_nat32: "n < 4294967296 \<Longrightarrow> unat (word_of_nat n :: ip4) = n"
  by (simp add: unat_of_nat)

lemma ip_bytes_bounds: "\<forall>b\<in>set (ip_bytes w). b < 256"
proof -
  have "unat w div 16777216 < 256" using unat32_bound [of w] by (auto intro: less_mult_imp_div_less)
  then show ?thesis by (simp add: ip_bytes_def)
qed

lemma ip_bytes_ex:
  obtains a b c d where "ip_bytes w = [a, b, c, d]" "a < 256" "b < 256" "c < 256" "d < 256"
    "unat w = ((a * 256 + b) * 256 + c) * 256 + d"
proof -
  have "ip_bytes w = [unat w div 16777216, unat w div 65536 mod 256, unat w div 256 mod 256,
      unat w mod 256]" by (simp add: ip_bytes_def)
  moreover define a b c d where "a = unat w div 16777216" and "b = unat w div 65536 mod 256"
    and "c = unat w div 256 mod 256" and "d = unat w mod 256"
  ultimately have e: "ip_bytes w = [a, b, c, d]" by simp
  show ?thesis
    by (rule that [OF e]) (use ip_bytes_bounds [of w] ip_bytes_value [of w] in \<open>simp_all add: e\<close>)
qed

lemma join_mod256: "d < 256 \<Longrightarrow> (m * 256 + d) mod 256 = (d :: nat)" by simp

lemma ip4_wrap: "(4294967296 :: ip4) = 0"
proof -
  have "(word_of_nat (2 ^ 32) :: ip4) = 0" by (simp only: of_nat_power word_exp_length_eq_0 of_nat_numeral) simp
  then show ?thesis by simp
qed

lemma inc_ip_eq: "inc_ip w = w + 1"
proof -
  obtain a b c d where *: "ip_bytes w = [a, b, c, d]" "a < 256" "b < 256" "c < 256" "d < 256"
      "unat w = ((a * 256 + b) * 256 + c) * 256 + d"
    by (rule ip_bytes_ex)
  have w: "w = word_of_nat (((a * 256 + b) * 256 + c) * 256 + d)"
    using *(6) by (metis of_nat_unat ucast_id)
  have z: "Suc x mod 256 = (if x = 255 then 0 else Suc x)" if "x < 256" for x :: nat
    using that by auto
  have "inc_ip w = word_of_nat (((a * 256 + b) * 256 + c) * 256 + d) + 1"
    using *(2-5) by (auto simp: inc_ip_def *(1) z ip_of_bytes_def algebra_simps ip4_wrap)
  then show ?thesis by (simp only: w [symmetric])
qed

lemma inc_last_eq:
  assumes "unat w mod 256 \<noteq> 255"
  shows "inc_last w = w + 1"
proof -
  obtain a b c d where *: "ip_bytes w = [a, b, c, d]" "a < 256" "b < 256" "c < 256" "d < 256"
      "unat w = ((a * 256 + b) * 256 + c) * 256 + d"
    by (rule ip_bytes_ex)
  have w: "w = word_of_nat (((a * 256 + b) * 256 + c) * 256 + d)"
    using *(6) by (metis of_nat_unat ucast_id)
  have "unat w mod 256 = d" unfolding *(6) by (rule join_mod256 [OF *(5)])
  then have "d \<noteq> 255" using assms by simp
  then have "(d + 1) mod 256 = d + 1" using *(5) by simp
  then have "inc_last w = word_of_nat (((a * 256 + b) * 256 + c) * 256 + d) + 1"
    by (simp add: inc_last_def *(1) ip_of_bytes_def algebra_simps)
  then show ?thesis by (simp only: w [symmetric])
qed

lemma dec_last_eq:
  assumes "unat w mod 256 \<noteq> 0"
  shows "dec_last w = w - 1"
proof -
  obtain a b c d where *: "ip_bytes w = [a, b, c, d]" "a < 256" "b < 256" "c < 256" "d < 256"
      "unat w = ((a * 256 + b) * 256 + c) * 256 + d"
    by (rule ip_bytes_ex)
  have w: "w = word_of_nat (((a * 256 + b) * 256 + c) * 256 + d)"
    using *(6) by (metis of_nat_unat ucast_id)
  have "unat w mod 256 = d" unfolding *(6) by (rule join_mod256 [OF *(5)])
  then have "d \<noteq> 0" using assms by simp
  then obtain d' where d': "d = Suc d'" by (cases d) auto
  then have "(d + 255) mod 256 = d'" using *(5) by simp
  then have "dec_last w = word_of_nat (((a * 256 + b) * 256 + c) * 256 + d) - 1"
    by (simp add: dec_last_def *(1) ip_of_bytes_def d' algebra_simps)
  then show ?thesis by (simp only: w [symmetric])
qed

lemma digit_greater:
  assumes "x < 256" "(y :: nat) < 256"
  shows "v * 256 + y < u * 256 + x \<longleftrightarrow> v < u \<or> u = v \<and> y < x"
proof (cases u v rule: linorder_cases)
  case less
  then have "u * 256 + 256 \<le> v * 256" by simp
  with less assms show ?thesis by linarith
next
  case greater
  then have "v * 256 + 256 \<le> u * 256" by simp
  with greater assms show ?thesis by linarith
qed simp

lemma digit_eq:
  assumes "x < 256" "(y :: nat) < 256"
  shows "u * 256 + x = v * 256 + y \<longleftrightarrow> u = v \<and> x = y"
  using digit_greater [OF assms, of v u] digit_greater [OF assms(2,1), of u v] by linarith

lemma bytes_greater_value:
  assumes "length xs = length ys" "\<forall>b\<in>set xs. b < 256" "\<forall>b\<in>set ys. b < 256"
  shows "foldl (\<lambda>a b. a * 256 + b) u xs > foldl (\<lambda>a b. a * 256 + b) (v :: nat) ys \<longleftrightarrow>
    u > v \<or> u = v \<and> bytes_greater xs ys"
  using assms
proof (induction xs ys arbitrary: u v rule: list_induct2)
  case (Cons x xs y ys)
  have "x < 256" "y < 256" using Cons.prems by simp_all
  note d = digit_greater [OF this, of v u] digit_eq [OF this, of u v]
  have "\<forall>b\<in>set xs. b < 256" "\<forall>b\<in>set ys. b < 256" using Cons.prems by simp_all
  note ih = Cons.IH [OF this, of "v * 256 + y" "u * 256 + x"]
  show ?case unfolding foldl_Cons ih d by auto
qed simp

lemma ipGreaterThan_eq: "ipGreaterThan x y \<longleftrightarrow> y < x"
proof -
  have "length (ip_bytes x) = length (ip_bytes y)" by (simp add: ip_bytes_def)
  from bytes_greater_value [OF this ip_bytes_bounds ip_bytes_bounds, of 0 0]
  show ?thesis by (simp add: ipGreaterThan_def ip_bytes_value word_less_nat_alt)
qed

subsection \<open>Masks\<close>

text \<open>\<open>net.CIDRMask(n, 32)\<close>.\<close>

definition CIDRMask :: "nat \<Rightarrow> ip4" where
  "CIDRMask n = NOT (mask (32 - n))"

definition ip_mask :: "ip4 \<Rightarrow> nat \<Rightarrow> ip4" where
  "ip_mask w n = w AND CIDRMask n"

text \<open>\<open>IPNet.Contains\<close>.\<close>

definition net_contains :: "IPNet \<Rightarrow> ip4 \<Rightarrow> bool" where
  "net_contains n x = (ip_mask x (net_ones n) = ip_mask (net_ip n) (net_ones n))"

lemma unat_take_bit32: "unat (take_bit k (w :: ip4)) = unat w mod 2 ^ k"
  unfolding unsigned_take_bit_eq by (simp add: take_bit_eq_mod)

lemma unat_ip_mask: "unat (ip_mask w n) = unat w div 2 ^ (32 - n) * 2 ^ (32 - n)"
proof -
  have "w AND NOT (mask (32 - n)) = w - take_bit (32 - n) w"
  proof -
    have "w AND NOT (mask (32 - n)) = w AND NOT (take_bit (32 - n) w)"
      by (rule bit_word_eqI) (auto simp: bit_simps)
    also have "\<dots> = w - take_bit (32 - n) w"
      by (rule disjunctive_diff_eq_and_not [symmetric], rule bit_word_eqI) (auto simp: bit_simps)
    finally show ?thesis .
  qed
  moreover have "take_bit (32 - n) w \<le> w"
    by (simp add: word_le_nat_alt unat_take_bit32)
  ultimately have "unat (ip_mask w n) = unat w - unat w mod 2 ^ (32 - n)"
    by (simp add: ip_mask_def CIDRMask_def unat_sub unat_take_bit32)
  then show ?thesis by (simp add: minus_mod_eq_div_mult)
qed

lemma unat_or_hostmask: "unat (w OR NOT (CIDRMask n)) =
    unat w div 2 ^ (32 - n) * 2 ^ (32 - n) + (2 ^ (32 - n) - 1)"
proof -
  let ?k = "32 - n"
  have k: "?k \<le> 32" by simp
  have m: "unat (mask ?k :: ip4) = 2 ^ ?k - 1"
  proof -
    have "(2 :: nat) ^ ?k \<le> 2 ^ 32" using k by (rule power_increasing) simp
    then have "(2 :: nat) ^ ?k - 1 < 4294967296" by simp
    moreover have "(mask ?k :: ip4) = word_of_nat (2 ^ ?k - 1)" by (simp add: mask_eq_exp_minus_1 of_nat_diff)
    ultimately show ?thesis by (simp add: unat_word_of_nat32 del: of_nat_diff)
  qed
  have "w OR mask ?k = (w AND NOT (mask ?k)) OR mask ?k"
    by (rule bit_word_eqI) (auto simp: bit_simps)
  also have "\<dots> = (w AND NOT (mask ?k)) + mask ?k"
    by (rule disjunctive_add [symmetric]) (auto simp: bit_simps)
  finally have e: "w OR NOT (CIDRMask n) = ip_mask w n + mask ?k"
    by (simp add: CIDRMask_def ip_mask_def)
  have b: "unat (ip_mask w n) + unat (mask ?k :: ip4) < 2 ^ 32"
  proof -
    let ?q = "unat w div 2 ^ ?k"
    have p: "(2 :: nat) ^ n' * 2 ^ ?k = 2 ^ 32" if "n' + ?k = 32" for n'
      using that by (simp add: power_add [symmetric])
    obtain n' where n': "n' + ?k = 32" using k le_Suc_ex by (metis add.commute)
    have "?q < 2 ^ n'"
      using unat32_bound [of w] p [OF n'] by (auto intro!: less_mult_imp_div_less)
    then have "(?q + 1) * 2 ^ ?k \<le> 2 ^ n' * 2 ^ ?k" by (intro mult_right_mono) simp_all
    then have "?q * 2 ^ ?k + 2 ^ ?k \<le> 2 ^ 32" using p [OF n'] by simp
    then show ?thesis by (simp add: unat_ip_mask m)
  qed
  show ?thesis
    unfolding e using unat_add_lem [THEN iffD1, of "ip_mask w n" "mask ?k"] b
    by (simp add: unat_ip_mask m)
qed

text \<open>A network as the parser makes it: its address has no bit below the mask.\<close>

definition net_aligned :: "IPNet \<Rightarrow> bool" where
  "net_aligned n = (net_ones n \<le> 32 \<and> ip_mask (net_ip n) (net_ones n) = net_ip n)"

definition net_size :: "IPNet \<Rightarrow> nat" where
  "net_size n = 2 ^ (32 - net_ones n)"

lemma net_size_pos [simp]: "0 < net_size n"
  by (simp add: net_size_def)

lemma net_aligned_dvd:
  "net_aligned n \<Longrightarrow> net_size n dvd unat (net_ip n)"
  by (metis dvd_triv_right net_aligned_def net_size_def unat_ip_mask)

lemma ip_mask_idem: "ip_mask (ip_mask w n) n = ip_mask w n"
  by (simp add: ip_mask_def and.assoc)

lemma net_aligned_mask: "n \<le> 32 \<Longrightarrow> net_aligned \<lparr>net_ip = ip_mask w n, net_ones = n\<rparr>"
  by (simp add: net_aligned_def ip_mask_idem)

lemma ip_mask_dvd: "2 ^ (32 - n) dvd unat w \<Longrightarrow> ip_mask w n = w"
  by (rule word_unat_eq_iff [THEN iffD2]) (simp add: unat_ip_mask)

lemma net_contains_iff:
  assumes "net_aligned n"
  shows "net_contains n x \<longleftrightarrow> unat (net_ip n) \<le> unat x \<and> unat x < unat (net_ip n) + net_size n"
proof -
  let ?S = "net_size n"
  obtain q where q: "unat (net_ip n) = q * ?S"
    using net_aligned_dvd [OF assms] by (metis dvd_def mult.commute)
  have "net_contains n x \<longleftrightarrow> unat x div ?S * ?S = q * ?S"
    using assms q
    by (simp add: net_contains_def net_aligned_def word_unat_eq_iff unat_ip_mask net_size_def)
  also have "\<dots> \<longleftrightarrow> unat x div ?S = q" using net_size_pos [of n] by (metis mult_cancel2 less_irrefl)
  also have "\<dots> \<longleftrightarrow> q * ?S \<le> unat x \<and> unat x < q * ?S + ?S"
    using dividend_less_times_div [OF net_size_pos [of n], of "unat x"]
    by (auto simp: algebra_simps intro!: div_nat_eqI)
  finally show ?thesis by (simp add: q)
qed

lemma net_top: "net_aligned n \<Longrightarrow> unat (net_ip n) + net_size n \<le> 4294967296"
proof -
  assume a: "net_aligned n"
  then have "net_contains n (net_ip n OR NOT (CIDRMask (net_ones n)))"
    unfolding net_contains_iff [OF a] unat_or_hostmask
    using net_aligned_dvd [OF a] net_size_pos [of n]
    by (simp add: net_size_def [symmetric])
  moreover have "unat (net_ip n OR NOT (CIDRMask (net_ones n))) = unat (net_ip n) + (net_size n - 1)"
    unfolding unat_or_hostmask using net_aligned_dvd [OF a] by (simp add: net_size_def)
  ultimately show ?thesis
    using unat32_bound [of "net_ip n OR NOT (CIDRMask (net_ones n))"] by simp
qed

subsection \<open>Text\<close>

definition print_ip :: "ip4 \<Rightarrow> string" where
  "print_ip w = str_join ''.'' (map dec (ip_bytes w))"

text \<open>One field of a dotted quad: digits, no leading zero, at most 255.\<close>

definition octet_ok :: "string \<Rightarrow> bool" where
  "octet_ok f = (f \<noteq> [] \<and> list_all is_digit f \<and> (length f > 1 \<longrightarrow> digit_val (hd f) \<noteq> 0) \<and>
     undec f \<le> 255)"

definition ParseIP :: "string \<Rightarrow> ip4 option" where
  "ParseIP s = (let fs = split_on CHR ''.'' s in
     if length fs = 4 \<and> list_all octet_ok fs then Some (ip_of_bytes (map undec fs)) else None)"

text \<open>\<open>net.ParseCIDR\<close>: the address and the network.\<close>

definition ParseCIDR :: "string \<Rightarrow> (ip4 \<times> IPNet) option" where
  "ParseCIDR s =
     (case dropWhile (\<lambda>c. c \<noteq> CHR ''/'') s of
        [] \<Rightarrow> None
      | _ # m \<Rightarrow>
          (case ParseIP (takeWhile (\<lambda>c. c \<noteq> CHR ''/'') s) of
             None \<Rightarrow> None
           | Some a \<Rightarrow>
               (if m \<noteq> [] \<and> list_all is_digit m \<and> undec m \<le> 32 then
                  Some (a, \<lparr>net_ip = ip_mask a (undec m), net_ones = undec m\<rparr>)
                else None)))"

definition print_cidr :: "ip4 \<Rightarrow> nat \<Rightarrow> string" where
  "print_cidr w n = print_ip w @ ''/'' @ dec n"

text \<open>\<open>IPNet.String\<close>.\<close>

definition net_string :: "IPNet \<Rightarrow> string" where
  "net_string n = print_cidr (net_ip n) (net_ones n)"

lemma octet_ok_dec: "n < 256 \<Longrightarrow> octet_ok (dec n)"
proof -
  assume n: "n < 256"
  have "digit_val (hd (dec n)) \<noteq> 0" if "length (dec n) > 1"
  proof (rule dec_leading)
    show "0 < n" using that by (cases n) (subst (asm) dec.simps, simp)+
  qed
  then show ?thesis using n by (simp add: octet_ok_def dec_digits)
qed

lemma ParseIP_print [simp]: "ParseIP (print_ip w) = Some w"
proof -
  obtain a b c d where *: "ip_bytes w = [a, b, c, d]" "a < 256" "b < 256" "c < 256" "d < 256"
      "unat w = ((a * 256 + b) * 256 + c) * 256 + d"
    by (rule ip_bytes_ex)
  have nosep: "list_all (\<lambda>c. c \<noteq> CHR ''.'') (dec n)" for n
    using dec_no_sep by (rule list.pred_mono_strong) auto
  have "print_ip w = dec a @ CHR ''.'' # dec b @ CHR ''.'' # dec c @ CHR ''.'' # dec d"
    by (simp add: print_ip_def *(1))
  then have "split_on CHR ''.'' (print_ip w) = [dec a, dec b, dec c, dec d]"
    by (simp add: split_on_append_sep split_on_no_sep nosep)
  moreover have "ip_of_bytes [a, b, c, d] = w" using ip_of_ip_bytes [of w] unfolding *(1) .
  ultimately show ?thesis
    using *(2-5) by (simp add: ParseIP_def octet_ok_dec)
qed

lemma print_ip_inj: "print_ip x = print_ip y \<longleftrightarrow> x = y"
  by (metis ParseIP_print option.inject)

lemma print_ip_no_slash: "list_all (\<lambda>c. c \<noteq> CHR ''/'') (print_ip w)"
proof -
  have nosep: "list_all (\<lambda>c. c \<noteq> CHR ''/'') (dec n)" for n
    using dec_no_sep by (rule list.pred_mono_strong) auto
  show ?thesis by (simp add: print_ip_def ip_bytes_def nosep)
qed

lemma ParseCIDR_print:
  "n \<le> 32 \<Longrightarrow> ParseCIDR (print_cidr w n) = Some (w, \<lparr>net_ip = ip_mask w n, net_ones = n\<rparr>)"
  using print_ip_no_slash [of w]
  by (simp add: ParseCIDR_def print_cidr_def dropWhile_append2 takeWhile_append2 list_all_iff
      dec_digits [unfolded list_all_iff])

lemma ParseCIDR_net_string:
  "net_aligned n \<Longrightarrow> ParseCIDR (net_string n) = Some (net_ip n, n)"
  by (simp add: net_string_def net_aligned_def ParseCIDR_print)

lemma ParseCIDR_aligned: "ParseCIDR s = Some (a, n) \<Longrightarrow> net_aligned n"
  by (auto simp: ParseCIDR_def net_aligned_mask split: list.splits option.splits if_splits)

lemma print_cidr_inj:
  assumes "print_cidr x m = print_cidr y n" "m \<le> 32" "n \<le> 32"
  shows "x = y \<and> m = n"
proof -
  have "Some (x, \<lparr>net_ip = ip_mask x m, net_ones = m\<rparr>) = Some (y, \<lparr>net_ip = ip_mask y n, net_ones = n\<rparr>)"
    using ParseCIDR_print [OF assms(2), of x] ParseCIDR_print [OF assms(3), of y] assms(1)
    by (simp only:)
  then show ?thesis by simp
qed

end
