(* ===== verification/IpAlloc.thy ===== *)
theory IpAlloc
  imports Crypto IpNet
begin

text \<open>
  Package \<open>internal/rotator/ip\<close> below its repository: the network configuration
  (\<open>config.go\<close>), the subnet and request models with their validation (\<open>models.go\<close>) and the two
  allocators with the capacity calculations (\<open>allocation.go\<close>). Floating-point numbers are
  rationals. Integers that cannot overflow are \<open>int\<close>; the address arithmetic is on 32-bit words.
\<close>

subsection \<open>Validation (\<open>models.go\<close>)\<close>

definition validateIPv4Address :: "string \<Rightarrow> unit res" where
  "validateIPv4Address ipStr =
     (if ipStr = [] then Inl (NewIPError ErrCodeInvalidIPAddress ''IP address cannot be empty'' False None)
      else if ParseIP ipStr = None then
        Inl (NewIPError ErrCodeInvalidIPAddress ''invalid IP address format'' False None)
      else Inr ())"

definition NewIPv4Address :: "string \<Rightarrow> ip4 res" where
  "NewIPv4Address ipStr =
     (case validateIPv4Address ipStr of
        Inl e \<Rightarrow> Inl e
      | Inr _ \<Rightarrow> (case ParseIP ipStr of Some a \<Rightarrow> Inr a | None \<Rightarrow> Inl (GoPanic ''nil address'')))"

definition validateCIDR :: "string \<Rightarrow> unit res" where
  "validateCIDR cidr =
     (if cidr = [] then Inl (NewIPError ErrCodeInvalidCIDR ''CIDR cannot be empty'' False None)
      else case ParseCIDR cidr of
          None \<Rightarrow> Inl (NewIPError ErrCodeInvalidCIDR ''invalid CIDR notation'' False
                     (Some (PlainError ''invalid CIDR address'')))
        | Some _ \<Rightarrow> Inr ())"

definition validateNodeID :: "string \<Rightarrow> unit res" where
  "validateNodeID nodeID =
     (if nodeID = [] then Inl (NewIPError ErrCodeInvalidIPAddress ''node ID cannot be empty'' False None)
      else if length nodeID > 255 then
        Inl (NewIPError ErrCodeInvalidIPAddress ''node ID too long (max 255 characters)'' False None)
      else Inr ())"

definition validateWireGuardPublicKey :: "string \<Rightarrow> unit res" where
  "validateWireGuardPublicKey publicKey =
     (if publicKey = [] then Inl (NewIPError ErrCodePeerValidation ''public key cannot be empty'' False None)
      else if \<not> IsValidWireGuardKey (trim_space publicKey) then
        Inl (NewIPError ErrCodePeerValidation ''invalid WireGuard public key format'' False None)
      else Inr ())"

definition validateSubnetAlignment :: "IPNet option \<Rightarrow> unit res" where
  "validateSubnetAlignment network =
     (case network of
        None \<Rightarrow> Inl (NewIPError ErrCodeInvalidCIDR ''network cannot be nil'' False None)
      | Some n \<Rightarrow>
          if net_ip n \<noteq> ip_mask (net_ip n) (net_ones n) then
            Inl (NewIPError ErrCodeInvalidCIDR ''subnet is not properly aligned to its mask'' False None)
          else Inr ())"

definition validateSubnetInBaseNetwork :: "IPNet option \<Rightarrow> IPNet option \<Rightarrow> unit res" where
  "validateSubnetInBaseNetwork subnet base =
     (case (subnet, base) of
        (Some s, Some b) \<Rightarrow>
          if \<not> net_contains b (net_ip s) then
            Inl (NewIPError ErrCodeInvalidCIDR ''subnet is not within base network'' False None)
          else Inr ()
      | _ \<Rightarrow> Inl (NewIPError ErrCodeInvalidCIDR ''subnet and base network cannot be nil'' False None))"

subsection \<open>Subnets\<close>

record Subnet =
  sn_NodeID :: string
  sn_CIDR :: string
  sn_Network :: IPNet
  sn_Gateway :: ip4
  sn_RangeStart :: ip4
  sn_RangeEnd :: ip4

text \<open>\<open>NewSubnet\<close>: the gateway is the network address with its last byte incremented, the range
  starts one further byte step later and ends one byte step before the broadcast address.\<close>

definition NewSubnet :: "string \<Rightarrow> IPNet option \<Rightarrow> Subnet res" where
  "NewSubnet nodeID network =
     (case validateNodeID nodeID of
        Inl e \<Rightarrow> Inl e
      | Inr _ \<Rightarrow>
          (case network of
             None \<Rightarrow> Inl (NewIPError ErrCodeInvalidCIDR ''network cannot be nil'' False None)
           | Some n \<Rightarrow>
               (let gateway = inc_last (net_ip n);
                    rangeStart = inc_last gateway;
                    rangeEnd = dec_last (net_ip n OR NOT (CIDRMask (net_ones n)))
                in Inr \<lparr>sn_NodeID = nodeID, sn_CIDR = net_string n, sn_Network = n,
                     sn_Gateway = gateway, sn_RangeStart = rangeStart, sn_RangeEnd = rangeEnd\<rparr>)))"

record AllocationRequest =
  ar_NodeID :: string
  ar_PeerID :: string
  ar_PublicKey :: string

definition AllocationRequest_Validate :: "AllocationRequest \<Rightarrow> unit res" where
  "AllocationRequest_Validate r =
     (case validateNodeID (ar_NodeID r) of
        Inl e \<Rightarrow> Inl e
      | Inr _ \<Rightarrow>
          if ar_PeerID r = [] then
            Inl (NewPeerError ErrCodePeerValidation ''peer ID cannot be empty'' False None)
          else validateWireGuardPublicKey (ar_PublicKey r))"

definition SubnetRequest_Validate :: "string \<Rightarrow> unit res" where
  "SubnetRequest_Validate nodeID = validateNodeID nodeID"

subsection \<open>Configuration (\<open>config.go\<close>)\<close>

record NetworkConfig =
  BaseNetwork :: string
  SubnetMask :: int
  CapacityThreshold :: rat

text \<open>The centralised defaults of \<open>internal/rotator/config/internal.go\<close>.\<close>

definition DefaultNetworkConfig :: NetworkConfig where
  "DefaultNetworkConfig =
     \<lparr>BaseNetwork = ''10.8.0.0/16'', SubnetMask = 24, CapacityThreshold = 4 / 5\<rparr>"

definition NetworkConfig_Validate :: "NetworkConfig \<Rightarrow> unit res" where
  "NetworkConfig_Validate c =
     (case validateCIDR (BaseNetwork c) of
        Inl e \<Rightarrow> Inl (NewIPError ErrCodeInvalidCIDR ''invalid base network'' False (Some e))
      | Inr _ \<Rightarrow>
          (case ParseCIDR (BaseNetwork c) of
             None \<Rightarrow> Inl (NewIPError ErrCodeInvalidCIDR ''failed to parse base network'' False
                         (Some (PlainError ''invalid CIDR address'')))
           | Some (_, baseNet) \<Rightarrow>
               if SubnetMask c \<le> int (net_ones baseNet) then
                 Inl (NewIPError ErrCodeInvalidCIDR
                   ''subnet mask must be larger than base network mask'' False None)
               else if SubnetMask c > 30 then
                 Inl (NewIPError ErrCodeInvalidCIDR ''subnet mask is too restrictive (max /30)'' False None)
               else if CapacityThreshold c \<le> 0 \<or> CapacityThreshold c > 1 then
                 Inl (NewIPError ErrCodeConfiguration
                   ''capacity threshold must be between 0.0 and 1.0'' False None)
               else Inr ()))"

definition ParsedBaseNetwork :: "NetworkConfig \<Rightarrow> IPNet res" where
  "ParsedBaseNetwork c =
     (case validateCIDR (BaseNetwork c) of
        Inl e \<Rightarrow> Inl e
      | Inr _ \<Rightarrow>
          (case ParseCIDR (BaseNetwork c) of
             None \<Rightarrow> Inl (NewIPError ErrCodeInvalidCIDR ''failed to parse base network'' False
                         (Some (PlainError ''invalid CIDR address'')))
           | Some (_, network) \<Rightarrow> Inr network))"

text \<open>\<open>int(math.Pow(2, bits))\<close>: a negative exponent truncates to zero.\<close>

definition pow2 :: "int \<Rightarrow> int" where
  "pow2 bits = (if bits < 0 then 0 else 2 ^ nat bits)"

text \<open>\<open>MaxSubnets\<close> ignores the parse error and would dereference nil.\<close>

definition MaxSubnets :: "NetworkConfig \<Rightarrow> int res" where
  "MaxSubnets c =
     (case ParseCIDR (BaseNetwork c) of
        None \<Rightarrow> Inl (GoPanic ''nil pointer dereference'')
      | Some (_, baseNet) \<Rightarrow> Inr (pow2 (SubnetMask c - int (net_ones baseNet))))"

text \<open>\<open>GenerateSubnetCIDR\<close>: \<open>uint32(index << shift)\<close> is added to the address of the base
  text as it is written there (not masked), modulo \<open>2^32\<close>.\<close>

definition GenerateSubnetCIDR :: "NetworkConfig \<Rightarrow> int \<Rightarrow> string res" where
  "GenerateSubnetCIDR c index =
     (case validateCIDR (BaseNetwork c) of
        Inl e \<Rightarrow> Inl e
      | Inr _ \<Rightarrow>
          (case ParseCIDR (BaseNetwork c) of
             None \<Rightarrow> Inl (NewIPError ErrCodeInvalidCIDR ''invalid base network'' False
                         (Some (PlainError ''invalid CIDR address'')))
           | Some (baseIP, baseNet) \<Rightarrow>
               if index \<ge> pow2 (SubnetMask c - int (net_ones baseNet)) then
                 Inl (NewIPError ErrCodeSubnetExhausted ''subnet index exceeds maximum'' False None)
               else if 32 - SubnetMask c < 0 then Inl (GoPanic ''negative shift amount'')
               else
                 (let ipInt = baseIP + word_of_int (index * 2 ^ nat (32 - SubnetMask c))
                  in Inr (print_cidr ipInt (nat (SubnetMask c))))))"

subsection \<open>Subnet allocation (\<open>allocation.go\<close>)\<close>

text \<open>The loop over the subnet indices that remain to be tried.\<close>

fun find_subnet_loop :: "NetworkConfig \<Rightarrow> string list \<Rightarrow> nat list \<Rightarrow> Subnet res" where
  "find_subnet_loop c used [] =
     Inl (NewIPError ErrCodeSubnetExhausted ''no available subnets in network range'' False None)"
| "find_subnet_loop c used (i # is) =
     (case GenerateSubnetCIDR c (int i) of
        Inl e \<Rightarrow> Inl (NewIPError ErrCodeInvalidCIDR ''failed to generate subnet CIDR'' False (Some e))
      | Inr cidr \<Rightarrow>
          if cidr \<in> set used then find_subnet_loop c used is
          else (case ParseCIDR cidr of
              None \<Rightarrow> Inl (NewIPError ErrCodeInvalidCIDR ''failed to parse generated CIDR'' False
                         (Some (PlainError ''invalid CIDR address'')))
            | Some (_, network) \<Rightarrow>
                (case NewSubnet ''temporary-id'' (Some network) of
                   Inl e \<Rightarrow> Inl (NewIPError ErrCodeInvalidCIDR ''failed to create subnet'' False (Some e))
                 | Inr subnet \<Rightarrow> Inr subnet)))"

definition FindNextAvailableSubnet :: "NetworkConfig \<Rightarrow> string list \<Rightarrow> Subnet res" where
  "FindNextAvailableSubnet c usedCIDRs =
     (case MaxSubnets c of
        Inl e \<Rightarrow> Inl e
      | Inr m \<Rightarrow> find_subnet_loop c usedCIDRs [0..<nat m])"

definition ValidateSubnetAllocation :: "NetworkConfig \<Rightarrow> Subnet option \<Rightarrow> unit res" where
  "ValidateSubnetAllocation c subnet =
     (case subnet of
        None \<Rightarrow> Inl (NewIPError ErrCodeInvalidCIDR ''subnet cannot be nil'' False None)
      | Some s \<Rightarrow>
          (case validateSubnetAlignment (Some (sn_Network s)) of
             Inl e \<Rightarrow> Inl e
           | Inr _ \<Rightarrow>
               (case ParsedBaseNetwork c of
                  Inl e \<Rightarrow> Inl e
                | Inr baseNet \<Rightarrow> validateSubnetInBaseNetwork (Some (sn_Network s)) (Some baseNet))))"

subsection \<open>Address allocation\<close>

text \<open>The loop of \<open>FindNextAvailableIP\<close>: test the current address, then increment it and stop
  outside the network or above the end of the range. The number of steps is bounded by a fuel
  argument; running out of it is the error \<open>loop_diverges\<close>, and the lemma
  \<open>next_ip_loop_spec\<close> shows that the fuel \<open>FindNextAvailableIP\<close> gives it is enough.\<close>

definition loop_diverges :: go_error where
  "loop_diverges = PlainError ''diverges''"

definition no_available_ips :: go_error where
  "no_available_ips = NewIPError ErrCodeSubnetExhausted ''subnet has no available IPs'' False None"

fun next_ip_loop :: "nat \<Rightarrow> IPNet \<Rightarrow> ip4 \<Rightarrow> string list \<Rightarrow> ip4 \<Rightarrow> ip4 res" where
  "next_ip_loop 0 net endIP allocated current = Inl loop_diverges"
| "next_ip_loop (Suc fuel) net endIP allocated current =
     (if print_ip current \<notin> set allocated then Inr current
      else if \<not> net_contains net (inc_ip current) \<or> ipGreaterThan (inc_ip current) endIP then
        Inl no_available_ips
      else next_ip_loop fuel net endIP allocated (inc_ip current))"

definition FindNextAvailableIP :: "Subnet option \<Rightarrow> ip4 list \<Rightarrow> ip4 res" where
  "FindNextAvailableIP subnet allocatedIPs =
     (case subnet of
        None \<Rightarrow> Inl (NewIPError ErrCodeInvalidIPAddress ''subnet cannot be nil'' False None)
      | Some s \<Rightarrow>
          next_ip_loop (Suc (length allocatedIPs)) (sn_Network s) (sn_RangeEnd s)
            (map print_ip allocatedIPs) (sn_RangeStart s))"

subsection \<open>Capacity\<close>

record SubnetCapacity =
  TotalIPs :: int
  AllocatedIPs :: int
  AvailableIPs :: int
  UsagePercent :: rat
  NearCapacity :: bool
  sc_Threshold :: rat

definition CalculateCapacityInfo :: "Subnet \<Rightarrow> int \<Rightarrow> SubnetCapacity" where
  "CalculateCapacityInfo subnet allocatedCount =
     (let totalIPs = 2 ^ (32 - net_ones (sn_Network subnet)) - 3;
          available = totalIPs - allocatedCount;
          usage = (if totalIPs > 0 then rat_of_int allocatedCount / rat_of_int totalIPs else 0)
      in \<lparr>TotalIPs = totalIPs, AllocatedIPs = allocatedCount,
          AvailableIPs = (if available < 0 then 0 else available), UsagePercent = usage,
          NearCapacity = (usage \<ge> 4 / 5), sc_Threshold = 4 / 5\<rparr>)"

record SubnetAllocation =
  sa_Subnet :: Subnet
  sa_AllocatedIPs :: "ip4 list"
  sa_AllocatedCount :: int

definition allocation_usage :: "SubnetAllocation \<Rightarrow> rat" where
  "allocation_usage a = UsagePercent (CalculateCapacityInfo (sa_Subnet a) (sa_AllocatedCount a))"

fun least_utilized_loop ::
  "SubnetAllocation list \<Rightarrow> rat \<Rightarrow> SubnetAllocation option \<Rightarrow> SubnetAllocation option" where
  "least_utilized_loop [] lowest best = best"
| "least_utilized_loop (a # as) lowest best =
     (if allocation_usage a < lowest then least_utilized_loop as (allocation_usage a) (Some a)
      else least_utilized_loop as lowest best)"

definition FindLeastUtilizedSubnet :: "SubnetAllocation list \<Rightarrow> string res" where
  "FindLeastUtilizedSubnet allocations =
     (if allocations = [] then
        Inl (NewIPError ErrCodeSubnetExhausted ''no subnet allocations available'' False None)
      else case least_utilized_loop allocations 2 None of
          None \<Rightarrow> Inl (NewIPError ErrCodeSubnetExhausted
                     ''could not find least utilized subnet'' False None)
        | Some a \<Rightarrow> Inr (sn_NodeID (sa_Subnet a)))"

definition CalculateFragmentation :: "SubnetAllocation list \<Rightarrow> rat" where
  "CalculateFragmentation allocations =
     (if allocations = [] then 0
      else foldl (\<lambda>acc a. if allocation_usage a > 1 / 4 \<and> allocation_usage a < 3 / 4 then acc + 1 else acc)
             0 allocations / rat_of_nat (length allocations))"

definition SuggestCompaction :: "SubnetAllocation list \<Rightarrow> bool" where
  "SuggestCompaction allocations =
     (if length allocations < 2 then False
      else length (filter (\<lambda>a. allocation_usage a < 1 / 2) allocations) > length allocations div 2)"

subsection \<open>Facts on addresses\<close>

lemma unat_suc: "unat w < 4294967295 \<Longrightarrow> unat (w + 1 :: ip4) = unat w + 1"
  using unat_add_lem [THEN iffD1, of w 1] by simp

lemma unat_pred: "0 < unat w \<Longrightarrow> unat (w - 1 :: ip4) = unat w - 1"
  by (subst unat_sub) (simp_all add: word_le_nat_alt)

lemma mod256_mod4: "(n :: nat) mod 256 mod 4 = n mod 4"
  by (rule mod_mod_cancel) simp

lemma mod4_not_255: "4 dvd (n :: nat) \<Longrightarrow> r < 3 \<Longrightarrow> (n + r) mod 256 \<noteq> 255"
proof
  assume n: "4 dvd n" "r < 3" and "(n + r) mod 256 = 255"
  then have "(n + r) mod 4 = 255 mod 4" using mod256_mod4 [of "n + r"] by simp
  moreover have "(n + r) mod 4 = r" using n by (auto elim!: dvdE)
  ultimately show False using n by simp
qed

lemma mod4_pred_not_0: "4 dvd (n :: nat) \<Longrightarrow> 0 < n \<Longrightarrow> (n - 1) mod 256 \<noteq> 0"
proof
  assume n: "4 dvd n" "0 < n" and "(n - 1) mod 256 = 0"
  then have "(n - 1) mod 4 = 0" using mod256_mod4 [of "n - 1"] by simp
  then have "4 dvd n - 1" by (rule mod_0_imp_dvd)
  then obtain k where "n - 1 = 4 * k" by (rule dvdE)
  moreover obtain l where "n = 4 * l" using n(1) by (rule dvdE)
  ultimately show False using n(2) by presburger
qed

text \<open>A subnet as \<open>NewSubnet\<close> lays it out on a network with at least four addresses.\<close>

definition subnet_layout :: "Subnet \<Rightarrow> bool" where
  "subnet_layout s = (let n = sn_Network s in
     net_aligned n \<and> net_ones n \<le> 30 \<and>
     unat (sn_Gateway s) = unat (net_ip n) + 1 \<and>
     unat (sn_RangeStart s) = unat (net_ip n) + 2 \<and>
     unat (sn_RangeEnd s) = unat (net_ip n) + net_size n - 2)"

lemma net_size_ge4: "net_ones n \<le> 30 \<Longrightarrow> 4 dvd net_size n \<and> 4 \<le> net_size n"
proof -
  assume "net_ones n \<le> 30"
  then have "2 \<le> 32 - net_ones n" by simp
  then have "(2 :: nat) ^ 2 dvd 2 ^ (32 - net_ones n)" by (rule le_imp_power_dvd)
  moreover from this have "(2 :: nat) ^ 2 \<le> 2 ^ (32 - net_ones n)" by (rule dvd_imp_le) simp
  ultimately show ?thesis by (simp add: net_size_def)
qed

lemma unat_broadcast:
  "net_aligned n \<Longrightarrow> unat (net_ip n OR NOT (CIDRMask (net_ones n))) = unat (net_ip n) + net_size n - 1"
  unfolding unat_or_hostmask using net_aligned_dvd [of n] net_size_pos [of n]
  by (simp add: net_size_def [symmetric] Suc_leI)

lemma NewSubnet_layout:
  assumes "net_aligned n" and "net_ones n \<le> 30" and "validateNodeID nid = Inr ()"
  obtains s where "NewSubnet nid (Some n) = Inr s" "subnet_layout s" "sn_Network s = n"
    "sn_CIDR s = net_string n" "sn_NodeID s = nid"
proof -
  let ?N = "unat (net_ip n)" and ?S = "net_size n"
  have S: "4 dvd ?S" "4 \<le> ?S" using net_size_ge4 [OF assms(2)] by auto
  have N: "4 dvd ?N" using S(1) net_aligned_dvd [OF assms(1)] by (rule dvd_trans)
  have top: "?N + ?S \<le> 4294967296" by (rule net_top [OF assms(1)])
  have "?N mod 256 \<noteq> 255" using mod4_not_255 [OF N, of 0] by simp
  then have g: "inc_last (net_ip n) = net_ip n + 1" by (rule inc_last_eq)
  have gu: "unat (net_ip n + 1) = ?N + 1" using top S by (intro unat_suc) simp
  have "unat (net_ip n + 1) mod 256 \<noteq> 255" using mod4_not_255 [OF N, of 1] by (simp add: gu)
  then have s: "inc_last (net_ip n + 1) = net_ip n + 1 + 1" by (rule inc_last_eq)
  have su: "unat (net_ip n + 1 + 1) = ?N + 2" using top S unat_suc [of "net_ip n + 1"] by (simp add: gu)
  let ?b = "net_ip n OR NOT (CIDRMask (net_ones n))"
  have bu: "unat ?b = ?N + ?S - 1" by (rule unat_broadcast [OF assms(1)])
  have "4 dvd ?N + ?S" using N S(1) by (rule dvd_add)
  then have "(?N + ?S - 1) mod 256 \<noteq> 0" using S(2) by (intro mod4_pred_not_0) simp_all
  then have e: "dec_last ?b = ?b - 1" by (intro dec_last_eq) (simp add: bu)
  have eu: "unat (?b - 1) = ?N + ?S - 2" using S(2) by (subst unat_pred) (simp_all add: bu)
  show ?thesis
    by (rule that [of "\<lparr>sn_NodeID = nid, sn_CIDR = net_string n, sn_Network = n,
          sn_Gateway = net_ip n + 1, sn_RangeStart = net_ip n + 1 + 1, sn_RangeEnd = ?b - 1\<rparr>"])
      (simp_all add: NewSubnet_def assms g s e subnet_layout_def gu su [simplified] eu)
qed

subsection \<open>The subnets of a configuration\<close>

text \<open>A validated configuration whose base text is written with its network address.\<close>

definition config_base :: "NetworkConfig \<Rightarrow> IPNet \<Rightarrow> bool" where
  "config_base c b =
     (NetworkConfig_Validate c = Inr () \<and> ParseCIDR (BaseNetwork c) = Some (net_ip b, b))"

definition subnet_at :: "NetworkConfig \<Rightarrow> IPNet \<Rightarrow> nat \<Rightarrow> IPNet" where
  "subnet_at c b i =
     \<lparr>net_ip = net_ip b + word_of_int (int i * 2 ^ nat (32 - SubnetMask c)),
      net_ones = nat (SubnetMask c)\<rparr>"

lemma config_baseD:
  assumes "config_base c b"
  shows "net_aligned b" "int (net_ones b) < SubnetMask c" "SubnetMask c \<le> 30"
    "ParseCIDR (BaseNetwork c) = Some (net_ip b, b)" "validateCIDR (BaseNetwork c) = Inr ()"
    "ParsedBaseNetwork c = Inr b"
  using assms ParseCIDR_aligned
  by (auto simp: config_base_def NetworkConfig_Validate_def ParsedBaseNetwork_def
      split: sum.splits if_splits)

lemma MaxSubnets_base:
  "config_base c b \<Longrightarrow> MaxSubnets c = Inr (2 ^ (nat (SubnetMask c) - net_ones b))"
  using config_baseD [of c b] by (simp add: MaxSubnets_def pow2_def nat_diff_distrib)

lemma subnet_index_bound:
  assumes "config_base c b" and "i < 2 ^ (nat (SubnetMask c) - net_ones b)"
  shows "i * net_size (subnet_at c b i) + net_size (subnet_at c b i) \<le> net_size b"
proof -
  let ?m = "nat (SubnetMask c)" and ?k = "net_ones b"
  have k: "?k \<le> ?m" "?m \<le> 30" using config_baseD [OF assms(1)] by simp_all
  have "(i + 1) * 2 ^ (32 - ?m) \<le> 2 ^ (?m - ?k) * 2 ^ (32 - ?m)"
    using assms(2) by (intro mult_right_mono) simp_all
  also have "\<dots> = 2 ^ ((?m - ?k) + (32 - ?m))" by (simp only: power_add)
  also have "(?m - ?k) + (32 - ?m) = 32 - ?k" using k by simp
  finally show ?thesis by (simp add: net_size_def subnet_at_def)
qed

lemma subnet_at_value:
  assumes "config_base c b" and "i < 2 ^ (nat (SubnetMask c) - net_ones b)"
  shows "unat (net_ip (subnet_at c b i)) = unat (net_ip b) + i * net_size (subnet_at c b i)"
proof -
  let ?S = "net_size (subnet_at c b i)"
  have bound: "unat (net_ip b) + i * ?S + ?S \<le> 4294967296"
    using subnet_index_bound [OF assms] net_top [OF config_baseD(1) [OF assms(1)]] by simp
  then have lt: "unat (net_ip b) + i * ?S < 4294967296"
    using net_size_pos [of "subnet_at c b i"] by linarith
  have e: "nat (32 - SubnetMask c) = 32 - nat (SubnetMask c)"
    using config_baseD(2) [OF assms(1)] by (simp add: nat_diff_distrib)
  have o: "word_of_int (int i * 2 ^ nat (32 - SubnetMask c)) = (word_of_nat (i * ?S) :: ip4)"
    unfolding e by (simp add: subnet_at_def net_size_def)
  have "unat (word_of_nat (i * ?S) :: ip4) = i * ?S" using lt by (intro unat_word_of_nat32) simp
  then have "unat (net_ip b + word_of_nat (i * ?S)) = unat (net_ip b) + i * ?S"
    using unat_add_lem [THEN iffD1, of "net_ip b" "word_of_nat (i * ?S)"] lt by simp
  moreover have "net_ip (subnet_at c b i) = net_ip b + word_of_nat (i * ?S)"
    unfolding o [symmetric] by (simp add: subnet_at_def)
  ultimately show ?thesis by simp
qed

lemma subnet_at_aligned:
  assumes "config_base c b" and "i < 2 ^ (nat (SubnetMask c) - net_ones b)"
  shows "net_aligned (subnet_at c b i)"
proof -
  let ?S = "net_size (subnet_at c b i)"
  have k: "net_ones b \<le> nat (SubnetMask c)" "nat (SubnetMask c) \<le> 30"
    using config_baseD [OF assms(1)] by simp_all
  have "?S dvd net_size b"
    unfolding net_size_def subnet_at_def using k by (intro le_imp_power_dvd) simp
  then have "?S dvd unat (net_ip b)"
    using net_aligned_dvd [OF config_baseD(1) [OF assms(1)]] by (rule dvd_trans)
  then have "?S dvd unat (net_ip (subnet_at c b i))"
    unfolding subnet_at_value [OF assms] by simp
  then have "ip_mask (net_ip (subnet_at c b i)) (net_ones (subnet_at c b i)) = net_ip (subnet_at c b i)"
    unfolding net_size_def by (rule ip_mask_dvd)
  then show ?thesis using k by (simp add: net_aligned_def) (simp add: subnet_at_def)
qed

lemma GenerateSubnetCIDR_at:
  assumes "config_base c b" and "i < 2 ^ (nat (SubnetMask c) - net_ones b)"
  shows "GenerateSubnetCIDR c (int i) = Inr (net_string (subnet_at c b i))"
proof -
  have "int i < pow2 (SubnetMask c - int (net_ones b))"
    using assms(2) config_baseD [OF assms(1)]
    by (simp add: pow2_def nat_diff_distrib)
  then show ?thesis
    using config_baseD [OF assms(1)]
    by (simp add: GenerateSubnetCIDR_def subnet_at_def net_string_def)
qed

lemma ParseCIDR_subnet_at:
  assumes "config_base c b" and "i < 2 ^ (nat (SubnetMask c) - net_ones b)"
  shows "ParseCIDR (net_string (subnet_at c b i)) = Some (net_ip (subnet_at c b i), subnet_at c b i)"
  by (rule ParseCIDR_net_string [OF subnet_at_aligned [OF assms]])

lemma net_size_subnet_at: "net_size (subnet_at c b i) = net_size (subnet_at c b j)"
  by (simp add: net_size_def subnet_at_def)

lemma net_ones_subnet_at: "config_base c b \<Longrightarrow> net_ones (subnet_at c b i) \<le> 30"
  using config_baseD(3) [of c b] by (simp add: subnet_at_def)

lemma subnet_at_in_base:
  assumes "config_base c b" and "i < 2 ^ (nat (SubnetMask c) - net_ones b)"
    and "net_contains (subnet_at c b i) x"
  shows "net_contains b x"
  using assms(3) subnet_index_bound [OF assms(1,2)] subnet_at_value [OF assms(1,2)]
  by (simp add: net_contains_iff subnet_at_aligned assms(1,2) config_baseD(1) [OF assms(1)])

lemma subnet_at_disjoint_less:
  assumes c: "config_base c b" and "i < j" and j: "j < 2 ^ (nat (SubnetMask c) - net_ones b)"
    and "net_contains (subnet_at c b i) x" and "net_contains (subnet_at c b j) x"
  shows False
proof -
  let ?S = "net_size (subnet_at c b i)"
  have i: "i < 2 ^ (nat (SubnetMask c) - net_ones b)" using assms(2) j by simp
  have "unat x < unat (net_ip b) + i * ?S + ?S"
    using assms(4) by (simp add: net_contains_iff subnet_at_aligned c i subnet_at_value)
  moreover have "unat (net_ip b) + j * ?S \<le> unat x"
    using assms(5) net_size_subnet_at [of c b j i]
    by (simp add: net_contains_iff subnet_at_aligned c j subnet_at_value)
  moreover have "(i + 1) * ?S \<le> j * ?S" using assms(2) by (intro mult_right_mono) simp_all
  ultimately show False by simp
qed

lemma net_contains_own: "net_aligned n \<Longrightarrow> net_contains n (net_ip n)"
  by (simp add: net_contains_iff)

lemma subnet_at_inj:
  assumes "config_base c b" "i < 2 ^ (nat (SubnetMask c) - net_ones b)"
    "j < 2 ^ (nat (SubnetMask c) - net_ones b)" "subnet_at c b i = subnet_at c b j"
  shows "i = j"
proof (rule ccontr)
  have own: "net_contains (subnet_at c b i) (net_ip (subnet_at c b i))"
    by (rule net_contains_own [OF subnet_at_aligned [OF assms(1,2)]])
  assume "i \<noteq> j"
  then consider "i < j" | "j < i" by linarith
  then show False
    by cases (use subnet_at_disjoint_less [OF assms(1)] own assms in metis)+
qed

text \<open>What the subnet loop returns: the first index whose text is not in use.\<close>

lemma find_subnet_loop_spec:
  assumes c: "config_base c b" and "\<forall>i\<in>set is. i < 2 ^ (nat (SubnetMask c) - net_ones b)"
  shows "(case find (\<lambda>i. net_string (subnet_at c b i) \<notin> set used) is of
       None \<Rightarrow> find_subnet_loop c used is =
         Inl (NewIPError ErrCodeSubnetExhausted ''no available subnets in network range'' False None)
     | Some i \<Rightarrow> \<exists>s. find_subnet_loop c used is = Inr s \<and> sn_Network s = subnet_at c b i \<and>
         sn_CIDR s = net_string (subnet_at c b i) \<and> subnet_layout s)"
  using assms(2)
proof (induction "is")
  case (Cons i "is")
  let ?n = "subnet_at c b i"
  have i: "i < 2 ^ (nat (SubnetMask c) - net_ones b)" using Cons.prems by simp
  have gen: "GenerateSubnetCIDR c (int i) = Inr (net_string ?n)" by (rule GenerateSubnetCIDR_at [OF c i])
  show ?case
  proof (cases "net_string ?n \<in> set used")
    case True
    have step: "find_subnet_loop c used (i # is) = find_subnet_loop c used is"
      using gen True by simp
    show ?thesis unfolding step using Cons True by simp
  next
    case False
    have "validateNodeID ''temporary-id'' = Inr ()" by (simp add: validateNodeID_def)
    from NewSubnet_layout [OF subnet_at_aligned [OF c i] net_ones_subnet_at [OF c] this]
    obtain s where "NewSubnet ''temporary-id'' (Some ?n) = Inr s" "subnet_layout s"
      "sn_Network s = ?n" "sn_CIDR s = net_string ?n" by blast
    then show ?thesis using False gen ParseCIDR_subnet_at [OF c i] by simp
  qed
qed simp

lemma FindNextAvailableSubnet_find:
  assumes "config_base c b"
  shows "FindNextAvailableSubnet c used =
     find_subnet_loop c used [0..<2 ^ (nat (SubnetMask c) - net_ones b)]"
  using MaxSubnets_base [OF assms] by (simp add: FindNextAvailableSubnet_def nat_power_eq)

subsection \<open>The address loop\<close>

text \<open>The addresses from one to another, in order.\<close>

definition ip_range :: "ip4 \<Rightarrow> ip4 \<Rightarrow> ip4 list" where
  "ip_range a b = map word_of_nat [unat a..<Suc (unat b)]"

lemma ip_range_Cons:
  assumes "a < b" shows "ip_range a b = a # ip_range (a + 1) b"
proof -
  have lt: "unat a < unat b" using assms by (simp add: word_less_nat_alt)
  then have "unat a < 4294967295" using unat32_bound [of b] by simp
  then have "unat (a + 1) = Suc (unat a)" using unat_suc [of a] by simp
  then show ?thesis using lt by (simp add: ip_range_def upt_conv_Cons del: upt_Suc)
qed

lemma ip_range_single: "ip_range a a = [a]"
  by (simp add: ip_range_def)

lemma ip_range_empty: "b < a \<Longrightarrow> ip_range a b = []"
  by (simp add: ip_range_def word_less_nat_alt)

lemma set_ip_range: "set (ip_range a b) = {x. a \<le> x \<and> x \<le> b}"
proof (intro set_eqI iffI)
  fix x assume "x \<in> set (ip_range a b)"
  then obtain k where "x = word_of_nat k" "unat a \<le> k" "k \<le> unat b" by (auto simp: ip_range_def)
  moreover from this have "unat x = k" using unat32_bound [of b] by (simp add: unat_word_of_nat32)
  ultimately show "x \<in> {x. a \<le> x \<and> x \<le> b}" by (simp add: word_le_nat_alt)
next
  fix x assume "x \<in> {x. a \<le> x \<and> x \<le> b}"
  then have "unat x \<in> {unat a..<Suc (unat b)}" "x = word_of_nat (unat x)" by (auto simp: word_le_nat_alt)
  then show "x \<in> set (ip_range a b)" unfolding ip_range_def by (metis imageI list.set_map set_upt)
qed

lemma distinct_ip_range: "distinct (ip_range a b)"
proof -
  have "inj_on (word_of_nat :: nat \<Rightarrow> ip4) {unat a..<Suc (unat b)}"
  proof (rule inj_onI)
    fix x y assume "x \<in> {unat a..<Suc (unat b)}" "y \<in> {unat a..<Suc (unat b)}"
      "(word_of_nat x :: ip4) = word_of_nat y"
    then show "x = y" using unat32_bound [of b] by (metis atLeastLessThan_iff le_less_trans less_Suc_eq_le unat_word_of_nat32)
  qed
  then show ?thesis by (simp add: ip_range_def distinct_map del: upt_Suc)
qed

definition first_free :: "ip4 list \<Rightarrow> ip4 \<Rightarrow> ip4 \<Rightarrow> ip4 res" where
  "first_free allocated a b =
     (case find (\<lambda>x. x \<notin> set allocated) (ip_range a b) of
        Some x \<Rightarrow> Inr x | None \<Rightarrow> Inl no_available_ips)"

lemma next_ip_loop_spec:
  assumes al: "net_aligned net" and e: "net_contains net e" "unat e + 1 < unat (net_ip net) + net_size net"
  shows "\<lbrakk>net_contains net cur; cur \<le> e; card (set (ip_range cur e) \<inter> set allocated) < fuel\<rbrakk> \<Longrightarrow>
    next_ip_loop fuel net e (map print_ip allocated) cur = first_free allocated cur e"
proof (induction fuel arbitrary: cur)
  case (Suc fuel)
  have mem: "print_ip cur \<in> set (map print_ip allocated) \<longleftrightarrow> cur \<in> set allocated"
    by (auto simp: print_ip_inj)
  have cu: "unat cur \<le> unat e" "unat (cur + 1) = unat cur + 1"
  proof -
    show "unat cur \<le> unat e" using Suc.prems by (simp add: word_le_nat_alt)
    then show "unat (cur + 1) = unat cur + 1" using e(2) net_top [OF al] by (intro unat_suc) simp
  qed
  have inn: "net_contains net (cur + 1)"
    using Suc.prems(1) cu e(2) by (simp add: net_contains_iff al)
  show ?case
  proof (cases "cur \<in> set allocated")
    case False
    then show ?thesis using mem Suc.prems(2)
      by (cases "cur = e") (simp_all add: first_free_def ip_range_single ip_range_Cons)
  next
    case True
    show ?thesis
    proof (cases "cur = e")
      case True
      have "e < cur + 1" using cu True by (simp add: word_less_nat_alt)
      then show ?thesis using mem \<open>cur \<in> set allocated\<close> True
        by (simp add: inc_ip_eq ipGreaterThan_eq first_free_def ip_range_single)
    next
      case False
      then have lt: "cur < e" using Suc.prems(2) by simp
      have le: "cur + 1 \<le> e" using lt cu by (simp add: word_le_nat_alt word_less_nat_alt)
      have r: "ip_range cur e = cur # ip_range (cur + 1) e" by (rule ip_range_Cons [OF lt])
      have "cur \<notin> set (ip_range (cur + 1) e)"
        using distinct_ip_range [of cur e] by (simp add: r)
      then have "card (set (ip_range cur e) \<inter> set allocated)
          = Suc (card (set (ip_range (cur + 1) e) \<inter> set allocated))"
        using True by (simp add: r)
      then have "card (set (ip_range (cur + 1) e) \<inter> set allocated) < fuel" using Suc.prems(3) by simp
      note ih = Suc.IH [OF inn le this]
      show ?thesis using mem True inn leD [OF le] ih
        by (simp add: inc_ip_eq ipGreaterThan_eq first_free_def r)
    qed
  qed
qed simp

lemma FindNextAvailableIP_first_free:
  assumes "subnet_layout s"
  shows "FindNextAvailableIP (Some s) allocated =
     first_free allocated (sn_RangeStart s) (sn_RangeEnd s)"
proof -
  let ?n = "sn_Network s"
  have al: "net_aligned ?n" and ones: "net_ones ?n \<le> 30"
    and u: "unat (sn_RangeStart s) = unat (net_ip ?n) + 2"
      "unat (sn_RangeEnd s) = unat (net_ip ?n) + net_size ?n - 2"
    using assms by (simp_all add: subnet_layout_def Let_def)
  have S: "4 \<le> net_size ?n" using net_size_ge4 [OF ones] by simp
  have "card (set (ip_range (sn_RangeStart s) (sn_RangeEnd s)) \<inter> set allocated) \<le> card (set allocated)"
    by (intro card_mono) auto
  also have "\<dots> < Suc (length allocated)" by (simp add: card_length less_Suc_eq_le)
  finally show ?thesis
    unfolding FindNextAvailableIP_def option.case
    by (intro next_ip_loop_spec) (use S in \<open>simp_all add: al net_contains_iff u word_le_nat_alt\<close>)
qed

subsection \<open>Properties\<close>

text \<open>C38: in a validated configuration the subnets of any two different indices are aligned
  networks inside the base network that share no address, and the text generated for an index
  parses back to its network.\<close>

theorem subnets_disjoint_in_base:
  assumes "config_base c b" "i < 2 ^ (nat (SubnetMask c) - net_ones b)"
    "j < 2 ^ (nat (SubnetMask c) - net_ones b)" "i \<noteq> j"
  shows "\<exists>ci ni cj nj. GenerateSubnetCIDR c (int i) = Inr ci \<and> ParseCIDR ci = Some (net_ip ni, ni) \<and>
    GenerateSubnetCIDR c (int j) = Inr cj \<and> ParseCIDR cj = Some (net_ip nj, nj) \<and>
    (\<forall>x. net_contains ni x \<longrightarrow> net_contains b x \<and> \<not> net_contains nj x)"
proof (intro exI conjI allI impI)
  show "GenerateSubnetCIDR c (int i) = Inr (net_string (subnet_at c b i))"
    "GenerateSubnetCIDR c (int j) = Inr (net_string (subnet_at c b j))"
    using GenerateSubnetCIDR_at [OF assms(1)] assms(2,3) by blast+
  show "ParseCIDR (net_string (subnet_at c b i)) = Some (net_ip (subnet_at c b i), subnet_at c b i)"
    "ParseCIDR (net_string (subnet_at c b j)) = Some (net_ip (subnet_at c b j), subnet_at c b j)"
    using ParseCIDR_subnet_at [OF assms(1)] assms(2,3) by blast+
  fix x assume x: "net_contains (subnet_at c b i) x"
  then show "net_contains b x" by (rule subnet_at_in_base [OF assms(1,2)])
  show "\<not> net_contains (subnet_at c b j) x"
    using subnet_at_disjoint_less [OF assms(1)] assms(2-4) x by (metis linorder_neqE_nat)
qed

definition default_base :: IPNet where
  "default_base = \<lparr>net_ip = word_of_nat 168296448, net_ones = 16\<rparr>"

lemma default_base_aligned: "net_aligned default_base"
proof -
  have "unat (word_of_nat 168296448 :: ip4) = 168296448" by (rule unat_word_of_nat32) simp
  then show ?thesis by (simp add: net_aligned_def default_base_def ip_mask_dvd)
qed

lemma parse_default: "ParseCIDR ''10.8.0.0/16'' = Some (net_ip default_base, default_base)"
proof -
  have "ParseIP ''10.8.0.0'' = Some (net_ip default_base)"
    by (simp add: ParseIP_def octet_ok_def is_digit_def digit_val_def undec_def ip_of_bytes_def
        default_base_def)
  moreover have "undec ''16'' = 16" "list_all is_digit ''16''"
    by (simp_all add: undec_def digit_val_def is_digit_def)
  moreover have "ip_mask (net_ip default_base) 16 = net_ip default_base"
    using default_base_aligned by (simp add: net_aligned_def default_base_def)
  ultimately show ?thesis by (simp add: ParseCIDR_def) (simp add: default_base_def)
qed

lemma default_config_base: "config_base DefaultNetworkConfig default_base"
  by (simp add: config_base_def DefaultNetworkConfig_def NetworkConfig_Validate_def validateCIDR_def
      parse_default) (simp add: default_base_def)

theorem subnets_disjoint_in_base_witness:
  "\<exists>ci ni cj nj. GenerateSubnetCIDR DefaultNetworkConfig (int 3) = Inr ci \<and>
    ParseCIDR ci = Some (net_ip ni, ni) \<and>
    GenerateSubnetCIDR DefaultNetworkConfig (int 255) = Inr cj \<and> ParseCIDR cj = Some (net_ip nj, nj) \<and>
    (\<forall>x. net_contains ni x \<longrightarrow>
net_contains default_base x \<and> \<not> net_contains nj x)"
  by (rule subnets_disjoint_in_base [OF default_config_base])
    (simp_all add: DefaultNetworkConfig_def default_base_def)

text \<open>Subnet allocation picks the first index whose CIDR text is not in use and lays the
  subnet out on that network; it fails, with \<open>subnet_exhausted\<close>, exactly when every one of the
  \<open>2^(mask - base mask)\<close> texts is in use.\<close>

theorem subnet_allocation_first_unused:
  assumes "config_base c b"
  shows "(case find (\<lambda>i. net_string (subnet_at c b i) \<notin> set used)
                 [0..<2 ^ (nat (SubnetMask c) - net_ones b)] of
       None \<Rightarrow> FindNextAvailableSubnet c used =
         Inl (NewIPError ErrCodeSubnetExhausted ''no available subnets in network range'' False None)
     | Some i \<Rightarrow> \<exists>s. FindNextAvailableSubnet c used = Inr s \<and> sn_Network s = subnet_at c b i \<and>
         sn_CIDR s = net_string (subnet_at c b i) \<and> subnet_layout s)"
  unfolding FindNextAvailableSubnet_find [OF assms]
  by (rule find_subnet_loop_spec [OF assms]) simp

theorem subnet_allocation_first_unused_witness:
  "(case find (\<lambda>i. net_string (subnet_at DefaultNetworkConfig default_base i) \<notin> set [''10.8.0.0/24''])
                 [0..<2 ^ (nat (SubnetMask DefaultNetworkConfig) - net_ones default_base)] of
       None \<Rightarrow> FindNextAvailableSubnet DefaultNetworkConfig [''10.8.0.0/24''] =
         Inl (NewIPError ErrCodeSubnetExhausted ''no available subnets in network range'' False None)
     | Some i \<Rightarrow> \<exists>s. FindNextAvailableSubnet DefaultNetworkConfig [''10.8.0.0/24''] = Inr s \<and>
         sn_Network s = subnet_at DefaultNetworkConfig default_base i \<and>
         sn_CIDR s = net_string (subnet_at DefaultNetworkConfig default_base i) \<and> subnet_layout s)"
  using subnet_allocation_first_unused [OF default_config_base, of "[''10.8.0.0/24'']"] .

text \<open>C31: on a subnet as \<open>NewSubnet\<close> builds it, the address loop terminates and returns the lowest
  address of the range that is not allocated, or \<open>subnet_exhausted\<close> when the whole range is
  allocated; it equals the search of the ordered range.\<close>

theorem next_ip_is_first_free:
  assumes "NewSubnet nid (Some n) = Inr s" "net_aligned n" "net_ones n \<le> 30"
  shows "FindNextAvailableIP (Some s) allocated =
     (case find (\<lambda>x. x \<notin> set allocated) (ip_range (net_ip n + 2) (net_ip n + word_of_nat (net_size n - 2))) of
        Some x \<Rightarrow> Inr x | None \<Rightarrow> Inl no_available_ips)"
proof -
  have "validateNodeID nid = Inr ()" using assms(1) by (auto simp: NewSubnet_def split: sum.splits)
  from NewSubnet_layout [OF assms(2,3) this] assms(1)
  have lay: "subnet_layout s" "sn_Network s = n" by auto
  have S: "4 \<le> net_size n" using net_size_ge4 [OF assms(3)] by simp
  have top: "unat (net_ip n) + net_size n \<le> 4294967296" by (rule net_top [OF assms(2)])
  have u: "unat (net_ip n + word_of_nat k) = unat (net_ip n) + k" if "k < net_size n" for k
    using unat_add_lem [THEN iffD1, of "net_ip n" "word_of_nat k"] that top
    by (simp add: unat_word_of_nat32)
  have "sn_RangeStart s = net_ip n + 2" "sn_RangeEnd s = net_ip n + word_of_nat (net_size n - 2)"
    using lay u [of 2] u [of "net_size n - 2"] S
    by (simp_all add: subnet_layout_def Let_def word_unat_eq_iff)
  then show ?thesis
    unfolding FindNextAvailableIP_first_free [OF lay(1)] by (simp add: first_free_def)
qed

definition example_net :: IPNet where
  "example_net = \<lparr>net_ip = word_of_nat 168297216, net_ones = 24\<rparr>"

lemma example_net_aligned: "net_aligned example_net" "net_ones example_net \<le> 30"
proof -
  have "unat (word_of_nat 168297216 :: ip4) = 168297216" by (rule unat_word_of_nat32) simp
  then show "net_aligned example_net" by (simp add: net_aligned_def example_net_def ip_mask_dvd)
  show "net_ones example_net \<le> 30" by (simp add: example_net_def)
qed

theorem next_ip_is_first_free_witness:
  "\<exists>s. NewSubnet ''node-1'' (Some example_net) = Inr s \<and>
     FindNextAvailableIP (Some s) [word_of_nat 168297218] =
     (case find (\<lambda>x. x \<notin> set [word_of_nat 168297218])
        (ip_range (net_ip example_net + 2) (net_ip example_net + word_of_nat (net_size example_net - 2))) of
        Some x \<Rightarrow> Inr x | None \<Rightarrow> Inl no_available_ips)"
proof -
  have "validateNodeID ''node-1'' = Inr ()" by (simp add: validateNodeID_def)
  from NewSubnet_layout [OF example_net_aligned this]
  obtain s where "NewSubnet ''node-1'' (Some example_net) = Inr s" by blast
  from this next_ip_is_first_free [OF this example_net_aligned, of "[word_of_nat 168297218]"]
  show ?thesis by (intro exI conjI)
qed

text \<open>An address the loop returns is an unallocated host of the subnet's network, and is
  neither the network address, the gateway nor the broadcast address.\<close>

theorem next_ip_is_free_host:
  assumes "subnet_layout s" "FindNextAvailableIP (Some s) allocated = Inr a"
  shows "a \<notin> set allocated \<and> net_contains (sn_Network s) a \<and> a \<noteq> net_ip (sn_Network s) \<and>
    a \<noteq> sn_Gateway s \<and> a \<noteq> net_ip (sn_Network s) OR NOT (CIDRMask (net_ones (sn_Network s)))"
proof -
  let ?n = "sn_Network s"
  have "find (\<lambda>x. x \<notin> set allocated) (ip_range (sn_RangeStart s) (sn_RangeEnd s)) = Some a"
    using assms(2) unfolding FindNextAvailableIP_first_free [OF assms(1)]
    by (auto simp: first_free_def split: option.splits)
  then have a: "a \<notin> set allocated" "sn_RangeStart s \<le> a" "a \<le> sn_RangeEnd s"
    by (auto dest!: find_Some_mem simp: set_ip_range)
  have lay: "net_aligned ?n" "net_ones ?n \<le> 30" "unat (sn_Gateway s) = unat (net_ip ?n) + 1"
    "unat (sn_RangeStart s) = unat (net_ip ?n) + 2"
    "unat (sn_RangeEnd s) = unat (net_ip ?n) + net_size ?n - 2"
    using assms(1) by (simp_all add: subnet_layout_def Let_def)
  have S: "4 \<le> net_size ?n" using net_size_ge4 [OF lay(2)] by simp
  have "unat (net_ip ?n) + 2 \<le> unat a" "unat a \<le> unat (net_ip ?n) + net_size ?n - 2"
    using a lay by (simp_all add: word_le_nat_alt)
  then show ?thesis
    using a(1) lay S unat_broadcast [OF lay(1)] by (auto simp: net_contains_iff word_unat_eq_iff)
qed

lemma free_host_example:
  "\<exists>s. subnet_layout s \<and> FindNextAvailableIP (Some s) [] = Inr (sn_RangeStart s)"
proof -
  have "validateNodeID ''node-1'' = Inr ()" by (simp add: validateNodeID_def)
  from NewSubnet_layout [OF example_net_aligned this] obtain s where s: "subnet_layout s" by blast
  have "print_ip (sn_RangeStart s) \<notin> set []" by simp
  then have "FindNextAvailableIP (Some s) [] = Inr (sn_RangeStart s)" by (simp add: FindNextAvailableIP_def)
  with s show ?thesis by blast
qed

theorem next_ip_is_free_host_witness:
  "\<exists>s a. net_contains (sn_Network s) a \<and> a \<noteq> net_ip (sn_Network s) \<and> a \<noteq> sn_Gateway s \<and>
     FindNextAvailableIP (Some s) [] = Inr a"
  using free_host_example next_ip_is_free_host [where allocated = "[]"] by blast

text \<open>The reported capacity of a subnet is the number of addresses its allocator can hand out,
  so for duplicate-free allocations inside the range the reported available count is positive
  exactly when the allocator succeeds.\<close>

theorem capacity_matches_allocator:
  assumes "subnet_layout s" "distinct allocated"
    "set allocated \<subseteq> set (ip_range (sn_RangeStart s) (sn_RangeEnd s))"
  shows "TotalIPs (CalculateCapacityInfo s (int (length allocated))) =
      int (length (ip_range (sn_RangeStart s) (sn_RangeEnd s))) \<and>
    (AvailableIPs (CalculateCapacityInfo s (int (length allocated))) > 0 \<longleftrightarrow>
     is_ok (FindNextAvailableIP (Some s) allocated))"
proof -
  let ?r = "ip_range (sn_RangeStart s) (sn_RangeEnd s)" and ?n = "sn_Network s"
  have lay: "net_ones ?n \<le> 30" "unat (sn_RangeStart s) = unat (net_ip ?n) + 2"
    "unat (sn_RangeEnd s) = unat (net_ip ?n) + net_size ?n - 2"
    using assms(1) by (simp_all add: subnet_layout_def Let_def)
  have S: "4 \<le> net_size ?n" using net_size_ge4 [OF lay(1)] by simp
  have "Suc (unat (net_ip ?n) + net_size ?n - 2) - (unat (net_ip ?n) + 2) = net_size ?n - 3"
    using S by linarith
  then have len: "length ?r = net_size ?n - 3" by (simp only: ip_range_def lay length_map length_upt)
  have tot: "TotalIPs (CalculateCapacityInfo s k) = int (length ?r)" for k
    using S by (simp add: CalculateCapacityInfo_def Let_def len of_nat_diff) (simp add: net_size_def)
  have av: "AvailableIPs (CalculateCapacityInfo s (int k)) > 0 \<longleftrightarrow> k < length ?r" for k
    using tot [of "int k"] by (auto simp: CalculateCapacityInfo_def Let_def)
  have "is_ok (FindNextAvailableIP (Some s) allocated) \<longleftrightarrow> (\<exists>x\<in>set ?r. x \<notin> set allocated)"
    unfolding FindNextAvailableIP_first_free [OF assms(1)] first_free_def
    using find_None_all [of "\<lambda>x. x \<notin> set allocated" ?r] by (auto split: option.splits)
  also have "\<dots> \<longleftrightarrow> set allocated \<noteq> set ?r" using assms(3) by blast
  also have "\<dots> \<longleftrightarrow> length allocated < length ?r"
    using assms(2,3) distinct_card [OF assms(2)] distinct_card [OF distinct_ip_range, of "sn_RangeStart s" "sn_RangeEnd s"]
    by (metis card_subset_eq finite_set less_irrefl order_neq_le_trans psubset_card_mono psubsetI)
  finally show ?thesis using tot av by simp
qed

theorem capacity_matches_allocator_witness:
  "\<exists>s. subnet_layout s \<and>
    (AvailableIPs (CalculateCapacityInfo s (int (length ([] :: ip4 list)))) > 0 \<longleftrightarrow>
     is_ok (FindNextAvailableIP (Some s) []))"
proof -
  obtain s where s: "subnet_layout s" using free_host_example by blast
  show ?thesis using capacity_matches_allocator [OF s, of "[]"] s by auto
qed

end
