(* ===== verification/Store.thy ===== *)
theory Store
  imports DomainErrors
begin

text \<open>
  The database of \<open>internal/rotator/infrastructure/store/db\<close>: the three tables of \<open>schema.sql\<close> as
  lists of rows in insertion order, and one function per query of \<open>queries.sql.go\<close>, with the
  constraints SQLite enforces on it (primary and unique keys, the status checks, foreign keys
  with \<open>ON DELETE CASCADE\<close>) and the triggers that set \<open>updated_at\<close>.

  \<open>CURRENT_TIMESTAMP\<close> is the field \<open>clock\<close> (seconds). A query may fail for reasons outside the
  program: the field \<open>faults\<close> says, query by query, whether it does, and a failing query leaves
  the tables as they are. An \<open>ORDER BY\<close> is a stable sort: rows with equal keys keep insertion
  order, which SQL leaves open.
\<close>

section \<open>Tables\<close>

record NodeRow =
  n_id :: string
  n_server_id :: "string option"
  n_ip_address :: string
  n_server_public_key :: string
  n_port :: int
  n_status :: string
  n_version :: int
  n_created_at :: int
  n_updated_at :: int
  n_destroy_at :: "int option"
  n_last_handshake_at :: "int option"
  n_connected_clients :: int

record SubnetRow =
  s_node_id :: string
  s_subnet_cidr :: string
  s_gateway_ip :: string
  s_ip_range_start :: string
  s_ip_range_end :: string
  s_created_at :: int

record PeerRow =
  p_id :: string
  p_node_id :: string
  p_protocol :: string
  p_identifier :: string
  p_protocol_config :: "string option"
  p_public_key :: "string option"
  p_preshared_key :: "string option"
  p_allocated_ip :: string
  p_status :: string
  p_created_at :: int
  p_updated_at :: int
  p_last_handshake_at :: "int option"

record Db =
  nodes :: "NodeRow list"
  peers :: "PeerRow list"
  subnets :: "SubnetRow list"
  clock :: int
  faults :: "bool list"

text \<open>The \<open>CHECK\<close> constraints.\<close>

definition NodeStatuses :: "string set" where
  "NodeStatuses = {''provisioning'', ''active'', ''destroying'', ''unhealthy''}"

definition PeerStatuses :: "string set" where
  "PeerStatuses = {''active'', ''disconnected'', ''removing''}"

lemma statuses_mem [simp]:
  "''provisioning'' \<in> NodeStatuses" "''active'' \<in> NodeStatuses" "''destroying'' \<in> NodeStatuses"
  "''unhealthy'' \<in> NodeStatuses" "''active'' \<in> PeerStatuses" "''disconnected'' \<in> PeerStatuses"
  "''removing'' \<in> PeerStatuses"
  by (simp_all add: NodeStatuses_def PeerStatuses_def)

definition node_ids :: "Db \<Rightarrow> string set" where
  "node_ids d = n_id ` set (nodes d)"

definition ErrNoRows :: go_error where
  "ErrNoRows = PlainError ''sql: no rows in result set''"

definition ErrConstraint :: go_error where
  "ErrConstraint = PlainError ''constraint failed''"

definition ErrIO :: go_error where
  "ErrIO = PlainError ''disk I/O error''"

lemma sql_errors_distinct [simp]:
  "ErrConstraint \<noteq> ErrNoRows" "ErrNoRows \<noteq> ErrConstraint" "ErrIO \<noteq> ErrNoRows" "ErrNoRows \<noteq> ErrIO"
  by (simp_all add: ErrNoRows_def ErrConstraint_def ErrIO_def)

text \<open>One statement: it fails when the environment says so.\<close>

definition run_query :: "(Db \<Rightarrow> 'a res \<times> Db) \<Rightarrow> Db \<Rightarrow> 'a res \<times> Db" where
  "run_query q d =
     (case faults d of
        [] \<Rightarrow> q d
      | True # fs \<Rightarrow> (Inl ErrIO, d\<lparr>faults := fs\<rparr>)
      | False # fs \<Rightarrow> q (d\<lparr>faults := fs\<rparr>))"

text \<open>A \<open>:one\<close> query scans the first row or returns \<open>sql.ErrNoRows\<close>.\<close>

definition scan_one :: "'a option \<Rightarrow> 'a res" where
  "scan_one r = (case r of None \<Rightarrow> Inl ErrNoRows | Some x \<Rightarrow> Inr x)"

definition select_one :: "(Db \<Rightarrow> 'a option) \<Rightarrow> Db \<Rightarrow> 'a res \<times> Db" where
  "select_one f = run_query (\<lambda>d. (scan_one (f d), d))"

definition select_many :: "(Db \<Rightarrow> 'a) \<Rightarrow> Db \<Rightarrow> 'a res \<times> Db" where
  "select_many f = run_query (\<lambda>d. (Inr (f d), d))"

definition newest_first :: "('a \<Rightarrow> int) \<Rightarrow> 'a list \<Rightarrow> 'a list" where
  "newest_first t xs = sort_key (\<lambda>r. - t r) xs"

section \<open>Updates of the tables\<close>

text \<open>\<open>UPDATE nodes SET \<dots> WHERE P\<close>, with the trigger \<open>update_nodes_timestamp\<close>.\<close>

definition map_nodes :: "(NodeRow \<Rightarrow> bool) \<Rightarrow> (NodeRow \<Rightarrow> NodeRow) \<Rightarrow> Db \<Rightarrow> Db" where
  "map_nodes P f d = d\<lparr>nodes := map (\<lambda>r. if P r then (f r)\<lparr>n_updated_at := clock d\<rparr> else r) (nodes d)\<rparr>"

definition map_peers :: "(PeerRow \<Rightarrow> bool) \<Rightarrow> (PeerRow \<Rightarrow> PeerRow) \<Rightarrow> Db \<Rightarrow> Db" where
  "map_peers P f d = d\<lparr>peers := map (\<lambda>r. if P r then (f r)\<lparr>p_updated_at := clock d\<rparr> else r) (peers d)\<rparr>"

text \<open>\<open>DELETE FROM nodes\<close> cascades to the peers and subnets of the deleted nodes.\<close>

definition delete_nodes :: "(NodeRow \<Rightarrow> bool) \<Rightarrow> Db \<Rightarrow> Db" where
  "delete_nodes P d =
     (let gone = n_id ` set (filter P (nodes d)) in
      d\<lparr>nodes := filter (\<lambda>r. \<not> P r) (nodes d),
        peers := filter (\<lambda>r. p_node_id r \<notin> gone) (peers d),
        subnets := filter (\<lambda>r. s_node_id r \<notin> gone) (subnets d)\<rparr>)"

section \<open>Node queries\<close>

definition CreateNode :: "string \<Rightarrow> string \<Rightarrow> string \<Rightarrow> int \<Rightarrow> string \<Rightarrow> Db \<Rightarrow> NodeRow res \<times> Db" where
  "CreateNode i ip key port st = run_query (\<lambda>d.
     if i \<in> node_ids d \<or> key \<in> n_server_public_key ` set (nodes d) \<or> st \<notin> NodeStatuses
     then (Inl ErrConstraint, d)
     else (let r = \<lparr>n_id = i, n_server_id = None, n_ip_address = ip, n_server_public_key = key,
                    n_port = port, n_status = st, n_version = 1, n_created_at = clock d,
                    n_updated_at = clock d, n_destroy_at = None, n_last_handshake_at = None,
                    n_connected_clients = 0\<rparr>
           in (Inr r, d\<lparr>nodes := nodes d @ [r]\<rparr>)))"

definition GetNode :: "string \<Rightarrow> Db \<Rightarrow> NodeRow res \<times> Db" where
  "GetNode i = select_one (\<lambda>d. find (\<lambda>r. n_id r = i) (nodes d))"

definition GetNodeForUpdate :: "string \<Rightarrow> Db \<Rightarrow> NodeRow res \<times> Db" where
  "GetNodeForUpdate i = select_one (\<lambda>d. find (\<lambda>r. n_id r = i) (nodes d))"

definition GetNodeByIP :: "string \<Rightarrow> Db \<Rightarrow> NodeRow res \<times> Db" where
  "GetNodeByIP ip = select_one (\<lambda>d. find (\<lambda>r. n_ip_address r = ip) (nodes d))"

definition GetAllNodes :: "Db \<Rightarrow> NodeRow list res \<times> Db" where
  "GetAllNodes = select_many (\<lambda>d. newest_first n_created_at (nodes d))"

definition GetNodesByStatus :: "string \<Rightarrow> Db \<Rightarrow> NodeRow list res \<times> Db" where
  "GetNodesByStatus st =
     select_many (\<lambda>d. newest_first n_created_at (filter (\<lambda>r. n_status r = st) (nodes d)))"

definition GetActiveNode :: "Db \<Rightarrow> NodeRow res \<times> Db" where
  "GetActiveNode = select_one (\<lambda>d.
     find (\<lambda>_. True) (newest_first n_created_at (filter (\<lambda>r. n_status r = ''active'') (nodes d))))"

definition GetLatestNode :: "Db \<Rightarrow> NodeRow res \<times> Db" where
  "GetLatestNode = select_one (\<lambda>d. find (\<lambda>_. True) (newest_first n_created_at (nodes d)))"

definition HasActiveNode :: "Db \<Rightarrow> int res \<times> Db" where
  "HasActiveNode = select_many (\<lambda>d. of_bool (\<exists>r\<in>set (nodes d). n_status r = ''active''))"

text \<open>\<open>datetime(t, '+' || n || ' hours') <= CURRENT_TIMESTAMP\<close>; \<open>None\<close> is a NULL or malformed
  modifier, for which the comparison is not true.\<close>

definition elapsed :: "int option \<Rightarrow> int \<Rightarrow> int option \<Rightarrow> int \<Rightarrow> bool" where
  "elapsed t unit n now =
     (case (t, n) of (Some t', Some n') \<Rightarrow> t' + n' * unit \<le> now | _ \<Rightarrow> False)"

definition GetIdleNodes :: "int option \<Rightarrow> Db \<Rightarrow> NodeRow list res \<times> Db" where
  "GetIdleNodes minutes = select_many (\<lambda>d. filter (\<lambda>r.
     (n_status r = ''active'' \<or> n_status r = ''destroying'') \<and>
     (n_connected_clients r = 0 \<or> n_last_handshake_at r = None \<or>
      elapsed (n_last_handshake_at r) 60 minutes (clock d))) (nodes d))"

definition GetNodesDueForRotation :: "int option \<Rightarrow> Db \<Rightarrow> NodeRow list res \<times> Db" where
  "GetNodesDueForRotation hours = select_many (\<lambda>d. filter (\<lambda>r.
     n_status r = ''active'' \<and> elapsed (Some (n_created_at r)) 3600 hours (clock d) \<and>
     n_connected_clients r > 0) (nodes d))"

definition GetNodesForDestruction :: "Db \<Rightarrow> NodeRow list res \<times> Db" where
  "GetNodesForDestruction = select_many (\<lambda>d. filter (\<lambda>r.
     n_status r = ''destroying'' \<and>
     (case n_destroy_at r of None \<Rightarrow> False | Some t \<Rightarrow> t \<le> clock d)) (nodes d))"

definition GetNodesScheduledForDestruction :: "Db \<Rightarrow> NodeRow list res \<times> Db" where
  "GetNodesScheduledForDestruction = select_many (\<lambda>d.
     sort_key (\<lambda>r. the (n_destroy_at r)) (filter (\<lambda>r. n_destroy_at r \<noteq> None) (nodes d)))"

definition GetOrphanedNodes :: "Db \<Rightarrow> NodeRow list res \<times> Db" where
  "GetOrphanedNodes = select_many (\<lambda>d. filter (\<lambda>r.
     (n_status r = ''provisioning'' \<and> elapsed (Some (n_created_at r)) 3600 (Some 1) (clock d)) \<or>
     (n_status r = ''destroying'' \<and> elapsed (n_destroy_at r) 3600 (Some 1) (clock d))) (nodes d))"

record NodeCountRow =
  nc_Total :: int
  nc_Provisioning :: "int option"
  nc_Active :: "int option"
  nc_Destroying :: "int option"

text \<open>\<open>SUM(CASE \<dots>)\<close> is NULL over no rows.\<close>

definition count_status :: "('a \<Rightarrow> string) \<Rightarrow> string \<Rightarrow> 'a list \<Rightarrow> int option" where
  "count_status f st rows =
     (if rows = [] then None else Some (int (length (filter (\<lambda>r. f r = st) rows))))"

definition GetNodeCount :: "Db \<Rightarrow> NodeCountRow res \<times> Db" where
  "GetNodeCount = select_many (\<lambda>d.
     \<lparr>nc_Total = int (length (nodes d)),
      nc_Provisioning = count_status n_status ''provisioning'' (nodes d),
      nc_Active = count_status n_status ''active'' (nodes d),
      nc_Destroying = count_status n_status ''destroying'' (nodes d)\<rparr>)"

definition GetTotalConnectedClients :: "Db \<Rightarrow> int res \<times> Db" where
  "GetTotalConnectedClients = select_many (\<lambda>d.
     sum_list (map n_connected_clients (filter (\<lambda>r. n_status r = ''active'') (nodes d))))"

definition UpdateNodeStatus :: "string \<Rightarrow> string \<Rightarrow> int \<Rightarrow> Db \<Rightarrow> unit res \<times> Db" where
  "UpdateNodeStatus st i v = run_query (\<lambda>d.
     let P = (\<lambda>r. n_id r = i \<and> n_version r = v) in
     if (\<exists>r\<in>set (nodes d). P r) \<and> st \<notin> NodeStatuses then (Inl ErrConstraint, d)
     else (Inr (), map_nodes P (\<lambda>r. r\<lparr>n_status := st, n_version := n_version r + 1\<rparr>) d))"

definition UpdateNodeDetails ::
  "string option \<Rightarrow> string \<Rightarrow> string \<Rightarrow> string \<Rightarrow> string \<Rightarrow> Db \<Rightarrow> unit res \<times> Db" where
  "UpdateNodeDetails sid ip key st i = run_query (\<lambda>d.
     let P = (\<lambda>r. n_id r = i) in
     if (\<exists>r\<in>set (nodes d). P r) \<and>
        (st \<notin> NodeStatuses \<or> (\<exists>r\<in>set (nodes d). \<not> P r \<and> n_server_public_key r = key))
     then (Inl ErrConstraint, d)
     else (Inr (), map_nodes P (\<lambda>r. r\<lparr>n_server_id := sid, n_ip_address := ip,
             n_server_public_key := key, n_status := st, n_version := n_version r + 1\<rparr>) d))"

definition UpdateNodeActivity :: "int option \<Rightarrow> int \<Rightarrow> string \<Rightarrow> Db \<Rightarrow> unit res \<times> Db" where
  "UpdateNodeActivity hs clients i = run_query (\<lambda>d.
     (Inr (), map_nodes (\<lambda>r. n_id r = i)
        (\<lambda>r. r\<lparr>n_last_handshake_at := hs, n_connected_clients := clients\<rparr>) d))"

definition MarkNodeActive :: "string \<Rightarrow> int \<Rightarrow> Db \<Rightarrow> unit res \<times> Db" where
  "MarkNodeActive i v = run_query (\<lambda>d.
     (Inr (), map_nodes (\<lambda>r. n_id r = i \<and> n_status r = ''provisioning'' \<and> n_version r = v)
        (\<lambda>r. r\<lparr>n_status := ''active'', n_version := n_version r + 1\<rparr>) d))"

definition ScheduleNodeDestruction :: "int option \<Rightarrow> string \<Rightarrow> int \<Rightarrow> Db \<Rightarrow> unit res \<times> Db" where
  "ScheduleNodeDestruction t i v = run_query (\<lambda>d.
     (Inr (), map_nodes (\<lambda>r. n_id r = i \<and> n_version r = v)
        (\<lambda>r. r\<lparr>n_status := ''destroying'', n_destroy_at := t, n_version := n_version r + 1\<rparr>) d))"

definition CancelNodeDestruction :: "string \<Rightarrow> int \<Rightarrow> Db \<Rightarrow> unit res \<times> Db" where
  "CancelNodeDestruction i v = run_query (\<lambda>d.
     (Inr (), map_nodes (\<lambda>r. n_id r = i \<and> n_version r = v)
        (\<lambda>r. r\<lparr>n_status := ''active'', n_destroy_at := None, n_version := n_version r + 1\<rparr>) d))"

definition BeginRotation :: "int option \<Rightarrow> string \<Rightarrow> int \<Rightarrow> Db \<Rightarrow> unit res \<times> Db" where
  "BeginRotation hours i v = run_query (\<lambda>d.
     (Inr (), map_nodes (\<lambda>r. n_id r = i \<and> n_status r = ''active'' \<and> n_version r = v)
        (\<lambda>r. r\<lparr>n_status := ''destroying'',
               n_destroy_at := map_option (\<lambda>h. clock d + h * 3600) hours,
               n_version := n_version r + 1\<rparr>) d))"

definition DeleteNode :: "string \<Rightarrow> Db \<Rightarrow> unit res \<times> Db" where
  "DeleteNode i = run_query (\<lambda>d. (Inr (), delete_nodes (\<lambda>r. n_id r = i) d))"

definition CleanupAllNodes :: "Db \<Rightarrow> unit res \<times> Db" where
  "CleanupAllNodes = run_query (\<lambda>d. (Inr (), delete_nodes (\<lambda>_. True) d))"

section \<open>Subnet queries\<close>

definition CreateNodeSubnet ::
  "string \<Rightarrow> string \<Rightarrow> string \<Rightarrow> string \<Rightarrow> string \<Rightarrow> Db \<Rightarrow> SubnetRow res \<times> Db" where
  "CreateNodeSubnet i cidr gw rs re = run_query (\<lambda>d.
     if i \<in> s_node_id ` set (subnets d) \<or> cidr \<in> s_subnet_cidr ` set (subnets d) \<or> i \<notin> node_ids d
     then (Inl ErrConstraint, d)
     else (let r = \<lparr>s_node_id = i, s_subnet_cidr = cidr, s_gateway_ip = gw, s_ip_range_start = rs,
                    s_ip_range_end = re, s_created_at = clock d\<rparr>
           in (Inr r, d\<lparr>subnets := subnets d @ [r]\<rparr>)))"

definition GetNodeSubnet :: "string \<Rightarrow> Db \<Rightarrow> SubnetRow res \<times> Db" where
  "GetNodeSubnet i = select_one (\<lambda>d. find (\<lambda>r. s_node_id r = i) (subnets d))"

definition GetNodeSubnetBySubnetCIDR :: "string \<Rightarrow> Db \<Rightarrow> SubnetRow res \<times> Db" where
  "GetNodeSubnetBySubnetCIDR cidr = select_one (\<lambda>d. find (\<lambda>r. s_subnet_cidr r = cidr) (subnets d))"

definition GetAllNodeSubnets :: "Db \<Rightarrow> SubnetRow list res \<times> Db" where
  "GetAllNodeSubnets = select_many (\<lambda>d. newest_first s_created_at (subnets d))"

text \<open>\<open>ORDER BY\<close> a text column is bytewise; the callers use the result as a set, so the order is
  left at insertion order here.\<close>

definition GetUsedSubnetCIDRs :: "Db \<Rightarrow> string list res \<times> Db" where
  "GetUsedSubnetCIDRs = select_many (\<lambda>d. map s_subnet_cidr (subnets d))"

definition DeleteNodeSubnet :: "string \<Rightarrow> Db \<Rightarrow> unit res \<times> Db" where
  "DeleteNodeSubnet i = run_query (\<lambda>d.
     (Inr (), d\<lparr>subnets := filter (\<lambda>r. s_node_id r \<noteq> i) (subnets d)\<rparr>))"

section \<open>Peer queries\<close>

definition CreatePeer ::
  "string \<Rightarrow> string \<Rightarrow> string \<Rightarrow> string \<Rightarrow> string option \<Rightarrow> string option \<Rightarrow> string \<Rightarrow> string option
    \<Rightarrow> string \<Rightarrow> Db \<Rightarrow> PeerRow res \<times> Db" where
  "CreatePeer i nid proto ident cfg key ip psk st = run_query (\<lambda>d.
     if i \<in> p_id ` set (peers d) \<or> (proto, ident) \<in> (\<lambda>r. (p_protocol r, p_identifier r)) ` set (peers d) \<or>
        ip \<in> p_allocated_ip ` set (peers d) \<or> st \<notin> PeerStatuses \<or> nid \<notin> node_ids d
     then (Inl ErrConstraint, d)
     else (let r = \<lparr>p_id = i, p_node_id = nid, p_protocol = proto, p_identifier = ident,
                    p_protocol_config = cfg, p_public_key = key, p_preshared_key = psk,
                    p_allocated_ip = ip, p_status = st, p_created_at = clock d,
                    p_updated_at = clock d, p_last_handshake_at = None\<rparr>
           in (Inr r, d\<lparr>peers := peers d @ [r]\<rparr>)))"

definition GetPeer :: "string \<Rightarrow> Db \<Rightarrow> PeerRow res \<times> Db" where
  "GetPeer i = select_one (\<lambda>d. find (\<lambda>r. p_id r = i) (peers d))"

definition GetPeerByIdentifier :: "string \<Rightarrow> string \<Rightarrow> Db \<Rightarrow> PeerRow res \<times> Db" where
  "GetPeerByIdentifier proto ident =
     select_one (\<lambda>d. find (\<lambda>r. p_protocol r = proto \<and> p_identifier r = ident) (peers d))"

definition GetAllPeers :: "Db \<Rightarrow> PeerRow list res \<times> Db" where
  "GetAllPeers = select_many (\<lambda>d. newest_first p_created_at (peers d))"

definition GetPeersByNode :: "string \<Rightarrow> Db \<Rightarrow> PeerRow list res \<times> Db" where
  "GetPeersByNode i =
     select_many (\<lambda>d. newest_first p_created_at (filter (\<lambda>r. p_node_id r = i) (peers d)))"

definition GetPeersByStatus :: "string \<Rightarrow> Db \<Rightarrow> PeerRow list res \<times> Db" where
  "GetPeersByStatus st =
     select_many (\<lambda>d. newest_first p_created_at (filter (\<lambda>r. p_status r = st) (peers d)))"

definition GetPeersForMigration :: "string \<Rightarrow> Db \<Rightarrow> PeerRow list res \<times> Db" where
  "GetPeersForMigration i = select_many (\<lambda>d.
     sort_key p_created_at (filter (\<lambda>r. p_node_id r = i \<and> p_status r = ''active'') (peers d)))"

text \<open>SQLite sorts NULL first in ascending order.\<close>

definition GetInactivePeers :: "int option \<Rightarrow> Db \<Rightarrow> PeerRow list res \<times> Db" where
  "GetInactivePeers minutes = select_many (\<lambda>d.
     let rows = filter (\<lambda>r. p_status r = ''active'' \<and>
           (p_last_handshake_at r = None \<or> elapsed (p_last_handshake_at r) 60 minutes (clock d))) (peers d)
     in filter (\<lambda>r. p_last_handshake_at r = None) rows @
        sort_key (\<lambda>r. the (p_last_handshake_at r)) (filter (\<lambda>r. p_last_handshake_at r \<noteq> None) rows))"

definition GetAllocatedIPsByNode :: "string \<Rightarrow> Db \<Rightarrow> string list res \<times> Db" where
  "GetAllocatedIPsByNode i =
     select_many (\<lambda>d. map p_allocated_ip (filter (\<lambda>r. p_node_id r = i) (peers d)))"

definition CountPeersByNode :: "string \<Rightarrow> Db \<Rightarrow> int res \<times> Db" where
  "CountPeersByNode i = select_many (\<lambda>d. int (length (filter (\<lambda>r. p_node_id r = i) (peers d))))"

definition CountActivePeersByNode :: "string \<Rightarrow> Db \<Rightarrow> int res \<times> Db" where
  "CountActivePeersByNode i = select_many (\<lambda>d.
     int (length (filter (\<lambda>r. p_node_id r = i \<and> p_status r = ''active'') (peers d))))"

definition CheckIPConflictQ :: "string \<Rightarrow> Db \<Rightarrow> int res \<times> Db" where
  "CheckIPConflictQ ip = select_many (\<lambda>d. of_bool (\<exists>r\<in>set (peers d). p_allocated_ip r = ip))"

definition CheckIdentifierConflictQ :: "string \<Rightarrow> string \<Rightarrow> Db \<Rightarrow> int res \<times> Db" where
  "CheckIdentifierConflictQ proto ident = select_many (\<lambda>d.
     of_bool (\<exists>r\<in>set (peers d). p_protocol r = proto \<and> p_identifier r = ident))"

definition CheckPublicKeyConflictQ :: "string \<Rightarrow> Db \<Rightarrow> int res \<times> Db" where
  "CheckPublicKeyConflictQ ident = select_many (\<lambda>d.
     of_bool (\<exists>r\<in>set (peers d). p_protocol r = ''wireguard'' \<and> p_identifier r = ident))"

record PeerStatisticsRow =
  ps_TotalPeers :: int
  ps_ActivePeers :: "int option"
  ps_DisconnectedPeers :: "int option"
  ps_RemovingPeers :: "int option"

definition GetPeerStatistics :: "Db \<Rightarrow> PeerStatisticsRow res \<times> Db" where
  "GetPeerStatistics = select_many (\<lambda>d.
     \<lparr>ps_TotalPeers = int (length (peers d)),
      ps_ActivePeers = count_status p_status ''active'' (peers d),
      ps_DisconnectedPeers = count_status p_status ''disconnected'' (peers d),
      ps_RemovingPeers = count_status p_status ''removing'' (peers d)\<rparr>)"

definition UpdatePeerStatus :: "string \<Rightarrow> string \<Rightarrow> Db \<Rightarrow> unit res \<times> Db" where
  "UpdatePeerStatus st i = run_query (\<lambda>d.
     if (\<exists>r\<in>set (peers d). p_id r = i) \<and> st \<notin> PeerStatuses then (Inl ErrConstraint, d)
     else (Inr (), map_peers (\<lambda>r. p_id r = i) (\<lambda>r. r\<lparr>p_status := st\<rparr>) d))"

definition UpdatePeerLastHandshake :: "int option \<Rightarrow> string \<Rightarrow> Db \<Rightarrow> unit res \<times> Db" where
  "UpdatePeerLastHandshake t i = run_query (\<lambda>d.
     (Inr (), map_peers (\<lambda>r. p_id r = i) (\<lambda>r. r\<lparr>p_last_handshake_at := t\<rparr>) d))"

definition UpdatePeerNode :: "string \<Rightarrow> string \<Rightarrow> string \<Rightarrow> Db \<Rightarrow> unit res \<times> Db" where
  "UpdatePeerNode nid ip i = run_query (\<lambda>d.
     if (\<exists>r\<in>set (peers d). p_id r = i) \<and>
        (nid \<notin> node_ids d \<or> (\<exists>r\<in>set (peers d). p_id r \<noteq> i \<and> p_allocated_ip r = ip))
     then (Inl ErrConstraint, d)
     else (Inr (), map_peers (\<lambda>r. p_id r = i) (\<lambda>r. r\<lparr>p_node_id := nid, p_allocated_ip := ip\<rparr>) d))"

definition DeletePeer :: "string \<Rightarrow> Db \<Rightarrow> unit res \<times> Db" where
  "DeletePeer i = run_query (\<lambda>d. (Inr (), d\<lparr>peers := filter (\<lambda>r. p_id r \<noteq> i) (peers d)\<rparr>))"

definition DeletePeersByNode :: "string \<Rightarrow> Db \<Rightarrow> unit res \<times> Db" where
  "DeletePeersByNode i = run_query (\<lambda>d.
     (Inr (), d\<lparr>peers := filter (\<lambda>r. p_node_id r \<noteq> i) (peers d)\<rparr>))"

section \<open>Transactions\<close>

text \<open>\<open>ExecTx\<close>: begin, run, and on an error roll the tables back; begin, rollback and commit may
  fail themselves.\<close>

definition restore_tables :: "Db \<Rightarrow> Db \<Rightarrow> Db" where
  "restore_tables d0 d = d\<lparr>nodes := nodes d0, peers := peers d0, subnets := subnets d0\<rparr>"

definition ExecTx :: "(Db \<Rightarrow> unit res \<times> Db) \<Rightarrow> Db \<Rightarrow> unit res \<times> Db" where
  "ExecTx fn d =
     (case run_query (\<lambda>d. (Inr (), d)) d of
        (Inl e, d0) \<Rightarrow> (Inl (WrapError ''failed to begin transaction'' e), d0)
      | (Inr _, d0) \<Rightarrow>
          (case fn d0 of
             (Inl e, d1) \<Rightarrow>
               (case run_query (\<lambda>d. (Inr (), d)) (restore_tables d0 d1) of
                  (Inl rb, d2) \<Rightarrow> (Inl (WrapError ''transaction error'' rb), d2)
                | (Inr _, d2) \<Rightarrow> (Inl e, d2))
           | (Inr _, d1) \<Rightarrow>
               (case run_query (\<lambda>d. (Inr (), d)) d1 of
                  (Inl ce, d2) \<Rightarrow>
                    (Inl (WrapError ''failed to commit transaction'' ce), restore_tables d0 d2)
                | (Inr _, d2) \<Rightarrow> (Inr (), d2))))"

end
