(* ===== verification/StoreInv.thy ===== *)
theory StoreInv
  imports Store
begin

text \<open>
  The constraints of the schema as an invariant, its preservation by every statement that writes,
  the frame facts of the statements, and the reachable databases as a step relation.
\<close>

section \<open>Running a query\<close>

definition keep_tables :: "Db \<Rightarrow> Db \<Rightarrow> bool" where
  "keep_tables d d' = (nodes d' = nodes d \<and> peers d' = peers d \<and> subnets d' = subnets d \<and> clock d' = clock d)"

lemma keep_tables_refl [simp]: "keep_tables d d"
  by (simp add: keep_tables_def)

lemma keep_tables_trans: "keep_tables a b \<Longrightarrow> keep_tables b c \<Longrightarrow> keep_tables a c"
  by (simp add: keep_tables_def)

lemma keep_tables_faults [simp]: "keep_tables d (d\<lparr>faults := fs\<rparr>)"
  by (simp add: keep_tables_def)

text \<open>A query either fails before it touches a table or runs on the same tables.\<close>

lemma run_query_cases:
  obtains (io) d' where "run_query q d = (Inl ErrIO, d')" "keep_tables d d'"
  | (ran) d' where "run_query q d = q d'" "keep_tables d d'"
proof (cases "faults d")
  case Nil
  then show ?thesis using ran [of d] by (simp add: run_query_def)
next
  case (Cons b fs)
  then show ?thesis using io [of "d\<lparr>faults := fs\<rparr>"] ran [of "d\<lparr>faults := fs\<rparr>"]
    by (cases b) (simp_all add: run_query_def)
qed

lemma run_query_nofault: "faults d = [] \<Longrightarrow> run_query q d = q d"
  by (simp add: run_query_def)

lemma select_one_result:
  assumes "select_one f d = (r, d')"
    and "\<And>d'. keep_tables d d' \<Longrightarrow> f d' = f d"
  shows "keep_tables d d' \<and> (r = Inl ErrIO \<or> r = scan_one (f d))"
proof (cases rule: run_query_cases [of "\<lambda>d. (scan_one (f d), d)" d])
  case (io d'')
  then show ?thesis using assms(1) by (auto simp: select_one_def)
next
  case (ran d'')
  then show ?thesis using assms(1) assms(2) [OF ran(2)] by (auto simp: select_one_def)
qed

lemma select_many_result:
  assumes "select_many f d = (r, d')"
    and "\<And>d'. keep_tables d d' \<Longrightarrow> f d' = f d"
  shows "keep_tables d d' \<and> (r = Inl ErrIO \<or> r = Inr (f d))"
proof (cases rule: run_query_cases [of "\<lambda>d. (Inr (f d), d)" d])
  case (io d'')
  then show ?thesis using assms(1) by (auto simp: select_many_def)
next
  case (ran d'')
  then show ?thesis using assms(1) assms(2) [OF ran(2)] by (auto simp: select_many_def)
qed

lemma select_keeps [simp]:
  "keep_tables d (snd (select_one f d))" "keep_tables d (snd (select_many g d))"
proof -
  show "keep_tables d (snd (select_one f d))" unfolding select_one_def
    by (cases rule: run_query_cases [of "\<lambda>d. (scan_one (f d), d)" d]) auto
  show "keep_tables d (snd (select_many g d))" unfolding select_many_def
    by (cases rule: run_query_cases [of "\<lambda>d. (Inr (g d), d)" d]) auto
qed

lemma select_nofault:
  "faults d = [] \<Longrightarrow> select_one f d = (scan_one (f d), d)"
  "faults d = [] \<Longrightarrow> select_many g d = (Inr (g d), d)"
  by (simp_all add: select_one_def select_many_def run_query_nofault)

lemma scan_one_simps [simp]:
  "scan_one None = Inl ErrNoRows" "scan_one (Some x) = Inr x"
  by (simp_all add: scan_one_def)

lemma scan_one_Inr [simp]: "scan_one r = Inr x \<longleftrightarrow> r = Some x"
  by (cases r) simp_all

lemma set_newest_first [simp]: "set (newest_first t xs) = set xs"
  by (simp add: newest_first_def)

section \<open>The constraints\<close>

definition nodes_ok :: "NodeRow list \<Rightarrow> bool" where
  "nodes_ok ns = (distinct (map n_id ns) \<and> distinct (map n_server_public_key ns) \<and>
     (\<forall>r\<in>set ns. n_status r \<in> NodeStatuses))"

definition peers_ok :: "string set \<Rightarrow> PeerRow list \<Rightarrow> bool" where
  "peers_ok ids ps = (distinct (map p_id ps) \<and> distinct (map (\<lambda>r. (p_protocol r, p_identifier r)) ps) \<and>
     distinct (map p_allocated_ip ps) \<and> (\<forall>r\<in>set ps. p_status r \<in> PeerStatuses \<and> p_node_id r \<in> ids))"

definition subnets_ok :: "string set \<Rightarrow> SubnetRow list \<Rightarrow> bool" where
  "subnets_ok ids ss = (distinct (map s_node_id ss) \<and> distinct (map s_subnet_cidr ss) \<and>
     (\<forall>r\<in>set ss. s_node_id r \<in> ids))"

definition db_ok :: "Db \<Rightarrow> bool" where
  "db_ok d = (nodes_ok (nodes d) \<and> peers_ok (node_ids d) (peers d) \<and> subnets_ok (node_ids d) (subnets d))"

lemma db_ok_keep: "keep_tables d d' \<Longrightarrow> db_ok d' = db_ok d"
  by (simp add: keep_tables_def db_ok_def node_ids_def)

lemma db_ok_rows:
  "db_ok d \<Longrightarrow> r \<in> set (nodes d) \<Longrightarrow> n_status r \<in> NodeStatuses"
  "db_ok d \<Longrightarrow> p \<in> set (peers d) \<Longrightarrow> p_status p \<in> PeerStatuses \<and> p_node_id p \<in> node_ids d"
  by (auto simp: db_ok_def nodes_ok_def peers_ok_def)

lemma run_query_ok:
  assumes "db_ok d" and "\<And>d'. db_ok d' \<Longrightarrow> db_ok (snd (q d'))"
  shows "db_ok (snd (run_query q d))"
proof (cases rule: run_query_cases [of q d])
  case (io d')
  then show ?thesis using assms(1) db_ok_keep [OF io(2)] by simp
next
  case (ran d')
  then show ?thesis using assms(1) assms(2) [of d'] db_ok_keep [OF ran(2)] by simp
qed

subsection \<open>Nodes\<close>

lemma node_ids_map_nodes:
  assumes "\<And>r. r \<in> set (nodes d) \<Longrightarrow> P r \<Longrightarrow> n_id (f r) = n_id r"
  shows "node_ids (map_nodes P f d) = node_ids d"
proof -
  have "map n_id (nodes (map_nodes P f d)) = map n_id (nodes d)"
    using assms by (auto simp: map_nodes_def)
  then show ?thesis by (metis node_ids_def set_map)
qed

lemma map_nodes_tables [simp]:
  "peers (map_nodes P f d) = peers d" "subnets (map_nodes P f d) = subnets d"
  "clock (map_nodes P f d) = clock d" "faults (map_nodes P f d) = faults d"
  by (simp_all add: map_nodes_def)

lemma map_nodes_none: "\<forall>r\<in>set (nodes d). \<not> P r \<Longrightarrow> map_nodes P f d = d"
  using map_idI [of "nodes d" "\<lambda>r. if P r then (f r)\<lparr>n_updated_at := clock d\<rparr> else r"]
  by (simp add: map_nodes_def)

lemma map_nodes_ok:
  assumes "db_ok d"
    and "\<And>r. r \<in> set (nodes d) \<Longrightarrow> P r \<Longrightarrow>
      n_id (f r) = n_id r \<and> n_server_public_key (f r) = n_server_public_key r \<and> n_status (f r) \<in> NodeStatuses"
  shows "db_ok (map_nodes P f d)"
proof -
  have "map n_id (nodes (map_nodes P f d)) = map n_id (nodes d)"
    "map n_server_public_key (nodes (map_nodes P f d)) = map n_server_public_key (nodes d)"
    using assms(2) by (auto simp: map_nodes_def)
  moreover have "\<forall>r\<in>set (nodes (map_nodes P f d)). n_status r \<in> NodeStatuses"
    using assms by (auto simp: map_nodes_def db_ok_def nodes_ok_def)
  ultimately show ?thesis
    using assms node_ids_map_nodes [of d P f] by (simp add: db_ok_def nodes_ok_def)
qed

text \<open>Changing a unique column of the one row with a given key.\<close>

lemma distinct_map_change:
  assumes "distinct (map k xs)" "distinct (map u xs)" "\<And>r. r \<in> set xs \<Longrightarrow> k r \<noteq> i \<Longrightarrow> u r \<noteq> new"
  shows "distinct (map (\<lambda>r. if k r = i then new else u r) xs)"
  using assms
proof (induction xs)
  case (Cons x xs)
  have "\<forall>r\<in>set xs. k x = i \<longrightarrow> k r \<noteq> i" using Cons.prems(1) by (auto simp: image_iff)
  with Cons show ?case by (auto simp: image_iff)
qed simp

lemma CreateNode_ok [preserved]: "db_ok d \<Longrightarrow> db_ok (snd (CreateNode i ip key port st d))"
  unfolding CreateNode_def
  by (rule run_query_ok) (auto simp: Let_def db_ok_def nodes_ok_def node_ids_def peers_ok_def subnets_ok_def)

lemma UpdateNodeStatus_ok [preserved]: "db_ok d \<Longrightarrow> db_ok (snd (UpdateNodeStatus st i v d))"
  unfolding UpdateNodeStatus_def
  by (rule run_query_ok) (auto simp: Let_def intro!: map_nodes_ok)

lemma UpdateNodeActivity_ok [preserved]: "db_ok d \<Longrightarrow> db_ok (snd (UpdateNodeActivity hs c i d))"
  unfolding UpdateNodeActivity_def
  by (rule run_query_ok) (auto intro!: map_nodes_ok dest: db_ok_rows)

lemma MarkNodeActive_ok [preserved]: "db_ok d \<Longrightarrow> db_ok (snd (MarkNodeActive i v d))"
  unfolding MarkNodeActive_def by (rule run_query_ok) (auto intro!: map_nodes_ok)

lemma ScheduleNodeDestruction_ok [preserved]: "db_ok d \<Longrightarrow> db_ok (snd (ScheduleNodeDestruction t i v d))"
  unfolding ScheduleNodeDestruction_def by (rule run_query_ok) (auto intro!: map_nodes_ok)

lemma CancelNodeDestruction_ok [preserved]: "db_ok d \<Longrightarrow> db_ok (snd (CancelNodeDestruction i v d))"
  unfolding CancelNodeDestruction_def by (rule run_query_ok) (auto intro!: map_nodes_ok)

lemma BeginRotation_ok [preserved]: "db_ok d \<Longrightarrow> db_ok (snd (BeginRotation h i v d))"
  unfolding BeginRotation_def by (rule run_query_ok) (auto intro!: map_nodes_ok)

lemma UpdateNodeDetails_ok [preserved]: "db_ok d \<Longrightarrow> db_ok (snd (UpdateNodeDetails sid ip key st i d))"
  unfolding UpdateNodeDetails_def
proof (rule run_query_ok, assumption)
  fix d :: Db
  assume ok: "db_ok d"
  let ?f = "\<lambda>r. r\<lparr>n_server_id := sid, n_ip_address := ip, n_server_public_key := key, n_status := st,
      n_version := n_version r + 1\<rparr>"
  let ?P = "\<lambda>r. n_id r = i"
  let ?bad = "(\<exists>r\<in>set (nodes d). ?P r) \<and>
      (st \<notin> NodeStatuses \<or> (\<exists>r\<in>set (nodes d). \<not> ?P r \<and> n_server_public_key r = key))"
  have "db_ok (map_nodes ?P ?f d)" if "\<not> ?bad"
  proof (cases "\<exists>r\<in>set (nodes d). ?P r")
    case False
    then have "map_nodes ?P ?f d = d" by (intro map_nodes_none) blast
    with ok show ?thesis by simp
  next
    case True
    then have st: "st \<in> NodeStatuses" and uniq: "\<And>r. r \<in> set (nodes d) \<Longrightarrow> n_id r \<noteq> i \<Longrightarrow> n_server_public_key r \<noteq> key"
      using that by blast+
    have "map n_server_public_key (nodes (map_nodes ?P ?f d)) =
        map (\<lambda>r. if n_id r = i then key else n_server_public_key r) (nodes d)"
      by (simp add: map_nodes_def)
    moreover have "distinct \<dots>"
      using ok uniq by (intro distinct_map_change) (auto simp: db_ok_def nodes_ok_def)
    moreover have "map n_id (nodes (map_nodes ?P ?f d)) = map n_id (nodes d)" by (simp add: map_nodes_def)
    moreover have "\<forall>r\<in>set (nodes (map_nodes ?P ?f d)). n_status r \<in> NodeStatuses"
      using ok st by (auto simp: map_nodes_def dest: db_ok_rows)
    ultimately show ?thesis
      using ok node_ids_map_nodes [of d ?P ?f] by (simp add: db_ok_def nodes_ok_def)
  qed
  then show "db_ok (snd (let P = ?P in
      if (\<exists>r\<in>set (nodes d). P r) \<and>
        (st \<notin> NodeStatuses \<or> (\<exists>r\<in>set (nodes d). \<not> P r \<and> n_server_public_key r = key))
      then (Inl ErrConstraint, d) else (Inr (), map_nodes P ?f d)))"
    using ok by (simp add: Let_def)
qed

lemma delete_nodes_ok: "db_ok d \<Longrightarrow> db_ok (delete_nodes P d)"
  by (auto simp: db_ok_def delete_nodes_def Let_def nodes_ok_def peers_ok_def subnets_ok_def node_ids_def; blast)

lemma DeleteNode_ok [preserved]: "db_ok d \<Longrightarrow> db_ok (snd (DeleteNode i d))"
  unfolding DeleteNode_def by (rule run_query_ok) (auto intro: delete_nodes_ok)

lemma CleanupAllNodes_ok [preserved]: "db_ok d \<Longrightarrow> db_ok (snd (CleanupAllNodes d))"
  unfolding CleanupAllNodes_def by (rule run_query_ok) (auto intro: delete_nodes_ok)

subsection \<open>Subnets\<close>

lemma CreateNodeSubnet_ok [preserved]: "db_ok d \<Longrightarrow> db_ok (snd (CreateNodeSubnet i c g rs re d))"
  unfolding CreateNodeSubnet_def
  by (rule run_query_ok) (auto simp: Let_def db_ok_def subnets_ok_def node_ids_def)

lemma DeleteNodeSubnet_ok [preserved]: "db_ok d \<Longrightarrow> db_ok (snd (DeleteNodeSubnet i d))"
  unfolding DeleteNodeSubnet_def
  by (rule run_query_ok) (auto simp: db_ok_def subnets_ok_def node_ids_def)

subsection \<open>Peers\<close>

lemma map_peers_tables [simp]:
  "nodes (map_peers P f d) = nodes d" "subnets (map_peers P f d) = subnets d"
  "clock (map_peers P f d) = clock d" "faults (map_peers P f d) = faults d"
  by (simp_all add: map_peers_def)

lemma map_peers_none: "\<forall>r\<in>set (peers d). \<not> P r \<Longrightarrow> map_peers P f d = d"
  using map_idI [of "peers d" "\<lambda>r. if P r then (f r)\<lparr>p_updated_at := clock d\<rparr> else r"]
  by (simp add: map_peers_def)

lemma CreatePeer_ok [preserved]: "db_ok d \<Longrightarrow> db_ok (snd (CreatePeer i n pr ident cfg key ip psk st d))"
  unfolding CreatePeer_def
  by (rule run_query_ok) (auto simp: Let_def db_ok_def peers_ok_def node_ids_def)

lemma map_peers_ok:
  assumes "db_ok d"
    and "\<And>r. r \<in> set (peers d) \<Longrightarrow> P r \<Longrightarrow> p_id (f r) = p_id r \<and> p_protocol (f r) = p_protocol r \<and>
      p_identifier (f r) = p_identifier r \<and> p_allocated_ip (f r) = p_allocated_ip r \<and>
      p_status (f r) \<in> PeerStatuses \<and> p_node_id (f r) \<in> node_ids d"
  shows "db_ok (map_peers P f d)"
proof -
  have "map p_id (peers (map_peers P f d)) = map p_id (peers d)"
    "map (\<lambda>r. (p_protocol r, p_identifier r)) (peers (map_peers P f d)) =
      map (\<lambda>r. (p_protocol r, p_identifier r)) (peers d)"
    "map p_allocated_ip (peers (map_peers P f d)) = map p_allocated_ip (peers d)"
    using assms(2) by (auto simp: map_peers_def)
  moreover have "\<forall>r\<in>set (peers (map_peers P f d)). p_status r \<in> PeerStatuses \<and> p_node_id r \<in> node_ids d"
    using assms by (auto simp: map_peers_def db_ok_def peers_ok_def)
  ultimately show ?thesis using assms(1) by (simp add: db_ok_def peers_ok_def node_ids_def)
qed

lemma UpdatePeerStatus_ok [preserved]: "db_ok d \<Longrightarrow> db_ok (snd (UpdatePeerStatus st i d))"
  unfolding UpdatePeerStatus_def
  by (rule run_query_ok) (auto intro!: map_peers_ok dest: db_ok_rows)

lemma UpdatePeerLastHandshake_ok [preserved]: "db_ok d \<Longrightarrow> db_ok (snd (UpdatePeerLastHandshake t i d))"
  unfolding UpdatePeerLastHandshake_def
  by (rule run_query_ok) (auto intro!: map_peers_ok dest: db_ok_rows)

lemma UpdatePeerNode_ok [preserved]: "db_ok d \<Longrightarrow> db_ok (snd (UpdatePeerNode nid ip i d))"
  unfolding UpdatePeerNode_def
proof (rule run_query_ok, assumption)
  fix d :: Db
  assume ok: "db_ok d"
  let ?f = "\<lambda>r. r\<lparr>p_node_id := nid, p_allocated_ip := ip\<rparr>"
  let ?P = "\<lambda>r. p_id r = i"
  have "db_ok (map_peers ?P ?f d)"
    if "\<not> ((\<exists>r\<in>set (peers d). p_id r = i) \<and>
        (nid \<notin> node_ids d \<or> (\<exists>r\<in>set (peers d). p_id r \<noteq> i \<and> p_allocated_ip r = ip)))"
  proof (cases "\<exists>r\<in>set (peers d). p_id r = i")
    case False
    then have "map_peers ?P ?f d = d" by (intro map_peers_none) blast
    with ok show ?thesis by simp
  next
    case True
    then have nid: "nid \<in> node_ids d" and uniq: "\<And>r. r \<in> set (peers d) \<Longrightarrow> p_id r \<noteq> i \<Longrightarrow> p_allocated_ip r \<noteq> ip"
      using that by blast+
    have "map p_allocated_ip (peers (map_peers ?P ?f d)) =
        map (\<lambda>r. if p_id r = i then ip else p_allocated_ip r) (peers d)"
      by (simp add: map_peers_def)
    moreover have "distinct \<dots>"
      using ok uniq by (intro distinct_map_change) (auto simp: db_ok_def peers_ok_def)
    moreover have "map p_id (peers (map_peers ?P ?f d)) = map p_id (peers d)"
      "map (\<lambda>r. (p_protocol r, p_identifier r)) (peers (map_peers ?P ?f d)) =
        map (\<lambda>r. (p_protocol r, p_identifier r)) (peers d)"
      by (simp_all add: map_peers_def)
    moreover have "\<forall>r\<in>set (peers (map_peers ?P ?f d)). p_status r \<in> PeerStatuses \<and> p_node_id r \<in> node_ids d"
      using ok nid by (auto simp: map_peers_def db_ok_def peers_ok_def)
    ultimately show ?thesis using ok by (simp add: db_ok_def peers_ok_def node_ids_def)
  qed
  then show "db_ok (snd (
      if (\<exists>r\<in>set (peers d). p_id r = i) \<and>
        (nid \<notin> node_ids d \<or> (\<exists>r\<in>set (peers d). p_id r \<noteq> i \<and> p_allocated_ip r = ip))
      then (Inl ErrConstraint, d) else (Inr (), map_peers ?P ?f d)))"
    using ok by simp
qed

lemma DeletePeer_ok [preserved]: "db_ok d \<Longrightarrow> db_ok (snd (DeletePeer i d))"
  unfolding DeletePeer_def
  by (rule run_query_ok) (auto simp: db_ok_def peers_ok_def node_ids_def)

lemma DeletePeersByNode_ok [preserved]: "db_ok d \<Longrightarrow> db_ok (snd (DeletePeersByNode i d))"
  unfolding DeletePeersByNode_def
  by (rule run_query_ok) (auto simp: db_ok_def peers_ok_def node_ids_def)

section \<open>Reachable databases\<close>

text \<open>One step: a statement that writes, in any order and with any outcome the environment
  chooses, a read, or the passing of time.\<close>

inductive db_step :: "Db \<Rightarrow> Db \<Rightarrow> bool" where
  CreateNode: "db_step d (snd (CreateNode i ip key port st d))"
| UpdateNodeStatus: "db_step d (snd (UpdateNodeStatus st i v d))"
| UpdateNodeDetails: "db_step d (snd (UpdateNodeDetails sid ip key st i d))"
| UpdateNodeActivity: "db_step d (snd (UpdateNodeActivity hs c i d))"
| MarkNodeActive: "db_step d (snd (MarkNodeActive i v d))"
| ScheduleNodeDestruction: "db_step d (snd (ScheduleNodeDestruction t i v d))"
| CancelNodeDestruction: "db_step d (snd (CancelNodeDestruction i v d))"
| BeginRotation: "db_step d (snd (BeginRotation h i v d))"
| DeleteNode: "db_step d (snd (DeleteNode i d))"
| CleanupAllNodes: "db_step d (snd (CleanupAllNodes d))"
| CreateNodeSubnet: "db_step d (snd (CreateNodeSubnet i c' g rs re d))"
| DeleteNodeSubnet: "db_step d (snd (DeleteNodeSubnet i d))"
| CreatePeer: "db_step d (snd (CreatePeer i n pr ident cfg key ip psk st d))"
| UpdatePeerStatus: "db_step d (snd (UpdatePeerStatus st i d))"
| UpdatePeerLastHandshake: "db_step d (snd (UpdatePeerLastHandshake t' i d))"
| UpdatePeerNode: "db_step d (snd (UpdatePeerNode n ip i d))"
| DeletePeer: "db_step d (snd (DeletePeer i d))"
| DeletePeersByNode: "db_step d (snd (DeletePeersByNode i d))"
| Read: "keep_tables d d' \<Longrightarrow> db_step d d'"
| Tick: "db_step d (d\<lparr>clock := clock d + int k\<rparr>)"

definition empty_db :: "int \<Rightarrow> bool list \<Rightarrow> Db" where
  "empty_db now fs = \<lparr>nodes = [], peers = [], subnets = [], clock = now, faults = fs\<rparr>"

lemma empty_db_ok: "db_ok (empty_db now fs)"
  by (simp add: empty_db_def db_ok_def nodes_ok_def peers_ok_def subnets_ok_def)

lemma db_step_ok: "db_step d d' \<Longrightarrow> db_ok d \<Longrightarrow> db_ok d'"
proof (induction rule: db_step.induct)
  case (Tick d k)
  then show ?case by (simp add: db_ok_def node_ids_def)
next
  case (Read d d')
  then show ?case using db_ok_keep [OF Read.hyps] by simp
qed (simp_all add: preserved)

lemma db_steps_ok: "db_step\<^sup>*\<^sup>* d d' \<Longrightarrow> db_ok d \<Longrightarrow> db_ok d'"
  by (induction rule: rtranclp_induct) (auto intro: db_step_ok)

text \<open>C11: whatever statements run, in whatever order and with whatever failures, in a database that
  started empty no two peers hold the same address or the same protocol identity, no two nodes
  hold the same subnet, node server keys are unique, and every peer and subnet belongs to an
  existing node.\<close>

theorem reachable_db_constraints:
  assumes "db_step\<^sup>*\<^sup>* (empty_db now fs) d"
  shows "distinct (map p_allocated_ip (peers d)) \<and>
    distinct (map (\<lambda>r. (p_protocol r, p_identifier r)) (peers d)) \<and>
    distinct (map s_subnet_cidr (subnets d)) \<and> distinct (map n_server_public_key (nodes d)) \<and>
    p_node_id ` set (peers d) \<subseteq> n_id ` set (nodes d) \<and>
    s_node_id ` set (subnets d) \<subseteq> n_id ` set (nodes d)"
  using db_steps_ok [OF assms empty_db_ok]
  by (auto simp: db_ok_def nodes_ok_def peers_ok_def subnets_ok_def node_ids_def)

theorem reachable_db_constraints_witness:
  "\<exists>d :: Db. peers d \<noteq> [] \<and> distinct (map p_allocated_ip (peers d)) \<and>
    p_node_id ` set (peers d) \<subseteq> n_id ` set (nodes d)"
proof -
  define d1 where "d1 = snd (CreateNode ''n'' ''1.2.3.4'' ''k'' 51820 ''active'' (empty_db 0 []))"
  define d2 where "d2 = snd (CreatePeer ''p'' ''n'' ''wireguard'' ''id'' None None ''10.8.0.2'' None ''active'' d1)"
  have "db_step (empty_db 0 []) d1" "db_step d1 d2"
    unfolding d1_def d2_def by (rule db_step.CreateNode db_step.CreatePeer)+
  then have "db_step\<^sup>*\<^sup>* (empty_db 0 []) d2" by (rule rtranclp.rtrancl_into_rtrancl [OF r_into_rtranclp])
  from reachable_db_constraints [OF this] have "distinct (map p_allocated_ip (peers d2))"
    "p_node_id ` set (peers d2) \<subseteq> n_id ` set (nodes d2)" by auto
  moreover have "peers d1 = []" "faults d1 = []" "''n'' \<in> node_ids d1"
    by (simp_all add: d1_def CreateNode_def run_query_def empty_db_def Let_def node_ids_def)
  then have "peers d2 \<noteq> []" by (simp add: d2_def CreatePeer_def run_query_nofault Let_def)
  ultimately show ?thesis by (intro exI [of _ d2] conjI)
qed

text \<open>A failed transaction leaves the tables as they were, whichever of its parts failed.\<close>

lemma run_unit_keeps: "run_query (\<lambda>d. (Inr (), d)) d = (r, d') \<Longrightarrow> keep_tables d d'"
  by (cases rule: run_query_cases [of "\<lambda>d. (Inr (), d)" d]) auto

text \<open>\<open>ExecTx\<close> is all or nothing: when it returns an error the three tables are as before the
  transaction began, and when it succeeds they are as its function left them.\<close>

theorem ExecTx_atomic:
  assumes "ExecTx fn d = (r, d')"
  shows "(case r of
      Inl _ \<Rightarrow> nodes d' = nodes d \<and> peers d' = peers d \<and> subnets d' = subnets d
    | Inr _ \<Rightarrow> \<exists>d0 d1. keep_tables d d0 \<and> fn d0 = (Inr (), d1) \<and> keep_tables d1 d')"
proof (cases "run_query (\<lambda>d. (Inr (), d)) d")
  case (Pair r0 d0)
  have k0: "keep_tables d d0" by (rule run_unit_keeps [OF Pair])
  obtain r1 d1 where fn: "fn d0 = (r1, d1)" by (cases "fn d0")
  obtain ra da where ra: "run_query (\<lambda>d. (Inr (), d)) (restore_tables d0 d1) = (ra, da)" by fastforce
  obtain rb db where rb: "run_query (\<lambda>d. (Inr (), d)) d1 = (rb, db)" by fastforce
  have k: "keep_tables (restore_tables d0 d1) da" "keep_tables d1 db"
    using ra rb by (auto dest: run_unit_keeps)
  note run = assms [unfolded ExecTx_def] Pair fn ra rb
  show ?thesis
  proof (cases r)
    case (Inl e)
    then have "keep_tables d d' \<or> nodes d' = nodes d0 \<and> peers d' = peers d0 \<and> subnets d' = subnets d0"
      using run k0 k by (cases r0; cases r1; cases ra; cases rb) (auto simp: restore_tables_def keep_tables_def)
    then show ?thesis using Inl k0 by (auto simp: keep_tables_def)
  next
    case (Inr u)
    then have "r1 = Inr () \<and> d' = db"
      using run by (cases r0; cases r1; cases ra; cases rb) auto
    then show ?thesis using Inr k0 fn k by auto
  qed
qed

theorem ExecTx_atomic_witness:
  "let d = empty_db 0 [False, True]; d' = snd (ExecTx (DeletePeer ''p'') d) in
    (case fst (ExecTx (DeletePeer ''p'') d) of
      Inl _ \<Rightarrow> nodes d' = nodes d \<and> peers d' = peers d \<and> subnets d' = subnets d
    | Inr _ \<Rightarrow> \<exists>d0 d1. keep_tables d d0 \<and> DeletePeer ''p'' d0 = (Inr (), d1) \<and> keep_tables d1 d')"
  unfolding Let_def by (rule ExecTx_atomic) simp

end
