(* ===== verification/IpService.thy ===== *)
theory IpService
  imports IpAlloc StoreInv
begin

text \<open>
  The IP repository (\<open>infrastructure/store/subnet_repository.go\<close>) and the IP service
  (\<open>ip/service.go\<close>). The service functions that change or combine state take the repository
  operations they call as arguments, as the Go service holds an interface value; the locale
  \<open>subnet_repository\<close> states what they rely on and is interpreted on the database repository.
\<close>

section \<open>Repository\<close>

text \<open>The error mapping of every repository function.\<close>

definition db_error :: "string \<Rightarrow> go_error \<Rightarrow> go_error" where
  "db_error msg e = NewDatabaseError ErrCodeDatabase msg True (Some e)"

definition map_err :: "(go_error \<Rightarrow> go_error) \<Rightarrow> 'a res \<Rightarrow> 'a res" where
  "map_err f r = (case r of Inl e \<Rightarrow> Inl (f e) | Inr x \<Rightarrow> Inr x)"

lemma map_err_simps [simp]:
  "map_err f (Inl e) = Inl (f e)" "map_err f (Inr x) = Inr x"
  "map_err f r = Inr x \<longleftrightarrow> r = Inr x" "map_err f r = Inl e' \<longleftrightarrow> (\<exists>e. r = Inl e \<and> e' = f e)"
  by (auto simp: map_err_def split: sum.splits)

definition toDomainSubnet :: "SubnetRow \<Rightarrow> Subnet res" where
  "toDomainSubnet r =
     (case ParseCIDR (s_subnet_cidr r) of
        None \<Rightarrow> Inl (WrapError ''invalid subnet CIDR'' (PlainError ''invalid CIDR address''))
      | Some (_, network) \<Rightarrow>
          (case NewIPv4Address (s_gateway_ip r) of
             Inl e \<Rightarrow> Inl (WrapError ''invalid gateway IP'' e)
           | Inr gateway \<Rightarrow>
               (case NewIPv4Address (s_ip_range_start r) of
                  Inl e \<Rightarrow> Inl (WrapError ''invalid range start IP'' e)
                | Inr rangeStart \<Rightarrow>
                    (case NewIPv4Address (s_ip_range_end r) of
                       Inl e \<Rightarrow> Inl (WrapError ''invalid range end IP'' e)
                     | Inr rangeEnd \<Rightarrow>
                         Inr \<lparr>sn_NodeID = s_node_id r, sn_CIDR = s_subnet_cidr r, sn_Network = network,
                              sn_Gateway = gateway, sn_RangeStart = rangeStart, sn_RangeEnd = rangeEnd\<rparr>))))"

definition repo_CreateSubnet :: "Subnet \<Rightarrow> Db \<Rightarrow> unit res \<times> Db" where
  "repo_CreateSubnet s d =
     (case CreateNodeSubnet (sn_NodeID s) (sn_CIDR s) (print_ip (sn_Gateway s))
             (print_ip (sn_RangeStart s)) (print_ip (sn_RangeEnd s)) d of
        (Inl e, d') \<Rightarrow> (Inl (db_error ''failed to create subnet in database'' e), d')
      | (Inr _, d') \<Rightarrow> (Inr (), d'))"

definition repo_GetSubnet :: "string \<Rightarrow> Db \<Rightarrow> Subnet res \<times> Db" where
  "repo_GetSubnet nodeID d =
     (case GetNodeSubnet nodeID d of
        (Inl e, d') \<Rightarrow>
          (Inl (if e = ErrNoRows then NewIPError ErrCodeSubnetNotFound ''subnet for node not found'' False (Some e)
                else db_error ''failed to get subnet from database'' e), d')
      | (Inr r, d') \<Rightarrow> (toDomainSubnet r, d'))"

text \<open>The conversion loop of \<open>GetAllSubnets\<close>: the first bad row fails the whole call.\<close>

fun toDomainSubnets :: "SubnetRow list \<Rightarrow> Subnet list res" where
  "toDomainSubnets [] = Inr []"
| "toDomainSubnets (r # rs) =
     (case toDomainSubnet r of
        Inl e \<Rightarrow> Inl (NewIPError ErrCodeInvalidCIDR ''failed to convert subnet for node'' False (Some e))
      | Inr s \<Rightarrow> (case toDomainSubnets rs of Inl e \<Rightarrow> Inl e | Inr ss \<Rightarrow> Inr (s # ss)))"

definition repo_GetAllSubnets :: "Db \<Rightarrow> Subnet list res \<times> Db" where
  "repo_GetAllSubnets d =
     (case GetAllNodeSubnets d of
        (Inl e, d') \<Rightarrow> (Inl (db_error ''failed to get all subnets from database'' e), d')
      | (Inr rs, d') \<Rightarrow> (toDomainSubnets rs, d'))"

definition repo_DeleteSubnet :: "string \<Rightarrow> Db \<Rightarrow> unit res \<times> Db" where
  "repo_DeleteSubnet nodeID d =
     (case DeleteNodeSubnet nodeID d of
        (Inl e, d') \<Rightarrow>
          (Inl (if e = ErrNoRows
                then NewIPError ErrCodeSubnetNotFound ''subnet for node not found for deletion'' False (Some e)
                else db_error ''failed to delete subnet from database'' e), d')
      | (Inr _, d') \<Rightarrow> (Inr (), d'))"

definition repo_SubnetExists :: "string \<Rightarrow> Db \<Rightarrow> bool res \<times> Db" where
  "repo_SubnetExists nodeID d =
     (case GetNodeSubnet nodeID d of
        (Inl e, d') \<Rightarrow>
          (if e = ErrNoRows then Inr False else Inl (db_error ''failed to check subnet existence'' e), d')
      | (Inr _, d') \<Rightarrow> (Inr True, d'))"

definition repo_GetUsedSubnetCIDRs :: "Db \<Rightarrow> string list res \<times> Db" where
  "repo_GetUsedSubnetCIDRs d =
     (case GetUsedSubnetCIDRs d of (r, d') \<Rightarrow> (map_err (db_error ''failed to get used subnet CIDRs'') r, d'))"

definition repo_CountSubnets :: "Db \<Rightarrow> int res \<times> Db" where
  "repo_CountSubnets d =
     (case GetAllNodeSubnets d of
        (Inl e, d') \<Rightarrow> (Inl (db_error ''failed to count subnets'' e), d')
      | (Inr rs, d') \<Rightarrow> (Inr (int (length rs)), d'))"

fun parse_ips :: "string list \<Rightarrow> ip4 list res" where
  "parse_ips [] = Inr []"
| "parse_ips (s # ss) =
     (case NewIPv4Address s of
        Inl e \<Rightarrow> Inl (NewIPError ErrCodeInvalidIPAddress ''invalid IP address in database'' False (Some e))
      | Inr a \<Rightarrow> (case parse_ips ss of Inl e \<Rightarrow> Inl e | Inr as \<Rightarrow> Inr (a # as)))"

definition repo_GetAllocatedIPs :: "string \<Rightarrow> Db \<Rightarrow> ip4 list res \<times> Db" where
  "repo_GetAllocatedIPs nodeID d =
     (case GetAllocatedIPsByNode nodeID d of
        (Inl e, d') \<Rightarrow> (Inl (db_error ''failed to get allocated IPs from database'' e), d')
      | (Inr ss, d') \<Rightarrow> (parse_ips ss, d'))"

definition repo_CountAllocatedIPs :: "string \<Rightarrow> Db \<Rightarrow> int res \<times> Db" where
  "repo_CountAllocatedIPs nodeID d =
     (case CountPeersByNode nodeID d of (r, d') \<Rightarrow> (map_err (db_error ''failed to count allocated IPs'') r, d'))"

definition positive :: "int res \<Rightarrow> bool res" where
  "positive r = (case r of Inl e \<Rightarrow> Inl e | Inr n \<Rightarrow> Inr (n > 0))"

definition repo_IPExists :: "string \<Rightarrow> Db \<Rightarrow> bool res \<times> Db" where
  "repo_IPExists addr d =
     (case CheckIPConflictQ addr d of
        (r, d') \<Rightarrow> (positive (map_err (db_error ''failed to check IP existence'') r), d'))"

definition ipRepo_CheckIPConflict :: "string \<Rightarrow> Db \<Rightarrow> bool res \<times> Db" where
  "ipRepo_CheckIPConflict addr d =
     (case CheckIPConflictQ addr d of
        (r, d') \<Rightarrow> (positive (map_err (db_error ''failed to check IP conflict'') r), d'))"

definition ipRepo_CheckPublicKeyConflict :: "string \<Rightarrow> Db \<Rightarrow> bool res \<times> Db" where
  "ipRepo_CheckPublicKeyConflict key d =
     (case CheckPublicKeyConflictQ key d of
        (r, d') \<Rightarrow> (positive (map_err (db_error ''failed to check public key conflict'') r), d'))"

section \<open>Service\<close>

definition NewIpService :: "NetworkConfig \<Rightarrow> NetworkConfig res" where
  "NewIpService config =
     (case NetworkConfig_Validate config of
        Inl e \<Rightarrow> Inl (NewSystemError ErrCodeConfiguration ''invalid network configuration'' False (Some e))
      | Inr _ \<Rightarrow> Inr config)"

text \<open>Any error of the lookup counts as ``no subnet yet''.\<close>

definition AllocateNodeSubnet ::
  "(string \<Rightarrow> 'st \<Rightarrow> Subnet res \<times> 'st) \<Rightarrow> ('st \<Rightarrow> string list res \<times> 'st) \<Rightarrow>
   (Subnet \<Rightarrow> 'st \<Rightarrow> unit res \<times> 'st) \<Rightarrow> NetworkConfig \<Rightarrow> string \<Rightarrow> 'st \<Rightarrow> IPNet res \<times> 'st" where
  "AllocateNodeSubnet get used create c nodeID st =
     (case SubnetRequest_Validate nodeID of
        Inl e \<Rightarrow> (Inl e, st)
      | Inr _ \<Rightarrow>
          (case get nodeID st of
             (Inr existing, st1) \<Rightarrow> (Inr (sn_Network existing), st1)
           | (Inl _, st1) \<Rightarrow>
               (case used st1 of
                  (Inl e, st2) \<Rightarrow> (Inl (db_error ''failed to get used subnets'' e), st2)
                | (Inr usedCIDRs, st2) \<Rightarrow>
                    (case FindNextAvailableSubnet c usedCIDRs of
                       Inl e \<Rightarrow> (Inl (NewIPError ErrCodeSubnetExhausted
                                  ''failed to find next available subnet'' False (Some e)), st2)
                     | Inr s0 \<Rightarrow>
                         (let s = s0\<lparr>sn_NodeID := nodeID\<rparr> in
                          case ValidateSubnetAllocation c (Some s) of
                            Inl e \<Rightarrow> (Inl (NewIPError ErrCodeInvalidCIDR
                                       ''invalid subnet allocation'' False (Some e)), st2)
                          | Inr _ \<Rightarrow>
                              (case create s st2 of
                                 (Inl e, st3) \<Rightarrow> (Inl (db_error ''failed to store subnet'' e), st3)
                               | (Inr _, st3) \<Rightarrow> (Inr (sn_Network s), st3)))))))"

definition ReleaseNodeSubnet :: "string \<Rightarrow> Db \<Rightarrow> unit res \<times> Db" where
  "ReleaseNodeSubnet nodeID d =
     (case SubnetRequest_Validate nodeID of
        Inl e \<Rightarrow> (Inl e, d)
      | Inr _ \<Rightarrow>
          (case repo_SubnetExists nodeID d of
             (Inl e, d1) \<Rightarrow> (Inl (db_error ''failed to check subnet existence'' e), d1)
           | (Inr False, d1) \<Rightarrow> (Inr (), d1)
           | (Inr True, d1) \<Rightarrow>
               (case repo_DeleteSubnet nodeID d1 of
                  (Inl e, d2) \<Rightarrow> (Inl (db_error ''failed to delete subnet'' e), d2)
                | (Inr _, d2) \<Rightarrow> (Inr (), d2))))"

definition GetNodeSubnet_svc :: "string \<Rightarrow> Db \<Rightarrow> Subnet res \<times> Db" where
  "GetNodeSubnet_svc nodeID d =
     (case SubnetRequest_Validate nodeID of
        Inl e \<Rightarrow> (Inl e, d)
      | Inr _ \<Rightarrow>
          (case repo_GetSubnet nodeID d of
             (r, d1) \<Rightarrow>
               (map_err (\<lambda>e. NewIPError ErrCodeSubnetExhausted ''failed to get subnet for node'' False (Some e)) r, d1)))"

definition AllocateClientIP ::
  "(string \<Rightarrow> 'st \<Rightarrow> Subnet res \<times> 'st) \<Rightarrow> (string \<Rightarrow> 'st \<Rightarrow> ip4 list res \<times> 'st) \<Rightarrow>
   string \<Rightarrow> 'st \<Rightarrow> ip4 res \<times> 'st" where
  "AllocateClientIP get allocated nodeID st =
     (case SubnetRequest_Validate nodeID of
        Inl e \<Rightarrow> (Inl e, st)
      | Inr _ \<Rightarrow>
          (case get nodeID st of
             (Inl e, st1) \<Rightarrow>
               (Inl (NewIPError ErrCodeSubnetExhausted ''node has no allocated subnet'' False (Some e)), st1)
           | (Inr subnet, st1) \<Rightarrow>
               (case allocated nodeID st1 of
                  (Inl e, st2) \<Rightarrow> (Inl (db_error ''failed to get allocated IPs'' e), st2)
                | (Inr ips, st2) \<Rightarrow>
                    (case FindNextAvailableIP (Some subnet) ips of
                       Inl e \<Rightarrow> (Inl (NewIPError ErrCodeSubnetExhausted
                                  ''failed to find next available IP'' False (Some e)), st2)
                     | Inr a \<Rightarrow> (Inr a, st2)))))"

text \<open>\<open>ReleaseClientIP\<close> only validates and logs.\<close>

definition ReleaseClientIP :: "string \<Rightarrow> ip4 \<Rightarrow> Db \<Rightarrow> unit res \<times> Db" where
  "ReleaseClientIP nodeID addr d = (SubnetRequest_Validate nodeID, d)"

definition GetAllocatedIPs_svc :: "string \<Rightarrow> Db \<Rightarrow> ip4 list res \<times> Db" where
  "GetAllocatedIPs_svc nodeID d =
     (case SubnetRequest_Validate nodeID of
        Inl e \<Rightarrow> (Inl e, d)
      | Inr _ \<Rightarrow>
          (case repo_GetAllocatedIPs nodeID d of
             (r, d1) \<Rightarrow> (map_err (db_error ''failed to get allocated IPs for node'') r, d1)))"

definition GetAvailableIPCount :: "string \<Rightarrow> Db \<Rightarrow> int res \<times> Db" where
  "GetAvailableIPCount nodeID d =
     (case SubnetRequest_Validate nodeID of
        Inl e \<Rightarrow> (Inl e, d)
      | Inr _ \<Rightarrow>
          (case repo_GetSubnet nodeID d of
             (Inl e, d1) \<Rightarrow> (Inl (NewIPError ErrCodeSubnetExhausted ''failed to get subnet'' False (Some e)), d1)
           | (Inr subnet, d1) \<Rightarrow>
               (case repo_CountAllocatedIPs nodeID d1 of
                  (Inl e, d2) \<Rightarrow> (Inl (db_error ''failed to count allocated IPs'' e), d2)
                | (Inr n, d2) \<Rightarrow> (Inr (AvailableIPs (CalculateCapacityInfo subnet n)), d2))))"

definition CheckIPConflict_svc :: "string \<Rightarrow> Db \<Rightarrow> bool res \<times> Db" where
  "CheckIPConflict_svc addr d =
     (case NewIPv4Address addr of
        Inl e \<Rightarrow> (Inl e, d)
      | Inr _ \<Rightarrow> ipRepo_CheckIPConflict addr d)"

definition CheckPublicKeyConflict_svc :: "string \<Rightarrow> Db \<Rightarrow> bool res \<times> Db" where
  "CheckPublicKeyConflict_svc key d =
     (case AllocationRequest_Validate \<lparr>ar_NodeID = ''tmp'', ar_PeerID = ''tmp'', ar_PublicKey = key\<rparr> of
        Inl e \<Rightarrow> (Inl e, d)
      | Inr _ \<Rightarrow> ipRepo_CheckPublicKeyConflict key d)"

section \<open>The repository contract\<close>

text \<open>A stored subnet: laid out by \<open>NewSubnet\<close>, with its CIDR text.\<close>

definition subnet_stored :: "string \<Rightarrow> Subnet \<Rightarrow> bool" where
  "subnet_stored i s =
     (subnet_layout s \<and> sn_CIDR s = net_string (sn_Network s) \<and> sn_NodeID s = i)"

text \<open>An allocation table whose networks are subnets of the configuration and pairwise disjoint.\<close>

definition subnet_pool :: "NetworkConfig \<Rightarrow> IPNet \<Rightarrow> (string \<rightharpoonup> Subnet) \<Rightarrow> bool" where
  "subnet_pool c b v =
     ((\<forall>i s. v i = Some s \<longrightarrow>
        (\<exists>k < 2 ^ (nat (SubnetMask c) - net_ones b). sn_Network s = subnet_at c b k)) \<and>
      (\<forall>i j s t x. v i = Some s \<longrightarrow> v j = Some t \<longrightarrow> i \<noteq> j \<longrightarrow>
         net_contains (sn_Network s) x \<longrightarrow> \<not> net_contains (sn_Network t) x))"

lemma subnet_pool_insert:
  assumes c: "config_base c b" and pool: "subnet_pool c b v"
    and st: "\<And>i t. v i = Some t \<Longrightarrow> subnet_stored i t"
    and s: "subnet_stored nid s" "k < 2 ^ (nat (SubnetMask c) - net_ones b)" "sn_Network s = subnet_at c b k"
    and fresh: "sn_CIDR s \<notin> sn_CIDR ` ran v" and new: "v nid = None"
  shows "subnet_pool c b (v(nid \<mapsto> s))"
proof -
  have disj: "\<not> (net_contains (sn_Network s) x \<and> net_contains (sn_Network t) x)" if t: "v j = Some t" for j t x
  proof -
    obtain l where l: "l < 2 ^ (nat (SubnetMask c) - net_ones b)" "sn_Network t = subnet_at c b l"
      using pool t unfolding subnet_pool_def by blast
    have "sn_CIDR s \<noteq> sn_CIDR t" using fresh t by (auto simp: ran_def)
    then have "k \<noteq> l" using st [OF t] s l by (auto simp: subnet_stored_def)
    then show ?thesis using subnet_at_disjoint_less [OF c] s(2,3) l by (metis linorder_neqE_nat)
  qed
  have old: "\<And>i j s t x. v i = Some s \<Longrightarrow> v j = Some t \<Longrightarrow> i \<noteq> j \<Longrightarrow>
      net_contains (sn_Network s) x \<Longrightarrow> \<not> net_contains (sn_Network t) x"
    using pool by (simp add: subnet_pool_def)
  have old2: "\<And>i t. v i = Some t \<Longrightarrow> \<exists>k < 2 ^ (nat (SubnetMask c) - net_ones b). sn_Network t = subnet_at c b k"
    using pool by (simp add: subnet_pool_def)
  show ?thesis
    unfolding subnet_pool_def
  proof (intro conjI allI impI)
    fix i t assume "(v(nid \<mapsto> s)) i = Some t"
    then show "\<exists>k < 2 ^ (nat (SubnetMask c) - net_ones b). sn_Network t = subnet_at c b k"
      using s(2,3) old2 by (auto split: if_splits)
  next
    fix i j t u x
    assume a: "(v(nid \<mapsto> s)) i = Some t" "(v(nid \<mapsto> s)) j = Some u" "i \<noteq> j" "net_contains (sn_Network t) x"
    show "\<not> net_contains (sn_Network u) x"
    proof (cases "i = nid")
      case True
      then have "t = s" "v j = Some u" using a(1-3) by simp_all
      then show ?thesis using disj [of j u x] a(4) by simp
    next
      case i: False
      show ?thesis
      proof (cases "j = nid")
        case True
        then have "u = s" "v i = Some t" using a(1,2) i by simp_all
        then show ?thesis using disj [of i t x] a(4) by simp
      next
        case False
        then have "v i = Some t" "v j = Some u" using a(1,2) i by simp_all
        then show ?thesis using old a(3,4) by blast
      qed
    qed
  qed
qed

text \<open>What the service relies on: lookups and listings leave the table alone and report it, and a
  creation that succeeds adds exactly one row for a node that had none.\<close>

locale subnet_repository =
  fixes good :: "'st \<Rightarrow> bool"
    and view :: "'st \<Rightarrow> string \<rightharpoonup> Subnet"
    and get :: "string \<Rightarrow> 'st \<Rightarrow> Subnet res \<times> 'st"
    and used :: "'st \<Rightarrow> string list res \<times> 'st"
    and create :: "Subnet \<Rightarrow> 'st \<Rightarrow> unit res \<times> 'st"
  assumes stored: "\<lbrakk>good st; view st i = Some s\<rbrakk> \<Longrightarrow> subnet_stored i s"
    and get_keeps: "\<lbrakk>good st; get i st = (r, st')\<rbrakk> \<Longrightarrow> good st' \<and> view st' = view st"
    and get_reads: "\<lbrakk>good st; get i st = (Inr s, st')\<rbrakk> \<Longrightarrow> view st i = Some s"
    and used_keeps: "\<lbrakk>good st; used st = (q, st')\<rbrakk> \<Longrightarrow> good st' \<and> view st' = view st"
    and used_reads: "\<lbrakk>good st; used st = (Inr cs, st')\<rbrakk> \<Longrightarrow> set cs = sn_CIDR ` ran (view st)"
    and create_adds: "\<lbrakk>good st; subnet_stored i s; create s st = (Inr (), st')\<rbrakk> \<Longrightarrow>
        good st' \<and> view st i = None \<and> view st' = (view st)(i \<mapsto> s)"
    and create_fails: "\<lbrakk>good st; create s st = (Inl e, st')\<rbrakk> \<Longrightarrow> good st' \<and> view st' = view st"
begin

text \<open>The three ways an allocation ends.\<close>

lemma allocate_cases:
  assumes c: "config_base c b" and g: "good st"
    and run: "AllocateNodeSubnet get used create c nid st = (r, st')"
  shows "good st' \<and>
    ((\<exists>e. r = Inl e \<and> view st' = view st) \<or>
     (\<exists>s. r = Inr (sn_Network s) \<and> view st nid = Some s \<and> view st' = view st) \<or>
     (\<exists>s k. r = Inr (sn_Network s) \<and> view st nid = None \<and> view st' = (view st)(nid \<mapsto> s) \<and>
        subnet_stored nid s \<and> k < 2 ^ (nat (SubnetMask c) - net_ones b) \<and>
        sn_Network s = subnet_at c b k \<and> sn_CIDR s \<notin> sn_CIDR ` ran (view st)))"
proof -
  let ?S = "view st"
  let ?bound = "2 ^ (nat (SubnetMask c) - net_ones b)"
  obtain r1 st1 where e1: "get nid st = (r1, st1)" by fastforce
  have k1: "good st1" "view st1 = ?S" using get_keeps [OF g e1] by auto
  obtain r2 st2 where e2: "used st1 = (r2, st2)" by fastforce
  have k2: "good st2" "view st2 = ?S" using used_keeps [OF k1(1) e2] k1 by auto
  note unf = AllocateNodeSubnet_def e1 e2
  consider (early) e where "r = Inl e" "st' \<in> {st, st2}"
    | (existing) s where "r1 = Inr s" "r = Inr (sn_Network s)" "st' = st1"
    | (store) cs s0 r3 where "r2 = Inr cs" "FindNextAvailableSubnet c cs = Inr s0"
        "create (s0\<lparr>sn_NodeID := nid\<rparr>) st2 = (r3, st')"
        "r = (case r3 of Inl e \<Rightarrow> Inl (db_error ''failed to store subnet'' e) | Inr _ \<Rightarrow> Inr (sn_Network s0))"
    using run by (auto simp: unf Let_def split: sum.splits prod.splits)
  then show ?thesis
  proof cases
    case early
    then show ?thesis using g k2 by auto
  next
    case existing
    then show ?thesis using k1 get_reads [OF g, of nid s st1] e1 by auto
  next
    case store
    let ?s = "s0\<lparr>sn_NodeID := nid\<rparr>"
    have cs: "set cs = sn_CIDR ` ran ?S" using used_reads [OF k1(1), of cs st2] e2 store(1) k1 by simp
    obtain k where k: "k < ?bound" "net_string (subnet_at c b k) \<notin> set cs"
      "sn_Network s0 = subnet_at c b k" "sn_CIDR s0 = net_string (subnet_at c b k)" "subnet_layout s0"
      using find_subnet_loop_spec [OF c, of "[0..<?bound]" cs] store(2)
      unfolding FindNextAvailableSubnet_find [OF c] by (auto split: option.splits dest!: find_Some_mem)
    have stored: "subnet_stored nid ?s" using k by (simp add: subnet_stored_def subnet_layout_def)
    show ?thesis
    proof (cases r3)
      case (Inl e)
      then show ?thesis using store create_fails [OF k2(1), of ?s e st'] k2 by auto
    next
      case (Inr w)
      have "create ?s st2 = (Inr (), st')" using store(3) Inr by simp
      note add = create_adds [OF k2(1) stored this]
      have "r = Inr (sn_Network ?s)" using store(4) Inr by simp
      then show ?thesis using add stored k k2 cs by (intro conjI disjI2 exI [of _ ?s] exI [of _ k]) auto
    qed
  qed
qed

lemma allocate_keeps_pool:
  assumes c: "config_base c b" and g: "good st" and pool: "subnet_pool c b (view st)"
    and run: "AllocateNodeSubnet get used create c nid st = (r, st')"
  shows "good st' \<and> subnet_pool c b (view st')"
  using allocate_cases [OF c g run] subnet_pool_insert [OF c pool stored [OF g]] pool by auto

lemma allocate_records:
  assumes c: "config_base c b" and g: "good st"
    and run: "AllocateNodeSubnet get used create c nid st = (Inr n, st')"
  shows "\<exists>s. view st' nid = Some s \<and> sn_Network s = n \<and> (\<forall>j. j \<noteq> nid \<longrightarrow> view st' j = view st j)"
  using allocate_cases [OF c g run] by auto

end

section \<open>The database meets the contract\<close>

definition db_good :: "Db \<Rightarrow> bool" where
  "db_good d = (db_ok d \<and>
     (\<forall>r\<in>set (subnets d). \<exists>s. toDomainSubnet r = Inr s \<and> subnet_stored (s_node_id r) s))"

definition db_view :: "Db \<Rightarrow> string \<rightharpoonup> Subnet" where
  "db_view d i =
     (case find (\<lambda>r. s_node_id r = i) (subnets d) of
        None \<Rightarrow> None
      | Some r \<Rightarrow> (case toDomainSubnet r of Inl _ \<Rightarrow> None | Inr s \<Rightarrow> Some s))"

lemma print_ip_not_Nil [simp]: "print_ip a \<noteq> []"
  by (simp add: print_ip_def ip_bytes_def)

lemma NewIPv4Address_print [simp]: "NewIPv4Address (print_ip a) = Inr a"
  by (simp add: NewIPv4Address_def validateIPv4Address_def)

lemma NewIPv4Address_Inr: "NewIPv4Address s = Inr a \<longleftrightarrow> s \<noteq> [] \<and> ParseIP s = Some a"
  by (auto simp: NewIPv4Address_def validateIPv4Address_def split: option.splits)

lemma toDomainSubnet_fields:
  "toDomainSubnet r = Inr s \<Longrightarrow> sn_CIDR s = s_subnet_cidr r \<and> sn_NodeID s = s_node_id r"
  by (auto simp: toDomainSubnet_def split: option.splits sum.splits)

text \<open>Writing a subnet to a row and reading the row back.\<close>

lemma toDomainSubnet_row:
  assumes "subnet_stored i s"
  shows "toDomainSubnet \<lparr>s_node_id = i, s_subnet_cidr = sn_CIDR s, s_gateway_ip = print_ip (sn_Gateway s),
      s_ip_range_start = print_ip (sn_RangeStart s), s_ip_range_end = print_ip (sn_RangeEnd s),
      s_created_at = t\<rparr> = Inr s"
  using assms ParseCIDR_net_string [of "sn_Network s"]
  by (simp add: toDomainSubnet_def subnet_stored_def subnet_layout_def Let_def)

lemma db_good_keep: "keep_tables d d' \<Longrightarrow> db_good d \<Longrightarrow> db_good d' \<and> db_view d' = db_view d"
  using db_ok_keep [of d d'] by (auto simp: db_good_def db_view_def keep_tables_def fun_eq_iff)

lemma find_append_cases:
  "find P (xs @ ys) = (case find P xs of None \<Rightarrow> find P ys | Some x \<Rightarrow> Some x)"
  by (induction xs) auto

lemma db_view_row:
  assumes "db_good d" "r \<in> set (subnets d)"
  shows "\<exists>s. toDomainSubnet r = Inr s \<and> db_view d (s_node_id r) = Some s \<and> subnet_stored (s_node_id r) s"
proof -
  obtain s where s: "toDomainSubnet r = Inr s" "subnet_stored (s_node_id r) s"
    using assms by (auto simp: db_good_def)
  have "distinct (map s_node_id (subnets d))"
    using assms(1) by (simp add: db_good_def db_ok_def subnets_ok_def)
  then have "find (\<lambda>y. s_node_id y = s_node_id r) (subnets d) = Some r"
    using assms(2) by (rule inj_on_key_find)
  with s show ?thesis by (simp add: db_view_def)
qed

lemma db_view_Some:
  assumes "db_view d i = Some s"
  obtains r where "r \<in> set (subnets d)" "s_node_id r = i" "toDomainSubnet r = Inr s"
  using assms by (auto simp: db_view_def split: option.splits sum.splits dest!: find_Some_mem)

lemma db_view_cidrs: "db_good d \<Longrightarrow> sn_CIDR ` ran (db_view d) = s_subnet_cidr ` set (subnets d)"
proof (intro set_eqI iffI)
  fix x assume "db_good d" "x \<in> sn_CIDR ` ran (db_view d)"
  then obtain i s where "db_view d i = Some s" "x = sn_CIDR s" by (auto simp: ran_def)
  then show "x \<in> s_subnet_cidr ` set (subnets d)"
    by (auto elim!: db_view_Some dest!: toDomainSubnet_fields)
next
  fix x assume g: "db_good d" and "x \<in> s_subnet_cidr ` set (subnets d)"
  then obtain r where r: "r \<in> set (subnets d)" "x = s_subnet_cidr r" by auto
  obtain s where "toDomainSubnet r = Inr s" "db_view d (s_node_id r) = Some s"
    using db_view_row [OF g r(1)] by auto
  then show "x \<in> sn_CIDR ` ran (db_view d)"
    using r(2) toDomainSubnet_fields by (auto simp: ran_def image_iff)
qed

lemma GetNodeSubnet_result:
  "GetNodeSubnet i d = (r, d') \<Longrightarrow>
   keep_tables d d' \<and> (r = Inl ErrIO \<or> r = scan_one (find (\<lambda>r. s_node_id r = i) (subnets d)))"
  unfolding GetNodeSubnet_def by (rule select_one_result) (auto simp: keep_tables_def)

lemma GetUsedSubnetCIDRs_result:
  "GetUsedSubnetCIDRs d = (r, d') \<Longrightarrow>
   keep_tables d d' \<and> (r = Inl ErrIO \<or> r = Inr (map s_subnet_cidr (subnets d)))"
  unfolding GetUsedSubnetCIDRs_def by (rule select_many_result) (auto simp: keep_tables_def)

lemma repo_GetSubnet_result:
  assumes "repo_GetSubnet i d = (r, d')"
  shows "keep_tables d d' \<and> (r = Inr s \<longrightarrow> db_view d i = Some s)"
proof -
  obtain q d1 where q: "GetNodeSubnet i d = (q, d1)" by fastforce
  from GetNodeSubnet_result [OF q] assms show ?thesis
    by (auto simp: repo_GetSubnet_def q db_view_def scan_one_def split: sum.splits option.splits)
qed

lemma repo_GetUsed_result:
  assumes "repo_GetUsedSubnetCIDRs d = (r, d')"
  shows "keep_tables d d' \<and> (r = Inr cs \<longrightarrow> cs = map s_subnet_cidr (subnets d))"
proof -
  obtain q d1 where q: "GetUsedSubnetCIDRs d = (q, d1)" by fastforce
  from GetUsedSubnetCIDRs_result [OF q] assms show ?thesis
    by (auto simp: repo_GetUsedSubnetCIDRs_def q)
qed

text \<open>\<open>CreateNodeSubnet\<close> either adds its row or leaves the tables alone.\<close>

lemma CreateNodeSubnet_result:
  assumes "CreateNodeSubnet i cidr gw rs re d = (r, d')"
  shows "(\<exists>e. r = Inl e \<and> keep_tables d d') \<or>
    (\<exists>row. r = Inr row \<and> row = \<lparr>s_node_id = i, s_subnet_cidr = cidr, s_gateway_ip = gw,
        s_ip_range_start = rs, s_ip_range_end = re, s_created_at = clock d\<rparr> \<and>
      i \<notin> s_node_id ` set (subnets d) \<and> subnets d' = subnets d @ [row] \<and>
      nodes d' = nodes d \<and> peers d' = peers d \<and> clock d' = clock d)"
  using assms unfolding CreateNodeSubnet_def
  by (cases "faults d") (auto simp: run_query_def keep_tables_def Let_def node_ids_def split: if_splits bool.splits)

lemma repo_CreateSubnet_result:
  assumes g: "db_good d" and run: "repo_CreateSubnet s d = (r, d')"
  shows "db_ok d' \<and> ((\<exists>e. r = Inl e \<and> keep_tables d d') \<or>
    (r = Inr () \<and> (subnet_stored i s \<longrightarrow> db_good d' \<and> db_view d i = None \<and> db_view d' = (db_view d)(i \<mapsto> s))))"
proof -
  obtain q d1 where q: "CreateNodeSubnet (sn_NodeID s) (sn_CIDR s) (print_ip (sn_Gateway s))
      (print_ip (sn_RangeStart s)) (print_ip (sn_RangeEnd s)) d = (q, d1)" by fastforce
  have d1: "d1 = d'" using run by (cases q) (auto simp: repo_CreateSubnet_def q)
  have ok: "db_ok d'" using CreateNodeSubnet_ok [of d] g q d1 by (metis db_good_def snd_conv)
  from CreateNodeSubnet_result [OF q] show ?thesis
  proof (elim disjE exE conjE)
    fix e assume "q = Inl e" "keep_tables d d1"
    then show ?thesis using run ok d1 by (auto simp: repo_CreateSubnet_def q)
  next
    fix row
    assume row: "q = Inr row" "row = \<lparr>s_node_id = sn_NodeID s, s_subnet_cidr = sn_CIDR s,
        s_gateway_ip = print_ip (sn_Gateway s), s_ip_range_start = print_ip (sn_RangeStart s),
        s_ip_range_end = print_ip (sn_RangeEnd s), s_created_at = clock d\<rparr>"
      "sn_NodeID s \<notin> s_node_id ` set (subnets d)" "subnets d1 = subnets d @ [row]"
    have "db_good d' \<and> db_view d i = None \<and> db_view d' = (db_view d)(i \<mapsto> s)" if st: "subnet_stored i s"
    proof -
      have i: "sn_NodeID s = i" using st by (simp add: subnet_stored_def)
      have tr: "toDomainSubnet row = Inr s" using toDomainSubnet_row [OF st] by (simp add: row(2) i)
      have none: "find (\<lambda>r. s_node_id r = i) (subnets d) = None" using row(3) i by (force simp: find_None_all)
      have "s_node_id row = i" by (simp add: row(2) i)
      then have "db_view d' = (db_view d)(i \<mapsto> s)"
        using tr none row(4) d1 by (auto simp: db_view_def find_append_cases fun_eq_iff split: option.splits)
      moreover have "db_good d'"
        using g ok tr st row(4) d1 \<open>s_node_id row = i\<close> by (auto simp: db_good_def)
      moreover have "db_view d i = None" using none by (simp add: db_view_def)
      ultimately show ?thesis by simp
    qed
    then show ?thesis using run ok row(1) by (auto simp: repo_CreateSubnet_def q)
  qed
qed

interpretation db_subnets: subnet_repository db_good db_view repo_GetSubnet repo_GetUsedSubnetCIDRs repo_CreateSubnet
proof unfold_locales
  fix st i s assume "db_good st" "db_view st i = Some s"
  then show "subnet_stored i s" using db_view_row by (fastforce elim!: db_view_Some)
next
  fix st i r st' assume "db_good st" "repo_GetSubnet i st = (r, st')"
  then show "db_good st' \<and> db_view st' = db_view st" using repo_GetSubnet_result db_good_keep by blast
next
  fix st i s st' assume "repo_GetSubnet i st = (Inr s, st')"
  then show "db_view st i = Some s" using repo_GetSubnet_result by blast
next
  fix st q st' assume "db_good st" "repo_GetUsedSubnetCIDRs st = (q, st')"
  then show "db_good st' \<and> db_view st' = db_view st" using repo_GetUsed_result db_good_keep by blast
next
  fix st cs st' assume "db_good st" "repo_GetUsedSubnetCIDRs st = (Inr cs, st')"
  then show "set cs = sn_CIDR ` ran (db_view st)" using repo_GetUsed_result db_view_cidrs by fastforce
next
  fix st i s st' assume "db_good st" "subnet_stored i s" "repo_CreateSubnet s st = (Inr (), st')"
  then show "db_good st' \<and> db_view st i = None \<and> db_view st' = (db_view st)(i \<mapsto> s)"
    using repo_CreateSubnet_result [of st s "Inr ()" st' i] by auto
next
  fix st s e st' assume "db_good st" "repo_CreateSubnet s st = (Inl e, st')"
  then show "db_good st' \<and> db_view st' = db_view st"
    using repo_CreateSubnet_result [of st s "Inl e" st'] db_good_keep by auto
qed

text \<open>The service on the database.\<close>

abbreviation AllocateNodeSubnet_db :: "NetworkConfig \<Rightarrow> string \<Rightarrow> Db \<Rightarrow> IPNet res \<times> Db" where
  "AllocateNodeSubnet_db \<equiv> AllocateNodeSubnet repo_GetSubnet repo_GetUsedSubnetCIDRs repo_CreateSubnet"

abbreviation AllocateClientIP_db :: "string \<Rightarrow> Db \<Rightarrow> ip4 res \<times> Db" where
  "AllocateClientIP_db \<equiv> AllocateClientIP repo_GetSubnet repo_GetAllocatedIPs"

section \<open>Properties\<close>

lemma empty_db_good: "db_good (empty_db now fs) \<and> db_view (empty_db now fs) = Map.empty"
  using empty_db_ok by (simp add: db_good_def db_view_def empty_db_def fun_eq_iff)

lemma SubnetRequest_ok: "nid \<noteq> [] \<Longrightarrow> length nid \<le> 255 \<Longrightarrow> SubnetRequest_Validate nid = Inr ()"
  by (simp add: SubnetRequest_Validate_def validateNodeID_def)

text \<open>C2: a subnet allocation, whatever database failures occur in it, keeps the allocated subnets
  pairwise disjoint subnets of the configured base network; when it succeeds the node owns the
  returned network and every other node keeps what it had.\<close>

theorem allocate_node_subnet_sound:
  assumes "config_base c b" "db_good d" "subnet_pool c b (db_view d)"
    and "AllocateNodeSubnet_db c nid d = (r, d')"
  shows "db_good d' \<and> subnet_pool c b (db_view d') \<and>
    (\<forall>n. r = Inr n \<longrightarrow> (\<exists>s. db_view d' nid = Some s \<and> sn_Network s = n) \<and>
       (\<forall>j. j \<noteq> nid \<longrightarrow> db_view d' j = db_view d j))"
  using db_subnets.allocate_keeps_pool [OF assms] db_subnets.allocate_records [OF assms(1,2), of nid _ d']
    assms(4) by blast

theorem allocate_node_subnet_sound_witness:
  "let d' = snd (AllocateNodeSubnet_db DefaultNetworkConfig ''node-1'' (empty_db 0 [])) in
   db_good d' \<and> subnet_pool DefaultNetworkConfig default_base (db_view d')"
proof -
  have "subnet_pool DefaultNetworkConfig default_base (db_view (empty_db 0 []))"
    using empty_db_good [of 0 "[]"] by (simp add: subnet_pool_def)
  from allocate_node_subnet_sound [OF default_config_base _ this, of "''node-1''"] empty_db_good
  show ?thesis
    by (cases "AllocateNodeSubnet_db DefaultNetworkConfig ''node-1'' (empty_db 0 [])") auto
qed

text \<open>When the database does not fail, the first allocation for an existing node without a subnet
  succeeds exactly when an index is free.\<close>

lemma ValidateSubnetAllocation_at:
  assumes c: "config_base c b" and k: "k < 2 ^ (nat (SubnetMask c) - net_ones b)"
    and s: "sn_Network s = subnet_at c b k"
  shows "ValidateSubnetAllocation c (Some s) = Inr ()"
proof -
  have al: "net_aligned (subnet_at c b k)" by (rule subnet_at_aligned [OF c k])
  have "net_contains b (net_ip (subnet_at c b k))"
    by (rule subnet_at_in_base [OF c k net_contains_own [OF al]])
  then show ?thesis
    using al config_baseD(6) [OF c]
    by (simp add: ValidateSubnetAllocation_def s validateSubnetAlignment_def net_aligned_def
        validateSubnetInBaseNetwork_def)
qed

lemma allocate_db_outcome:
  assumes c: "config_base c b" and g: "db_good d" and nf: "faults d = []"
    and nid: "nid \<noteq> []" "length nid \<le> 255" "nid \<in> node_ids d" "db_view d nid = None"
  shows "(case find (\<lambda>k. net_string (subnet_at c b k) \<notin> s_subnet_cidr ` set (subnets d))
            [0..<2 ^ (nat (SubnetMask c) - net_ones b)] of
      None \<Rightarrow> \<exists>e. AllocateNodeSubnet_db c nid d = (Inl e, d) \<and> GetErrorCode e = ErrCodeSubnetExhausted
    | Some k \<Rightarrow> \<exists>d'. AllocateNodeSubnet_db c nid d = (Inr (subnet_at c b k), d'))"
proof -
  have none: "find (\<lambda>r. s_node_id r = nid) (subnets d) = None"
  proof (rule ccontr)
    assume "find (\<lambda>r. s_node_id r = nid) (subnets d) \<noteq> None"
    then obtain r where "r \<in> set (subnets d)" "s_node_id r = nid" by (auto simp: find_None_all)
    then show False using db_view_row [OF g] nid(4) by fastforce
  qed
  have get: "\<exists>e. repo_GetSubnet nid d = (Inl e, d)"
    using nf none by (auto simp: repo_GetSubnet_def GetNodeSubnet_def select_nofault)
  have used: "repo_GetUsedSubnetCIDRs d = (Inr (map s_subnet_cidr (subnets d)), d)"
    using nf by (simp add: repo_GetUsedSubnetCIDRs_def GetUsedSubnetCIDRs_def select_nofault)
  let ?idx = "[0..<2 ^ (nat (SubnetMask c) - net_ones b)]"
  note spec = find_subnet_loop_spec [OF c, of ?idx "map s_subnet_cidr (subnets d)",
      folded FindNextAvailableSubnet_find [OF c], simplified set_map]
  show ?thesis
  proof (cases "find (\<lambda>k. net_string (subnet_at c b k) \<notin> s_subnet_cidr ` set (subnets d)) ?idx")
    case None
    then have "\<exists>e. FindNextAvailableSubnet c (map s_subnet_cidr (subnets d)) = Inl e"
      using spec by auto
    then show ?thesis
      using None get used SubnetRequest_ok [OF nid(1,2)] by (auto simp: AllocateNodeSubnet_def)
  next
    case (Some k)
    then have k: "k < 2 ^ (nat (SubnetMask c) - net_ones b)"
      "net_string (subnet_at c b k) \<notin> s_subnet_cidr ` set (subnets d)"
      by (auto dest!: find_Some_mem)
    obtain s where s: "FindNextAvailableSubnet c (map s_subnet_cidr (subnets d)) = Inr s"
      "sn_Network s = subnet_at c b k" "sn_CIDR s = net_string (subnet_at c b k)"
      using spec Some by auto
    have val: "ValidateSubnetAllocation c (Some (s\<lparr>sn_NodeID := nid\<rparr>)) = Inr ()"
      by (rule ValidateSubnetAllocation_at [OF c k(1)]) (simp add: s(2))
    have "nid \<notin> s_node_id ` set (subnets d)" using none by (force simp: find_None_all)
    then have "\<exists>d'. repo_CreateSubnet (s\<lparr>sn_NodeID := nid\<rparr>) d = (Inr (), d')"
      using nf nid(3) k(2) s(3)
      by (simp add: repo_CreateSubnet_def CreateNodeSubnet_def run_query_nofault Let_def)
    then show ?thesis
      using Some get used s val SubnetRequest_ok [OF nid(1,2)] by (auto simp: AllocateNodeSubnet_def Let_def)
  qed
qed

text \<open>Without database failures, allocation for an existing node with a valid id that has no
  subnet yet returns the first subnet of the base network whose CIDR text is unused; it fails
  exactly when all of them are used, and then changes nothing.\<close>

theorem allocate_node_subnet_complete:
  assumes c: "config_base c b" and g: "db_good d" and nf: "faults d = []"
    and nid: "nid \<noteq> []" "length nid \<le> 255" "nid \<in> node_ids d" "db_view d nid = None"
  shows "(case find (\<lambda>k. net_string (subnet_at c b k) \<notin> s_subnet_cidr ` set (subnets d))
            [0..<2 ^ (nat (SubnetMask c) - net_ones b)] of
      None \<Rightarrow> \<exists>e. AllocateNodeSubnet_db c nid d = (Inl e, d) \<and> GetErrorCode e = ErrCodeSubnetExhausted
    | Some k \<Rightarrow> \<exists>d'. AllocateNodeSubnet_db c nid d = (Inr (subnet_at c b k), d'))"
  by (rule allocate_db_outcome [OF assms])

definition one_node_db :: Db where
  "one_node_db = \<lparr>nodes = [\<lparr>n_id = ''node-1'', n_server_id = None, n_ip_address = ''1.2.3.4'',
       n_server_public_key = ''k'', n_port = 51820, n_status = ''active'', n_version = 1,
       n_created_at = 0, n_updated_at = 0, n_destroy_at = None, n_last_handshake_at = None,
       n_connected_clients = 0\<rparr>], peers = [], subnets = [], clock = 0, faults = []\<rparr>"

lemma one_node_db_facts:
  "db_good one_node_db" "faults one_node_db = []" "''node-1'' \<in> node_ids one_node_db"
  "db_view one_node_db = Map.empty" "subnets one_node_db = []" "peers one_node_db = []"
  by (simp_all add: one_node_db_def db_good_def db_ok_def nodes_ok_def peers_ok_def subnets_ok_def
      node_ids_def db_view_def fun_eq_iff)

theorem allocate_node_subnet_complete_witness:
  "(case find (\<lambda>k. net_string (subnet_at DefaultNetworkConfig default_base k)
              \<notin> s_subnet_cidr ` set (subnets one_node_db))
            [0..<2 ^ (nat (SubnetMask DefaultNetworkConfig) - net_ones default_base)] of
      None \<Rightarrow> \<exists>e. AllocateNodeSubnet_db DefaultNetworkConfig ''node-1'' one_node_db = (Inl e, one_node_db) \<and>
        GetErrorCode e = ErrCodeSubnetExhausted
    | Some k \<Rightarrow> \<exists>d'. AllocateNodeSubnet_db DefaultNetworkConfig ''node-1'' one_node_db =
        (Inr (subnet_at DefaultNetworkConfig default_base k), d'))"
  by (rule allocate_node_subnet_complete [OF default_config_base])
    (simp_all add: one_node_db_facts)

text \<open>Peers sit inside their node's subnet.\<close>

definition peers_placed :: "Db \<Rightarrow> bool" where
  "peers_placed d = (\<forall>p\<in>set (peers d). \<exists>s a. db_view d (p_node_id p) = Some s \<and>
     p_allocated_ip p = print_ip a \<and> net_contains (sn_Network s) a)"

lemma parse_ips_print: "parse_ips ss = Inr as \<Longrightarrow> ss = map print_ip bs \<Longrightarrow> as = bs"
  by (induction ss arbitrary: as bs) (auto split: sum.splits)

lemma repo_GetAllocatedIPs_result:
  assumes "repo_GetAllocatedIPs i d = (Inr as, d')"
    and "\<forall>p\<in>set (peers d). \<exists>a. p_allocated_ip p = print_ip a"
  shows "print_ip ` set as = p_allocated_ip ` {p \<in> set (peers d). p_node_id p = i} \<and> keep_tables d d'"
proof -
  obtain q d1 where q: "GetAllocatedIPsByNode i d = (q, d1)" by fastforce
  have k: "keep_tables d d1 \<and> (q = Inl ErrIO \<or> q = Inr (map p_allocated_ip (filter (\<lambda>r. p_node_id r = i) (peers d))))"
    using q unfolding GetAllocatedIPsByNode_def by (rule select_many_result) (auto simp: keep_tables_def)
  obtain f where f: "\<forall>p\<in>set (peers d). p_allocated_ip p = print_ip (f p)" using assms(2) by metis
  let ?ps = "filter (\<lambda>r. p_node_id r = i) (peers d)"
  have m: "map p_allocated_ip ?ps = map print_ip (map f ?ps)" using f by simp
  have "parse_ips (map p_allocated_ip ?ps) = Inr as" "d1 = d'"
    using assms(1) k by (auto simp: repo_GetAllocatedIPs_def q)
  then have "as = map f ?ps" using parse_ips_print [OF _ m] by blast
  then have "map print_ip as = map p_allocated_ip ?ps" using m by simp
  then have "set (map print_ip as) = set (map p_allocated_ip ?ps)" by (rule arg_cong)
  then show ?thesis using k \<open>d1 = d'\<close> by auto
qed

lemma AllocateClientIP_fresh:
  assumes g: "db_good d" and pool: "subnet_pool c b (db_view d)" and pl: "peers_placed d"
    and run: "AllocateClientIP_db nid d = (Inr a, d')"
  shows "print_ip a \<notin> p_allocated_ip ` set (peers d) \<and> keep_tables d d' \<and>
    (\<exists>s. db_view d nid = Some s \<and> net_contains (sn_Network s) a \<and> a \<noteq> sn_Gateway s)"
proof -
  obtain s d1 ips where get: "repo_GetSubnet nid d = (Inr s, d1)" "repo_GetAllocatedIPs nid d1 = (Inr ips, d')"
    and find: "FindNextAvailableIP (Some s) ips = Inr a"
    using run by (auto simp: AllocateClientIP_def split: sum.splits prod.splits)
  have k1: "keep_tables d d1" and view: "db_view d nid = Some s"
    using repo_GetSubnet_result [OF get(1)] by auto
  have texts: "\<forall>p\<in>set (peers d1). \<exists>a. p_allocated_ip p = print_ip a"
    using pl k1 by (auto simp: peers_placed_def keep_tables_def)
  have ips: "print_ip ` set ips = p_allocated_ip ` {p \<in> set (peers d). p_node_id p = nid}"
    and k2: "keep_tables d1 d'"
    using repo_GetAllocatedIPs_result [OF get(2) texts] k1 by (auto simp: keep_tables_def)
  have lay: "subnet_layout s" using db_subnets.stored [OF g view] by (simp add: subnet_stored_def)
  have host: "a \<notin> set ips" "net_contains (sn_Network s) a" "a \<noteq> sn_Gateway s"
  proof -
    have f: "find (\<lambda>x. x \<notin> set ips) (ip_range (sn_RangeStart s) (sn_RangeEnd s)) = Some a"
      using find unfolding FindNextAvailableIP_first_free [OF lay]
      by (auto simp: first_free_def split: option.splits)
    then show "a \<notin> set ips" by (auto dest: find_Some_mem)
    have "sn_RangeStart s \<le> a" "a \<le> sn_RangeEnd s" using f by (auto dest!: find_Some_mem simp: set_ip_range)
    then have u: "unat (sn_RangeStart s) \<le> unat a" "unat a \<le> unat (sn_RangeEnd s)"
      by (simp_all add: word_le_nat_alt)
    have S: "4 \<le> net_size (sn_Network s)" using lay net_size_ge4 by (simp add: subnet_layout_def Let_def)
    show "net_contains (sn_Network s) a" "a \<noteq> sn_Gateway s"
      using lay u S by (auto simp: subnet_layout_def Let_def net_contains_iff)
  qed
  have "print_ip a \<noteq> p_allocated_ip p" if p: "p \<in> set (peers d)" for p
  proof (cases "p_node_id p = nid")
    case True
    then have "p_allocated_ip p \<in> print_ip ` set ips" using p ips by auto
    then show ?thesis using host(1) by (auto simp: print_ip_inj)
  next
    case False
    obtain t x where t: "db_view d (p_node_id p) = Some t" "p_allocated_ip p = print_ip x" "net_contains (sn_Network t) x"
      using pl p by (auto simp: peers_placed_def)
    have "\<not> net_contains (sn_Network t) a"
      using pool view t(1) False host(2) unfolding subnet_pool_def by blast
    then show ?thesis using t by (auto simp: print_ip_inj)
  qed
  then show ?thesis using view host keep_tables_trans [OF k1 k2] by auto
qed


lemma subnet_row_exists:
  assumes c: "config_base c b" and k: "k < 2 ^ (nat (SubnetMask c) - net_ones b)" and i: "validateNodeID i = Inr ()"
  obtains row s where "toDomainSubnet row = Inr s" "subnet_stored i s" "s_node_id row = i"
    "s_subnet_cidr row = net_string (subnet_at c b k)" "sn_Network s = subnet_at c b k"
proof -
  let ?n = "subnet_at c b k"
  obtain s where s: "subnet_layout s" "sn_Network s = ?n" "sn_CIDR s = net_string ?n" "sn_NodeID s = i"
    using NewSubnet_layout [OF subnet_at_aligned [OF c k] net_ones_subnet_at [OF c] i] by blast
  then have st: "subnet_stored i s" by (simp add: subnet_stored_def)
  let ?row = "\<lparr>s_node_id = i, s_subnet_cidr = sn_CIDR s, s_gateway_ip = print_ip (sn_Gateway s),
      s_ip_range_start = print_ip (sn_RangeStart s), s_ip_range_end = print_ip (sn_RangeEnd s), s_created_at = 0\<rparr>"
  show thesis by (rule that [OF toDomainSubnet_row [OF st, of 0] st]) (simp_all add: s)
qed

lemma placed_example:
  "\<exists>(d :: Db) a d'. db_good d \<and> subnet_pool DefaultNetworkConfig default_base (db_view d) \<and> peers_placed d \<and>
     AllocateClientIP_db ''node-1'' d = (Inr a, d')"
proof -
  have k: "3 < (2 :: nat) ^ (nat (SubnetMask DefaultNetworkConfig) - net_ones default_base)"
    by (simp add: DefaultNetworkConfig_def default_base_def)
  have "validateNodeID ''node-1'' = Inr ()" by (simp add: validateNodeID_def)
  then obtain row s where row: "toDomainSubnet row = Inr s" "s_node_id row = ''node-1''"
    and st: "subnet_stored ''node-1'' s" and s: "sn_Network s = subnet_at DefaultNetworkConfig default_base 3"
    by (rule subnet_row_exists [OF default_config_base k])
  define d where "d = one_node_db\<lparr>subnets := [row]\<rparr>"
  have tabs: "nodes d = nodes one_node_db" "peers d = []" "subnets d = [row]" "faults d = []"
    by (simp_all add: d_def one_node_db_facts)
  have "node_ids d = node_ids one_node_db" by (simp add: node_ids_def tabs)
  then have "db_ok d"
    using one_node_db_facts(1,3) row(2) by (simp add: db_good_def db_ok_def tabs peers_ok_def subnets_ok_def)
  then have good: "db_good d" using row st by (simp add: db_good_def tabs)
  have view: "db_view d = [''node-1'' \<mapsto> s]" using row by (auto simp: db_view_def tabs fun_eq_iff)
  have pool: "subnet_pool DefaultNetworkConfig default_base (db_view d)"
    unfolding view subnet_pool_def using k s by (auto split: if_splits)
  have "repo_GetSubnet ''node-1'' d = (Inr s, d)"
    using row by (simp add: repo_GetSubnet_def GetNodeSubnet_def select_nofault tabs)
  moreover have "repo_GetAllocatedIPs ''node-1'' d = (Inr [], d)"
    by (simp add: repo_GetAllocatedIPs_def GetAllocatedIPsByNode_def select_nofault tabs)
  moreover have "FindNextAvailableIP (Some s) [] = Inr (sn_RangeStart s)" by (simp add: FindNextAvailableIP_def)
  moreover have "SubnetRequest_Validate ''node-1'' = Inr ()" by (simp add: SubnetRequest_ok)
  ultimately have "AllocateClientIP_db ''node-1'' d = (Inr (sn_RangeStart s), d)"
    by (simp add: AllocateClientIP_def)
  then show ?thesis using good pool by (intro exI conjI) (simp_all add: peers_placed_def tabs)
qed


end
