(* ===== verification/NodeModel.thy ===== *)
theory NodeModel
  imports IpService
begin

text \<open>
  Nodes: the entity and its status machine (\<open>internal/rotator/node/models.go\<close>, \<open>status.go\<close>), the
  repository (\<open>infrastructure/store/node_repository.go\<close>) and the node service
  (\<open>node/service.go\<close>). The cloud provisioner and the health checker of the service are
  arguments, functions on a state \<open>'w\<close> of the outside world. \<open>time.Now()\<close> is the database clock.
\<close>

section \<open>Status\<close>

type_synonym Status = string

abbreviation StatusProvisioning :: string where
  "StatusProvisioning \<equiv> ''provisioning''"
abbreviation StatusActive :: string where
  "StatusActive \<equiv> ''active''"
abbreviation StatusUnhealthy :: string where
  "StatusUnhealthy \<equiv> ''unhealthy''"
abbreviation StatusDestroying :: string where
  "StatusDestroying \<equiv> ''destroying''"

definition NodeStatus_IsValid :: "Status \<Rightarrow> bool" where
  "NodeStatus_IsValid s =
     (s = StatusProvisioning \<or> s = StatusActive \<or> s = StatusUnhealthy \<or> s = StatusDestroying)"

definition NodeStatus_CanTransitionTo :: "Status \<Rightarrow> Status \<Rightarrow> bool" where
  "NodeStatus_CanTransitionTo s target =
     (if s = StatusProvisioning then
        target = StatusActive \<or> target = StatusUnhealthy \<or> target = StatusDestroying
      else if s = StatusActive then target = StatusUnhealthy \<or> target = StatusDestroying
      else if s = StatusUnhealthy then target = StatusActive \<or> target = StatusDestroying
      else False)"

definition NodeStatus_IsTerminal :: "Status \<Rightarrow> bool" where
  "NodeStatus_IsTerminal s = (s = StatusDestroying)"

definition NodeStatus_IsOperational :: "Status \<Rightarrow> bool" where
  "NodeStatus_IsOperational s = (s = StatusActive)"

definition NodeStatus_RequiresAttention :: "Status \<Rightarrow> bool" where
  "NodeStatus_RequiresAttention s = (s = StatusUnhealthy \<or> s = StatusDestroying)"

section \<open>Entity\<close>

record Node =
  nd_ID :: string
  nd_ServerID :: string
  nd_IPAddress :: string
  nd_ServerPublicKey :: string
  nd_Port :: int
  nd_Status :: Status
  nd_Version :: int
  nd_CreatedAt :: int
  nd_UpdatedAt :: int
  nd_DestroyAt :: "int option"
  nd_LastHandshakeAt :: "int option"
  nd_ConnectedClients :: int

abbreviation node_invalid :: "string \<Rightarrow> go_error" where
  "node_invalid msg \<equiv> NewNodeError ErrCodeNodeValidation msg False None"

definition NewNode :: "string \<Rightarrow> string \<Rightarrow> string \<Rightarrow> int \<Rightarrow> int \<Rightarrow> Node res" where
  "NewNode nodeID ipAddress serverPublicKey port now =
     (if nodeID = [] then Inl (node_invalid ''node_id cannot be empty'')
      else if ipAddress = [] then Inl (node_invalid ''ip_address cannot be empty'')
      else if serverPublicKey = [] then Inl (node_invalid ''server_public_key cannot be empty'')
      else if port \<le> 0 \<or> port > 65535 then Inl (node_invalid ''port must be between 1 and 65535'')
      else Inr \<lparr>nd_ID = nodeID, nd_ServerID = [], nd_IPAddress = ipAddress,
             nd_ServerPublicKey = serverPublicKey, nd_Port = port, nd_Status = StatusProvisioning,
             nd_Version = 1, nd_CreatedAt = now, nd_UpdatedAt = now, nd_DestroyAt = None,
             nd_LastHandshakeAt = None, nd_ConnectedClients = 0\<rparr>)"

definition Node_UpdateStatus :: "int \<Rightarrow> Status \<Rightarrow> Node \<Rightarrow> Node res" where
  "Node_UpdateStatus now newStatus n =
     (if \<not> NodeStatus_IsValid newStatus then Inl (node_invalid ''invalid node status'')
      else if \<not> NodeStatus_CanTransitionTo (nd_Status n) newStatus then
        Inl (node_invalid ''invalid status transition'')
      else Inr (n\<lparr>nd_Status := newStatus, nd_UpdatedAt := now, nd_Version := nd_Version n + 1\<rparr>))"

definition Node_IsActive :: "Node \<Rightarrow> bool" where
  "Node_IsActive n = (nd_Status n = StatusActive)"

definition Node_IsHealthy :: "Node \<Rightarrow> bool" where
  "Node_IsHealthy n = (nd_Status n = StatusActive \<or> nd_Status n = StatusProvisioning)"

definition Node_CanAcceptPeers :: "Node \<Rightarrow> bool" where
  "Node_CanAcceptPeers n = (nd_Status n = StatusActive)"

definition Node_UpdateLastHandshake :: "int \<Rightarrow> int \<Rightarrow> Node \<Rightarrow> Node" where
  "Node_UpdateLastHandshake now timestamp n =
     n\<lparr>nd_LastHandshakeAt := Some timestamp, nd_UpdatedAt := now, nd_Version := nd_Version n + 1\<rparr>"

definition Node_UpdateConnectedClients :: "int \<Rightarrow> int \<Rightarrow> Node \<Rightarrow> Node res" where
  "Node_UpdateConnectedClients now count n =
     (if count < 0 then Inl (node_invalid ''connected_clients cannot be negative'')
      else Inr (n\<lparr>nd_ConnectedClients := count, nd_UpdatedAt := now, nd_Version := nd_Version n + 1\<rparr>))"

definition Node_ScheduleDestroy :: "int \<Rightarrow> int \<Rightarrow> Node \<Rightarrow> Node res" where
  "Node_ScheduleDestroy now destroyAt n =
     (if destroyAt < now then Inl (node_invalid ''destroy_at cannot be in the past'')
      else Inr (n\<lparr>nd_DestroyAt := Some destroyAt, nd_UpdatedAt := now, nd_Version := nd_Version n + 1\<rparr>))"

definition Node_ValidateCapacity :: "int \<Rightarrow> int \<Rightarrow> Node \<Rightarrow> unit res" where
  "Node_ValidateCapacity additionalPeers maxPeersPerNode n =
     (if additionalPeers < 0 then Inl (node_invalid ''additional_peers cannot be negative'')
      else if \<not> Node_CanAcceptPeers n then
        Inl (NewNodeError ErrCodeNodeNotReady ''node not ready to accept peers'' True None)
      else if nd_ConnectedClients n + additionalPeers > maxPeersPerNode then
        Inl (NewNodeError ErrCodeNodeAtCapacity ''node at capacity'' True None)
      else Inr ())"

definition Node_ValidateForProvisioning :: "Node \<Rightarrow> unit res" where
  "Node_ValidateForProvisioning n =
     (if nd_ID n = [] then Inl (node_invalid ''id cannot be empty'')
      else if nd_Status n \<noteq> StatusProvisioning then Inl (node_invalid ''status must be provisioning'')
      else Inr ())"

definition Node_ValidateForDestruction :: "Node \<Rightarrow> unit res" where
  "Node_ValidateForDestruction n =
     (if nd_ConnectedClients n > 0 then
        Inl (NewNodeError ErrCodeNodeConflict ''cannot destroy node with active peers'' False None)
      else if nd_Status n = StatusDestroying then
        Inl (NewNodeError ErrCodeNodeConflict ''node already being destroyed'' False None)
      else Inr ())"

definition Node_CalculateCapacityUsage :: "int \<Rightarrow> Node \<Rightarrow> rat" where
  "Node_CalculateCapacityUsage maxPeersPerNode n =
     (if maxPeersPerNode \<le> 0 then 0
      else rat_of_int (nd_ConnectedClients n) / rat_of_int maxPeersPerNode * 100)"

definition Node_IsOverCapacityThreshold :: "int \<Rightarrow> rat \<Rightarrow> Node \<Rightarrow> bool" where
  "Node_IsOverCapacityThreshold maxPeersPerNode thresholdPercent n =
     (Node_CalculateCapacityUsage maxPeersPerNode n > thresholdPercent)"

definition NodeCreateRequest_Validate :: "string \<Rightarrow> string \<Rightarrow> string \<Rightarrow> int \<Rightarrow> unit res" where
  "NodeCreateRequest_Validate serverID ipAddress serverPublicKey port =
     (if serverID = [] then Inl (node_invalid ''server_id cannot be empty'')
      else if ipAddress = [] then Inl (node_invalid ''ip_address cannot be empty'')
      else if serverPublicKey = [] then Inl (node_invalid ''server_public_key cannot be empty'')
      else if port \<le> 0 \<or> port > 65535 then Inl (node_invalid ''port must be between 1 and 65535'')
      else Inr ())"

record NodeFilters =
  nf_Status :: "Status option"
  nf_ServerID :: "string option"
  nf_IPAddress :: "string option"
  nf_Limit :: "int option"
  nf_Offset :: "int option"

record NodeHealthStatus =
  nh_IsHealthy :: bool
  nh_ResponseTime :: int
  nh_SystemLoad :: rat
  nh_MemoryUsage :: rat
  nh_DiskUsage :: rat
  nh_WireGuardStatus :: string
  nh_ConnectedPeers :: int
  nh_LastChecked :: int
  nh_Errors :: "string list"

record NodeStatistics =
  ns_TotalNodes :: int
  ns_ActiveNodes :: int
  ns_ProvisioningNodes :: int
  ns_UnhealthyNodes :: int
  ns_DestroyingNodes :: int
  ns_TotalPeers :: int
  ns_AveragePeersPerNode :: rat

record NodeCapacity =
  cap_NodeID :: string
  cap_MaxPeers :: int
  cap_CurrentPeers :: int
  cap_AvailablePeers :: int
  cap_CapacityUsed :: rat

section \<open>Repository\<close>

definition toDomainNode :: "NodeRow \<Rightarrow> Node" where
  "toDomainNode r =
     \<lparr>nd_ID = n_id r, nd_ServerID = (case n_server_id r of None \<Rightarrow> [] | Some s \<Rightarrow> s),
      nd_IPAddress = n_ip_address r, nd_ServerPublicKey = n_server_public_key r,
      nd_Port = n_port r, nd_Status = n_status r, nd_Version = n_version r,
      nd_CreatedAt = n_created_at r, nd_UpdatedAt = n_updated_at r, nd_DestroyAt = n_destroy_at r,
      nd_LastHandshakeAt = n_last_handshake_at r, nd_ConnectedClients = n_connected_clients r\<rparr>"

text \<open>\<open>Create\<close> also writes the generated columns back to the entity, which is the result here.\<close>

definition nodeRepo_Create :: "Node \<Rightarrow> Db \<Rightarrow> Node res \<times> Db" where
  "nodeRepo_Create n d =
     (case CreateNode (nd_ID n) (nd_IPAddress n) (nd_ServerPublicKey n) (nd_Port n) (nd_Status n) d of
        (Inl e, d') \<Rightarrow> (Inl (db_error ''failed to create node in database'' e), d')
      | (Inr r, d') \<Rightarrow> (Inr (n\<lparr>nd_CreatedAt := n_created_at r, nd_UpdatedAt := n_updated_at r,
                            nd_Version := n_version r\<rparr>), d'))"

definition nodeRepo_GetByID :: "string \<Rightarrow> Db \<Rightarrow> Node res \<times> Db" where
  "nodeRepo_GetByID nodeID d =
     (case GetNode nodeID d of
        (Inl e, d') \<Rightarrow>
          (Inl (if e = ErrNoRows then NewNodeError ErrCodeNodeNotFound ''node not found'' False (Some e)
                else db_error ''failed to get node from database'' e), d')
      | (Inr r, d') \<Rightarrow> (Inr (toDomainNode r), d'))"

text \<open>\<open>Update\<close>: the details by id alone (no version check), then the activity columns when there
  is any; a row that does not exist is no error.\<close>

definition nodeRepo_Update :: "Node \<Rightarrow> Db \<Rightarrow> unit res \<times> Db" where
  "nodeRepo_Update n d =
     (case UpdateNodeDetails (if nd_ServerID n = [] then None else Some (nd_ServerID n)) (nd_IPAddress n)
             (nd_ServerPublicKey n) (nd_Status n) (nd_ID n) d of
        (Inl e, d1) \<Rightarrow>
          (Inl (if e = ErrNoRows
                then NewNodeError ErrCodeNodeConflict
                       ''failed to update node, concurrent modification or not found'' False (Some e)
                else db_error ''failed to update node details'' e), d1)
      | (Inr _, d1) \<Rightarrow>
          if nd_LastHandshakeAt n \<noteq> None \<or> nd_ConnectedClients n > 0 then
            (case UpdateNodeActivity (nd_LastHandshakeAt n) (nd_ConnectedClients n) (nd_ID n) d1 of
               (Inl e, d2) \<Rightarrow> (Inl (db_error ''failed to update node activity'' e), d2)
             | (Inr _, d2) \<Rightarrow> (Inr (), d2))
          else (Inr (), d1))"

definition nodeRepo_Delete :: "string \<Rightarrow> Db \<Rightarrow> unit res \<times> Db" where
  "nodeRepo_Delete nodeID d =
     (case DeleteNode nodeID d of
        (Inl e, d') \<Rightarrow>
          (Inl (if e = ErrNoRows then NewNodeError ErrCodeNodeNotFound ''node not found for deletion'' False (Some e)
                else db_error ''failed to delete node'' e), d')
      | (Inr _, d') \<Rightarrow> (Inr (), d'))"

text \<open>The slicing both \<open>List\<close> functions share: an offset at or past the end gives the empty list,
  non-positive offsets and limits are ignored.\<close>

definition page :: "int option \<Rightarrow> int option \<Rightarrow> 'a list \<Rightarrow> 'a list" where
  "page offset limit xs =
     (let off = (case offset of Some k \<Rightarrow> k > 0 | None \<Rightarrow> False) in
      if off \<and> the offset \<ge> int (length xs) then []
      else (let ys = (if off then drop (nat (the offset)) xs else xs) in
            case limit of
              Some l \<Rightarrow> if l > 0 \<and> l < int (length ys) then take (nat l) ys else ys
            | None \<Rightarrow> ys))"

definition applyFilters :: "NodeFilters \<Rightarrow> Node list \<Rightarrow> Node list" where
  "applyFilters f ns =
     (let ns1 = (case nf_ServerID f of None \<Rightarrow> ns | Some s \<Rightarrow> filter (\<lambda>n. nd_ServerID n = s) ns);
          ns2 = (case nf_IPAddress f of None \<Rightarrow> ns1 | Some a \<Rightarrow> filter (\<lambda>n. nd_IPAddress n = a) ns1)
      in page (nf_Offset f) (nf_Limit f) ns2)"

definition nodeRepo_List :: "NodeFilters \<Rightarrow> Db \<Rightarrow> Node list res \<times> Db" where
  "nodeRepo_List f d =
     (case (case nf_Status f of Some s \<Rightarrow> GetNodesByStatus s d | None \<Rightarrow> GetAllNodes d) of
        (Inl e, d') \<Rightarrow> (Inl (db_error ''failed to list nodes'' e), d')
      | (Inr rs, d') \<Rightarrow> (Inr (applyFilters f (map toDomainNode rs)), d'))"

definition nodeRepo_GetByServerID :: "string \<Rightarrow> Db \<Rightarrow> Node res \<times> Db" where
  "nodeRepo_GetByServerID serverID d =
     (case GetAllNodes d of
        (Inl e, d') \<Rightarrow> (Inl (db_error ''failed to get nodes for server ID lookup'' e), d')
      | (Inr rs, d') \<Rightarrow>
          (case find (\<lambda>r. n_server_id r = Some serverID) rs of
             Some r \<Rightarrow> (Inr (toDomainNode r), d')
           | None \<Rightarrow> (Inl (NewNodeError ErrCodeNodeNotFound ''node with server ID not found'' False None), d')))"

definition nodeRepo_GetByIPAddress :: "string \<Rightarrow> Db \<Rightarrow> Node res \<times> Db" where
  "nodeRepo_GetByIPAddress ip d =
     (case GetNodeByIP ip d of
        (Inl e, d') \<Rightarrow>
          (Inl (if e = ErrNoRows then NewNodeError ErrCodeNodeNotFound ''node with IP not found'' False (Some e)
                else db_error ''failed to get node by IP'' e), d')
      | (Inr r, d') \<Rightarrow> (Inr (toDomainNode r), d'))"

definition nodeRepo_UpdateStatus :: "string \<Rightarrow> Status \<Rightarrow> int \<Rightarrow> Db \<Rightarrow> unit res \<times> Db" where
  "nodeRepo_UpdateStatus nodeID st version d =
     (case UpdateNodeStatus st nodeID version d of
        (Inl e, d') \<Rightarrow>
          (Inl (if e = ErrNoRows
                then NewNodeError ErrCodeNodeConflict
                       ''failed to update node status, concurrent modification or not found'' False (Some e)
                else db_error ''failed to update node status'' e), d')
      | (Inr _, d') \<Rightarrow> (Inr (), d'))"

definition nodeRepo_UpdateHealth :: "string \<Rightarrow> NodeHealthStatus \<Rightarrow> Db \<Rightarrow> unit res \<times> Db" where
  "nodeRepo_UpdateHealth nodeID h d =
     (case UpdateNodeActivity (Some (nh_LastChecked h)) (nh_ConnectedPeers h) nodeID d of
        (r, d') \<Rightarrow> (map_err (db_error ''failed to update node health activity'') r, d'))"

definition nodeRepo_GetUnhealthyNodes :: "Db \<Rightarrow> Node list res \<times> Db" where
  "nodeRepo_GetUnhealthyNodes d =
     (case GetNodesByStatus StatusUnhealthy d of
        (Inl e, d') \<Rightarrow> (Inl (db_error ''failed to get unhealthy nodes'' e), d')
      | (Inr rs, d') \<Rightarrow> (Inr (map toDomainNode rs), d'))"

definition nodeRepo_GetActiveNodes :: "Db \<Rightarrow> Node list res \<times> Db" where
  "nodeRepo_GetActiveNodes d =
     (case GetNodesByStatus StatusActive d of
        (Inl e, d') \<Rightarrow> (Inl (db_error ''failed to get active nodes'' e), d')
      | (Inr rs, d') \<Rightarrow> (Inr (map toDomainNode rs), d'))"

definition nodeRepo_GetNodeCapacity :: "string \<Rightarrow> Db \<Rightarrow> NodeCapacity res \<times> Db" where
  "nodeRepo_GetNodeCapacity nodeID d =
     (case nodeRepo_GetByID nodeID d of
        (Inl e, d') \<Rightarrow> (Inl e, d')
      | (Inr n, d') \<Rightarrow>
          (Inr \<lparr>cap_NodeID = nd_ID n, cap_MaxPeers = 253, cap_CurrentPeers = nd_ConnectedClients n,
                cap_AvailablePeers = 253 - nd_ConnectedClients n,
                cap_CapacityUsed = Node_CalculateCapacityUsage 253 n\<rparr>, d'))"

text \<open>A NULL sum reads as zero.\<close>

definition null_int :: "int option \<Rightarrow> int" where
  "null_int x = (case x of None \<Rightarrow> 0 | Some k \<Rightarrow> k)"

definition nodeRepo_GetStatistics :: "Db \<Rightarrow> NodeStatistics res \<times> Db" where
  "nodeRepo_GetStatistics d =
     (case GetNodeCount d of
        (Inl e, d1) \<Rightarrow> (Inl (db_error ''failed to get node count'' e), d1)
      | (Inr c, d1) \<Rightarrow>
          (case GetTotalConnectedClients d1 of
             (Inl e, d2) \<Rightarrow> (Inl (db_error ''failed to get total clients'' e), d2)
           | (Inr clients, d2) \<Rightarrow>
               (case GetNodesByStatus StatusUnhealthy d2 of
                  (Inl e, d3) \<Rightarrow> (Inl (db_error ''failed to get unhealthy nodes'' e), d3)
                | (Inr us, d3) \<Rightarrow>
                    (Inr \<lparr>ns_TotalNodes = nc_Total c, ns_ActiveNodes = null_int (nc_Active c),
                          ns_ProvisioningNodes = null_int (nc_Provisioning c),
                          ns_UnhealthyNodes = int (length us),
                          ns_DestroyingNodes = null_int (nc_Destroying c), ns_TotalPeers = clients,
                          ns_AveragePeersPerNode =
                            (if nc_Total c > 0 then rat_of_int clients / rat_of_int (nc_Total c) else 0)\<rparr>, d3))))"

text \<open>\<open>IncrementVersion\<close> reads the version and adds one to the copy.\<close>

definition nodeRepo_IncrementVersion :: "string \<Rightarrow> Db \<Rightarrow> int res \<times> Db" where
  "nodeRepo_IncrementVersion nodeID d =
     (case nodeRepo_GetByID nodeID d of
        (Inl e, d') \<Rightarrow> (Inl e, d')
      | (Inr n, d') \<Rightarrow> (Inr (nd_Version n + 1), d'))"

section \<open>Service\<close>

record NodeServiceConfig =
  MaxPeersPerNode :: int
  nsc_CapacityThreshold :: rat
  OptimalNodeSelection :: string

definition nodeSvc_UpdateNodeStatus :: "string \<Rightarrow> Status \<Rightarrow> Db \<Rightarrow> unit res \<times> Db" where
  "nodeSvc_UpdateNodeStatus nodeID st d =
     (case nodeRepo_GetByID nodeID d of
        (Inl e, d1) \<Rightarrow> (Inl e, d1)
      | (Inr n, d1) \<Rightarrow>
          (case Node_UpdateStatus (clock d1) st n of
             Inl e \<Rightarrow> (Inl e, d1)
           | Inr n' \<Rightarrow> nodeRepo_Update n' d1))"

text \<open>\<open>DestroyNode\<close>: a failing cloud call does not stop the deletion of the row.\<close>

definition nodeSvc_DestroyNode ::
  "(string \<Rightarrow> 'w \<Rightarrow> unit res \<times> 'w) \<Rightarrow> string \<Rightarrow> Db \<times> 'w \<Rightarrow> unit res \<times> (Db \<times> 'w)" where
  "nodeSvc_DestroyNode cloudDestroy nodeID dw = (case dw of (d, w) \<Rightarrow>
     (case nodeRepo_GetByID nodeID d of
        (Inl e, d1) \<Rightarrow> (Inl e, (d1, w))
      | (Inr n, d1) \<Rightarrow>
          (case Node_ValidateForDestruction n of
             Inl e \<Rightarrow> (Inl e, (d1, w))
           | Inr _ \<Rightarrow>
               (case Node_UpdateStatus (clock d1) StatusDestroying n of
                  Inl e \<Rightarrow> (Inl e, (d1, w))
                | Inr n' \<Rightarrow>
                    (case nodeRepo_Update n' d1 of
                       (Inl e, d2) \<Rightarrow> (Inl e, (d2, w))
                     | (Inr _, d2) \<Rightarrow>
                         (let w' = (if nd_ServerID n' \<noteq> [] then snd (cloudDestroy (nd_ServerID n') w) else w) in
                          case nodeRepo_Delete nodeID d2 of
                            (Inl e, d3) \<Rightarrow> (Inl e, (d3, w'))
                          | (Inr _, d3) \<Rightarrow> (Inr (), (d3, w'))))))))"

definition nodeSvc_CheckNodeHealth ::
  "(string \<Rightarrow> 'w \<Rightarrow> NodeHealthStatus res \<times> 'w) \<Rightarrow> string \<Rightarrow> Db \<times> 'w
     \<Rightarrow> NodeHealthStatus res \<times> (Db \<times> 'w)" where
  "nodeSvc_CheckNodeHealth check nodeID dw = (case dw of (d, w) \<Rightarrow>
     (case nodeRepo_GetByID nodeID d of
        (Inl e, d1) \<Rightarrow> (Inl e, (d1, w))
      | (Inr n, d1) \<Rightarrow>
          (case check (nd_IPAddress n) w of
             (Inl e, w1) \<Rightarrow>
               (Inl (NewInfrastructureError ErrCodeHealthCheckFailed
                  ''comprehensive health check failed'' True (Some e)), (d1, w1))
           | (Inr h, w1) \<Rightarrow>
               (let newStatus = (if nh_IsHealthy h then StatusActive else StatusUnhealthy);
                    d2 = (if nd_Status n \<noteq> newStatus then snd (nodeSvc_UpdateNodeStatus nodeID newStatus d1) else d1)
                in (Inr h, (d2, w1))))))"

definition nodeSvc_ValidateNodeCapacity :: "NodeServiceConfig \<Rightarrow> string \<Rightarrow> int \<Rightarrow> Db \<Rightarrow> unit res \<times> Db" where
  "nodeSvc_ValidateNodeCapacity cfg nodeID additionalPeers d =
     (case nodeRepo_GetByID nodeID d of
        (Inl e, d1) \<Rightarrow> (Inl e, d1)
      | (Inr n, d1) \<Rightarrow>
          (case Node_ValidateCapacity additionalPeers (MaxPeersPerNode cfg) n of
             Inl e \<Rightarrow> (Inl e, d1)
           | Inr _ \<Rightarrow>
               if Node_IsOverCapacityThreshold (MaxPeersPerNode cfg) (nsc_CapacityThreshold cfg) n then
                 (Inl (NewNodeError ErrCodeNodeAtCapacity ''node is over capacity threshold'' True None), d1)
               else (Inr (), d1)))"

text \<open>The loop that keeps the nodes with room for one more peer.\<close>

fun filter_available :: "NodeServiceConfig \<Rightarrow> Node list \<Rightarrow> Db \<Rightarrow> Node list \<times> Db" where
  "filter_available cfg [] d = ([], d)"
| "filter_available cfg (n # ns) d =
     (case nodeSvc_ValidateNodeCapacity cfg (nd_ID n) 1 d of
        (r, d1) \<Rightarrow>
          (case filter_available cfg ns d1 of
             (as, d2) \<Rightarrow> (case r of Inr _ \<Rightarrow> (n # as, d2) | Inl _ \<Rightarrow> (as, d2))))"

fun least_loaded_loop :: "Node \<Rightarrow> Node list \<Rightarrow> Node" where
  "least_loaded_loop best [] = best"
| "least_loaded_loop best (n # ns) =
     (if nd_ConnectedClients n < nd_ConnectedClients best then least_loaded_loop n ns
      else least_loaded_loop best ns)"

definition selectLeastLoadedNode :: "Node list \<Rightarrow> Node option" where
  "selectLeastLoadedNode ns = (case ns of [] \<Rightarrow> None | n # rest \<Rightarrow> Some (least_loaded_loop n rest))"

text \<open>The other two strategies take the clock in nanoseconds modulo the number of nodes.\<close>

definition selectRoundRobinNode :: "int \<Rightarrow> Node list \<Rightarrow> Node option" where
  "selectRoundRobinNode nano ns =
     (if ns = [] then None else Some (ns ! nat (nano mod int (length ns))))"

definition selectRandomNode :: "int \<Rightarrow> Node list \<Rightarrow> Node option" where
  "selectRandomNode nano ns =
     (if ns = [] then None else Some (ns ! nat (nano mod int (length ns))))"

definition nodeSvc_SelectOptimalNode ::
  "NodeServiceConfig \<Rightarrow> int \<Rightarrow> NodeFilters \<Rightarrow> Db \<Rightarrow> Node res \<times> Db" where
  "nodeSvc_SelectOptimalNode cfg nano filters d =
     (case nodeRepo_List (filters\<lparr>nf_Status := Some StatusActive\<rparr>) d of
        (Inl e, d1) \<Rightarrow> (Inl e, d1)
      | (Inr ns, d1) \<Rightarrow>
          if ns = [] then (Inl (NewNodeError ErrCodeNodeNotFound ''no active nodes found'' True None), d1)
          else (case filter_available cfg ns d1 of
              (avail, d2) \<Rightarrow>
                if avail = [] then
                  (Inl (NewNodeError ErrCodeNodeAtCapacity ''no available nodes with capacity'' True None), d2)
                else
                  (let sel = (if OptimalNodeSelection cfg = ''least_loaded'' then selectLeastLoadedNode avail
                              else if OptimalNodeSelection cfg = ''round_robin'' then selectRoundRobinNode nano avail
                              else if OptimalNodeSelection cfg = ''random'' then selectRandomNode nano avail
                              else selectLeastLoadedNode avail)
                   in case sel of Some n \<Rightarrow> (Inr n, d2)
                      | None \<Rightarrow> (Inl (GoPanic ''nil pointer dereference''), d2))))"

text \<open>\<open>nodeSvc_GetNodePublicKey\<close> takes the public key from the WireGuard status the remote side reports.\<close>

definition nodeSvc_GetNode :: "string \<Rightarrow> Db \<Rightarrow> Node res \<times> Db" where
  "nodeSvc_GetNode nodeID d = nodeRepo_GetByID nodeID d"

definition nodeSvc_GetNodePublicKey ::
  "(string \<Rightarrow> 'w \<Rightarrow> string res \<times> 'w) \<Rightarrow> string \<Rightarrow> Db \<times> 'w \<Rightarrow> string res \<times> (Db \<times> 'w)" where
  "nodeSvc_GetNodePublicKey wgPublicKey nodeID dw = (case dw of (d, w) \<Rightarrow>
     (case nodeRepo_GetByID nodeID d of
        (Inl e, d1) \<Rightarrow> (Inl e, (d1, w))
      | (Inr n, d1) \<Rightarrow>
          (case wgPublicKey (nd_IPAddress n) w of
             (Inl e, w1) \<Rightarrow>
               (Inl (WrapWithDomain e DomainInfrastructure ''wg_status_failed''
                       ''failed to get WireGuard status'' True), (d1, w1))
           | (Inr k, w1) \<Rightarrow> (Inr k, (d1, w1)))))"

definition nodeSvc_ListNodes :: "NodeFilters \<Rightarrow> Db \<Rightarrow> Node list res \<times> Db" where
  "nodeSvc_ListNodes filters d = nodeRepo_List filters d"

definition nodeSvc_GetNodeStatistics :: "Db \<Rightarrow> NodeStatistics res \<times> Db" where
  "nodeSvc_GetNodeStatistics d = nodeRepo_GetStatistics d"

definition nodeSvc_checkNodeConflicts :: "Node \<Rightarrow> Db \<Rightarrow> unit res \<times> Db" where
  "nodeSvc_checkNodeConflicts n d =
     (case nodeRepo_GetByServerID (nd_ServerID n) d of
        (Inr _, d1) \<Rightarrow> (Inl (NewNodeError ErrCodeNodeConflict ''server ID already in use'' False None), d1)
      | (Inl _, d1) \<Rightarrow>
          (case nodeRepo_GetByIPAddress (nd_IPAddress n) d1 of
             (Inr _, d2) \<Rightarrow> (Inl (NewNodeError ErrCodeNodeConflict ''IP address already in use'' False None), d2)
           | (Inl _, d2) \<Rightarrow> (Inr (), d2)))"

section \<open>Facts\<close>

text \<open>A status machine with terminal states: the contract both entities' statuses meet.\<close>

locale status_machine =
  fixes valid :: "'s \<Rightarrow> bool" and can :: "'s \<Rightarrow> 's \<Rightarrow> bool" and terminal :: "'s \<Rightarrow> bool"
  assumes can_valid: "can s t \<Longrightarrow> valid s \<and> valid t"
    and can_proper: "\<not> can s s"
    and terminal_stuck: "terminal s \<Longrightarrow> \<not> can s t"
    and can_finish: "valid s \<Longrightarrow> \<not> terminal s \<Longrightarrow> \<exists>t. can s t \<and> terminal t"
begin

lemma reach_terminal: "can\<^sup>*\<^sup>* s t \<Longrightarrow> terminal s \<Longrightarrow> t = s"
  by (induction rule: rtranclp_induct) (auto simp: terminal_stuck)

lemma reach_valid: "can\<^sup>*\<^sup>* s t \<Longrightarrow> valid s \<Longrightarrow> valid t"
  by (induction rule: rtranclp_induct) (auto dest: can_valid)

lemma stuck_iff: "valid s \<Longrightarrow> terminal s \<longleftrightarrow> (\<forall>t. \<not> can s t)"
  using can_finish terminal_stuck by blast

end

interpretation node_status: status_machine NodeStatus_IsValid NodeStatus_CanTransitionTo NodeStatus_IsTerminal
proof unfold_locales
  fix s t
  show "NodeStatus_CanTransitionTo s t \<Longrightarrow> NodeStatus_IsValid s \<and> NodeStatus_IsValid t"
    by (auto simp: NodeStatus_CanTransitionTo_def NodeStatus_IsValid_def split: if_splits)
  show "\<not> NodeStatus_CanTransitionTo s s" by (simp add: NodeStatus_CanTransitionTo_def)
  show "NodeStatus_IsTerminal s \<Longrightarrow> \<not> NodeStatus_CanTransitionTo s t"
    by (simp add: NodeStatus_CanTransitionTo_def NodeStatus_IsTerminal_def)
  show "NodeStatus_IsValid s \<Longrightarrow> \<not> NodeStatus_IsTerminal s \<Longrightarrow>
      \<exists>t. NodeStatus_CanTransitionTo s t \<and> NodeStatus_IsTerminal t"
    by (auto simp: NodeStatus_CanTransitionTo_def NodeStatus_IsTerminal_def NodeStatus_IsValid_def)
qed

lemma Node_UpdateStatus_Inr:
  "Node_UpdateStatus now s n = Inr n' \<longleftrightarrow> NodeStatus_CanTransitionTo (nd_Status n) s \<and>
     n' = n\<lparr>nd_Status := s, nd_UpdatedAt := now, nd_Version := nd_Version n + 1\<rparr>"
  using node_status.can_valid by (auto simp: Node_UpdateStatus_def)

lemma GetNode_result:
  "GetNode i d = (r, d') \<Longrightarrow>
   keep_tables d d' \<and> (r = Inl ErrIO \<or> r = scan_one (find (\<lambda>r. n_id r = i) (nodes d)))"
  unfolding GetNode_def by (rule select_one_result) (auto simp: keep_tables_def)

lemma nodeRepo_GetByID_result:
  assumes "nodeRepo_GetByID i d = (r, d')"
  shows "keep_tables d d' \<and>
    (\<forall>n. r = Inr n \<longrightarrow> (\<exists>row\<in>set (nodes d). n_id row = i \<and> n = toDomainNode row))"
proof -
  obtain q d1 where q: "GetNode i d = (q, d1)" by fastforce
  from GetNode_result [OF q] assms show ?thesis
    by (auto simp: nodeRepo_GetByID_def q scan_one_def split: option.splits dest!: find_Some_mem)
qed

lemma nodeRepo_GetByID_nofault:
  assumes "faults d = []" "db_ok d" "row \<in> set (nodes d)"
  shows "nodeRepo_GetByID (n_id row) d = (Inr (toDomainNode row), d)"
proof -
  have "distinct (map n_id (nodes d))" using assms(2) by (simp add: db_ok_def nodes_ok_def)
  then show ?thesis
    using assms(1) inj_on_key_find [of n_id "nodes d" row] assms(3)
    by (simp add: nodeRepo_GetByID_def GetNode_def select_nofault)
qed

lemma nodeRepo_GetByID_missing:
  assumes "faults d = []" "i \<notin> node_ids d"
  shows "\<exists>e. nodeRepo_GetByID i d = (Inl e, d) \<and> GetErrorCode e = ErrCodeNodeNotFound"
proof -
  have "find (\<lambda>r. n_id r = i) (nodes d) = None" using assms(2) by (auto simp: find_None_all node_ids_def)
  then show ?thesis using assms(1) by (simp add: nodeRepo_GetByID_def GetNode_def select_nofault)
qed

subsection \<open>What the writes change\<close>

text \<open>A database that differs from another one only in the row of one node.\<close>

definition only_node :: "string \<Rightarrow> Db \<Rightarrow> Db \<Rightarrow> bool" where
  "only_node i d d' = (peers d' = peers d \<and> subnets d' = subnets d \<and> clock d' = clock d \<and>
     node_ids d' = node_ids d \<and> filter (\<lambda>r. n_id r \<noteq> i) (nodes d') = filter (\<lambda>r. n_id r \<noteq> i) (nodes d))"

lemma only_node_keep: "keep_tables d d' \<Longrightarrow> only_node i d d'"
  by (simp add: only_node_def keep_tables_def node_ids_def)

lemma only_node_trans: "only_node i a b \<Longrightarrow> only_node i b c \<Longrightarrow> only_node i a c"
  by (simp add: only_node_def)

lemma map_nodes_rowE:
  assumes "row \<in> set (nodes (map_nodes P f d))"
  obtains r where "r \<in> set (nodes d)" "P r" "row = (f r)\<lparr>n_updated_at := clock d\<rparr>"
    | "row \<in> set (nodes d)" "\<not> P row"
  using assms unfolding map_nodes_def by (auto split: if_splits)

lemma map_nodes_only:
  assumes "\<And>r. P r \<Longrightarrow> n_id r = i" "\<And>r. n_id (f r) = n_id r"
  shows "only_node i d (map_nodes P f d)"
proof -
  have "filter (\<lambda>r. n_id r \<noteq> i) (map (\<lambda>r. if P r then (f r)\<lparr>n_updated_at := c\<rparr> else r) ns)
      = filter (\<lambda>r. n_id r \<noteq> i) ns" for c ns
    by (induction ns) (auto simp: assms)
  then show ?thesis
    using node_ids_map_nodes [of d P f] assms(2) by (simp add: only_node_def map_nodes_def)
qed

text \<open>The two statements of \<open>Update\<close>: either no row changed, or the row of the node has the new
  details.\<close>

lemma UpdateNodeDetails_result:
  assumes "UpdateNodeDetails sid ip key st i d = (r, d')"
  shows "(\<exists>e. r = Inl e \<and> e \<noteq> ErrNoRows \<and> keep_tables d d') \<or>
    (r = Inr () \<and> only_node i d d' \<and>
     (\<forall>row\<in>set (nodes d'). n_id row = i \<longrightarrow> n_status row = st \<and> n_server_public_key row = key))"
proof (cases rule: run_query_cases [of "\<lambda>d. let P = (\<lambda>r. n_id r = i) in
     if (\<exists>r\<in>set (nodes d). P r) \<and>
        (st \<notin> NodeStatuses \<or> (\<exists>r\<in>set (nodes d). \<not> P r \<and> n_server_public_key r = key))
     then (Inl ErrConstraint, d)
     else (Inr (), map_nodes P (\<lambda>r. r\<lparr>n_server_id := sid, n_ip_address := ip,
             n_server_public_key := key, n_status := st, n_version := n_version r + 1\<rparr>) d)" d])
  case (io d1)
  then have "(r, d') = (Inl ErrIO, d1)" by (simp only: assms [unfolded UpdateNodeDetails_def, symmetric])
  then show ?thesis using io(2) by simp
next
  case (ran d1)
  let ?m = "map_nodes (\<lambda>r. n_id r = i) (\<lambda>r. r\<lparr>n_server_id := sid, n_ip_address := ip,
             n_server_public_key := key, n_status := st, n_version := n_version r + 1\<rparr>) d1"
  have "only_node i d1 ?m" by (rule map_nodes_only) auto
  then have "only_node i d ?m" by (rule only_node_trans [OF only_node_keep [OF ran(2)]])
  moreover have "\<forall>row\<in>set (nodes ?m). n_id row = i \<longrightarrow> n_status row = st \<and> n_server_public_key row = key"
    by (intro ballI impI, erule map_nodes_rowE) simp_all
  ultimately show ?thesis
    using assms [unfolded UpdateNodeDetails_def ran(1)] ran(2) by (auto simp: Let_def split: if_splits)
qed

lemma UpdateNodeActivity_result:
  assumes "UpdateNodeActivity hs cl i d = (r, d')"
  shows "only_node i d d' \<and>
    (\<forall>row\<in>set (nodes d'). \<exists>row0\<in>set (nodes d). n_id row = n_id row0 \<and> n_status row = n_status row0)"
proof (cases rule: run_query_cases [of "\<lambda>d. (Inr (), map_nodes (\<lambda>r. n_id r = i)
        (\<lambda>r. r\<lparr>n_last_handshake_at := hs, n_connected_clients := cl\<rparr>) d)" d])
  case (io d1)
  then show ?thesis using assms by (auto simp: UpdateNodeActivity_def only_node_keep) (auto simp: keep_tables_def)
next
  case (ran d1)
  let ?m = "map_nodes (\<lambda>r. n_id r = i) (\<lambda>r. r\<lparr>n_last_handshake_at := hs, n_connected_clients := cl\<rparr>) d1"
  have "only_node i d1 ?m" by (rule map_nodes_only) auto
  then have "only_node i d ?m" by (rule only_node_trans [OF only_node_keep [OF ran(2)]])
  moreover have "\<forall>row\<in>set (nodes ?m). \<exists>row0\<in>set (nodes d1). n_id row = n_id row0 \<and> n_status row = n_status row0"
    by (intro ballI, erule map_nodes_rowE) auto
  ultimately show ?thesis
    using assms ran unfolding UpdateNodeActivity_def by (auto simp: keep_tables_def)
qed

lemma nodeRepo_Update_result:
  assumes "nodeRepo_Update n d = (r, d')"
  shows "only_node (nd_ID n) d d' \<and>
    (\<forall>row\<in>set (nodes d'). n_id row = nd_ID n \<longrightarrow> n_status row = nd_Status n \<or>
        (\<exists>e. r = Inl e) \<and> row \<in> set (nodes d))"
proof -
  obtain q d1 where q: "UpdateNodeDetails (if nd_ServerID n = [] then None else Some (nd_ServerID n))
      (nd_IPAddress n) (nd_ServerPublicKey n) (nd_Status n) (nd_ID n) d = (q, d1)" by fastforce
  obtain q2 d2 where q2: "UpdateNodeActivity (nd_LastHandshakeAt n) (nd_ConnectedClients n) (nd_ID n) d1 = (q2, d2)"
    by fastforce
  note a = UpdateNodeActivity_result [OF q2]
  have cases: "(\<exists>e. q = Inl e \<and> r = Inl (if e = ErrNoRows
        then NewNodeError ErrCodeNodeConflict ''failed to update node, concurrent modification or not found'' False (Some e)
        else db_error ''failed to update node details'' e) \<and> d' = d1) \<or> (q = Inr () \<and> d' \<in> {d1, d2})"
    using assms by (auto simp: nodeRepo_Update_def q q2 split: sum.splits if_splits)
  from UpdateNodeDetails_result [OF q] show ?thesis
  proof (elim disjE conjE exE)
    fix e assume "q = Inl e" "keep_tables d d1"
    then show ?thesis using cases only_node_keep [of d d1 "nd_ID n"] by (auto simp: keep_tables_def)
  next
    assume ok: "q = Inr ()" "only_node (nd_ID n) d d1"
      "\<forall>row\<in>set (nodes d1). n_id row = nd_ID n \<longrightarrow> n_status row = nd_Status n \<and> n_server_public_key row = nd_ServerPublicKey n"
    have "only_node (nd_ID n) d d2" using a ok(2) only_node_trans by blast
    moreover have "\<forall>row\<in>set (nodes d2). n_id row = nd_ID n \<longrightarrow> n_status row = nd_Status n"
      using a ok(3) by metis
    ultimately show ?thesis using cases ok by auto
  qed
qed

section \<open>Properties\<close>

text \<open>The changes of status a sequence of \<open>UpdateStatus\<close> calls makes on an entity; a refused call
  leaves it alone.\<close>

fun run_status_updates :: "(int \<times> Status) list \<Rightarrow> Node \<Rightarrow> Node" where
  "run_status_updates [] n = n"
| "run_status_updates ((now, s) # us) n =
     (case Node_UpdateStatus now s n of
        Inl _ \<Rightarrow> run_status_updates us n
      | Inr n' \<Rightarrow> run_status_updates us n')"

lemma run_status_updates_reach:
  "NodeStatus_CanTransitionTo\<^sup>*\<^sup>* (nd_Status n) (nd_Status (run_status_updates us n)) \<and>
   nd_Version n \<le> nd_Version (run_status_updates us n)"
proof (induction us n rule: run_status_updates.induct)
  case (2 now s us n)
  show ?case
  proof (cases "Node_UpdateStatus now s n")
    case (Inl e)
    then show ?thesis using 2(1) by simp
  next
    case (Inr n')
    then have "NodeStatus_CanTransitionTo (nd_Status n) (nd_Status n')" "nd_Version n' = nd_Version n + 1"
      by (auto simp: Node_UpdateStatus_Inr)
    then show ?thesis using 2(2) [OF Inr] Inr by (auto intro: converse_rtranclp_into_rtranclp)
  qed
qed simp

text \<open>Whatever status updates are requested, a valid node keeps a valid status, its version
  never decreases, and once it is destroying no update changes it.\<close>

theorem node_status_safe:
  assumes "NodeStatus_IsValid (nd_Status n)"
  shows "NodeStatus_IsValid (nd_Status (run_status_updates us n)) \<and>
    nd_Version n \<le> nd_Version (run_status_updates us n) \<and>
    (nd_Status n = StatusDestroying \<longrightarrow> run_status_updates us n = n)"
proof -
  have "run_status_updates us n = n" if "nd_Status n = StatusDestroying"
    using that
  proof (induction us n rule: run_status_updates.induct)
    case (2 now s us n)
    then have "\<not> NodeStatus_CanTransitionTo (nd_Status n) s"
      by (intro node_status.terminal_stuck) (simp add: NodeStatus_IsTerminal_def)
    then obtain e where "Node_UpdateStatus now s n = Inl e"
      using Node_UpdateStatus_Inr [of now s n] by (cases "Node_UpdateStatus now s n") auto
    then show ?case using 2 by simp
  qed simp
  then show ?thesis
    using run_status_updates_reach [of n us] node_status.reach_valid assms by blast
qed

theorem node_status_safe_witness:
  "let n = toDomainNode (hd (nodes one_node_db)); us = [(1, StatusDestroying), (2, StatusActive)] in
   NodeStatus_IsValid (nd_Status (run_status_updates us n)) \<and>
    nd_Version n \<le> nd_Version (run_status_updates us n) \<and>
    (nd_Status n = StatusDestroying \<longrightarrow> run_status_updates us n = n)"
  unfolding Let_def
  by (rule node_status_safe) (simp add: toDomainNode_def one_node_db_def NodeStatus_IsValid_def)

text \<open>C12: through the service a node's stored status only ever changes along the transition
  table, and only the row of that node changes, whether or not the call succeeds and whatever
  statements of it fail.\<close>

theorem update_node_status_legal:
  assumes ok: "db_ok d" and run: "nodeSvc_UpdateNodeStatus i st d = (r, d')"
  shows "only_node i d d' \<and>
    (\<forall>row'\<in>set (nodes d'). n_id row' = i \<longrightarrow> (\<exists>row\<in>set (nodes d). n_id row = i \<and>
       (n_status row' = n_status row \<or> NodeStatus_CanTransitionTo (n_status row) (n_status row'))))"
proof -
  obtain q d1 where q: "nodeRepo_GetByID i d = (q, d1)" by fastforce
  have k: "keep_tables d d1" and found: "\<And>n. q = Inr n \<Longrightarrow> \<exists>row\<in>set (nodes d). n_id row = i \<and> n = toDomainNode row"
    using nodeRepo_GetByID_result [OF q] by auto
  consider (same) "d' = d1" | (upd) n where "q = Inr n" "NodeStatus_CanTransitionTo (nd_Status n) st"
      "nodeRepo_Update (n\<lparr>nd_Status := st, nd_UpdatedAt := clock d1, nd_Version := nd_Version n + 1\<rparr>) d1 = (r, d')"
    using run by (auto simp: nodeSvc_UpdateNodeStatus_def q Node_UpdateStatus_Inr split: sum.splits)
  then show ?thesis
  proof cases
    case same
    then show ?thesis using only_node_keep [OF k] k by (auto simp: keep_tables_def)
  next
    case upd
    obtain row where row: "row \<in> set (nodes d)" "n_id row = i" "n = toDomainNode row" using found [OF upd(1)] by auto
    have id: "nd_ID n = i" "nd_Status n = n_status row" using row by (simp_all add: toDomainNode_def)
    note res = nodeRepo_Update_result [OF upd(3), simplified, unfolded id(1)]
    have "only_node i d d'" by (rule only_node_trans [OF only_node_keep [OF k] conjunct1 [OF res]])
    moreover have "n_status row' = n_status row \<or> NodeStatus_CanTransitionTo (n_status row) (n_status row')"
      if "row' \<in> set (nodes d')" "n_id row' = i" for row'
    proof -
      from res that consider "n_status row' = st" | "row' \<in> set (nodes d1)" by auto
      then show ?thesis
      proof cases
        case 1
        then show ?thesis using upd(2) id by simp
      next
        case 2
        then have "row' \<in> set (nodes d)" using k by (simp add: keep_tables_def)
        then have "row' = row"
          using ok row that(2) by (intro distinct_map_unique [of n_id "nodes d"]) (auto simp: db_ok_def nodes_ok_def)
        then show ?thesis by simp
      qed
    qed
    ultimately show ?thesis using row(1,2) by blast
  qed
qed

theorem update_node_status_legal_witness:
  "let d' = snd (nodeSvc_UpdateNodeStatus ''node-1'' StatusUnhealthy one_node_db) in
   only_node ''node-1'' one_node_db d' \<and>
    (\<forall>row'\<in>set (nodes d'). n_id row' = ''node-1'' \<longrightarrow> (\<exists>row\<in>set (nodes one_node_db). n_id row = ''node-1'' \<and>
       (n_status row' = n_status row \<or> NodeStatus_CanTransitionTo (n_status row) (n_status row'))))"
  unfolding Let_def
  by (rule update_node_status_legal [of _ _ _ "fst (nodeSvc_UpdateNodeStatus ''node-1'' StatusUnhealthy one_node_db)"])
    (use one_node_db_facts(1) in \<open>simp_all add: db_good_def\<close>)

text \<open>An update of a node's status through the repository with a version that no longer matches
  changes nothing and still reports success: the conflict error of the optimistic lock is never
  returned.\<close>

theorem stale_version_is_silent:
  assumes "faults d = []" and "\<forall>row\<in>set (nodes d). n_id row = i \<longrightarrow> n_version row \<noteq> v"
  shows "nodeRepo_UpdateStatus i st v d = (Inr (), d)"
proof -
  have "map_nodes (\<lambda>r. n_id r = i \<and> n_version r = v) f d = d" for f
    using assms(2) by (intro map_nodes_none) blast
  moreover have "\<not> (\<exists>r\<in>set (nodes d). n_id r = i \<and> n_version r = v)" using assms(2) by blast
  ultimately show ?thesis
    using assms(1) by (simp add: nodeRepo_UpdateStatus_def UpdateNodeStatus_def run_query_nofault Let_def)
qed

theorem stale_version_is_silent_witness:
  "nodeRepo_UpdateStatus ''node-1'' StatusUnhealthy 7 one_node_db = (Inr (), one_node_db)"
  by (rule stale_version_is_silent) (simp_all add: one_node_db_def)

subsection \<open>Destruction\<close>

lemma DeleteNode_result:
  assumes "DeleteNode i d = (r, d')"
  shows "(\<exists>e. r = Inl e \<and> e \<noteq> ErrNoRows \<and> keep_tables d d') \<or>
    (\<exists>d0. keep_tables d d0 \<and> r = Inr () \<and> d' = delete_nodes (\<lambda>r. n_id r = i) d0)"
  using run_query_cases [of "\<lambda>d. (Inr (), delete_nodes (\<lambda>r. n_id r = i) d)" d] assms
  unfolding DeleteNode_def by (metis prod.inject sql_errors_distinct(3))

lemma delete_node_tables:
  assumes "i \<in> node_ids d"
  shows "nodes (delete_nodes (\<lambda>r. n_id r = i) d) = filter (\<lambda>r. n_id r \<noteq> i) (nodes d)"
    "peers (delete_nodes (\<lambda>r. n_id r = i) d) = filter (\<lambda>r. p_node_id r \<noteq> i) (peers d)"
    "subnets (delete_nodes (\<lambda>r. n_id r = i) d) = filter (\<lambda>r. s_node_id r \<noteq> i) (subnets d)"
proof -
  have "n_id ` set (filter (\<lambda>r. n_id r = i) (nodes d)) = {i}"
    using assms by (auto simp: node_ids_def image_iff)
  then show "nodes (delete_nodes (\<lambda>r. n_id r = i) d) = filter (\<lambda>r. n_id r \<noteq> i) (nodes d)"
    "peers (delete_nodes (\<lambda>r. n_id r = i) d) = filter (\<lambda>r. p_node_id r \<noteq> i) (peers d)"
    "subnets (delete_nodes (\<lambda>r. n_id r = i) d) = filter (\<lambda>r. s_node_id r \<noteq> i) (subnets d)"
    by (simp_all add: delete_nodes_def Let_def)
qed

lemma nodeSvc_DestroyNode_outcome:
  assumes run: "nodeSvc_DestroyNode cloudDestroy i (d, w) = (r, (d', w'))"
  shows "(case r of
      Inr _ \<Rightarrow> nodes d' = filter (\<lambda>x. n_id x \<noteq> i) (nodes d) \<and>
        peers d' = filter (\<lambda>p. p_node_id p \<noteq> i) (peers d) \<and>
        subnets d' = filter (\<lambda>s. s_node_id s \<noteq> i) (subnets d)
    | Inl _ \<Rightarrow> peers d' = peers d \<and> subnets d' = subnets d \<and> node_ids d' = node_ids d)"
proof -
  obtain q d1 where q: "nodeRepo_GetByID i d = (q, d1)" by fastforce
  have k: "keep_tables d d1" and found: "\<And>n. q = Inr n \<Longrightarrow> \<exists>row\<in>set (nodes d). n_id row = i \<and> n = toDomainNode row"
    using nodeRepo_GetByID_result [OF q] by auto
  consider (refused) e where "r = Inl e" "d' = d1"
    | (upd) n n' r2 d2 where "q = Inr n" "nd_ID n' = nd_ID n" "nodeRepo_Update n' d1 = (r2, d2)"
      "(\<exists>e. r2 = Inl e \<and> r = Inl e \<and> d' = d2) \<or> (r2 = Inr () \<and> nodeRepo_Delete i d2 = (r, d'))"
  proof -
    assume refused: "\<And>e. r = Inl e \<Longrightarrow> d' = d1 \<Longrightarrow> thesis"
      and upd: "\<And>n n' r2 d2. q = Inr n \<Longrightarrow> nd_ID n' = nd_ID n \<Longrightarrow> nodeRepo_Update n' d1 = (r2, d2) \<Longrightarrow>
        (\<exists>e. r2 = Inl e \<and> r = Inl e \<and> d' = d2) \<or> (r2 = Inr () \<and> nodeRepo_Delete i d2 = (r, d')) \<Longrightarrow> thesis"
    show thesis
    proof (cases q)
      case (Inl e)
      then show ?thesis using run refused by (auto simp: nodeSvc_DestroyNode_def q)
    next
      case (Inr n)
      show ?thesis
      proof (cases "Node_ValidateForDestruction n")
        case (Inl e)
        then have "r = Inl e" "d' = d1" using run \<open>q = Inr n\<close> by (simp_all add: nodeSvc_DestroyNode_def q)
        then show ?thesis by (rule refused)
      next
        case (Inr u)
        show ?thesis
        proof (cases "Node_UpdateStatus (clock d1) StatusDestroying n")
          case (Inl e)
          then have "r = Inl e" "d' = d1"
            using run \<open>q = Inr n\<close> \<open>Node_ValidateForDestruction n = Inr u\<close>
            by (simp_all add: nodeSvc_DestroyNode_def q)
          then show ?thesis by (rule refused)
        next
          case (Inr n')
          obtain r2 d2 where u: "nodeRepo_Update n' d1 = (r2, d2)" by fastforce
          have "nd_ID n' = nd_ID n" using Inr by (auto simp: Node_UpdateStatus_Inr)
          moreover have "(\<exists>e. r2 = Inl e \<and> r = Inl e \<and> d' = d2) \<or> (r2 = Inr () \<and> nodeRepo_Delete i d2 = (r, d'))"
            using run \<open>q = Inr n\<close> \<open>Node_ValidateForDestruction n = Inr u\<close> Inr
            by (auto simp: nodeSvc_DestroyNode_def q u Let_def split: sum.splits prod.splits)
          ultimately show ?thesis using upd [OF \<open>q = Inr n\<close> _ u] by blast
        qed
      qed
    qed
  qed
  then show ?thesis
  proof cases
    case refused
    then show ?thesis using k by (simp add: keep_tables_def node_ids_def)
  next
    case upd
    obtain row where row: "row \<in> set (nodes d)" "n_id row = i" "n = toDomainNode row" using found [OF upd(1)] by auto
    have "only_node i d1 d2"
      using conjunct1 [OF nodeRepo_Update_result [OF upd(3)]] upd(2) row by (simp add: toDomainNode_def)
    then have o: "only_node i d d2" by (rule only_node_trans [OF only_node_keep [OF k]])
    obtain q3 d3 where del: "DeleteNode i d2 = (q3, d3)" by fastforce
    have mem: "i \<in> node_ids d2" using o row by (auto simp: only_node_def node_ids_def)
    from upd(4) show ?thesis
    proof (elim disjE exE conjE)
      fix e assume "r = Inl e" "d' = d2"
      then show ?thesis using o by (simp add: only_node_def)
    next
      assume dd: "nodeRepo_Delete i d2 = (r, d')"
      from DeleteNode_result [OF del] show ?thesis
      proof (elim disjE exE conjE)
        fix e assume "q3 = Inl e" "keep_tables d2 d3"
        then show ?thesis using dd o
          by (auto simp: nodeRepo_Delete_def del only_node_def keep_tables_def node_ids_def)
      next
        fix d0 assume d0: "keep_tables d2 d0" "q3 = Inr ()" "d3 = delete_nodes (\<lambda>r. n_id r = i) d0"
        have "i \<in> node_ids d0" using mem d0(1) by (simp add: keep_tables_def node_ids_def)
        note tabs = delete_node_tables [OF this]
        have "r = Inr ()" "d' = d3" using dd d0(2) by (simp_all add: nodeRepo_Delete_def del)
        then show ?thesis using tabs d0 o by (simp add: only_node_def keep_tables_def)
      qed
    qed
  qed
qed

text \<open>C27: destroying a node: when it succeeds, the node, its subnet and every one of its peers,
  active ones included, are gone and all other rows are untouched, even if the cloud call failed;
  when it fails, no peer and no subnet was removed.\<close>

theorem destroy_node_cascade:
  assumes run: "nodeSvc_DestroyNode cloudDestroy i (d, w) = (r, (d', w'))"
  shows "(case r of
      Inr _ \<Rightarrow> nodes d' = filter (\<lambda>x. n_id x \<noteq> i) (nodes d) \<and>
        peers d' = filter (\<lambda>p. p_node_id p \<noteq> i) (peers d) \<and>
        subnets d' = filter (\<lambda>s. s_node_id s \<noteq> i) (subnets d)
    | Inl _ \<Rightarrow> peers d' = peers d \<and> subnets d' = subnets d \<and> node_ids d' = node_ids d)"
  by (rule nodeSvc_DestroyNode_outcome [OF assms])

theorem destroy_node_cascade_witness:
  "let res = nodeSvc_DestroyNode (\<lambda>s w. (Inl ErrIO, w)) ''node-1'' (one_node_db, ()) in
    (case fst res of
      Inr _ \<Rightarrow> nodes (fst (snd res)) = filter (\<lambda>x. n_id x \<noteq> ''node-1'') (nodes one_node_db) \<and>
        peers (fst (snd res)) = filter (\<lambda>p. p_node_id p \<noteq> ''node-1'') (peers one_node_db) \<and>
        subnets (fst (snd res)) = filter (\<lambda>s. s_node_id s \<noteq> ''node-1'') (subnets one_node_db)
    | Inl _ \<Rightarrow> peers (fst (snd res)) = peers one_node_db \<and> subnets (fst (snd res)) = subnets one_node_db \<and>
        node_ids (fst (snd res)) = node_ids one_node_db)"
  unfolding Let_def
  by (rule destroy_node_cascade [where w' = "()"]) (simp add: prod_eq_iff)

subsection \<open>Selection\<close>

definition has_room :: "NodeServiceConfig \<Rightarrow> Node \<Rightarrow> bool" where
  "has_room cfg n = (Node_ValidateCapacity 1 (MaxPeersPerNode cfg) n = Inr () \<and>
     \<not> Node_IsOverCapacityThreshold (MaxPeersPerNode cfg) (nsc_CapacityThreshold cfg) n)"

lemma filter_available_spec:
  assumes "faults d = []" "db_ok d" "\<forall>n\<in>set ns. \<exists>row\<in>set (nodes d). n = toDomainNode row"
  shows "filter_available cfg ns d = (filter (has_room cfg) ns, d)"
  using assms(3)
proof (induction ns)
  case (Cons n ns)
  then obtain row where row: "row \<in> set (nodes d)" "n = toDomainNode row" by auto
  then have "nodeRepo_GetByID (nd_ID n) d = (Inr n, d)"
    using nodeRepo_GetByID_nofault [OF assms(1,2) row(1)] by (simp add: toDomainNode_def)
  then have "nodeSvc_ValidateNodeCapacity cfg (nd_ID n) 1 d = (r, d1) \<Longrightarrow>
      d1 = d \<and> (has_room cfg n \<longleftrightarrow> (\<exists>u. r = Inr u))" for r d1
    by (auto simp: nodeSvc_ValidateNodeCapacity_def has_room_def split: sum.splits if_splits)
  with Cons show ?case
    by (cases "nodeSvc_ValidateNodeCapacity cfg (nd_ID n) 1 d") (auto split: sum.splits)
qed simp

lemma least_loaded_loop_spec:
  "least_loaded_loop best ns \<in> set (best # ns) \<and>
   (\<forall>m\<in>set (best # ns). nd_ConnectedClients (least_loaded_loop best ns) \<le> nd_ConnectedClients m)"
proof (induction best ns rule: least_loaded_loop.induct)
  case (2 best m ns)
  then show ?case
    by (cases "nd_ConnectedClients m < nd_ConnectedClients best") (auto intro: order_trans less_imp_le)
qed simp

lemma set_page: "set (page off lmt xs) \<subseteq> set xs"
  by (auto simp: page_def Let_def dest: in_set_takeD in_set_dropD split: option.splits if_splits)

lemma set_applyFilters: "set (applyFilters f ns) \<subseteq> set ns"
  unfolding applyFilters_def Let_def
  by (rule subset_trans [OF set_page]) (auto split: option.splits)

text \<open>Node selection with the least-loaded strategy, or an unknown one: of the active nodes the
  filters list, those with room for one more peer are kept and one with the fewest clients is
  returned; with no active node the error is \<open>node_not_found\<close>, with none that has room it is
  \<open>node_at_capacity\<close>, and nothing is written.\<close>

theorem select_least_loaded:
  assumes nf: "faults d = []" and ok: "db_ok d"
    and strat: "OptimalNodeSelection cfg \<notin> {''round_robin'', ''random''}"
  shows "(let listed = applyFilters (f\<lparr>nf_Status := Some StatusActive\<rparr>)
              (map toDomainNode (newest_first n_created_at (filter (\<lambda>r. n_status r = ''active'') (nodes d))));
            avail = filter (has_room cfg) listed
        in if listed = [] then \<exists>e. nodeSvc_SelectOptimalNode cfg nano f d = (Inl e, d) \<and> GetErrorCode e = ErrCodeNodeNotFound
           else if avail = [] then \<exists>e. nodeSvc_SelectOptimalNode cfg nano f d = (Inl e, d) \<and> GetErrorCode e = ErrCodeNodeAtCapacity
           else \<exists>n. nodeSvc_SelectOptimalNode cfg nano f d = (Inr n, d) \<and> n \<in> set avail \<and>
             (\<forall>m\<in>set avail. nd_ConnectedClients n \<le> nd_ConnectedClients m))"
proof -
  define listed where "listed = applyFilters (f\<lparr>nf_Status := Some StatusActive\<rparr>)
              (map toDomainNode (newest_first n_created_at (filter (\<lambda>r. n_status r = ''active'') (nodes d))))"
  have list: "nodeRepo_List (f\<lparr>nf_Status := Some StatusActive\<rparr>) d = (Inr listed, d)"
    using nf by (simp add: nodeRepo_List_def GetNodesByStatus_def select_nofault listed_def)
  have "set listed \<subseteq> toDomainNode ` set (nodes d)"
    unfolding listed_def by (rule subset_trans [OF set_applyFilters]) auto
  then have fa: "filter_available cfg listed d = (filter (has_room cfg) listed, d)"
    by (intro filter_available_spec [OF nf ok]) auto
  have ll: "\<exists>n. selectLeastLoadedNode ns = Some n \<and> n \<in> set ns \<and>
      (\<forall>m\<in>set ns. nd_ConnectedClients n \<le> nd_ConnectedClients m)" if "ns \<noteq> []" for ns
    using that least_loaded_loop_spec by (cases ns) (auto simp: selectLeastLoadedNode_def)
  show ?thesis
    unfolding listed_def [symmetric] Let_def
    using strat ll [of "filter (has_room cfg) listed"]
    by (auto simp: nodeSvc_SelectOptimalNode_def list fa Let_def)
qed

definition default_service_config :: NodeServiceConfig where
  "default_service_config =
     \<lparr>MaxPeersPerNode = 50, nsc_CapacityThreshold = 80, OptimalNodeSelection = ''least_loaded''\<rparr>"

definition no_filters :: NodeFilters where
  "no_filters = \<lparr>nf_Status = None, nf_ServerID = None, nf_IPAddress = None, nf_Limit = None, nf_Offset = None\<rparr>"

theorem select_least_loaded_witness:
  "(let listed = applyFilters (no_filters\<lparr>nf_Status := Some StatusActive\<rparr>)
              (map toDomainNode (newest_first n_created_at (filter (\<lambda>r. n_status r = ''active'') (nodes one_node_db))));
            avail = filter (has_room default_service_config) listed
        in if listed = [] then \<exists>e. nodeSvc_SelectOptimalNode default_service_config 0 no_filters one_node_db = (Inl e, one_node_db) \<and>
             GetErrorCode e = ErrCodeNodeNotFound
           else if avail = [] then \<exists>e. nodeSvc_SelectOptimalNode default_service_config 0 no_filters one_node_db = (Inl e, one_node_db) \<and>
             GetErrorCode e = ErrCodeNodeAtCapacity
           else \<exists>n. nodeSvc_SelectOptimalNode default_service_config 0 no_filters one_node_db = (Inr n, one_node_db) \<and> n \<in> set avail \<and>
             (\<forall>m\<in>set avail. nd_ConnectedClients n \<le> nd_ConnectedClients m))"
  by (rule select_least_loaded)
    (use one_node_db_facts(1,2) in \<open>simp_all add: db_good_def default_service_config_def\<close>)

end
