(* ===== verification/PeerModel.thy ===== *)
theory PeerModel
  imports NodeModel
begin

text \<open>
  Peers: the entity with its status machine and validation (\<open>internal/rotator/peer/models.go\<close>,
  \<open>status.go\<close>), the repository (\<open>infrastructure/store/peer_repository.go\<close>) and the peer service
  (\<open>peer/service.go\<close>). \<open>time.Now()\<close> is the database clock, its nanoseconds in a peer id an
  argument. The pool of peer objects only ever holds reset objects, so a pooled peer is a fresh one.
\<close>

section \<open>Status\<close>

abbreviation PeerActive :: string where
  "PeerActive \<equiv> ''active''"
abbreviation PeerDisconnected :: string where
  "PeerDisconnected \<equiv> ''disconnected''"
abbreviation PeerRemoving :: string where
  "PeerRemoving \<equiv> ''removing''"

definition PeerStatus_IsValid :: "string \<Rightarrow> bool" where
  "PeerStatus_IsValid s = (s = PeerActive \<or> s = PeerDisconnected \<or> s = PeerRemoving)"

definition validTransitions :: "string \<rightharpoonup> (string \<rightharpoonup> bool)" where
  "validTransitions = [
     PeerActive \<mapsto> [PeerDisconnected \<mapsto> True, PeerRemoving \<mapsto> True],
     PeerDisconnected \<mapsto> [PeerActive \<mapsto> True, PeerRemoving \<mapsto> True],
     PeerRemoving \<mapsto> Map.empty]"

definition PeerStatus_CanTransitionTo :: "string \<Rightarrow> string \<Rightarrow> bool" where
  "PeerStatus_CanTransitionTo s target =
     (case validTransitions s of
        None \<Rightarrow> False
      | Some allowed \<Rightarrow> (case allowed target of None \<Rightarrow> False | Some b \<Rightarrow> b))"

section \<open>Entity and validation\<close>

text \<open>The values of a protocol configuration: only strings matter to the code.\<close>

datatype cfg_value = CfgString string | CfgNil | CfgOther

type_synonym ProtocolConfig = "string \<rightharpoonup> cfg_value"

record Peer =
  pr_ID :: string
  pr_NodeID :: string
  pr_PublicKey :: string
  pr_PresharedKey :: "string option"
  pr_Protocol :: string
  pr_Identifier :: string
  pr_ProtocolConfig :: "ProtocolConfig option"
  pr_AllocatedIP :: string
  pr_Status :: string
  pr_CreatedAt :: int
  pr_UpdatedAt :: int
  pr_LastHandshakeAt :: "int option"

abbreviation peer_invalid :: "string \<Rightarrow> go_error" where
  "peer_invalid msg \<equiv> NewPeerError ErrCodePeerValidation msg False None"

definition is_wireguard_name :: "string \<Rightarrow> bool" where
  "is_wireguard_name p = (p = ''wireguard'' \<or> p = ''wg'' \<or> p = ''WireGuard'')"

definition validatePublicKey :: "string \<Rightarrow> unit res" where
  "validatePublicKey publicKey =
     (if trim_space publicKey = [] then
        Inl (WithMetadata (peer_invalid ''public_key cannot be empty'') ''public_key'' (MString publicKey))
      else if \<not> IsValidWireGuardKey publicKey then
        Inl (WithMetadata (peer_invalid ''invalid WireGuard key format'') ''public_key'' (MString publicKey))
      else Inr ())"

definition validatePresharedKey :: "string \<Rightarrow> unit res" where
  "validatePresharedKey presharedKey =
     (if trim_space presharedKey = [] then Inr ()
      else if \<not> IsValidWireGuardKey presharedKey then
        Inl (WithMetadata (peer_invalid ''invalid WireGuard key format'') ''preshared_key'' (MString ''REDACTED''))
      else Inr ())"

text \<open>The address check with its cache of texts already found valid; the package shares one cache.\<close>

record ip_cache =
  ic_enabled :: bool
  ic_max :: nat
  ic_entries :: "string list"

definition validateIPAddress_cached :: "ip_cache \<Rightarrow> string \<Rightarrow> unit res \<times> ip_cache" where
  "validateIPAddress_cached c ipAddr =
     (if ipAddr = [] then
        (Inl (WithMetadata (peer_invalid ''ip_address cannot be empty'') ''ip_address'' (MString ipAddr)), c)
      else if ipAddr \<in> set (ic_entries c) then (Inr (), c)
      else if ParseIP ipAddr = None then
        (Inl (WithMetadata (peer_invalid ''invalid IP address format'') ''ip_address'' (MString ipAddr)), c)
      else (Inr (), if ic_enabled c \<and> length (ic_entries c) < ic_max c
                    then c\<lparr>ic_entries := ipAddr # ic_entries c\<rparr> else c))"

text \<open>Without a cache; \<open>validateIPAddress_cached\<close> gives the same answers (below).\<close>

definition validateIPAddress :: "string \<Rightarrow> unit res" where
  "validateIPAddress ipAddr = fst (validateIPAddress_cached \<lparr>ic_enabled = False, ic_max = 0, ic_entries = []\<rparr> ipAddr)"

definition validatePeerNodeID :: "string \<Rightarrow> unit res" where
  "validatePeerNodeID nodeID =
     (if trim_space nodeID = [] then
        Inl (WithMetadata (peer_invalid ''node_id cannot be empty'') ''node_id'' (MString nodeID))
      else Inr ())"

text \<open>The preshared key of a configuration: \<open>v.(string)\<close> that is not empty.\<close>

definition config_psk :: "ProtocolConfig option \<Rightarrow> string option" where
  "config_psk cfg = (case cfg of None \<Rightarrow> None | Some m \<Rightarrow>
     (case m ''preshared_key'' of Some (CfgString ps) \<Rightarrow> (if ps \<noteq> [] then Some ps else None) | _ \<Rightarrow> None))"

definition NewPeerGeneric ::
  "string \<Rightarrow> string \<Rightarrow> string \<Rightarrow> string \<Rightarrow> ProtocolConfig option \<Rightarrow> int \<Rightarrow> Peer res" where
  "NewPeerGeneric nodeID protocol identifier allocatedIP cfg now =
     bindr (validatePeerNodeID nodeID) (\<lambda>_.
     bindr (validateIPAddress allocatedIP) (\<lambda>_.
     if trim_space protocol = [] then Inl (peer_invalid ''protocol cannot be empty'')
     else if trim_space identifier = [] then Inl (peer_invalid ''identifier cannot be empty'')
     else bindr
       (if is_wireguard_name protocol then
          bindr (validatePublicKey identifier) (\<lambda>_.
            case config_psk cfg of Some ps \<Rightarrow> validatePresharedKey ps | None \<Rightarrow> Inr ())
        else Inr ()) (\<lambda>_.
       let proto = to_lower protocol; wg = (proto = ''wireguard'') in
       Inr \<lparr>pr_ID = [], pr_NodeID = nodeID, pr_PublicKey = (if wg then identifier else []),
            pr_PresharedKey = (if wg then config_psk cfg else None), pr_Protocol = proto,
            pr_Identifier = identifier, pr_ProtocolConfig = cfg, pr_AllocatedIP = allocatedIP,
            pr_Status = PeerActive, pr_CreatedAt = now, pr_UpdatedAt = now,
            pr_LastHandshakeAt = None\<rparr>)))"

definition NewPeer :: "string \<Rightarrow> string \<Rightarrow> string \<Rightarrow> string option \<Rightarrow> int \<Rightarrow> Peer res" where
  "NewPeer nodeID publicKey allocatedIP presharedKey now =
     NewPeerGeneric nodeID ''wireguard'' publicKey allocatedIP
       (Some [''preshared_key'' \<mapsto> (case presharedKey of Some ps \<Rightarrow> CfgString ps | None \<Rightarrow> CfgNil)]) now"

definition Peer_UpdateStatus :: "int \<Rightarrow> string \<Rightarrow> Peer \<Rightarrow> Peer res" where
  "Peer_UpdateStatus now newStatus p =
     (if \<not> PeerStatus_IsValid newStatus then
        Inl (WithMetadata (peer_invalid ''invalid status'') ''status'' (MString newStatus))
      else if \<not> PeerStatus_CanTransitionTo (pr_Status p) newStatus then
        Inl (peer_invalid (''invalid status transition from '' @ pr_Status p @ '' to '' @ newStatus))
      else Inr (p\<lparr>pr_Status := newStatus, pr_UpdatedAt := now\<rparr>))"

definition Peer_IsActive :: "Peer \<Rightarrow> bool" where
  "Peer_IsActive p = (pr_Status p = PeerActive)"

definition Peer_Migrate :: "int \<Rightarrow> string \<Rightarrow> string \<Rightarrow> Peer \<Rightarrow> Peer res" where
  "Peer_Migrate now newNodeID newIP p =
     bindr (validatePeerNodeID newNodeID) (\<lambda>_.
     bindr (validateIPAddress newIP) (\<lambda>_.
     Inr (p\<lparr>pr_NodeID := newNodeID, pr_AllocatedIP := newIP, pr_UpdatedAt := now\<rparr>)))"

definition Peer_UpdateLastHandshake :: "int \<Rightarrow> int \<Rightarrow> Peer \<Rightarrow> Peer" where
  "Peer_UpdateLastHandshake now t p = p\<lparr>pr_LastHandshakeAt := Some t, pr_UpdatedAt := now\<rparr>"

record PeerCreateRequest =
  pq_NodeID :: string
  pq_Protocol :: string
  pq_Identifier :: string
  pq_ProtocolConfig :: "ProtocolConfig option"
  pq_PublicKey :: string
  pq_AllocatedIP :: string
  pq_PresharedKey :: "string option"

text \<open>\<open>Validate\<close> fills in the default protocol and the identifier on the request itself.\<close>

definition PeerCreateRequest_normalise :: "PeerCreateRequest \<Rightarrow> PeerCreateRequest" where
  "PeerCreateRequest_normalise r =
     (let r1 = (if trim_space (pq_Protocol r) = [] then r\<lparr>pq_Protocol := ''wireguard''\<rparr> else r) in
      if trim_space (pq_Identifier r1) = [] \<and> trim_space (pq_PublicKey r1) \<noteq> []
      then r1\<lparr>pq_Identifier := pq_PublicKey r1\<rparr> else r1)"

definition PeerCreateRequest_Validate :: "PeerCreateRequest \<Rightarrow> unit res \<times> PeerCreateRequest" where
  "PeerCreateRequest_Validate r =
     (case validatePeerNodeID (pq_NodeID r) of
        Inl e \<Rightarrow> (Inl e, r)
      | Inr _ \<Rightarrow>
          (let r1 = PeerCreateRequest_normalise r in
           (if trim_space (pq_Identifier r1) = [] then Inl (peer_invalid ''identifier cannot be empty'')
            else bindr
              (if is_wireguard_name (pq_Protocol r1) then
                 bindr (validatePublicKey (pq_Identifier r1)) (\<lambda>_.
                   case pq_PresharedKey r1 of Some k \<Rightarrow> validatePresharedKey k | None \<Rightarrow> Inr ())
               else Inr ()) (\<lambda>_. validateIPAddress (pq_AllocatedIP r1)), r1)))"

record PeerFilters =
  pf_NodeID :: "string option"
  pf_Status :: "string option"
  pf_Limit :: "int option"
  pf_Offset :: "int option"

record PeerStatistics =
  pst_TotalPeers :: int
  pst_ActivePeers :: int
  pst_DisconnectedPeers :: int
  pst_RemovingPeers :: int

section \<open>Repository\<close>

text \<open>The two error mappings: with and without the case of a missing row.\<close>

definition found_or :: "string \<Rightarrow> string \<Rightarrow> go_error \<Rightarrow> go_error" where
  "found_or missing failed e =
     (if e = ErrNoRows then NewPeerError ErrCodePeerNotFound missing False (Some e) else db_error failed e)"

definition toDomainPeer :: "PeerRow \<Rightarrow> Peer" where
  "toDomainPeer r =
     \<lparr>pr_ID = p_id r, pr_NodeID = p_node_id r,
      pr_PublicKey = (case p_public_key r of Some k \<Rightarrow> if p_protocol r = ''wireguard'' then k else [] | None \<Rightarrow> []),
      pr_PresharedKey = (if p_protocol r = ''wireguard'' then p_preshared_key r else None),
      pr_Protocol = p_protocol r, pr_Identifier = p_identifier r, pr_ProtocolConfig = None,
      pr_AllocatedIP = p_allocated_ip r, pr_Status = p_status r, pr_CreatedAt = p_created_at r,
      pr_UpdatedAt = p_updated_at r, pr_LastHandshakeAt = p_last_handshake_at r\<rparr>"

definition peerRepo_Create :: "Peer \<Rightarrow> Db \<Rightarrow> unit res \<times> Db" where
  "peerRepo_Create p = map_errS (db_error ''failed to create peer in database'') (bindS
     (CreatePeer (pr_ID p) (pr_NodeID p) (pr_Protocol p) (pr_Identifier p) None
        (if pr_Protocol p = ''wireguard'' \<and> pr_PublicKey p \<noteq> [] then Some (pr_PublicKey p) else None)
        (pr_AllocatedIP p)
        (if pr_Protocol p = ''wireguard'' then pr_PresharedKey p else None)
        (pr_Status p)) (\<lambda>_. returnS ()))"

definition peerRepo_Get :: "string \<Rightarrow> Db \<Rightarrow> Peer res \<times> Db" where
  "peerRepo_Get peerID = map_errS (found_or (''peer '' @ peerID @ '' not found'') ''failed to get peer'')
     (bindS (GetPeer peerID) (\<lambda>r. returnS (toDomainPeer r)))"

definition peerRepo_GetByIdentifier :: "string \<Rightarrow> string \<Rightarrow> Db \<Rightarrow> Peer res \<times> Db" where
  "peerRepo_GetByIdentifier protocolName identifier =
     map_errS (found_or (''peer '' @ protocolName @ '':'' @ identifier @ '' not found'') ''failed to get peer by identifier'')
       (bindS (GetPeerByIdentifier protocolName identifier) (\<lambda>r. returnS (toDomainPeer r)))"

definition peerRepo_GetByPublicKey :: "string \<Rightarrow> Db \<Rightarrow> Peer res \<times> Db" where
  "peerRepo_GetByPublicKey publicKey = peerRepo_GetByIdentifier ''wireguard'' publicKey"

definition peerRepo_Delete :: "string \<Rightarrow> Db \<Rightarrow> unit res \<times> Db" where
  "peerRepo_Delete peerID =
     map_errS (found_or (''peer '' @ peerID @ '' not found for deletion'') ''failed to delete peer'') (DeletePeer peerID)"

definition peerRepo_List :: "PeerFilters option \<Rightarrow> Db \<Rightarrow> Peer list res \<times> Db" where
  "peerRepo_List filters = bindS
     (map_errS (db_error ''failed to list peers'')
        (case filters of
           None \<Rightarrow> GetAllPeers
         | Some f \<Rightarrow> (case pf_NodeID f of
               Some i \<Rightarrow> GetPeersByNode i
             | None \<Rightarrow> (case pf_Status f of Some s \<Rightarrow> GetPeersByStatus s | None \<Rightarrow> GetAllPeers))))
     (\<lambda>rs. returnS (case filters of
           None \<Rightarrow> map toDomainPeer rs
         | Some f \<Rightarrow> page (pf_Offset f) (pf_Limit f) (map toDomainPeer rs)))"

definition peerRepo_GetByNode :: "string \<Rightarrow> Db \<Rightarrow> Peer list res \<times> Db" where
  "peerRepo_GetByNode nodeID = map_errS (db_error ''failed to get peers by node'')
     (bindS (GetPeersByNode nodeID) (\<lambda>rs. returnS (map toDomainPeer rs)))"

definition peerRepo_GetActiveByNode :: "string \<Rightarrow> Db \<Rightarrow> Peer list res \<times> Db" where
  "peerRepo_GetActiveByNode nodeID =
     bindS (peerRepo_GetByNode nodeID) (\<lambda>ps. returnS (filter (\<lambda>p. pr_Status p = PeerActive) ps))"

text \<open>The argument is the duration in minutes, truncated as \<open>int(inactiveDuration.Minutes())\<close>.\<close>

definition peerRepo_GetInactive :: "int \<Rightarrow> Db \<Rightarrow> Peer list res \<times> Db" where
  "peerRepo_GetInactive minutes = map_errS (db_error ''failed to get inactive peers'')
     (bindS (GetInactivePeers (Some minutes)) (\<lambda>rs. returnS (map toDomainPeer rs)))"

definition peerRepo_UpdateStatus :: "string \<Rightarrow> string \<Rightarrow> Db \<Rightarrow> unit res \<times> Db" where
  "peerRepo_UpdateStatus peerID st =
     map_errS (found_or (''peer '' @ peerID @ '' not found for status update'') ''failed to update peer status'')
       (UpdatePeerStatus st peerID)"

definition peerRepo_UpdateLastHandshake :: "string \<Rightarrow> int \<Rightarrow> Db \<Rightarrow> unit res \<times> Db" where
  "peerRepo_UpdateLastHandshake peerID t =
     map_errS (found_or (''peer '' @ peerID @ '' not found for handshake update'') ''failed to update peer last handshake'')
       (UpdatePeerLastHandshake (Some t) peerID)"

definition peerRepo_UpdateNode :: "string \<Rightarrow> string \<Rightarrow> string \<Rightarrow> Db \<Rightarrow> unit res \<times> Db" where
  "peerRepo_UpdateNode peerID nodeID allocatedIP =
     map_errS (found_or (''peer '' @ peerID @ '' not found for node migration'') ''failed to update peer node'')
       (UpdatePeerNode nodeID allocatedIP peerID)"

definition peerRepo_CheckIdentifierConflict :: "string \<Rightarrow> string \<Rightarrow> Db \<Rightarrow> bool res \<times> Db" where
  "peerRepo_CheckIdentifierConflict protocolName identifier =
     map_errS (db_error ''failed to check identifier conflict'')
       (bindS (CheckIdentifierConflictQ protocolName identifier) (\<lambda>n. returnS (n > 0)))"

definition peerRepo_CheckPublicKeyConflict :: "string \<Rightarrow> Db \<Rightarrow> bool res \<times> Db" where
  "peerRepo_CheckPublicKeyConflict publicKey = peerRepo_CheckIdentifierConflict ''wireguard'' publicKey"

definition peerRepo_CheckIPConflict :: "string \<Rightarrow> Db \<Rightarrow> bool res \<times> Db" where
  "peerRepo_CheckIPConflict ip =
     map_errS (db_error ''failed to check IP conflict'') (bindS (CheckIPConflictQ ip) (\<lambda>n. returnS (n > 0)))"

definition peerRepo_DeleteByNode :: "string \<Rightarrow> Db \<Rightarrow> unit res \<times> Db" where
  "peerRepo_DeleteByNode nodeID = map_errS (db_error ''failed to delete peers by node'') (DeletePeersByNode nodeID)"

definition peerRepo_CountByNode :: "string \<Rightarrow> Db \<Rightarrow> int res \<times> Db" where
  "peerRepo_CountByNode nodeID = map_errS (db_error ''failed to count peers by node'') (CountPeersByNode nodeID)"

definition peerRepo_CountActiveByNode :: "string \<Rightarrow> Db \<Rightarrow> int res \<times> Db" where
  "peerRepo_CountActiveByNode nodeID =
     map_errS (db_error ''failed to count active peers by node'') (CountActivePeersByNode nodeID)"

definition peerRepo_GetStatistics :: "Db \<Rightarrow> PeerStatistics res \<times> Db" where
  "peerRepo_GetStatistics = map_errS (db_error ''failed to get peer statistics'')
     (bindS GetPeerStatistics (\<lambda>s. returnS
        \<lparr>pst_TotalPeers = ps_TotalPeers s, pst_ActivePeers = null_int (ps_ActivePeers s),
         pst_DisconnectedPeers = null_int (ps_DisconnectedPeers s),
         pst_RemovingPeers = null_int (ps_RemovingPeers s)\<rparr>))"

section \<open>Service\<close>

abbreviation peer_db_error :: "string \<Rightarrow> go_error \<Rightarrow> go_error" where
  "peer_db_error msg e \<equiv> WrapWithDomain e DomainPeer ErrCodeDatabase msg True"

definition generatePeerID :: "nat \<Rightarrow> string" where
  "generatePeerID nano = ''peer_'' @ dec nano"

text \<open>The configuration map \<open>Create\<close> builds.\<close>

definition create_config :: "PeerCreateRequest \<Rightarrow> ProtocolConfig" where
  "create_config r =
     (let m = (case pq_ProtocolConfig r of Some m \<Rightarrow> m | None \<Rightarrow> Map.empty) in
      case pq_PresharedKey r of Some k \<Rightarrow> m(''preshared_key'' \<mapsto> CfgString k) | None \<Rightarrow> m)"

definition peerSvc_Create :: "nat \<Rightarrow> PeerCreateRequest \<Rightarrow> Db \<Rightarrow> Peer res \<times> Db" where
  "peerSvc_Create nano req0 =
     (case PeerCreateRequest_Validate req0 of
        (Inl e, _) \<Rightarrow> failS e
      | (Inr _, req) \<Rightarrow>
          bindS (map_errS (peer_db_error ''failed to check identifier conflict'')
                   (peerRepo_CheckIdentifierConflict (pq_Protocol req) (pq_Identifier req))) (\<lambda>conflict.
          if conflict then failS (WithMetadata (WithMetadata
               (NewPeerError ErrCodePeerKeyConflict ''identifier already in use'' False None)
               ''protocol'' (MString (pq_Protocol req))) ''identifier'' (MString (pq_Identifier req)))
          else
          bindS (map_errS (peer_db_error ''failed to check IP conflict'')
                   (peerRepo_CheckIPConflict (pq_AllocatedIP req))) (\<lambda>ipConflict.
          if ipConflict then failS (WithMetadata
               (NewPeerError ErrCodePeerIPConflict ''IP address already allocated'' False None)
               ''ip_address'' (MString (pq_AllocatedIP req)))
          else
          bindS getS (\<lambda>d.
          bindS (map_errS (\<lambda>e. WrapWithDomain e DomainPeer ErrCodeInternal ''failed to create peer entity'' False)
                   (liftS (NewPeerGeneric (pq_NodeID req) (pq_Protocol req) (pq_Identifier req)
                      (pq_AllocatedIP req) (Some (create_config req)) (clock d)))) (\<lambda>p0.
          let p = p0\<lparr>pr_ID := generatePeerID nano\<rparr> in
          bindS (peerRepo_Create p) (\<lambda>_. returnS p))))))"

definition peerSvc_Get :: "string \<Rightarrow> Db \<Rightarrow> Peer res \<times> Db" where
  "peerSvc_Get peerID =
     (if peerID = [] then failS (peer_invalid ''peer_id cannot be empty'') else peerRepo_Get peerID)"

definition peerSvc_GetByPublicKey :: "string \<Rightarrow> Db \<Rightarrow> Peer res \<times> Db" where
  "peerSvc_GetByPublicKey publicKey =
     (if publicKey = [] then failS (peer_invalid ''public_key cannot be empty'')
      else peerRepo_GetByPublicKey publicKey)"

definition peerSvc_GetByIdentifier :: "string \<Rightarrow> string \<Rightarrow> Db \<Rightarrow> Peer res \<times> Db" where
  "peerSvc_GetByIdentifier protocolName identifier =
     (if trim_space protocolName = [] then failS (peer_invalid ''protocol cannot be empty'')
      else if trim_space identifier = [] then failS (peer_invalid ''identifier cannot be empty'')
      else if is_wireguard_name protocolName then peerRepo_GetByPublicKey identifier
      else failS (WithMetadata (peer_invalid ''protocol not supported yet'') ''protocol'' (MString protocolName)))"

definition peerSvc_List :: "PeerFilters option \<Rightarrow> Db \<Rightarrow> Peer list res \<times> Db" where
  "peerSvc_List filters = peerRepo_List filters"

text \<open>\<open>Remove\<close>: the status is set first, at best effort.\<close>

definition peerSvc_Remove :: "string \<Rightarrow> Db \<Rightarrow> unit res \<times> Db" where
  "peerSvc_Remove peerID =
     (if peerID = [] then failS (peer_invalid ''peer_id cannot be empty'')
      else bindS (peerRepo_Get peerID) (\<lambda>_.
           bindS (tryS (peerRepo_UpdateStatus peerID PeerRemoving)) (\<lambda>_.
           peerRepo_Delete peerID)))"

definition peerSvc_UpdateStatus :: "string \<Rightarrow> string \<Rightarrow> Db \<Rightarrow> unit res \<times> Db" where
  "peerSvc_UpdateStatus peerID st =
     (if peerID = [] then failS (peer_invalid ''peer_id cannot be empty'')
      else bindS (peerRepo_Get peerID) (\<lambda>p.
           bindS getS (\<lambda>d.
           bindS (liftS (Peer_UpdateStatus (clock d) st p)) (\<lambda>_.
           peerRepo_UpdateStatus peerID st))))"

text \<open>\<open>Migrate\<close>: on a conflict the peer is read again; an error of that read is ignored, and the
  conflict only counts when the peer read does not itself hold the address.\<close>

definition peerSvc_Migrate :: "string \<Rightarrow> string \<Rightarrow> string \<Rightarrow> Db \<Rightarrow> unit res \<times> Db" where
  "peerSvc_Migrate peerID newNodeID newIP =
     (if peerID = [] then failS (peer_invalid ''peer_id cannot be empty'')
      else bindS (peerRepo_Get peerID) (\<lambda>p.
           bindS getS (\<lambda>d.
           bindS (liftS (Peer_Migrate (clock d) newNodeID newIP p)) (\<lambda>_.
           bindS (map_errS (peer_db_error ''failed to check IP conflict'') (peerRepo_CheckIPConflict newIP)) (\<lambda>ipConflict.
           bindS (if ipConflict then
                    bindS (tryS (peerRepo_Get peerID)) (\<lambda>existing.
                      case existing of
                        Inr q \<Rightarrow> (if pr_AllocatedIP q \<noteq> newIP then
                            failS (WithMetadata (NewPeerError ErrCodePeerIPConflict ''IP address already allocated'' False None)
                              ''ip_address'' (MString newIP))
                          else returnS ())
                      | Inl _ \<Rightarrow> returnS ())
                  else returnS ()) (\<lambda>_.
           peerRepo_UpdateNode peerID newNodeID newIP))))))"

definition peerSvc_GetByNode :: "string \<Rightarrow> Db \<Rightarrow> Peer list res \<times> Db" where
  "peerSvc_GetByNode nodeID =
     (if nodeID = [] then failS (peer_invalid ''node_id cannot be empty'') else peerRepo_GetByNode nodeID)"

definition peerSvc_GetActiveByNode :: "string \<Rightarrow> Db \<Rightarrow> Peer list res \<times> Db" where
  "peerSvc_GetActiveByNode nodeID =
     (if nodeID = [] then failS (peer_invalid ''node_id cannot be empty'') else peerRepo_GetActiveByNode nodeID)"

definition peerSvc_CountActiveByNode :: "string \<Rightarrow> Db \<Rightarrow> int res \<times> Db" where
  "peerSvc_CountActiveByNode nodeID =
     (if nodeID = [] then failS (peer_invalid ''node_id cannot be empty'')
      else map_errS (peer_db_error ''failed to count active peers'') (peerRepo_CountActiveByNode nodeID))"

definition peerSvc_GetInactive :: "int \<Rightarrow> Db \<Rightarrow> Peer list res \<times> Db" where
  "peerSvc_GetInactive minutes =
     (if minutes \<le> 0 then
        failS (WithMetadata (peer_invalid ''inactive_minutes must be positive'') ''inactive_minutes'' (MInt minutes))
      else map_errS (peer_db_error ''failed to get inactive peers'') (peerRepo_GetInactive minutes))"

definition peerSvc_GetStatistics :: "Db \<Rightarrow> PeerStatistics res \<times> Db" where
  "peerSvc_GetStatistics = map_errS (peer_db_error ''failed to get peer statistics'') peerRepo_GetStatistics"

text \<open>\<open>CreateBatch\<close>: all requests are validated first, then created one by one; \<open>nanos k\<close> is
  the clock reading in the \<open>k\<close>-th generated id.\<close>

fun validate_batch :: "int \<Rightarrow> PeerCreateRequest list \<Rightarrow> PeerCreateRequest list res" where
  "validate_batch i [] = Inr []"
| "validate_batch i (r # rs) =
     (case PeerCreateRequest_Validate r of
        (Inl e, _) \<Rightarrow> Inl (WithMetadata e ''batch_index'' (MInt i))
      | (Inr _, r') \<Rightarrow> bindr (validate_batch (i + 1) rs) (\<lambda>rs'. Inr (r' # rs')))"

fun create_batch_loop :: "(nat \<Rightarrow> nat) \<Rightarrow> nat \<Rightarrow> PeerCreateRequest list \<Rightarrow> Db \<Rightarrow> Peer list res \<times> Db" where
  "create_batch_loop nanos k [] = returnS []"
| "create_batch_loop nanos k (r # rs) =
     bindS (map_errS (\<lambda>e. WrapWithDomain e DomainPeer ErrCodeInternal ''failed to create peer in batch'' False)
              (peerSvc_Create (nanos k) r)) (\<lambda>p.
     bindS (create_batch_loop nanos (Suc k) rs) (\<lambda>ps. returnS (p # ps)))"

definition peerSvc_CreateBatch :: "(nat \<Rightarrow> nat) \<Rightarrow> PeerCreateRequest list \<Rightarrow> Db \<Rightarrow> Peer list res \<times> Db" where
  "peerSvc_CreateBatch nanos requests =
     bindS (liftS (validate_batch 0 requests)) (\<lambda>rs. create_batch_loop nanos 0 rs)"

text \<open>\<open>UpdateStatusBatch\<close>: the map of updates is an association list in the order the two loops
  happen to visit it.\<close>

fun validate_updates :: "(string \<times> string) list \<Rightarrow> unit res" where
  "validate_updates [] = Inr ()"
| "validate_updates ((i, s) # us) =
     (if i = [] then Inl (peer_invalid ''peer_id cannot be empty'')
      else if \<not> PeerStatus_IsValid s then
        Inl (WithMetadata (WithMetadata (peer_invalid ''invalid status'') ''status'' (MString s)) ''peer_id'' (MString i))
      else validate_updates us)"

fun update_batch_loop :: "(string \<times> string) list \<Rightarrow> Db \<Rightarrow> unit res \<times> Db" where
  "update_batch_loop [] = returnS ()"
| "update_batch_loop ((i, s) # us) =
     bindS (map_errS (\<lambda>e. WrapWithDomain (WithMetadata e ''peer_id'' (MString i)) DomainPeer ErrCodeInternal
                            ''failed to update status for peer in batch'' False)
              (peerSvc_UpdateStatus i s)) (\<lambda>_. update_batch_loop us)"

definition peerSvc_UpdateStatusBatch ::
  "(string \<times> string) list \<Rightarrow> (string \<times> string) list \<Rightarrow> Db \<Rightarrow> unit res \<times> Db" where
  "peerSvc_UpdateStatusBatch order1 order2 =
     bindS (liftS (validate_updates order1)) (\<lambda>_. update_batch_loop order2)"

section \<open>Facts\<close>

interpretation peer_status: status_machine PeerStatus_IsValid PeerStatus_CanTransitionTo
  "\<lambda>s. s = PeerRemoving"
proof unfold_locales
  fix s t :: string
  show "PeerStatus_CanTransitionTo s t \<Longrightarrow> PeerStatus_IsValid s \<and> PeerStatus_IsValid t"
    by (auto simp: PeerStatus_CanTransitionTo_def validTransitions_def PeerStatus_IsValid_def split: if_splits)
  show "\<not> PeerStatus_CanTransitionTo s s"
    by (simp add: PeerStatus_CanTransitionTo_def validTransitions_def)
  show "s = PeerRemoving \<Longrightarrow> \<not> PeerStatus_CanTransitionTo s t"
    by (simp add: PeerStatus_CanTransitionTo_def validTransitions_def)
  show "PeerStatus_IsValid s \<Longrightarrow> s \<noteq> PeerRemoving \<Longrightarrow> \<exists>t. PeerStatus_CanTransitionTo s t \<and> t = PeerRemoving"
    by (auto simp: PeerStatus_CanTransitionTo_def validTransitions_def PeerStatus_IsValid_def)
qed

lemma Peer_UpdateStatus_Inr:
  "Peer_UpdateStatus now s p = Inr p' \<longleftrightarrow> PeerStatus_CanTransitionTo (pr_Status p) s \<and>
     p' = p\<lparr>pr_Status := s, pr_UpdatedAt := now\<rparr>"
  using peer_status.can_valid by (auto simp: Peer_UpdateStatus_def)

lemma keep_tables_order [simp]: "reflp keep_tables" "transp keep_tables"
  by (auto simp: reflp_def transp_def intro: keep_tables_trans)

lemmas keep_reads = stays_bindS [OF keep_tables_order(2)] stays_map_errS stays_tryS
  stays_pure [OF keep_tables_order(1)]

lemma stays_select: "stays keep_tables (select_one f)" "stays keep_tables (select_many g)"
  by (simp_all add: stays_def)

lemma peerRepo_reads:
  "stays keep_tables (peerRepo_Get i)" "stays keep_tables (peerRepo_GetByIdentifier pn ident)"
  "stays keep_tables (peerRepo_CheckIdentifierConflict pn ident)"
  "stays keep_tables (peerRepo_CheckIPConflict ip)" "stays keep_tables (peerRepo_GetByNode nid)"
  "stays keep_tables (peerRepo_GetActiveByNode nid)" "stays keep_tables (peerRepo_GetInactive m)"
  unfolding peerRepo_Get_def peerRepo_GetByIdentifier_def peerRepo_CheckIdentifierConflict_def
    peerRepo_CheckIPConflict_def peerRepo_GetActiveByNode_def peerRepo_GetByNode_def peerRepo_GetInactive_def
    GetPeer_def GetPeerByIdentifier_def CheckIdentifierConflictQ_def CheckIPConflictQ_def
    GetPeersByNode_def GetInactivePeers_def
  by (intro keep_reads stays_select)+

lemma peerRepo_Get_Inr:
  assumes "peerRepo_Get i d = (Inr p, d')"
  shows "keep_tables d d' \<and> (\<exists>row\<in>set (peers d). p_id row = i \<and> p = toDomainPeer row)"
proof -
  obtain r where r: "GetPeer i d = (Inr r, d')" "p = toDomainPeer r"
    using assms by (auto simp: peerRepo_Get_def bindS_Inr_iff)
  have "keep_tables d d' \<and> (Inr r = (Inl ErrIO :: PeerRow res) \<or> Inr r = scan_one (find (\<lambda>r. p_id r = i) (peers d)))"
    by (rule select_one_result [OF r(1) [unfolded GetPeer_def]]) (auto simp: keep_tables_def)
  then show ?thesis using r(2) by (auto dest!: sym [of "Inr r"] find_Some_mem)
qed

text \<open>The cache of address texts does not change any answer.\<close>

definition cache_ok :: "ip_cache \<Rightarrow> bool" where
  "cache_ok c = (\<forall>s\<in>set (ic_entries c). s \<noteq> [] \<and> ParseIP s \<noteq> None)"

lemma validateIPAddress_eq:
  "validateIPAddress s =
     (if s = [] then Inl (WithMetadata (peer_invalid ''ip_address cannot be empty'') ''ip_address'' (MString s))
      else if ParseIP s = None then
        Inl (WithMetadata (peer_invalid ''invalid IP address format'') ''ip_address'' (MString s))
      else Inr ())"
  by (simp add: validateIPAddress_def validateIPAddress_cached_def)

lemma validateIPAddress_cached_eq:
  assumes "cache_ok c"
  shows "fst (validateIPAddress_cached c s) = validateIPAddress s \<and> cache_ok (snd (validateIPAddress_cached c s))"
  using assms by (auto simp: validateIPAddress_eq validateIPAddress_cached_def cache_ok_def)

subsection \<open>Operations that change nothing when they fail\<close>

definition clean_fail :: "(Db \<Rightarrow> 'a res \<times> Db) \<Rightarrow> bool" where
  "clean_fail m = (\<forall>d e d'. m d = (Inl e, d') \<longrightarrow> keep_tables d d')"

lemma clean_failD: "clean_fail m \<Longrightarrow> m d = (Inl e, d') \<Longrightarrow> keep_tables d d'"
  by (simp add: clean_fail_def)

lemma clean_fail_read: "stays keep_tables m \<Longrightarrow> clean_fail m"
  by (auto simp: clean_fail_def dest: staysD)

lemma clean_fail_bindS: "stays keep_tables m \<Longrightarrow> (\<And>x. clean_fail (f x)) \<Longrightarrow> clean_fail (bindS m f)"
  unfolding clean_fail_def bindS_Inl_iff by (blast dest: staysD intro: keep_tables_trans)

lemma clean_fail_return: "clean_fail m \<Longrightarrow> clean_fail (bindS m (\<lambda>x. returnS (g x)))"
  by (auto simp: clean_fail_def bindS_Inl_iff)

lemma clean_fail_map_errS: "clean_fail m \<Longrightarrow> clean_fail (map_errS g m)"
  by (auto simp: clean_fail_def map_errS_Inl_iff)

lemma clean_fail_run_query:
  assumes "\<And>d e d'. q d = (Inl e, d') \<Longrightarrow> d' = d"
  shows "clean_fail (run_query q)"
  unfolding clean_fail_def
proof (intro allI impI)
  fix d :: Db and e d'
  assume "run_query q d = (Inl e, d')"
  then show "keep_tables d d'"
    by (cases rule: run_query_cases [of q d]) (auto dest: assms)
qed

lemma clean_fail_if: "clean_fail a \<Longrightarrow> clean_fail b \<Longrightarrow> clean_fail (if c then a else b)"
  by simp

lemma clean_fail_writes:
  "clean_fail (CreatePeer i n pr ident cfg key ip psk st)" "clean_fail (UpdatePeerStatus st i)"
  "clean_fail (UpdatePeerNode n ip i)" "clean_fail (DeletePeer i)"
  unfolding CreatePeer_def UpdatePeerStatus_def UpdatePeerNode_def DeletePeer_def
  by (rule clean_fail_run_query; force simp: Let_def split: if_splits)+

lemmas clean_fail_intros = clean_fail_bindS clean_fail_map_errS clean_fail_writes
  clean_fail_if clean_fail_read keep_reads

text \<open>The writes that succeed.\<close>

lemma run_query_Inr:
  assumes "run_query q d = (Inr x, d')"
  obtains d1 where "keep_tables d d1" "q d1 = (Inr x, d')"
  using assms by (cases rule: run_query_cases [of q d]) auto

lemma peerRepo_Create_Inr:
  assumes "peerRepo_Create p d = (Inr u, d')"
  shows "nodes d' = nodes d \<and> subnets d' = subnets d \<and> clock d' = clock d \<and> pr_NodeID p \<in> node_ids d \<and>
    pr_ID p \<notin> p_id ` set (peers d) \<and> pr_AllocatedIP p \<notin> p_allocated_ip ` set (peers d) \<and>
    (pr_Protocol p, pr_Identifier p) \<notin> (\<lambda>r. (p_protocol r, p_identifier r)) ` set (peers d) \<and>
    (\<exists>row. peers d' = peers d @ [row] \<and> p_id row = pr_ID p \<and> p_node_id row = pr_NodeID p \<and>
      p_protocol row = pr_Protocol p \<and> p_identifier row = pr_Identifier p \<and>
      p_allocated_ip row = pr_AllocatedIP p \<and> p_status row = pr_Status p \<and>
      p_last_handshake_at row = None)"
proof -
  from assms obtain r where "CreatePeer (pr_ID p) (pr_NodeID p) (pr_Protocol p) (pr_Identifier p) None
        (if pr_Protocol p = ''wireguard'' \<and> pr_PublicKey p \<noteq> [] then Some (pr_PublicKey p) else None)
        (pr_AllocatedIP p) (if pr_Protocol p = ''wireguard'' then pr_PresharedKey p else None)
        (pr_Status p) d = (Inr r, d')"
    by (auto simp: peerRepo_Create_def bindS_Inr_iff)
  then obtain d1 where "keep_tables d d1" "(Inr r, d') = (let
        row = \<lparr>p_id = pr_ID p, p_node_id = pr_NodeID p, p_protocol = pr_Protocol p,
            p_identifier = pr_Identifier p, p_protocol_config = None,
            p_public_key = (if pr_Protocol p = ''wireguard'' \<and> pr_PublicKey p \<noteq> [] then Some (pr_PublicKey p) else None),
            p_preshared_key = (if pr_Protocol p = ''wireguard'' then pr_PresharedKey p else None),
            p_allocated_ip = pr_AllocatedIP p, p_status = pr_Status p, p_created_at = clock d1,
            p_updated_at = clock d1, p_last_handshake_at = None\<rparr> in
        (Inr row, d1\<lparr>peers := peers d1 @ [row]\<rparr>))"
    "pr_NodeID p \<in> node_ids d1" "pr_ID p \<notin> p_id ` set (peers d1)"
    "pr_AllocatedIP p \<notin> p_allocated_ip ` set (peers d1)"
    "(pr_Protocol p, pr_Identifier p) \<notin> (\<lambda>r. (p_protocol r, p_identifier r)) ` set (peers d1)"
    unfolding CreatePeer_def by (rule run_query_Inr) (auto simp: Let_def split: if_splits)
  then show ?thesis by (auto simp: keep_tables_def node_ids_def Let_def)
qed

lemma db_ok_stays:
  assumes "clean_fail m" "\<And>d x d'. db_ok d \<Longrightarrow> m d = (Inr x, d') \<Longrightarrow> db_ok d'" "db_ok d" "m d = (r, d')"
  shows "db_ok d'"
  using assms db_ok_keep [of d d'] by (cases r) (auto dest: clean_failD)

subsection \<open>Create\<close>

lemma NewPeerGeneric_Inr:
  assumes "NewPeerGeneric nid proto ident ip cfg now = Inr p"
  shows "pr_NodeID p = nid \<and> pr_Protocol p = to_lower proto \<and> pr_Identifier p = ident \<and>
    pr_AllocatedIP p = ip \<and> pr_Status p = PeerActive \<and> trim_space nid \<noteq> [] \<and> ParseIP ip \<noteq> None \<and>
    trim_space ident \<noteq> [] \<and> (is_wireguard_name proto \<longrightarrow> IsValidWireGuardKey ident)"
  using assms unfolding NewPeerGeneric_def
  by (auto simp: bindr_Inr_iff Let_def validatePeerNodeID_def validateIPAddress_eq validatePublicKey_def
      split: if_splits)

lemma peerSvc_Create_clean: "clean_fail (peerSvc_Create nano req)"
proof -
  have "clean_fail (peerRepo_Create p)" for p
    unfolding peerRepo_Create_def by (intro clean_fail_map_errS clean_fail_return clean_fail_writes)
  then have *: "clean_fail (bindS (peerRepo_Create p) (\<lambda>_. returnS q))" for p q
    by (rule clean_fail_return)
  obtain v q where v: "PeerCreateRequest_Validate req = (v, q)" by fastforce
  show ?thesis
    unfolding peerSvc_Create_def Let_def v
    by (cases v) (simp_all add: clean_fail_read keep_reads,
      intro clean_fail_bindS clean_fail_if * peerRepo_reads keep_reads clean_fail_read)
qed

lemma peerSvc_Create_Inr:
  assumes "peerSvc_Create nano req d = (Inr p, d')"
  obtains q p0 d1 where "PeerCreateRequest_Validate req = (Inr (), q)" "keep_tables d d1"
    "NewPeerGeneric (pq_NodeID q) (pq_Protocol q) (pq_Identifier q) (pq_AllocatedIP q)
       (Some (create_config q)) (clock d1) = Inr p0"
    "p = p0\<lparr>pr_ID := generatePeerID nano\<rparr>" "peerRepo_Create p d1 = (Inr (), d')"
proof -
  obtain v q where v: "PeerCreateRequest_Validate req = (v, q)" by fastforce
  with assms obtain u where u: "v = Inr ()" by (cases v) (auto simp: peerSvc_Create_def)
  obtain c1 d1 c2 d2 p0 where a: "peerRepo_CheckIdentifierConflict (pq_Protocol q) (pq_Identifier q) d = (Inr c1, d1)"
    "peerRepo_CheckIPConflict (pq_AllocatedIP q) d1 = (Inr c2, d2)"
    "NewPeerGeneric (pq_NodeID q) (pq_Protocol q) (pq_Identifier q) (pq_AllocatedIP q)
       (Some (create_config q)) (clock d2) = Inr p0"
    "p = p0\<lparr>pr_ID := generatePeerID nano\<rparr>" "peerRepo_Create p d2 = (Inr (), d')"
    using assms by (auto simp: peerSvc_Create_def v u bindS_Inr_iff Let_def split: if_split_asm)
  have "keep_tables d d2"
    using staysD [OF peerRepo_reads(3) a(1)] staysD [OF peerRepo_reads(4) a(2)] by (rule keep_tables_trans)
  then show ?thesis using that v u a by blast
qed

lemma normalise_fields [simp]:
  "pq_NodeID (PeerCreateRequest_normalise req) = pq_NodeID req"
  "pq_AllocatedIP (PeerCreateRequest_normalise req) = pq_AllocatedIP req"
  "pq_PresharedKey (PeerCreateRequest_normalise req) = pq_PresharedKey req"
  "pq_ProtocolConfig (PeerCreateRequest_normalise req) = pq_ProtocolConfig req"
  by (simp_all add: PeerCreateRequest_normalise_def Let_def)

lemma PeerCreateRequest_Validate_ok:
  "PeerCreateRequest_Validate req = (Inr (), q) \<Longrightarrow> q = PeerCreateRequest_normalise req"
  unfolding PeerCreateRequest_Validate_def Let_def by (auto split: sum.splits)

text \<open>What a successful creation wrote.\<close>

lemma peerSvc_Create_row:
  assumes "peerSvc_Create nano req d = (Inr p, d')"
  shows "nodes d' = nodes d \<and> subnets d' = subnets d \<and> pr_Identifier p = pq_Identifier (PeerCreateRequest_normalise req) \<and>
        (let q = PeerCreateRequest_normalise req in
         (is_wireguard_name (pq_Protocol q) \<longrightarrow> IsValidWireGuardKey (pq_Identifier q)) \<and>
         (\<exists>row. peers d' = peers d @ [row] \<and> p_id row = pr_ID p \<and> p_status row = PeerActive \<and>
          p_node_id row \<in> node_ids d \<and> p_node_id row = pq_NodeID req \<and>
          p_allocated_ip row = pq_AllocatedIP req \<and> p_allocated_ip row \<notin> p_allocated_ip ` set (peers d) \<and>
          p_protocol row = to_lower (pq_Protocol q) \<and> p_identifier row = pq_Identifier q \<and>
          (p_protocol row, p_identifier row) \<notin> (\<lambda>r. (p_protocol r, p_identifier r)) ` set (peers d) \<and>
          p_last_handshake_at row = None)) \<and> (db_ok d \<longrightarrow> db_ok d')"
proof -
  obtain q p0 d1 where a: "PeerCreateRequest_Validate req = (Inr (), q)" "keep_tables d d1"
    "NewPeerGeneric (pq_NodeID q) (pq_Protocol q) (pq_Identifier q) (pq_AllocatedIP q)
       (Some (create_config q)) (clock d1) = Inr p0"
    "p = p0\<lparr>pr_ID := generatePeerID nano\<rparr>" "peerRepo_Create p d1 = (Inr (), d')"
    using assms by (rule peerSvc_Create_Inr)
  note g = NewPeerGeneric_Inr [OF a(3)] and v = PeerCreateRequest_Validate_ok [OF a(1)]
  have "db_ok d1 \<Longrightarrow> db_ok d'"
    using CreatePeer_ok [of d1] a(5) unfolding peerRepo_Create_def map_errS_Inr_iff bindS_Inr_iff
    by (metis returnS_def snd_conv prod.inject)
  then have "db_ok d \<longrightarrow> db_ok d'" using db_ok_keep [OF a(2)] by simp
  moreover obtain row where row: "peers d' = peers d1 @ [row] \<and> p_id row = pr_ID p \<and> p_node_id row = pr_NodeID p \<and>
      p_protocol row = pr_Protocol p \<and> p_identifier row = pr_Identifier p \<and>
      p_allocated_ip row = pr_AllocatedIP p \<and> p_status row = pr_Status p \<and> p_last_handshake_at row = None"
    using peerRepo_Create_Inr [OF a(5)] by blast
  ultimately show ?thesis
    using peerRepo_Create_Inr [OF a(5)] a(2,4) g v
    unfolding Let_def
    by (intro conjI exI [of _ row]) (simp_all add: keep_tables_def node_ids_def)
qed

text \<open>C13: creating a peer: a success adds exactly one row, active, for an existing node, with the
  requested address, held by no other peer, and the requested identity, new under its protocol and
  a well-formed key for WireGuard; an error, at whatever step, leaves every table as it was. In
  both cases the constraints of the schema hold afterwards.\<close>

theorem create_peer_sound:
  assumes ok: "db_ok d" and run: "peerSvc_Create nano req d = (r, d')"
  shows "db_ok d' \<and> (case r of
      Inl _ \<Rightarrow> keep_tables d d'
    | Inr p \<Rightarrow> nodes d' = nodes d \<and> subnets d' = subnets d \<and>
        (let q = PeerCreateRequest_normalise req in
         (is_wireguard_name (pq_Protocol q) \<longrightarrow> IsValidWireGuardKey (pq_Identifier q)) \<and>
         (\<exists>row. peers d' = peers d @ [row] \<and> p_id row = pr_ID p \<and> p_status row = PeerActive \<and>
          p_node_id row \<in> node_ids d \<and> p_node_id row = pq_NodeID req \<and>
          p_allocated_ip row = pq_AllocatedIP req \<and> p_allocated_ip row \<notin> p_allocated_ip ` set (peers d) \<and>
          p_protocol row = to_lower (pq_Protocol q) \<and> p_identifier row = pq_Identifier q \<and>
          (p_protocol row, p_identifier row) \<notin> (\<lambda>r. (p_protocol r, p_identifier r)) ` set (peers d))))"
proof (cases r)
  case (Inl e)
  then have k: "keep_tables d d'" using clean_failD [OF peerSvc_Create_clean] run by blast
  then show ?thesis using Inl ok by (simp add: db_ok_keep)
next
  case (Inr p)
  then show ?thesis using peerSvc_Create_row [of nano req d p d'] run ok unfolding Inr sum.case Let_def by blast
qed

definition create_example :: PeerCreateRequest where
  "create_example = \<lparr>pq_NodeID = ''node-1'', pq_Protocol = ''Shadowsocks'', pq_Identifier = ''user'',
     pq_ProtocolConfig = None, pq_PublicKey = [], pq_AllocatedIP = ''10.8.0.2'', pq_PresharedKey = None\<rparr>"

lemma ParseIP_None_iff:
  "ParseIP s = None \<longleftrightarrow> \<not> (length (split_on CHR ''.'' s) = 4 \<and> list_all octet_ok (split_on CHR ''.'' s))"
  by (simp add: ParseIP_def Let_def)

lemma create_example_valid:
  "PeerCreateRequest_Validate create_example = (Inr (), create_example)"
proof -
  have n: "PeerCreateRequest_normalise create_example = create_example"
    unfolding PeerCreateRequest_normalise_def Let_def create_example_def by (simp add: trim_space_def is_space_def)
  have "length (split_on CHR ''.'' ''10.8.0.2'') = 4 \<and> list_all octet_ok (split_on CHR ''.'' ''10.8.0.2'')"
    by code_simp
  then have "validateIPAddress ''10.8.0.2'' = Inr ()" by (simp only: validateIPAddress_eq ParseIP_None_iff) simp
  moreover have "validatePeerNodeID ''node-1'' = Inr ()" "trim_space ''user'' \<noteq> []"
    "\<not> is_wireguard_name ''Shadowsocks''" by code_simp+
  ultimately show ?thesis
    unfolding PeerCreateRequest_Validate_def Let_def n by (simp add: create_example_def)
qed

theorem create_peer_sound_witness:
  "let res = peerSvc_Create 5 create_example one_node_db; d' = snd res in
    db_ok d' \<and> (case fst res of
      Inl _ \<Rightarrow> keep_tables one_node_db d'
    | Inr p \<Rightarrow> nodes d' = nodes one_node_db \<and> subnets d' = subnets one_node_db \<and>
        (let q = PeerCreateRequest_normalise create_example in
         (is_wireguard_name (pq_Protocol q) \<longrightarrow> IsValidWireGuardKey (pq_Identifier q)) \<and>
         (\<exists>row. peers d' = peers one_node_db @ [row] \<and> p_id row = pr_ID p \<and> p_status row = PeerActive \<and>
          p_node_id row \<in> node_ids one_node_db \<and> p_node_id row = pq_NodeID create_example \<and>
          p_allocated_ip row = pq_AllocatedIP create_example \<and>
          p_allocated_ip row \<notin> p_allocated_ip ` set (peers one_node_db) \<and>
          p_protocol row = to_lower (pq_Protocol q) \<and> p_identifier row = pq_Identifier q \<and>
          (p_protocol row, p_identifier row) \<notin>
            (\<lambda>r. (p_protocol r, p_identifier r)) ` set (peers one_node_db))))"
  unfolding Let_def [of "peerSvc_Create 5 create_example one_node_db"]
    Let_def [of "snd (peerSvc_Create 5 create_example one_node_db)"]
  by (rule create_peer_sound [where nano = 5])
    (use one_node_db_facts(1) in \<open>simp_all add: db_good_def\<close>)

subsection \<open>Outcome of a creation\<close>

lemma code_simps [simp]:
  "GetErrorCode (db_error m e) = ErrCodeDatabase" "GetErrorCode (WrapWithDomain e dm c m b) = c"
  by (simp_all add: db_error_def WrapWithDomain_def)

lemma NewPeerGeneric_of_valid:
  assumes "PeerCreateRequest_Validate req = (Inr (), q)" "pq_ProtocolConfig req = None"
  shows "\<exists>p. NewPeerGeneric (pq_NodeID q) (pq_Protocol q) (pq_Identifier q) (pq_AllocatedIP q)
      (Some (create_config q)) now = Inr p"
proof -
  have q: "q = PeerCreateRequest_normalise req" using assms(1) by (rule PeerCreateRequest_Validate_ok)
  have cfg: "config_psk (Some (create_config q)) =
      (case pq_PresharedKey q of Some k \<Rightarrow> (if k \<noteq> [] then Some k else None) | None \<Rightarrow> None)"
    using assms(2) unfolding q by (simp add: config_psk_def create_config_def split: option.splits)
  have "trim_space ''wireguard'' \<noteq> []" by code_simp
  then have "trim_space (pq_Protocol q) \<noteq> []"
    unfolding q by (simp add: PeerCreateRequest_normalise_def Let_def)
  moreover have "validatePeerNodeID (pq_NodeID q) = Inr ()" "trim_space (pq_Identifier q) \<noteq> []"
    "validateIPAddress (pq_AllocatedIP q) = Inr ()"
    and wg: "is_wireguard_name (pq_Protocol q) \<Longrightarrow> validatePublicKey (pq_Identifier q) = Inr () \<and>
      (case pq_PresharedKey q of Some k \<Rightarrow> validatePresharedKey k | None \<Rightarrow> Inr ()) = Inr ()"
    using assms(1) unfolding q PeerCreateRequest_Validate_def Let_def
    by (auto simp: bindr_Inr_iff split: sum.splits if_split_asm)
  moreover have "(if is_wireguard_name (pq_Protocol q) then bindr (validatePublicKey (pq_Identifier q))
      (\<lambda>_. case config_psk (Some (create_config q)) of Some ps \<Rightarrow> validatePresharedKey ps | None \<Rightarrow> Inr ())
      else Inr ()) = Inr ()"
    using wg by (auto simp: cfg split: option.splits)
  ultimately show ?thesis by (simp add: NewPeerGeneric_def Let_def)
qed

lemma peerSvc_Create_run:
  assumes nf: "faults d = []" and cfg: "pq_ProtocolConfig req = None"
    and v: "PeerCreateRequest_Validate req = (Inr (), q)"
  obtains p where "NewPeerGeneric (pq_NodeID q) (pq_Protocol q) (pq_Identifier q) (pq_AllocatedIP q)
      (Some (create_config q)) (clock d) = Inr p"
    "peerSvc_Create nano req d =
       (if (pq_Protocol q, pq_Identifier q) \<in> (\<lambda>r. (p_protocol r, p_identifier r)) ` set (peers d) then
          (Inl (WithMetadata (WithMetadata (NewPeerError ErrCodePeerKeyConflict ''identifier already in use'' False None)
             ''protocol'' (MString (pq_Protocol q))) ''identifier'' (MString (pq_Identifier q))), d)
        else if pq_AllocatedIP q \<in> p_allocated_ip ` set (peers d) then
          (Inl (WithMetadata (NewPeerError ErrCodePeerIPConflict ''IP address already allocated'' False None)
             ''ip_address'' (MString (pq_AllocatedIP q))), d)
        else bindS (peerRepo_Create (p\<lparr>pr_ID := generatePeerID nano\<rparr>))
               (\<lambda>_. returnS (p\<lparr>pr_ID := generatePeerID nano\<rparr>)) d)"
proof -
  obtain p where p: "NewPeerGeneric (pq_NodeID q) (pq_Protocol q) (pq_Identifier q) (pq_AllocatedIP q)
      (Some (create_config q)) (clock d) = Inr p"
    using NewPeerGeneric_of_valid [OF v cfg] by blast
  have c1: "peerRepo_CheckIdentifierConflict pn ident d = (Inr ((pn, ident) \<in> (\<lambda>r. (p_protocol r, p_identifier r)) ` set (peers d)), d)"
    for pn ident
    by (auto simp: peerRepo_CheckIdentifierConflict_def CheckIdentifierConflictQ_def map_errS_def bindS_def
        select_nofault [OF nf])
  have c2: "peerRepo_CheckIPConflict ip d = (Inr (ip \<in> p_allocated_ip ` set (peers d)), d)" for ip
    by (auto simp: peerRepo_CheckIPConflict_def CheckIPConflictQ_def map_errS_def bindS_def
        select_nofault [OF nf])
  show thesis
    by (rule that [OF p])
      (simp add: peerSvc_Create_def v bindS_def map_errS_def c1 c2 p Let_def del: new_error_defs)
qed

lemma peerRepo_Create_run:
  assumes "faults d = []" "pr_ID p \<notin> p_id ` set (peers d)" "pr_AllocatedIP p \<notin> p_allocated_ip ` set (peers d)"
    "pr_Status p = PeerActive"
  shows "if pr_NodeID p \<notin> node_ids d \<or>
          (pr_Protocol p, pr_Identifier p) \<in> (\<lambda>r. (p_protocol r, p_identifier r)) ` set (peers d)
        then \<exists>e. peerRepo_Create p d = (Inl e, d) \<and> GetErrorCode e = ErrCodeDatabase
        else \<exists>d'. peerRepo_Create p d = (Inr (), d') \<and> faults d' = []"
  using assms
  by (simp add: peerRepo_Create_def CreatePeer_def run_query_nofault [OF assms(1)] Let_def map_errS_def bindS_def)

lemma peerSvc_Create_succeeds:
  assumes nf: "faults d = []" and cfg: "pq_ProtocolConfig req = None"
    and v: "PeerCreateRequest_Validate req = (Inr (), q)"
    and fresh: "peers d = []" "pq_NodeID q \<in> node_ids d"
  obtains p d' where "peerSvc_Create nano req d = (Inr p, d')" "faults d' = []"
    "pr_Identifier p = pq_Identifier q"
proof -
  obtain p where p: "NewPeerGeneric (pq_NodeID q) (pq_Protocol q) (pq_Identifier q) (pq_AllocatedIP q)
      (Some (create_config q)) (clock d) = Inr p"
    "peerSvc_Create nano req d = bindS (peerRepo_Create (p\<lparr>pr_ID := generatePeerID nano\<rparr>))
               (\<lambda>_. returnS (p\<lparr>pr_ID := generatePeerID nano\<rparr>)) d"
    by (rule peerSvc_Create_run [OF nf cfg v, of nano]) (simp add: fresh(1))
  obtain d' where "peerRepo_Create (p\<lparr>pr_ID := generatePeerID nano\<rparr>) d = (Inr (), d')" "faults d' = []"
    using peerRepo_Create_run [OF nf, of "p\<lparr>pr_ID := generatePeerID nano\<rparr>"] NewPeerGeneric_Inr [OF p(1)] fresh
    by auto
  then show thesis
    using p(2) NewPeerGeneric_Inr [OF p(1)]
    by (intro that [of "p\<lparr>pr_ID := generatePeerID nano\<rparr>" d']) (simp_all add: bindS_def)
qed

text \<open>Creating a peer when no statement fails: a request that does not validate, a known
  identity and a known address give their own error and change nothing; a missing node, or an
  identity known under the lower-case protocol name only, is reported as \<open>database_error\<close>; and in
  every other case the peer is created.\<close>

theorem create_peer_outcome:
  assumes nf: "faults d = []" and cfg: "pq_ProtocolConfig req = None"
    and fresh: "generatePeerID nano \<notin> p_id ` set (peers d)"
  shows "(case PeerCreateRequest_Validate req of
      (Inl e, _) \<Rightarrow> peerSvc_Create nano req d = (Inl e, d)
    | (Inr _, q) \<Rightarrow>
       (let known = (\<lambda>proto. (proto, pq_Identifier q) \<in> (\<lambda>r. (p_protocol r, p_identifier r)) ` set (peers d));
            fails = (\<lambda>code. \<exists>e. peerSvc_Create nano req d = (Inl e, d) \<and> GetErrorCode e = code)
        in if known (pq_Protocol q) then fails ErrCodePeerKeyConflict
           else if pq_AllocatedIP q \<in> p_allocated_ip ` set (peers d) then fails ErrCodePeerIPConflict
           else if pq_NodeID q \<notin> node_ids d \<or> known (to_lower (pq_Protocol q)) then fails ErrCodeDatabase
           else \<exists>p d'. peerSvc_Create nano req d = (Inr p, d')))"
proof -
  obtain v q where v: "PeerCreateRequest_Validate req = (v, q)" by fastforce
  show ?thesis
  proof (cases v)
    case (Inl e)
    then show ?thesis by (simp add: v peerSvc_Create_def)
  next
    case (Inr u)
    with v have vq: "PeerCreateRequest_Validate req = (Inr (), q)" by simp
    from peerSvc_Create_run [OF nf cfg vq, of nano] obtain p where
      p: "NewPeerGeneric (pq_NodeID q) (pq_Protocol q) (pq_Identifier q) (pq_AllocatedIP q)
        (Some (create_config q)) (clock d) = Inr p" and
      run: "peerSvc_Create nano req d =
       (if (pq_Protocol q, pq_Identifier q) \<in> (\<lambda>r. (p_protocol r, p_identifier r)) ` set (peers d) then
          (Inl (WithMetadata (WithMetadata (NewPeerError ErrCodePeerKeyConflict ''identifier already in use'' False None)
             ''protocol'' (MString (pq_Protocol q))) ''identifier'' (MString (pq_Identifier q))), d)
        else if pq_AllocatedIP q \<in> p_allocated_ip ` set (peers d) then
          (Inl (WithMetadata (NewPeerError ErrCodePeerIPConflict ''IP address already allocated'' False None)
             ''ip_address'' (MString (pq_AllocatedIP q))), d)
        else bindS (peerRepo_Create (p\<lparr>pr_ID := generatePeerID nano\<rparr>))
               (\<lambda>_. returnS (p\<lparr>pr_ID := generatePeerID nano\<rparr>)) d)" by blast
    have c3: "pq_AllocatedIP q \<notin> p_allocated_ip ` set (peers d) \<Longrightarrow>
        if pq_NodeID q \<notin> node_ids d \<or>
          (to_lower (pq_Protocol q), pq_Identifier q) \<in> (\<lambda>r. (p_protocol r, p_identifier r)) ` set (peers d)
        then \<exists>e. peerRepo_Create (p\<lparr>pr_ID := generatePeerID nano\<rparr>) d = (Inl e, d) \<and> GetErrorCode e = ErrCodeDatabase
        else \<exists>d'. peerRepo_Create (p\<lparr>pr_ID := generatePeerID nano\<rparr>) d = (Inr (), d') \<and> faults d' = []"
      using peerRepo_Create_run [OF nf, of "p\<lparr>pr_ID := generatePeerID nano\<rparr>"] NewPeerGeneric_Inr [OF p] fresh
      by simp
    show ?thesis
      unfolding vq prod.case sum.case Let_def run
      using c3 by (auto simp: bindS_def split: if_splits)
  qed
qed

theorem create_peer_outcome_witness:
  "\<exists>p d'. peerSvc_Create 5 create_example one_node_db = (Inr p, d')"
  using create_peer_outcome [of one_node_db create_example 5] one_node_db_facts
  by (simp add: create_example_valid Let_def) (simp add: create_example_def)

subsection \<open>Changes of one peer\<close>

lemma clean_peer_writes:
  "clean_fail (peerRepo_UpdateStatus i st)" "clean_fail (peerRepo_UpdateNode i n ip)"
  "clean_fail (peerRepo_Delete i)"
  unfolding peerRepo_UpdateStatus_def peerRepo_UpdateNode_def peerRepo_Delete_def
  by (intro clean_fail_map_errS clean_fail_writes)+

lemma peerRepo_UpdateStatus_Inr:
  assumes "peerRepo_UpdateStatus i st d = (Inr u, d')"
  obtains d1 where "keep_tables d d1" "d' = map_peers (\<lambda>r. p_id r = i) (\<lambda>r. r\<lparr>p_status := st\<rparr>) d1"
  using assms unfolding peerRepo_UpdateStatus_def UpdatePeerStatus_def map_errS_Inr_iff
  by (elim run_query_Inr) (auto split: if_splits)

lemma peerRepo_UpdateNode_Inr:
  assumes "peerRepo_UpdateNode i nid ip d = (Inr u, d')"
  obtains d1 where "keep_tables d d1"
    "d' = map_peers (\<lambda>r. p_id r = i) (\<lambda>r. r\<lparr>p_node_id := nid, p_allocated_ip := ip\<rparr>) d1"
    "(\<exists>r\<in>set (peers d). p_id r = i) \<longrightarrow> nid \<in> node_ids d \<and>
      (\<forall>r\<in>set (peers d). p_id r \<noteq> i \<longrightarrow> p_allocated_ip r \<noteq> ip)"
proof -
  from assms obtain d1 where k: "keep_tables d d1" and q:
    "(if (\<exists>r\<in>set (peers d1). p_id r = i) \<and>
        (nid \<notin> node_ids d1 \<or> (\<exists>r\<in>set (peers d1). p_id r \<noteq> i \<and> p_allocated_ip r = ip))
     then (Inl ErrConstraint, d1)
     else (Inr (), map_peers (\<lambda>r. p_id r = i) (\<lambda>r. r\<lparr>p_node_id := nid, p_allocated_ip := ip\<rparr>) d1))
      = (Inr u, d')"
    unfolding peerRepo_UpdateNode_def UpdatePeerNode_def map_errS_Inr_iff by (rule run_query_Inr)
  from q have "d' = map_peers (\<lambda>r. p_id r = i) (\<lambda>r. r\<lparr>p_node_id := nid, p_allocated_ip := ip\<rparr>) d1"
    "\<not> ((\<exists>r\<in>set (peers d1). p_id r = i) \<and>
        (nid \<notin> node_ids d1 \<or> (\<exists>r\<in>set (peers d1). p_id r \<noteq> i \<and> p_allocated_ip r = ip)))"
    by (simp_all split: if_split_asm)
  moreover have "peers d1 = peers d" "node_ids d1 = node_ids d" using k by (simp_all add: keep_tables_def node_ids_def)
  ultimately show ?thesis using that [OF k] by metis
qed

lemma peerRepo_Delete_Inr:
  assumes "peerRepo_Delete i d = (Inr u, d')"
  obtains d1 where "keep_tables d d1" "d' = d1\<lparr>peers := filter (\<lambda>r. p_id r \<noteq> i) (peers d1)\<rparr>"
  using assms unfolding peerRepo_Delete_def DeletePeer_def map_errS_Inr_iff
  by (elim run_query_Inr) auto

text \<open>The row of one peer rewritten, all other rows and tables as before.\<close>

definition peer_changed :: "string \<Rightarrow> (PeerRow \<Rightarrow> PeerRow) \<Rightarrow> Db \<Rightarrow> Db \<Rightarrow> bool" where
  "peer_changed i f d d' = (nodes d' = nodes d \<and> subnets d' = subnets d \<and>
     peers d' = map (\<lambda>r. if p_id r = i then (f r)\<lparr>p_updated_at := clock d\<rparr> else r) (peers d))"

lemma peer_changed_keep:
  "keep_tables d d1 \<Longrightarrow> d' = map_peers (\<lambda>r. p_id r = i) f d1 \<Longrightarrow> peer_changed i f d d'"
  by (auto simp: peer_changed_def map_peers_def keep_tables_def)

text \<open>A status update through the peer service changes one row, along the transition table, or
  fails and changes nothing.\<close>

theorem update_peer_status_legal:
  assumes run: "peerSvc_UpdateStatus i st d = (r, d')"
  shows "(case r of
      Inl _ \<Rightarrow> keep_tables d d'
    | Inr _ \<Rightarrow> (\<exists>row\<in>set (peers d). p_id row = i \<and> PeerStatus_CanTransitionTo (p_status row) st) \<and>
        peer_changed i (\<lambda>r. r\<lparr>p_status := st\<rparr>) d d')"
proof (cases r)
  case (Inl e)
  have "clean_fail (peerSvc_UpdateStatus i st)"
    unfolding peerSvc_UpdateStatus_def
    by (intro clean_fail_if clean_fail_bindS clean_peer_writes peerRepo_reads keep_reads clean_fail_read)
  then show ?thesis using run Inl by (auto dest: clean_failD)
next
  case (Inr u)
  then obtain p d1 p' where a: "peerRepo_Get i d = (Inr p, d1)" "Peer_UpdateStatus (clock d1) st p = Inr p'"
    "peerRepo_UpdateStatus i st d1 = (Inr u, d')"
    using run by (auto simp: peerSvc_UpdateStatus_def bindS_Inr_iff split: if_split_asm)
  obtain row where row: "keep_tables d d1" "row \<in> set (peers d)" "p_id row = i" "p = toDomainPeer row"
    using peerRepo_Get_Inr [OF a(1)] by blast
  obtain d2 where d2: "keep_tables d1 d2" "d' = map_peers (\<lambda>r. p_id r = i) (\<lambda>r. r\<lparr>p_status := st\<rparr>) d2"
    using a(3) by (rule peerRepo_UpdateStatus_Inr)
  have "PeerStatus_CanTransitionTo (p_status row) st"
    using a(2) row(4) by (simp add: Peer_UpdateStatus_Inr toDomainPeer_def)
  moreover have "peer_changed i (\<lambda>r. r\<lparr>p_status := st\<rparr>) d d'"
    using keep_tables_trans [OF row(1) d2(1)] d2(2) by (rule peer_changed_keep)
  ultimately show ?thesis using Inr row by auto
qed

lemma peerSvc_Migrate_outcome:
  assumes ok: "db_ok d" and run: "peerSvc_Migrate i nid ip d = (r, d')"
  shows "db_ok d' \<and> (case r of
      Inl _ \<Rightarrow> keep_tables d d'
    | Inr _ \<Rightarrow> i \<in> p_id ` set (peers d) \<and> nid \<in> node_ids d \<and>
        (\<forall>row\<in>set (peers d). p_id row \<noteq> i \<longrightarrow> p_allocated_ip row \<noteq> ip) \<and>
        peer_changed i (\<lambda>r. r\<lparr>p_node_id := nid, p_allocated_ip := ip\<rparr>) d d')"
proof -
  define check where "check = (\<lambda>c. if c then
      bindS (tryS (peerRepo_Get i)) (\<lambda>existing.
        case existing of
          Inr q \<Rightarrow> (if pr_AllocatedIP q \<noteq> ip then
              failS (WithMetadata (NewPeerError ErrCodePeerIPConflict ''IP address already allocated'' False None)
                ''ip_address'' (MString ip))
            else returnS ())
        | Inl _ \<Rightarrow> returnS ()) else returnS ())"
  have check: "stays keep_tables (check c)" for c
    unfolding check_def by (cases c) (auto intro!: keep_reads peerRepo_reads split: sum.splits)
  have def: "peerSvc_Migrate i nid ip =
     (if i = [] then failS (peer_invalid ''peer_id cannot be empty'')
      else bindS (peerRepo_Get i) (\<lambda>p. bindS getS (\<lambda>d. bindS (liftS (Peer_Migrate (clock d) nid ip p)) (\<lambda>_.
           bindS (map_errS (peer_db_error ''failed to check IP conflict'') (peerRepo_CheckIPConflict ip)) (\<lambda>c.
           bindS (check c) (\<lambda>_. peerRepo_UpdateNode i nid ip))))))"
    by (simp add: peerSvc_Migrate_def check_def)
  have clean: "clean_fail (peerSvc_Migrate i nid ip)"
    unfolding def by (intro clean_fail_if clean_fail_bindS clean_peer_writes peerRepo_reads keep_reads
        clean_fail_read check)
  show ?thesis
  proof (cases r)
    case (Inl e)
    then show ?thesis using clean run ok by (auto dest: clean_failD simp: db_ok_keep)
  next
    case (Inr u)
    then obtain p d1 c d2 d3 where a: "peerRepo_Get i d = (Inr p, d1)"
      "peerRepo_CheckIPConflict ip d1 = (Inr c, d2)" "check c d2 = (Inr (), d3)"
      "peerRepo_UpdateNode i nid ip d3 = (Inr u, d')"
      using run by (auto simp: def bindS_Inr_iff split: if_split_asm)
    have k: "keep_tables d d3"
      using staysD [OF peerRepo_reads(1) a(1)] staysD [OF peerRepo_reads(4) a(2)] staysD [OF check a(3)]
      by (blast intro: keep_tables_trans)
    obtain row where row: "row \<in> set (peers d)" "p_id row = i" using peerRepo_Get_Inr [OF a(1)] by blast
    obtain d4 where d4: "keep_tables d3 d4"
      "d' = map_peers (\<lambda>r. p_id r = i) (\<lambda>r. r\<lparr>p_node_id := nid, p_allocated_ip := ip\<rparr>) d4"
      "(\<exists>r\<in>set (peers d3). p_id r = i) \<longrightarrow> nid \<in> node_ids d3 \<and>
        (\<forall>r\<in>set (peers d3). p_id r \<noteq> i \<longrightarrow> p_allocated_ip r \<noteq> ip)"
      using a(4) by (rule peerRepo_UpdateNode_Inr)
    have same: "peers d3 = peers d" "node_ids d3 = node_ids d" "db_ok d3"
      using k ok db_ok_keep [OF k] by (simp_all add: keep_tables_def node_ids_def)
    have "db_ok d'"
      using UpdatePeerNode_ok [OF same(3), of nid ip i] a(4)
      unfolding peerRepo_UpdateNode_def map_errS_Inr_iff by simp
    moreover have "peer_changed i (\<lambda>r. r\<lparr>p_node_id := nid, p_allocated_ip := ip\<rparr>) d d'"
      using keep_tables_trans [OF k d4(1)] d4(2) by (rule peer_changed_keep)
    ultimately show ?thesis using Inr row d4(3) same by auto
  qed
qed

text \<open>A migration moves exactly one peer, to an existing node and an address no other peer
  holds, and keeps every other row; an error leaves every table as it was; the constraints of the
  schema hold afterwards.\<close>

theorem migrate_peer_safe:
  assumes ok: "db_ok d" and run: "peerSvc_Migrate i nid ip d = (r, d')"
  shows "db_ok d' \<and> (case r of
      Inl _ \<Rightarrow> keep_tables d d'
    | Inr _ \<Rightarrow> i \<in> p_id ` set (peers d) \<and> nid \<in> node_ids d \<and>
        (\<forall>row\<in>set (peers d). p_id row \<noteq> i \<longrightarrow> p_allocated_ip row \<noteq> ip) \<and>
        peer_changed i (\<lambda>r. r\<lparr>p_node_id := nid, p_allocated_ip := ip\<rparr>) d d')"
  by (rule peerSvc_Migrate_outcome [OF assms])

lemma peerSvc_Remove_outcome:
  assumes run: "peerSvc_Remove i d = (r, d')"
  shows "nodes d' = nodes d \<and> subnets d' = subnets d \<and> (case r of
      Inr _ \<Rightarrow> i \<in> p_id ` set (peers d) \<and> peers d' = filter (\<lambda>p. p_id p \<noteq> i) (peers d)
    | Inl _ \<Rightarrow> keep_tables d d' \<or> peer_changed i (\<lambda>p. p\<lparr>p_status := PeerRemoving\<rparr>) d d')"
proof -
  consider (early) e where "r = Inl e" "keep_tables d d'"
    | (late) p d1 q d2 where "peerRepo_Get i d = (Inr p, d1)"
        "peerRepo_UpdateStatus i PeerRemoving d1 = (q, d2)" "peerRepo_Delete i d2 = (r, d')"
  proof -
    assume early: "\<And>e. r = Inl e \<Longrightarrow> keep_tables d d' \<Longrightarrow> thesis"
      and late: "\<And>p d1 q d2. peerRepo_Get i d = (Inr p, d1) \<Longrightarrow>
        peerRepo_UpdateStatus i PeerRemoving d1 = (q, d2) \<Longrightarrow> peerRepo_Delete i d2 = (r, d') \<Longrightarrow> thesis"
    obtain g d1 where g: "peerRepo_Get i d = (g, d1)" by fastforce
    obtain q d2 where q: "peerRepo_UpdateStatus i PeerRemoving d1 = (q, d2)" by fastforce
    show thesis
    proof (cases "i = [] \<or> (\<exists>e. g = Inl e)")
      case True
      then have "(\<exists>e. r = Inl e) \<and> d' \<in> {d, d1}"
        using run g by (auto simp: peerSvc_Remove_def bindS_def split: if_splits)
      then show thesis using early staysD [OF peerRepo_reads(1) g] by auto
    next
      case False
      then obtain p where p: "g = Inr p" by (cases g) auto
      have "peerRepo_Delete i d2 = (r, d')" using False run g q p by (simp add: peerSvc_Remove_def bindS_def)
      then show thesis by (rule late [OF g [unfolded p] q])
    qed
  qed
  then show ?thesis
  proof cases
    case early
    then show ?thesis by (simp add: keep_tables_def)
  next
    case late
    obtain row where row: "keep_tables d d1" "row \<in> set (peers d)" "p_id row = i"
      using peerRepo_Get_Inr [OF late(1)] by blast
    have st: "keep_tables d d2 \<or> peer_changed i (\<lambda>p. p\<lparr>p_status := PeerRemoving\<rparr>) d d2"
    proof (cases q)
      case (Inl e)
      have "keep_tables d1 d2" by (rule clean_failD [OF clean_peer_writes(1) late(2) [unfolded Inl]])
      then show ?thesis using row(1) keep_tables_trans by blast
    next
      case (Inr u)
      obtain d3 where "keep_tables d1 d3"
        "d2 = map_peers (\<lambda>r. p_id r = i) (\<lambda>p. p\<lparr>p_status := PeerRemoving\<rparr>) d3"
        by (rule peerRepo_UpdateStatus_Inr [OF late(2) [unfolded Inr]])
      then show ?thesis using peer_changed_keep keep_tables_trans row(1) by blast
    qed
    show ?thesis
    proof (cases r)
      case (Inl e)
      have k: "keep_tables d2 d'" by (rule clean_failD [OF clean_peer_writes(3) late(3) [unfolded Inl]])
      from st show ?thesis
      proof
        assume "keep_tables d d2"
        then have "keep_tables d d'" using k by (rule keep_tables_trans)
        then show ?thesis using Inl by (simp add: keep_tables_def)
      next
        assume "peer_changed i (\<lambda>p. p\<lparr>p_status := PeerRemoving\<rparr>) d d2"
        then show ?thesis using k Inl by (simp add: keep_tables_def peer_changed_def)
      qed
    next
      case (Inr u)
      obtain d3 where d3: "keep_tables d2 d3" "d' = d3\<lparr>peers := filter (\<lambda>r. p_id r \<noteq> i) (peers d3)\<rparr>"
        by (rule peerRepo_Delete_Inr [OF late(3) [unfolded Inr]])
      have "filter (\<lambda>r. p_id r \<noteq> i) (map (\<lambda>r. if p_id r = i then r\<lparr>p_status := s, p_updated_at := t\<rparr> else r) ps)
          = filter (\<lambda>r. p_id r \<noteq> i) ps" for s t ps
        by (induction ps) auto
      then have "nodes d2 = nodes d \<and> subnets d2 = subnets d \<and>
          filter (\<lambda>r. p_id r \<noteq> i) (peers d2) = filter (\<lambda>r. p_id r \<noteq> i) (peers d)"
        using st unfolding keep_tables_def peer_changed_def by (elim disjE conjE) simp_all
      moreover have "i \<in> p_id ` set (peers d)" using row(2,3) by blast
      ultimately show ?thesis using d3 Inr by (simp add: keep_tables_def)
    qed
  qed
qed

text \<open>Removing a peer deletes its row and no other; when it fails the row is still there, with
  at most its status set to removing.\<close>

theorem remove_peer_exact:
  assumes run: "peerSvc_Remove i d = (r, d')"
  shows "nodes d' = nodes d \<and> subnets d' = subnets d \<and> (case r of
      Inr _ \<Rightarrow> i \<in> p_id ` set (peers d) \<and> peers d' = filter (\<lambda>p. p_id p \<noteq> i) (peers d)
    | Inl _ \<Rightarrow> keep_tables d d' \<or> peer_changed i (\<lambda>p. p\<lparr>p_status := PeerRemoving\<rparr>) d d')"
  by (rule peerSvc_Remove_outcome [OF assms])

definition one_peer_db :: Db where
  "one_peer_db = one_node_db\<lparr>peers := [\<lparr>p_id = ''peer_1'', p_node_id = ''node-1'', p_protocol = ''wireguard'',
      p_identifier = ''key'', p_protocol_config = None, p_public_key = Some ''key'', p_preshared_key = None,
      p_allocated_ip = ''10.8.0.9'', p_status = ''active'', p_created_at = 0, p_updated_at = 0,
      p_last_handshake_at = None\<rparr>]\<rparr>"

lemma one_peer_db_facts: "db_ok one_peer_db" "faults one_peer_db = []"
  by (simp_all add: one_peer_db_def one_node_db_def db_ok_def nodes_ok_def peers_ok_def subnets_ok_def node_ids_def)

theorem update_peer_status_legal_witness:
  "case fst (peerSvc_UpdateStatus ''peer_1'' PeerRemoving one_peer_db) of
      Inl _ \<Rightarrow> keep_tables one_peer_db (snd (peerSvc_UpdateStatus ''peer_1'' PeerRemoving one_peer_db))
    | Inr _ \<Rightarrow> (\<exists>row\<in>set (peers one_peer_db). p_id row = ''peer_1'' \<and>
          PeerStatus_CanTransitionTo (p_status row) PeerRemoving) \<and>
        peer_changed ''peer_1'' (\<lambda>r. r\<lparr>p_status := PeerRemoving\<rparr>) one_peer_db
          (snd (peerSvc_UpdateStatus ''peer_1'' PeerRemoving one_peer_db))"
  by (rule update_peer_status_legal) simp

theorem migrate_peer_safe_witness:
  "let d' = snd (peerSvc_Migrate ''peer_1'' ''node-1'' ''10.8.0.3'' one_peer_db) in
    db_ok d' \<and> (case fst (peerSvc_Migrate ''peer_1'' ''node-1'' ''10.8.0.3'' one_peer_db) of
      Inl _ \<Rightarrow> keep_tables one_peer_db d'
    | Inr _ \<Rightarrow> ''peer_1'' \<in> p_id ` set (peers one_peer_db) \<and> ''node-1'' \<in> node_ids one_peer_db \<and>
        (\<forall>row\<in>set (peers one_peer_db). p_id row \<noteq> ''peer_1'' \<longrightarrow> p_allocated_ip row \<noteq> ''10.8.0.3'') \<and>
        peer_changed ''peer_1'' (\<lambda>r. r\<lparr>p_node_id := ''node-1'', p_allocated_ip := ''10.8.0.3''\<rparr>) one_peer_db d')"
  unfolding Let_def by (rule migrate_peer_safe) (simp_all add: one_peer_db_facts)

theorem remove_peer_exact_witness:
  "let d' = snd (peerSvc_Remove ''peer_1'' one_peer_db) in
    nodes d' = nodes one_peer_db \<and> subnets d' = subnets one_peer_db \<and>
    (case fst (peerSvc_Remove ''peer_1'' one_peer_db) of
      Inr _ \<Rightarrow> ''peer_1'' \<in> p_id ` set (peers one_peer_db) \<and>
        peers d' = filter (\<lambda>p. p_id p \<noteq> ''peer_1'') (peers one_peer_db)
    | Inl _ \<Rightarrow> keep_tables one_peer_db d' \<or>
        peer_changed ''peer_1'' (\<lambda>p. p\<lparr>p_status := PeerRemoving\<rparr>) one_peer_db d')"
  unfolding Let_def by (rule remove_peer_exact) simp

subsection \<open>Batches and lookups\<close>

lemma validate_batch_length: "validate_batch k rs = Inr rs' \<Longrightarrow> length rs' = length rs"
  by (induction k rs arbitrary: rs' rule: validate_batch.induct)
    (auto simp: bindr_Inr_iff split: prod.splits sum.splits)

lemma create_batch_loop_rows:
  assumes "create_batch_loop nanos k rs d = (r, d')"
  shows "nodes d' = nodes d \<and> subnets d' = subnets d \<and> (\<exists>rows. peers d' = peers d @ rows \<and>
    (case r of Inr ps \<Rightarrow> length rows = length rs \<and> map pr_ID ps = map p_id rows
     | Inl _ \<Rightarrow> length rows < length rs))"
  using assms
proof (induction nanos k rs arbitrary: d r d' rule: create_batch_loop.induct)
  case (1 nanos k)
  then show ?case by auto
next
  case (2 nanos k q rs)
  obtain r1 d1 where c: "peerSvc_Create (nanos k) q d = (r1, d1)" by fastforce
  show ?case
  proof (cases r1)
    case (Inl e)
    then have "keep_tables d d1" using c clean_failD [OF peerSvc_Create_clean] by blast
    then show ?thesis using 2(2) c Inl by (auto simp: bindS_def map_errS_def keep_tables_def)
  next
    case (Inr p)
    then obtain row where row: "nodes d1 = nodes d" "subnets d1 = subnets d" "peers d1 = peers d @ [row]"
      "p_id row = pr_ID p"
      using peerSvc_Create_row [of "nanos k" q d p d1] c unfolding Let_def by blast
    obtain r2 d2 where l: "create_batch_loop nanos (Suc k) rs d1 = (r2, d2)" by fastforce
    obtain rows where rows: "nodes d2 = nodes d1" "subnets d2 = subnets d1" "peers d2 = peers d1 @ rows"
      "case r2 of Inr ps \<Rightarrow> length rows = length rs \<and> map pr_ID ps = map p_id rows | Inl _ \<Rightarrow> length rows < length rs"
      using 2(1) [OF l] by blast
    have "d' = d2" "r = map_sum id ((#) p) r2"
      using 2(2) c Inr l by (auto simp: bindS_def map_errS_def split: sum.splits)
    then show ?thesis using row rows by (cases r2) (auto intro!: exI [of _ "row # rows"])
  qed
qed

text \<open>A batch that succeeds adds one row for each request, in order; a batch that fails returns
  no peers but leaves the rows of the requests before the failing one in the table: the batch is
  not one transaction.\<close>

theorem create_batch_prefix:
  assumes run: "peerSvc_CreateBatch nanos rs d = (r, d')"
  shows "nodes d' = nodes d \<and> subnets d' = subnets d \<and> (\<exists>rows. peers d' = peers d @ rows \<and>
    (case r of Inr ps \<Rightarrow> length rows = length rs \<and> map pr_ID ps = map p_id rows
     | Inl _ \<Rightarrow> rows = [] \<or> length rows < length rs))"
proof (cases "validate_batch 0 rs")
  case (Inl e)
  then show ?thesis using run by (auto simp: peerSvc_CreateBatch_def)
next
  case (Inr qs)
  then have "create_batch_loop nanos 0 qs d = (r, d')" using run by (simp add: peerSvc_CreateBatch_def)
  from create_batch_loop_rows [OF this] show ?thesis
    using validate_batch_length [OF Inr] by (auto split: sum.splits)
qed

theorem create_batch_prefix_witness:
  "let res = peerSvc_CreateBatch (\<lambda>k. k) [create_example, create_example] one_node_db; d' = snd res in
    nodes d' = nodes one_node_db \<and> subnets d' = subnets one_node_db \<and>
    (\<exists>rows. peers d' = peers one_node_db @ rows \<and>
      (case fst res of Inr ps \<Rightarrow> length rows = length [create_example, create_example] \<and> map pr_ID ps = map p_id rows
       | Inl _ \<Rightarrow> rows = [] \<or> length rows < length [create_example, create_example]))"
  unfolding Let_def by (rule create_batch_prefix [of "\<lambda>k. k"]) simp

lemma find_append_new: "(\<And>y. y \<in> set xs \<Longrightarrow> \<not> P y) \<Longrightarrow> P x \<Longrightarrow> find P (xs @ [x]) = Some x"
  by (induction xs) auto

text \<open>A peer created under a name of the WireGuard protocol that lower-cases to \<open>wireguard\<close> is the
  peer a lookup by its public key returns.\<close>

theorem created_peer_is_found:
  assumes ok: "db_ok d" and run: "peerSvc_Create nano req d = (Inr p, d')" and nf: "faults d' = []"
    and wg: "to_lower (pq_Protocol (PeerCreateRequest_normalise req)) = ''wireguard''"
    and ne: "pr_Identifier p \<noteq> []"
  shows "\<exists>x. peerSvc_GetByPublicKey (pr_Identifier p) d' = (Inr x, d') \<and> pr_ID x = pr_ID p \<and>
    pr_NodeID x = pq_NodeID req \<and> pr_AllocatedIP x = pq_AllocatedIP req \<and> pr_Status x = PeerActive"
proof -
  obtain row where row: "peers d' = peers d @ [row]" "p_id row = pr_ID p" "p_status row = PeerActive"
    "p_node_id row = pq_NodeID req" "p_allocated_ip row = pq_AllocatedIP req" "p_protocol row = ''wireguard''"
    "p_identifier row = pr_Identifier p"
    "(p_protocol row, p_identifier row) \<notin> (\<lambda>r. (p_protocol r, p_identifier r)) ` set (peers d)"
    using peerSvc_Create_row [OF run, THEN conjunct2, THEN conjunct2]
    unfolding Let_def wg by (elim conjE exE) (rule that; (assumption | simp only:))
  have "\<not> (p_protocol y = ''wireguard'' \<and> p_identifier y = pr_Identifier p)" if "y \<in> set (peers d)" for y
    using row(8) that unfolding row(6,7) by (metis (no_types, lifting) image_eqI)
  then have "find (\<lambda>r. p_protocol r = ''wireguard'' \<and> p_identifier r = pr_Identifier p) (peers d @ [row]) = Some row"
    by (rule find_append_new) (simp_all only: row(6,7) simp_thms)
  then have "GetPeerByIdentifier ''wireguard'' (pr_Identifier p) d' = (Inr row, d')"
    by (simp add: GetPeerByIdentifier_def select_nofault [OF nf] row(1))
  then have "peerSvc_GetByPublicKey (pr_Identifier p) d' = (Inr (toDomainPeer row), d')"
    using ne by (simp add: peerSvc_GetByPublicKey_def peerRepo_GetByPublicKey_def peerRepo_GetByIdentifier_def
        bindS_def map_errS_def)
  then show ?thesis using row by (intro exI [of _ "toDomainPeer row"]) (simp add: toDomainPeer_def)
qed

lemma normalise_named:
  assumes "trim_space (pq_Protocol req) \<noteq> []" "trim_space (pq_Identifier req) \<noteq> []"
  shows "PeerCreateRequest_normalise req = req"
  using assms by (simp add: PeerCreateRequest_normalise_def)

text \<open>A concrete WireGuard peer.\<close>

definition wg_key_example :: string where
  "wg_key_example = b64_encode (replicate 32 7)"

definition wg_example :: PeerCreateRequest where
  "wg_example = \<lparr>pq_NodeID = ''node-1'', pq_Protocol = ''WireGuard'', pq_Identifier = wg_key_example,
     pq_ProtocolConfig = None, pq_PublicKey = [], pq_AllocatedIP = ''10.8.0.2'', pq_PresharedKey = None\<rparr>"

lemma wg_example_valid: "PeerCreateRequest_Validate wg_example = (Inr (), wg_example)"
proof -
  have key: "IsValidWireGuardKey wg_key_example" unfolding wg_key_example_def by (rule valid_key_encode) simp
  have ne: "trim_space wg_key_example \<noteq> []"
    unfolding wg_key_example_def by code_simp
  have pn: "trim_space ''WireGuard'' \<noteq> []" by code_simp
  have n: "PeerCreateRequest_normalise wg_example = wg_example"
    by (rule normalise_named) (simp_all add: wg_example_def ne pn)
  have "length (split_on CHR ''.'' ''10.8.0.2'') = 4 \<and> list_all octet_ok (split_on CHR ''.'' ''10.8.0.2'')"
    by code_simp
  then have "validateIPAddress ''10.8.0.2'' = Inr ()" by (simp only: validateIPAddress_eq ParseIP_None_iff) simp
  moreover have "validatePeerNodeID ''node-1'' = Inr ()" by code_simp
  ultimately show ?thesis
    unfolding PeerCreateRequest_Validate_def Let_def n
    by (simp add: wg_example_def ne key validatePublicKey_def)
qed

theorem created_peer_is_found_witness:
  "\<exists>p d' x. peerSvc_Create 5 wg_example one_node_db = (Inr p, d') \<and>
    peerSvc_GetByPublicKey wg_key_example d' = (Inr x, d') \<and> pr_ID x = pr_ID p"
proof -
  have nd: "pq_NodeID wg_example \<in> node_ids one_node_db" by (simp add: wg_example_def one_node_db_facts)
  obtain p d' where p: "peerSvc_Create 5 wg_example one_node_db = (Inr p, d')" "faults d' = []"
    "pr_Identifier p = pq_Identifier wg_example"
    by (rule peerSvc_Create_succeeds [OF one_node_db_facts(2) _ wg_example_valid one_node_db_facts(6) nd, of 5])
      (simp_all add: wg_example_def)
  have n: "PeerCreateRequest_normalise wg_example = wg_example"
    using PeerCreateRequest_Validate_ok [OF wg_example_valid] by simp
  have k: "pr_Identifier p = wg_key_example" using p(3) by (simp add: wg_example_def)
  have "wg_key_example \<noteq> []" unfolding wg_key_example_def by code_simp
  moreover have "to_lower (pq_Protocol (PeerCreateRequest_normalise wg_example)) = ''wireguard''"
    unfolding n by (simp add: wg_example_def) code_simp
  ultimately show ?thesis
    using created_peer_is_found [OF _ p(1,2)] one_node_db_facts(1) p(1) k by (auto simp: db_good_def)
qed

end
