(* ===== verification/Remote.thy ===== *)
theory Remote
  imports DomainErrors
begin

text \<open>
  Command execution on a node: the circuit breaker (\<open>infrastructure/remote/circuit_breaker.go\<close>), the
  SSH client and its pool (\<open>ssh/client.go\<close>, \<open>ssh/pool.go\<close>), the retry loop
  (\<open>ssh_node_interactor.go\<close>), the metrics (\<open>monitoring.go\<close>) and the configuration check
  (\<open>config.go\<close>). The network is a state \<open>'w\<close> with the SSH library's calls as arguments; \<open>now w\<close> is
  \<open>time.Now()\<close>. Times and durations are integers, the zero time is 0.
\<close>

section \<open>Circuit breaker\<close>

datatype CircuitBreakerState = StateClosed | StateOpen | StateHalfOpen

record CircuitBreakerConfig =
  FailureThreshold :: int
  ResetTimeout :: int
  MaxAttempts :: int

record CircuitBreaker =
  cb_config :: CircuitBreakerConfig
  cb_state :: CircuitBreakerState
  cb_failureCount :: int
  cb_lastFailure :: int
  cb_nextAttempt :: int

definition NewCircuitBreaker :: "CircuitBreakerConfig \<Rightarrow> CircuitBreaker" where
  "NewCircuitBreaker cfg = \<lparr>cb_config = cfg, cb_state = StateClosed, cb_failureCount = 0,
     cb_lastFailure = 0, cb_nextAttempt = 0\<rparr>"

definition canExecute :: "int \<Rightarrow> CircuitBreaker \<Rightarrow> bool" where
  "canExecute t cb = (case cb_state cb of
       StateClosed \<Rightarrow> True | StateOpen \<Rightarrow> t > cb_nextAttempt cb | StateHalfOpen \<Rightarrow> True)"

definition onSuccess :: "CircuitBreaker \<Rightarrow> CircuitBreaker" where
  "onSuccess cb = (case cb_state cb of
       StateHalfOpen \<Rightarrow> cb\<lparr>cb_state := StateClosed, cb_failureCount := 0\<rparr>
     | StateClosed \<Rightarrow> cb\<lparr>cb_failureCount := 0\<rparr>
     | StateOpen \<Rightarrow> cb)"

definition onFailure :: "int \<Rightarrow> CircuitBreaker \<Rightarrow> CircuitBreaker" where
  "onFailure t cb0 =
     (let cb = cb0\<lparr>cb_failureCount := cb_failureCount cb0 + 1, cb_lastFailure := t\<rparr>;
          opened = cb\<lparr>cb_state := StateOpen, cb_nextAttempt := t + ResetTimeout (cb_config cb)\<rparr>
      in case cb_state cb of
           StateClosed \<Rightarrow> (if cb_failureCount cb \<ge> FailureThreshold (cb_config cb) then opened else cb)
         | StateHalfOpen \<Rightarrow> opened
         | StateOpen \<Rightarrow> (if t > cb_nextAttempt cb then cb\<lparr>cb_state := StateHalfOpen\<rparr> else cb))"

definition recordResult :: "int \<Rightarrow> bool \<Rightarrow> CircuitBreaker \<Rightarrow> CircuitBreaker" where
  "recordResult t ok cb = (if ok then onSuccess cb else onFailure t cb)"

definition circuit_open_error :: go_error where
  "circuit_open_error = NewInfrastructureError ErrCodeCircuitOpen ''circuit breaker is open'' True None"

text \<open>\<open>Execute\<close> of an operation on the world; the metadata of the refusal is left out.\<close>

definition cb_Execute ::
  "('w \<Rightarrow> int) \<Rightarrow> ('w \<Rightarrow> 'a res \<times> 'w) \<Rightarrow> CircuitBreaker \<times> 'w \<Rightarrow> 'a res \<times> (CircuitBreaker \<times> 'w)" where
  "cb_Execute now operation s = (case s of (cb, w) \<Rightarrow>
     if \<not> canExecute (now w) cb then (Inl circuit_open_error, (cb, w))
     else (case operation w of (r, w') \<Rightarrow> (r, (recordResult (now w') (is_ok r) cb, w'))))"

definition cb_Reset :: "CircuitBreaker \<Rightarrow> CircuitBreaker" where
  "cb_Reset cb = cb\<lparr>cb_state := StateClosed, cb_failureCount := 0, cb_lastFailure := 0, cb_nextAttempt := 0\<rparr>"

text \<open>The counter of a closed breaker stays below the threshold; an open or half-open one has
  reached it.\<close>

definition cb_ok :: "CircuitBreaker \<Rightarrow> bool" where
  "cb_ok cb = (0 \<le> cb_failureCount cb \<and> 1 \<le> FailureThreshold (cb_config cb) \<and>
     (cb_state cb = StateClosed \<longleftrightarrow> cb_failureCount cb < FailureThreshold (cb_config cb)))"

lemma cb_ok_new: "1 \<le> FailureThreshold cfg \<Longrightarrow> cb_ok (NewCircuitBreaker cfg)"
  by (simp add: cb_ok_def NewCircuitBreaker_def)

lemma cb_ok_reset: "cb_ok cb \<Longrightarrow> cb_ok (cb_Reset cb)"
  by (simp add: cb_ok_def cb_Reset_def)

lemma recordResult_ok: "cb_ok cb \<Longrightarrow> cb_ok (recordResult t ok cb)"
  by (auto simp: cb_ok_def recordResult_def onSuccess_def onFailure_def Let_def
      split: CircuitBreakerState.splits)

lemma recordResult_config [simp]: "cb_config (recordResult t ok cb) = cb_config cb"
  by (auto simp: recordResult_def onSuccess_def onFailure_def Let_def split: CircuitBreakerState.splits)

text \<open>A history of recorded results with their times.\<close>

fun record_all :: "(int \<times> bool) list \<Rightarrow> CircuitBreaker \<Rightarrow> CircuitBreaker" where
  "record_all [] cb = cb"
| "record_all ((t, ok) # rs) cb = record_all rs (recordResult t ok cb)"

lemma record_all_append: "record_all (xs @ ys) cb = record_all ys (record_all xs cb)"
  by (induction xs cb rule: record_all.induct) auto

lemma record_all_ok: "cb_ok cb \<Longrightarrow> cb_ok (record_all rs cb)"
  by (induction rs cb rule: record_all.induct) (auto intro: recordResult_ok)

lemma record_all_config [simp]: "cb_config (record_all rs cb) = cb_config cb"
  by (induction rs cb rule: record_all.induct) auto

lemma record_failures:
  assumes "cb_state cb = StateClosed" "cb_failureCount cb + int (length ts) < FailureThreshold (cb_config cb)"
  shows "cb_state (record_all (map (\<lambda>t. (t, False)) ts) cb) = StateClosed \<and>
    cb_failureCount (record_all (map (\<lambda>t. (t, False)) ts) cb) = cb_failureCount cb + int (length ts)"
  using assms
proof (induction ts arbitrary: cb)
  case (Cons t ts)
  have "cb_state (recordResult t False cb) = StateClosed"
    "cb_failureCount (recordResult t False cb) = cb_failureCount cb + 1"
    using Cons.prems by (simp_all add: recordResult_def onFailure_def Let_def)
  then show ?case using Cons.IH [of "recordResult t False cb"] Cons.prems by simp
qed simp

text \<open>From a closed breaker with no failures counted, the breaker stays closed for fewer
  consecutive failures than the threshold, opens with the failure that reaches it, and then refuses
  every operation, without running it, until the reset timeout after that failure has passed.\<close>

theorem breaker_trips_at_threshold:
  assumes fresh: "cb_state cb = StateClosed" "cb_failureCount cb = 0"
    and n: "int (length ts) + 1 = FailureThreshold (cb_config cb)"
  shows "(let fails = (\<lambda>xs. map (\<lambda>t. (t, False)) xs);
           before = record_all (fails ts) cb; after = record_all (fails (ts @ [t])) cb
    in cb_state before = StateClosed \<and> cb_state after = StateOpen \<and>
       (\<forall>now operation w. now w \<le> t + ResetTimeout (cb_config cb) \<longrightarrow>
          cb_Execute now operation (after, w) = (Inl circuit_open_error, (after, w))))"
proof -
  let ?b = "record_all (map (\<lambda>t. (t, False)) ts) cb"
  have b: "cb_state ?b = StateClosed" "cb_failureCount ?b = int (length ts)"
    using record_failures [of cb ts] fresh n by auto
  have "record_all (map (\<lambda>t. (t, False)) (ts @ [t])) cb = recordResult t False ?b"
    by (simp add: record_all_append)
  also have "\<dots> = ?b\<lparr>cb_failureCount := int (length ts) + 1, cb_lastFailure := t, cb_state := StateOpen,
      cb_nextAttempt := t + ResetTimeout (cb_config cb)\<rparr>"
    using b n by (simp add: recordResult_def onFailure_def Let_def)
  finally show ?thesis
    using b by (simp add: Let_def cb_Execute_def canExecute_def)
qed

theorem breaker_trips_at_threshold_witness:
  "let cfg = \<lparr>FailureThreshold = 3, ResetTimeout = 60, MaxAttempts = 3\<rparr>; cb = NewCircuitBreaker cfg in
    (let fails = (\<lambda>xs. map (\<lambda>t. (t, False)) xs);
         before = record_all (fails [1, 2]) cb; after = record_all (fails ([1, 2] @ [5])) cb
    in cb_state before = StateClosed \<and> cb_state after = StateOpen \<and>
       (\<forall>now operation w. now (w :: int) \<le> 5 + ResetTimeout (cb_config cb) \<longrightarrow>
          cb_Execute now (operation :: int \<Rightarrow> unit res \<times> int) (after, w) = (Inl circuit_open_error, (after, w))))"
  unfolding Let_def
  by (rule breaker_trips_at_threshold [unfolded Let_def]) (simp_all add: NewCircuitBreaker_def)

text \<open>The breaker never stays closed past its threshold: after any history of results the counter
  is below the threshold exactly in the closed state.\<close>

theorem breaker_invariant:
  assumes "1 \<le> FailureThreshold cfg"
  shows "cb_ok (record_all rs (NewCircuitBreaker cfg))"
  using assms by (rule record_all_ok [OF cb_ok_new])

theorem breaker_invariant_witness:
  "cb_ok (record_all [(1, False), (2, True), (3, False), (4, False)]
     (NewCircuitBreaker \<lparr>FailureThreshold = 2, ResetTimeout = 60, MaxAttempts = 3\<rparr>))"
  by (rule breaker_invariant) simp

text \<open>An open breaker past its reset timeout is closed by no success: it takes one more failure
  to reach the half-open state, from which a success closes it. Until that failure it stays open
  and lets every operation through.\<close>

theorem breaker_recovery:
  assumes "cb_state cb = StateOpen" "t > cb_nextAttempt cb"
  shows "recordResult t True cb = cb \<and> canExecute t (recordResult t True cb) \<and>
    cb_state (recordResult t False cb) = StateHalfOpen \<and>
    cb_state (recordResult t' True (recordResult t False cb)) = StateClosed \<and>
    cb_failureCount (recordResult t' True (recordResult t False cb)) = 0"
  using assms by (simp add: recordResult_def onSuccess_def onFailure_def canExecute_def Let_def)

theorem breaker_recovery_witness:
  "let cb = record_all [(5, False)] (NewCircuitBreaker \<lparr>FailureThreshold = 1, ResetTimeout = 60, MaxAttempts = 3\<rparr>) in
    recordResult 70 True cb = cb \<and> canExecute 70 (recordResult 70 True cb) \<and>
    cb_state (recordResult 70 False cb) = StateHalfOpen \<and>
    cb_state (recordResult 71 True (recordResult 70 False cb)) = StateClosed \<and>
    cb_failureCount (recordResult 71 True (recordResult 70 False cb)) = 0"
  unfolding Let_def
  by (rule breaker_recovery)
    (simp_all add: NewCircuitBreaker_def recordResult_def onFailure_def Let_def)

section \<open>SSH client and pool\<close>

text \<open>The calls of the SSH library on a connection \<open>'c\<close>: dial a host, open a session, run a command
  (its output and possibly an error), close.\<close>

record ('c, 'w) ssh_lib =
  ssh_dial :: "string \<Rightarrow> 'w \<Rightarrow> 'c res \<times> 'w"
  ssh_session :: "'c \<Rightarrow> 'w \<Rightarrow> unit res \<times> 'w"
  ssh_run :: "'c \<Rightarrow> string \<Rightarrow> 'w \<Rightarrow> (string \<times> go_error option) \<times> 'w"
  ssh_close :: "'c \<Rightarrow> 'w \<Rightarrow> unit res \<times> 'w"

record 'c client =
  cl_host :: string
  cl_conn :: "'c option"

text \<open>\<open>NewClient\<close>: the private key is parsed, nothing is dialled.\<close>

definition NewClient :: "string \<Rightarrow> go_error option \<Rightarrow> 'c client res" where
  "NewClient host keyErr =
     (case keyErr of
        Some e \<Rightarrow> Inl (NewSystemError ErrCodeConfiguration ''failed to parse private key'' False (Some e))
      | None \<Rightarrow> Inr \<lparr>cl_host = host, cl_conn = None\<rparr>)"

definition client_connect :: "('c, 'w) ssh_lib \<Rightarrow> 'c client \<times> 'w \<Rightarrow> 'c res \<times> ('c client \<times> 'w)" where
  "client_connect lib s = (case s of (c, w) \<Rightarrow>
     (case ssh_dial lib (cl_host c) w of
        (Inl e, w') \<Rightarrow>
          (Inl (WithMetadata (NewInfrastructureError ErrCodeSSHConnection ''failed to connect to host'' True (Some e))
                  ''host'' (MString (cl_host c))), (c, w'))
      | (Inr conn, w') \<Rightarrow> (Inr conn, (c\<lparr>cl_conn := Some conn\<rparr>, w'))))"

definition client_reconnect :: "('c, 'w) ssh_lib \<Rightarrow> 'c client \<times> 'w \<Rightarrow> 'c res \<times> ('c client \<times> 'w)" where
  "client_reconnect lib s = (case s of (c, w) \<Rightarrow>
     (case cl_conn c of
        None \<Rightarrow> client_connect lib (c, w)
      | Some conn \<Rightarrow> client_connect lib (c\<lparr>cl_conn := None\<rparr>, snd (ssh_close lib conn w))))"

text \<open>\<open>RunCommand\<close>: the session is opened on the connection the client has, once more after a
  reconnection; the output is returned with the error.\<close>

definition client_session :: "('c, 'w) ssh_lib \<Rightarrow> 'c \<Rightarrow> 'c client \<times> 'w \<Rightarrow> unit res \<times> ('c client \<times> 'w)" where
  "client_session lib conn s = (case s of (c, w) \<Rightarrow> (case ssh_session lib conn w of (r, w') \<Rightarrow> (r, (c, w'))))"

definition client_open :: "('c, 'w) ssh_lib \<Rightarrow> 'c client \<times> 'w \<Rightarrow> 'c res \<times> ('c client \<times> 'w)" where
  "client_open lib = bindS
     (\<lambda>s. case cl_conn (fst s) of None \<Rightarrow> client_connect lib s | Some conn \<Rightarrow> (Inr conn, s))
     (\<lambda>conn. bindS (tryS (client_session lib conn)) (\<lambda>opened.
        case opened of
          Inr _ \<Rightarrow> returnS conn
        | Inl _ \<Rightarrow>
            bindS (client_reconnect lib) (\<lambda>conn'.
            bindS (map_errS (\<lambda>e. NewInfrastructureError ErrCodeSSHConnection
                     ''failed to create session after reconnect'' True (Some e)) (client_session lib conn')) (\<lambda>_.
            returnS conn'))))"

definition client_RunCommand ::
  "('c, 'w) ssh_lib \<Rightarrow> string \<Rightarrow> 'c client \<times> 'w \<Rightarrow> (string \<times> go_error option) \<times> ('c client \<times> 'w)" where
  "client_RunCommand lib command s =
     (case client_open lib s of
        (Inl e, s') \<Rightarrow> (([], Some e), s')
      | (Inr conn, (c, w)) \<Rightarrow>
          (case ssh_run lib conn command w of
             ((output, None), w') \<Rightarrow> ((output, None), (c, w'))
           | ((output, Some e), w') \<Rightarrow>
               ((output, Some (NewInfrastructureError ErrCodeSSHCommand ''ssh command failed'' True (Some e))), (c, w'))))"

definition client_Close :: "('c, 'w) ssh_lib \<Rightarrow> 'c client \<times> 'w \<Rightarrow> unit res \<times> ('c client \<times> 'w)" where
  "client_Close lib s = (case s of (c, w) \<Rightarrow>
     (case cl_conn c of
        None \<Rightarrow> (Inr (), (c, w))
      | Some conn \<Rightarrow> (case ssh_close lib conn w of (r, w') \<Rightarrow> (r, (c\<lparr>cl_conn := None\<rparr>, w')))))"

definition client_IsHealthy :: "('c, 'w) ssh_lib \<Rightarrow> 'c client \<times> 'w \<Rightarrow> bool \<times> 'w" where
  "client_IsHealthy lib s = (case s of (c, w) \<Rightarrow>
     (case cl_conn c of
        None \<Rightarrow> (False, w)
      | Some conn \<Rightarrow> (case ssh_session lib conn w of (r, w') \<Rightarrow> (is_ok r, w'))))"

record 'c pool_entry =
  pe_client :: "'c client"
  pe_lastUsed :: int

record 'c Pool =
  pool_connections :: "string \<rightharpoonup> 'c pool_entry"
  pool_maxIdle :: int
  pool_keyErr :: "go_error option"

text \<open>\<open>CloseConnection\<close>.\<close>

definition pool_Close :: "('c, 'w) ssh_lib \<Rightarrow> string \<Rightarrow> 'c Pool \<times> 'w \<Rightarrow> 'c Pool \<times> 'w" where
  "pool_Close lib ip s = (case s of (p, w) \<Rightarrow>
     (case pool_connections p ip of
        None \<Rightarrow> (p, w)
      | Some e \<Rightarrow> (p\<lparr>pool_connections := (pool_connections p)(ip := None)\<rparr>,
                   snd (snd (client_Close lib (pe_client e, w))))))"

text \<open>\<open>GetConnection\<close> returns the pool entry of the node; the client in it is what later calls change.\<close>

definition pool_createNewConnection ::
  "('w \<Rightarrow> int) \<Rightarrow> string \<Rightarrow> 'c Pool \<times> 'w \<Rightarrow> 'c client res \<times> ('c Pool \<times> 'w)" where
  "pool_createNewConnection now ip s = (case s of (p, w) \<Rightarrow>
     (case NewClient ip (pool_keyErr p) of
        Inl e \<Rightarrow> (Inl e, (p, w))
      | Inr c \<Rightarrow> (Inr c, (p\<lparr>pool_connections :=
            (pool_connections p)(ip \<mapsto> \<lparr>pe_client = c, pe_lastUsed = now w\<rparr>)\<rparr>, w))))"

definition pool_GetConnection ::
  "('w \<Rightarrow> int) \<Rightarrow> ('c, 'w) ssh_lib \<Rightarrow> string \<Rightarrow> 'c Pool \<times> 'w \<Rightarrow> 'c client res \<times> ('c Pool \<times> 'w)" where
  "pool_GetConnection now lib ip s = (case s of (p, w) \<Rightarrow>
     (case pool_connections p ip of
        None \<Rightarrow> pool_createNewConnection now ip (p, w)
      | Some e \<Rightarrow>
          (case client_IsHealthy lib (pe_client e, w) of (healthy, w') \<Rightarrow>
             if healthy then (Inr (pe_client e), (p\<lparr>pool_connections :=
                 (pool_connections p)(ip \<mapsto> e\<lparr>pe_lastUsed := now w'\<rparr>)\<rparr>, w'))
             else pool_createNewConnection now ip (pool_Close lib ip (p, w')))))"

text \<open>\<open>ExecuteCommand\<close>: any failure drops the connection, so the next call starts afresh.\<close>

definition pool_ExecuteCommand ::
  "('w \<Rightarrow> int) \<Rightarrow> ('c, 'w) ssh_lib \<Rightarrow> string \<Rightarrow> string \<Rightarrow> 'c Pool \<times> 'w
     \<Rightarrow> (string \<times> go_error option) \<times> ('c Pool \<times> 'w)" where
  "pool_ExecuteCommand now lib ip command s =
     (case pool_GetConnection now lib ip s of
        (Inl e, s1) \<Rightarrow> (([], Some e), pool_Close lib ip s1)
      | (Inr c, (p1, w1)) \<Rightarrow>
          (case client_RunCommand lib command (c, w1) of
             ((output, err), (c', w2)) \<Rightarrow>
               (let p2 = p1\<lparr>pool_connections := (pool_connections p1)(ip :=
                      map_option (\<lambda>e. e\<lparr>pe_client := c'\<rparr>) (pool_connections p1 ip))\<rparr>
                in case err of
                     Some e \<Rightarrow> ((output, Some e), pool_Close lib ip (p2, w2))
                   | None \<Rightarrow> ((output, None), (p2, w2)))))"

text \<open>Closing a set of connections: all of them, or the idle ones. The order in which the clients are
  closed is the iteration order of the map, a list of its keys.\<close>

fun pool_close_list :: "('c, 'w) ssh_lib \<Rightarrow> string list \<Rightarrow> 'c Pool \<times> 'w \<Rightarrow> 'c Pool \<times> 'w" where
  "pool_close_list lib [] s = s"
| "pool_close_list lib (ip # ips) s = pool_close_list lib ips (pool_Close lib ip s)"

definition pool_CloseAll :: "('c, 'w) ssh_lib \<Rightarrow> string list \<Rightarrow> 'c Pool \<times> 'w \<Rightarrow> 'c Pool \<times> 'w" where
  "pool_CloseAll lib keys s = (case pool_close_list lib keys s of
     (p, w) \<Rightarrow> (p\<lparr>pool_connections := Map.empty\<rparr>, w))"

definition pool_idle :: "int \<Rightarrow> 'c Pool \<Rightarrow> string \<Rightarrow> bool" where
  "pool_idle t p ip = (case pool_connections p ip of
     None \<Rightarrow> False | Some e \<Rightarrow> t - pe_lastUsed e > pool_maxIdle p)"

definition pool_CleanupIdle :: "('w \<Rightarrow> int) \<Rightarrow> ('c, 'w) ssh_lib \<Rightarrow> string list \<Rightarrow> 'c Pool \<times> 'w \<Rightarrow> 'c Pool \<times> 'w" where
  "pool_CleanupIdle now lib keys s = (case s of (p, w) \<Rightarrow>
     pool_close_list lib (filter (pool_idle (now w) p) keys) (p, w))"

lemma pool_Close_connections:
  "pool_connections (fst (pool_Close lib ip s)) = (pool_connections (fst s))(ip := None)"
  by (cases s) (auto simp: pool_Close_def fun_eq_iff split: option.splits)

lemma pool_close_list_connections:
  "pool_connections (fst (pool_close_list lib ips s)) =
   (\<lambda>ip. if ip \<in> set ips then None else pool_connections (fst s) ip)"
  by (induction lib ips s rule: pool_close_list.induct) (auto simp: pool_Close_connections fun_eq_iff)

lemma client_connect_conn:
  "client_connect lib s = (Inr conn, s') \<Longrightarrow> cl_conn (fst s') = Some conn"
  by (auto simp: client_connect_def split: prod.splits sum.splits)

lemma client_reconnect_conn:
  "client_reconnect lib s = (Inr conn, s') \<Longrightarrow> cl_conn (fst s') = Some conn"
  by (auto simp: client_reconnect_def dest: client_connect_conn split: option.splits prod.splits)

lemma client_session_client: "client_session lib conn s = (r, s') \<Longrightarrow> fst s' = fst s"
  by (auto simp: client_session_def split: prod.splits)

lemma client_open_conn:
  assumes "client_open lib s = (Inr conn, s')"
  shows "cl_conn (fst s') = Some conn"
proof -
  obtain c0 s0 where c0: "(case cl_conn (fst s) of None \<Rightarrow> client_connect lib s | Some conn \<Rightarrow> (Inr conn, s)) = (Inr c0, s0)"
    and rest: "bindS (tryS (client_session lib c0)) (\<lambda>opened.
        case opened of
          Inr _ \<Rightarrow> returnS c0
        | Inl _ \<Rightarrow>
            bindS (client_reconnect lib) (\<lambda>conn'.
            bindS (map_errS (\<lambda>e. NewInfrastructureError ErrCodeSSHConnection
                     ''failed to create session after reconnect'' True (Some e)) (client_session lib conn')) (\<lambda>_.
            returnS conn'))) s0 = (Inr conn, s')"
    using assms unfolding client_open_def bindS_Inr_iff by blast
  have s0: "cl_conn (fst s0) = Some c0"
    using c0 by (auto dest: client_connect_conn split: option.splits)
  obtain q s1 where q: "client_session lib c0 s0 = (q, s1)" by (metis surj_pair)
  show ?thesis
  proof (cases q)
    case (Inr u)
    then show ?thesis using rest q s0 client_session_client [OF q] by (simp add: bindS_def)
  next
    case (Inl e)
    then obtain s2 where "client_reconnect lib s1 = (Inr conn, s2)" "client_session lib conn s2 = (Inr (), s')"
      using rest q by (auto simp: bindS_Inr_iff)
    then show ?thesis by (metis client_reconnect_conn client_session_client)
  qed
qed

lemma pool_GetConnection_other:
  assumes "pool_GetConnection now lib ip s = (r, s')" "ip' \<noteq> ip"
  shows "pool_connections (fst s') ip' = pool_connections (fst s) ip'"
proof -
  have new: "pool_createNewConnection now ip t = (r, s') \<Longrightarrow>
      pool_connections (fst s') ip' = pool_connections (fst t) ip'" for t :: "'a Pool \<times> 'b"
    using assms(2) by (auto simp: pool_createNewConnection_def split: prod.splits sum.splits)
  show ?thesis
  proof (cases s)
    case (Pair p w)
    then show ?thesis
      using assms new [of "(p, w)"] new [of "pool_Close lib ip (p, w')" for w']
      by (auto simp: pool_GetConnection_def pool_Close_connections split: prod.splits option.splits if_splits)
  qed
qed

text \<open>A command run through the pool leaves the connections of other nodes alone; if it fails, at
  whatever stage, the node has no connection in the pool afterwards, so that the next command
  dials afresh; if it succeeds, the pool holds a connected client of the node.\<close>

theorem pool_drops_failed_connection:
  assumes run: "pool_ExecuteCommand now lib ip command s = ((output, err), s')"
  shows "(\<forall>ip'. ip' \<noteq> ip \<longrightarrow> pool_connections (fst s') ip' = pool_connections (fst s) ip') \<and>
    (case err of
       Some _ \<Rightarrow> pool_connections (fst s') ip = None
     | None \<Rightarrow> (\<exists>e. pool_connections (fst s') ip = Some e \<and> cl_conn (pe_client e) \<noteq> None))"
proof -
  obtain g s1 where g: "pool_GetConnection now lib ip s = (g, s1)" by (metis surj_pair)
  note other = pool_GetConnection_other [OF g]
  show ?thesis
  proof (cases g)
    case (Inl e)
    then show ?thesis using run g other by (auto simp: pool_ExecuteCommand_def pool_Close_connections)
  next
    case (Inr c)
    obtain p1 w1 where s1: "s1 = (p1, w1)" by fastforce
    have entry: "pool_connections p1 ip \<noteq> None"
      using g Inr unfolding s1
      by (auto simp: pool_GetConnection_def pool_createNewConnection_def
          split: prod.splits option.splits if_splits sum.splits)
    obtain out er c' w2 where r: "client_RunCommand lib command (c, w1) = ((out, er), (c', w2))"
      by (metis surj_pair)
    have conn: "er = None \<Longrightarrow> cl_conn c' \<noteq> None"
      using r client_open_conn [of lib "(c, w1)"]
      by (auto simp: client_RunCommand_def split: prod.splits sum.splits option.splits)
    show ?thesis
      using run g Inr s1 r other conn entry
      by (auto simp: pool_ExecuteCommand_def pool_Close_connections Let_def split: option.splits)
  qed
qed

text \<open>The periodic cleanup closes exactly the connections idle for longer than the limit.\<close>

theorem pool_cleanup_exact:
  assumes keys: "set keys = dom (pool_connections (fst s))"
  shows "pool_connections (fst (pool_CleanupIdle now lib keys s)) ip =
    (case pool_connections (fst s) ip of
       None \<Rightarrow> None
     | Some e \<Rightarrow> if now (snd s) - pe_lastUsed e > pool_maxIdle (fst s) then None else Some e)"
proof (cases s)
  case (Pair p w)
  have "ip \<in> set keys \<longleftrightarrow> pool_connections p ip \<noteq> None" using keys Pair by auto
  then show ?thesis
    using Pair by (auto simp: pool_CleanupIdle_def pool_close_list_connections pool_idle_def split: option.splits)
qed

text \<open>A network on which every dial succeeds and the first command fails.\<close>

definition demo_lib :: "(nat, nat) ssh_lib" where
  "demo_lib = \<lparr>ssh_dial = (\<lambda>host w. (Inr w, Suc w)), ssh_session = (\<lambda>c w. (Inr (), w)),
     ssh_run = (\<lambda>c command w. (([], Some (PlainError ''exit status 1'')), w)), ssh_close = (\<lambda>c w. (Inr (), w))\<rparr>"

definition empty_pool :: "nat Pool" where
  "empty_pool = \<lparr>pool_connections = Map.empty, pool_maxIdle = 300, pool_keyErr = None\<rparr>"

theorem pool_drops_failed_connection_witness:
  "let s' = snd (pool_ExecuteCommand int demo_lib ''h'' ''wg'' (empty_pool, 0)) in
    pool_connections (fst s') ''h'' = None"
proof -
  define r where "r = pool_ExecuteCommand int demo_lib ''h'' ''wg'' (empty_pool, 0)"
  have "snd (fst r) \<noteq> None"
    by (simp add: r_def pool_ExecuteCommand_def pool_GetConnection_def pool_createNewConnection_def empty_pool_def
        NewClient_def client_RunCommand_def client_open_def client_connect_def client_session_def demo_lib_def bindS_def)
  moreover have "pool_ExecuteCommand int demo_lib ''h'' ''wg'' (empty_pool, 0) = ((fst (fst r), snd (fst r)), snd r)"
    by (simp add: r_def)
  from pool_drops_failed_connection [OF this]
  have "case snd (fst r) of Some _ \<Rightarrow> pool_connections (fst (snd r)) ''h'' = None
     | None \<Rightarrow> (\<exists>e. pool_connections (fst (snd r)) ''h'' = Some e \<and> cl_conn (pe_client e) \<noteq> None)" by blast
  ultimately show ?thesis by (auto simp: r_def)
qed

theorem pool_cleanup_exact_witness:
  "let s = (empty_pool\<lparr>pool_connections := [''h'' \<mapsto> \<lparr>pe_client = \<lparr>cl_host = ''h'', cl_conn = Some 0\<rparr>, pe_lastUsed = 0\<rparr>]\<rparr>, 301)
    in pool_connections (fst (pool_CleanupIdle int demo_lib [''h''] s)) ''h'' = None"
  unfolding Let_def
  by (subst pool_cleanup_exact) (simp_all add: empty_pool_def)

section \<open>Retries\<close>

record CommandResult =
  ExitCode :: int
  Stdout :: string

text \<open>What the interactor needs to run commands: the pool as one operation on a state \<open>'s\<close>, the clock,
  and the wait between attempts, which returns the context's error when the context ends first.\<close>

record 's command_env =
  env_exec :: "string \<Rightarrow> string \<Rightarrow> 's \<Rightarrow> (string \<times> go_error option) \<times> 's"
  env_now :: "'s \<Rightarrow> int"
  env_wait :: "int \<Rightarrow> 's \<Rightarrow> go_error option \<times> 's"

record InteractorConfig =
  SSHTimeout :: int
  CommandTimeout :: int
  WireGuardConfigPath :: string
  WireGuardInterface :: string
  RetryAttempts :: int
  RetryBackoff :: int
  HealthCommands :: "(string \<times> string \<times> int \<times> bool \<times> int) list"
  ic_CircuitBreaker :: CircuitBreakerConfig

definition executeCommandOnce :: "'s command_env \<Rightarrow> string \<Rightarrow> string \<Rightarrow> 's \<Rightarrow> CommandResult res \<times> 's" where
  "executeCommandOnce env host command s =
     (case env_exec env host command s of
        ((output, None), s') \<Rightarrow> (Inr \<lparr>ExitCode = 0, Stdout = output\<rparr>, s')
      | ((_, Some e), s') \<Rightarrow>
          (Inl (WithMetadata (WithMetadata
             (WrapWithDomain e DomainInfrastructure ErrCodeSSHCommand ''ssh command execution failed'' True)
             ''host'' (MString host)) ''command'' (MString command)), s'))"

type_synonym breakers = "string \<rightharpoonup> CircuitBreaker"

definition getCircuitBreaker :: "CircuitBreakerConfig \<Rightarrow> string \<Rightarrow> breakers \<Rightarrow> CircuitBreaker \<times> breakers" where
  "getCircuitBreaker cfg host cbs =
     (case cbs host of Some cb \<Rightarrow> (cb, cbs)
      | None \<Rightarrow> (let cb = NewCircuitBreaker cfg in (cb, cbs(host \<mapsto> cb))))"

definition retry_attempt ::
  "'s command_env \<Rightarrow> InteractorConfig \<Rightarrow> string \<Rightarrow> string \<Rightarrow> breakers \<times> 's \<Rightarrow> CommandResult res \<times> (breakers \<times> 's)" where
  "retry_attempt env cfg host command bs = (case bs of (cbs, s) \<Rightarrow>
     (case getCircuitBreaker (ic_CircuitBreaker cfg) host cbs of (cb, cbs1) \<Rightarrow>
       (case cb_Execute (env_now env) (executeCommandOnce env host command) (cb, s) of
          (r, (cb', s')) \<Rightarrow> (r, (cbs1(host \<mapsto> cb'), s')))))"

definition retry_failed :: "InteractorConfig \<Rightarrow> string \<Rightarrow> string \<Rightarrow> go_error option \<Rightarrow> go_error" where
  "retry_failed cfg host command lastErr = WithMetadata (WithMetadata
     (NewBaseError DomainInfrastructure ErrCodeSSHCommand
        (''command failed after '' @ dec (nat (RetryAttempts cfg)) @ '' attempts'') False lastErr)
     ''host'' (MString host)) ''command'' (MString command)"

text \<open>The attempt loop, over the numbers of the attempts still to make.\<close>

fun retry_loop ::
  "'s command_env \<Rightarrow> InteractorConfig \<Rightarrow> string \<Rightarrow> string \<Rightarrow> nat list \<Rightarrow> go_error option \<Rightarrow> breakers \<times> 's
     \<Rightarrow> CommandResult res \<times> (breakers \<times> 's)" where
  "retry_loop env cfg host command [] lastErr bs = (Inl (retry_failed cfg host command lastErr), bs)"
| "retry_loop env cfg host command (attempt # later) lastErr bs =
     (case retry_attempt env cfg host command bs of
        (Inr result, bs1) \<Rightarrow> (Inr result, bs1)
      | (Inl e, (cbs1, s1)) \<Rightarrow>
          if \<not> IsRetryable e then (Inl (retry_failed cfg host command (Some e)), (cbs1, s1))
          else if later = [] then retry_loop env cfg host command [] (Some e) (cbs1, s1)
          else (case env_wait env (int attempt * RetryBackoff cfg) s1 of
                  (Some ctxErr, s2) \<Rightarrow> (Inl ctxErr, (cbs1, s2))
                | (None, s2) \<Rightarrow> retry_loop env cfg host command later (Some e) (cbs1, s2)))"

definition executeWithRetry ::
  "'s command_env \<Rightarrow> InteractorConfig \<Rightarrow> string \<Rightarrow> string \<Rightarrow> breakers \<times> 's \<Rightarrow> CommandResult res \<times> (breakers \<times> 's)" where
  "executeWithRetry env cfg host command bs =
     retry_loop env cfg host command [1..<Suc (nat (RetryAttempts cfg))] None bs"

lemma executeCommandOnce_calls:
  assumes "\<And>s. calls (snd (env_exec env host command s)) = Suc (calls s)"
  shows "calls (snd (executeCommandOnce env host command s)) = Suc (calls s)"
  using assms [of s] by (auto simp: executeCommandOnce_def split: prod.splits option.splits)

lemma retry_attempt_calls:
  assumes "\<And>s. calls (snd (env_exec env host command s)) = Suc (calls s)"
  shows "calls (snd (snd (retry_attempt env cfg host command bs))) \<in> {calls (snd bs), Suc (calls (snd bs))}"
proof -
  obtain cbs s where bs: "bs = (cbs, s)" by fastforce
  obtain r s' where e: "executeCommandOnce env host command s = (r, s')" by fastforce
  then have "calls s' = Suc (calls s)" using executeCommandOnce_calls [of calls env host command s] assms by simp
  then show ?thesis unfolding bs
    by (simp add: retry_attempt_def cb_Execute_def e split: prod.splits)
qed

lemma retry_loop_calls:
  assumes exec: "\<And>s. calls (snd (env_exec env host command s)) = Suc (calls s)"
    and wait: "\<And>t s. calls (snd (env_wait env t s)) = calls s"
  shows "calls (snd (snd (retry_loop env cfg host command as lastErr bs))) \<le> calls (snd bs) + length as"
proof (induction as arbitrary: lastErr bs)
  case (Cons a as)
  obtain r cbs1 s1 where r: "retry_attempt env cfg host command bs = (r, (cbs1, s1))" by (metis surj_pair)
  have c: "calls s1 \<le> Suc (calls (snd bs))"
    using retry_attempt_calls [of calls env host command cfg bs] exec r by auto
  show ?case
  proof (cases r)
    case (Inr x)
    then show ?thesis using r c by simp
  next
    case (Inl e)
    obtain q s2 where w: "env_wait env (int a * RetryBackoff cfg) s1 = (q, s2)" by fastforce
    have "calls s2 = calls s1" using wait [of "int a * RetryBackoff cfg" s1] w by simp
    moreover have "calls (snd (snd (retry_loop env cfg host command as (Some e) (cbs1, s2)))) \<le> calls s2 + length as"
      using Cons.IH [of "Some e" "(cbs1, s2)"] by simp
    ultimately show ?thesis using r Inl c w by (cases q) simp_all
  qed
qed simp

lemma retry_attempt_Inr:
  "retry_attempt env cfg host command bs = (Inr x, bs') \<Longrightarrow>
   \<exists>s. env_exec env host command s = ((Stdout x, None), snd bs')"
  by (auto simp: retry_attempt_def cb_Execute_def executeCommandOnce_def split: prod.splits if_splits option.splits)

lemma retry_loop_result:
  "case retry_loop env cfg host command as lastErr bs of
     (Inr x, bs') \<Rightarrow> \<exists>s. env_exec env host command s = ((Stdout x, None), snd bs')
   | (Inl e, _) \<Rightarrow> (\<exists>last. e = retry_failed cfg host command last) \<or> (\<exists>t s. fst (env_wait env t s) = Some e)"
proof (induction as arbitrary: lastErr bs)
  case (Cons a as)
  obtain r cbs1 s1 where r: "retry_attempt env cfg host command bs = (r, (cbs1, s1))" by (metis surj_pair)
  show ?case
  proof (cases r)
    case (Inr x)
    then show ?thesis using r retry_attempt_Inr [of env cfg host command bs x] by auto
  next
    case (Inl e)
    obtain q s2 where w: "env_wait env (int a * RetryBackoff cfg) s1 = (q, s2)" by fastforce
    show ?thesis
    proof (cases "\<not> IsRetryable e \<or> as = []")
      case True
      then show ?thesis using r Inl by auto
    next
      case False
      show ?thesis
      proof (cases q)
        case None
        then show ?thesis using r Inl False w Cons.IH [of "Some e" "(cbs1, s2)"] by simp
      next
        case (Some ce)
        then have "\<exists>t s. fst (env_wait env t s) = Some ce" using w by (metis fst_conv)
        then show ?thesis using r Inl False w Some by simp
      qed
    qed
  qed
qed auto

text \<open>A command with retries runs at most \<open>RetryAttempts\<close> times on the node; a success returns the
  output of the last run; a failure is either the context's error or a \<open>ssh_command_failed\<close> error
  that the caller must not retry.\<close>

theorem retry_bounded:
  assumes exec: "\<And>s. calls (snd (env_exec env host command s)) = Suc (calls s)"
    and wait: "\<And>t s. calls (snd (env_wait env t s)) = calls s"
    and run: "executeWithRetry env cfg host command bs = (r, bs')"
  shows "calls (snd bs') \<le> calls (snd bs) + nat (RetryAttempts cfg) \<and>
    (case r of
       Inr x \<Rightarrow> \<exists>s. env_exec env host command s = ((Stdout x, None), snd bs')
     | Inl e \<Rightarrow> (GetErrorCode e = ErrCodeSSHCommand \<and> \<not> IsRetryable e) \<or> (\<exists>t s. fst (env_wait env t s) = Some e))"
proof -
  have "calls (snd bs') \<le> calls (snd bs) + nat (RetryAttempts cfg)"
    using retry_loop_calls [of calls env host command cfg "[1..<Suc (nat (RetryAttempts cfg))]" None bs] exec wait run
    by (simp add: executeWithRetry_def del: upt_Suc)
  moreover have "GetErrorCode (retry_failed cfg host command l) = ErrCodeSSHCommand \<and>
      \<not> IsRetryable (retry_failed cfg host command l)" for l
    by (simp add: retry_failed_def)
  ultimately show ?thesis
    using retry_loop_result [where env = env and cfg = cfg and host = host and command = command
        and as = "[1..<Suc (nat (RetryAttempts cfg))]" and lastErr = None and bs = bs] run
    unfolding executeWithRetry_def by (auto split: sum.splits)
qed

definition demo_cfg :: InteractorConfig where
  "demo_cfg = \<lparr>SSHTimeout = 30, CommandTimeout = 60, WireGuardConfigPath = ''/etc/wireguard/wg0.conf'',
     WireGuardInterface = ''wg0'', RetryAttempts = 3, RetryBackoff = 2, HealthCommands = [],
     ic_CircuitBreaker = \<lparr>FailureThreshold = 5, ResetTimeout = 60, MaxAttempts = 3\<rparr>\<rparr>"

text \<open>A node whose second command works; the state counts the commands.\<close>

definition demo_env :: "nat command_env" where
  "demo_env = \<lparr>env_exec = (\<lambda>host command n. (if n = 0 then ([], Some (PlainError ''EOF'')) else (''ok'', None), Suc n)),
     env_now = int, env_wait = (\<lambda>t n. (None, n))\<rparr>"

theorem retry_bounded_witness:
  "snd (snd (executeWithRetry demo_env demo_cfg ''h'' ''true'' (Map.empty, 0))) \<le> 3"
proof -
  obtain r bs' where run: "executeWithRetry demo_env demo_cfg ''h'' ''true'' (Map.empty, 0) = (r, bs')"
    by (metis surj_pair)
  have "id (snd bs') \<le> id (snd (Map.empty :: breakers, 0)) + nat (RetryAttempts demo_cfg)"
    by (rule retry_bounded [where calls = id, OF _ _ run, THEN conjunct1]) (simp_all add: demo_env_def)
  moreover have "nat (RetryAttempts demo_cfg) = 3" by (simp add: demo_cfg_def)
  ultimately show ?thesis unfolding run snd_conv by simp
qed

section \<open>Metrics\<close>

record OperationTypeMetrics =
  otm_Count :: int
  otm_SuccessCount :: int
  otm_FailureCount :: int
  otm_TotalDuration :: int
  otm_AverageDuration :: int
  otm_LastExecution :: int

record OperationMetrics =
  om_Total :: int
  om_Successful :: int
  om_Failed :: int
  om_TotalDuration :: int
  om_AverageResponseTime :: int
  om_LastOperation :: int
  om_ByType :: "string \<rightharpoonup> OperationTypeMetrics"
  om_ErrorsByType :: "string \<rightharpoonup> int"

record ConnectionHealthMetrics =
  chm_Total :: int
  chm_Successful :: int
  chm_Failed :: int
  chm_AverageConnTime :: int
  chm_LastConnection :: int
  chm_LastFailure :: int
  chm_ConsecutiveFailures :: int
  chm_IsHealthy :: bool

definition zero_type_metrics :: OperationTypeMetrics where
  "zero_type_metrics = \<lparr>otm_Count = 0, otm_SuccessCount = 0, otm_FailureCount = 0, otm_TotalDuration = 0,
     otm_AverageDuration = 0, otm_LastExecution = 0\<rparr>"

definition new_operation_metrics :: OperationMetrics where
  "new_operation_metrics = \<lparr>om_Total = 0, om_Successful = 0, om_Failed = 0, om_TotalDuration = 0,
     om_AverageResponseTime = 0, om_LastOperation = 0, om_ByType = Map.empty, om_ErrorsByType = Map.empty\<rparr>"

text \<open>Durations are not negative, so \<open>div\<close> is the division of the code.\<close>

definition record_type :: "int \<Rightarrow> int \<Rightarrow> go_error option \<Rightarrow> OperationTypeMetrics \<Rightarrow> OperationTypeMetrics" where
  "record_type t duration err o0 =
     (let count = otm_Count o0 + 1; tot = otm_TotalDuration o0 + duration;
          o1 = o0\<lparr>otm_Count := count, otm_TotalDuration := tot, otm_AverageDuration := tot div count, otm_LastExecution := t\<rparr>
      in case err of
           None \<Rightarrow> o1\<lparr>otm_SuccessCount := otm_SuccessCount o1 + 1\<rparr>
         | Some _ \<Rightarrow> o1\<lparr>otm_FailureCount := otm_FailureCount o1 + 1\<rparr>)"

definition RecordOperation :: "int \<Rightarrow> string \<Rightarrow> int \<Rightarrow> go_error option \<Rightarrow> OperationMetrics \<Rightarrow> OperationMetrics" where
  "RecordOperation t operationType duration err m =
     (let m1 = m\<lparr>om_Total := om_Total m + 1, om_LastOperation := t, om_TotalDuration := om_TotalDuration m + duration\<rparr>;
          m2 = (case err of
              None \<Rightarrow> m1\<lparr>om_Successful := om_Successful m1 + 1\<rparr>
            | Some e \<Rightarrow> m1\<lparr>om_Failed := om_Failed m1 + 1, om_ErrorsByType := (om_ErrorsByType m1)
                (GetErrorCode e \<mapsto> (case om_ErrorsByType m1 (GetErrorCode e) of None \<Rightarrow> 0 | Some n \<Rightarrow> n) + 1)\<rparr>);
          o0 = (case om_ByType m2 operationType of None \<Rightarrow> zero_type_metrics | Some x \<Rightarrow> x)
      in m2\<lparr>om_ByType := (om_ByType m2)(operationType \<mapsto> record_type t duration err o0)\<rparr>)"

definition RecordConnection ::
  "int \<Rightarrow> string \<Rightarrow> int \<Rightarrow> go_error option \<Rightarrow> (string \<rightharpoonup> ConnectionHealthMetrics) \<Rightarrow> (string \<rightharpoonup> ConnectionHealthMetrics)" where
  "RecordConnection t host duration err cm =
     (let m0 = (case cm host of Some m \<Rightarrow> m
            | None \<Rightarrow> \<lparr>chm_Total = 0, chm_Successful = 0, chm_Failed = 0, chm_AverageConnTime = 0,
                chm_LastConnection = 0, chm_LastFailure = 0, chm_ConsecutiveFailures = 0, chm_IsHealthy = True\<rparr>);
          m1 = m0\<lparr>chm_Total := chm_Total m0 + 1, chm_LastConnection := t\<rparr>;
          m2 = (case err of
              None \<Rightarrow> m1\<lparr>chm_Successful := chm_Successful m1 + 1, chm_ConsecutiveFailures := 0, chm_IsHealthy := True,
                 chm_AverageConnTime := (if chm_Total m1 = 1 then duration
                   else ((chm_Total m1 - 1) * chm_AverageConnTime m1 + duration) div chm_Total m1)\<rparr>
            | Some _ \<Rightarrow> m1\<lparr>chm_Failed := chm_Failed m1 + 1, chm_LastFailure := t,
                 chm_ConsecutiveFailures := chm_ConsecutiveFailures m1 + 1,
                 chm_IsHealthy := (if chm_ConsecutiveFailures m1 + 1 \<ge> 3 then False else chm_IsHealthy m1)\<rparr>)
      in cm(host \<mapsto> m2))"

definition GetOperationMetrics :: "OperationMetrics \<Rightarrow> OperationMetrics" where
  "GetOperationMetrics m =
     (if om_Total m > 0 then m\<lparr>om_AverageResponseTime := om_TotalDuration m div om_Total m\<rparr> else m)"

text \<open>The books balance.\<close>

definition type_metrics_ok :: "OperationTypeMetrics \<Rightarrow> bool" where
  "type_metrics_ok x = (0 < otm_Count x \<and> otm_Count x = otm_SuccessCount x + otm_FailureCount x \<and>
     otm_AverageDuration x = otm_TotalDuration x div otm_Count x)"

definition metrics_ok :: "OperationMetrics \<Rightarrow> bool" where
  "metrics_ok m = (om_Total m = om_Successful m + om_Failed m \<and>
     (\<forall>k x. om_ByType m k = Some x \<longrightarrow> type_metrics_ok x))"

lemma record_type_ok: "x = zero_type_metrics \<or> type_metrics_ok x \<Longrightarrow> type_metrics_ok (record_type t dur err x)"
  by (cases err) (auto simp: record_type_def Let_def type_metrics_ok_def zero_type_metrics_def)

lemma RecordOperation_ok:
  assumes "metrics_ok m"
  shows "metrics_ok (RecordOperation t k dur err m)"
proof -
  have "type_metrics_ok (record_type t dur err (case om_ByType m k of None \<Rightarrow> zero_type_metrics | Some x \<Rightarrow> x))"
    using assms by (intro record_type_ok) (auto simp: metrics_ok_def split: option.splits)
  then show ?thesis using assms
    by (cases err) (auto simp: metrics_ok_def RecordOperation_def Let_def)
qed

fun record_operations :: "(int \<times> string \<times> int \<times> go_error option) list \<Rightarrow> OperationMetrics \<Rightarrow> OperationMetrics" where
  "record_operations [] m = m"
| "record_operations ((t, k, dur, err) # xs) m = record_operations xs (RecordOperation t k dur err m)"

lemma record_operations_ok: "metrics_ok m \<Longrightarrow> metrics_ok (record_operations xs m)"
  by (induction xs m rule: record_operations.induct) (auto intro: RecordOperation_ok)

fun record_connections ::
  "(int \<times> int \<times> go_error option) list \<Rightarrow> string \<Rightarrow> (string \<rightharpoonup> ConnectionHealthMetrics) \<Rightarrow> (string \<rightharpoonup> ConnectionHealthMetrics)" where
  "record_connections [] h cm = cm"
| "record_connections ((t, dur, err) # xs) h cm = record_connections xs h (RecordConnection t h dur err cm)"

text \<open>A host is marked unhealthy by the third failure in a row and healthy again by the first
  success.\<close>

theorem host_health_marks:
  assumes "cm h = None \<or> (\<exists>m. cm h = Some m \<and> chm_ConsecutiveFailures m = 0 \<and> chm_IsHealthy m)"
  shows "(\<forall>e1 e2. \<exists>m. record_connections [(t1, d1, Some e1), (t2, d2, Some e2)] h cm h = Some m \<and> chm_IsHealthy m) \<and>
    (\<forall>e1 e2 e3. \<exists>m. record_connections [(t1, d1, Some e1), (t2, d2, Some e2), (t3, d3, Some e3)] h cm h = Some m \<and>
        \<not> chm_IsHealthy m) \<and>
    (\<forall>cm'. \<exists>m. RecordConnection t4 h d4 None cm' h = Some m \<and> chm_IsHealthy m \<and> chm_ConsecutiveFailures m = 0)"
  using assms by (auto simp: RecordConnection_def Let_def split: option.splits)

theorem host_health_marks_witness:
  "\<exists>m. record_connections [(1, 5, Some (PlainError ''a'')), (2, 5, Some (PlainError ''b'')), (3, 5, Some (PlainError ''c''))]
      ''h'' Map.empty ''h'' = Some m \<and> \<not> chm_IsHealthy m"
  using host_health_marks [of Map.empty "''h''" 1 5 2 5 3 5] by blast

text \<open>After any sequence of recorded operations the totals, overall and for each type, are the
  successes plus the failures, and each average is the total duration over the count.\<close>

theorem metrics_balance:
  "metrics_ok (record_operations xs new_operation_metrics)"
  by (rule record_operations_ok) (simp add: metrics_ok_def new_operation_metrics_def)

section \<open>Configuration\<close>

abbreviation remote_config_error :: "string \<Rightarrow> go_error" where
  "remote_config_error msg \<equiv> NewInfrastructureError ErrCodeConfiguration msg False None"

fun validate_health_commands :: "nat \<Rightarrow> (string \<times> string \<times> int \<times> bool \<times> int) list \<Rightarrow> unit res" where
  "validate_health_commands i [] = Inr ()"
| "validate_health_commands i ((name, command, timeout, critical, expected) # cs) =
     (if name = [] then Inl (remote_config_error (''health_check_commands['' @ dec i @ ''].name cannot be empty''))
      else if command = [] then Inl (remote_config_error (''health_check_commands['' @ dec i @ ''].command cannot be empty''))
      else if timeout \<le> 0 then
        Inl (remote_config_error (''health_check_commands['' @ dec i @ ''].timeout must be greater than 0''))
      else validate_health_commands (Suc i) cs)"

definition ValidateInteractorConfig :: "InteractorConfig \<Rightarrow> unit res" where
  "ValidateInteractorConfig c =
     (if SSHTimeout c \<le> 0 then Inl (remote_config_error ''ssh_timeout must be greater than 0'')
      else if CommandTimeout c \<le> 0 then Inl (remote_config_error ''command_timeout must be greater than 0'')
      else if WireGuardInterface c = [] then Inl (remote_config_error ''wireguard_interface cannot be empty'')
      else if WireGuardConfigPath c = [] then Inl (remote_config_error ''wireguard_config_path cannot be empty'')
      else if RetryAttempts c < 1 then Inl (remote_config_error ''retry_attempts must be at least 1'')
      else if RetryBackoff c \<le> 0 then Inl (remote_config_error ''retry_backoff must be greater than 0'')
      else bindr (validate_health_commands 0 (HealthCommands c)) (\<lambda>_.
        if FailureThreshold (ic_CircuitBreaker c) < 1 then
          Inl (remote_config_error ''circuit_breaker.failure_threshold must be at least 1'')
        else if ResetTimeout (ic_CircuitBreaker c) \<le> 0 then
          Inl (remote_config_error ''circuit_breaker.reset_timeout must be greater than 0'')
        else if MaxAttempts (ic_CircuitBreaker c) < 1 then
          Inl (remote_config_error ''circuit_breaker.max_attempts must be at least 1'')
        else Inr ()))"

end
