(* ===== verification/WireGuardRemote.thy ===== *)
theory WireGuardRemote
  imports Remote NodeModel
begin

text \<open>
  WireGuard on a node: the commands, their parsers and the peer operations of
  \<open>infrastructure/remote/wireguard.go\<close>, the health check of \<open>health.go\<close>, and the adapter
  \<open>infrastructure/protocols/wireguard_manager.go\<close> to the protocol interface. The node itself is the
  command environment of \<open>Remote\<close>; the state of an operation is the circuit breakers and the node.
\<close>

section \<open>Data\<close>

record WireGuardStatus =
  wgs_InterfaceName :: string
  wgs_PublicKey :: string
  wgs_ListenPort :: int
  wgs_IsRunning :: bool
  wgs_PeerCount :: int

record WireGuardPeerStatus =
  wps_PublicKey :: string
  wps_Endpoint :: "string option"
  wps_AllowedIPs :: "string list"
  wps_LastHandshake :: "int option"
  wps_TransferRx :: int
  wps_TransferTx :: int
  wps_PersistentKeepalive :: int

record PeerWireGuardConfig =
  pwc_PublicKey :: string
  pwc_PresharedKey :: "string option"
  pwc_AllowedIPs :: "string list"
  pwc_Endpoint :: "string option"

section \<open>Parsers\<close>

definition nl :: char where "nl = CHR 0x0A"
definition tab :: char where "tab = CHR 0x09"

definition int_or :: "int \<Rightarrow> string \<Rightarrow> int" where
  "int_or x s = (case ParseInt64 s of Some v \<Rightarrow> v | None \<Rightarrow> x)"

text \<open>\<open>strings.SplitN(line, ":", 2)\<close> of a line that contains a colon.\<close>

definition parse_status_line :: "string \<Rightarrow> WireGuardStatus \<Rightarrow> WireGuardStatus" where
  "parse_status_line raw st =
     (let line = trim_space raw in
      if CHR '':'' \<in> set line then
        (let key = trim_space (takeWhile (\<lambda>c. c \<noteq> CHR '':'') line);
             val = trim_space (tl (dropWhile (\<lambda>c. c \<noteq> CHR '':'') line))
         in if key = ''public key'' then st\<lparr>wgs_PublicKey := val\<rparr>
            else if key = ''listening port'' then st\<lparr>wgs_ListenPort := int_or (wgs_ListenPort st) val\<rparr>
            else st)
      else st)"

definition parseWireGuardStatus :: "string \<Rightarrow> WireGuardStatus \<Rightarrow> WireGuardStatus" where
  "parseWireGuardStatus output st = fold parse_status_line (split_on nl output) st"

definition field :: "nat \<Rightarrow> string list \<Rightarrow> string option" where
  "field i ps = (if i < length ps then Some (ps ! i) else None)"

text \<open>One line of the dump, or nothing for a line of fewer than three fields.\<close>

definition parse_peer_line :: "string \<Rightarrow> WireGuardPeerStatus option" where
  "parse_peer_line raw =
     (let parts = Prelude.fields (trim_space raw);
          num = (\<lambda>i. case field i parts of Some v \<Rightarrow> int_or 0 v | None \<Rightarrow> 0)
      in if length parts < 3 then None
         else Some \<lparr>wps_PublicKey = parts ! 0,
           wps_Endpoint = (if parts ! 2 \<noteq> ''(none)'' then Some (parts ! 2) else None),
           wps_AllowedIPs = (case field 3 parts of Some v \<Rightarrow> split_on CHR '','' v | None \<Rightarrow> []),
           wps_LastHandshake = (case field 4 parts of Some v \<Rightarrow> if v \<noteq> ''0'' then ParseInt64 v else None | None \<Rightarrow> None),
           wps_TransferRx = num 5, wps_TransferTx = num 6, wps_PersistentKeepalive = num 7\<rparr>)"

definition parseWireGuardPeers :: "string \<Rightarrow> WireGuardPeerStatus list" where
  "parseWireGuardPeers output = List.map_filter parse_peer_line (split_on nl output)"

section \<open>Commands\<close>

type_synonym 's wg_state = "breakers \<times> 's"

definition run_once :: "'s command_env \<Rightarrow> string \<Rightarrow> string \<Rightarrow> 's wg_state \<Rightarrow> CommandResult res \<times> 's wg_state" where
  "run_once env host command bs = (case executeCommandOnce env host command (snd bs) of (r, s') \<Rightarrow> (r, (fst bs, s')))"

definition show_cmd :: "InteractorConfig \<Rightarrow> string" where
  "show_cmd cfg = ''wg show '' @ WireGuardInterface cfg"

definition dump_cmd :: "InteractorConfig \<Rightarrow> string" where
  "dump_cmd cfg = ''wg show '' @ WireGuardInterface cfg @ '' dump''"

definition remove_cmd :: "InteractorConfig \<Rightarrow> string \<Rightarrow> string" where
  "remove_cmd cfg key = ''wg set '' @ WireGuardInterface cfg @ '' peer '' @ key @ '' remove''"

definition buildAddPeerCommand :: "InteractorConfig \<Rightarrow> PeerWireGuardConfig \<Rightarrow> string" where
  "buildAddPeerCommand cfg c =
     (let set_peer = ''wg set '' @ WireGuardInterface cfg @ '' peer '' @ pwc_PublicKey c @ '' allowed-ips ''
              @ str_join '','' (pwc_AllowedIPs c);
          cmd = (case pwc_PresharedKey c of
              Some k \<Rightarrow> (if k \<noteq> [] then ''echo '' @ [CHR 0x27] @ k @ [CHR 0x27] @ '' | '' @ set_peer
                  @ '' preshared-key /dev/stdin'' else set_peer)
            | None \<Rightarrow> set_peer)
      in case pwc_Endpoint c of
           Some ep \<Rightarrow> (if ep \<noteq> [] then cmd @ '' endpoint '' @ ep else cmd)
         | None \<Rightarrow> cmd)"

definition validatePeerConfig :: "PeerWireGuardConfig \<Rightarrow> unit res" where
  "validatePeerConfig c =
     (let invalid = (\<lambda>m. Inl (NewPeerError ErrCodePeerValidation m False None)) in
      if \<not> IsValidWireGuardKey (pwc_PublicKey c) then invalid ''invalid WireGuard public key format''
      else if pwc_AllowedIPs c = [] then invalid ''allowed IPs cannot be empty''
      else if [] \<in> set (pwc_AllowedIPs c) then invalid ''allowed IP cannot be empty''
      else case pwc_PresharedKey c of
          Some k \<Rightarrow> (if k \<noteq> [] \<and> \<not> IsValidWireGuardKey k then invalid ''invalid WireGuard preshared key format'' else Inr ())
        | None \<Rightarrow> Inr ())"

section \<open>Operations\<close>

definition GetWireGuardStatus ::
  "'s command_env \<Rightarrow> InteractorConfig \<Rightarrow> string \<Rightarrow> 's wg_state \<Rightarrow> WireGuardStatus res \<times> 's wg_state" where
  "GetWireGuardStatus env cfg host = bindS
     (map_errS (\<lambda>e. WrapWithDomain e DomainInfrastructure ErrCodeSSHCommand ''failed to get WireGuard status'' True)
        (run_once env host (show_cmd cfg)))
     (\<lambda>result. returnS
        ((parseWireGuardStatus (Stdout result) \<lparr>wgs_InterfaceName = WireGuardInterface cfg, wgs_PublicKey = [],
             wgs_ListenPort = 0, wgs_IsRunning = True, wgs_PeerCount = 0\<rparr>)
          \<lparr>wgs_PeerCount := int (length (parseWireGuardPeers (Stdout result)))\<rparr>))"

definition ListPeers ::
  "'s command_env \<Rightarrow> InteractorConfig \<Rightarrow> string \<Rightarrow> 's wg_state \<Rightarrow> WireGuardPeerStatus list res \<times> 's wg_state" where
  "ListPeers env cfg host = bindS
     (map_errS (\<lambda>e. WrapWithDomain e DomainInfrastructure ErrCodeSSHCommand ''failed to list peers'' True)
        (run_once env host (dump_cmd cfg)))
     (\<lambda>result. returnS (parseWireGuardPeers (Stdout result)))"

text \<open>Saving the configuration: \<open>wg-quick save\<close>, else \<open>wg showconf\<close> written to the file.\<close>

definition saveWireGuardConfigAlternative ::
  "'s command_env \<Rightarrow> InteractorConfig \<Rightarrow> string \<Rightarrow> 's wg_state \<Rightarrow> unit res \<times> 's wg_state" where
  "saveWireGuardConfigAlternative env cfg host =
     bindS (map_errS (\<lambda>e. WrapWithDomain e DomainInfrastructure ErrCodeWireGuardError
              ''failed to get WireGuard config for saving'' True)
        (run_once env host (''wg showconf '' @ WireGuardInterface cfg))) (\<lambda>result.
     if ExitCode result \<noteq> 0 then failS (NewInfrastructureError ErrCodeWireGuardError ''showconf command failed'' True None)
     else
     bindS (map_errS (\<lambda>e. WrapWithDomain e DomainInfrastructure ErrCodeFileOperation
              ''failed to write WireGuard config'' True)
        (run_once env host (''echo '' @ [CHR 0x27] @ Stdout result @ [CHR 0x27] @ '' > '' @ WireGuardConfigPath cfg)))
     (\<lambda>w. if ExitCode w \<noteq> 0 then failS (NewInfrastructureError ErrCodeSSHCommand ''write config command failed'' True None)
          else returnS ()))"

definition SaveWireGuardConfig ::
  "'s command_env \<Rightarrow> InteractorConfig \<Rightarrow> string \<Rightarrow> 's wg_state \<Rightarrow> unit res \<times> 's wg_state" where
  "SaveWireGuardConfig env cfg host =
     bindS (tryS (run_once env host (''wg-quick save '' @ WireGuardInterface cfg))) (\<lambda>r.
       case r of
         Inr result \<Rightarrow> (if ExitCode result \<noteq> 0 then saveWireGuardConfigAlternative env cfg host else returnS ())
       | Inl _ \<Rightarrow> saveWireGuardConfigAlternative env cfg host)"

definition validatePeerAddition ::
  "'s command_env \<Rightarrow> InteractorConfig \<Rightarrow> string \<Rightarrow> string \<Rightarrow> 's wg_state \<Rightarrow> unit res \<times> 's wg_state" where
  "validatePeerAddition env cfg host key =
     bindS (map_errS (\<lambda>e. WrapError ''failed to list peers for validation'' e) (ListPeers env cfg host)) (\<lambda>ps.
       if key \<in> wps_PublicKey ` set ps then returnS ()
       else failS (WithMetadata (WithMetadata
              (NewPeerError ErrCodePeerNotFound ''peer not found after addition'' False None)
              ''host'' (MString host)) ''public_key'' (MString key)))"

definition validatePeerRemoval ::
  "'s command_env \<Rightarrow> InteractorConfig \<Rightarrow> string \<Rightarrow> string \<Rightarrow> 's wg_state \<Rightarrow> unit res \<times> 's wg_state" where
  "validatePeerRemoval env cfg host key =
     bindS (map_errS (\<lambda>e. WrapError ''failed to list peers for validation'' e) (ListPeers env cfg host)) (\<lambda>ps.
       if key \<in> wps_PublicKey ` set ps then failS (PlainError (''peer '' @ take 8 key @ ''... still found after removal''))
       else returnS ())"

text \<open>\<open>publicKey[:8]\<close> in the log line panics on a shorter key.\<close>

definition short_key_panic :: go_error where
  "short_key_panic = GoPanic ''slice bounds out of range''"

definition RemovePeer ::
  "'s command_env \<Rightarrow> InteractorConfig \<Rightarrow> string \<Rightarrow> string \<Rightarrow> 's wg_state \<Rightarrow> unit res \<times> 's wg_state" where
  "RemovePeer env cfg host key =
     (if length key < 8 then failS short_key_panic
      else if \<not> IsValidWireGuardKey key then
        failS (NewPeerError ErrCodePeerValidation ''invalid WireGuard public key format'' False None)
      else bindS (tryS (ListPeers env cfg host)) (\<lambda>existing.
        if (case existing of Inr ps \<Rightarrow> key \<notin> wps_PublicKey ` set ps | Inl _ \<Rightarrow> False) then returnS ()
        else
        bindS (map_errS (\<lambda>e. WrapWithDomain e DomainInfrastructure ErrCodeWireGuardError ''failed to remove peer'' True)
                 (executeWithRetry env cfg host (remove_cmd cfg key))) (\<lambda>result.
        if ExitCode result \<noteq> 0 then
          failS (NewInfrastructureError ErrCodeWireGuardError ''remove peer command failed with non-zero exit code'' True None)
        else
        bindS (tryS (validatePeerRemoval env cfg host key)) (\<lambda>_.
        bindS (tryS (SaveWireGuardConfig env cfg host)) (\<lambda>_. returnS ())))))"

text \<open>The uniqueness check of \<open>AddPeer\<close> goes through the peers in the order of the dump.\<close>

fun addition_conflict :: "PeerWireGuardConfig \<Rightarrow> WireGuardPeerStatus list \<Rightarrow> go_error option" where
  "addition_conflict c [] = None"
| "addition_conflict c (p # ps) =
     (if wps_PublicKey p = pwc_PublicKey c then Some (NewPeerError ErrCodePeerKeyConflict ''peer already exists'' False None)
      else if set (pwc_AllowedIPs c) \<inter> set (wps_AllowedIPs p) \<noteq> {} then
        Some (NewPeerError ErrCodePeerIPConflict ''IP address conflict'' False None)
      else addition_conflict c ps)"

definition AddPeer ::
  "'s command_env \<Rightarrow> InteractorConfig \<Rightarrow> string \<Rightarrow> PeerWireGuardConfig \<Rightarrow> 's wg_state \<Rightarrow> unit res \<times> 's wg_state" where
  "AddPeer env cfg host c =
     (if length (pwc_PublicKey c) < 8 then failS short_key_panic
      else
      bindS (liftS (validatePeerConfig c)) (\<lambda>_.
      bindS (tryS (ListPeers env cfg host)) (\<lambda>existing.
      case (case existing of Inr ps \<Rightarrow> addition_conflict c ps | Inl _ \<Rightarrow> None) of
        Some e \<Rightarrow> failS e
      | None \<Rightarrow>
      bindS (map_errS (\<lambda>e. WrapWithDomain e DomainInfrastructure ErrCodeWireGuardError ''failed to add peer'' True)
               (executeWithRetry env cfg host (buildAddPeerCommand cfg c))) (\<lambda>result.
      if ExitCode result \<noteq> 0 then
        failS (NewInfrastructureError ErrCodeWireGuardError ''add peer command failed with non-zero exit code'' True None)
      else
      bindS (tryS (validatePeerAddition env cfg host (pwc_PublicKey c))) (\<lambda>checked.
      case checked of
        Inl e \<Rightarrow> bindS (tryS (RemovePeer env cfg host (pwc_PublicKey c))) (\<lambda>_. failS e)
      | Inr _ \<Rightarrow> bindS (tryS (SaveWireGuardConfig env cfg host)) (\<lambda>_. returnS ()))))))"

definition UpdatePeer ::
  "'s command_env \<Rightarrow> InteractorConfig \<Rightarrow> string \<Rightarrow> PeerWireGuardConfig \<Rightarrow> 's wg_state \<Rightarrow> unit res \<times> 's wg_state" where
  "UpdatePeer env cfg host c =
     (if length (pwc_PublicKey c) < 8 then failS short_key_panic
      else
      bindS (liftS (validatePeerConfig c)) (\<lambda>_.
      bindS (tryS (RemovePeer env cfg host (pwc_PublicKey c))) (\<lambda>_.
      AddPeer env cfg host c)))"

definition peerNeedsUpdate :: "WireGuardPeerStatus \<Rightarrow> PeerWireGuardConfig \<Rightarrow> bool" where
  "peerNeedsUpdate current desired =
     (if length (wps_AllowedIPs current) \<noteq> length (pwc_AllowedIPs desired) then True
      else if \<exists>ip\<in>set (pwc_AllowedIPs desired). ip \<notin> set (wps_AllowedIPs current) then True
      else (case pwc_Endpoint desired of
          Some ep \<Rightarrow> wps_Endpoint current \<noteq> Some ep
        | None \<Rightarrow> wps_Endpoint current \<noteq> None))"

text \<open>\<open>SyncPeers\<close>: the removals go through the current keys in the iteration order \<open>order\<close> of the map;
  errors of single peers are logged and dropped, a panic ends the call.\<close>

fun sync_removals ::
  "'s command_env \<Rightarrow> InteractorConfig \<Rightarrow> string \<Rightarrow> string list \<Rightarrow> 's wg_state \<Rightarrow> unit res \<times> 's wg_state" where
  "sync_removals env cfg host [] = returnS ()"
| "sync_removals env cfg host (key # keys) =
     (if length key < 8 then failS short_key_panic
      else bindS (tryS (RemovePeer env cfg host key)) (\<lambda>_. sync_removals env cfg host keys))"

fun sync_updates ::
  "'s command_env \<Rightarrow> InteractorConfig \<Rightarrow> string \<Rightarrow> (string \<rightharpoonup> WireGuardPeerStatus) \<Rightarrow> PeerWireGuardConfig list
     \<Rightarrow> 's wg_state \<Rightarrow> unit res \<times> 's wg_state" where
  "sync_updates env cfg host current [] = returnS ()"
| "sync_updates env cfg host current (c # cs) =
     (case current (pwc_PublicKey c) of
        Some p \<Rightarrow>
          (if peerNeedsUpdate p c then
             (if length (pwc_PublicKey c) < 8 then failS short_key_panic
              else bindS (tryS (UpdatePeer env cfg host c)) (\<lambda>_. sync_updates env cfg host current cs))
           else sync_updates env cfg host current cs)
      | None \<Rightarrow>
          (if length (pwc_PublicKey c) < 8 then failS short_key_panic
           else bindS (tryS (AddPeer env cfg host c)) (\<lambda>_. sync_updates env cfg host current cs)))"

definition SyncPeers ::
  "'s command_env \<Rightarrow> InteractorConfig \<Rightarrow> (string list \<Rightarrow> string list) \<Rightarrow> string \<Rightarrow> PeerWireGuardConfig list
     \<Rightarrow> 's wg_state \<Rightarrow> unit res \<times> 's wg_state" where
  "SyncPeers env cfg order host configs =
     bindS (map_errS (\<lambda>e. WrapWithDomain e DomainInfrastructure ErrCodeWireGuardError
              ''failed to list current peers during sync'' True) (ListPeers env cfg host)) (\<lambda>ps.
     let current = map_of (rev (map (\<lambda>p. (wps_PublicKey p, p)) ps));
         unwanted = filter (\<lambda>k. k \<notin> pwc_PublicKey ` set configs) (order (remdups (map wps_PublicKey ps)))
     in bindS (sync_removals env cfg host unwanted) (\<lambda>_. sync_updates env cfg host current configs))"

definition RestartWireGuard ::
  "'s command_env \<Rightarrow> InteractorConfig \<Rightarrow> string \<Rightarrow> 's wg_state \<Rightarrow> unit res \<times> 's wg_state" where
  "RestartWireGuard env cfg host =
     bindS (tryS (executeWithRetry env cfg host
        (''wg-quick down '' @ WireGuardInterface cfg @ '' && wg-quick up '' @ WireGuardInterface cfg))) (\<lambda>r.
     bindS (case r of
         Inr result \<Rightarrow> returnS result
       | Inl _ \<Rightarrow> map_errS (\<lambda>e. WrapWithDomain e DomainInfrastructure ErrCodeWireGuardError ''failed to restart WireGuard'' True)
           (executeWithRetry env cfg host (''systemctl restart wg-quick@'' @ WireGuardInterface cfg))) (\<lambda>result.
     if ExitCode result \<noteq> 0 then
       failS (NewInfrastructureError ErrCodeWireGuardError ''restart command failed with non-zero exit code'' True None)
     else
     bindS (map_errS (\<lambda>e. WrapWithDomain e DomainInfrastructure ErrCodeWireGuardError
              ''failed to validate WireGuard status after restart'' False) (GetWireGuardStatus env cfg host)) (\<lambda>_.
     returnS ())))"

section \<open>Protocol adapter\<close>

text \<open>The configuration of the protocol interface; only a string under \<open>preshared_key\<close> is read.\<close>

record ProtocolPeerConfig =
  ppc_Protocol :: string
  ppc_Identifier :: string
  ppc_AllowedIPs :: "string list"
  ppc_PresharedKey :: "string option"

definition to_wireguard_config :: "ProtocolPeerConfig \<Rightarrow> PeerWireGuardConfig" where
  "to_wireguard_config p =
     \<lparr>pwc_PublicKey = ppc_Identifier p,
      pwc_PresharedKey = (case ppc_PresharedKey p of Some k \<Rightarrow> if k \<noteq> [] then Some k else None | None \<Rightarrow> None),
      pwc_AllowedIPs = ppc_AllowedIPs p, pwc_Endpoint = None\<rparr>"

definition protocol_AddPeer ::
  "'s command_env \<Rightarrow> InteractorConfig \<Rightarrow> string \<Rightarrow> ProtocolPeerConfig \<Rightarrow> 's wg_state \<Rightarrow> unit res \<times> 's wg_state" where
  "protocol_AddPeer env cfg host p = AddPeer env cfg host (to_wireguard_config p)"

definition protocol_RemovePeer ::
  "'s command_env \<Rightarrow> InteractorConfig \<Rightarrow> string \<Rightarrow> string \<Rightarrow> 's wg_state \<Rightarrow> unit res \<times> 's wg_state" where
  "protocol_RemovePeer env cfg host identifier = RemovePeer env cfg host identifier"

definition protocol_SyncPeers ::
  "'s command_env \<Rightarrow> InteractorConfig \<Rightarrow> (string list \<Rightarrow> string list) \<Rightarrow> string \<Rightarrow> ProtocolPeerConfig list
     \<Rightarrow> 's wg_state \<Rightarrow> unit res \<times> 's wg_state" where
  "protocol_SyncPeers env cfg order host ps = SyncPeers env cfg order host (map to_wireguard_config ps)"

section \<open>Health\<close>

definition has_line_prefix :: "string \<Rightarrow> string \<Rightarrow> bool" where
  "has_line_prefix p line = has_prefix line p"

text \<open>The second field of a \<open>/proc/meminfo\<close> line.\<close>

definition meminfo_value :: "int \<Rightarrow> string \<Rightarrow> int" where
  "meminfo_value old line = (case field 1 (Prelude.fields line) of Some v \<Rightarrow> int_or old v | None \<Rightarrow> old)"

fun meminfo_scan :: "string list \<Rightarrow> int \<times> int \<Rightarrow> int \<times> int" where
  "meminfo_scan [] m = m"
| "meminfo_scan (l # ls) (tot, avail) = meminfo_scan ls
     (if has_line_prefix ''MemTotal:'' l then (meminfo_value tot l, avail)
      else if has_line_prefix ''MemAvailable:'' l then (tot, meminfo_value avail l)
      else (tot, avail))"

text \<open>The memory in use in percent; \<open>None\<close> leaves the status as it is.\<close>

definition memory_usage :: "string \<Rightarrow> rat option" where
  "memory_usage out =
     (case meminfo_scan (split_on nl out) (0, 0) of (tot, avail) \<Rightarrow>
        if tot > 0 then Some (of_int (tot - avail) / of_int tot * 100) else None)"

definition trim_suffix_percent :: "string \<Rightarrow> string" where
  "trim_suffix_percent s = (if s \<noteq> [] \<and> last s = CHR ''%'' then butlast s else s)"

fun disk_scan :: "string list \<Rightarrow> rat option" where
  "disk_scan [] = None"
| "disk_scan (l # ls) =
     (if has_line_prefix ''/'' l then
        (case field 4 (Prelude.fields l) of
           Some v \<Rightarrow> (case ParseFloat (trim_suffix_percent v) of Some u \<Rightarrow> Some u | None \<Rightarrow> disk_scan ls)
         | None \<Rightarrow> disk_scan ls)
      else disk_scan ls)"

definition disk_usage :: "string \<Rightarrow> rat option" where
  "disk_usage out = disk_scan (split_on nl out)"

definition system_load :: "string \<Rightarrow> rat option" where
  "system_load out = (case field 0 (Prelude.fields out) of Some v \<Rightarrow> ParseFloat v | None \<Rightarrow> None)"

text \<open>A health command: name, command, timeout, whether critical, expected exit code. A failure closes
  the pooled connection, \<open>close\<close>.\<close>

definition executeHealthCheck ::
  "'s command_env \<Rightarrow> (string \<Rightarrow> 's \<Rightarrow> 's) \<Rightarrow> string \<Rightarrow> string \<times> string \<times> int \<times> bool \<times> int
     \<Rightarrow> 's wg_state \<Rightarrow> unit res \<times> 's wg_state" where
  "executeHealthCheck env close host hc bs = (case hc of (name, command, timeout, critical, expected) \<Rightarrow>
     (let meta = (\<lambda>e. WithMetadata (WithMetadata (WithMetadata e ''check_name'' (MString name))
              ''command'' (MString command)) ''critical'' (MBool critical))
      in case run_once env host command bs of
           (Inl e, (cbs, s)) \<Rightarrow>
             (Inl (meta (WrapWithDomain e DomainInfrastructure ErrCodeHealthCheckFailed ''health check command failed'' True)),
              (cbs, close host s))
         | (Inr result, (cbs, s)) \<Rightarrow>
             (if ExitCode result \<noteq> expected then
                (Inl (WithMetadata (WithMetadata (meta (NewInfrastructureError ErrCodeHealthCheckFailed
                   ''unexpected exit code'' True None)) ''exit_code'' (MInt (ExitCode result)))
                   ''expected_exit_code'' (MInt expected)), (cbs, close host s))
              else (Inr (), (cbs, s)))))"

fun run_health_checks ::
  "'s command_env \<Rightarrow> (string \<Rightarrow> 's \<Rightarrow> 's) \<Rightarrow> string \<Rightarrow> (string \<times> string \<times> int \<times> bool \<times> int) list
     \<Rightarrow> NodeHealthStatus \<Rightarrow> 's wg_state \<Rightarrow> NodeHealthStatus \<times> 's wg_state" where
  "run_health_checks env close host [] st bs = (st, bs)"
| "run_health_checks env close host (hc # hcs) st bs =
     (case executeHealthCheck env close host hc bs of
        (Inr _, bs') \<Rightarrow> run_health_checks env close host hcs st bs'
      | (Inl e, bs') \<Rightarrow> run_health_checks env close host hcs
          (st\<lparr>nh_IsHealthy := (if fst (snd (snd (snd hc))) then False else nh_IsHealthy st),
             nh_Errors := nh_Errors st @ [fst hc @ '': '' @ error_text e]\<rparr>) bs')"

text \<open>One metric: the command's output replaces the old value when it can be read.\<close>

definition collect ::
  "'s command_env \<Rightarrow> string \<Rightarrow> string \<Rightarrow> (string \<Rightarrow> rat option) \<Rightarrow> rat \<Rightarrow> 's wg_state \<Rightarrow> rat \<times> 's wg_state" where
  "collect env host command read old bs =
     (case run_once env host command bs of
        (Inl _, bs') \<Rightarrow> (old, bs')
      | (Inr result, bs') \<Rightarrow> ((case read (Stdout result) of Some v \<Rightarrow> v | None \<Rightarrow> old), bs'))"

record SystemMetricsPaths =
  smp_LoadAvg :: string
  smp_MemInfo :: string
  smp_DiskUsage :: string

definition collectSystemMetrics ::
  "'s command_env \<Rightarrow> SystemMetricsPaths \<Rightarrow> string \<Rightarrow> NodeHealthStatus \<Rightarrow> 's wg_state \<Rightarrow> NodeHealthStatus \<times> 's wg_state" where
  "collectSystemMetrics env paths host st bs =
     (case collect env host (''cat '' @ smp_LoadAvg paths) system_load (nh_SystemLoad st) bs of (load, bs1) \<Rightarrow>
      case collect env host (''cat '' @ smp_MemInfo paths) memory_usage (nh_MemoryUsage st) bs1 of (mem, bs2) \<Rightarrow>
      case collect env host (smp_DiskUsage paths) disk_usage (nh_DiskUsage st) bs2 of (disk, bs3) \<Rightarrow>
        (st\<lparr>nh_SystemLoad := load, nh_MemoryUsage := mem, nh_DiskUsage := disk\<rparr>, bs3))"

definition CheckNodeHealth ::
  "'s command_env \<Rightarrow> (string \<Rightarrow> 's \<Rightarrow> 's) \<Rightarrow> InteractorConfig \<Rightarrow> SystemMetricsPaths \<Rightarrow> string \<Rightarrow> 's wg_state
     \<Rightarrow> NodeHealthStatus res \<times> 's wg_state" where
  "CheckNodeHealth env close cfg paths host bs =
     (let start = env_now env (snd bs);
          st0 = \<lparr>nh_IsHealthy = True, nh_ResponseTime = 0, nh_SystemLoad = 0, nh_MemoryUsage = 0, nh_DiskUsage = 0,
             nh_WireGuardStatus = [], nh_ConnectedPeers = 0, nh_LastChecked = start, nh_Errors = []\<rparr>
      in case run_health_checks env close host (HealthCommands cfg) st0 bs of (st1, bs1) \<Rightarrow>
         case collectSystemMetrics env paths host st1 bs1 of (st2, bs2) \<Rightarrow>
         case GetWireGuardStatus env cfg host bs2 of (r, bs3) \<Rightarrow>
           (let st3 = (case r of
                  Inl e \<Rightarrow> st2\<lparr>nh_IsHealthy := False, nh_Errors := nh_Errors st2 @ [''wireguard: '' @ error_text e]\<rparr>
                | Inr wg \<Rightarrow> (if wgs_IsRunning wg then st2
                    else st2\<lparr>nh_IsHealthy := False, nh_Errors := nh_Errors st2 @ [''wireguard: not running'']\<rparr>))
            in (Inr (st3\<lparr>nh_ResponseTime := env_now env (snd bs3) - start\<rparr>), bs3)))"

section \<open>The dump of a node\<close>

text \<open>The text \<open>wg show <interface> dump\<close> prints: one line of tab-separated fields for the interface,
  then one for each peer.\<close>

definition dump_line :: "string list \<Rightarrow> string" where
  "dump_line fs = str_join [tab] fs"

definition dump_text :: "string list list \<Rightarrow> string" where
  "dump_text rows = concat (map (\<lambda>r. dump_line r @ [nl]) rows)"

definition dump_peer :: "string \<Rightarrow> WireGuardPeerStatus \<Rightarrow> string list" where
  "dump_peer psk p = [wps_PublicKey p, psk, (case wps_Endpoint p of None \<Rightarrow> ''(none)'' | Some e \<Rightarrow> e),
     str_join '','' (wps_AllowedIPs p), (case wps_LastHandshake p of None \<Rightarrow> ''0'' | Some t \<Rightarrow> dec (nat t)),
     dec (nat (wps_TransferRx p)), dec (nat (wps_TransferTx p)),
     (if wps_PersistentKeepalive p = 0 then ''off'' else dec (nat (wps_PersistentKeepalive p)))]"

text \<open>Peers as the kernel reports them.\<close>

definition peer_status_ok :: "WireGuardPeerStatus \<Rightarrow> bool" where
  "peer_status_ok p = (token (wps_PublicKey p) \<and>
     (\<forall>e. wps_Endpoint p = Some e \<longrightarrow> token e \<and> e \<noteq> ''(none)'') \<and>
     wps_AllowedIPs p \<noteq> [] \<and> (\<forall>ip\<in>set (wps_AllowedIPs p). token ip \<and> CHR '','' \<notin> set ip) \<and>
     (\<forall>t. wps_LastHandshake p = Some t \<longrightarrow> 0 < t \<and> t < 2 ^ 63) \<and>
     wps_TransferRx p \<in> {0..<2 ^ 63} \<and> wps_TransferTx p \<in> {0..<2 ^ 63} \<and> wps_PersistentKeepalive p \<in> {0..<2 ^ 63})"

lemma is_digit_not_space: "is_digit c \<Longrightarrow> \<not> is_space c \<and> c \<noteq> CHR ''-'' \<and> c \<noteq> CHR ''+''"
  by (auto simp: is_digit_def is_space_def)

lemma token_dec: "token (dec n)"
  using dec_digits [of n] is_digit_not_space by (auto simp: token_def list_all_iff)

lemma ParseInt64_dec:
  assumes "0 \<le> v" "v < 2 ^ 63"
  shows "ParseInt64 (dec (nat v)) = Some v"
proof (cases "dec (nat v)")
  case (Cons c cs)
  have d: "list_all is_digit (c # cs)" using dec_digits [of "nat v"] Cons by simp
  then have c: "c \<noteq> CHR ''-''" "c \<noteq> CHR ''+''" using is_digit_not_space by auto
  have "undec (c # cs) = nat v" using undec_dec [of "nat v"] Cons by simp
  then show ?thesis using assms d c unfolding Cons ParseInt64_def by simp
qed simp

lemma token_join:
  assumes "ips \<noteq> []" "\<forall>ip\<in>set ips. token ip"
  shows "token (str_join '','' ips)"
  using assms
proof (induction "'',''" ips rule: str_join.induct)
  case (3 s t ts)
  then show ?case by (simp add: token_def is_space_def)
qed (simp_all add: token_def)

lemma split_join_comma:
  assumes "ips \<noteq> []" "\<forall>ip\<in>set ips. CHR '','' \<notin> set ip"
  shows "split_on CHR '','' (str_join '','' ips) = ips"
  using assms
proof (induction "'',''" ips rule: str_join.induct)
  case (2 s)
  then have "list_all (\<lambda>c. c \<noteq> CHR '','') s" by (auto simp: list_all_iff)
  then show ?case by (simp add: split_on_no_sep)
next
  case (3 s t ts)
  have "list_all (\<lambda>c. c \<noteq> CHR '','') s" using 3(3) by (auto simp: list_all_iff)
  then show ?case using 3 by (simp add: split_on_append_sep)
qed simp

lemma dump_peer_tokens:
  assumes "peer_status_ok p" "token psk"
  shows "list_all token (dump_peer psk p)"
  using assms token_dec token_join [of "wps_AllowedIPs p"]
  by (auto simp: dump_peer_def peer_status_ok_def token_def [of "''(none)''"] token_def [of "''0''"] token_def [of "''off''"] is_space_def
      split: option.splits)

lemma parse_peer_line_row:
  assumes "list_all token row" "row \<noteq> []"
  shows "Prelude.fields (trim_space (dump_line row)) = row"
proof -
  have "is_space tab" by (simp add: is_space_def tab_def)
  then show ?thesis
    using trim_join [OF assms, of "[tab]"] fields_join [of tab row] assms(1) by (simp add: dump_line_def)
qed

lemma parse_peer_line_dump:
  assumes "peer_status_ok p" "token psk"
  shows "parse_peer_line (dump_line (dump_peer psk p)) = Some p"
proof -
  have f: "Prelude.fields (trim_space (dump_line (dump_peer psk p))) = dump_peer psk p"
    using dump_peer_tokens [OF assms] by (rule parse_peer_line_row) (simp add: dump_peer_def)
  have ip: "split_on CHR '','' (str_join '','' (wps_AllowedIPs p)) = wps_AllowedIPs p"
    using assms(1) by (intro split_join_comma) (auto simp: peer_status_ok_def)
  have hs: "(case wps_LastHandshake p of None \<Rightarrow> None | Some t \<Rightarrow> if dec (nat t) \<noteq> ''0'' then ParseInt64 (dec (nat t)) else None)
      = wps_LastHandshake p"
  proof (cases "wps_LastHandshake p")
    case (Some t)
    then have t: "0 < t" "t < 2 ^ 63" using assms(1) by (auto simp: peer_status_ok_def)
    have "dec (nat t) \<noteq> ''0''"
    proof
      assume "dec (nat t) = ''0''"
      then have "undec (dec (nat t)) = 0" by (simp add: undec_def digit_val_def)
      then show False using t(1) by (simp add: undec_dec)
    qed
    then show ?thesis using ParseInt64_dec [of t] t Some by simp
  qed simp
  have off: "ParseInt64 ''off'' = None" by (simp add: ParseInt64_def is_digit_def)
  show ?thesis
    using assms(1) hs ip off ParseInt64_dec unfolding parse_peer_line_def f Let_def
    by (cases p) (auto simp: dump_peer_def field_def int_or_def peer_status_ok_def split: option.splits)
qed

lemma map_filter_append: "List.map_filter f (xs @ ys) = List.map_filter f xs @ List.map_filter f ys"
  by (simp add: List.map_filter_def)

lemma dump_lines:
  assumes "\<forall>r\<in>set rows. list_all token r \<and> r \<noteq> []"
  shows "parseWireGuardPeers (dump_text rows) = List.map_filter (parse_peer_line \<circ> dump_line) rows"
proof -
  have "list_all (\<lambda>c. c \<noteq> nl) (dump_line r)" if "r \<in> set rows" for r
  proof -
    have tn: "tab \<noteq> nl" and "list_all token r" using assms that by (auto simp: tab_def nl_def)
    moreover have "is_space nl" by (simp add: is_space_def nl_def)
    ultimately have "\<forall>t\<in>set r. nl \<notin> set t" by (auto simp: list_all_iff token_def)
    then show ?thesis unfolding dump_line_def using tn
      by (induction "[tab]" r rule: str_join.induct) (auto simp: list_all_iff)
  qed
  then have "split_on nl (dump_text rows) = map dump_line rows @ [[]]"
    unfolding dump_text_def using split_on_lines [of "map dump_line rows" nl] by (simp add: comp_def)
  then show ?thesis
    by (simp add: parseWireGuardPeers_def map_filter_append)
      (simp add: List.map_filter_def parse_peer_line_def trim_space_def Prelude.fields_def filter_map comp_def)
qed

text \<open>The entry the parser makes of the interface line: the private key as a peer whose endpoint is the
  port and whose addresses are the firewall mark.\<close>

definition interface_entry :: "string \<Rightarrow> string \<Rightarrow> string \<Rightarrow> WireGuardPeerStatus" where
  "interface_entry priv port mark =
     \<lparr>wps_PublicKey = priv, wps_Endpoint = (if port \<noteq> ''(none)'' then Some port else None),
      wps_AllowedIPs = split_on CHR '','' mark, wps_LastHandshake = None, wps_TransferRx = 0,
      wps_TransferTx = 0, wps_PersistentKeepalive = 0\<rparr>"

definition node_dump :: "string \<Rightarrow> string \<Rightarrow> string \<Rightarrow> string \<Rightarrow> (string \<times> WireGuardPeerStatus) list \<Rightarrow> string" where
  "node_dump priv pub port mark ps =
     dump_text ([priv, pub, port, mark] # map (\<lambda>(psk, p). dump_peer psk p) ps)"

definition dump_ok :: "(string \<times> WireGuardPeerStatus) list \<Rightarrow> bool" where
  "dump_ok ps = (\<forall>(psk, p)\<in>set ps. token psk \<and> peer_status_ok p)"

lemma parse_node_dump:
  assumes "list_all token [priv, pub, port, mark]" "dump_ok ps"
  shows "parseWireGuardPeers (node_dump priv pub port mark ps) = interface_entry priv port mark # map snd ps"
proof -
  have "parse_peer_line (dump_line [priv, pub, port, mark]) = Some (interface_entry priv port mark)"
    unfolding parse_peer_line_def parse_peer_line_row [OF assms(1), simplified]
    by (simp add: field_def interface_entry_def Let_def)
  moreover have "List.map_filter (parse_peer_line \<circ> dump_line) (map (\<lambda>(psk, p). dump_peer psk p) ps) = map snd ps"
    using assms(2)
    by (induction ps) (auto simp: List.map_filter_def dump_ok_def parse_peer_line_dump)
  moreover have "\<forall>r\<in>set ([priv, pub, port, mark] # map (\<lambda>(psk, p). dump_peer psk p) ps). list_all token r \<and> r \<noteq> []"
    using assms dump_peer_tokens by (auto simp: dump_ok_def) (simp add: dump_peer_def)
  ultimately show ?thesis
    unfolding node_dump_def by (simp add: dump_lines List.map_filter_simps)
qed

text \<open>C39: parsing the dump of a node gives back every peer with all its fields, preceded by one entry
  that is no peer: the line of the interface, with its private key as the public key.\<close>

theorem dump_roundtrip:
  assumes "list_all token [priv, pub, port, mark]" "dump_ok ps"
  shows "parseWireGuardPeers (node_dump priv pub port mark ps) = interface_entry priv port mark # map snd ps"
  using assms by (rule parse_node_dump)

definition example_peer :: WireGuardPeerStatus where
  "example_peer = \<lparr>wps_PublicKey = ''peerkey'', wps_Endpoint = None, wps_AllowedIPs = [''10.8.0.2/32''],
     wps_LastHandshake = None, wps_TransferRx = 0, wps_TransferTx = 0, wps_PersistentKeepalive = 0\<rparr>"

lemma example_dump_ok: "dump_ok [(''(none)'', example_peer)]"
  by (simp add: dump_ok_def peer_status_ok_def example_peer_def token_def is_space_def)

theorem dump_roundtrip_witness:
  "parseWireGuardPeers (node_dump ''privkey'' ''pubkey'' ''51820'' ''off'' [(''(none)'', example_peer)]) =
     interface_entry ''privkey'' ''51820'' ''off'' # map snd [(''(none)'', example_peer)]"
  by (rule dump_roundtrip [OF _ example_dump_ok]) (simp add: token_def is_space_def)

section \<open>Operations on a node that behaves as documented\<close>

text \<open>What the operations rely on of \<open>wg\<close> and \<open>wg-quick\<close>: \<open>dump\<close> prints the interface and its peers,
  \<open>set \<dots> remove\<close> removes the peer of that key, \<open>set \<dots> allowed-ips\<close> on a new key adds a peer with those
  addresses, \<open>save\<close> leaves the interface alone, and all of them succeed. \<open>view\<close> is the peer table.\<close>

definition config_tokens :: "PeerWireGuardConfig \<Rightarrow> bool" where
  "config_tokens c = (token (pwc_PublicKey c) \<and> (\<forall>k. pwc_PresharedKey c = Some k \<longrightarrow> token k) \<and>
     pwc_AllowedIPs c \<noteq> [] \<and> (\<forall>ip\<in>set (pwc_AllowedIPs c). token ip \<and> CHR '','' \<notin> set ip) \<and> pwc_Endpoint c = None)"

definition wg_documented ::
  "'s command_env \<Rightarrow> InteractorConfig \<Rightarrow> string \<Rightarrow> string \<Rightarrow> string \<Rightarrow> string \<Rightarrow> string
     \<Rightarrow> ('s \<Rightarrow> (string \<times> WireGuardPeerStatus) list) \<Rightarrow> bool" where
  "wg_documented env cfg host priv pub port mark view =
     ((\<forall>s. \<exists>s'. env_exec env host (dump_cmd cfg) s = ((node_dump priv pub port mark (view s), None), s') \<and> view s' = view s) \<and>
      (\<forall>s key. token key \<longrightarrow> (\<exists>out s'. env_exec env host (remove_cmd cfg key) s = ((out, None), s') \<and>
         view s' = filter (\<lambda>(_, p). wps_PublicKey p \<noteq> key) (view s))) \<and>
      (\<forall>s c. config_tokens c \<and> pwc_PublicKey c \<notin> wps_PublicKey ` snd ` set (view s) \<longrightarrow>
         (\<exists>out s' psk p. env_exec env host (buildAddPeerCommand cfg c) s = ((out, None), s') \<and>
            view s' = view s @ [(psk, p)] \<and> dump_ok [(psk, p)] \<and>
            wps_PublicKey p = pwc_PublicKey c \<and> wps_AllowedIPs p = pwc_AllowedIPs c)) \<and>
      (\<forall>s. \<exists>out s'. env_exec env host (''wg-quick save '' @ WireGuardInterface cfg) s = ((out, None), s') \<and>
         view s' = view s))"

definition breaker_closed :: "string \<Rightarrow> breakers \<Rightarrow> bool" where
  "breaker_closed host cbs = (\<forall>cb. cbs host = Some cb \<longrightarrow> cb_state cb = StateClosed)"

lemma executeWithRetry_ok:
  assumes "env_exec env host command s = ((out, None), s')" "breaker_closed host cbs" "1 \<le> RetryAttempts cfg"
  obtains cbs' where "executeWithRetry env cfg host command (cbs, s) = (Inr \<lparr>ExitCode = 0, Stdout = out\<rparr>, (cbs', s'))"
    "breaker_closed host cbs'"
proof -
  obtain n where n: "nat (RetryAttempts cfg) = Suc n" using assms(3) by (cases "nat (RetryAttempts cfg)") auto
  obtain cb cbs1 where g: "getCircuitBreaker (ic_CircuitBreaker cfg) host cbs = (cb, cbs1)" "cb_state cb = StateClosed"
  proof (cases "cbs host")
    case None
    then show thesis
      using that [of "NewCircuitBreaker (ic_CircuitBreaker cfg)"]
      by (simp add: getCircuitBreaker_def Let_def) (simp add: NewCircuitBreaker_def)
  next
    case (Some cb)
    then show thesis using assms(2) by (intro that) (simp_all add: getCircuitBreaker_def breaker_closed_def)
  qed
  have "retry_attempt env cfg host command (cbs, s) = (Inr \<lparr>ExitCode = 0, Stdout = out\<rparr>,
      (cbs1(host \<mapsto> recordResult (env_now env s') True cb), s'))"
    using g assms(1) by (simp add: retry_attempt_def cb_Execute_def canExecute_def executeCommandOnce_def)
  then have "executeWithRetry env cfg host command (cbs, s) = (Inr \<lparr>ExitCode = 0, Stdout = out\<rparr>,
      (cbs1(host \<mapsto> recordResult (env_now env s') True cb), s'))"
    unfolding executeWithRetry_def n by (simp add: upt_conv_Cons del: upt_Suc)
  moreover have "breaker_closed host (cbs1(host \<mapsto> recordResult (env_now env s') True cb))"
    using g(2) by (simp add: breaker_closed_def recordResult_def onSuccess_def)
  ultimately show thesis by (rule that)
qed

lemma run_once_ok:
  "env_exec env host command s = ((out, None), s') \<Longrightarrow>
   run_once env host command (cbs, s) = (Inr \<lparr>ExitCode = 0, Stdout = out\<rparr>, (cbs, s'))"
  by (simp add: run_once_def executeCommandOnce_def)

lemma ListPeers_ok:
  assumes "wg_documented env cfg host priv pub port mark view" "list_all token [priv, pub, port, mark]"
    "dump_ok (view s)"
  obtains s' where "ListPeers env cfg host (cbs, s) =
      (Inr (interface_entry priv port mark # map snd (view s)), (cbs, s'))" "view s' = view s"
proof -
  obtain s' where s': "env_exec env host (dump_cmd cfg) s = ((node_dump priv pub port mark (view s), None), s')"
    "view s' = view s"
    using assms(1) unfolding wg_documented_def by blast
  then show thesis
    using that [of s'] parse_node_dump [OF assms(2,3)]
    by (simp add: ListPeers_def bindS_def map_errS_def run_once_ok)
qed

lemma SaveWireGuardConfig_ok:
  assumes "wg_documented env cfg host priv pub port mark view"
  obtains s' where "SaveWireGuardConfig env cfg host (cbs, s) = (Inr (), (cbs, s'))" "view s' = view s"
proof -
  obtain out s' where s': "env_exec env host (''wg-quick save '' @ WireGuardInterface cfg) s = ((out, None), s')"
    "view s' = view s"
    using assms unfolding wg_documented_def by blast
  then show thesis
    using that [of s'] by (simp add: SaveWireGuardConfig_def bindS_def run_once_ok)
qed

lemma b64_char_not_space: "is_b64_char c \<or> c = CHR ''='' \<Longrightarrow> \<not> is_space c"
proof
  assume c: "is_b64_char c \<or> c = CHR ''=''" and "is_space c"
  then have k: "(of_char c :: nat) \<in> {9, 10, 11, 12, 13, 32}" by (simp add: is_space_def)
  then have "c \<noteq> CHR ''=''" by auto
  moreover have "b64_val c = None" using k by (auto simp: b64_val_def)
  ultimately show False using c by (simp add: is_b64_char_def)
qed

lemma valid_key_token:
  assumes "IsValidWireGuardKey key"
  shows "token key \<and> 8 \<le> length key"
proof -
  have k: "length key = 44" "list_all (\<lambda>c. c = CHR ''='') (dropWhile is_b64_char key)"
    using assms by (auto simp: IsValidWireGuardKey_def b64_regexp_def split: if_splits)
  have "\<not> is_space c" if "c \<in> set key" for c
  proof (rule b64_char_not_space)
    have "set (takeWhile is_b64_char key @ dropWhile is_b64_char key) = set key"
      unfolding takeWhile_dropWhile_id ..
    then have "c \<in> set (takeWhile is_b64_char key) \<or> c \<in> set (dropWhile is_b64_char key)"
      using that unfolding set_append by blast
    then consider "c \<in> set (takeWhile is_b64_char key)" | "c \<in> set (dropWhile is_b64_char key)"
      by blast
    then show "is_b64_char c \<or> c = CHR ''=''"
      using k(2) by cases (auto dest: set_takeWhileD simp: list_all_iff)
  qed
  then show ?thesis using k(1) by (auto simp: token_def list_all_iff)
qed

lemma RemovePeer_ok:
  assumes doc: "wg_documented env cfg host priv pub port mark view" and tok: "list_all token [priv, pub, port, mark]"
    and ok: "\<And>s. dump_ok (view s)" and closed: "breaker_closed host cbs" and att: "1 \<le> RetryAttempts cfg"
    and valid: "IsValidWireGuardKey key"
  obtains cbs' s' where "RemovePeer env cfg host key (cbs, s) = (Inr (), (cbs', s'))"
    "view s' = filter (\<lambda>(_, p). wps_PublicKey p \<noteq> key) (view s)" "breaker_closed host cbs'"
proof -
  have key: "IsValidWireGuardKey key" "8 \<le> length key" "token key" using valid valid_key_token by auto
  obtain s1 where s1: "ListPeers env cfg host (cbs, s) =
      (Inr (interface_entry priv port mark # map snd (view s)), (cbs, s1))" "view s1 = view s"
    using ListPeers_ok [OF doc tok ok] by blast
  show thesis
  proof (cases "key \<in> wps_PublicKey ` set (interface_entry priv port mark # map snd (view s))")
    case False
    then have "filter (\<lambda>(_, p). wps_PublicKey p \<noteq> key) (view s) = view s"
      by (intro filter_True) (auto simp: image_iff)
    moreover have "RemovePeer env cfg host key (cbs, s) = (Inr (), (cbs, s1))"
      using False key s1(1) by (simp add: RemovePeer_def bindS_def)
    ultimately show thesis using that s1(2) closed by simp
  next
    case True
    obtain out s2 where s2: "env_exec env host (remove_cmd cfg key) s1 = ((out, None), s2)"
      "view s2 = filter (\<lambda>(_, p). wps_PublicKey p \<noteq> key) (view s1)"
      using doc key(3) unfolding wg_documented_def by blast
    obtain cbs2 where r: "executeWithRetry env cfg host (remove_cmd cfg key) (cbs, s1) = (Inr \<lparr>ExitCode = 0, Stdout = out\<rparr>, (cbs2, s2))"
      "breaker_closed host cbs2"
      using executeWithRetry_ok [OF s2(1) closed att] by blast
    obtain s3 where s3: "ListPeers env cfg host (cbs2, s2) =
      (Inr (interface_entry priv port mark # map snd (view s2)), (cbs2, s3))" "view s3 = view s2"
      using ListPeers_ok [OF doc tok ok] by blast
    have v: "snd (validatePeerRemoval env cfg host key (cbs2, s2)) = (cbs2, s3)"
      by (simp add: validatePeerRemoval_def bindS_def map_errS_def s3(1))
    obtain s4 where s4: "SaveWireGuardConfig env cfg host (cbs2, s3) = (Inr (), (cbs2, s4))" "view s4 = view s3"
      using SaveWireGuardConfig_ok [OF doc] by blast
    have "RemovePeer env cfg host key (cbs, s) = (Inr (), (cbs2, s4))"
      using True key(1,2) s1(1) r(1) v s4(1) by (simp add: RemovePeer_def bindS_def map_errS_def)
    then show thesis using that s1(2) s2(2) s3(2) s4(2) r(2) by simp
  qed
qed

text \<open>On a node that behaves as documented, removing a peer by a well-formed key succeeds and
  removes that peer and no other, whether or not it was there.\<close>

theorem remove_peer_effect:
  assumes "wg_documented env cfg host priv pub port mark view" "list_all token [priv, pub, port, mark]"
    "\<And>s. dump_ok (view s)" "breaker_closed host cbs" "1 \<le> RetryAttempts cfg"
    "IsValidWireGuardKey key"
  shows "\<exists>cbs' s'. RemovePeer env cfg host key (cbs, s) = (Inr (), (cbs', s')) \<and>
    view s' = filter (\<lambda>(_, p). wps_PublicKey p \<noteq> key) (view s)"
  using RemovePeer_ok [OF assms] by metis

text \<open>A host that behaves as documented: it reads the fields of a command and keeps the peers as rows of
  its dump.\<close>

definition wg_row_ok :: "string \<times> WireGuardPeerStatus \<Rightarrow> bool" where
  "wg_row_ok r = dump_ok [r]"

definition sim_view :: "(string \<times> WireGuardPeerStatus) list \<Rightarrow> (string \<times> WireGuardPeerStatus) list" where
  "sim_view s = filter wg_row_ok s"

definition sim_peer :: "string \<Rightarrow> string \<Rightarrow> string \<times> WireGuardPeerStatus" where
  "sim_peer key ips = (''(none)'', \<lparr>wps_PublicKey = key, wps_Endpoint = None, wps_AllowedIPs = split_on CHR '','' ips,
     wps_LastHandshake = None, wps_TransferRx = 0, wps_TransferTx = 0, wps_PersistentKeepalive = 0\<rparr>)"

definition sim_exec :: "string \<Rightarrow> string \<Rightarrow> string \<Rightarrow> (string \<times> WireGuardPeerStatus) list
    \<Rightarrow> (string \<times> go_error option) \<times> (string \<times> WireGuardPeerStatus) list" where
  "sim_exec priv host command s =
     (let ws = Prelude.fields command in
      if length ws = 4 then ((node_dump priv ''pub'' ''51820'' ''off'' (sim_view s), None), s)
      else if length ws = 6 then (([], None), filter (\<lambda>(_, p). wps_PublicKey p \<noteq> ws ! 4) s)
      else if length ws = 7 then (([], None), s @ [sim_peer (ws ! 4) (ws ! 6)])
      else if length ws = 12 then (([], None), s @ [sim_peer (ws ! 7) (ws ! 9)])
      else (([], None), s))"

definition sim_env :: "string \<Rightarrow> (string \<times> WireGuardPeerStatus) list command_env" where
  "sim_env priv = \<lparr>env_exec = sim_exec priv, env_now = (\<lambda>_. 0), env_wait = (\<lambda>_ s. (None, s))\<rparr>"

lemma sim_peer_ok:
  assumes "token key" "ips \<noteq> []" "\<forall>ip\<in>set ips. token ip \<and> CHR '','' \<notin> set ip"
  shows "wg_row_ok (sim_peer key (str_join '','' ips))"
  using assms split_join_comma [of ips]
  by (simp add: wg_row_ok_def dump_ok_def sim_peer_def peer_status_ok_def token_def [of "''(none)''"] is_space_def)

lemma sim_documented: "wg_documented (sim_env priv) demo_cfg host priv ''pub'' ''51820'' ''off'' sim_view"
proof -
  have words: "Prelude.fields (str_join '' '' ts) = ts" if "list_all token ts" for ts
    using fields_join [of "CHR '' ''" ts] that by (simp add: is_space_def)
  have lits: "token ''wg''" "token ''show''" "token ''wg0''" "token ''dump''" "token ''set''" "token ''peer''"
    "token ''remove''" "token ''allowed-ips''" "token ''echo''" "token ''|''" "token ''preshared-key''"
    "token ''/dev/stdin''" "token ''wg-quick''" "token ''save''"
    by (simp_all add: token_def is_space_def)
  have dump: "sim_exec priv host (dump_cmd demo_cfg) s = ((node_dump priv ''pub'' ''51820'' ''off'' (sim_view s), None), s)" for s
    using words [of "[''wg'', ''show'', ''wg0'', ''dump'']"] lits by (simp add: sim_exec_def dump_cmd_def demo_cfg_def)
  have save: "sim_exec priv host (''wg-quick save '' @ WireGuardInterface demo_cfg) s = (([], None), s)" for s
    using words [of "[''wg-quick'', ''save'', ''wg0'']"] lits by (simp add: sim_exec_def demo_cfg_def)
  have remove: "sim_exec priv host (remove_cmd demo_cfg key) s = (([], None), filter (\<lambda>(_, p). wps_PublicKey p \<noteq> key) s)"
    if "token key" for key s
    using words [of "[''wg'', ''set'', ''wg0'', ''peer'', key, ''remove'']"] lits that
    by (simp add: sim_exec_def remove_cmd_def demo_cfg_def)
  have add: "sim_exec priv host (buildAddPeerCommand demo_cfg c) s =
      (([], None), s @ [sim_peer (pwc_PublicKey c) (str_join '','' (pwc_AllowedIPs c))])" if c: "config_tokens c" for c s
  proof -
    have t: "token (pwc_PublicKey c)" "token (str_join '','' (pwc_AllowedIPs c))" "pwc_Endpoint c = None"
      using c token_join [of "pwc_AllowedIPs c"] by (auto simp: config_tokens_def)
    show ?thesis
    proof (cases "pwc_PresharedKey c")
      case None
      then show ?thesis
        using words [of "[''wg'', ''set'', ''wg0'', ''peer'', pwc_PublicKey c, ''allowed-ips'', str_join '','' (pwc_AllowedIPs c)]"]
          lits t by (simp add: sim_exec_def buildAddPeerCommand_def demo_cfg_def)
    next
      case (Some k)
      then have k: "token k" using c by (simp add: config_tokens_def)
      have "token ([CHR 0x27] @ k @ [CHR 0x27])" using k by (simp add: token_def is_space_def)
      then show ?thesis
        using words [of "[''echo'', [CHR 0x27] @ k @ [CHR 0x27], ''|'', ''wg'', ''set'', ''wg0'', ''peer'', pwc_PublicKey c,
            ''allowed-ips'', str_join '','' (pwc_AllowedIPs c), ''preshared-key'', ''/dev/stdin'']"]
          lits t k Some by (simp add: sim_exec_def buildAddPeerCommand_def demo_cfg_def token_def [of k])
    qed
  qed
  have view_remove: "sim_view (filter (\<lambda>(_, p). wps_PublicKey p \<noteq> key) s) =
      filter (\<lambda>(_, p). wps_PublicKey p \<noteq> key) (sim_view s)" for key s
    by (simp add: sim_view_def conj_commute)
  have view_add: "sim_view (s @ [sim_peer (pwc_PublicKey c) (str_join '','' (pwc_AllowedIPs c))]) =
      sim_view s @ [sim_peer (pwc_PublicKey c) (str_join '','' (pwc_AllowedIPs c))] \<and>
      dump_ok [sim_peer (pwc_PublicKey c) (str_join '','' (pwc_AllowedIPs c))] \<and>
      wps_AllowedIPs (snd (sim_peer (pwc_PublicKey c) (str_join '','' (pwc_AllowedIPs c)))) = pwc_AllowedIPs c"
    if "config_tokens c" for c s
    using sim_peer_ok [of "pwc_PublicKey c" "pwc_AllowedIPs c"] split_join_comma [of "pwc_AllowedIPs c"] that
    by (auto simp: sim_view_def config_tokens_def wg_row_ok_def) (simp add: sim_peer_def)
  have added: "\<exists>out s' psk p. sim_exec priv host (buildAddPeerCommand demo_cfg c) s = ((out, None), s') \<and>
      sim_view s' = sim_view s @ [(psk, p)] \<and> dump_ok [(psk, p)] \<and> wps_PublicKey p = pwc_PublicKey c \<and>
      wps_AllowedIPs p = pwc_AllowedIPs c" if "config_tokens c" for c s
    using add [OF that, of s] view_add [OF that, of s]
    by (cases "sim_peer (pwc_PublicKey c) (str_join '','' (pwc_AllowedIPs c))") (auto simp: sim_peer_def)
  show ?thesis
    unfolding wg_documented_def sim_env_def using dump save remove view_remove added by auto
qed

lemma sim_view_ok: "dump_ok (sim_view s)"
  by (auto simp: sim_view_def wg_row_ok_def dump_ok_def)

lemma sim_tokens: "list_all token [''priv'', ''pub'', ''51820'', ''off'']"
  by (simp add: token_def is_space_def)

definition wg_demo_key :: string where
  "wg_demo_key = b64_encode (replicate 32 7)"

lemma wg_demo_key_valid: "IsValidWireGuardKey wg_demo_key"
  unfolding wg_demo_key_def by (rule valid_key_encode) simp

lemma demo_attempts: "1 \<le> RetryAttempts demo_cfg"
  by (simp add: demo_cfg_def)

theorem remove_peer_effect_witness:
  "\<exists>cbs' s'. RemovePeer (sim_env ''priv'') demo_cfg ''10.0.0.1'' wg_demo_key (Map.empty, [sim_peer wg_demo_key ''10.8.0.2/32'']) =
      (Inr (), (cbs', s')) \<and> sim_view s' =
      filter (\<lambda>(_, p). wps_PublicKey p \<noteq> wg_demo_key) (sim_view [sim_peer wg_demo_key ''10.8.0.2/32''])"
  by (rule remove_peer_effect [OF sim_documented sim_tokens sim_view_ok _ demo_attempts wg_demo_key_valid])
    (simp add: breaker_closed_def)

lemma addition_conflict_none:
  "addition_conflict c ps = None \<longleftrightarrow> pwc_PublicKey c \<notin> wps_PublicKey ` set ps \<and>
     (\<forall>p\<in>set ps. set (pwc_AllowedIPs c) \<inter> set (wps_AllowedIPs p) = {})"
  by (induction c ps rule: addition_conflict.induct) auto

lemma AddPeer_ok:
  assumes doc: "wg_documented env cfg host priv pub port mark view" and tok: "list_all token [priv, pub, port, mark]"
    and ok: "\<And>s. dump_ok (view s)" and closed: "breaker_closed host cbs" and att: "1 \<le> RetryAttempts cfg"
    and cfgok: "validatePeerConfig c = Inr ()" and toks: "config_tokens c"
  shows "case addition_conflict c (interface_entry priv port mark # map snd (view s)) of
      Some e \<Rightarrow> \<exists>s'. AddPeer env cfg host c (cbs, s) = (Inl e, (cbs, s')) \<and> view s' = view s
    | None \<Rightarrow> \<exists>cbs' s' psk p. AddPeer env cfg host c (cbs, s) = (Inr (), (cbs', s')) \<and> breaker_closed host cbs' \<and>
        view s' = view s @ [(psk, p)] \<and>
        wps_PublicKey p = pwc_PublicKey c \<and> wps_AllowedIPs p = pwc_AllowedIPs c"
proof -
  have "IsValidWireGuardKey (pwc_PublicKey c)" using cfgok by (auto simp: validatePeerConfig_def Let_def split: if_splits)
  then have len: "8 \<le> length (pwc_PublicKey c)" using valid_key_token by blast
  obtain s1 where s1: "ListPeers env cfg host (cbs, s) =
      (Inr (interface_entry priv port mark # map snd (view s)), (cbs, s1))" "view s1 = view s"
    using ListPeers_ok [OF doc tok ok] by blast
  show ?thesis
  proof (cases "addition_conflict c (interface_entry priv port mark # map snd (view s))")
    case (Some e)
    then have "AddPeer env cfg host c (cbs, s) = (Inl e, (cbs, s1))"
      using cfgok len s1(1) by (simp add: AddPeer_def bindS_def)
    then show ?thesis using Some s1(2) by auto
  next
    case None
    then have fresh: "pwc_PublicKey c \<notin> wps_PublicKey ` snd ` set (view s1)"
      using s1(2) unfolding addition_conflict_none by (auto simp: image_image)
    then obtain out s2 psk p where s2: "env_exec env host (buildAddPeerCommand cfg c) s1 = ((out, None), s2)"
      "view s2 = view s1 @ [(psk, p)]" "wps_PublicKey p = pwc_PublicKey c" "wps_AllowedIPs p = pwc_AllowedIPs c"
      using doc toks unfolding wg_documented_def by blast
    obtain cbs2 where r: "executeWithRetry env cfg host (buildAddPeerCommand cfg c) (cbs, s1) =
        (Inr \<lparr>ExitCode = 0, Stdout = out\<rparr>, (cbs2, s2))" "breaker_closed host cbs2"
      using executeWithRetry_ok [OF s2(1) closed att] by blast
    obtain s3 where s3: "ListPeers env cfg host (cbs2, s2) =
      (Inr (interface_entry priv port mark # map snd (view s2)), (cbs2, s3))" "view s3 = view s2"
      using ListPeers_ok [OF doc tok ok] by blast
    have v: "validatePeerAddition env cfg host (pwc_PublicKey c) (cbs2, s2) = (Inr (), (cbs2, s3))"
      using s2(2,3) by (simp add: validatePeerAddition_def bindS_def map_errS_def s3(1))
    obtain s4 where s4: "SaveWireGuardConfig env cfg host (cbs2, s3) = (Inr (), (cbs2, s4))" "view s4 = view s3"
      using SaveWireGuardConfig_ok [OF doc] by blast
    have "AddPeer env cfg host c (cbs, s) = (Inr (), (cbs2, s4))"
      using None cfgok len s1(1) r(1) v s4(1) by (simp add: AddPeer_def bindS_def map_errS_def)
    moreover have "view s4 = view s @ [(psk, p)]" using s4(2) s3(2) s2(2) s1(2) by simp
    ultimately show ?thesis using None s2(3,4) r(2) by auto
  qed
qed

text \<open>On a node that behaves as documented, adding a well-formed peer whose key and addresses are
  not in the dump succeeds and adds exactly that peer; if its key or one of its addresses is in the
  dump, the conflict is reported and the peer table is not changed.\<close>

theorem add_peer_effect:
  assumes "wg_documented env cfg host priv pub port mark view" "list_all token [priv, pub, port, mark]"
    "\<And>s. dump_ok (view s)" "breaker_closed host cbs" "1 \<le> RetryAttempts cfg"
    "validatePeerConfig c = Inr ()" "config_tokens c"
  shows "case addition_conflict c (interface_entry priv port mark # map snd (view s)) of
      Some e \<Rightarrow> \<exists>s'. AddPeer env cfg host c (cbs, s) = (Inl e, (cbs, s')) \<and> view s' = view s
    | None \<Rightarrow> \<exists>cbs' s' psk p. AddPeer env cfg host c (cbs, s) = (Inr (), (cbs', s')) \<and> view s' = view s @ [(psk, p)] \<and>
        wps_PublicKey p = pwc_PublicKey c \<and> wps_AllowedIPs p = pwc_AllowedIPs c"
  using AddPeer_ok [OF assms, of s]
  by (cases "addition_conflict c (interface_entry priv port mark # map snd (view s))")
    (simp_all del: addition_conflict.simps, blast)

definition wg_demo_config :: PeerWireGuardConfig where
  "wg_demo_config = \<lparr>pwc_PublicKey = wg_demo_key, pwc_PresharedKey = None, pwc_AllowedIPs = [''10.8.0.2/32''], pwc_Endpoint = None\<rparr>"

lemma wg_demo_config_valid: "validatePeerConfig wg_demo_config = Inr ()"
  by (simp add: validatePeerConfig_def wg_demo_config_def wg_demo_key_valid)

lemma wg_demo_config_tokens: "config_tokens wg_demo_config"
  using valid_key_token [OF wg_demo_key_valid]
  by (simp add: config_tokens_def wg_demo_config_def token_def [of "''10.8.0.2/32''"] is_space_def)

theorem add_peer_effect_witness:
  "case addition_conflict wg_demo_config (interface_entry ''priv'' ''51820'' ''off'' # map snd (sim_view [])) of
      Some e \<Rightarrow> \<exists>s'. AddPeer (sim_env ''priv'') demo_cfg ''10.0.0.1'' wg_demo_config (Map.empty, []) = (Inl e, (Map.empty, s')) \<and>
        sim_view s' = sim_view []
    | None \<Rightarrow> \<exists>cbs' s' psk p. AddPeer (sim_env ''priv'') demo_cfg ''10.0.0.1'' wg_demo_config (Map.empty, []) = (Inr (), (cbs', s')) \<and>
        sim_view s' = sim_view [] @ [(psk, p)] \<and> wps_PublicKey p = pwc_PublicKey wg_demo_config \<and>
        wps_AllowedIPs p = pwc_AllowedIPs wg_demo_config"
  by (rule add_peer_effect [OF sim_documented sim_tokens sim_view_ok _ demo_attempts wg_demo_config_valid wg_demo_config_tokens])
    (simp add: breaker_closed_def)

text \<open>Whatever the node does, an \<open>AddPeer\<close> that succeeds has read a dump of the node, after its
  command, that lists the key.\<close>

theorem add_peer_verified:
  assumes run: "AddPeer env cfg host c bs = (Inr (), bs')"
  shows "\<exists>bs1 ps bs2. ListPeers env cfg host bs1 = (Inr ps, bs2) \<and> pwc_PublicKey c \<in> wps_PublicKey ` set ps \<and>
    snd (SaveWireGuardConfig env cfg host bs2) = bs'"
proof -
  have split: "(case x of Some e \<Rightarrow> failS e | None \<Rightarrow> m) b = (Inr y, b') \<longleftrightarrow> x = None \<and> m b = (Inr y, b')"
    for x :: "go_error option" and m :: "'a wg_state \<Rightarrow> unit res \<times> 'a wg_state" and b b' y
    by (cases x) auto
  obtain b1 where b1: "(case fst (validatePeerAddition env cfg host (pwc_PublicKey c) b1) of
        Inl e \<Rightarrow> bindS (tryS (RemovePeer env cfg host (pwc_PublicKey c))) (\<lambda>_. failS e)
      | Inr _ \<Rightarrow> bindS (tryS (SaveWireGuardConfig env cfg host)) (\<lambda>_. returnS ()))
      (snd (validatePeerAddition env cfg host (pwc_PublicKey c) b1)) = (Inr (), bs')"
    using run by (auto simp: AddPeer_def bindS_Inr_iff split split: if_split_asm)
  obtain chk b2 where v: "validatePeerAddition env cfg host (pwc_PublicKey c) b1 = (chk, b2)" by (metis surj_pair)
  then have "chk = Inr ()" using b1 by (cases chk) (auto simp: bindS_def)
  moreover from this have "snd (SaveWireGuardConfig env cfg host b2) = bs'"
    using b1 v by (simp add: bindS_def)
  moreover obtain ps where "ListPeers env cfg host b1 = (Inr ps, b2)" "pwc_PublicKey c \<in> wps_PublicKey ` set ps"
    using v \<open>chk = Inr ()\<close> by (auto simp: validatePeerAddition_def bindS_Inr_iff split: if_split_asm)
  ultimately show ?thesis by blast
qed

theorem add_peer_verified_witness:
  "\<exists>bs'. AddPeer (sim_env ''priv'') demo_cfg ''10.0.0.1'' wg_demo_config (Map.empty, []) = (Inr (), bs') \<and>
    (\<exists>bs1 ps bs2. ListPeers (sim_env ''priv'') demo_cfg ''10.0.0.1'' bs1 = (Inr ps, bs2) \<and>
      pwc_PublicKey wg_demo_config \<in> wps_PublicKey ` set ps \<and>
      snd (SaveWireGuardConfig (sim_env ''priv'') demo_cfg ''10.0.0.1'' bs2) = bs')"
proof -
  have "length wg_demo_key \<noteq> length ''priv''"
    using wg_demo_key_valid by (simp add: IsValidWireGuardKey_def split: if_split_asm)
  then have "wg_demo_key \<noteq> ''priv''" by metis
  then have none: "addition_conflict wg_demo_config (interface_entry ''priv'' ''51820'' ''off'' # map snd (sim_view [])) = None"
    by (simp add: addition_conflict_none sim_view_def wg_demo_config_def interface_entry_def)
  obtain bs' where run: "AddPeer (sim_env ''priv'') demo_cfg ''10.0.0.1'' wg_demo_config (Map.empty, []) = (Inr (), bs')"
    using AddPeer_ok [OF sim_documented sim_tokens sim_view_ok _ demo_attempts wg_demo_config_valid wg_demo_config_tokens,
        of "''10.0.0.1''" Map.empty "[]"] unfolding none
    by (auto simp: breaker_closed_def)
  then show ?thesis using add_peer_verified [OF run] by blast
qed

section \<open>Synchronisation\<close>

definition row_keys :: "(string \<times> WireGuardPeerStatus) list \<Rightarrow> string set" where
  "row_keys rows = wps_PublicKey ` snd ` set rows"

lemma row_keys_filter: "row_keys (filter (\<lambda>(_, p). P (wps_PublicKey p)) rows) = {k \<in> row_keys rows. P k}"
  unfolding row_keys_def by force

definition sync_config_ok :: "PeerWireGuardConfig \<Rightarrow> bool" where
  "sync_config_ok c = (validatePeerConfig c = Inr () \<and> config_tokens c)"

lemma sync_config_key: "sync_config_ok c \<Longrightarrow> IsValidWireGuardKey (pwc_PublicKey c) \<and> 8 \<le> length (pwc_PublicKey c)"
  using valid_key_token by (auto simp: sync_config_ok_def validatePeerConfig_def Let_def split: if_splits)

lemma sync_removals_ok:
  assumes doc: "wg_documented env cfg host priv pub port mark view" and tok: "list_all token [priv, pub, port, mark]"
    and ok: "\<And>s. dump_ok (view s)" and att: "1 \<le> RetryAttempts cfg"
  shows "breaker_closed host cbs \<Longrightarrow> \<forall>k\<in>set keys. IsValidWireGuardKey k \<Longrightarrow>
    \<exists>cbs' s'. sync_removals env cfg host keys (cbs, s) = (Inr (), (cbs', s')) \<and> breaker_closed host cbs' \<and>
      view s' = filter (\<lambda>(_, p). wps_PublicKey p \<notin> set keys) (view s)"
proof (induction keys arbitrary: cbs s)
  case (Cons k ks)
  have k: "IsValidWireGuardKey k" "8 \<le> length k" using Cons.prems valid_key_token by auto
  obtain cbs1 s1 where r: "RemovePeer env cfg host k (cbs, s) = (Inr (), (cbs1, s1))"
    "view s1 = filter (\<lambda>(_, p). wps_PublicKey p \<noteq> k) (view s)" "breaker_closed host cbs1"
    using RemovePeer_ok [OF doc tok ok Cons.prems(1) att k(1)] by blast
  then obtain cbs2 s2 where ih: "sync_removals env cfg host ks (cbs1, s1) = (Inr (), (cbs2, s2))" "breaker_closed host cbs2"
    "view s2 = filter (\<lambda>(_, p). wps_PublicKey p \<notin> set ks) (view s1)"
    using Cons.IH [of cbs1 s1] Cons.prems(2) by auto
  have "view s2 = filter (\<lambda>(_, p). wps_PublicKey p \<notin> set (k # ks)) (view s)"
    unfolding ih(3) r(2) by (auto intro!: filter_cong)
  then show ?case using k(2) r(1) ih(1,2) by (simp add: bindS_def tryS_def)
qed simp

text \<open>What adding or updating one peer may do to the table: it changes rows of that key only.\<close>

definition only_key :: "string \<Rightarrow> (string \<times> WireGuardPeerStatus) list \<Rightarrow> (string \<times> WireGuardPeerStatus) list \<Rightarrow> bool" where
  "only_key key rows rows' = (row_keys rows' \<subseteq> insert key (row_keys rows) \<and>
     (\<forall>r\<in>set rows. wps_PublicKey (snd r) \<noteq> key \<longrightarrow> r \<in> set rows'))"

lemma row_keys_append: "row_keys (rows @ [(psk, p)]) = insert (wps_PublicKey p) (row_keys rows)"
  by (auto simp: row_keys_def)

lemma only_key_filter:
  assumes "only_key key (filter (\<lambda>(_, p). wps_PublicKey p \<noteq> key) rows) rows'"
  shows "only_key key rows rows'"
  using assms row_keys_filter [of "\<lambda>k. k \<noteq> key" rows] unfolding only_key_def by auto

lemma AddPeer_only_key:
  assumes doc: "wg_documented env cfg host priv pub port mark view" and tok: "list_all token [priv, pub, port, mark]"
    and ok: "\<And>s. dump_ok (view s)" and closed: "breaker_closed host cbs" and att: "1 \<le> RetryAttempts cfg"
    and c: "sync_config_ok c"
  shows "\<exists>r cbs' s'. AddPeer env cfg host c (cbs, s) = (r, (cbs', s')) \<and> breaker_closed host cbs' \<and>
    only_key (pwc_PublicKey c) (view s) (view s')"
proof -
  have v: "validatePeerConfig c = Inr ()" "config_tokens c" using c by (simp_all add: sync_config_ok_def)
  show ?thesis
    using AddPeer_ok [OF doc tok ok closed att v, of s] closed
    by (cases "addition_conflict c (interface_entry priv port mark # map snd (view s))")
      (auto simp: only_key_def row_keys_append simp del: addition_conflict.simps)
qed

lemma UpdatePeer_only_key:
  assumes doc: "wg_documented env cfg host priv pub port mark view" and tok: "list_all token [priv, pub, port, mark]"
    and ok: "\<And>s. dump_ok (view s)" and closed: "breaker_closed host cbs" and att: "1 \<le> RetryAttempts cfg"
    and c: "sync_config_ok c"
  shows "\<exists>r cbs' s'. UpdatePeer env cfg host c (cbs, s) = (r, (cbs', s')) \<and> breaker_closed host cbs' \<and>
    only_key (pwc_PublicKey c) (view s) (view s')"
proof -
  have k: "IsValidWireGuardKey (pwc_PublicKey c)" "8 \<le> length (pwc_PublicKey c)" and v: "validatePeerConfig c = Inr ()"
    using sync_config_key [OF c] c by (simp_all add: sync_config_ok_def)
  obtain cbs1 s1 where r: "RemovePeer env cfg host (pwc_PublicKey c) (cbs, s) = (Inr (), (cbs1, s1))"
    "view s1 = filter (\<lambda>(_, p). wps_PublicKey p \<noteq> pwc_PublicKey c) (view s)" "breaker_closed host cbs1"
    using RemovePeer_ok [OF doc tok ok closed att k(1)] by blast
  obtain x cbs2 s2 where a: "AddPeer env cfg host c (cbs1, s1) = (x, (cbs2, s2))" "breaker_closed host cbs2"
    "only_key (pwc_PublicKey c) (view s1) (view s2)"
    using AddPeer_only_key [OF doc tok ok r(3) att c] by blast
  have "UpdatePeer env cfg host c (cbs, s) = (x, (cbs2, s2))"
    using k(2) v r(1) a(1) by (simp add: UpdatePeer_def bindS_def tryS_def)
  moreover have "only_key (pwc_PublicKey c) (view s) (view s2)"
    using a(3) unfolding r(2) by (rule only_key_filter)
  ultimately show ?thesis using a(2) by blast
qed

lemma sync_updates_ok:
  assumes doc: "wg_documented env cfg host priv pub port mark view" and tok: "list_all token [priv, pub, port, mark]"
    and ok: "\<And>s. dump_ok (view s)" and att: "1 \<le> RetryAttempts cfg"
  shows "breaker_closed host cbs \<Longrightarrow> \<forall>c\<in>set cs. sync_config_ok c \<Longrightarrow>
    \<exists>cbs' s'. sync_updates env cfg host current cs (cbs, s) = (Inr (), (cbs', s')) \<and>
      row_keys (view s') \<subseteq> row_keys (view s) \<union> pwc_PublicKey ` set cs \<and>
      (\<forall>r\<in>set (view s). (\<forall>c\<in>set cs. pwc_PublicKey c = wps_PublicKey (snd r) \<longrightarrow>
         (\<exists>p. current (pwc_PublicKey c) = Some p \<and> \<not> peerNeedsUpdate p c)) \<longrightarrow> r \<in> set (view s'))"
proof (induction cs arbitrary: cbs s)
  case (Cons c cs)
  have c: "sync_config_ok c" "8 \<le> length (pwc_PublicKey c)" using Cons.prems sync_config_key by auto
  have step: ?case
    if run: "m (cbs, s) = (r, (cbs1, s1))" "breaker_closed host cbs1" "only_key (pwc_PublicKey c) (view s) (view s1)"
      and eq: "sync_updates env cfg host current (c # cs) (cbs, s) =
        bindS (tryS m) (\<lambda>_. sync_updates env cfg host current cs) (cbs, s)"
      and upd: "\<nexists>p. current (pwc_PublicKey c) = Some p \<and> \<not> peerNeedsUpdate p c" for m r cbs1 s1
  proof -
    obtain cbs2 s2 where ih: "sync_updates env cfg host current cs (cbs1, s1) = (Inr (), (cbs2, s2))"
      "row_keys (view s2) \<subseteq> row_keys (view s1) \<union> pwc_PublicKey ` set cs"
      "\<forall>r\<in>set (view s1). (\<forall>c\<in>set cs. pwc_PublicKey c = wps_PublicKey (snd r) \<longrightarrow>
         (\<exists>p. current (pwc_PublicKey c) = Some p \<and> \<not> peerNeedsUpdate p c)) \<longrightarrow> r \<in> set (view s2)"
      using Cons.IH [OF run(2), of s1] Cons.prems(2) by auto
    have "sync_updates env cfg host current (c # cs) (cbs, s) = (Inr (), (cbs2, s2))"
      unfolding eq using run(1) ih(1) by (simp add: bindS_def tryS_def)
    moreover have "row_keys (view s2) \<subseteq> row_keys (view s) \<union> pwc_PublicKey ` set (c # cs)"
      using ih(2) run(3) by (auto simp: only_key_def)
    moreover have "\<forall>r\<in>set (view s). (\<forall>c\<in>set (c # cs). pwc_PublicKey c = wps_PublicKey (snd r) \<longrightarrow>
         (\<exists>p. current (pwc_PublicKey c) = Some p \<and> \<not> peerNeedsUpdate p c)) \<longrightarrow> r \<in> set (view s2)"
      using ih(3) run(3) upd by (auto simp: only_key_def)
    ultimately show ?thesis by blast
  qed
  consider "\<exists>p. current (pwc_PublicKey c) = Some p \<and> \<not> peerNeedsUpdate p c"
    | "current (pwc_PublicKey c) = None" | p where "current (pwc_PublicKey c) = Some p" "peerNeedsUpdate p c"
    by (cases "current (pwc_PublicKey c)") auto
  then show ?case
  proof cases
    case 1
    then show ?thesis using Cons.IH [OF Cons.prems(1), of s] Cons.prems(2) by fastforce
  next
    case 2
    then show ?thesis
      using AddPeer_only_key [OF doc tok ok Cons.prems(1) att c(1), of s] c(2)
      by (elim exE conjE) (rule step, auto)
  next
    case 3
    then show ?thesis
      using UpdatePeer_only_key [OF doc tok ok Cons.prems(1) att c(1), of s] c(2)
      by (elim exE conjE) (rule step, auto)
  qed
qed simp


lemma wg_demo_keys_differ: "b64_encode (replicate 32 9) \<noteq> wg_demo_key"
proof
  assume "b64_encode (replicate 32 9) = wg_demo_key"
  then have "b64_decode (b64_encode (replicate 32 9)) = b64_decode (b64_encode (replicate 32 (7 :: byte)))"
    by (simp add: wg_demo_key_def)
  then have "replicate 32 (9 :: byte) = replicate 32 7" unfolding b64_decode_encode by simp
  then have "hd (replicate 32 (9 :: byte)) = hd (replicate 32 7)" by simp
  then show False by (simp add: numeral_eq_Suc)
qed


text \<open>A node that records the commands it is given and has no peers.\<close>

definition recorder_env :: "InteractorConfig \<Rightarrow> string \<Rightarrow> string list command_env" where
  "recorder_env cfg priv = \<lparr>env_exec = (\<lambda>host command done.
       ((if command = dump_cmd cfg then node_dump priv ''pub'' ''51820'' ''off'' [] else [], None), done @ [command])),
     env_now = (\<lambda>_. 0), env_wait = (\<lambda>_ done. (None, done))\<rparr>"

text \<open>On a node without peers, synchronising with no peers issues the removal command for the node's
  own private key, which the parser took for the key of a peer.\<close>

theorem sync_removes_interface_key:
  assumes priv: "IsValidWireGuardKey priv" and att: "1 \<le> RetryAttempts cfg" and order: "\<And>x. order [x] = [x]"
  shows "\<exists>cbs' cmds. SyncPeers (recorder_env cfg priv) cfg order host [] (Map.empty, []) = (Inr (), (cbs', cmds)) \<and>
    remove_cmd cfg priv \<in> set cmds"
proof -
  let ?env = "recorder_env cfg priv"
  have k: "8 \<le> length priv" "token priv" using valid_key_token [OF priv] by simp_all
  have exec: "env_exec ?env host command cmds =
      ((if command = dump_cmd cfg then node_dump priv ''pub'' ''51820'' ''off'' [] else [], None), cmds @ [command])"
    for command cmds by (simp add: recorder_env_def)
  have tok: "list_all token [priv, ''pub'', ''51820'', ''off'']"
    using k(2) by (simp add: token_def [of "''pub''"] token_def [of "''51820''"] token_def [of "''off''"] is_space_def)
  have list: "ListPeers ?env cfg host (cbs, cmds) =
      (Inr [interface_entry priv ''51820'' ''off''], (cbs, cmds @ [dump_cmd cfg]))" for cbs cmds
    using parse_node_dump [OF tok, of "[]"] exec [of "dump_cmd cfg"]
    by (simp add: ListPeers_def bindS_def map_errS_def run_once_ok dump_ok_def)
  obtain out where "env_exec ?env host (remove_cmd cfg priv) [dump_cmd cfg, dump_cmd cfg] =
      ((out, None), [dump_cmd cfg, dump_cmd cfg, remove_cmd cfg priv])" by (simp add: exec)
  then obtain cbs1 where r: "executeWithRetry ?env cfg host (remove_cmd cfg priv) (Map.empty, [dump_cmd cfg, dump_cmd cfg]) =
      (Inr \<lparr>ExitCode = 0, Stdout = out\<rparr>, (cbs1, [dump_cmd cfg, dump_cmd cfg, remove_cmd cfg priv]))"
    using executeWithRetry_ok [where cbs = Map.empty] att by (metis breaker_closed_def option.distinct(1))
  have v: "snd (validatePeerRemoval ?env cfg host priv (cbs1, cmds)) = (cbs1, cmds @ [dump_cmd cfg])" for cmds
    by (simp add: validatePeerRemoval_def bindS_def map_errS_def list)
  have save: "SaveWireGuardConfig ?env cfg host (cbs1, cmds) = (Inr (), (cbs1, cmds @ [''wg-quick save '' @ WireGuardInterface cfg]))"
    for cmds using exec by (simp add: SaveWireGuardConfig_def bindS_def run_once_ok)
  have "fst (interface_entry priv ''51820'' ''off'', ()) = interface_entry priv ''51820'' ''off''" by simp
  have rm: "RemovePeer ?env cfg host priv (Map.empty, [dump_cmd cfg]) =
      (Inr (), (cbs1, [dump_cmd cfg, dump_cmd cfg, remove_cmd cfg priv, dump_cmd cfg, ''wg-quick save '' @ WireGuardInterface cfg]))"
    using k(1) priv r v save by (simp add: RemovePeer_def bindS_def map_errS_def tryS_def list interface_entry_def)
  show ?thesis
    using k(1) rm by (simp add: SyncPeers_def Let_def bindS_def map_errS_def tryS_def list order interface_entry_def)
qed

theorem sync_removes_interface_key_witness:
  "\<exists>cbs' cmds. SyncPeers (recorder_env demo_cfg wg_demo_key) demo_cfg id ''10.0.0.1'' [] (Map.empty, []) = (Inr (), (cbs', cmds)) \<and>
    remove_cmd demo_cfg wg_demo_key \<in> set cmds"
  by (rule sync_removes_interface_key [OF wg_demo_key_valid demo_attempts]) simp

end
