(* ===== verification/Events.thy ===== *)
theory Events
  imports DomainErrors
begin

text \<open>
  Events: the bus of \<open>pkg/events/bus.go\<close> and \<open>utils.go\<close> over the third-party event manager, and the
  payloads the publishers of \<open>internal/rotator/events/event_publisher.go\<close> build. The manager
  (\<open>gookit/event\<close>) is a parameter; a handler is a function on a state \<open>'w\<close> of the world.
  Fractions (\<open>float64\<close>) are rationals, times are nanoseconds.
\<close>

section \<open>Events\<close>

datatype ev_value =
    EvString string
  | EvBool bool
  | EvInt int
  | EvFloat rat
  | EvMeta "(string \<times> meta_value) list"

type_synonym ev_metadata = "string \<rightharpoonup> ev_value"

record event =
  ev_id :: string
  ev_type :: string
  ev_timestamp :: int
  ev_meta :: ev_metadata

definition NewBaseEvent :: "string \<Rightarrow> int \<Rightarrow> string \<Rightarrow> ev_metadata \<Rightarrow> event" where
  "NewBaseEvent uuid now eventType metadata =
     \<lparr>ev_id = uuid, ev_type = eventType, ev_timestamp = now, ev_meta = metadata\<rparr>"

definition ev_WithMetadata :: "string \<Rightarrow> ev_value \<Rightarrow> event \<Rightarrow> event" where
  "ev_WithMetadata key v e = e\<lparr>ev_meta := (ev_meta e)(key \<mapsto> v)\<rparr>"

text \<open>Type assertions on a metadata value; a missing or ill-typed value gives the zero value.\<close>

definition meta_string :: "ev_metadata \<Rightarrow> string \<Rightarrow> string" where
  "meta_string m key = (case m key of Some (EvString s) \<Rightarrow> s | _ \<Rightarrow> [])"

definition meta_float :: "ev_metadata \<Rightarrow> string \<Rightarrow> rat" where
  "meta_float m key = (case m key of Some (EvFloat x) \<Rightarrow> x | _ \<Rightarrow> 0)"

definition meta_int :: "ev_metadata \<Rightarrow> string \<Rightarrow> int" where
  "meta_int m key = (case m key of Some (EvInt x) \<Rightarrow> x | _ \<Rightarrow> 0)"

definition meta_string_opt :: "ev_metadata \<Rightarrow> string \<Rightarrow> string option" where
  "meta_string_opt m key = (case m key of Some (EvString s) \<Rightarrow> Some s | _ \<Rightarrow> None)"

section \<open>Bus\<close>

datatype Priority = PriorityLow | PriorityNormal | PriorityHigh

type_synonym 'w listener = "event \<Rightarrow> 'w \<Rightarrow> go_error option \<times> 'w"

text \<open>A handler and the text \<open>%p\<close> prints for it, the address of its code: closures made by the same
  function literal share it.\<close>

record 'w handler =
  h_code :: nat
  h_run :: "'w listener"

record ('m, 'w) gookit =
  gk_on :: "string \<Rightarrow> Priority \<Rightarrow> 'w listener \<Rightarrow> 'm \<Rightarrow> 'm"
  gk_clear :: "'m \<Rightarrow> 'm"
  gk_fire :: "string \<Rightarrow> event \<Rightarrow> 'm \<Rightarrow> 'w \<Rightarrow> go_error option \<times> 'w"

record 'm bus =
  bus_manager :: 'm
  bus_subscribers :: "string \<rightharpoonup> nat list"
  bus_lastError :: string
  bus_closed :: bool

definition NewGookitEventBus :: "'m \<Rightarrow> 'm bus" where
  "NewGookitEventBus manager =
     \<lparr>bus_manager = manager, bus_subscribers = Map.empty, bus_lastError = [], bus_closed = False\<rparr>"

definition bus_Publish :: "('m, 'w) gookit \<Rightarrow> event \<Rightarrow> 'm bus \<times> 'w \<Rightarrow> unit res \<times> ('m bus \<times> 'w)" where
  "bus_Publish gk e bw = (case bw of (b, w) \<Rightarrow>
     if bus_closed b then (Inl (PlainError ''event bus is closed''), (b, w))
     else (case gk_fire gk (ev_type e) e (bus_manager b) w of
        (None, w') \<Rightarrow> (Inr (), (b, w'))
      | (Some err, w') \<Rightarrow> (Inl (WrapError ''failed to publish event'' err), (b\<lparr>bus_lastError := error_text err\<rparr>, w'))))"

definition bus_SubscribeWithPriority ::
  "('m, 'w) gookit \<Rightarrow> string \<Rightarrow> 'w handler \<Rightarrow> Priority \<Rightarrow> 'm bus \<Rightarrow> unit res \<times> 'm bus" where
  "bus_SubscribeWithPriority gk eventType h priority b =
     (if bus_closed b then (Inl (PlainError ''event bus is closed''), b)
      else (Inr (), b\<lparr>bus_manager := gk_on gk eventType priority (h_run h) (bus_manager b),
              bus_subscribers := (bus_subscribers b)(eventType \<mapsto>
                (case bus_subscribers b eventType of None \<Rightarrow> [] | Some hs \<Rightarrow> hs) @ [h_code h])\<rparr>))"

definition bus_Subscribe :: "('m, 'w) gookit \<Rightarrow> string \<Rightarrow> 'w handler \<Rightarrow> 'm bus \<Rightarrow> unit res \<times> 'm bus" where
  "bus_Subscribe gk eventType h b = bus_SubscribeWithPriority gk eventType h PriorityNormal b"

definition bus_Unsubscribe :: "string \<Rightarrow> 'w handler \<Rightarrow> 'm bus \<Rightarrow> unit res \<times> 'm bus" where
  "bus_Unsubscribe eventType h b =
     (case bus_subscribers b eventType of
        None \<Rightarrow> (Inl (PlainError (''no handlers found for event type: '' @ eventType)), b)
      | Some hs \<Rightarrow>
          (let rest = remove1 (h_code h) hs
           in (Inr (), b\<lparr>bus_subscribers := (bus_subscribers b)(eventType := (if rest = [] then None else Some rest))\<rparr>)))"

definition bus_Close :: "('m, 'w) gookit \<Rightarrow> 'm bus \<Rightarrow> unit res \<times> 'm bus" where
  "bus_Close gk b =
     (if bus_closed b then (Inr (), b)
      else (Inr (), b\<lparr>bus_subscribers := Map.empty, bus_manager := gk_clear gk (bus_manager b), bus_closed := True\<rparr>))"

text \<open>\<open>Health\<close>, without the copies of configuration values: status, number of handlers (\<open>types\<close> lists the
  event types of the map), last error.\<close>

definition bus_Health :: "string list \<Rightarrow> 'm bus \<Rightarrow> string \<times> nat \<times> string" where
  "bus_Health types b =
     ((if bus_closed b then ''unhealthy'' else if bus_lastError b \<noteq> [] then ''degraded'' else ''healthy''),
      sum_list (map (\<lambda>t. case bus_subscribers b t of None \<Rightarrow> 0 | Some hs \<Rightarrow> length hs) types), bus_lastError b)"

text \<open>\<open>PublishWithRetry\<close>: \<open>wait\<close> is the backoff, which ends with the context's error when the context
  is done first. The loop makes one attempt and then \<open>maxRetries\<close> more.\<close>

fun publish_attempts ::
  "('s \<Rightarrow> unit res \<times> 's) \<Rightarrow> (int \<Rightarrow> 's \<Rightarrow> go_error option \<times> 's) \<Rightarrow> int \<Rightarrow> nat \<Rightarrow> 's \<Rightarrow> unit res \<times> 's" where
  "publish_attempts publish wait attempt 0 s =
     (case publish s of
        (Inr _, s') \<Rightarrow> (Inr (), s')
      | (Inl e, s') \<Rightarrow> (Inl (WrapError (''failed to publish event after '' @ dec (nat (attempt + 1)) @ '' attempts'') e), s'))"
| "publish_attempts publish wait attempt (Suc n) s =
     (case publish s of
        (Inr _, s') \<Rightarrow> (Inr (), s')
      | (Inl _, s') \<Rightarrow>
          (case wait ((attempt + 1) * 100000000) s' of
             (Some e, s'') \<Rightarrow> (Inl e, s'')
           | (None, s'') \<Rightarrow> publish_attempts publish wait (attempt + 1) n s''))"

definition PublishWithRetry ::
  "('s \<Rightarrow> unit res \<times> 's) \<Rightarrow> (int \<Rightarrow> 's \<Rightarrow> go_error option \<times> 's) \<Rightarrow> nat \<Rightarrow> 's \<Rightarrow> unit res \<times> 's" where
  "PublishWithRetry publish wait maxRetries s = publish_attempts publish wait 0 maxRetries s"

section \<open>Payloads\<close>

abbreviation EventProvisionRequested :: string where
  "EventProvisionRequested \<equiv> ''provision.requested''"
abbreviation EventProvisionProgress :: string where
  "EventProvisionProgress \<equiv> ''provision.progress''"
abbreviation EventProvisionCompleted :: string where
  "EventProvisionCompleted \<equiv> ''provision.completed''"
abbreviation EventProvisionFailed :: string where
  "EventProvisionFailed \<equiv> ''provision.failed''"
abbreviation EventPeerConnectRequested :: string where
  "EventPeerConnectRequested \<equiv> ''peer.connect.requested''"
abbreviation EventPeerConnectProgress :: string where
  "EventPeerConnectProgress \<equiv> ''peer.connect.progress''"
abbreviation EventPeerConnected :: string where
  "EventPeerConnected \<equiv> ''peer.connected''"
abbreviation EventPeerConnectFailed :: string where
  "EventPeerConnectFailed \<equiv> ''peer.connect.failed''"

text \<open>\<open>time.Duration.String\<close>: hours, minutes and seconds with the fraction, or the largest unit below
  a second; the fraction has no trailing zeros.\<close>

definition duration_fraction :: "nat \<Rightarrow> nat \<Rightarrow> string" where
  "duration_fraction v prec =
     (let ds = dec (v mod 10 ^ prec);
          padded = replicate (prec - length ds) CHR ''0'' @ ds;
          digits = rev (dropWhile (\<lambda>c. c = CHR ''0'') (rev padded))
      in if digits = [] then [] else CHR ''.'' # digits)"

definition Duration_String :: "int \<Rightarrow> string" where
  "Duration_String d =
     (let u = nat \<bar>d\<bar>; sign = (if d < 0 then ''-'' else []); s = u div 10 ^ 9; m = s div 60; h = m div 60
      in if u = 0 then ''0s''
         else sign @
           (if u < 10 ^ 3 then dec u @ ''ns''
            else if u < 10 ^ 6 then dec (u div 10 ^ 3) @ duration_fraction u 3 @ [CHR 0xC2, CHR 0xB5, CHR ''s'']
            else if u < 10 ^ 9 then dec (u div 10 ^ 6) @ duration_fraction u 6 @ ''ms''
            else (if h > 0 then dec h @ ''h'' else []) @ (if m > 0 then dec (m mod 60) @ ''m'' else []) @
                 dec (s mod 60) @ duration_fraction u 9 @ ''s''))"

text \<open>What a publisher hands to \<open>PublishSimple\<close>: the event type and the metadata.\<close>

definition provision_requested :: "string \<Rightarrow> string \<Rightarrow> string \<times> ev_metadata" where
  "provision_requested requestID source =
     (EventProvisionRequested, [''request_id'' \<mapsto> EvString requestID, ''source'' \<mapsto> EvString source])"

definition provision_progress ::
  "string \<Rightarrow> string \<Rightarrow> rat \<Rightarrow> string \<Rightarrow> ev_metadata option \<Rightarrow> string \<times> ev_metadata" where
  "provision_progress nodeID phase progress message metadata =
     (EventProvisionProgress, (case metadata of None \<Rightarrow> Map.empty | Some m \<Rightarrow> m)
        (''node_id'' \<mapsto> EvString nodeID, ''phase'' \<mapsto> EvString phase, ''progress'' \<mapsto> EvFloat progress,
         ''message'' \<mapsto> EvString message))"

definition provision_completed :: "string \<Rightarrow> string \<Rightarrow> string \<Rightarrow> int \<Rightarrow> string \<times> ev_metadata" where
  "provision_completed nodeID serverID ipAddress duration =
     (EventProvisionCompleted, [''node_id'' \<mapsto> EvString nodeID, ''server_id'' \<mapsto> EvString serverID,
        ''ip_address'' \<mapsto> EvString ipAddress,
        ''duration'' \<mapsto> EvString (Duration_String duration), ''duration_ms'' \<mapsto> EvInt (duration div 1000000)])"

definition provision_failed :: "string \<Rightarrow> string \<Rightarrow> go_error \<Rightarrow> string \<times> ev_metadata" where
  "provision_failed nodeID phase e =
     (case UnpackError e of (_, code, msg, retryable, meta, _) \<Rightarrow>
        (EventProvisionFailed, [''node_id'' \<mapsto> EvString nodeID, ''phase'' \<mapsto> EvString phase,
           ''error'' \<mapsto> EvString msg, ''retryable'' \<mapsto> EvBool retryable, ''error_code'' \<mapsto> EvString code,
           ''error_meta'' \<mapsto> EvMeta meta]))"

definition peer_connect_requested :: "string \<Rightarrow> string option \<Rightarrow> bool \<Rightarrow> string \<times> ev_metadata" where
  "peer_connect_requested requestID publicKey generateKeys =
     (let m = [''request_id'' \<mapsto> EvString requestID, ''generate_keys'' \<mapsto> EvBool generateKeys]
      in (EventPeerConnectRequested,
          (case publicKey of None \<Rightarrow> m | Some k \<Rightarrow> m(''public_key'' \<mapsto> EvString k))))"

definition peer_connect_progress ::
  "string \<Rightarrow> string \<Rightarrow> string \<Rightarrow> rat \<Rightarrow> string \<Rightarrow> ev_metadata option \<Rightarrow> string \<times> ev_metadata" where
  "peer_connect_progress requestID peerID phase progress message metadata =
     (let m = (case metadata of None \<Rightarrow> Map.empty | Some m \<Rightarrow> m)
                (''request_id'' \<mapsto> EvString requestID, ''phase'' \<mapsto> EvString phase,
                 ''progress'' \<mapsto> EvFloat progress, ''message'' \<mapsto> EvString message)
      in (EventPeerConnectProgress, (if peerID \<noteq> [] then m(''peer_id'' \<mapsto> EvString peerID) else m)))"

record PeerConnectedData =
  pcd_PeerID :: string
  pcd_NodeID :: string
  pcd_PublicKey :: string
  pcd_AllocatedIP :: string
  pcd_ServerPublicKey :: string
  pcd_ServerIP :: string
  pcd_ServerPort :: int
  pcd_ClientPrivateKey :: "string option"

definition peer_connected :: "string \<Rightarrow> PeerConnectedData \<Rightarrow> int \<Rightarrow> string \<times> ev_metadata" where
  "peer_connected requestID c duration =
     (let m = [''request_id'' \<mapsto> EvString requestID, ''peer_id'' \<mapsto> EvString (pcd_PeerID c),
          ''node_id'' \<mapsto> EvString (pcd_NodeID c), ''public_key'' \<mapsto> EvString (pcd_PublicKey c),
          ''allocated_ip'' \<mapsto> EvString (pcd_AllocatedIP c),
          ''server_public_key'' \<mapsto> EvString (pcd_ServerPublicKey c), ''server_ip'' \<mapsto> EvString (pcd_ServerIP c),
          ''server_port'' \<mapsto> EvInt (pcd_ServerPort c),
          ''duration'' \<mapsto> EvString (Duration_String duration), ''duration_ms'' \<mapsto> EvInt (duration div 1000000)]
      in (EventPeerConnected,
          (case pcd_ClientPrivateKey c of None \<Rightarrow> m | Some k \<Rightarrow> m(''client_private_key'' \<mapsto> EvString k))))"

definition peer_connect_failed :: "string \<Rightarrow> string \<Rightarrow> go_error \<Rightarrow> string \<times> ev_metadata" where
  "peer_connect_failed requestID phase e =
     (case UnpackError e of (_, code, msg, retryable, meta, _) \<Rightarrow>
        (EventPeerConnectFailed, [''request_id'' \<mapsto> EvString requestID, ''phase'' \<mapsto> EvString phase,
           ''error'' \<mapsto> EvString msg, ''retryable'' \<mapsto> EvBool retryable, ''error_code'' \<mapsto> EvString code,
           ''error_meta'' \<mapsto> EvMeta meta]))"

section \<open>What the manager is relied on for\<close>

text \<open>\<open>Fire\<close> calls the listeners of the type one after the other until one fails; \<open>On\<close> adds a listener
  somewhere among those of its type, \<open>Clear\<close> removes all. \<open>listeners\<close> is the manager's table.\<close>

fun run_listeners :: "'w listener list \<Rightarrow> event \<Rightarrow> 'w \<Rightarrow> go_error option \<times> 'w" where
  "run_listeners [] e w = (None, w)"
| "run_listeners (l # ls) e w =
     (case l e w of (None, w') \<Rightarrow> run_listeners ls e w' | (Some err, w') \<Rightarrow> (Some err, w'))"

definition gookit_documented :: "('m, 'w) gookit \<Rightarrow> ('m \<Rightarrow> string \<Rightarrow> 'w listener list) \<Rightarrow> bool" where
  "gookit_documented gk listeners =
     ((\<forall>t e m w. gk_fire gk t e m w = run_listeners (listeners m t) e w) \<and>
      (\<forall>t p l m. (\<exists>xs ys. listeners m t = xs @ ys \<and> listeners (gk_on gk t p l m) t = xs @ l # ys) \<and>
         (\<forall>t'. t' \<noteq> t \<longrightarrow> listeners (gk_on gk t p l m) t' = listeners m t')) \<and>
      (\<forall>m t. listeners (gk_clear gk m) t = []))"

text \<open>A manager that keeps its listeners in a table, in the order of registration.\<close>

definition table_gookit :: "(string \<Rightarrow> 'w listener list, 'w) gookit" where
  "table_gookit =
     \<lparr>gk_on = (\<lambda>t p l m. m(t := m t @ [l])), gk_clear = (\<lambda>m t. []),
      gk_fire = (\<lambda>t e m w. run_listeners (m t) e w)\<rparr>"

lemma table_gookit_documented: "gookit_documented table_gookit (\<lambda>m. m)"
  by (auto simp: gookit_documented_def table_gookit_def)

text \<open>A handler that was unsubscribed is still called by every event published afterwards:
  \<open>Unsubscribe\<close> reports success and forgets the handler in its own table, but leaves the listener with
  the manager.\<close>

theorem unsubscribed_handler_still_runs:
  assumes doc: "gookit_documented gk listeners" and open_bus: "\<not> bus_closed b"
    and only: "listeners (bus_manager b) t = []" and e: "ev_type e = t"
    and sub: "bus_Subscribe gk t h b = (r1, b1)" and unsub: "bus_Unsubscribe t h b1 = (r2, b2)"
  shows "r1 = Inr () \<and> r2 = Inr () \<and>
    snd (snd (bus_Publish gk e (b2, w))) = snd (h_run h e w) \<and>
    (fst (h_run h e w) = None \<longrightarrow> fst (bus_Publish gk e (b2, w)) = Inr ())"
proof -
  have b1: "r1 = Inr ()" "bus_manager b1 = gk_on gk t PriorityNormal (h_run h) (bus_manager b)"
    "\<not> bus_closed b1" "\<exists>hs. bus_subscribers b1 t = Some hs"
    using sub open_bus by (auto simp: bus_Subscribe_def bus_SubscribeWithPriority_def)
  then have b2: "r2 = Inr ()" "bus_manager b2 = bus_manager b1" "\<not> bus_closed b2"
    using unsub by (auto simp: bus_Unsubscribe_def Let_def)
  obtain xs ys where "listeners (bus_manager b) t = xs @ ys" "listeners (bus_manager b1) t = xs @ h_run h # ys"
    using doc unfolding gookit_documented_def b1(2) by blast
  then have "listeners (bus_manager b2) t = [h_run h]" using only b2(2) by simp
  then have "gk_fire gk t e (bus_manager b2) w = h_run h e w"
    using doc by (simp add: gookit_documented_def split: prod.splits option.splits)
  then show ?thesis
    using b1(1) b2 e by (auto simp: bus_Publish_def split: prod.splits option.splits)
qed

definition counting_handler :: "nat handler" where
  "counting_handler = \<lparr>h_code = 4096, h_run = (\<lambda>e n. (None, Suc n))\<rparr>"

definition example_event :: event where
  "example_event = NewBaseEvent ''uuid'' 0 EventProvisionRequested Map.empty"

theorem unsubscribed_handler_still_runs_witness:
  "let b1 = snd (bus_Subscribe table_gookit EventProvisionRequested counting_handler (NewGookitEventBus (\<lambda>_. [])));
       b2 = snd (bus_Unsubscribe EventProvisionRequested counting_handler b1)
   in snd (snd (bus_Publish table_gookit example_event (b2, 0))) = 1"
proof -
  let ?b = "NewGookitEventBus (\<lambda>_. [])"
  obtain r1 b1 where s: "bus_Subscribe table_gookit EventProvisionRequested counting_handler ?b = (r1, b1)"
    by (metis surj_pair)
  obtain r2 b2 where u: "bus_Unsubscribe EventProvisionRequested counting_handler b1 = (r2, b2)" by (metis surj_pair)
  have "snd (snd (bus_Publish table_gookit example_event (b2, 0))) = snd (h_run counting_handler example_event 0)"
    using unsubscribed_handler_still_runs [OF table_gookit_documented _ _ _ s u, of example_event 0]
    by (simp add: NewGookitEventBus_def example_event_def NewBaseEvent_def)
  also have "\<dots> = 1" by (simp add: counting_handler_def)
  finally show ?thesis by (simp add: s u)
qed

lemma publish_attempts_calls:
  assumes pub: "\<And>s. calls (snd (publish s)) = Suc (calls s)" and wait: "\<And>t s. calls (snd (wait t s)) = calls s"
  shows "calls (snd (publish_attempts publish wait a n s)) \<le> calls s + Suc n"
proof (induction n arbitrary: a s)
  case 0
  then show ?case using pub [of s] by (auto split: prod.splits sum.splits)
next
  case (Suc n)
  obtain r s1 where p: "publish s = (r, s1)" by (metis surj_pair)
  obtain q s2 where w: "wait ((a + 1) * 100000000) s1 = (q, s2)" by (metis surj_pair)
  have "calls s1 = Suc (calls s)" "calls s2 = calls s1"
    using pub [of s] wait [of "(a + 1) * 100000000" s1] p w by simp_all
  then show ?case using Suc.IH [of "a + 1" s2] p w by (auto split: sum.splits option.splits)
qed

lemma Duration_String_examples:
  "Duration_String 1500000000 = ''1.5s''" "Duration_String 0 = ''0s''" "Duration_String 20000000 = ''20ms''"
  "Duration_String 3725000000000 = ''1h2m5s''"
  by (simp_all add: Duration_String_def duration_fraction_def Let_def dec.simps digit_char_def char_of_def bit_0)

end
