(* ===== verification/Trackers.thy ===== *)
theory Trackers
  imports Events "HOL-Library.AList"
begin

text \<open>
  The trackers that build the state of running operations from events:
  \<open>node/provisioning_tracker.go\<close> and \<open>peer/connection_tracker.go\<close>. A tracker is a Go map; it is an
  association list here, and a loop over it takes the order in which the map is traversed, which Go
  leaves open, as the argument \<open>order\<close>. \<open>now\<close> is \<open>time.Now()\<close> in nanoseconds.
\<close>

section \<open>Provisioning\<close>

record ProvisioningState =
  pvs_NodeID :: string
  pvs_Phase :: string
  pvs_Progress :: rat
  pvs_StartedAt :: int
  pvs_EstimatedETA :: "int option"
  pvs_LastUpdated :: int
  pvs_ErrorMessage :: string
  pvs_IsActive :: bool
  pvs_ServerID :: string
  pvs_IPAddress :: string
  pvs_Message :: string
  pvs_Metadata :: ev_metadata

type_synonym prov_tracker = "(string \<times> ProvisioningState) list"

text \<open>The zero value with \<open>NodeID\<close> and \<open>StartedAt\<close> set.\<close>

definition new_provisioning_state :: "string \<Rightarrow> int \<Rightarrow> ProvisioningState" where
  "new_provisioning_state nodeID now =
     \<lparr>pvs_NodeID = nodeID, pvs_Phase = [], pvs_Progress = 0, pvs_StartedAt = now, pvs_EstimatedETA = None,
      pvs_LastUpdated = 0, pvs_ErrorMessage = [], pvs_IsActive = False, pvs_ServerID = [], pvs_IPAddress = [],
      pvs_Message = [], pvs_Metadata = Map.empty\<rparr>"

definition handleProvisionRequested :: "int \<Rightarrow> event \<Rightarrow> prov_tracker \<Rightarrow> prov_tracker" where
  "handleProvisionRequested now e t =
     (let requestID = meta_string (ev_meta e) ''request_id''
      in AList.update requestID ((new_provisioning_state requestID now)
           \<lparr>pvs_Phase := ''requested'', pvs_LastUpdated := now, pvs_IsActive := True, pvs_Metadata := ev_meta e\<rparr>) t)"

text \<open>The first requested state younger than five minutes, in the order of the traversal.\<close>

definition fresh_request :: "int \<Rightarrow> string \<times> ProvisioningState \<Rightarrow> bool" where
  "fresh_request now ks = (pvs_Phase (snd ks) = ''requested'' \<and> now - pvs_StartedAt (snd ks) < 300000000000)"

text \<open>The estimate from the time passed and the share done.\<close>

definition progress_eta :: "int \<Rightarrow> int \<Rightarrow> rat \<Rightarrow> int option \<Rightarrow> int option" where
  "progress_eta now started progress old =
     (if progress > 1 / 100 then Some (started + \<lfloor>of_int (now - started) / progress\<rfloor>) else old)"

definition update_progress :: "int \<Rightarrow> event \<Rightarrow> ProvisioningState \<Rightarrow> ProvisioningState" where
  "update_progress now e st =
     (let m = ev_meta e; progress = meta_float m ''progress''
      in st\<lparr>pvs_NodeID := meta_string m ''node_id'', pvs_Phase := meta_string m ''phase'',
            pvs_Progress := progress, pvs_Message := meta_string m ''message'', pvs_LastUpdated := now,
            pvs_Metadata := m, pvs_IsActive := True,
            pvs_EstimatedETA := progress_eta now (pvs_StartedAt st) progress (pvs_EstimatedETA st)\<rparr>)"

definition handleProvisionProgress ::
  "(prov_tracker \<Rightarrow> prov_tracker) \<Rightarrow> int \<Rightarrow> event \<Rightarrow> prov_tracker \<Rightarrow> prov_tracker" where
  "handleProvisionProgress order now e t =
     (let nodeID = meta_string (ev_meta e) ''node_id''
      in case map_of t nodeID of
           Some st \<Rightarrow> AList.update nodeID (update_progress now e st) t
         | None \<Rightarrow>
             (case find (fresh_request now) (order t) of
                Some (reqID, st) \<Rightarrow> AList.update nodeID (update_progress now e st) (AList.delete reqID t)
              | None \<Rightarrow> AList.update nodeID (update_progress now e (new_provisioning_state nodeID now)) t))"

text \<open>The state of a node, or a fresh one: what the last two handlers start from.\<close>

definition provisioning_state_of :: "string \<Rightarrow> int \<Rightarrow> prov_tracker \<Rightarrow> ProvisioningState" where
  "provisioning_state_of nodeID now t =
     (case map_of t nodeID of Some st \<Rightarrow> st | None \<Rightarrow> new_provisioning_state nodeID now)"

definition handleProvisionCompleted :: "int \<Rightarrow> event \<Rightarrow> prov_tracker \<Rightarrow> prov_tracker" where
  "handleProvisionCompleted now e t =
     (let m = ev_meta e; nodeID = meta_string m ''node_id''
      in AList.update nodeID ((provisioning_state_of nodeID now t)
           \<lparr>pvs_Phase := ''completed'', pvs_Progress := 1, pvs_IsActive := False,
            pvs_ServerID := meta_string m ''server_id'', pvs_IPAddress := meta_string m ''ip_address'',
            pvs_LastUpdated := now, pvs_Metadata := m\<rparr>) t)"

definition handleProvisionFailed :: "int \<Rightarrow> event \<Rightarrow> prov_tracker \<Rightarrow> prov_tracker" where
  "handleProvisionFailed now e t =
     (let m = ev_meta e; nodeID = meta_string m ''node_id''
      in AList.update nodeID ((provisioning_state_of nodeID now t)
           \<lparr>pvs_Phase := meta_string m ''phase'', pvs_IsActive := False, pvs_ErrorMessage := meta_string m ''error'',
            pvs_LastUpdated := now, pvs_Metadata := m\<rparr>) t)"

definition GetProvisioningState :: "string \<Rightarrow> prov_tracker \<Rightarrow> ProvisioningState option" where
  "GetProvisioningState nodeID t = map_of t nodeID"

definition GetActiveProvisioning :: "(prov_tracker \<Rightarrow> prov_tracker) \<Rightarrow> prov_tracker \<Rightarrow> ProvisioningState option" where
  "GetActiveProvisioning order t = map_option snd (find (\<lambda>(_, st). pvs_IsActive st) (order t))"

definition in_progress :: "ProvisioningState \<Rightarrow> bool" where
  "in_progress st = (pvs_IsActive st \<and> pvs_Phase st \<noteq> ''completed'' \<and> pvs_ErrorMessage st = [] \<and>
     pvs_Phase st \<noteq> ''requested'')"

definition IsProvisioning :: "prov_tracker \<Rightarrow> bool" where
  "IsProvisioning t = list_ex (\<lambda>(_, st). in_progress st) t"

definition tracker_EstimatedWaitTime :: "(prov_tracker \<Rightarrow> prov_tracker) \<Rightarrow> int \<Rightarrow> prov_tracker \<Rightarrow> int" where
  "tracker_EstimatedWaitTime order now t =
     (case find (\<lambda>(_, st). pvs_IsActive st \<and> (case pvs_EstimatedETA st of Some eta \<Rightarrow> eta - now > 0 | None \<Rightarrow> False)) (order t) of
        Some (_, st) \<Rightarrow> the (pvs_EstimatedETA st) - now
      | None \<Rightarrow> 0)"

definition tracker_Progress :: "(prov_tracker \<Rightarrow> prov_tracker) \<Rightarrow> prov_tracker \<Rightarrow> rat" where
  "tracker_Progress order t = (case GetActiveProvisioning order t of Some st \<Rightarrow> pvs_Progress st | None \<Rightarrow> 0)"

text \<open>What the four subscriptions make of an event.\<close>

definition track_provisioning ::
  "(prov_tracker \<Rightarrow> prov_tracker) \<Rightarrow> int \<Rightarrow> event \<Rightarrow> prov_tracker \<Rightarrow> prov_tracker" where
  "track_provisioning order now e t =
     (if ev_type e = EventProvisionRequested then handleProvisionRequested now e t
      else if ev_type e = EventProvisionProgress then handleProvisionProgress order now e t
      else if ev_type e = EventProvisionCompleted then handleProvisionCompleted now e t
      else if ev_type e = EventProvisionFailed then handleProvisionFailed now e t
      else t)"

section \<open>Peer connections\<close>

record PeerConnectionState =
  pcs_RequestID :: string
  pcs_PeerID :: string
  pcs_Phase :: string
  pcs_Progress :: rat
  pcs_StartedAt :: int
  pcs_EstimatedETA :: "int option"
  pcs_LastUpdated :: int
  pcs_ErrorMessage :: string
  pcs_IsActive :: bool
  pcs_Message :: string
  pcs_Metadata :: ev_metadata
  pcs_NodeID :: string
  pcs_PublicKey :: string
  pcs_AllocatedIP :: string
  pcs_ServerPublicKey :: string
  pcs_ServerIP :: string
  pcs_ServerPort :: int
  pcs_ClientPrivateKey :: "string option"

type_synonym conn_tracker = "(string \<times> PeerConnectionState) list"

definition new_connection_state :: "string \<Rightarrow> int \<Rightarrow> PeerConnectionState" where
  "new_connection_state requestID now =
     \<lparr>pcs_RequestID = requestID, pcs_PeerID = [], pcs_Phase = [], pcs_Progress = 0, pcs_StartedAt = now,
      pcs_EstimatedETA = None, pcs_LastUpdated = 0, pcs_ErrorMessage = [], pcs_IsActive = False,
      pcs_Message = [], pcs_Metadata = Map.empty, pcs_NodeID = [], pcs_PublicKey = [], pcs_AllocatedIP = [],
      pcs_ServerPublicKey = [], pcs_ServerIP = [], pcs_ServerPort = 0, pcs_ClientPrivateKey = None\<rparr>"

definition connection_state_of :: "string \<Rightarrow> int \<Rightarrow> conn_tracker \<Rightarrow> PeerConnectionState" where
  "connection_state_of requestID now t =
     (case map_of t requestID of Some st \<Rightarrow> st | None \<Rightarrow> new_connection_state requestID now)"

definition handleConnectRequested :: "int \<Rightarrow> event \<Rightarrow> conn_tracker \<Rightarrow> conn_tracker" where
  "handleConnectRequested now e t =
     (let requestID = meta_string (ev_meta e) ''request_id''
      in AList.update requestID ((new_connection_state requestID now)
           \<lparr>pcs_Phase := ''requested'', pcs_LastUpdated := now, pcs_IsActive := True, pcs_Metadata := ev_meta e\<rparr>) t)"

definition handleConnectProgress :: "int \<Rightarrow> event \<Rightarrow> conn_tracker \<Rightarrow> conn_tracker" where
  "handleConnectProgress now e t =
     (let m = ev_meta e; requestID = meta_string m ''request_id''; peerID = meta_string m ''peer_id'';
          progress = meta_float m ''progress''; st = connection_state_of requestID now t
      in AList.update requestID (st
           \<lparr>pcs_PeerID := (if peerID \<noteq> [] then peerID else pcs_PeerID st), pcs_Phase := meta_string m ''phase'',
            pcs_Progress := progress, pcs_Message := meta_string m ''message'', pcs_LastUpdated := now,
            pcs_Metadata := m, pcs_IsActive := True,
            pcs_EstimatedETA := progress_eta now (pcs_StartedAt st) progress (pcs_EstimatedETA st)\<rparr>) t)"

definition handleConnected :: "int \<Rightarrow> event \<Rightarrow> conn_tracker \<Rightarrow> conn_tracker" where
  "handleConnected now e t =
     (let m = ev_meta e; requestID = meta_string m ''request_id''
      in AList.update requestID ((connection_state_of requestID now t)
           \<lparr>pcs_Phase := ''completed'', pcs_Progress := 1, pcs_IsActive := False,
            pcs_PeerID := meta_string m ''peer_id'', pcs_NodeID := meta_string m ''node_id'',
            pcs_PublicKey := meta_string m ''public_key'', pcs_AllocatedIP := meta_string m ''allocated_ip'',
            pcs_ServerPublicKey := meta_string m ''server_public_key'', pcs_ServerIP := meta_string m ''server_ip'',
            pcs_ServerPort := meta_int m ''server_port'',
            pcs_ClientPrivateKey := meta_string_opt m ''client_private_key'',
            pcs_LastUpdated := now, pcs_Metadata := m\<rparr>) t)"

definition handleConnectFailed :: "int \<Rightarrow> event \<Rightarrow> conn_tracker \<Rightarrow> conn_tracker" where
  "handleConnectFailed now e t =
     (let m = ev_meta e; requestID = meta_string m ''request_id''
      in AList.update requestID ((connection_state_of requestID now t)
           \<lparr>pcs_Phase := meta_string m ''phase'', pcs_IsActive := False, pcs_ErrorMessage := meta_string m ''error'',
            pcs_LastUpdated := now, pcs_Metadata := m\<rparr>) t)"

definition GetConnectionState :: "string \<Rightarrow> conn_tracker \<Rightarrow> PeerConnectionState option" where
  "GetConnectionState requestID t = map_of t requestID"

definition GetActiveConnections :: "(conn_tracker \<Rightarrow> conn_tracker) \<Rightarrow> conn_tracker \<Rightarrow> PeerConnectionState list" where
  "GetActiveConnections order t = filter (\<lambda>st. pcs_IsActive st \<and> pcs_Phase st \<noteq> ''completed'' \<and> pcs_ErrorMessage st = [])
     (map snd (order t))"

definition IsConnecting :: "conn_tracker \<Rightarrow> bool" where
  "IsConnecting t = list_ex (\<lambda>(_, st). pcs_IsActive st \<and> pcs_Phase st \<noteq> ''completed'' \<and> pcs_ErrorMessage st = [] \<and>
     pcs_Phase st \<noteq> ''requested'') t"

definition track_connection :: "int \<Rightarrow> event \<Rightarrow> conn_tracker \<Rightarrow> conn_tracker" where
  "track_connection now e t =
     (if ev_type e = EventPeerConnectRequested then handleConnectRequested now e t
      else if ev_type e = EventPeerConnectProgress then handleConnectProgress now e t
      else if ev_type e = EventPeerConnected then handleConnected now e t
      else if ev_type e = EventPeerConnectFailed then handleConnectFailed now e t
      else t)"

section \<open>Subscription\<close>

text \<open>\<open>subscribeToEvents\<close>: one handler for each type, in this order; an error is only logged.\<close>

fun subscribe_all :: "('m, 'w) gookit \<Rightarrow> (string \<times> 'w handler) list \<Rightarrow> 'm bus \<Rightarrow> 'm bus" where
  "subscribe_all gk [] b = b"
| "subscribe_all gk ((t, h) # hs) b = subscribe_all gk hs (snd (bus_Subscribe gk t h b))"

definition track_handler :: "nat \<Rightarrow> (event \<Rightarrow> 'w \<Rightarrow> 'w) \<Rightarrow> 'w handler" where
  "track_handler code f = \<lparr>h_code = code, h_run = (\<lambda>e t. (None, f e t))\<rparr>"

definition prov_subscribeToEvents ::
  "('m, prov_tracker) gookit \<Rightarrow> (prov_tracker \<Rightarrow> prov_tracker) \<Rightarrow> (event \<Rightarrow> int) \<Rightarrow> 'm bus \<Rightarrow> 'm bus" where
  "prov_subscribeToEvents gk order clk = subscribe_all gk
     [(EventProvisionRequested, track_handler 1 (\<lambda>e. handleProvisionRequested (clk e) e)),
      (EventProvisionProgress, track_handler 2 (\<lambda>e. handleProvisionProgress order (clk e) e)),
      (EventProvisionCompleted, track_handler 3 (\<lambda>e. handleProvisionCompleted (clk e) e)),
      (EventProvisionFailed, track_handler 4 (\<lambda>e. handleProvisionFailed (clk e) e))]"

definition conn_subscribeToEvents :: "('m, conn_tracker) gookit \<Rightarrow> (event \<Rightarrow> int) \<Rightarrow> 'm bus \<Rightarrow> 'm bus" where
  "conn_subscribeToEvents gk clk = subscribe_all gk
     [(EventPeerConnectRequested, track_handler 1 (\<lambda>e. handleConnectRequested (clk e) e)),
      (EventPeerConnectProgress, track_handler 2 (\<lambda>e. handleConnectProgress (clk e) e)),
      (EventPeerConnected, track_handler 3 (\<lambda>e. handleConnected (clk e) e)),
      (EventPeerConnectFailed, track_handler 4 (\<lambda>e. handleConnectFailed (clk e) e))]"

section \<open>Properties\<close>

lemma map_of_update_alist: "map_of (AList.update k v t) = (map_of t)(k \<mapsto> v)"
  by (simp add: update_conv')

lemma map_of_delete_alist: "map_of (AList.delete k t) = (map_of t)(k := None)"
  by (simp add: delete_conv')

lemma meta_update [simp]:
  "meta_string (m(k := v)) k' = (if k' = k then (case v of Some (EvString s) \<Rightarrow> s | _ \<Rightarrow> []) else meta_string m k')"
  "meta_float (m(k := v)) k' = (if k' = k then (case v of Some (EvFloat x) \<Rightarrow> x | _ \<Rightarrow> 0) else meta_float m k')"
  "meta_int (m(k := v)) k' = (if k' = k then (case v of Some (EvInt i) \<Rightarrow> i | _ \<Rightarrow> 0) else meta_int m k')"
  "meta_string_opt (m(k := v)) k' =
     (if k' = k then (case v of Some (EvString s) \<Rightarrow> Some s | _ \<Rightarrow> None) else meta_string_opt m k')"
  by (simp_all add: meta_string_def meta_float_def meta_int_def meta_string_opt_def)

lemma meta_empty [simp]: "meta_string Map.empty k = []" "meta_string_opt Map.empty k = None"
  by (simp_all add: meta_string_def meta_string_opt_def)

text \<open>A tracker is well formed when every entry is filed under its own node.\<close>

definition prov_tracker_ok :: "prov_tracker \<Rightarrow> bool" where
  "prov_tracker_ok t = (distinct (map fst t) \<and> (\<forall>(k, st)\<in>set t. pvs_NodeID st = k))"

lemma set_alist_update: "distinct (map fst t) \<Longrightarrow> x \<in> set (AList.update k v t) \<Longrightarrow> x = (k, v) \<or> x \<in> set t"
  by (induction t) (auto split: if_splits)

lemma prov_tracker_ok_update:
  assumes "prov_tracker_ok t" "pvs_NodeID st = k"
  shows "prov_tracker_ok (AList.update k st t)"
proof -
  have "distinct (map fst (AList.update k st t))"
    using assms(1) by (simp add: prov_tracker_ok_def distinct_update)
  moreover have "\<forall>x\<in>set (AList.update k st t). x = (k, st) \<or> x \<in> set t"
    using assms(1) set_alist_update unfolding prov_tracker_ok_def by metis
  ultimately show ?thesis using assms by (auto simp: prov_tracker_ok_def)
qed

lemma prov_tracker_ok_delete: "prov_tracker_ok t \<Longrightarrow> prov_tracker_ok (AList.delete k t)"
  by (auto simp: prov_tracker_ok_def distinct_delete AList.delete_eq)

lemma provisioning_state_of_id:
  assumes "prov_tracker_ok t" shows "pvs_NodeID (provisioning_state_of k now t) = k"
proof (cases "map_of t k")
  case (Some st)
  then have "(k, st) \<in> set t" by (rule map_of_SomeD)
  then show ?thesis using assms Some by (auto simp: prov_tracker_ok_def provisioning_state_of_def)
qed (simp add: provisioning_state_of_def new_provisioning_state_def)

lemma track_provisioning_ok: "prov_tracker_ok t \<Longrightarrow> prov_tracker_ok (track_provisioning order now e t)"
  unfolding track_provisioning_def handleProvisionRequested_def handleProvisionProgress_def
    handleProvisionCompleted_def handleProvisionFailed_def Let_def
  by (auto intro!: prov_tracker_ok_update prov_tracker_ok_delete
      simp: new_provisioning_state_def update_progress_def Let_def provisioning_state_of_id split: option.splits)

text \<open>Whatever events arrive, in whatever order, the provisioning tracker keeps one entry for each
  key and files every entry under the identifier of its own node.\<close>

theorem prov_tracker_invariant:
  "prov_tracker_ok (fold (\<lambda>(now, e). track_provisioning order now e) es [])"
proof -
  have *: "prov_tracker_ok t \<Longrightarrow> prov_tracker_ok (fold (\<lambda>(now, e). track_provisioning order now e) es t)" for t
    by (induction es arbitrary: t) (auto simp: track_provisioning_ok)
  show ?thesis by (rule *) (simp add: prov_tracker_ok_def)
qed

text \<open>The arrival estimate is never in the past while the share done is between one percent
  (exclusive) and all of the work.\<close>

theorem eta_not_past:
  assumes "1 / 100 < progress" "progress \<le> 1" "started \<le> now"
  shows "\<exists>eta. progress_eta now started progress old = Some eta \<and> now \<le> eta"
proof -
  have "of_int (now - started) * progress \<le> of_int (now - started) * 1"
    using assms by (intro mult_left_mono) auto
  then have "of_int (now - started) \<le> of_int (now - started) / progress"
    using assms by (simp add: pos_le_divide_eq)
  then have "now - started \<le> \<lfloor>of_int (now - started) / progress\<rfloor>" by (simp add: le_floor_iff)
  then show ?thesis using assms(1) by (simp add: progress_eta_def)
qed

theorem eta_not_past_witness:
  "\<exists>eta. progress_eta 7000 5000 (1 / 4) None = Some eta \<and> 7000 \<le> eta"
  by (rule eta_not_past) simp_all

subsection \<open>The connection tracker implements its specification\<close>

text \<open>The publications of the connection worker.\<close>

datatype conn_op =
    OpRequest string "string option" bool
  | OpProgress string string string rat string
  | OpConnected string PeerConnectedData int
  | OpFail string string go_error

fun conn_payload :: "conn_op \<Rightarrow> string \<times> ev_metadata" where
  "conn_payload (OpRequest i key gen) = peer_connect_requested i key gen"
| "conn_payload (OpProgress i pid phase p msg) = peer_connect_progress i pid phase p msg None"
| "conn_payload (OpConnected i c dur) = peer_connected i c dur"
| "conn_payload (OpFail i phase e) = peer_connect_failed i phase e"

definition conn_event :: "string \<Rightarrow> int \<Rightarrow> conn_op \<Rightarrow> event" where
  "conn_event uuid now op' = NewBaseEvent uuid now (fst (conn_payload op')) (snd (conn_payload op'))"

text \<open>The phases the worker uses are neither of the two the tracker sets itself.\<close>

fun conn_op_ok :: "conn_op \<Rightarrow> bool" where
  "conn_op_ok (OpProgress i pid phase p msg) = (phase \<noteq> ''requested'')"
| "conn_op_ok (OpFail i phase e) = (phase \<noteq> ''completed'')"
| "conn_op_ok _ = True"

text \<open>Specification: each request has the peer made for it and a stage.\<close>

datatype conn_stage =
    StRequested
  | StRunning string rat
  | StConnected PeerConnectedData
  | StFailed string string

type_synonym conn_spec = "string \<rightharpoonup> string \<times> conn_stage"

definition spec_peer :: "conn_spec \<Rightarrow> string \<Rightarrow> string" where
  "spec_peer m i = (case m i of None \<Rightarrow> [] | Some (pid, _) \<Rightarrow> pid)"

fun conn_spec_step :: "conn_op \<Rightarrow> conn_spec \<Rightarrow> conn_spec" where
  "conn_spec_step (OpRequest i key gen) m = m(i \<mapsto> ([], StRequested))"
| "conn_spec_step (OpProgress i pid phase p msg) m =
     m(i \<mapsto> (if pid \<noteq> [] then pid else spec_peer m i, StRunning phase p))"
| "conn_spec_step (OpConnected i c dur) m = m(i \<mapsto> (pcd_PeerID c, StConnected c))"
| "conn_spec_step (OpFail i phase e) m = m(i \<mapsto> (spec_peer m i, StFailed phase (error_text e)))"

definition abs_stage :: "PeerConnectionState \<Rightarrow> conn_stage" where
  "abs_stage st =
     (if pcs_IsActive st then
        (if pcs_Phase st = ''requested'' then StRequested else StRunning (pcs_Phase st) (pcs_Progress st))
      else if pcs_Phase st = ''completed'' then
        StConnected \<lparr>pcd_PeerID = pcs_PeerID st, pcd_NodeID = pcs_NodeID st, pcd_PublicKey = pcs_PublicKey st,
          pcd_AllocatedIP = pcs_AllocatedIP st, pcd_ServerPublicKey = pcs_ServerPublicKey st,
          pcd_ServerIP = pcs_ServerIP st, pcd_ServerPort = pcs_ServerPort st,
          pcd_ClientPrivateKey = pcs_ClientPrivateKey st\<rparr>
      else StFailed (pcs_Phase st) (pcs_ErrorMessage st))"

definition abs_tracker :: "conn_tracker \<Rightarrow> conn_spec" where
  "abs_tracker t = (\<lambda>i. map_option (\<lambda>st. (pcs_PeerID st, abs_stage st)) (map_of t i))"

lemma abs_tracker_update: "abs_tracker (AList.update k st t) = (abs_tracker t)(k \<mapsto> (pcs_PeerID st, abs_stage st))"
  by (auto simp: abs_tracker_def map_of_update_alist)

lemma connection_state_peer: "pcs_PeerID (connection_state_of i now t) = spec_peer (abs_tracker t) i"
  by (auto simp: connection_state_of_def spec_peer_def abs_tracker_def new_connection_state_def split: option.splits)

lemma UnpackError_text: "UnpackError e = (a, b, msg, r, md, c) \<Longrightarrow> msg = error_text e"
  by (cases e) (auto simp: UnpackError_def)

lemma track_connection_refines:
  assumes "conn_op_ok op'"
  shows "abs_tracker (track_connection now (conn_event uuid sent op') t) = conn_spec_step op' (abs_tracker t)"
proof (cases op')
  case (OpRequest i key gen)
  then show ?thesis
    by (auto simp: track_connection_def conn_event_def NewBaseEvent_def peer_connect_requested_def Let_def
        handleConnectRequested_def abs_tracker_update abs_stage_def new_connection_state_def split: option.splits)
next
  case (OpProgress i pid phase p msg)
  then show ?thesis
    using assms
    by (auto simp: track_connection_def conn_event_def NewBaseEvent_def peer_connect_progress_def Let_def
        handleConnectProgress_def abs_tracker_update abs_stage_def connection_state_peer)
next
  case (OpConnected i c dur)
  then show ?thesis
    by (cases c; cases "pcd_ClientPrivateKey c")
      (simp_all add: track_connection_def conn_event_def NewBaseEvent_def peer_connected_def Let_def
        handleConnected_def abs_tracker_update abs_stage_def)
next
  case (OpFail i phase e)
  obtain a b msg r md c where u: "UnpackError e = (a, b, msg, r, md, c)" by (metis surj_pair)
  then show ?thesis
    using assms OpFail UnpackError_text [OF u]
    by (auto simp: track_connection_def conn_event_def NewBaseEvent_def peer_connect_failed_def Let_def
        handleConnectFailed_def abs_tracker_update abs_stage_def connection_state_peer)
qed

text \<open>C36: publishing an operation of the connection worker and letting the tracker decode the event does
  to the tracked requests what the specification says: the payload loses nothing, each operation moves
  its own request only, and the details of a connection arrive unchanged.\<close>

theorem conn_tracker_refinement:
  assumes "list_all (conn_op_ok \<circ> snd) ops"
  shows "abs_tracker (fold (\<lambda>(now, op'). track_connection now (conn_event uuid now op')) ops t) =
    fold (\<lambda>(now, op'). conn_spec_step op') ops (abs_tracker t)"
  using assms by (induction ops arbitrary: t) (auto simp: track_connection_refines)

theorem conn_tracker_refinement_witness:
  "abs_tracker (fold (\<lambda>(now, op'). track_connection now (conn_event ''u'' now op'))
      [(0, OpRequest ''r1'' None True), (5, OpProgress ''r1'' [] ''selecting_node'' (1 / 10) ''Selecting''),
       (9, OpFail ''r1'' ''node_selection'' (PlainError ''no nodes''))] []) =
    fold (\<lambda>(now, op'). conn_spec_step op')
      [(0 :: int, OpRequest ''r1'' None True), (5, OpProgress ''r1'' [] ''selecting_node'' (1 / 10) ''Selecting''),
       (9, OpFail ''r1'' ''node_selection'' (PlainError ''no nodes''))] (abs_tracker [])"
  by (rule conn_tracker_refinement) simp

subsection \<open>Delivery\<close>

lemma subscribe_all_listeners:
  assumes doc: "gookit_documented gk listeners" and dist: "distinct (map fst hs)"
    and "\<not> bus_closed b" "\<forall>t\<in>set (map fst hs). listeners (bus_manager b) t = []"
  shows "\<not> bus_closed (subscribe_all gk hs b) \<and>
    (\<forall>t. listeners (bus_manager (subscribe_all gk hs b)) t =
       (case map_of hs t of Some h \<Rightarrow> [h_run h] | None \<Rightarrow> listeners (bus_manager b) t))"
  using dist assms(3,4)
proof (induction hs arbitrary: b)
  case (Cons th hs)
  obtain t h where th: "th = (t, h)" by (cases th)
  define b1 where "b1 = snd (bus_Subscribe gk t h b)"
  have m: "bus_manager b1 = gk_on gk t PriorityNormal (h_run h) (bus_manager b)" "\<not> bus_closed b1"
    using Cons.prems(2) by (simp_all add: b1_def bus_Subscribe_def bus_SubscribeWithPriority_def)
  obtain xs ys where "listeners (bus_manager b) t = xs @ ys" "listeners (bus_manager b1) t = xs @ h_run h # ys"
    using doc unfolding gookit_documented_def m(1) by blast
  then have l: "listeners (bus_manager b1) t = [h_run h]" using Cons.prems(3) th by simp
  have other: "listeners (bus_manager b1) t' = listeners (bus_manager b) t'" if "t' \<noteq> t" for t'
    using doc that unfolding gookit_documented_def m(1) by blast
  have nin: "t \<notin> fst ` set hs" using Cons.prems(1) th by simp
  then have "map_of hs t = None" by (simp add: map_of_eq_None_iff)
  moreover have "\<forall>t'\<in>set (map fst hs). listeners (bus_manager b1) t' = []"
  proof
    fix t' assume "t' \<in> set (map fst hs)"
    with nin have "t' \<noteq> t" "t' \<in> set (map fst (th # hs))" by auto
    moreover from this(2) have "listeners (bus_manager b) t' = []" using Cons.prems(3) by blast
    ultimately show "listeners (bus_manager b1) t' = []" using other by simp
  qed
  ultimately show ?case
    using Cons.IH [of b1] Cons.prems(1) m(2) l other th
    by (auto simp: b1_def [symmetric] split: option.splits)
qed simp

text \<open>On a fresh bus over a manager that behaves as documented, once the provisioning tracker has
  subscribed, publishing any event succeeds and changes the tracker exactly as the handler of its type
  does, and not at all for a type no handler is subscribed to.\<close>

theorem provisioning_events_reach_tracker:
  assumes doc: "gookit_documented gk listeners" and fresh: "\<And>t. listeners m t = []"
  shows "bus_Publish gk e (prov_subscribeToEvents gk order clk (NewGookitEventBus m), t) =
    (Inr (), (prov_subscribeToEvents gk order clk (NewGookitEventBus m), track_provisioning order (clk e) e t))"
proof -
  let ?hs = "[(EventProvisionRequested, track_handler 1 (\<lambda>e. handleProvisionRequested (clk e) e)),
      (EventProvisionProgress, track_handler 2 (\<lambda>e. handleProvisionProgress order (clk e) e)),
      (EventProvisionCompleted, track_handler 3 (\<lambda>e. handleProvisionCompleted (clk e) e)),
      (EventProvisionFailed, track_handler 4 (\<lambda>e. handleProvisionFailed (clk e) e))]"
  let ?b = "subscribe_all gk ?hs (NewGookitEventBus m)"
  have b: "\<not> bus_closed ?b" "\<And>t. listeners (bus_manager ?b) t = (case map_of ?hs t of Some h \<Rightarrow> [h_run h] | None \<Rightarrow> [])"
    using subscribe_all_listeners [OF doc, of ?hs "NewGookitEventBus m"] fresh by (simp_all add: NewGookitEventBus_def)
  have fire: "gk_fire gk (ev_type e) e (bus_manager ?b) t = run_listeners (listeners (bus_manager ?b) (ev_type e)) e t"
    using doc by (simp add: gookit_documented_def)
  have "gk_fire gk (ev_type e) e (bus_manager ?b) t = (None, track_provisioning order (clk e) e t)"
    unfolding fire b(2) by (simp add: track_handler_def track_provisioning_def)
  then show ?thesis using b(1) by (simp add: prov_subscribeToEvents_def bus_Publish_def)
qed

theorem provisioning_events_reach_tracker_witness:
  "bus_Publish table_gookit example_event
      (prov_subscribeToEvents table_gookit id (\<lambda>_. 0) (NewGookitEventBus (\<lambda>_. [])), []) =
    (Inr (), (prov_subscribeToEvents table_gookit id (\<lambda>_. 0) (NewGookitEventBus (\<lambda>_. [])),
      track_provisioning id ((\<lambda>_. 0) example_event) example_event []))"
  by (rule provisioning_events_reach_tracker [OF table_gookit_documented]) simp

end
