(* ===== verification/Provisioning.thy ===== *)
theory Provisioning
  imports IpService NodeModel Trackers
begin

text \<open>
  \<open>internal/rotator/services/provisioning_service.go\<close>: the phases of a provisioning run, their
  rollback, the destruction of a node and the worker behind the event bus. The cloud, the health check
  and time are parameters that act on a state \<open>'w\<close> of the world. A context that is cancelled or past
  its deadline shows as statements and calls that fail.
\<close>

section \<open>State and environment\<close>

record ProvisioningConfig =
  pcfg_Region :: string
  pcfg_InstanceType :: string
  pcfg_ImageID :: string
  pcfg_SSHKeyName :: string
  pcfg_Tags :: "string \<rightharpoonup> string"
  pcfg_UserData :: string
  pcfg_Subnet :: IPNet
  pcfg_SSHPublicKey :: string

record ProvisionedNode =
  pn_ServerID :: string
  pn_IPAddress :: string
  pn_PublicKey :: string
  pn_Status :: string
  pn_Region :: string

text \<open>The fields of the configuration that a modelled operation reads; the timeouts are in \<open>env_ticks\<close> and in
  the failing calls, the others are read nowhere.\<close>

record ProvisioningServiceConfig =
  ps_ETAHistoryRetention :: int
  ps_DefaultProvisioningETA :: int
  ps_CleanupOnFailure :: bool
  ps_DefaultRegion :: string
  ps_DefaultInstanceType :: string
  ps_DefaultImageID :: string
  ps_DefaultSSHKey :: string
  ps_DefaultTags :: "string \<rightharpoonup> string"

text \<open>\<open>env_ticks\<close> is the number of ticks the readiness loop takes from its ticker before the deadline is
  the case that \<open>select\<close> picks, \<open>env_ctx_err\<close> the error of the context then; \<open>env_order\<close> is the order in
  which the map of the tracker is traversed.\<close>

record 'w prov_env =
  env_now :: "'w \<Rightarrow> int \<times> 'w"
  env_uuid :: "'w \<Rightarrow> string \<times> 'w"
  env_provision :: "ProvisioningConfig \<Rightarrow> 'w \<Rightarrow> ProvisionedNode res \<times> 'w"
  env_destroy :: "string \<Rightarrow> 'w \<Rightarrow> unit res \<times> 'w"
  env_health :: "string \<Rightarrow> 'w \<Rightarrow> NodeHealthStatus res \<times> 'w"
  env_ticks :: "'w \<Rightarrow> nat \<times> 'w"
  env_ctx_err :: go_error
  env_order :: "prov_tracker \<Rightarrow> prov_tracker"

text \<open>The state a run works on: database, tracker, whether the bus is open, world.\<close>

record 'w prov =
  pv_db :: Db
  pv_tracker :: prov_tracker
  pv_open :: bool
  pv_durations :: "string \<rightharpoonup> int"
  pv_world :: 'w

type_synonym ('w, 'a) prov_op = "'w prov \<Rightarrow> 'a res \<times> 'w prov"

definition on_db :: "(Db \<Rightarrow> 'a res \<times> Db) \<Rightarrow> ('w, 'a) prov_op" where
  "on_db f s = (case f (pv_db s) of (r, d) \<Rightarrow> (r, s\<lparr>pv_db := d\<rparr>))"

definition on_world :: "('w \<Rightarrow> 'a res \<times> 'w) \<Rightarrow> ('w, 'a) prov_op" where
  "on_world f s = (case f (pv_world s) of (r, w) \<Rightarrow> (r, s\<lparr>pv_world := w\<rparr>))"

definition ask :: "('w \<Rightarrow> 'a \<times> 'w) \<Rightarrow> ('w, 'a) prov_op" where
  "ask f s = (case f (pv_world s) of (x, w) \<Rightarrow> (Inr x, s\<lparr>pv_world := w\<rparr>))"

section \<open>Reports\<close>

text \<open>\<open>PublishSimple\<close>: an open bus hands the event to the tracker.\<close>

definition deliver :: "'w prov_env \<Rightarrow> event \<Rightarrow> int \<Rightarrow> ('w, unit) prov_op" where
  "deliver env e now s = (Inr (), s\<lparr>pv_tracker := track_provisioning (env_order env) now e (pv_tracker s)\<rparr>)"

definition publish :: "'w prov_env \<Rightarrow> string \<times> ev_metadata \<Rightarrow> ('w, unit) prov_op" where
  "publish env payload =
     bindS (ask (env_uuid env)) (\<lambda>uuid. bindS (ask (env_now env)) (\<lambda>created. bindS getS (\<lambda>s.
       if \<not> pv_open s then failS (PlainError ''event bus is closed'')
       else bindS (ask (env_now env)) (deliver env (NewBaseEvent uuid created (fst payload) (snd payload))))))"

text \<open>The callers drop the error.\<close>

definition quiet :: "('w, 'a) prov_op \<Rightarrow> ('w, unit) prov_op" where
  "quiet m s = (Inr (), snd (m s))"

definition reportProgress ::
  "'w prov_env \<Rightarrow> string \<Rightarrow> string \<Rightarrow> rat \<Rightarrow> string \<Rightarrow> ev_metadata option \<Rightarrow> ('w, unit) prov_op" where
  "reportProgress env nodeID phase progress message metadata =
     quiet (publish env (provision_progress nodeID phase progress message metadata))"

definition reportPhaseStart :: "'w prov_env \<Rightarrow> string \<Rightarrow> string \<Rightarrow> string \<Rightarrow> ('w, unit) prov_op" where
  "reportPhaseStart env nodeID phase message = quiet (publish env (provision_progress nodeID phase 0 message None))"

definition reportError :: "'w prov_env \<Rightarrow> string \<Rightarrow> string \<Rightarrow> go_error \<Rightarrow> ('w, unit) prov_op" where
  "reportError env nodeID phase e = quiet (publish env (provision_failed nodeID phase e))"

section \<open>Rollback\<close>

record provisioningRollback =
  rb_nodeID :: string
  rb_serverID :: string
  rb_allocated :: "string set"

definition rollback_execute :: "'w prov_env \<Rightarrow> provisioningRollback \<Rightarrow> ('w, unit) prov_op" where
  "rollback_execute env rb =
     bindS (if ''cloud'' \<in> rb_allocated rb \<and> rb_serverID rb \<noteq> []
            then quiet (on_world (env_destroy env (rb_serverID rb))) else returnS ()) (\<lambda>_.
     bindS (if ''subnet'' \<in> rb_allocated rb
            then quiet (on_db (ReleaseNodeSubnet (rb_nodeID rb))) else returnS ()) (\<lambda>_.
     quiet (on_db (nodeRepo_Delete (rb_nodeID rb)))))"

definition performRollback ::
  "'w prov_env \<Rightarrow> ProvisioningServiceConfig \<Rightarrow> provisioningRollback \<Rightarrow> ('w, unit) prov_op" where
  "performRollback env cfg rb = (if \<not> ps_CleanupOnFailure cfg then returnS () else rollback_execute env rb)"

text \<open>What \<open>provisionNode\<close> does after a step fails: report, roll back, return the error.\<close>

definition step_failed :: "'w prov_env \<Rightarrow> string \<Rightarrow> string \<Rightarrow> ('w, unit) prov_op \<Rightarrow> ('w, 'a) prov_op \<Rightarrow> ('w, 'a) prov_op" where
  "step_failed env nodeID phase undo m s =
     (case m s of
        (Inr x, s') \<Rightarrow> (Inr x, s')
      | (Inl e, s') \<Rightarrow> (Inl e, snd (bindS (reportError env nodeID phase e) (\<lambda>_. undo) s')))"

section \<open>Steps\<close>

definition createProvisioningRecord :: "string \<Rightarrow> ('w, Node) prov_op" where
  "createProvisioningRecord nodeID = on_db (\<lambda>d.
     bindS (liftS (NewNode nodeID ''0.0.0.0'' nodeID 51820 (clock d))) nodeRepo_Create d)"

definition allocateSubnet ::
  "NetworkConfig \<Rightarrow> string \<Rightarrow> provisioningRollback \<Rightarrow> ('w, IPNet \<times> provisioningRollback) prov_op" where
  "allocateSubnet c nodeID rb = bindS (on_db (AllocateNodeSubnet_db c nodeID))
     (\<lambda>subnet. returnS (subnet, rb\<lparr>rb_allocated := insert ''subnet'' (rb_allocated rb)\<rparr>))"

definition getConfigValue :: "string \<Rightarrow> string \<Rightarrow> string" where
  "getConfigValue configValue defaultValue = (if configValue \<noteq> [] then configValue else defaultValue)"

definition getDefaultTags :: "ProvisioningServiceConfig \<Rightarrow> string \<rightharpoonup> string" where
  "getDefaultTags cfg = [''service'' \<mapsto> ''vpn-rotator'', ''type'' \<mapsto> ''vpn-node''] ++ ps_DefaultTags cfg"

definition cloud_config :: "ProvisioningServiceConfig \<Rightarrow> IPNet \<Rightarrow> ProvisioningConfig" where
  "cloud_config cfg subnet =
     \<lparr>pcfg_Region = getConfigValue (ps_DefaultRegion cfg) ''nbg1'',
      pcfg_InstanceType = getConfigValue (ps_DefaultInstanceType cfg) ''cx11'',
      pcfg_ImageID = getConfigValue (ps_DefaultImageID cfg) ''ubuntu-22.04'', pcfg_SSHKeyName = [],
      pcfg_Tags = getDefaultTags cfg, pcfg_UserData = [], pcfg_Subnet = subnet, pcfg_SSHPublicKey = ps_DefaultSSHKey cfg\<rparr>"

definition provisionCloudInfrastructure ::
  "'w prov_env \<Rightarrow> ProvisioningServiceConfig \<Rightarrow> string \<Rightarrow> IPNet \<Rightarrow> provisioningRollback
     \<Rightarrow> ('w, ProvisionedNode \<times> provisioningRollback) prov_op" where
  "provisionCloudInfrastructure env cfg nodeID subnet rb =
     bindS (reportProgress env nodeID ''cloud_provision'' (15 / 100) ''Preparing cloud configuration'' None) (\<lambda>_.
     bindS (reportProgress env nodeID ''cloud_provision'' (20 / 100) ''Creating cloud server'' None) (\<lambda>_.
     bindS (map_errS (\<lambda>e. WrapWithDomain e DomainProvisioning ErrCodeProvisionFailed ''cloud provisioner failed'' True)
              (on_world (env_provision env (cloud_config cfg subnet)))) (\<lambda>pn.
     bindS (reportProgress env nodeID ''cloud_provision'' (40 / 100) ''Waiting for cloud-init to complete''
              (Some [''server_id'' \<mapsto> EvString (pn_ServerID pn), ''ip_address'' \<mapsto> EvString (pn_IPAddress pn)])) (\<lambda>_.
     bindS (reportProgress env nodeID ''cloud_provision'' (60 / 100) ''Cloud-init completed'' None) (\<lambda>_.
     returnS (pn, rb\<lparr>rb_allocated := insert ''cloud'' (rb_allocated rb), rb_serverID := pn_ServerID pn\<rparr>))))))"

definition with_details :: "ProvisionedNode \<Rightarrow> int \<Rightarrow> Node \<Rightarrow> Node" where
  "with_details pn now n = n\<lparr>nd_ServerID := pn_ServerID pn, nd_IPAddress := pn_IPAddress pn,
     nd_ServerPublicKey := pn_PublicKey pn, nd_UpdatedAt := now, nd_Version := nd_Version n + 1\<rparr>"

definition updateNodeDetails ::
  "Node \<Rightarrow> ProvisionedNode \<Rightarrow> provisioningRollback \<Rightarrow> ('w, Node \<times> provisioningRollback) prov_op" where
  "updateNodeDetails n pn rb = bindS getS (\<lambda>s.
     let n' = with_details pn (clock (pv_db s)) n
     in bindS (on_db (nodeRepo_Update n')) (\<lambda>_.
        returnS (n', rb\<lparr>rb_allocated := insert ''details'' (rb_allocated rb)\<rparr>)))"

text \<open>The loop of \<open>waitForNodeReadiness\<close>: \<open>attempt\<close> ticks were taken, the argument after it is the
  number still to come before the deadline.\<close>

fun readiness_loop :: "'w prov_env \<Rightarrow> string \<Rightarrow> string \<Rightarrow> nat \<Rightarrow> nat \<Rightarrow> ('w, unit) prov_op" where
  "readiness_loop env nodeID nodeIP attempt 0 =
     failS (WithMetadata (WithMetadata
       (NewInfrastructureError ErrCodeSSHTimeout ''timed out waiting for node to be ready'' True (Some (env_ctx_err env)))
       ''node_id'' (MString nodeID)) ''ip'' (MString nodeIP))"
| "readiness_loop env nodeID nodeIP attempt (Suc n) =
     bindS (reportProgress env nodeID ''ssh_connection'' (75 / 100)
       (''Checking node readiness (attempt '' @ dec (Suc attempt) @ '')'') None) (\<lambda>_.
     bindS (tryS (on_world (env_health env nodeIP))) (\<lambda>r.
       case r of
         Inr h \<Rightarrow> if nh_IsHealthy h then returnS () else readiness_loop env nodeID nodeIP (Suc attempt) n
       | Inl _ \<Rightarrow> readiness_loop env nodeID nodeIP (Suc attempt) n))"

definition waitForNodeReadiness :: "'w prov_env \<Rightarrow> string \<Rightarrow> string \<Rightarrow> ('w, unit) prov_op" where
  "waitForNodeReadiness env nodeID nodeIP = bindS (ask (env_ticks env)) (readiness_loop env nodeID nodeIP 0)"

definition activateNode :: "Node \<Rightarrow> ('w, Node) prov_op" where
  "activateNode n = bindS getS (\<lambda>s.
     bindS (liftS (Node_UpdateStatus (clock (pv_db s)) StatusActive n)) (\<lambda>n'.
     bindS (on_db (nodeRepo_Update n')) (\<lambda>_. returnS n')))"

section \<open>A run\<close>

text \<open>The phases for a given node identifier; \<open>start\<close> is when the operation started.\<close>

definition provision_phases ::
  "'w prov_env \<Rightarrow> ProvisioningServiceConfig \<Rightarrow> NetworkConfig \<Rightarrow> int \<Rightarrow> string \<Rightarrow> ('w, Node) prov_op" where
  "provision_phases env cfg c start nodeID =
     (let rb = \<lparr>rb_nodeID = nodeID, rb_serverID = [], rb_allocated = {}\<rparr> in
     bindS (reportPhaseStart env nodeID ''initialization'' ''Starting node provisioning'') (\<lambda>_.
     bindS (step_failed env nodeID ''initialization'' (returnS ()) (createProvisioningRecord nodeID)) (\<lambda>n.
     bindS (reportProgress env nodeID ''initialization'' (5 / 100) ''Database record created'' None) (\<lambda>_.
     bindS (reportPhaseStart env nodeID ''subnet_allocation'' ''Allocating IP subnet'') (\<lambda>_.
     bindS (step_failed env nodeID ''subnet_allocation'' (performRollback env cfg rb)
              (allocateSubnet c nodeID rb)) (\<lambda>(subnet, rb1).
     bindS (reportProgress env nodeID ''subnet_allocation'' (10 / 100) ''Subnet allocated'' None) (\<lambda>_.
     bindS (reportPhaseStart env nodeID ''cloud_provision'' ''Provisioning cloud infrastructure'') (\<lambda>_.
     bindS (step_failed env nodeID ''cloud_provision'' (performRollback env cfg rb1)
              (provisionCloudInfrastructure env cfg nodeID subnet rb1)) (\<lambda>(pn, rb2).
     bindS (reportProgress env nodeID ''cloud_provision'' (65 / 100) ''Cloud server created'' None) (\<lambda>_.
     bindS (reportProgress env nodeID ''cloud_provision'' (70 / 100)
              ''Updating database with provisioned details'' None) (\<lambda>_.
     bindS (step_failed env nodeID ''cloud_provision'' (performRollback env cfg rb2)
              (updateNodeDetails n pn rb2)) (\<lambda>(n1, rb3).
     bindS (reportPhaseStart env nodeID ''ssh_connection'' ''Waiting for SSH and node readiness'') (\<lambda>_.
     bindS (step_failed env nodeID ''ssh_connection'' (performRollback env cfg rb3)
              (waitForNodeReadiness env nodeID (pn_IPAddress pn))) (\<lambda>_.
     bindS (reportProgress env nodeID ''ssh_connection'' (85 / 100) ''Node is ready and accessible'' None) (\<lambda>_.
     bindS (reportProgress env nodeID ''health_check'' (90 / 100) ''Health checks passed'' None) (\<lambda>_.
     bindS (reportPhaseStart env nodeID ''activation'' ''Activating node'') (\<lambda>_.
     bindS (step_failed env nodeID ''activation'' (performRollback env cfg rb3) (activateNode n1)) (\<lambda>n2.
     bindS (reportProgress env nodeID ''activation'' (95 / 100) ''Node activated successfully'' None) (\<lambda>_.
     bindS (ask (env_now env)) (\<lambda>now.
     bindS (reportProgress env nodeID ''completed'' 1 ''Node provisioning completed''
              (Some [''duration_seconds'' \<mapsto> EvFloat (of_int (now - start) / 1000000000)])) (\<lambda>_.
     bindS (quiet (publish env (provision_completed nodeID (pn_ServerID pn) (pn_IPAddress pn) (now - start)))) (\<lambda>_.
     bindS (tryS (on_db (nodeRepo_GetByID nodeID))) (\<lambda>r.
     returnS (case r of Inr final \<Rightarrow> final | Inl _ \<Rightarrow> n2))))))))))))))))))))))))"

definition provisionNode ::
  "'w prov_env \<Rightarrow> ProvisioningServiceConfig \<Rightarrow> NetworkConfig \<Rightarrow> ('w, Node) prov_op" where
  "provisionNode env cfg c =
     bindS (ask (env_now env)) (\<lambda>start. bindS (ask (env_now env)) (\<lambda>t.
       provision_phases env cfg c start (''node-'' @ dec (nat t))))"

section \<open>Service\<close>

definition prov_destroyNode :: "'w prov_env \<Rightarrow> string \<Rightarrow> ('w, unit) prov_op" where
  "prov_destroyNode env nodeID =
     bindS (on_db (nodeRepo_GetByID nodeID)) (\<lambda>n.
     bindS (liftS (Node_ValidateForDestruction n)) (\<lambda>_.
     bindS getS (\<lambda>s.
     bindS (liftS (Node_UpdateStatus (clock (pv_db s)) StatusDestroying n)) (\<lambda>n'.
     bindS (on_db (nodeRepo_Update n')) (\<lambda>_.
     bindS (quiet (on_db (ReleaseNodeSubnet nodeID))) (\<lambda>_.
     bindS (if nd_ServerID n' \<noteq> [] then quiet (on_world (env_destroy env (nd_ServerID n'))) else returnS ()) (\<lambda>_.
     on_db (nodeRepo_Delete nodeID))))))))"

text \<open>The moving average of the durations, \<open>float64\<close> as rationals; the conversion to \<open>int64\<close> truncates.\<close>

definition truncate :: "rat \<Rightarrow> int" where
  "truncate x = (if x < 0 then - \<lfloor>- x\<rfloor> else \<lfloor>x\<rfloor>)"

definition updateHistoricalDuration :: "ProvisioningServiceConfig \<Rightarrow> string \<Rightarrow> int \<Rightarrow> ('w, unit) prov_op" where
  "updateHistoricalDuration cfg phase duration s =
     (Inr (), s\<lparr>pv_durations := (pv_durations s)(phase \<mapsto>
        (case pv_durations s phase of
           None \<Rightarrow> duration
         | Some existing \<Rightarrow>
             (let weight = of_int (ps_ETAHistoryRetention cfg) / (of_int (ps_ETAHistoryRetention cfg) + 1)
              in truncate (weight * of_int existing + (1 - weight) * of_int duration))))\<rparr>)"

definition getDefaultPhaseDurations :: "string \<rightharpoonup> int" where
  "getDefaultPhaseDurations =
     [''total'' \<mapsto> 180000000000, ''validation'' \<mapsto> 5000000000, ''ip_allocation'' \<mapsto> 10000000000,
      ''cloud_provision'' \<mapsto> 120000000000, ''ssh_connection'' \<mapsto> 30000000000,
      ''wireguard_setup'' \<mapsto> 15000000000, ''health_check'' \<mapsto> 30000000000]"

definition runProvisioningWithCleanup ::
  "'w prov_env \<Rightarrow> ProvisioningServiceConfig \<Rightarrow> NetworkConfig \<Rightarrow> ('w, Node) prov_op" where
  "runProvisioningWithCleanup env cfg c =
     bindS (ask (env_now env)) (\<lambda>started.
     bindS (provisionNode env cfg c) (\<lambda>n.
     bindS (ask (env_now env)) (\<lambda>now.
     bindS (updateHistoricalDuration cfg ''total'' (now - started)) (\<lambda>_. returnS n))))"

definition in_progress_error :: go_error where
  "in_progress_error = NewSystemError ErrCodeProvisionInProgress ''provisioning already in progress'' False None"

definition ProvisionNodeSync ::
  "'w prov_env \<Rightarrow> ProvisioningServiceConfig \<Rightarrow> NetworkConfig \<Rightarrow> ('w, Node) prov_op" where
  "ProvisionNodeSync env cfg c = bindS (ask (env_now env)) (\<lambda>started. bindS getS (\<lambda>s.
     if IsProvisioning (pv_tracker s) then failS in_progress_error
     else bindS (provisionNode env cfg c) (\<lambda>n.
       bindS (ask (env_now env)) (\<lambda>now.
       bindS (updateHistoricalDuration cfg ''total'' (now - started)) (\<lambda>_. returnS n)))))"

definition ProvisionNodeAsync :: "'w prov_env \<Rightarrow> ('w, unit) prov_op" where
  "ProvisionNodeAsync env = bindS getS (\<lambda>s.
     if IsProvisioning (pv_tracker s) then failS in_progress_error
     else bindS (ask (env_now env)) (\<lambda>t.
       map_errS (\<lambda>e. WrapWithDomain e DomainEvent ''publish_failed'' ''failed to publish provision request'' True)
         (publish env (provision_requested (''provision-'' @ dec (nat t)) ''rotator''))))"

text \<open>The worker's handler: whether it starts a run in the background.\<close>

definition handleProvisionRequest :: "prov_tracker \<Rightarrow> bool" where
  "handleProvisionRequest t = (\<not> IsProvisioning t)"

definition prov_DestroyNode :: "'w prov_env \<Rightarrow> string \<Rightarrow> ('w, unit) prov_op" where
  "prov_DestroyNode env nodeID = prov_destroyNode env nodeID"

definition GetCurrentStatus :: "'w prov_env \<Rightarrow> prov_tracker \<Rightarrow> ProvisioningState option" where
  "GetCurrentStatus env t = GetActiveProvisioning (env_order env) t"

definition prov_GetEstimatedWaitTime :: "'w prov_env \<Rightarrow> ProvisioningServiceConfig \<Rightarrow> int \<Rightarrow> prov_tracker \<Rightarrow> int" where
  "prov_GetEstimatedWaitTime env cfg now t =
     (let waitTime = tracker_EstimatedWaitTime (env_order env) now t
      in if waitTime > 0 then waitTime else ps_DefaultProvisioningETA cfg)"

end
