(* ===== verification/ProvisioningRun.thy ===== *)
theory ProvisioningRun
  imports Provisioning
begin

text \<open>
  What a provisioning run changes, proved over its elementary steps: only the rows of its own node, the
  invariants of the store, the tracker, and the state the rollback leaves.
\<close>

section \<open>What a run changes\<close>

lemma stays_bindS_result:
  assumes "transp R" "stays R m" "\<And>x s s'. m s = (Inr x, s') \<Longrightarrow> stays R (f x)"
  shows "stays R (bindS m f)"
  unfolding stays_def
proof
  fix s
  obtain r s1 where m: "m s = (r, s1)" by (metis surj_pair)
  have "R s s1" using assms(2) m by (rule staysD)
  then show "R s (snd (bindS m f s))"
    using assms(1) assms(3) [of s _ s1] m by (cases r) (auto simp: bindS_def transp_def stays_def)
qed

lemma stays_if: "stays R a \<Longrightarrow> stays R b \<Longrightarrow> stays R (if P then a else b)"
  by simp

lemma stays_quiet: "stays R m \<Longrightarrow> stays R (quiet m)"
  by (simp add: stays_def quiet_def)

text \<open>The reports of the run for one node.\<close>

definition prov_event :: "string \<Rightarrow> string \<times> ev_metadata \<Rightarrow> bool" where
  "prov_event i p = (meta_string (snd p) ''node_id'' = i \<and>
     fst p \<in> {EventProvisionProgress, EventProvisionCompleted, EventProvisionFailed})"

lemma prov_event_payloads [simp]:
  "prov_event i (provision_progress i phase p msg m)"
  "prov_event i (provision_completed i sid ip dur)"
  "prov_event i (provision_failed i phase e)"
  by (simp_all add: prov_event_def provision_progress_def provision_completed_def provision_failed_def case_prod_beta)

text \<open>What the run for node \<open>i\<close> relies on to stay inside a relation \<open>R\<close>: its elementary steps do.\<close>

locale run_steps =
  fixes R :: "'w prov \<Rightarrow> 'w prov \<Rightarrow> bool" and i :: string and c :: NetworkConfig
  assumes R_refl: "reflp R" and R_trans: "transp R"
    and R_world: "R s (s\<lparr>pv_world := w\<rparr>)"
    and R_event: "prov_event i p \<Longrightarrow>
      R s (s\<lparr>pv_tracker := track_provisioning order now (NewBaseEvent u t (fst p) (snd p)) (pv_tracker s)\<rparr>)"
    and R_create: "stays R (createProvisioningRecord i)"
    and R_alloc: "stays R (on_db (AllocateNodeSubnet_db c i))"
    and R_update: "nd_ID n = i \<Longrightarrow> stays R (on_db (nodeRepo_Update n))"
    and R_release: "stays R (on_db (ReleaseNodeSubnet i))"
    and R_delete: "stays R (on_db (nodeRepo_Delete i))"
    and R_get: "stays R (on_db (nodeRepo_GetByID i))"
begin

lemmas R_pure = stays_pure [OF R_refl]
lemmas R_bind = stays_bindS [OF R_trans]
lemmas R_bind_result = stays_bindS_result [OF R_trans]

lemma R_bind_pair:
  assumes "stays R m" "\<And>x y s s'. m s = (Inr (x, y), s') \<Longrightarrow> stays R (f x y)"
  shows "stays R (bindS m (\<lambda>(x, y). f x y))"
  using assms by (intro R_bind_result) (auto split: prod.splits)

lemma R_asks: "stays R (ask f)" "stays R (on_world g)"
  using R_world by (auto simp: stays_def ask_def on_world_def split: prod.splits)

lemma R_publish: "prov_event i p \<Longrightarrow> stays R (publish env p)"
proof -
  assume "prov_event i p"
  then have d: "stays R (deliver env (NewBaseEvent u t (fst p) (snd p)) now)" for u t now
    unfolding stays_def deliver_def by (auto intro!: R_event)
  show ?thesis unfolding publish_def by (intro R_bind R_asks) (auto intro!: R_bind R_asks d R_pure)
qed

lemma R_reports:
  "stays R (reportProgress env i phase p msg m)" "stays R (reportPhaseStart env i phase msg)"
  "stays R (reportError env i phase e)"
  unfolding reportProgress_def reportPhaseStart_def reportError_def
  by (intro stays_quiet R_publish prov_event_payloads)+

lemma R_rollback:
  assumes "rb_nodeID rb = i" shows "stays R (performRollback env cfg rb)"
  unfolding performRollback_def rollback_execute_def assms
  by (intro stays_if R_bind R_pure stays_quiet R_asks R_release R_delete)

lemma R_step_failed:
  assumes "stays R m" "stays R undo" shows "stays R (step_failed env i phase undo m)"
proof -
  have "stays R (bindS (reportError env i phase e) (\<lambda>_. undo))" for e
    using assms(2) R_reports by (intro R_bind)
  note undone = this
  show ?thesis
    unfolding stays_def
  proof
    fix s
    obtain r s1 where m: "m s = (r, s1)" by (metis surj_pair)
    have 1: "R s s1" using assms(1) m by (rule staysD)
    show "R s (snd (step_failed env i phase undo m s))"
    proof (cases r)
      case (Inl e)
      have "R s1 (snd (bindS (reportError env i phase e) (\<lambda>_. undo) s1))" using undone by (simp add: stays_def)
      then show ?thesis using transpD [OF R_trans 1] m Inl by (simp add: step_failed_def)
    qed (use 1 m in \<open>simp add: step_failed_def\<close>)
  qed
qed

lemma R_readiness: "stays R (readiness_loop env i ip attempt n)"
proof (induction n arbitrary: attempt)
  case (Suc n)
  show ?case
    by (simp, intro R_bind R_reports stays_tryS R_asks)
      (auto split: sum.splits intro: Suc.IH R_pure)
qed (simp add: R_pure)

lemma R_cloud: "stays R (provisionCloudInfrastructure env cfg i subnet rb)"
  unfolding provisionCloudInfrastructure_def by (intro R_bind R_reports stays_map_errS R_asks R_pure)

lemma R_activate: "nd_ID n = i \<Longrightarrow> stays R (activateNode n)"
  unfolding activateNode_def
  by (intro R_bind_result R_pure R_update) (auto simp: Node_UpdateStatus_Inr)

lemma R_wait: "stays R (waitForNodeReadiness env i ip)"
  unfolding waitForNodeReadiness_def by (intro R_bind R_asks R_readiness)

lemma R_allocate: "stays R (allocateSubnet c i rb)"
  unfolding allocateSubnet_def by (intro R_bind R_alloc R_pure)

lemma R_details: "nd_ID n = i \<Longrightarrow> stays R (updateNodeDetails n pn rb)"
  unfolding updateNodeDetails_def Let_def by (intro R_bind R_pure R_update) (simp add: with_details_def)

end

lemma step_failed_Inr: "step_failed env i phase undo m s = (Inr x, s') \<longleftrightarrow> m s = (Inr x, s')"
  by (auto simp: step_failed_def split: prod.splits sum.splits)

lemma on_db_Inr: "on_db m s = (Inr x, s') \<longleftrightarrow> (\<exists>d. m (pv_db s) = (Inr x, d) \<and> s' = s\<lparr>pv_db := d\<rparr>)"
  by (auto simp: on_db_def split: prod.splits)

lemma create_record_id: "createProvisioningRecord i s = (Inr n, s') \<Longrightarrow> nd_ID n = i"
  by (auto simp: createProvisioningRecord_def on_db_Inr bindS_Inr_iff NewNode_def nodeRepo_Create_def
      split: if_splits sum.splits prod.splits)

lemma allocateSubnet_rb: "allocateSubnet c i rb s = (Inr (x, rb'), s') \<Longrightarrow> rb_nodeID rb' = rb_nodeID rb"
  by (auto simp: allocateSubnet_def bindS_Inr_iff)

lemma provisionCloud_rb:
  "provisionCloudInfrastructure env cfg i subnet rb s = (Inr (x, rb'), s') \<Longrightarrow> rb_nodeID rb' = rb_nodeID rb"
  by (auto simp: provisionCloudInfrastructure_def bindS_Inr_iff)

lemma updateNodeDetails_ids:
  "updateNodeDetails n pn rb s = (Inr (n', rb'), s') \<Longrightarrow> nd_ID n' = nd_ID n \<and> rb_nodeID rb' = rb_nodeID rb"
  by (auto simp: updateNodeDetails_def bindS_Inr_iff Let_def with_details_def)

context run_steps
begin

text \<open>The failing steps, with what the rest of the run may assume of their results.\<close>

lemma R_steps:
  assumes "stays R undo"
  shows "\<lbrakk>\<And>n. nd_ID n = i \<Longrightarrow> stays R (f n)\<rbrakk> \<Longrightarrow>
      stays R (bindS (step_failed env i phase undo (createProvisioningRecord i)) f)"
    "\<lbrakk>rb_nodeID rb = i; \<And>x rb'. rb_nodeID rb' = i \<Longrightarrow> stays R (g x rb')\<rbrakk> \<Longrightarrow>
      stays R (bindS (step_failed env i phase undo (allocateSubnet c i rb)) (\<lambda>(x, rb'). g x rb'))"
    "\<lbrakk>rb_nodeID rb = i; \<And>x rb'. rb_nodeID rb' = i \<Longrightarrow> stays R (h x rb')\<rbrakk> \<Longrightarrow>
      stays R (bindS (step_failed env i phase undo (provisionCloudInfrastructure env cfg i subnet rb)) (\<lambda>(x, rb'). h x rb'))"
    "\<lbrakk>rb_nodeID rb = i; nd_ID n = i; \<And>m rb'. nd_ID m = i \<Longrightarrow> rb_nodeID rb' = i \<Longrightarrow> stays R (k m rb')\<rbrakk> \<Longrightarrow>
      stays R (bindS (step_failed env i phase undo (updateNodeDetails n pn rb)) (\<lambda>(m, rb'). k m rb'))"
proof -
  assume "\<And>n. nd_ID n = i \<Longrightarrow> stays R (f n)"
  then show "stays R (bindS (step_failed env i phase undo (createProvisioningRecord i)) f)"
    by (intro R_bind_result R_step_failed R_create assms) (auto simp: step_failed_Inr dest: create_record_id)
next
  assume "rb_nodeID rb = i" "\<And>x rb'. rb_nodeID rb' = i \<Longrightarrow> stays R (g x rb')"
  then show "stays R (bindS (step_failed env i phase undo (allocateSubnet c i rb)) (\<lambda>(x, rb'). g x rb'))"
    by (intro R_bind_pair R_step_failed R_allocate assms) (auto simp: step_failed_Inr dest: allocateSubnet_rb)
next
  assume "rb_nodeID rb = i" "\<And>x rb'. rb_nodeID rb' = i \<Longrightarrow> stays R (h x rb')"
  then show "stays R (bindS (step_failed env i phase undo (provisionCloudInfrastructure env cfg i subnet rb)) (\<lambda>(x, rb'). h x rb'))"
    by (intro R_bind_pair R_step_failed R_cloud assms) (auto simp: step_failed_Inr dest: provisionCloud_rb)
next
  assume "rb_nodeID rb = i" "nd_ID n = i" "\<And>m rb'. nd_ID m = i \<Longrightarrow> rb_nodeID rb' = i \<Longrightarrow> stays R (k m rb')"
  then show "stays R (bindS (step_failed env i phase undo (updateNodeDetails n pn rb)) (\<lambda>(m, rb'). k m rb'))"
    by (intro R_bind_pair R_step_failed R_details assms) (auto simp: step_failed_Inr dest: updateNodeDetails_ids)
qed

lemma run_stays: "stays R (provision_phases env cfg c start i)"
  unfolding provision_phases_def Let_def
  by ((rule R_steps R_bind | rule R_step_failed | assumption
      | rule R_reports R_pure R_asks R_wait stays_quiet R_publish stays_tryS R_get R_rollback R_activate
        prov_event_payloads
      | (simp only: provisioningRollback.select_convs; fail))+)

lemma destroy_stays: "stays R (prov_destroyNode env i)"
proof -
  have "nd_ID n = i" if "on_db (nodeRepo_GetByID i) s = (Inr n, s')" for n s s'
    using that nodeRepo_GetByID_result [of i "pv_db s"] by (auto simp: on_db_Inr toDomainNode_def)
  then show ?thesis
    unfolding prov_destroyNode_def
    by (intro R_bind_result R_get R_pure R_update stays_quiet R_release stays_if R_asks R_delete)
      (auto simp: Node_UpdateStatus_Inr)
qed

end

section \<open>Only the rows of the run's node change\<close>

definition own_rows :: "string \<Rightarrow> Db \<Rightarrow> Db \<Rightarrow> bool" where
  "own_rows i d d' =
     (filter (\<lambda>r. n_id r \<noteq> i) (nodes d') = filter (\<lambda>r. n_id r \<noteq> i) (nodes d) \<and>
      filter (\<lambda>p. p_node_id p \<noteq> i) (peers d') = filter (\<lambda>p. p_node_id p \<noteq> i) (peers d) \<and>
      filter (\<lambda>r. s_node_id r \<noteq> i) (subnets d') = filter (\<lambda>r. s_node_id r \<noteq> i) (subnets d) \<and>
      clock d' = clock d \<and> (faults d = [] \<longrightarrow> faults d' = []))"

lemma own_rows_order: "reflp (own_rows i)" "transp (own_rows i)"
  by (auto simp: own_rows_def reflp_def transp_def)

lemma own_rows_query:
  assumes "\<And>d. own_rows i d (snd (q d))" shows "stays (own_rows i) (run_query q)"
  unfolding stays_def
proof
  fix d
  show "own_rows i d (snd (run_query q d))"
  proof (cases "faults d")
    case (Cons f fs)
    then have "own_rows i d (d\<lparr>faults := fs\<rparr>)" by (simp add: own_rows_def)
    then show ?thesis using transpD [OF own_rows_order(2) _ assms] Cons by (auto simp: run_query_def split: bool.splits)
  qed (simp add: run_query_def assms)
qed

lemma own_rows_map_nodes:
  assumes "\<And>r. P r \<Longrightarrow> n_id r = i" "\<And>r. n_id (f r) = n_id r"
  shows "own_rows i d (map_nodes P f d)"
  using map_nodes_only [OF assms] unfolding own_rows_def only_node_def by (auto simp: map_nodes_def)

lemma own_rows_statements:
  "stays (own_rows i) (CreateNode i ip key port st)"
  "stays (own_rows i) (UpdateNodeDetails sid ip key st i)"
  "stays (own_rows i) (UpdateNodeActivity hs cl i)"
  "stays (own_rows i) (CreateNodeSubnet i cidr gw rs re)"
  "stays (own_rows i) (DeleteNodeSubnet i)"
  "stays (own_rows i) (DeleteNode i)"
  "stays (own_rows i) (GetNode j)" "stays (own_rows i) (GetNodeSubnet j)" "stays (own_rows i) GetUsedSubnetCIDRs"
  unfolding CreateNode_def UpdateNodeDetails_def UpdateNodeActivity_def CreateNodeSubnet_def DeleteNodeSubnet_def
    DeleteNode_def GetNode_def GetNodeSubnet_def GetUsedSubnetCIDRs_def select_one_def select_many_def
  by (rule own_rows_query; auto simp: Let_def own_rows_map_nodes reflpD [OF own_rows_order(1)];
      auto simp: own_rows_def delete_nodes_def Let_def intro!: filter_cong)+

text \<open>The control structure of the repositories and services: a call, then a branch on its result.\<close>

lemma stays_case:
  assumes "transp R" "stays R m" "\<And>e. stays R (k1 e)" "\<And>x. stays R (k2 x)"
  shows "stays R (\<lambda>d. case m d of (r, d') \<Rightarrow> (case r of Inl e \<Rightarrow> k1 e d' | Inr x \<Rightarrow> k2 x d'))"
  unfolding stays_def
proof
  fix d
  obtain r d' where m: "m d = (r, d')" by (metis surj_pair)
  have 1: "R d d'" using assms(2) m by (rule staysD)
  have "R d' (snd (k1 e d'))" "R d' (snd (k2 x d'))" for e x using assms(3,4) by (simp_all add: stays_def)
  then show "R d (snd (case m d of (r, d') \<Rightarrow> (case r of Inl e \<Rightarrow> k1 e d' | Inr x \<Rightarrow> k2 x d')))"
    using transpD [OF assms(1) 1] m by (auto split: sum.splits)
qed

lemma stays_branch:
  "(\<And>e. stays R (k1 e)) \<Longrightarrow> (\<And>x. stays R (k2 x)) \<Longrightarrow> stays R (\<lambda>d. case r of Inl e \<Rightarrow> k1 e d | Inr x \<Rightarrow> k2 x d)"
  "stays R a \<Longrightarrow> stays R b \<Longrightarrow> stays R (\<lambda>d. if P then a d else b d)"
  "stays R a \<Longrightarrow> stays R b \<Longrightarrow> stays R (\<lambda>d. case q of True \<Rightarrow> a d | False \<Rightarrow> b d)"
  "reflp R \<Longrightarrow> stays R (\<lambda>d. (v, d))"
  "stays R m \<Longrightarrow> stays R (\<lambda>d. case m d of (r, d') \<Rightarrow> (g r, d'))"
  by (auto simp: stays_def reflp_def split: sum.splits bool.splits prod.splits) (metis snd_conv)

lemmas own_rows_flow = stays_case [OF own_rows_order(2)] stays_branch(1-3,5) stays_branch(4) [OF own_rows_order(1)]
  own_rows_statements

lemma NewNode_id: "NewNode i ip key port now = Inr n \<Longrightarrow> nd_ID n = i"
  by (auto simp: NewNode_def split: if_splits)

lemma own_rows_repo:
  "nd_ID n = i \<Longrightarrow> stays (own_rows i) (nodeRepo_Create n)"
  "nd_ID n = i \<Longrightarrow> stays (own_rows i) (nodeRepo_Update n)"
  "stays (own_rows i) (nodeRepo_Delete i)" "stays (own_rows i) (nodeRepo_GetByID j)"
  "stays (own_rows i) (repo_GetSubnet j)" "stays (own_rows i) repo_GetUsedSubnetCIDRs"
  "sn_NodeID sn = i \<Longrightarrow> stays (own_rows i) (repo_CreateSubnet sn)"
  "stays (own_rows i) (repo_SubnetExists j)" "stays (own_rows i) (repo_DeleteSubnet i)"
  unfolding nodeRepo_Create_def nodeRepo_Update_def nodeRepo_Delete_def nodeRepo_GetByID_def
    repo_GetSubnet_def repo_GetUsedSubnetCIDRs_def repo_CreateSubnet_def repo_SubnetExists_def repo_DeleteSubnet_def
  by (hypsubst | intro own_rows_flow)+

lemma own_rows_ops:
  "stays (own_rows i) (ReleaseNodeSubnet i)" "stays (own_rows i) (AllocateNodeSubnet_db c i)"
  unfolding ReleaseNodeSubnet_def AllocateNodeSubnet_def Let_def
  by (intro own_rows_flow own_rows_repo; simp)+

text \<open>Lifting to the state of a run.\<close>

definition db_rel :: "(Db \<Rightarrow> Db \<Rightarrow> bool) \<Rightarrow> 'w prov \<Rightarrow> 'w prov \<Rightarrow> bool" where
  "db_rel R s s' = (R (pv_db s) (pv_db s') \<and> pv_open s' = pv_open s)"

lemma db_rel_order: "reflp R \<Longrightarrow> reflp (db_rel R)" "transp R \<Longrightarrow> transp (db_rel R)"
  by (auto simp: db_rel_def reflp_def transp_def)

lemma db_rel_on_db: "stays R m \<Longrightarrow> stays (db_rel R) (on_db m)"
  by (auto simp: stays_def db_rel_def on_db_def split: prod.splits) (metis snd_conv)

lemma stays_create:
  assumes "transp R" "reflp R" "\<And>n. nd_ID n = i \<Longrightarrow> stays R (nodeRepo_Create n)"
  shows "stays (db_rel R) (createProvisioningRecord i)"
proof -
  have "stays R (\<lambda>d. bindS (liftS (NewNode i ''0.0.0.0'' i 51820 (clock d))) nodeRepo_Create d)"
    using assms by (auto simp: stays_def bindS_def reflp_def dest: NewNode_id split: sum.splits)
  then show ?thesis unfolding createProvisioningRecord_def by (rule db_rel_on_db)
qed

interpretation own: run_steps "db_rel (own_rows i)" i c for i c
proof
  show "stays (db_rel (own_rows i)) (createProvisioningRecord i)"
    by (rule stays_create [OF own_rows_order(2,1) own_rows_repo(1)])
qed (auto intro: db_rel_order own_rows_order db_rel_on_db own_rows_repo own_rows_ops
    simp: db_rel_def reflpD [OF own_rows_order(1)])

section \<open>The run keeps the invariants of the store\<close>

definition store_inv :: "NetworkConfig \<Rightarrow> IPNet \<Rightarrow> Db \<Rightarrow> bool" where
  "store_inv c b d = (db_good d \<and> subnet_pool c b (db_view d))"

definition keeps_inv :: "NetworkConfig \<Rightarrow> IPNet \<Rightarrow> Db \<Rightarrow> Db \<Rightarrow> bool" where
  "keeps_inv c b d d' = (store_inv c b d \<longrightarrow> store_inv c b d')"

lemma keeps_inv_order: "reflp (keeps_inv c b)" "transp (keeps_inv c b)"
  by (auto simp: keeps_inv_def reflp_def transp_def)

text \<open>Writes that keep the constraints and drop subnets at most, whole nodes at a time.\<close>

lemma db_view_filter:
  assumes "subnets d' = filter (\<lambda>r. P (s_node_id r)) (subnets d)"
  shows "db_view d' = (\<lambda>j. if P j then db_view d j else None)"
proof
  fix j
  have "find (\<lambda>r. s_node_id r = j) (filter (\<lambda>r. P (s_node_id r)) xs) =
      (if P j then find (\<lambda>r. s_node_id r = j) xs else None)" for xs :: "SubnetRow list"
    by (induction xs) auto
  then show "db_view d' j = (if P j then db_view d j else None)" by (simp add: db_view_def assms)
qed

lemma store_inv_filter:
  assumes "store_inv c b d" "db_ok d'" "subnets d' = filter (\<lambda>r. P (s_node_id r)) (subnets d)"
  shows "store_inv c b d'"
  using assms db_view_filter [OF assms(3)]
  unfolding store_inv_def db_good_def subnet_pool_def by (auto split: if_splits)

lemma keeps_inv_ok:
  assumes "\<And>d. db_ok d \<Longrightarrow> db_ok (snd (m d))"
    and "\<And>d. \<exists>P. subnets (snd (m d)) = filter (\<lambda>r. P (s_node_id r)) (subnets d)"
  shows "stays (keeps_inv c b) m"
  unfolding stays_def keeps_inv_def
  by (meson assms store_inv_filter store_inv_def db_good_def)

lemma subnets_query:
  assumes "\<And>d. \<exists>P. subnets (snd (q d)) = filter (\<lambda>r. P (s_node_id r)) (subnets d)"
  shows "\<exists>P. subnets (snd (run_query q d)) = filter (\<lambda>r. P (s_node_id r)) (subnets d)"
proof (cases rule: run_query_cases [of q d])
  case (io d')
  then show ?thesis by (intro exI [of _ "\<lambda>_. True"]) (simp add: keep_tables_def)
next
  case (ran d')
  then show ?thesis using assms [of d'] by (simp add: keep_tables_def)
qed

lemma keeps_inv_statements:
  "stays (keeps_inv c b) (CreateNode j ip key port st)"
  "stays (keeps_inv c b) (UpdateNodeDetails sid ip key st j)"
  "stays (keeps_inv c b) (UpdateNodeActivity hs cl j)"
  "stays (keeps_inv c b) (DeleteNodeSubnet j)"
  "stays (keeps_inv c b) (DeleteNode j)"
proof -
  have T: "\<exists>P. subnets d = filter (\<lambda>r. P (s_node_id r)) (subnets d)" for d :: Db
    by (intro exI [of _ "\<lambda>_. True"]) simp
  show "stays (keeps_inv c b) (CreateNode j ip key port st)"
    by (rule keeps_inv_ok [OF CreateNode_ok]) (auto simp: CreateNode_def Let_def intro!: subnets_query T)
  show "stays (keeps_inv c b) (UpdateNodeDetails sid ip key st j)"
    by (rule keeps_inv_ok [OF UpdateNodeDetails_ok]) (auto simp: UpdateNodeDetails_def Let_def intro!: subnets_query T)
  show "stays (keeps_inv c b) (UpdateNodeActivity hs cl j)"
    by (rule keeps_inv_ok [OF UpdateNodeActivity_ok]) (auto simp: UpdateNodeActivity_def intro!: subnets_query T)
  show "stays (keeps_inv c b) (DeleteNodeSubnet j)"
    by (rule keeps_inv_ok [OF DeleteNodeSubnet_ok]) (auto simp: DeleteNodeSubnet_def intro!: subnets_query)
  show "stays (keeps_inv c b) (DeleteNode j)"
    by (rule keeps_inv_ok [OF DeleteNode_ok])
      (auto simp: DeleteNode_def delete_nodes_def Let_def intro!: subnets_query)
qed

lemma keeps_inv_keep: "stays keep_tables m \<Longrightarrow> stays (keeps_inv c b) m"
  using db_good_keep unfolding stays_def keeps_inv_def store_inv_def by metis

lemmas keeps_inv_flow = stays_case [OF keeps_inv_order(2)] stays_branch(1-3,5) stays_branch(4) [OF keeps_inv_order(1)]
  keeps_inv_statements keeps_inv_keep

lemma keep_statements: "stays keep_tables (GetNode j)" "stays keep_tables (GetNodeSubnet j)"
  by (simp_all add: stays_def GetNode_def GetNodeSubnet_def)

lemma keeps_inv_repo:
  "stays (keeps_inv c b) (nodeRepo_Create n)" "stays (keeps_inv c b) (nodeRepo_Update n)"
  "stays (keeps_inv c b) (nodeRepo_Delete j)" "stays (keeps_inv c b) (nodeRepo_GetByID j)"
  "stays (keeps_inv c b) (repo_SubnetExists j)" "stays (keeps_inv c b) (repo_DeleteSubnet j)"
  unfolding nodeRepo_Create_def nodeRepo_Update_def nodeRepo_Delete_def nodeRepo_GetByID_def
    repo_SubnetExists_def repo_DeleteSubnet_def
  by (intro keeps_inv_flow keep_statements)+

lemma keeps_inv_release: "stays (keeps_inv c b) (ReleaseNodeSubnet j)"
  unfolding ReleaseNodeSubnet_def by (intro keeps_inv_flow keeps_inv_repo)

lemma keeps_inv_alloc:
  assumes "config_base c b" shows "stays (keeps_inv c b) (AllocateNodeSubnet_db c j)"
  unfolding stays_def keeps_inv_def store_inv_def
  using db_subnets.allocate_keeps_pool [OF assms] by (metis prod.collapse)

text \<open>With a valid network configuration.\<close>

lemma run_keeps_inv:
  assumes "config_base c b"
  shows "run_steps (db_rel (keeps_inv c b)) i c"
proof
  show "stays (db_rel (keeps_inv c b)) (createProvisioningRecord i)"
    by (rule stays_create [OF keeps_inv_order(2,1) keeps_inv_repo(1)])
qed (auto intro: db_rel_order keeps_inv_order db_rel_on_db keeps_inv_repo keeps_inv_release keeps_inv_alloc [OF assms]
    simp: db_rel_def reflpD [OF keeps_inv_order(1)])

section \<open>The tracker during a run\<close>

text \<open>Keys are distinct and every node but \<open>i\<close> is at rest.\<close>

definition others_idle :: "string \<Rightarrow> prov_tracker \<Rightarrow> bool" where
  "others_idle i t = (distinct (map fst t) \<and> (\<forall>k st. map_of t k = Some st \<longrightarrow> k \<noteq> i \<longrightarrow> \<not> in_progress st))"

lemma others_idle_update: "others_idle i t \<Longrightarrow> others_idle i (AList.update i st t)"
  by (simp add: others_idle_def distinct_update map_of_update_alist)

lemma others_idle_delete: "others_idle i t \<Longrightarrow> others_idle i (AList.delete k t)"
  by (auto simp: others_idle_def distinct_delete map_of_delete_alist)

lemma others_idle_event:
  assumes "prov_event i p" "others_idle i t"
  shows "others_idle i (track_provisioning order now (NewBaseEvent u tm (fst p) (snd p)) t)"
  using assms
  by (auto simp: track_provisioning_def prov_event_def NewBaseEvent_def handleProvisionProgress_def
      handleProvisionCompleted_def handleProvisionFailed_def Let_def
      intro!: others_idle_update others_idle_delete split: option.splits)

definition keeps_idle :: "string \<Rightarrow> 'w prov \<Rightarrow> 'w prov \<Rightarrow> bool" where
  "keeps_idle i s s' = ((others_idle i (pv_tracker s) \<longrightarrow> others_idle i (pv_tracker s')) \<and> pv_open s' = pv_open s)"

lemma keeps_idle_on_db: "stays (keeps_idle i) (on_db m)"
  by (auto simp: stays_def keeps_idle_def on_db_def split: prod.splits)

interpretation idle: run_steps "keeps_idle i" i c for i c
proof
  show "stays (keeps_idle i) (createProvisioningRecord i)"
    unfolding createProvisioningRecord_def by (rule keeps_idle_on_db)
qed (auto simp: keeps_idle_def reflp_def transp_def others_idle_event keeps_idle_on_db)

text \<open>The run ends with its own entry at rest.\<close>

definition at_rest :: "string \<Rightarrow> 'w prov \<Rightarrow> bool" where
  "at_rest i s = (pv_open s \<longrightarrow> (\<exists>st. map_of (pv_tracker s) i = Some st \<and> \<not> pvs_IsActive st))"

lemma publish_open:
  assumes "pv_open s"
  obtains s' u tm now where "publish env p s = (Inr (), s')" "pv_open s'"
    "pv_tracker s' = track_provisioning (env_order env) now (NewBaseEvent u tm (fst p) (snd p)) (pv_tracker s)"
proof -
  obtain u w1 where 1: "env_uuid env (pv_world s) = (u, w1)" by (metis surj_pair)
  obtain tm w2 where 2: "env_now env w1 = (tm, w2)" by (metis surj_pair)
  obtain now w3 where 3: "env_now env w2 = (now, w3)" by (metis surj_pair)
  show thesis
    by (rule that [of "s\<lparr>pv_world := w3, pv_tracker := track_provisioning (env_order env) now
          (NewBaseEvent u tm (fst p) (snd p)) (pv_tracker s)\<rparr>" now u tm])
      (use assms in \<open>simp_all add: publish_def bindS_def ask_def 1 2 3 deliver_def\<close>)
qed

lemma publish_closed: "\<not> pv_open s \<Longrightarrow> \<not> pv_open (snd (publish env p s))"
  by (auto simp: publish_def bindS_def ask_def split: prod.splits sum.splits)

lemma terminal_event_rests:
  assumes "p = provision_failed i phase e \<or> p = provision_completed i sid ip dur"
  shows "at_rest i (snd (publish env p s))"
proof (cases "pv_open s")
  case True
  then obtain s' u tm now where p: "publish env p s = (Inr (), s')"
    "pv_tracker s' = track_provisioning (env_order env) now (NewBaseEvent u tm (fst p) (snd p)) (pv_tracker s)"
    using publish_open by metis
  obtain a b msg r md x where u: "UnpackError e = (a, b, msg, r, md, x)" by (metis surj_pair)
  show ?thesis
    using assms u
    by (auto simp: at_rest_def p track_provisioning_def NewBaseEvent_def handleProvisionFailed_def handleProvisionCompleted_def
        provision_failed_def provision_completed_def Let_def map_of_update_alist)
next
  case False
  then show ?thesis using publish_closed [of s env p] by (simp add: at_rest_def)
qed

lemma at_rest_quiet: "stays (\<lambda>s s'. pv_tracker s' = pv_tracker s \<and> pv_open s' = pv_open s) m \<Longrightarrow>
    at_rest i s \<Longrightarrow> m s = (r, s') \<Longrightarrow> at_rest i s'"
  using staysD [of _ m s r s'] by (fastforce simp: at_rest_def)

lemma rollback_tracker: "stays (\<lambda>s s'. pv_tracker s' = pv_tracker s \<and> pv_open s' = pv_open s) (performRollback env cfg rb)"
  unfolding performRollback_def rollback_execute_def
  by (intro stays_if stays_bindS stays_quiet stays_pure)
    (auto simp: transp_def reflp_def stays_def on_db_def on_world_def split: prod.splits)

text \<open>Operations that cannot fail.\<close>

lemma hoare_any: "hoare (\<lambda>_. True) (quiet m) (\<lambda>_ _. True) E" "hoare (\<lambda>_. True) (ask f) (\<lambda>_ _. True) E"
  "hoare (\<lambda>_. True) (reportProgress env i phase p msg md) (\<lambda>_ _. True) E"
  "hoare (\<lambda>_. True) (reportPhaseStart env i phase msg) (\<lambda>_ _. True) E"
  by (auto intro!: hoareI simp: quiet_def ask_def reportProgress_def reportPhaseStart_def split: prod.splits)

lemma failed_step_rests:
  assumes "stays (\<lambda>s s'. pv_tracker s' = pv_tracker s \<and> pv_open s' = pv_open s) undo"
  shows "hoare (\<lambda>_. True) (step_failed env i phase undo m) (\<lambda>_ _. True) (\<lambda>_. at_rest i)"
proof (intro hoareI TrueI)
  fix s e s' assume "step_failed env i phase undo m s = (Inl e, s')"
  then obtain s1 where s1: "s' = snd (bindS (reportError env i phase e) (\<lambda>_. undo) s1)"
    by (auto simp: step_failed_def split: prod.splits sum.splits)
  let ?s2 = "snd (publish env (provision_failed i phase e) s1)"
  have "s' = snd (undo ?s2)" unfolding s1 by (simp add: bindS_def reportError_def quiet_def)
  then show "at_rest i s'"
    using at_rest_quiet [OF assms terminal_event_rests] by (metis prod.collapse)
qed

lemma completed_rests:
  "hoare (\<lambda>_. True) (bindS (quiet (publish env (provision_completed i sid ip dur)))
      (\<lambda>_. bindS (tryS (on_db m)) (\<lambda>r. returnS (f r)))) (\<lambda>_. at_rest i) E"
proof (intro hoareI)
  fix s x s' assume "bindS (quiet (publish env (provision_completed i sid ip dur)))
      (\<lambda>_. bindS (tryS (on_db m)) (\<lambda>r. returnS (f r))) s = (Inr x, s')"
  then obtain d where "s' = snd (publish env (provision_completed i sid ip dur) s)\<lparr>pv_db := d\<rparr>"
    by (auto simp: bindS_def quiet_def tryS_def on_db_def split: prod.splits)
  then show "at_rest i s'" using terminal_event_rests [of _ i _ _ sid ip dur env s] by (simp add: at_rest_def)
qed (auto simp: bindS_def quiet_def tryS_def split: prod.splits)

lemma rest_bind:
  "hoare P m (\<lambda>_ _. True) E \<Longrightarrow> (\<And>x y. hoare (\<lambda>_. True) (f x y) Q E) \<Longrightarrow> hoare P (bindS m (\<lambda>(x, y). f x y)) Q E"
  "hoare P n (\<lambda>_ _. True) E \<Longrightarrow> (\<And>x. hoare (\<lambda>_. True) (g x) Q E) \<Longrightarrow> hoare P (bindS n g) Q E"
  by (auto intro: hoare_bind [where Q = "\<lambda>_ _. True"] split: prod.splits)

lemma unchanged_pure: "stays (\<lambda>s s'. pv_tracker s' = pv_tracker s \<and> pv_open s' = pv_open s) (returnS x)"
  by (simp add: stays_def)

lemmas rest_rules = failed_step_rests [OF rollback_tracker] failed_step_rests [OF unchanged_pure] hoare_any

lemma run_rests:
  "hoare (\<lambda>_. True) (provision_phases env cfg c start i) (\<lambda>_. at_rest i) (\<lambda>_. at_rest i)"
  unfolding provision_phases_def Let_def
  by ((rule completed_rests) | (rule rest_bind, rule rest_rules))+

section \<open>Rollback\<close>

text \<open>Between the creation of the record and the end of the run, when statements work.\<close>

definition run_mid :: "NetworkConfig \<Rightarrow> IPNet \<Rightarrow> string \<Rightarrow> Db \<Rightarrow> 'w prov \<Rightarrow> bool" where
  "run_mid c b i d0 s = (own_rows i d0 (pv_db s) \<and> store_inv c b (pv_db s) \<and> faults (pv_db s) = [])"

lemma run_mid_stays:
  assumes "stays (db_rel (own_rows i)) m" "stays (db_rel (keeps_inv c b)) m"
  shows "hoare (run_mid c b i d0) m (\<lambda>_. run_mid c b i d0) (\<lambda>_. run_mid c b i d0)"
proof -
  have "run_mid c b i d0 (snd (m s))" if "run_mid c b i d0 s" for s
    using assms that transpD [OF own_rows_order(2), of i d0 "pv_db s" "pv_db (snd (m s))"]
    unfolding stays_def db_rel_def keeps_inv_def run_mid_def by (auto simp: own_rows_def)
  then show ?thesis by (intro hoareI) (metis snd_conv)+
qed

definition no_rows :: "string \<Rightarrow> Db \<Rightarrow> bool" where
  "no_rows i d = (i \<notin> n_id ` set (nodes d) \<and> i \<notin> p_node_id ` set (peers d) \<and> i \<notin> s_node_id ` set (subnets d))"

lemma no_rows_missing: "db_ok d \<Longrightarrow> i \<notin> node_ids d \<Longrightarrow> no_rows i d"
  by (auto simp: db_ok_def peers_ok_def subnets_ok_def no_rows_def node_ids_def)

lemma delete_no_rows:
  assumes "db_ok d" "faults d = []" shows "no_rows i (snd (nodeRepo_Delete i d))"
proof (cases "i \<in> node_ids d")
  case True
  have "snd (nodeRepo_Delete i d) = delete_nodes (\<lambda>r. n_id r = i) d"
    using assms(2) by (simp add: nodeRepo_Delete_def DeleteNode_def run_query_nofault)
  then show ?thesis using delete_node_tables [OF True] by (auto simp: no_rows_def)
next
  case False
  have "snd (nodeRepo_Delete i d) = delete_nodes (\<lambda>r. n_id r = i) d"
    using assms(2) by (simp add: nodeRepo_Delete_def DeleteNode_def run_query_nofault)
  then show ?thesis using no_rows_missing [OF assms(1) False] by (auto simp: no_rows_def delete_nodes_def Let_def)
qed

lemma filter_out_none: "k \<notin> f ` set xs \<Longrightarrow> filter (\<lambda>x. f x \<noteq> k) xs = xs"
  by (auto simp: filter_id_conv)

lemma own_rows_gone:
  assumes "own_rows i d0 d" "no_rows i d" "no_rows i d0"
  shows "keep_tables d0 d"
proof -
  have "nodes d = nodes d0" "peers d = peers d0" "subnets d = subnets d0" "clock d = clock d0"
    using assms unfolding own_rows_def no_rows_def by (metis filter_out_none)+
  then show ?thesis by (simp add: keep_tables_def)
qed

text \<open>Where a failing run ends.\<close>

definition run_undone :: "Db \<Rightarrow> 'w prov \<Rightarrow> bool" where
  "run_undone d0 s = keep_tables d0 (pv_db s)"

lemma rollback_undoes:
  assumes c: "config_base c b" and "ps_CleanupOnFailure cfg" "rb_nodeID rb = i" and i: "no_rows i d0"
  shows "hoare (run_mid c b i d0) (performRollback env cfg rb) (\<lambda>_. run_undone d0) E"
proof -
  note inv = run_keeps_inv [OF c]
  have run: "performRollback env cfg rb = rollback_execute env rb" using assms(2) by (simp add: performRollback_def)
  have fin: "hoare (run_mid c b i d0) (quiet (on_db (nodeRepo_Delete i))) (\<lambda>_. run_undone d0) E"
  proof (rule hoareI)
    fix s x s' assume m: "run_mid c b i d0 s" and s': "quiet (on_db (nodeRepo_Delete i)) s = (Inr x, s')"
    then have d: "pv_db s' = snd (nodeRepo_Delete i (pv_db s))"
      by (auto simp: quiet_def on_db_def split: prod.splits)
    have "own_rows i (pv_db s) (pv_db s')" unfolding d using own_rows_repo(3) by (simp add: stays_def)
    then have "own_rows i d0 (pv_db s')" using m transpD [OF own_rows_order(2)] by (auto simp: run_mid_def)
    moreover have "no_rows i (pv_db s')"
      unfolding d using m by (intro delete_no_rows) (auto simp: run_mid_def store_inv_def db_good_def)
    ultimately show "run_undone d0 s'" unfolding run_undone_def using i by (rule own_rows_gone)
  qed (simp add: quiet_def)
  have mid: "hoare (run_mid c b i d0) (quiet m) (\<lambda>_. run_mid c b i d0) E"
    if "stays (db_rel (own_rows i)) m" "stays (db_rel (keeps_inv c b)) m" for m :: "('a, 'b) prov_op"
    using hoareD(1) [OF run_mid_stays [OF stays_quiet [OF that(1)] stays_quiet [OF that(2)]]]
    by (intro hoareI) (auto simp: quiet_def)
  show ?thesis
    unfolding run rollback_execute_def assms(3)
  proof (rule hoare_bind [OF hoare_if hoare_bind [OF hoare_if fin]])
    show "hoare (run_mid c b i d0) (quiet (on_world (env_destroy env (rb_serverID rb)))) (\<lambda>_. run_mid c b i d0) E"
      by (rule mid [OF own.R_asks(2) run_steps.R_asks(2) [OF inv]])
    show "hoare (run_mid c b i d0) (quiet (on_db (ReleaseNodeSubnet i))) (\<lambda>_. run_mid c b i d0) E"
      by (rule mid [OF db_rel_on_db [OF own_rows_ops(1)] db_rel_on_db [OF keeps_inv_release]])
  qed (auto intro: hoareI)
qed

lemma publish_db: "pv_db (snd (publish env p s)) = pv_db s"
  by (auto simp: publish_def bindS_def ask_def deliver_def split: prod.splits sum.splits)

text \<open>Reports and questions to the world do not fail and leave the database alone.\<close>

lemma reports_db:
  "reportProgress env i phase p msg md s = (r, s') \<Longrightarrow> r = Inr () \<and> pv_db s' = pv_db s"
  "reportPhaseStart env i phase msg s = (r, s') \<Longrightarrow> r = Inr () \<and> pv_db s' = pv_db s"
  "reportError env i phase e s = (r, s') \<Longrightarrow> r = Inr () \<and> pv_db s' = pv_db s"
  "quiet (publish env payload) s = (r, s') \<Longrightarrow> r = Inr () \<and> pv_db s' = pv_db s"
  "ask f s = (q, s') \<Longrightarrow> (\<exists>x. q = Inr x) \<and> pv_db s' = pv_db s"
  by (auto simp: reportProgress_def reportPhaseStart_def reportError_def quiet_def publish_db ask_def
      split: prod.splits)

lemma run_mid_report:
  "hoare (run_mid c b i d0) (reportProgress env i phase p msg md) (\<lambda>_. run_mid c b i d0) E"
  "hoare (run_mid c b i d0) (reportPhaseStart env i phase msg) (\<lambda>_. run_mid c b i d0) E"
  "hoare (run_mid c b i d0) (reportError env i phase e) (\<lambda>_. run_mid c b i d0) E"
  "hoare (run_mid c b i d0) (ask f) (\<lambda>_. run_mid c b i d0) E"
  "hoare (run_mid c b i d0) (quiet (publish env payload)) (\<lambda>_. run_mid c b i d0) E"
  by (rule hoareI; auto dest!: reports_db simp: run_mid_def)+

lemma failed_step_undone:
  assumes "hoare (run_mid c b i d0) m Q (\<lambda>_. run_mid c b i d0)"
    and "hoare (run_mid c b i d0) undo (\<lambda>_. run_undone d0) (\<lambda>_. run_undone d0)"
  shows "hoare (run_mid c b i d0) (step_failed env i phase undo m) Q (\<lambda>_. run_undone d0)"
proof -
  have u: "hoare (run_mid c b i d0) (bindS (reportError env i phase e) (\<lambda>_. undo))
      (\<lambda>_. run_undone d0) (\<lambda>_. run_undone d0)" for e
    by (rule hoare_bind [OF run_mid_report(3) assms(2)])
  show ?thesis
  proof (rule hoareI)
    fix s e s' assume p: "run_mid c b i d0 s" and "step_failed env i phase undo m s = (Inl e, s')"
    then obtain s1 where 1: "m s = (Inl e, s1)" "s' = snd (bindS (reportError env i phase e) (\<lambda>_. undo) s1)"
      by (auto simp: step_failed_def split: prod.splits sum.splits)
    have "run_mid c b i d0 s1" by (rule hoareD(2) [OF assms(1) p 1(1)])
    then show "run_undone d0 s'"
      using hoareD [OF u] 1(2) by (metis surj_pair snd_conv sum.exhaust)
  qed (auto simp: step_failed_Inr intro: hoareD(1) [OF assms(1)])
qed

lemma create_begins:
  assumes c: "config_base c b" and d0: "store_inv c b d0" "faults d0 = []"
  shows "hoare (\<lambda>s. pv_db s = d0) (createProvisioningRecord i)
    (\<lambda>n s. run_mid c b i d0 s \<and> nd_ID n = i \<and> no_rows i d0) (\<lambda>_. run_undone d0)"
proof (rule hoareI)
  fix s n s' assume s: "pv_db s = d0" and run: "createProvisioningRecord i s = (Inr n, s')"
  have "own_rows i d0 (pv_db s')" "store_inv c b (pv_db s')"
    using staysD [OF own.R_create run] staysD [OF run_steps.R_create [OF run_keeps_inv [OF c]] run] s d0
    by (auto simp: db_rel_def keeps_inv_def)
  moreover have "i \<notin> node_ids d0"
    using run s d0(2)
    by (auto simp: createProvisioningRecord_def on_db_Inr bindS_Inr_iff NewNode_def nodeRepo_Create_def CreateNode_def
        run_query_nofault split: if_splits sum.splits prod.splits)
  ultimately show "run_mid c b i d0 s' \<and> nd_ID n = i \<and> no_rows i d0"
    using d0 create_record_id [OF run] no_rows_missing [of d0 i]
    by (auto simp: run_mid_def own_rows_def store_inv_def db_good_def)
next
  fix s e s' assume s: "pv_db s = d0" and run: "createProvisioningRecord i s = (Inl e, s')"
  then show "run_undone d0 s'"
    using d0(2)
    by (auto simp: createProvisioningRecord_def on_db_def bindS_def nodeRepo_Create_def CreateNode_def run_undone_def
        run_query_nofault Let_def split: if_splits sum.splits prod.splits)
qed

text \<open>The failing steps of the run, each with its rollback.\<close>

lemma undo_steps:
  assumes c: "config_base c b" and cleanup: "ps_CleanupOnFailure cfg" and none: "no_rows i d0" and rb: "rb_nodeID rb = i"
  shows "\<lbrakk>\<And>x rb'. rb_nodeID rb' = i \<Longrightarrow> hoare (run_mid c b i d0) (f x rb') Q (\<lambda>_. run_undone d0)\<rbrakk> \<Longrightarrow>
      hoare (run_mid c b i d0) (bindS (step_failed env i phase (performRollback env cfg rb)
        (allocateSubnet c i rb)) (\<lambda>(x, rb'). f x rb')) Q (\<lambda>_. run_undone d0)"
    "\<lbrakk>\<And>x rb'. rb_nodeID rb' = i \<Longrightarrow> hoare (run_mid c b i d0) (g x rb') Q (\<lambda>_. run_undone d0)\<rbrakk> \<Longrightarrow>
      hoare (run_mid c b i d0) (bindS (step_failed env i phase (performRollback env cfg rb)
        (provisionCloudInfrastructure env cfg i subnet rb)) (\<lambda>(x, rb'). g x rb')) Q (\<lambda>_. run_undone d0)"
    "\<lbrakk>nd_ID n = i; \<And>m rb'. nd_ID m = i \<Longrightarrow> rb_nodeID rb' = i \<Longrightarrow>
        hoare (run_mid c b i d0) (h m rb') Q (\<lambda>_. run_undone d0)\<rbrakk> \<Longrightarrow>
      hoare (run_mid c b i d0) (bindS (step_failed env i phase (performRollback env cfg rb)
        (updateNodeDetails n pn rb)) (\<lambda>(m, rb'). h m rb')) Q (\<lambda>_. run_undone d0)"
    "\<lbrakk>\<And>u. hoare (run_mid c b i d0) (w u) Q (\<lambda>_. run_undone d0)\<rbrakk> \<Longrightarrow>
      hoare (run_mid c b i d0) (bindS (step_failed env i phase (performRollback env cfg rb)
        (waitForNodeReadiness env i ip)) w) Q (\<lambda>_. run_undone d0)"
    "\<lbrakk>nd_ID n = i; \<And>m. hoare (run_mid c b i d0) (k m) Q (\<lambda>_. run_undone d0)\<rbrakk> \<Longrightarrow>
      hoare (run_mid c b i d0) (bindS (step_failed env i phase (performRollback env cfg rb)
        (activateNode n)) k) Q (\<lambda>_. run_undone d0)"
proof -
  note inv = run_keeps_inv [OF c] and undo = rollback_undoes [OF c cleanup rb none]
  note fs = failed_step_undone [OF _ undo]
  have with_rb: "hoare (run_mid c b i d0) m (\<lambda>(x, rb') s. run_mid c b i d0 s \<and> rb_nodeID rb' = i) (\<lambda>_. run_mid c b i d0)"
    if "stays (db_rel (own_rows i)) m" "stays (db_rel (keeps_inv c b)) m"
      "\<And>s x rb' s'. m s = (Inr (x, rb'), s') \<Longrightarrow> rb_nodeID rb' = rb_nodeID rb"
    for m :: "('a, 'x \<times> provisioningRollback) prov_op"
  proof (rule hoareI)
    fix s y s' assume s: "run_mid c b i d0 s" and run: "m s = (Inr y, s')"
    obtain x rb' where "y = (x, rb')" by (cases y)
    then show "(\<lambda>(x, rb') s. run_mid c b i d0 s \<and> rb_nodeID rb' = i) y s'"
      using hoareD(1) [OF run_mid_stays [OF that(1,2)] s run] that(3) [of s x rb' s'] run rb by simp
  qed (blast intro: hoareD(2) [OF run_mid_stays [OF that(1,2)]])
  have pure: "hoare (\<lambda>s. run_mid c b i d0 s \<and> A) m Q E" if "A \<Longrightarrow> hoare (run_mid c b i d0) m Q E" for A and m :: "('a, 'y) prov_op" and Q E
    using that by (auto simp: hoare_def)
  show "hoare (run_mid c b i d0) (bindS (step_failed env i phase (performRollback env cfg rb)
        (allocateSubnet c i rb)) (\<lambda>(x, rb'). f x rb')) Q (\<lambda>_. run_undone d0)"
    if "\<And>x rb'. rb_nodeID rb' = i \<Longrightarrow> hoare (run_mid c b i d0) (f x rb') Q (\<lambda>_. run_undone d0)"
    by (rule hoare_bind_pair [OF fs [OF with_rb [OF own.R_allocate run_steps.R_allocate [OF inv] allocateSubnet_rb]] pure])
      (assumption | rule that)+
  show "hoare (run_mid c b i d0) (bindS (step_failed env i phase (performRollback env cfg rb)
        (provisionCloudInfrastructure env cfg i subnet rb)) (\<lambda>(x, rb'). g x rb')) Q (\<lambda>_. run_undone d0)"
    if "\<And>x rb'. rb_nodeID rb' = i \<Longrightarrow> hoare (run_mid c b i d0) (g x rb') Q (\<lambda>_. run_undone d0)"
    by (rule hoare_bind_pair [OF fs [OF with_rb [OF own.R_cloud run_steps.R_cloud [OF inv] provisionCloud_rb]] pure])
      (assumption | rule that)+
  show "hoare (run_mid c b i d0) (bindS (step_failed env i phase (performRollback env cfg rb)
        (updateNodeDetails n pn rb)) (\<lambda>(m, rb'). h m rb')) Q (\<lambda>_. run_undone d0)"
    if "nd_ID n = i" "\<And>m rb'. nd_ID m = i \<Longrightarrow> rb_nodeID rb' = i \<Longrightarrow>
        hoare (run_mid c b i d0) (h m rb') Q (\<lambda>_. run_undone d0)"
  proof (rule hoare_bind_pair [OF fs])
    show "hoare (run_mid c b i d0) (updateNodeDetails n pn rb)
      (\<lambda>(m, rb') s. run_mid c b i d0 s \<and> nd_ID m = i \<and> rb_nodeID rb' = i) (\<lambda>_. run_mid c b i d0)"
    proof (rule hoareI)
      note st = run_mid_stays [OF own.R_details [OF that(1)] run_steps.R_details [OF inv that(1)]]
      fix s y s' assume s: "run_mid c b i d0 s" and run: "updateNodeDetails n pn rb s = (Inr y, s')"
      obtain m rb' where "y = (m, rb')" by (cases y)
      then show "(\<lambda>(m, rb') s. run_mid c b i d0 s \<and> nd_ID m = i \<and> rb_nodeID rb' = i) y s'"
        using hoareD(1) [OF st s run] updateNodeDetails_ids [of n pn rb s m rb' s'] run rb that(1) by simp
    qed (rule hoareD(2) [OF run_mid_stays [OF own.R_details [OF that(1)] run_steps.R_details [OF inv that(1)]]])
    show "hoare (\<lambda>s. run_mid c b i d0 s \<and> nd_ID m = i \<and> rb_nodeID rb' = i) (h m rb') Q (\<lambda>_. run_undone d0)" for m rb'
      by (rule pure) (simp add: that(2))
  qed
  show "hoare (run_mid c b i d0) (bindS (step_failed env i phase (performRollback env cfg rb)
        (waitForNodeReadiness env i ip)) w) Q (\<lambda>_. run_undone d0)"
    if "\<And>u. hoare (run_mid c b i d0) (w u) Q (\<lambda>_. run_undone d0)"
    by (rule hoare_bind [OF fs [OF run_mid_stays [OF own.R_wait run_steps.R_wait [OF inv]]] that])
  show "hoare (run_mid c b i d0) (bindS (step_failed env i phase (performRollback env cfg rb)
        (activateNode n)) k) Q (\<lambda>_. run_undone d0)"
    if "nd_ID n = i" "\<And>m. hoare (run_mid c b i d0) (k m) Q (\<lambda>_. run_undone d0)"
    by (rule hoare_bind [OF fs [OF run_mid_stays [OF own.R_activate [OF that(1)] run_steps.R_activate [OF inv that(1)]]] that(2)])
qed

lemma run_undone_hoare:
  assumes c: "config_base c b" and d0: "store_inv c b d0" "faults d0 = []" and cleanup: "ps_CleanupOnFailure cfg"
  shows "hoare (\<lambda>s. pv_db s = d0) (provision_phases env cfg c start i) (\<lambda>_ _. True) (\<lambda>_. run_undone d0)"
proof -
  have rest: "hoare (run_mid c b i d0) (bindS (tryS m) (\<lambda>r. returnS (f r))) (\<lambda>_ _. True) E" for m f E
    by (auto simp: hoare_def bindS_def tryS_def split: prod.splits)
  have begin': "hoare (\<lambda>s. pv_db s = d0) (bindS (step_failed env i phase (returnS ()) (createProvisioningRecord i)) k) Q
      (\<lambda>_. run_undone d0)"
    if "\<And>n. nd_ID n = i \<Longrightarrow> no_rows i d0 \<Longrightarrow> hoare (run_mid c b i d0) (k n) Q (\<lambda>_. run_undone d0)" for phase k Q
  proof (rule hoare_bind)
    show "hoare (\<lambda>s. pv_db s = d0) (step_failed env i phase (returnS ()) (createProvisioningRecord i))
      (\<lambda>n s. run_mid c b i d0 s \<and> nd_ID n = i \<and> no_rows i d0) (\<lambda>_. run_undone d0)"
    proof (rule hoareI)
      fix s e s' assume s: "pv_db s = d0" and "step_failed env i phase (returnS ()) (createProvisioningRecord i) s = (Inl e, s')"
      then obtain s1 where 1: "createProvisioningRecord i s = (Inl e, s1)" "pv_db s' = pv_db s1"
        by (auto simp: step_failed_def bindS_def split: prod.splits sum.splits dest!: reports_db)
      show "run_undone d0 s'" using hoareD(2) [OF create_begins [OF c d0] s 1(1)] 1(2) by (simp add: run_undone_def)
    qed (use hoareD(1) [OF create_begins [OF c d0, of i]] in \<open>auto simp: step_failed_Inr\<close>)
    show "hoare (\<lambda>s. run_mid c b i d0 s \<and> nd_ID n = i \<and> no_rows i d0) (k n) Q (\<lambda>_. run_undone d0)" for n
      using that [of n] by (auto simp: hoare_def)
  qed
  have report0: "hoare (\<lambda>s. pv_db s = d0) (bindS (reportPhaseStart env i phase msg) k) Q E"
    if "\<And>u. hoare (\<lambda>s. pv_db s = d0) (k u) Q E" for phase msg k Q E
    by (rule hoare_bind [OF _ that]) (auto intro!: hoareI dest!: reports_db)
  show ?thesis
    unfolding provision_phases_def Let_def
    by (rule report0, rule begin', ((rule rest) | (rule undo_steps [OF c cleanup]) | assumption
      | (rule hoare_bind, rule run_mid_report) | (simp only: provisioningRollback.select_convs; fail))+)
qed

end
