(* ===== verification/ProvisioningProps.thy ===== *)
theory ProvisioningProps
  imports ProvisioningRun
begin

text \<open>
  The properties of provisioning: isolation, rollback, what a successful run has built, when it
  succeeds, the readiness checks, destruction, and the worker that starts runs.
\<close>

section \<open>Properties\<close>

lemma provisionNode_phases:
  assumes "provisionNode env cfg c s = (r, s')"
  obtains start i s1 where "provision_phases env cfg c start i s1 = (r, s')"
    "pv_db s1 = pv_db s" "pv_tracker s1 = pv_tracker s" "pv_open s1 = pv_open s" "has_prefix i ''node-''"
proof -
  have pre: "has_prefix (p @ x) p" for p x by (induction p) auto
  obtain t0 w0 where 1: "env_now env (pv_world s) = (t0, w0)" by (metis surj_pair)
  obtain t1 w1 where 2: "env_now env w0 = (t1, w1)" by (metis surj_pair)
  show thesis
    by (rule that [of t0 "''node-'' @ dec (nat t1)" "s\<lparr>pv_world := w1\<rparr>"])
      (use assms pre [of "''node-''" "dec (nat t1)"] in \<open>simp_all add: provisionNode_def bindS_def ask_def 1 2\<close>)
qed

text \<open>C9: whatever fails during a run or a destruction (statements, cloud, health checks, rollback),
  only rows of the node the run made up, or the node to destroy, may differ afterwards, and the
  constraints of the schema and the disjointness of the allocated subnets still hold.\<close>

theorem provisioning_isolated:
  assumes "config_base c b" "store_inv c b (pv_db s)"
    and "provisionNode env cfg c s = (r, s')" "prov_DestroyNode env j s = (q, t)"
  shows "store_inv c b (pv_db s') \<and> (\<exists>i. own_rows i (pv_db s) (pv_db s')) \<and>
    store_inv c b (pv_db t) \<and> own_rows j (pv_db s) (pv_db t)"
proof -
  note inv = run_keeps_inv [OF assms(1)]
  obtain start i s1 where run: "provision_phases env cfg c start i s1 = (r, s')" and "pv_db s1 = pv_db s"
    using provisionNode_phases [OF assms(3)] by metis
  then have "store_inv c b (pv_db s') \<and> own_rows i (pv_db s) (pv_db s')"
    using staysD [OF own.run_stays run] staysD [OF run_steps.run_stays [OF inv] run] assms(2)
    by (auto simp: db_rel_def keeps_inv_def)
  moreover have "store_inv c b (pv_db t) \<and> own_rows j (pv_db s) (pv_db t)"
    using staysD [OF own.destroy_stays] staysD [OF run_steps.destroy_stays [OF inv]] assms(2,4)
    by (fastforce simp: db_rel_def keeps_inv_def prov_DestroyNode_def)
  ultimately show ?thesis by blast
qed

text \<open>C6: with cleanup on failure, a failing run leaves no trace in the database as long as its
  statements work: nodes, peers and subnets are those from before, whichever step failed.\<close>

theorem failed_provisioning_leaves_nothing:
  assumes "config_base c b" "store_inv c b (pv_db s)" "faults (pv_db s) = []" "ps_CleanupOnFailure cfg"
    and run: "provisionNode env cfg c s = (Inl e, s')"
  shows "nodes (pv_db s') = nodes (pv_db s) \<and> peers (pv_db s') = peers (pv_db s) \<and>
    subnets (pv_db s') = subnets (pv_db s)"
proof -
  obtain start i s1 where r: "provision_phases env cfg c start i s1 = (Inl e, s')" "pv_db s1 = pv_db s"
    using provisionNode_phases [OF run] by metis
  show ?thesis
    using hoareD(2) [OF run_undone_hoare [OF assms(1-4)] r(2,1)] by (simp add: run_undone_def keep_tables_def)
qed

text \<open>C18: a run always ends with the service ready for the next one: if no node was being provisioned
  before and the bus is open, \<open>IsProvisioning\<close> is false again when the run returns, however it ends.\<close>

theorem provisioning_ends_idle:
  assumes ok: "prov_tracker_ok (pv_tracker s)" and idle: "\<not> IsProvisioning (pv_tracker s)" and "pv_open s"
    and run: "provisionNode env cfg c s = (r, s')"
  shows "\<not> IsProvisioning (pv_tracker s')"
proof -
  obtain start i s1 where r: "provision_phases env cfg c start i s1 = (r, s')"
    and s1: "pv_tracker s1 = pv_tracker s" "pv_open s1 = pv_open s"
    using provisionNode_phases [OF run] by metis
  have "others_idle i (pv_tracker s1)"
    using ok idle s1(1) by (auto simp: others_idle_def prov_tracker_ok_def IsProvisioning_def list_ex_iff dest!: map_of_SomeD)
  then have after: "others_idle i (pv_tracker s')" "pv_open s'"
    using staysD [OF idle.run_stays r] s1(2) assms(3) by (auto simp: keeps_idle_def)
  have "at_rest i s'" using hoareD [OF run_rests TrueI] r by (cases r) auto
  then show ?thesis
    using after by (auto simp: at_rest_def others_idle_def IsProvisioning_def in_progress_def list_ex_iff)
      (metis map_of_is_SomeI option.inject)
qed

subsection \<open>What a successful run has built\<close>

definition node_record :: "Node \<Rightarrow> Db \<Rightarrow> bool" where
  "node_record n d = (\<exists>row\<in>set (nodes d). n_id row = nd_ID n \<and> n_status row = nd_Status n \<and>
     n_ip_address row = nd_IPAddress n \<and> n_server_public_key row = nd_ServerPublicKey n \<and>
     n_server_id row = (if nd_ServerID n = [] then None else Some (nd_ServerID n)))"

lemma map_nodes_record:
  assumes "i \<in> node_ids d" "nd_ID n = i"
    and "\<And>r. n_id r = i \<Longrightarrow> n_id (f r) = i \<and> n_status (f r) = nd_Status n \<and> n_ip_address (f r) = nd_IPAddress n \<and>
      n_server_public_key (f r) = nd_ServerPublicKey n \<and>
      n_server_id (f r) = (if nd_ServerID n = [] then None else Some (nd_ServerID n))"
  shows "node_record n (map_nodes (\<lambda>r. n_id r = i) f d)"
proof -
  obtain r where "r \<in> set (nodes d)" "n_id r = i" using assms(1) by (auto simp: node_ids_def)
  then show ?thesis
    using assms(2) assms(3) [of r] unfolding node_record_def map_nodes_def
    by (intro bexI [of _ "(f r)\<lparr>n_updated_at := clock d\<rparr>"]) (auto intro!: image_eqI [of _ _ r])
qed

lemma node_record_same:
  assumes "node_record n d" "nodes d' = map (\<lambda>r. if P r then g r else r) (nodes d)"
    and "\<And>r. n_id (g r) = n_id r \<and> n_status (g r) = n_status r \<and> n_ip_address (g r) = n_ip_address r \<and>
      n_server_public_key (g r) = n_server_public_key r \<and> n_server_id (g r) = n_server_id r"
  shows "node_record n d'"
proof -
  obtain r where r: "r \<in> set (nodes d)" "n_id r = nd_ID n \<and> n_status r = nd_Status n \<and>
     n_ip_address r = nd_IPAddress n \<and> n_server_public_key r = nd_ServerPublicKey n \<and>
     n_server_id r = (if nd_ServerID n = [] then None else Some (nd_ServerID n))"
    using assms(1) unfolding node_record_def by blast
  have "(if P r then g r else r) \<in> set (nodes d')" using r(1) by (simp add: assms(2) del: if_image_distrib)
  then show ?thesis using r(2) assms(3) [of r] unfolding node_record_def by (intro bexI) (auto split: if_splits)
qed

text \<open>An update that succeeds has written the node.\<close>

lemma nodeRepo_Update_writes:
  assumes "nodeRepo_Update n d = (Inr (), d')" "nd_ID n \<in> node_ids d"
  shows "node_record n d'"
proof -
  let ?up = "map_nodes (\<lambda>r. n_id r = nd_ID n) (\<lambda>r. r\<lparr>n_server_id := (if nd_ServerID n = [] then None else Some (nd_ServerID n)),
      n_ip_address := nd_IPAddress n, n_server_public_key := nd_ServerPublicKey n, n_status := nd_Status n,
      n_version := n_version r + 1\<rparr>)"
  obtain d1 where d1: "UpdateNodeDetails (if nd_ServerID n = [] then None else Some (nd_ServerID n)) (nd_IPAddress n)
      (nd_ServerPublicKey n) (nd_Status n) (nd_ID n) d = (Inr (), d1)"
    and rest: "d' = d1 \<or> d' = snd (UpdateNodeActivity (nd_LastHandshakeAt n) (nd_ConnectedClients n) (nd_ID n) d1)"
    using assms(1) by (auto simp: nodeRepo_Update_def split: prod.splits sum.splits if_splits)
  obtain d0 where d0: "keep_tables d d0" "d1 = ?up d0"
    using d1 unfolding UpdateNodeDetails_def
    by (cases rule: run_query_cases [of "\<lambda>d. let P = \<lambda>r. n_id r = nd_ID n in
        if (\<exists>r\<in>set (nodes d). P r) \<and> (nd_Status n \<notin> NodeStatuses \<or>
            (\<exists>r\<in>set (nodes d). \<not> P r \<and> n_server_public_key r = nd_ServerPublicKey n))
        then (Inl ErrConstraint, d)
        else (Inr (), map_nodes P (\<lambda>r. r\<lparr>n_server_id := (if nd_ServerID n = [] then None else Some (nd_ServerID n)),
            n_ip_address := nd_IPAddress n, n_server_public_key := nd_ServerPublicKey n, n_status := nd_Status n,
            n_version := n_version r + 1\<rparr>) d)" d])
      (auto simp: Let_def split: if_splits)
  have rec: "node_record n d1"
    unfolding d0(2) by (rule map_nodes_record) (use assms(2) d0(1) in \<open>auto simp: keep_tables_def node_ids_def\<close>)
  from rest show ?thesis
  proof
    assume d': "d' = snd (UpdateNodeActivity (nd_LastHandshakeAt n) (nd_ConnectedClients n) (nd_ID n) d1)"
    show ?thesis
    proof (cases rule: run_query_cases [of "\<lambda>d. (Inr (), map_nodes (\<lambda>r. n_id r = nd_ID n)
        (\<lambda>r. r\<lparr>n_last_handshake_at := nd_LastHandshakeAt n, n_connected_clients := nd_ConnectedClients n\<rparr>) d)" d1])
      case (io d2)
      then show ?thesis using rec by (simp add: d' UpdateNodeActivity_def node_record_def keep_tables_def)
    next
      case (ran d2)
      have "nodes d' = map (\<lambda>r. if n_id r = nd_ID n then (r\<lparr>n_last_handshake_at := nd_LastHandshakeAt n,
          n_connected_clients := nd_ConnectedClients n\<rparr>)\<lparr>n_updated_at := clock d2\<rparr> else r) (nodes d1)"
        using ran by (simp add: d' UpdateNodeActivity_def map_nodes_def keep_tables_def)
      then show ?thesis by (rule node_record_same [OF rec]) simp
    qed
  qed (simp add: rec)
qed

lemma nodeRepo_Update_keeps:
  assumes "nodeRepo_Update n d = (r, d')"
  shows "subnets d' = subnets d \<and> node_ids d' = node_ids d"
  using conjunct1 [OF nodeRepo_Update_result [OF assms]] by (simp add: only_node_def)

definition on_state :: "(Db \<Rightarrow> bool) \<Rightarrow> 'w prov \<Rightarrow> bool" where
  "on_state Q s = Q (pv_db s)"

lemma report_on_state:
  "hoare (on_state Q) (reportProgress env i phase p msg md) (\<lambda>_. on_state Q) E"
  "hoare (on_state Q) (reportPhaseStart env i phase msg) (\<lambda>_. on_state Q) E"
  "hoare (on_state Q) (ask f) (\<lambda>_. on_state Q) E"
  "hoare (on_state Q) (quiet (publish env payload)) (\<lambda>_. on_state Q) E"
  by (rule hoareI; auto dest!: reports_db simp: on_state_def)+

lemma step_failed_ignoring: "hoare P m Q (\<lambda>_ _. True) \<Longrightarrow> hoare P (step_failed env i phase undo m) Q (\<lambda>_ _. True)"
  by (auto simp: hoare_def step_failed_def split: prod.splits sum.splits)

text \<open>The node of the run has a row and its subnet.\<close>

definition run_subnet :: "NetworkConfig \<Rightarrow> IPNet \<Rightarrow> string \<Rightarrow> IPNet \<Rightarrow> Db \<Rightarrow> bool" where
  "run_subnet c b i sub d = (i \<in> node_ids d \<and> (\<exists>sn. db_view d i = Some sn \<and> sn_Network sn = sub))"

definition cloud_made :: "'w prov_env \<Rightarrow> ProvisioningServiceConfig \<Rightarrow> IPNet \<Rightarrow> ProvisionedNode \<Rightarrow> bool" where
  "cloud_made env cfg sub pn = (\<exists>w w'. env_provision env (cloud_config cfg sub) w = (Inr pn, w'))"

definition seen_healthy :: "'w prov_env \<Rightarrow> string \<Rightarrow> bool" where
  "seen_healthy env ip = (\<exists>w h w'. env_health env ip w = (Inr h, w') \<and> nh_IsHealthy h)"

lemma create_has_row:
  "hoare (on_state (store_inv c b)) (createProvisioningRecord i)
     (\<lambda>n. on_state (\<lambda>d. store_inv c b d \<and> i \<in> node_ids d \<and> nd_ID n = i)) (\<lambda>_ _. True)"
proof (intro hoareI TrueI)
  fix s n s' assume s: "on_state (store_inv c b) s" and run: "createProvisioningRecord i s = (Inr n, s')"
  obtain n0 d where c: "nodeRepo_Create n0 (pv_db s) = (Inr n, d)" "nd_ID n0 = i" "s' = s\<lparr>pv_db := d\<rparr>"
    using run by (auto simp: createProvisioningRecord_def on_db_Inr bindS_Inr_iff dest: NewNode_id)
  have "store_inv c b d"
    using staysD [OF keeps_inv_repo(1) c(1)] s by (auto simp: keeps_inv_def on_state_def)
  moreover have "i \<in> node_ids d"
    using c(1,2) by (cases rule: run_query_cases [of "\<lambda>d. if nd_ID n0 \<in> node_ids d \<or> nd_ServerPublicKey n0 \<in> n_server_public_key ` set (nodes d) \<or> nd_Status n0 \<notin> NodeStatuses
     then (Inl ErrConstraint, d)
     else (let r = \<lparr>n_id = nd_ID n0, n_server_id = None, n_ip_address = nd_IPAddress n0, n_server_public_key = nd_ServerPublicKey n0,
                    n_port = nd_Port n0, n_status = nd_Status n0, n_version = 1, n_created_at = clock d,
                    n_updated_at = clock d, n_destroy_at = None, n_last_handshake_at = None,
                    n_connected_clients = 0\<rparr>
           in (Inr r, d\<lparr>nodes := nodes d @ [r]\<rparr>))" "pv_db s"])
      (auto simp: nodeRepo_Create_def CreateNode_def Let_def node_ids_def split: if_splits)
  ultimately show "on_state (\<lambda>d. store_inv c b d \<and> i \<in> node_ids d \<and> nd_ID n = i) s'"
    using create_record_id [OF run] c(3) by (simp add: on_state_def)
qed

lemma allocate_has_subnet:
  assumes c: "config_base c b"
  shows "hoare (on_state (\<lambda>d. store_inv c b d \<and> i \<in> node_ids d \<and> A)) (allocateSubnet c i rb)
     (\<lambda>(sub, rb'). on_state (\<lambda>d. run_subnet c b i sub d \<and> A)) (\<lambda>_ _. True)"
proof (intro hoareI TrueI)
  fix s y s' assume s: "on_state (\<lambda>d. store_inv c b d \<and> i \<in> node_ids d \<and> A) s" and run: "allocateSubnet c i rb s = (Inr y, s')"
  then obtain sub d where a: "AllocateNodeSubnet_db c i (pv_db s) = (Inr sub, d)" "fst y = sub" "s' = s\<lparr>pv_db := d\<rparr>"
    by (auto simp: allocateSubnet_def on_db_Inr bindS_Inr_iff)
  have g: "db_good (pv_db s)" "subnet_pool c b (db_view (pv_db s))" using s by (auto simp: on_state_def store_inv_def)
  obtain sn where sn: "db_view d i = Some sn" "sn_Network sn = sub"
    using db_subnets.allocate_records [OF c g(1) a(1)] by blast
  moreover obtain r where "r \<in> set (subnets d)" "s_node_id r = i" using sn(1) by (rule db_view_Some)
  moreover have "db_good d" using db_subnets.allocate_keeps_pool [OF c g a(1)] by simp
  ultimately have "run_subnet c b i sub d" by (auto simp: run_subnet_def db_good_def db_ok_def subnets_ok_def)
  then show "(\<lambda>(sub, rb'). on_state (\<lambda>d. run_subnet c b i sub d \<and> A)) y s'"
    using a(2,3) s by (simp add: on_state_def case_prod_beta)
qed

lemma on_world_Inr: "on_world f s = (Inr x, s') \<longleftrightarrow> (\<exists>w'. f (pv_world s) = (Inr x, w') \<and> s' = s\<lparr>pv_world := w'\<rparr>)"
  by (auto simp: on_world_def split: prod.splits)

lemma cloud_step:
  "hoare (on_state Q) (provisionCloudInfrastructure env cfg i sub rb)
     (\<lambda>(pn, rb'). on_state (\<lambda>d. Q d \<and> cloud_made env cfg sub pn)) (\<lambda>_ _. True)"
  unfolding provisionCloudInfrastructure_def
  by (intro hoareI TrueI)
    (auto simp: bindS_Inr_iff on_world_Inr on_state_def cloud_made_def dest!: reports_db, blast)

lemma wait_step:
  "hoare (on_state Q) (waitForNodeReadiness env i ip) (\<lambda>_. on_state (\<lambda>d. Q d \<and> seen_healthy env ip)) (\<lambda>_ _. True)"
proof -
  have loop: "hoare (on_state Q) (readiness_loop env i ip attempt n) (\<lambda>_. on_state (\<lambda>d. Q d \<and> seen_healthy env ip))
      (\<lambda>_ _. True)" for attempt n
  proof (induction n arbitrary: attempt)
    case (Suc n)
    have check: "hoare (on_state Q) (tryS (on_world (env_health env ip)))
        (\<lambda>r. on_state (\<lambda>d. Q d \<and> (\<forall>h. r = Inr h \<longrightarrow> nh_IsHealthy h \<longrightarrow> seen_healthy env ip))) (\<lambda>_ _. True)"
      by (intro hoareI TrueI) (auto simp: tryS_def on_world_def on_state_def seen_healthy_def split: prod.splits)
    have go: "hoare (on_state (\<lambda>d. Q d \<and> X)) (readiness_loop env i ip (Suc attempt) n)
        (\<lambda>_. on_state (\<lambda>d. Q d \<and> seen_healthy env ip)) (\<lambda>_ _. True)" for X
      by (rule hoare_weaken [OF Suc.IH]) (auto simp: on_state_def)
    show ?case
      unfolding readiness_loop.simps
    proof (rule hoare_bind [OF report_on_state(1)], rule hoare_bind [OF check])
      fix r :: "NodeHealthStatus res"
      show "hoare (on_state (\<lambda>d. Q d \<and> (\<forall>h. r = Inr h \<longrightarrow> nh_IsHealthy h \<longrightarrow> seen_healthy env ip)))
          (case r of Inl e \<Rightarrow> readiness_loop env i ip (Suc attempt) n
            | Inr h \<Rightarrow> if nh_IsHealthy h then returnS () else readiness_loop env i ip (Suc attempt) n)
          (\<lambda>_. on_state (\<lambda>d. Q d \<and> seen_healthy env ip)) (\<lambda>_ _. True)"
      proof (cases r)
        case (Inr h)
        then show ?thesis using go [of True] by (cases "nh_IsHealthy h") (auto intro!: hoareI simp: on_state_def)
      qed (simp add: Suc.IH)
    qed
  qed (auto intro!: hoareI)
  show ?thesis unfolding waitForNodeReadiness_def by (rule hoare_bind [OF report_on_state(3) loop])
qed

text \<open>The entity carries the details of the cloud server.\<close>

definition details_of :: "string \<Rightarrow> ProvisionedNode \<Rightarrow> Node \<Rightarrow> bool" where
  "details_of i pn m = (nd_ID m = i \<and> nd_ServerID m = pn_ServerID pn \<and> nd_IPAddress m = pn_IPAddress pn \<and>
     nd_ServerPublicKey m = pn_PublicKey pn)"

lemma run_subnet_update:
  "nodeRepo_Update n d = (r, d') \<Longrightarrow> run_subnet c b i sub d \<Longrightarrow> run_subnet c b i sub d'"
  using nodeRepo_Update_keeps [of n d r d'] by (simp add: run_subnet_def db_view_def)

lemma updateNodeDetails_Inr:
  assumes "updateNodeDetails n pn rb s = (Inr (m, rb'), s')"
  shows "m = with_details pn (clock (pv_db s)) n \<and>
    (\<exists>d. nodeRepo_Update m (pv_db s) = (Inr (), d) \<and> s' = s\<lparr>pv_db := d\<rparr>)"
proof -
  obtain r d where "nodeRepo_Update (with_details pn (clock (pv_db s)) n) (pv_db s) = (r, d)" by (metis surj_pair)
  then show ?thesis using assms by (cases r) (simp_all add: updateNodeDetails_def bindS_def on_db_def Let_def)
qed

lemma details_step:
  "hoare (on_state (\<lambda>d. (run_subnet c b i sub d \<and> nd_ID n = i) \<and> cloud_made env cfg sub pn)) (updateNodeDetails n pn rb)
     (\<lambda>(m, rb'). on_state (\<lambda>d. run_subnet c b i sub d \<and> cloud_made env cfg sub pn \<and> details_of i pn m)) (\<lambda>_ _. True)"
proof (intro hoareI TrueI)
  fix s y s' assume s: "on_state (\<lambda>d. (run_subnet c b i sub d \<and> nd_ID n = i) \<and> cloud_made env cfg sub pn) s"
    and run: "updateNodeDetails n pn rb s = (Inr y, s')"
  obtain m rb' where y: "y = (m, rb')" by (cases y)
  obtain d where d: "nodeRepo_Update m (pv_db s) = (Inr (), d)" "s' = s\<lparr>pv_db := d\<rparr>"
    "m = with_details pn (clock (pv_db s)) n"
    using updateNodeDetails_Inr run y by blast
  have "details_of i pn m" using s d(3) by (simp add: details_of_def on_state_def with_details_def)
  moreover have "run_subnet c b i sub d" using run_subnet_update [OF d(1)] s by (simp add: on_state_def)
  ultimately show "(\<lambda>(m, rb'). on_state (\<lambda>d. run_subnet c b i sub d \<and> cloud_made env cfg sub pn \<and> details_of i pn m)) y s'"
    using s d(2) by (simp add: y on_state_def)
qed

lemma activate_step:
  "hoare (on_state (\<lambda>d. (run_subnet c b i sub d \<and> cloud_made env cfg sub pn \<and> details_of i pn n) \<and>
        seen_healthy env (pn_IPAddress pn))) (activateNode n)
     (\<lambda>m. on_state (\<lambda>d. run_subnet c b i sub d \<and> cloud_made env cfg sub pn \<and> seen_healthy env (pn_IPAddress pn) \<and>
        details_of i pn m \<and> nd_Status m = StatusActive \<and> node_record m d)) (\<lambda>_ _. True)"
proof (intro hoareI TrueI)
  fix s m s'
  assume s: "on_state (\<lambda>d. (run_subnet c b i sub d \<and> cloud_made env cfg sub pn \<and> details_of i pn n) \<and>
        seen_healthy env (pn_IPAddress pn)) s"
    and run: "activateNode n s = (Inr m, s')"
  obtain d where d: "nodeRepo_Update m (pv_db s) = (Inr (), d)" "s' = s\<lparr>pv_db := d\<rparr>"
    "m = n\<lparr>nd_Status := StatusActive, nd_UpdatedAt := clock (pv_db s), nd_Version := nd_Version n + 1\<rparr>"
    using run unfolding activateNode_def bindS_Inr_iff on_db_Inr Node_UpdateStatus_Inr stateS_simps prod.inject sum.inject
    by (elim exE conjE, hypsubst, simp)
  have m: "details_of i pn m" "nd_Status m = StatusActive" using s d(3) by (simp_all add: details_of_def on_state_def)
  then have "nd_ID m \<in> node_ids (pv_db s)" using s by (simp add: on_state_def run_subnet_def details_of_def)
  then have "node_record m d" by (rule nodeRepo_Update_writes [OF d(1)])
  moreover have "run_subnet c b i sub d" using run_subnet_update [OF d(1)] s by (simp add: on_state_def)
  ultimately show "on_state (\<lambda>d. run_subnet c b i sub d \<and> cloud_made env cfg sub pn \<and> seen_healthy env (pn_IPAddress pn) \<and>
        details_of i pn m \<and> nd_Status m = StatusActive \<and> node_record m d) s'"
    using s d(2) m by (simp add: on_state_def)
qed

definition run_built ::
  "'w prov_env \<Rightarrow> ProvisioningServiceConfig \<Rightarrow> NetworkConfig \<Rightarrow> IPNet \<Rightarrow> string \<Rightarrow> Db \<Rightarrow> bool" where
  "run_built env cfg c b i d = (\<exists>sub pn m. run_subnet c b i sub d \<and> cloud_made env cfg sub pn \<and>
     seen_healthy env (pn_IPAddress pn) \<and> details_of i pn m \<and> nd_Status m = StatusActive \<and> node_record m d)"

lemma final_step:
  "hoare (on_state (\<lambda>d. run_subnet c b i sub d \<and> cloud_made env cfg sub pn \<and> seen_healthy env (pn_IPAddress pn) \<and>
      details_of i pn m \<and> nd_Status m = StatusActive \<and> node_record m d))
    (bindS (tryS (on_db (nodeRepo_GetByID i))) (\<lambda>r. returnS (f r))) (\<lambda>_. on_state (run_built env cfg c b i)) E"
proof (rule hoareI)
  fix s x s' assume s: "on_state (\<lambda>d. run_subnet c b i sub d \<and> cloud_made env cfg sub pn \<and> seen_healthy env (pn_IPAddress pn) \<and>
      details_of i pn m \<and> nd_Status m = StatusActive \<and> node_record m d) s"
    and "bindS (tryS (on_db (nodeRepo_GetByID i))) (\<lambda>r. returnS (f r)) s = (Inr x, s')"
  then obtain q d where q: "nodeRepo_GetByID i (pv_db s) = (q, d)" "pv_db s' = d"
    by (auto simp: bindS_def tryS_def on_db_def split: prod.splits)
  have k: "keep_tables (pv_db s) d" using nodeRepo_GetByID_result [OF q(1)] by simp
  have "run_subnet c b i sub d"
    using s k by (simp add: on_state_def run_subnet_def keep_tables_def node_ids_def db_view_def)
  moreover have "node_record m d = node_record m (pv_db s)" using k by (simp add: node_record_def keep_tables_def)
  ultimately show "on_state (run_built env cfg c b i) s'"
    using s q(2) unfolding on_state_def run_built_def by blast
qed (auto simp: bindS_def tryS_def split: prod.splits)

lemmas build_rules = hoare_bind_pair [OF step_failed_ignoring [OF cloud_step]]
  hoare_bind_pair [OF step_failed_ignoring [OF details_step]] hoare_bind [OF step_failed_ignoring [OF wait_step]]
  hoare_bind [OF step_failed_ignoring [OF activate_step]] hoare_bind [OF step_failed_ignoring [OF create_has_row]]
  final_step hoare_bind [OF report_on_state(1)] hoare_bind [OF report_on_state(2)]
  hoare_bind [OF report_on_state(3)] hoare_bind [OF report_on_state(4)]

lemma run_builds:
  assumes c: "config_base c b"
  shows "hoare (on_state (store_inv c b)) (provision_phases env cfg c start i)
    (\<lambda>_. on_state (run_built env cfg c b i)) (\<lambda>_ _. True)"
  unfolding provision_phases_def Let_def
  by (rule build_rules hoare_bind_pair [OF step_failed_ignoring [OF allocate_has_subnet [OF c]]])+


subsection \<open>When nothing fails\<close>

text \<open>A cloud that provides servers with keys outside \<open>used\<close>, checks that find the node healthy, at
  least one tick before the deadline.\<close>

definition env_works :: "'w prov_env \<Rightarrow> string set \<Rightarrow> bool" where
  "env_works env used =
     ((\<forall>cf w. \<exists>pn w'. env_provision env cf w = (Inr pn, w') \<and> pn_PublicKey pn \<notin> used) \<and>
      (\<forall>ip w. \<exists>h w'. env_health env ip w = (Inr h, w') \<and> nh_IsHealthy h) \<and>
      (\<forall>w. fst (env_ticks env w) > 0))"

lemma update_succeeds:
  assumes "faults d = []" "nd_Status n \<in> NodeStatuses"
    and "\<forall>r\<in>set (nodes d). n_id r \<noteq> nd_ID n \<longrightarrow> n_server_public_key r \<noteq> nd_ServerPublicKey n"
  shows "\<exists>d'. nodeRepo_Update n d = (Inr (), d')"
  using assms
  by (auto simp: nodeRepo_Update_def UpdateNodeDetails_def UpdateNodeActivity_def run_query_nofault Let_def map_nodes_def)

lemma own_rows_keys:
  assumes "own_rows i d0 d" "r \<in> set (nodes d)" "n_id r \<noteq> i"
  shows "n_server_public_key r \<in> n_server_public_key ` set (nodes d0)"
proof -
  have "r \<in> set (filter (\<lambda>r. n_id r \<noteq> i) (nodes d))" using assms(2,3) by simp
  then have "r \<in> set (filter (\<lambda>r. n_id r \<noteq> i) (nodes d0))" using assms(1) by (simp only: own_rows_def)
  then show ?thesis by auto
qed

lemma own_rows_fresh:
  assumes "own_rows i d0 d" "n_server_public_key ` set (nodes d0) \<subseteq> used" "k \<notin> used"
  shows "\<forall>r\<in>set (nodes d). n_id r \<noteq> i \<longrightarrow> n_server_public_key r \<noteq> k"
  using own_rows_keys [OF assms(1)] assms(2,3) by blast

lemma create_record_status: "createProvisioningRecord i s = (Inr n, s') \<Longrightarrow> nd_Status n = StatusProvisioning"
  by (auto simp: createProvisioningRecord_def on_db_Inr bindS_Inr_iff NewNode_def nodeRepo_Create_def
      split: if_splits sum.splits prod.splits)

lemma create_succeeds:
  assumes c: "config_base c b" and d0: "store_inv c b d0" "faults d0 = []"
    and i: "i \<noteq> []" "i \<notin> node_ids d0" "i \<notin> n_server_public_key ` set (nodes d0)"
  shows "hoare (on_state (\<lambda>d. d = d0)) (createProvisioningRecord i)
    (\<lambda>n s. run_mid c b i d0 s \<and> nd_ID n = i \<and> nd_Status n = StatusProvisioning \<and> i \<in> node_ids (pv_db s) \<and>
       subnets (pv_db s) = subnets d0) (\<lambda>_ _. False)"
proof (rule hoareI)
  fix s n s' assume s: "on_state (\<lambda>d. d = d0) s" and run: "createProvisioningRecord i s = (Inr n, s')"
  then have "run_mid c b i d0 s'" "nd_ID n = i"
    using hoareD(1) [OF create_begins [OF c d0] _ run] by (auto simp: on_state_def)
  moreover have "i \<in> node_ids (pv_db s') \<and> subnets (pv_db s') = subnets d0"
    using s run d0(2) i
    by (auto simp: createProvisioningRecord_def on_db_Inr bindS_Inr_iff NewNode_def nodeRepo_Create_def CreateNode_def
        run_query_nofault Let_def node_ids_def on_state_def split: if_splits sum.splits prod.splits)
  ultimately show "run_mid c b i d0 s' \<and> nd_ID n = i \<and> nd_Status n = StatusProvisioning \<and> i \<in> node_ids (pv_db s') \<and>
      subnets (pv_db s') = subnets d0"
    using create_record_status [OF run] by simp
next
  fix s e s' assume "on_state (\<lambda>d. d = d0) s" "createProvisioningRecord i s = (Inl e, s')"
  then show False
    using i d0(2)
    by (auto simp: createProvisioningRecord_def on_db_def bindS_def NewNode_def nodeRepo_Create_def CreateNode_def
        run_query_nofault Let_def node_ids_def on_state_def split: if_splits sum.splits prod.splits)
qed

lemma allocate_succeeds:
  assumes c: "config_base c b" and i: "i \<noteq> []" "length i \<le> 255" "i \<notin> node_ids d0" and d0: "db_good d0"
    and free: "k < 2 ^ (nat (SubnetMask c) - net_ones b)" "net_string (subnet_at c b k) \<notin> s_subnet_cidr ` set (subnets d0)"
  shows "hoare (\<lambda>s. run_mid c b i d0 s \<and> nd_ID n = i \<and> nd_Status n = StatusProvisioning \<and> i \<in> node_ids (pv_db s) \<and>
       subnets (pv_db s) = subnets d0) (allocateSubnet c i rb)
    (\<lambda>(sub, rb') s. run_mid c b i d0 s \<and> nd_ID n = i \<and> nd_Status n = StatusProvisioning) (\<lambda>_ _. False)"
proof (rule hoareI)
  fix s y s' assume s: "run_mid c b i d0 s \<and> nd_ID n = i \<and> nd_Status n = StatusProvisioning \<and> i \<in> node_ids (pv_db s) \<and>
       subnets (pv_db s) = subnets d0" and run: "allocateSubnet c i rb s = (Inr y, s')"
  show "(\<lambda>(sub, rb') s. run_mid c b i d0 s \<and> nd_ID n = i \<and> nd_Status n = StatusProvisioning) y s'"
    using hoareD(1) [OF run_mid_stays [OF own.R_allocate run_steps.R_allocate [OF run_keeps_inv [OF c]]] _ run, of d0] s
    by (simp add: case_prod_beta)
next
  fix s e s' assume s: "run_mid c b i d0 s \<and> nd_ID n = i \<and> nd_Status n = StatusProvisioning \<and> i \<in> node_ids (pv_db s) \<and>
       subnets (pv_db s) = subnets d0" and run: "allocateSubnet c i rb s = (Inl e, s')"
  have "i \<notin> s_node_id ` set (subnets d0)" using d0 i(3) by (auto simp: db_good_def db_ok_def subnets_ok_def)
  then have "find (\<lambda>r. s_node_id r = i) (subnets (pv_db s)) = None"
    using s by (force simp: find_None_all)
  then have "db_view (pv_db s) i = None" by (simp add: db_view_def)
  moreover have "find (\<lambda>k. net_string (subnet_at c b k) \<notin> s_subnet_cidr ` set (subnets (pv_db s)))
      [0..<2 ^ (nat (SubnetMask c) - net_ones b)] \<noteq> None"
    using free s by (auto simp: find_None_iff)
  ultimately obtain sub d where "AllocateNodeSubnet_db c i (pv_db s) = (Inr sub, d)"
    using allocate_db_outcome [OF c _ _ i(1,2), of "pv_db s"] s by (auto simp: run_mid_def store_inv_def split: option.splits)
  then show False using run by (auto simp: allocateSubnet_def bindS_def on_db_def)
qed

lemma cloud_succeeds:
  assumes c: "config_base c b" and env: "env_works env used"
  shows "hoare (\<lambda>s. run_mid c b i d0 s \<and> nd_ID n = i \<and> nd_Status n = StatusProvisioning)
    (provisionCloudInfrastructure env cfg i sub rb)
    (\<lambda>(pn, rb') s. run_mid c b i d0 s \<and> nd_ID n = i \<and> nd_Status n = StatusProvisioning \<and> pn_PublicKey pn \<notin> used)
    (\<lambda>_ _. False)"
proof (rule hoareI)
  fix s y s' assume s: "run_mid c b i d0 s \<and> nd_ID n = i \<and> nd_Status n = StatusProvisioning"
    and run: "provisionCloudInfrastructure env cfg i sub rb s = (Inr y, s')"
  obtain pn rb' where y: "y = (pn, rb')" by (cases y)
  obtain w w' where "env_provision env (cloud_config cfg sub) w = (Inr pn, w')"
    using run y by (auto simp: provisionCloudInfrastructure_def bindS_Inr_iff on_world_Inr)
  then have "pn_PublicKey pn \<notin> used" using env unfolding env_works_def by (metis prod.inject sum.inject(2))
  then show "(\<lambda>(pn, rb') s. run_mid c b i d0 s \<and> nd_ID n = i \<and> nd_Status n = StatusProvisioning \<and> pn_PublicKey pn \<notin> used) y s'"
    using hoareD(1) [OF run_mid_stays [OF own.R_cloud run_steps.R_cloud [OF run_keeps_inv [OF c]]] _ run, of d0] s y by simp
next
  fix s e s' assume "provisionCloudInfrastructure env cfg i sub rb s = (Inl e, s')"
  moreover have "(\<exists>pn w'. env_provision env (cloud_config cfg sub) w = (Inr pn, w'))" for w
    using env unfolding env_works_def by blast
  ultimately show False
    by (auto simp: provisionCloudInfrastructure_def bindS_Inl_iff map_errS_Inl_iff on_world_def dest!: reports_db
        split: prod.splits)
qed

lemma details_succeeds:
  assumes c: "config_base c b" and used: "n_server_public_key ` set (nodes d0) \<subseteq> used"
  shows "hoare (\<lambda>s. run_mid c b i d0 s \<and> nd_ID n = i \<and> nd_Status n = StatusProvisioning \<and> pn_PublicKey pn \<notin> used)
    (updateNodeDetails n pn rb)
    (\<lambda>(m, rb') s. run_mid c b i d0 s \<and> nd_ID m = i \<and> nd_Status m = StatusProvisioning \<and> nd_ServerPublicKey m \<notin> used)
    (\<lambda>_ _. False)"
proof (rule hoareI)
  fix s y s' assume s: "run_mid c b i d0 s \<and> nd_ID n = i \<and> nd_Status n = StatusProvisioning \<and> pn_PublicKey pn \<notin> used"
    and run: "updateNodeDetails n pn rb s = (Inr y, s')"
  obtain m rb' where y: "y = (m, rb')" by (cases y)
  have "m = with_details pn (clock (pv_db s)) n"
    using updateNodeDetails_Inr run y by blast
  moreover have mid: "run_mid c b i d0 s'"
    by (rule hoareD(1) [OF run_mid_stays [OF own.R_details run_steps.R_details [OF run_keeps_inv [OF c]]] _ run])
      (use s in simp_all)
  ultimately have "nd_ID m = i \<and> nd_Status m = StatusProvisioning \<and> nd_ServerPublicKey m = pn_PublicKey pn"
    using s by (simp add: with_details_def)
  then show "(\<lambda>(m, rb') s. run_mid c b i d0 s \<and> nd_ID m = i \<and> nd_Status m = StatusProvisioning \<and> nd_ServerPublicKey m \<notin> used) y s'"
    using mid s y by simp
next
  fix s e s' assume s: "run_mid c b i d0 s \<and> nd_ID n = i \<and> nd_Status n = StatusProvisioning \<and> pn_PublicKey pn \<notin> used"
    and run: "updateNodeDetails n pn rb s = (Inl e, s')"
  let ?m = "with_details pn (clock (pv_db s)) n"
  have m: "nd_ID ?m = i" "nd_Status ?m = StatusProvisioning" "nd_ServerPublicKey ?m = pn_PublicKey pn"
    using s by (simp_all add: with_details_def)
  have "\<exists>d'. nodeRepo_Update ?m (pv_db s) = (Inr (), d')"
    using own_rows_fresh [OF _ used, of i "pv_db s" "pn_PublicKey pn"] s by (intro update_succeeds) (auto simp: run_mid_def m)
  then show False using run by (auto simp: updateNodeDetails_def bindS_def on_db_def Let_def)
qed

lemma activate_succeeds:
  assumes c: "config_base c b" and used: "n_server_public_key ` set (nodes d0) \<subseteq> used"
  shows "hoare (\<lambda>s. run_mid c b i d0 s \<and> nd_ID n = i \<and> nd_Status n = StatusProvisioning \<and> nd_ServerPublicKey n \<notin> used)
    (activateNode n) (\<lambda>_. run_mid c b i d0) (\<lambda>_ _. False)"
proof (rule hoareI)
  fix s m s' assume s: "run_mid c b i d0 s \<and> nd_ID n = i \<and> nd_Status n = StatusProvisioning \<and> nd_ServerPublicKey n \<notin> used"
    and run: "activateNode n s = (Inr m, s')"
  show "run_mid c b i d0 s'"
    by (rule hoareD(1) [OF run_mid_stays [OF own.R_activate run_steps.R_activate [OF run_keeps_inv [OF c]]] _ run])
      (use s in simp_all)
next
  fix s e s' assume s: "run_mid c b i d0 s \<and> nd_ID n = i \<and> nd_Status n = StatusProvisioning \<and> nd_ServerPublicKey n \<notin> used"
    and run: "activateNode n s = (Inl e, s')"
  have u: "Node_UpdateStatus (clock (pv_db s)) StatusActive n =
      Inr (n\<lparr>nd_Status := StatusActive, nd_UpdatedAt := clock (pv_db s), nd_Version := nd_Version n + 1\<rparr>)"
    using s by (simp add: Node_UpdateStatus_def NodeStatus_IsValid_def NodeStatus_CanTransitionTo_def)
  have "\<exists>d'. nodeRepo_Update (n\<lparr>nd_Status := StatusActive, nd_UpdatedAt := clock (pv_db s), nd_Version := nd_Version n + 1\<rparr>)
      (pv_db s) = (Inr (), d')"
    using own_rows_fresh [OF _ used, of i "pv_db s" "nd_ServerPublicKey n"] s by (intro update_succeeds) (auto simp: run_mid_def)
  then show False using run u by (auto simp: activateNode_def bindS_def on_db_def)
qed

lemma wait_succeeds:
  assumes env: "env_works env used"
  shows "hoare (\<lambda>s. Q (pv_db s)) (waitForNodeReadiness env i ip) (\<lambda>_ s. Q (pv_db s)) (\<lambda>_ _. False)"
proof -
  have health: "hoare (\<lambda>s. Q (pv_db s)) (tryS (on_world (env_health env ip)))
      (\<lambda>r s. Q (pv_db s) \<and> (\<exists>h. r = Inr h \<and> nh_IsHealthy h)) (\<lambda>_ _. False)"
  proof -
    have "\<exists>h w'. env_health env ip w = (Inr h, w') \<and> nh_IsHealthy h" for w
      using env unfolding env_works_def by blast
    then show ?thesis
      by (intro hoareI) (auto simp: tryS_def on_world_def split: prod.splits, metis prod.inject)
  qed
  have loop: "hoare (\<lambda>s. Q (pv_db s)) (readiness_loop env i ip a (Suc n)) (\<lambda>_ s. Q (pv_db s)) (\<lambda>_ _. False)" for a n
    unfolding readiness_loop.simps
  proof (rule hoare_bind [where Q = "\<lambda>_ s. Q (pv_db s)"], rule hoareI)
    show "hoare (\<lambda>s. Q (pv_db s)) (bindS (tryS (on_world (env_health env ip))) (\<lambda>r. case r of
        Inl e \<Rightarrow> readiness_loop env i ip (Suc a) n
      | Inr h \<Rightarrow> if nh_IsHealthy h then returnS () else readiness_loop env i ip (Suc a) n)) (\<lambda>_ s. Q (pv_db s)) (\<lambda>_ _. False)"
      by (rule hoare_bind [OF health]) (auto simp: hoare_def)
  qed (auto dest!: reports_db)
  show ?thesis
  proof (rule hoareI)
    fix s u s' assume "Q (pv_db s)" "waitForNodeReadiness env i ip s = (Inr u, s')"
    moreover obtain n w where "env_ticks env (pv_world s) = (Suc n, w)"
      using env unfolding env_works_def by (metis gr0_implies_Suc surj_pair fst_conv)
    ultimately show "Q (pv_db s')"
      using hoareD(1) [OF loop, of "s\<lparr>pv_world := w\<rparr>" 0 n u s'] by (simp add: waitForNodeReadiness_def bindS_def ask_def)
  next
    fix s e s' assume "Q (pv_db s)" "waitForNodeReadiness env i ip s = (Inl e, s')"
    moreover obtain n w where "env_ticks env (pv_world s) = (Suc n, w)"
      using env unfolding env_works_def by (metis gr0_implies_Suc surj_pair fst_conv)
    ultimately show False
      using hoareD(2) [OF loop, of "s\<lparr>pv_world := w\<rparr>" 0 n e s'] by (simp add: waitForNodeReadiness_def bindS_def ask_def)
  qed
qed

lemma report_with:
  assumes "\<And>s s'. pv_db s' = pv_db s \<Longrightarrow> P s \<Longrightarrow> P s'"
  shows "hoare P (reportProgress env i phase p msg md) (\<lambda>_. P) E" "hoare P (reportPhaseStart env i phase msg) (\<lambda>_. P) E"
    "hoare P (ask f) (\<lambda>_. P) E" "hoare P (quiet (publish env payload)) (\<lambda>_. P) E"
  using assms by (intro hoareI; blast dest!: reports_db)+

lemma wait_succeeds_with:
  assumes env: "env_works env used" and P: "\<And>s s'. pv_db s' = pv_db s \<Longrightarrow> P s \<Longrightarrow> P s'"
  shows "hoare P (waitForNodeReadiness env i ip) (\<lambda>_. P) (\<lambda>_ _. False)"
  by (rule hoare_weaken [OF wait_succeeds [OF env, of "\<lambda>d. \<exists>t. pv_db t = d \<and> P t"]]) (auto dest: P [OF sym])

lemma step_succeeds: "hoare P m Q (\<lambda>_ _. False) \<Longrightarrow> hoare P (step_failed env i phase undo m) Q E"
proof (rule hoareI)
  assume m: "hoare P m Q (\<lambda>_ _. False)"
  fix s
  assume p: "P s"
  obtain r s1 where r: "m s = (r, s1)" by (metis surj_pair)
  have ok: "\<exists>x. r = Inr x \<and> Q x s1" using hoareD [OF m p] r by (cases r) auto
  show "Q x s'" if "step_failed env i phase undo m s = (Inr x, s')" for x s'
    using that r ok by (auto simp: step_failed_def)
  show "E e s'" if "step_failed env i phase undo m s = (Inl e, s')" for e s'
    using that r ok by (auto simp: step_failed_def)
qed

lemma final_succeeds: "hoare P (bindS (tryS m) (\<lambda>r. returnS (f r))) (\<lambda>_ _. True) E"
  by (auto simp: hoare_def bindS_def tryS_def split: prod.splits)

lemma run_succeeds:
  assumes c: "config_base c b" and d0: "store_inv c b d0" "faults d0 = []"
    and i: "i \<noteq> []" "length i \<le> 255" "i \<notin> node_ids d0" "i \<notin> n_server_public_key ` set (nodes d0)"
    and free: "k < 2 ^ (nat (SubnetMask c) - net_ones b)" "net_string (subnet_at c b k) \<notin> s_subnet_cidr ` set (subnets d0)"
    and env: "env_works env used" and used: "n_server_public_key ` set (nodes d0) \<subseteq> used"
  shows "hoare (on_state (\<lambda>d. d = d0)) (provision_phases env cfg c start i) (\<lambda>_ _. True) (\<lambda>_ _. False)"
proof -
  have good: "db_good d0" using d0(1) by (simp add: store_inv_def)
  note steps = hoare_bind [OF step_succeeds [OF create_succeeds [OF c d0 i(1,3,4)]]]
    hoare_bind_pair [OF step_succeeds [OF allocate_succeeds [OF c i(1-3) good free]]]
    hoare_bind_pair [OF step_succeeds [OF cloud_succeeds [OF c env]]]
    hoare_bind_pair [OF step_succeeds [OF details_succeeds [OF c used]]]
    hoare_bind [OF step_succeeds [OF wait_succeeds_with [OF env]]]
    hoare_bind [OF step_succeeds [OF activate_succeeds [OF c used]]] final_succeeds
    hoare_bind [OF report_with(1)] hoare_bind [OF report_with(2)] hoare_bind [OF report_with(3)]
    hoare_bind [OF report_with(4)]
  show ?thesis
    unfolding provision_phases_def Let_def
    by (rule steps | (simp add: run_mid_def on_state_def; fail))+
qed


subsection \<open>Readiness checks\<close>

lemma readiness_calls:
  assumes health: "\<And>ip w. calls (snd (env_health env ip w)) = Suc (calls w)"
    and now: "\<And>w. calls (snd (env_now env w)) = calls w" "\<And>w. calls (snd (env_uuid env w)) = calls w"
    and run: "readiness_loop env i ip a n s = (r, s')"
  shows "(case r of
      Inr _ \<Rightarrow> calls (pv_world s) < calls (pv_world s') \<and> calls (pv_world s') \<le> calls (pv_world s) + n
    | Inl e \<Rightarrow> calls (pv_world s') = calls (pv_world s) + n \<and> GetErrorCode e = ErrCodeSSHTimeout)"
  using run
proof (induction n arbitrary: a s)
  case 0
  then show ?case by auto
next
  case (Suc n)
  have report: "calls (pv_world (snd (reportProgress env i phase p msg md s))) = calls (pv_world s)" for phase p msg md s
    using now by (auto simp: reportProgress_def quiet_def publish_def bindS_def ask_def deliver_def split: prod.splits sum.splits)
      (metis snd_conv)+
  obtain s1 where s1: "reportProgress env i ''ssh_connection'' (75 / 100)
      (''Checking node readiness (attempt '' @ dec (Suc a) @ '')'') None s = (Inr (), s1)"
    "calls (pv_world s1) = calls (pv_world s)"
    using report reports_db(1) by (metis prod.collapse)
  obtain q w where w: "env_health env ip (pv_world s1) = (q, w)" by (metis surj_pair)
  have c: "calls w = Suc (calls (pv_world s))" using health [of ip "pv_world s1"] w s1(2) by simp
  let ?s2 = "s1\<lparr>pv_world := w\<rparr>"
  have step: "readiness_loop env i ip a (Suc n) s = bindS (tryS (on_world (env_health env ip))) (\<lambda>r. case r of
        Inl e \<Rightarrow> readiness_loop env i ip (Suc a) n
      | Inr h \<Rightarrow> if nh_IsHealthy h then returnS () else readiness_loop env i ip (Suc a) n) s1"
    unfolding readiness_loop.simps by (rule bindS_simps(2)) (rule s1(1))
  have go: "readiness_loop env i ip (Suc a) n ?s2 = (r, s')" if "\<forall>h. q = Inr h \<longrightarrow> \<not> nh_IsHealthy h"
    using Suc.prems that unfolding step by (cases q) (simp_all add: bindS_def tryS_def on_world_def w)
  show ?case
  proof (cases "\<exists>h. q = Inr h \<and> nh_IsHealthy h")
    case True
    then have "r = Inr ()" "s' = ?s2" using Suc.prems unfolding step by (auto simp: bindS_def tryS_def on_world_def w)
    then show ?thesis using c by simp
  next
    case False
    then have "readiness_loop env i ip (Suc a) n ?s2 = (r, s')" using go by blast
    from Suc.IH [OF this] show ?thesis using c by (auto split: sum.splits)
  qed
qed

text \<open>Waiting for readiness ends after as many health checks as ticks came before the deadline; it
  fails only after all of them, with the timeout code, and otherwise has made at least one check.
  \<open>calls\<close> counts the health checks of the world.\<close>

theorem readiness_bounded:
  assumes "\<And>ip w. calls (snd (env_health env ip w)) = Suc (calls w)"
    and "\<And>w. calls (snd (env_now env w)) = calls w" "\<And>w. calls (snd (env_uuid env w)) = calls w"
    and ticks: "env_ticks env (pv_world s) = (n, w)" "calls w = calls (pv_world s)"
    and run: "waitForNodeReadiness env i ip s = (r, s')"
  shows "(case r of
      Inr _ \<Rightarrow> calls (pv_world s) < calls (pv_world s') \<and> calls (pv_world s') \<le> calls (pv_world s) + n
    | Inl e \<Rightarrow> calls (pv_world s') = calls (pv_world s) + n \<and> GetErrorCode e = ErrCodeSSHTimeout)"
proof -
  have "readiness_loop env i ip 0 n (s\<lparr>pv_world := w\<rparr>) = (r, s')"
    using run ticks(1) by (simp add: waitForNodeReadiness_def bindS_def ask_def)
  from readiness_calls [where calls = calls, OF assms(1-3) this] show ?thesis using ticks(2) by (cases r) simp_all
qed

subsection \<open>A destruction cannot be resumed\<close>

text \<open>C34: once a node is marked destroying, which a destruction does before anything that can fail,
  every further \<open>DestroyNode\<close> refuses it and changes no table: a destruction whose final deletion
  failed can never be completed by retrying.\<close>

theorem destroying_node_is_stuck:
  assumes "db_ok (pv_db s)" "row \<in> set (nodes (pv_db s))" "n_status row = StatusDestroying"
    and "prov_DestroyNode env (n_id row) s = (r, s')"
  shows "(\<exists>e. r = Inl e) \<and> keep_tables (pv_db s) (pv_db s')"
proof -
  obtain q d where q: "nodeRepo_GetByID (n_id row) (pv_db s) = (q, d)" by (metis surj_pair)
  have k: "keep_tables (pv_db s) d" using nodeRepo_GetByID_result [OF q] by simp
  show ?thesis
  proof (cases q)
    case (Inl e)
    then show ?thesis using assms(4) q k by (auto simp: prov_DestroyNode_def prov_destroyNode_def bindS_def on_db_def)
  next
    case (Inr n)
    then obtain row' where "row' \<in> set (nodes (pv_db s))" "n_id row' = n_id row" "n = toDomainNode row'"
      using nodeRepo_GetByID_result [OF q] by auto
    moreover have "distinct (map n_id (nodes (pv_db s)))" using assms(1) by (simp add: db_ok_def nodes_ok_def)
    ultimately have "n = toDomainNode row" using assms(2) distinct_map_unique by metis
    then have "nd_Status n = StatusDestroying" using assms(3) by (simp add: toDomainNode_def)
    then have "Node_ValidateForDestruction n \<noteq> Inr ()" by (simp add: Node_ValidateForDestruction_def)
    then obtain e where v: "Node_ValidateForDestruction n = Inl e" by (cases "Node_ValidateForDestruction n") auto
    have "prov_DestroyNode env (n_id row) s = (Inl e, s\<lparr>pv_db := d\<rparr>)"
      using q Inr by (simp add: prov_DestroyNode_def prov_destroyNode_def bindS_def on_db_def v)
    then show ?thesis using assms(4) k by auto
  qed
qed

subsection \<open>Two requests at once\<close>

text \<open>The worker and the background runs: the tracker, how many runs were started with \<open>go\<close> but have
  not reported yet, and the identifiers of those that have.\<close>

type_synonym worker_state = "prov_tracker \<times> nat \<times> string set"

definition prov_step_event :: "string \<Rightarrow> int \<Rightarrow> string \<times> ev_metadata \<Rightarrow> prov_tracker \<Rightarrow> prov_tracker" where
  "prov_step_event uuid now p t = track_provisioning id now (NewBaseEvent uuid now (fst p) (snd p)) t"

text \<open>The identifiers the code makes up.\<close>

definition request_id :: "string \<Rightarrow> bool" where
  "request_id r = (r = ''peer-connect'' \<or> (\<exists>n. r = ''provision-'' @ dec n))"

definition run_id :: "string \<Rightarrow> bool" where
  "run_id i = (\<exists>n. i = ''node-'' @ dec n)"

inductive worker_step :: "worker_state \<Rightarrow> worker_state \<Rightarrow> bool" where
  start: "request_id r \<Longrightarrow> t' = prov_step_event uuid now (provision_requested r source) t \<Longrightarrow> handleProvisionRequest t' \<Longrightarrow>
    worker_step (t, starting, running) (t', Suc starting, running)"
| ignore: "request_id r \<Longrightarrow> t' = prov_step_event uuid now (provision_requested r source) t \<Longrightarrow> \<not> handleProvisionRequest t' \<Longrightarrow>
    worker_step (t, starting, running) (t', starting, running)"
| begin_run: "run_id i \<Longrightarrow> map_of t i = None \<Longrightarrow>
    worker_step (t, Suc starting, running)
      (prov_step_event uuid now (provision_progress i ''initialization'' 0 ''Starting node provisioning'' None) t,
       starting, insert i running)"
| report: "i \<in> running \<Longrightarrow> phase \<notin> {''requested'', ''completed''} \<Longrightarrow>
    worker_step (t, starting, running)
      (prov_step_event uuid now (provision_progress i phase progress message metadata) t, starting, running)"
| fail_run: "i \<in> running \<Longrightarrow> phase \<noteq> ''requested'' \<Longrightarrow>
    worker_step (t, starting, running)
      (prov_step_event uuid now (provision_failed i phase e) t, starting, running - {i})"
| finish_run: "i \<in> running \<Longrightarrow>
    worker_step (t, starting, running)
      (prov_step_event uuid now (provision_progress i ''completed'' 1 message metadata) t, starting, running - {i})"
| completed: "run_id i \<Longrightarrow> i \<notin> running \<Longrightarrow>
    worker_step (t, starting, running)
      (prov_step_event uuid now (provision_completed i serverID ip duration) t, starting, running)"

text \<open>Every run that has reported and not ended is in progress for the tracker.\<close>

definition runs_tracked :: "worker_state \<Rightarrow> bool" where
  "runs_tracked s = (case s of (t, starting, running) \<Rightarrow>
     distinct (map fst t) \<and> (\<forall>k st. map_of t k = Some st \<longrightarrow> pvs_Phase st = ''requested'' \<longrightarrow> pvs_ErrorMessage st = []) \<and>
     (\<forall>i\<in>running. run_id i \<and> (\<exists>st. map_of t i = Some st \<and> in_progress st)))"

lemma request_not_run: "request_id r \<Longrightarrow> \<not> run_id r"
  by (auto simp: request_id_def run_id_def)

lemma requested_tracked:
  assumes "runs_tracked (t, n, R)" "request_id r"
  shows "runs_tracked (prov_step_event uuid now (provision_requested r source) t, m, R)"
proof -
  have "prov_step_event uuid now (provision_requested r source) t = AList.update r ((new_provisioning_state r now)
      \<lparr>pvs_Phase := ''requested'', pvs_LastUpdated := now, pvs_IsActive := True,
       pvs_Metadata := snd (provision_requested r source)\<rparr>) t"
    by (simp add: prov_step_event_def track_provisioning_def NewBaseEvent_def handleProvisionRequested_def
        provision_requested_def Let_def)
  then show ?thesis
    using assms request_not_run [OF assms(2)]
    by (auto simp: runs_tracked_def distinct_update map_of_update_alist new_provisioning_state_def)
qed

text \<open>A new entry of a run over a part of the tracker that keeps all runs.\<close>

lemma tracked_update:
  assumes inv: "runs_tracked (t, n, R)" and i: "run_id i"
    and st: "in_progress st1" "pvs_Phase st1 \<noteq> ''requested''"
    and t0: "distinct (map fst t0) \<and> (\<forall>k st. map_of t0 k = Some st \<longrightarrow> map_of t k = Some st) \<and>
      (\<forall>j\<in>R. map_of t0 j = map_of t j)"
  shows "runs_tracked (AList.update i st1 t0, m, insert i R)"
  unfolding runs_tracked_def prod.case map_of_update_alist
proof (intro conjI allI impI ballI)
  show "distinct (map fst (AList.update i st1 t0))" using t0 by (simp add: distinct_update)
next
  fix k st assume a: "((map_of t0)(i \<mapsto> st1)) k = Some st" "pvs_Phase st = ''requested''"
  then have "map_of t0 k = Some st" using st(2) by (cases "k = i") simp_all
  then have "map_of t k = Some st" using t0 by blast
  then show "pvs_ErrorMessage st = []" using inv a(2) unfolding runs_tracked_def by blast
next
  fix j assume j: "j \<in> insert i R"
  show "run_id j" using j i inv unfolding runs_tracked_def by blast
  show "\<exists>st. ((map_of t0)(i \<mapsto> st1)) j = Some st \<and> in_progress st"
  proof (cases "j = i")
    case False
    then obtain st where "map_of t j = Some st" "in_progress st" using j inv unfolding runs_tracked_def by blast
    moreover have "j \<in> R" using False j by blast
    then have "map_of t0 j = map_of t j" using t0 by blast
    ultimately show ?thesis using False by (intro exI [of _ st]) simp
  qed (simp add: st(1))
qed

lemma begin_tracked:
  assumes inv: "runs_tracked (t, n, R)" and i: "run_id i" "map_of t i = None"
  shows "runs_tracked (prov_step_event uuid now
      (provision_progress i ''initialization'' 0 ''Starting node provisioning'' None) t, m, insert i R)"
proof -
  let ?e = "NewBaseEvent uuid now (fst (provision_progress i ''initialization'' 0 ''Starting node provisioning'' None))
      (snd (provision_progress i ''initialization'' 0 ''Starting node provisioning'' None))"
  have ev: "meta_string (ev_meta ?e) ''node_id'' = i" "meta_string (ev_meta ?e) ''phase'' = ''initialization''"
    by (simp_all add: NewBaseEvent_def provision_progress_def)
  obtain t0 st0 where t': "prov_step_event uuid now (provision_progress i ''initialization'' 0
        ''Starting node provisioning'' None) t = AList.update i (update_progress now ?e st0) t0"
    and t0: "t0 = t \<or> (\<exists>r st. t0 = AList.delete r t \<and> map_of t r = Some st \<and> pvs_Phase st = ''requested'')"
    and st0: "pvs_ErrorMessage st0 = []"
  proof (cases "find (fresh_request now) t")
    case None
    then have "prov_step_event uuid now (provision_progress i ''initialization'' 0 ''Starting node provisioning'' None) t =
        AList.update i (update_progress now ?e (new_provisioning_state i now)) t"
      using i(2) ev(1) by (simp add: prov_step_event_def track_provisioning_def handleProvisionProgress_def Let_def
          NewBaseEvent_def provision_progress_def)
    then show thesis by (rule that) (simp_all add: new_provisioning_state_def)
  next
    case (Some rs)
    obtain r st where rs: "rs = (r, st)" by (cases rs)
    then have m: "(r, st) \<in> set t" "fresh_request now (r, st)" using Some by (auto dest!: find_Some_mem)
    have d: "map_of t r = Some st" using m(1) inv by (simp add: runs_tracked_def)
    have "prov_step_event uuid now (provision_progress i ''initialization'' 0 ''Starting node provisioning'' None) t =
        AList.update i (update_progress now ?e st) (AList.delete r t)"
      using i(2) ev(1) Some rs by (simp add: prov_step_event_def track_provisioning_def handleProvisionProgress_def Let_def
          NewBaseEvent_def provision_progress_def)
    then show thesis using d m(2) inv
      by (intro that) (auto simp: fresh_request_def runs_tracked_def)
  qed
  define st1 where "st1 = update_progress now ?e st0"
  have "in_progress st1" "pvs_Phase st1 \<noteq> ''requested''"
    using st0 ev(2) by (simp_all add: st1_def in_progress_def update_progress_def Let_def)
  moreover have "distinct (map fst t0) \<and> (\<forall>k st. map_of t0 k = Some st \<longrightarrow> map_of t k = Some st) \<and>
    (\<forall>j\<in>R. map_of t0 j = map_of t j)"
    using t0
  proof (elim disjE exE conjE)
    fix r st assume d: "t0 = AList.delete r t" "map_of t r = Some st" "pvs_Phase st = ''requested''"
    have "r \<notin> R"
    proof
      assume "r \<in> R"
      then obtain st' where "map_of t r = Some st'" "in_progress st'" using inv unfolding runs_tracked_def by blast
      then show False using d(2,3) by (simp add: in_progress_def)
    qed
    moreover have "distinct (map fst t)" using inv by (simp add: runs_tracked_def)
    ultimately show ?thesis by (auto simp: d(1) distinct_delete map_of_delete_alist split: if_splits)
  qed (use inv in \<open>simp add: runs_tracked_def\<close>)
  ultimately show ?thesis
    using tracked_update [OF inv i(1)] unfolding t' st1_def [symmetric] by blast
qed

lemma quit_tracked:
  assumes "runs_tracked (t, n, R)" "pvs_Phase st \<noteq> ''requested''"
  shows "runs_tracked (AList.update i st t, m, R - {i})"
  using assms by (auto simp: runs_tracked_def distinct_update map_of_update_alist)

lemma end_tracked:
  assumes "runs_tracked (t, n, R)" "phase \<noteq> ''requested''"
  shows "runs_tracked (prov_step_event uuid now (provision_failed i phase e) t, m, R - {i})"
proof -
  obtain a b msg r md x where u: "UnpackError e = (a, b, msg, r, md, x)" by (metis surj_pair)
  obtain st where st: "prov_step_event uuid now (provision_failed i phase e) t = AList.update i st t" "pvs_Phase st = phase"
    by (auto simp: prov_step_event_def track_provisioning_def NewBaseEvent_def handleProvisionFailed_def
        provision_failed_def u Let_def)
  then show ?thesis using quit_tracked [OF assms(1)] assms(2) by simp
qed

text \<open>The other events of a run: progress of a run the tracker knows, and completion.\<close>

lemma progress_known:
  assumes "map_of t i = Some st"
  obtains st1 where "prov_step_event uuid now (provision_progress i phase progress message metadata) t = AList.update i st1 t"
    "pvs_Phase st1 = phase" "pvs_ErrorMessage st1 = pvs_ErrorMessage st" "pvs_IsActive st1"
proof -
  let ?p = "provision_progress i phase progress message metadata"
  have "prov_step_event uuid now ?p t = AList.update i (update_progress now (NewBaseEvent uuid now (fst ?p) (snd ?p)) st) t"
    using assms by (simp add: prov_step_event_def track_provisioning_def handleProvisionProgress_def
        NewBaseEvent_def provision_progress_def Let_def)
  then show thesis
    by (rule that) (simp_all add: NewBaseEvent_def provision_progress_def update_progress_def Let_def)
qed

lemma report_tracked:
  assumes inv: "runs_tracked (t, n, R)" and i: "i \<in> R" and phase: "phase \<notin> {''requested'', ''completed''}"
  shows "runs_tracked (prov_step_event uuid now (provision_progress i phase progress message metadata) t, m, R)"
proof -
  obtain st where st: "map_of t i = Some st" "in_progress st" "run_id i" using inv i unfolding runs_tracked_def by blast
  obtain st1 where st1: "prov_step_event uuid now (provision_progress i phase progress message metadata) t = AList.update i st1 t"
    "pvs_Phase st1 = phase" "pvs_ErrorMessage st1 = pvs_ErrorMessage st" "pvs_IsActive st1"
    using progress_known [OF st(1)] by metis
  have "in_progress st1" "pvs_Phase st1 \<noteq> ''requested''"
    using st1 st(2) phase by (auto simp: in_progress_def)
  moreover have "distinct (map fst t)" using inv by (simp add: runs_tracked_def)
  ultimately have "runs_tracked (AList.update i st1 t, m, insert i R)" by (intro tracked_update [OF inv st(3)]) auto
  then show ?thesis using i st1(1) by (simp add: insert_absorb)
qed

lemma finish_tracked:
  assumes inv: "runs_tracked (t, n, R)" and i: "i \<in> R"
  shows "runs_tracked (prov_step_event uuid now (provision_progress i ''completed'' 1 message metadata) t, m, R - {i})"
proof -
  obtain st where "map_of t i = Some st" using inv i unfolding runs_tracked_def by blast
  then obtain st1 where "prov_step_event uuid now (provision_progress i ''completed'' 1 message metadata) t =
      AList.update i st1 t" "pvs_Phase st1 = ''completed''" using progress_known by metis
  then show ?thesis using quit_tracked [OF inv] by simp
qed

lemma completed_tracked:
  assumes inv: "runs_tracked (t, n, R)" and i: "i \<notin> R"
  shows "runs_tracked (prov_step_event uuid now (provision_completed i sid ip d) t, m, R)"
proof -
  obtain st where "prov_step_event uuid now (provision_completed i sid ip d) t = AList.update i st t"
    "pvs_Phase st = ''completed''"
    by (auto simp: prov_step_event_def track_provisioning_def NewBaseEvent_def handleProvisionCompleted_def
        provision_completed_def Let_def)
  then show ?thesis using quit_tracked [OF inv, of st i m] i by simp
qed

lemma worker_steps_tracked: "worker_step\<^sup>*\<^sup>* s s' \<Longrightarrow> runs_tracked s \<Longrightarrow> runs_tracked s'"
proof (induction rule: rtranclp_induct)
  case (step y z)
  then have "runs_tracked y" by simp
  with step(2) show ?case by cases (auto intro: requested_tracked begin_tracked end_tracked report_tracked finish_tracked completed_tracked)
qed

text \<open>Once a run has reported its first phase, the worker ignores every provisioning request until
  that run has ended.\<close>

theorem worker_ignores_while_running:
  assumes "worker_step\<^sup>*\<^sup>* ([], 0, {}) (t, starting, running)" "running \<noteq> {}"
  shows "\<not> handleProvisionRequest t"
proof -
  have "runs_tracked (t, starting, running)" by (rule worker_steps_tracked [OF assms(1)]) (simp add: runs_tracked_def)
  moreover obtain i where "i \<in> running" using assms(2) by blast
  ultimately obtain st where "map_of t i = Some st" "in_progress st" unfolding runs_tracked_def by blast
  then show ?thesis by (auto simp: handleProvisionRequest_def IsProvisioning_def list_ex_iff dest!: map_of_SomeD)
qed

text \<open>C35: two requests that arrive before the first run has reported start two runs, although each
  handler saw that no provisioning was in progress: the check and the start are not one step.\<close>

theorem double_start_reachable:
  "\<exists>t running. worker_step\<^sup>*\<^sup>* ([], 0, {}) (t, 0, running) \<and> card running = 2"
proof -
  let ?r = "''provision-'' @ dec 5" and ?i = "''node-'' @ dec 1" and ?j = "''node-'' @ dec 2"
  let ?req = "\<lambda>t. prov_step_event ''u'' 0 (provision_requested ?r ''rotator'') t"
  let ?run = "\<lambda>i t. prov_step_event ''u'' 0 (provision_progress i ''initialization'' 0 ''Starting node provisioning'' None) t"
  let ?t1 = "?req []" and ?t2 = "?req (?req [])"
  have dec: "dec 1 = ''1''" "dec (Suc 0) = ''1''" "dec 2 = ''2''" "dec 5 = ''5''"
    by (simp_all add: dec.simps digit_char_def char_of_def bit_0)
  have idle: "handleProvisionRequest ?t1" "handleProvisionRequest ?t2"
    by (simp_all add: prov_step_event_def handleProvisionRequest_def IsProvisioning_def in_progress_def
        track_provisioning_def NewBaseEvent_def provision_requested_def handleProvisionRequested_def Let_def)
  have new: "map_of ?t2 ?i = None" "map_of (?run ?i ?t2) ?j = None"
    by (simp_all add: dec prov_step_event_def track_provisioning_def NewBaseEvent_def provision_requested_def
        provision_progress_def handleProvisionRequested_def handleProvisionProgress_def fresh_request_def
        new_provisioning_state_def Let_def)
  have ids: "request_id ?r" "run_id ?i" "run_id ?j" by (auto simp: request_id_def run_id_def)
  have "worker_step ([], 0, {}) (?t1, Suc 0, {})" by (rule worker_step.start [OF ids(1) refl idle(1)])
  moreover have "worker_step (?t1, Suc 0, {}) (?t2, Suc (Suc 0), {})" by (rule worker_step.start [OF ids(1) refl idle(2)])
  moreover have "worker_step (?t2, Suc (Suc 0), {}) (?run ?i ?t2, Suc 0, {?i})"
    by (rule worker_step.begin_run [OF ids(2) new(1)])
  moreover have "worker_step (?run ?i ?t2, Suc 0, {?i}) (?run ?j (?run ?i ?t2), 0, {?j, ?i})"
    by (rule worker_step.begin_run [OF ids(3) new(2)])
  ultimately have "worker_step\<^sup>*\<^sup>* ([], 0, {}) (?run ?j (?run ?i ?t2), 0, {?j, ?i})"
    by (meson converse_rtranclp_into_rtranclp r_into_rtranclp)
  moreover have "card {?j, ?i} = 2" by (simp add: dec)
  ultimately show ?thesis by blast
qed

subsection \<open>Examples\<close>

text \<open>A world of a clock that moves a microsecond at a look and a counter of health checks.\<close>

definition demo_server :: ProvisionedNode where
  "demo_server = \<lparr>pn_ServerID = ''srv-1'', pn_IPAddress = ''5.6.7.8'', pn_PublicKey = ''key'',
     pn_Status = ''running'', pn_Region = ''nbg1''\<rparr>"

definition demo_health :: NodeHealthStatus where
  "demo_health = \<lparr>nh_IsHealthy = True, nh_ResponseTime = 1, nh_SystemLoad = 0, nh_MemoryUsage = 0, nh_DiskUsage = 0,
     nh_WireGuardStatus = ''active'', nh_ConnectedPeers = 0, nh_LastChecked = 0, nh_Errors = []\<rparr>"

definition demo_env :: "(int \<times> nat) prov_env" where
  "demo_env = \<lparr>env_now = (\<lambda>(t, n). (t, (t + 1000, n))), env_uuid = (\<lambda>w. (''u'', w)),
     env_provision = (\<lambda>cf w. (Inr demo_server, w)), env_destroy = (\<lambda>sid w. (Inr (), w)),
     env_health = (\<lambda>ip (t, n). (Inr demo_health, (t, Suc n))), env_ticks = (\<lambda>w. (3, w)),
     env_ctx_err = PlainError ''context deadline exceeded'', env_order = id\<rparr>"

definition demo_config :: ProvisioningServiceConfig where
  "demo_config = \<lparr>ps_ETAHistoryRetention = 10, ps_DefaultProvisioningETA = 180000000000, ps_CleanupOnFailure = True,
     ps_DefaultRegion = [], ps_DefaultInstanceType = [], ps_DefaultImageID = [], ps_DefaultSSHKey = [],
     ps_DefaultTags = Map.empty\<rparr>"

definition demo_prov :: "(int \<times> nat) prov" where
  "demo_prov = \<lparr>pv_db = empty_db 0 [], pv_tracker = [], pv_open = True, pv_durations = getDefaultPhaseDurations,
     pv_world = (1000, 0)\<rparr>"

lemma demo_facts:
  "store_inv DefaultNetworkConfig default_base (pv_db demo_prov)" "faults (pv_db demo_prov) = []"
  "prov_tracker_ok (pv_tracker demo_prov)" "\<not> IsProvisioning (pv_tracker demo_prov)" "pv_open demo_prov"
  "env_works demo_env (n_server_public_key ` set (nodes (pv_db demo_prov)))"
  "\<exists>k < 2 ^ (nat (SubnetMask DefaultNetworkConfig) - net_ones default_base).
      net_string (subnet_at DefaultNetworkConfig default_base k) \<notin> s_subnet_cidr ` set (subnets (pv_db demo_prov))"
  using empty_db_good [of 0 "[]"]
  by (auto simp: demo_prov_def store_inv_def subnet_pool_def prov_tracker_ok_def IsProvisioning_def env_works_def
      demo_env_def demo_health_def empty_db_def intro!: exI [of _ 0])

theorem provisioning_isolated_witness:
  "store_inv DefaultNetworkConfig default_base (pv_db (snd (provisionNode demo_env demo_config DefaultNetworkConfig demo_prov)))"
  using provisioning_isolated [OF default_config_base demo_facts(1), of demo_env demo_config _ _ "''node-1''"]
  by (metis prod.collapse)

theorem provisioning_ends_idle_witness:
  "\<not> IsProvisioning (pv_tracker (snd (provisionNode demo_env demo_config DefaultNetworkConfig demo_prov)))"
  by (rule provisioning_ends_idle [OF demo_facts(3-5) prod.collapse [symmetric]])


lemma demo_run: "\<exists>n s'. provisionNode demo_env demo_config DefaultNetworkConfig demo_prov = (Inr n, s')"
proof -
  let ?s = "demo_prov\<lparr>pv_world := (3000, 0)\<rparr>"
  obtain k where k: "k < 2 ^ (nat (SubnetMask DefaultNetworkConfig) - net_ones default_base)"
      "net_string (subnet_at DefaultNetworkConfig default_base k) \<notin> s_subnet_cidr ` set (subnets (pv_db demo_prov))"
    using demo_facts(7) by blast
  have i: "''node-'' @ dec 2000 \<noteq> []" "length (''node-'' @ dec 2000) \<le> 255"
    by (simp_all add: dec.simps)
  have h: "hoare (on_state (\<lambda>d. d = pv_db demo_prov))
      (provision_phases demo_env demo_config DefaultNetworkConfig 1000 (''node-'' @ dec 2000)) (\<lambda>_ _. True) (\<lambda>_ _. False)"
    by (rule run_succeeds [OF default_config_base demo_facts(1,2) i _ _ k demo_facts(6) subset_refl])
      (simp_all add: demo_prov_def empty_db_def node_ids_def)
  have "provisionNode demo_env demo_config DefaultNetworkConfig demo_prov =
      provision_phases demo_env demo_config DefaultNetworkConfig 1000 (''node-'' @ dec 2000) ?s"
    by (simp add: provisionNode_def bindS_def ask_def demo_env_def demo_prov_def)
  moreover obtain r s' where "provision_phases demo_env demo_config DefaultNetworkConfig 1000 (''node-'' @ dec 2000) ?s = (r, s')"
    by (metis surj_pair)
  ultimately show ?thesis using hoareD(2) [OF h, of ?s] by (cases r) (auto simp: on_state_def)
qed


text \<open>A cloud that refuses.\<close>

definition refusing_env :: "(int \<times> nat) prov_env" where
  "refusing_env = demo_env\<lparr>env_provision := \<lambda>cf w. (Inl (PlainError ''quota exceeded''), w)\<rparr>"

theorem failed_provisioning_leaves_nothing_witness:
  "\<exists>e s'. provisionNode refusing_env demo_config DefaultNetworkConfig demo_prov = (Inl e, s') \<and>
    nodes (pv_db s') = [] \<and> peers (pv_db s') = [] \<and> subnets (pv_db s') = []"
proof -
  obtain r s' where run: "provisionNode refusing_env demo_config DefaultNetworkConfig demo_prov = (r, s')" by (metis surj_pair)
  obtain start i s1 where r: "provision_phases refusing_env demo_config DefaultNetworkConfig start i s1 = (r, s')"
    and s1: "pv_db s1 = pv_db demo_prov" using provisionNode_phases [OF run] by metis
  have "\<not> run_built refusing_env demo_config DefaultNetworkConfig default_base i (pv_db s')"
    by (simp add: run_built_def cloud_made_def refusing_env_def)
  then obtain e where e: "r = Inl e"
    using hoareD(1) [OF run_builds [OF default_config_base] _, of s1] r s1 demo_facts(1)
    by (cases r) (auto simp: on_state_def)
  have "ps_CleanupOnFailure demo_config" by (simp add: demo_config_def)
  from failed_provisioning_leaves_nothing [OF default_config_base demo_facts(1,2) this run [unfolded e]]
  show ?thesis using run e by (auto simp: demo_prov_def empty_db_def)
qed

theorem readiness_bounded_witness:
  "let s' = snd (waitForNodeReadiness demo_env ''node-1'' ''5.6.7.8'' demo_prov) in
     snd (pv_world s') \<le> 0 + 3"
  using readiness_bounded [of snd demo_env demo_prov 3 "(1000, 0)" "''node-1''" "''5.6.7.8''"]
  by (cases "waitForNodeReadiness demo_env ''node-1'' ''5.6.7.8'' demo_prov")
    (auto simp: demo_env_def demo_prov_def split: sum.splits)

theorem destroying_node_is_stuck_witness:
  "let d = map_nodes (\<lambda>_. True) (\<lambda>r. r\<lparr>n_status := StatusDestroying\<rparr>) one_node_db;
       res = prov_DestroyNode demo_env ''node-1'' (demo_prov\<lparr>pv_db := d\<rparr>) in
     (\<exists>e. fst res = Inl e) \<and> keep_tables d (pv_db (snd res))"
proof -
  let ?d = "map_nodes (\<lambda>_. True) (\<lambda>r. r\<lparr>n_status := StatusDestroying\<rparr>) one_node_db"
  have ok: "db_ok ?d"
    by (rule map_nodes_ok) (use one_node_db_facts(1) in \<open>auto simp: db_good_def\<close>)
  show ?thesis
    using destroying_node_is_stuck [of "demo_prov\<lparr>pv_db := ?d\<rparr>" "hd (nodes ?d)" demo_env] ok
    by (simp add: Let_def map_nodes_def one_node_db_def prod_eq_iff)
qed

lemma one_run_reachable:
  "\<exists>t. worker_step\<^sup>*\<^sup>* ([], 0, {}) (t, 0, {''node-'' @ dec 1})"
proof -
  let ?t1 = "prov_step_event ''u'' 0 (provision_requested (''provision-'' @ dec 5) ''rotator'') []"
  have "worker_step ([], 0, {}) (?t1, Suc 0, {})"
    by (rule worker_step.start [OF _ refl])
      (auto simp: request_id_def prov_step_event_def handleProvisionRequest_def IsProvisioning_def in_progress_def
        track_provisioning_def NewBaseEvent_def provision_requested_def handleProvisionRequested_def Let_def)
  moreover have "worker_step (?t1, Suc 0, {}) (prov_step_event ''u'' 0
      (provision_progress (''node-'' @ dec 1) ''initialization'' 0 ''Starting node provisioning'' None) ?t1, 0, {''node-'' @ dec 1})"
    by (rule worker_step.begin_run)
      (auto simp: run_id_def prov_step_event_def track_provisioning_def NewBaseEvent_def provision_requested_def
        handleProvisionRequested_def Let_def)
  ultimately show ?thesis by (meson converse_rtranclp_into_rtranclp r_into_rtranclp)
qed

theorem worker_ignores_while_running_witness:
  "\<exists>t. worker_step\<^sup>*\<^sup>* ([], 0, {}) (t, 0, {''node-'' @ dec 1}) \<and> \<not> handleProvisionRequest t"
  using one_run_reachable worker_ignores_while_running by blast

end
