(* ===== verification/Cleanup.thy ===== *)
theory Cleanup
  imports ProvisioningRun PeerModel "HOL-Library.Multiset"
begin

text \<open>
  \<open>internal/rotator/services/resource_cleanup_service.go\<close>: the removal of peers without a recent
  handshake, of nodes without active peers and of the subnets of nodes out of service. The cloud is a
  parameter, as in the node service.
\<close>

section \<open>Model\<close>

record CleanupOptions =
  co_InactivePeers :: bool
  co_OrphanedNodes :: bool
  co_UnusedSubnets :: bool
  co_InactiveMinutes :: int
  co_DryRun :: bool

record OrphanedResourcesReport =
  or_InactivePeers :: int
  or_OrphanedNodes :: int
  or_UnusedSubnets :: int

type_synonym ('w, 'a) clean_op = "Db \<times> 'w \<Rightarrow> 'a res \<times> (Db \<times> 'w)"

definition on_store :: "(Db \<Rightarrow> 'a res \<times> Db) \<Rightarrow> ('w, 'a) clean_op" where
  "on_store m s = (case m (fst s) of (r, d) \<Rightarrow> (r, (d, snd s)))"

text \<open>The loop at the end of the three steps: what fails is only logged, a dry run counts.\<close>

fun count_done :: "bool \<Rightarrow> ('a \<Rightarrow> 's \<Rightarrow> unit res \<times> 's) \<Rightarrow> 'a list \<Rightarrow> 's \<Rightarrow> int res \<times> 's" where
  "count_done dryRun f [] = returnS 0"
| "count_done dryRun f (x # xs) =
     bindS (if dryRun then returnS (Inr ()) else tryS (f x)) (\<lambda>r.
     bindS (count_done dryRun f xs) (\<lambda>n.
     returnS (case r of Inl _ \<Rightarrow> n | Inr _ \<Rightarrow> n + 1)))"

definition cleanupInactivePeers :: "int \<Rightarrow> bool \<Rightarrow> Db \<Rightarrow> int res \<times> Db" where
  "cleanupInactivePeers inactiveMinutes dryRun =
     bindS (map_errS (\<lambda>e. WrapWithDomain e DomainPeer ErrCodePeerNotFound ''failed to get inactive peers'' True)
              (peerSvc_GetInactive inactiveMinutes)) (\<lambda>ps.
     count_done dryRun (\<lambda>p. peerSvc_Remove (pr_ID p)) ps)"

abbreviation all_nodes :: NodeFilters where
  "all_nodes \<equiv> \<lparr>nf_Status = None, nf_ServerID = None, nf_IPAddress = None, nf_Limit = None, nf_Offset = None\<rparr>"

definition list_active :: "Db \<Rightarrow> Node list res \<times> Db" where
  "list_active = map_errS (\<lambda>e. WrapWithDomain e DomainNode ErrCodeNodeNotFound ''failed to list active nodes'' True)
     (nodeSvc_ListNodes (all_nodes\<lparr>nf_Status := Some StatusActive\<rparr>))"

definition list_all_nodes :: "Db \<Rightarrow> Node list res \<times> Db" where
  "list_all_nodes = map_errS (\<lambda>e. WrapWithDomain e DomainNode ErrCodeNodeNotFound ''failed to list all nodes'' True)
     (nodeSvc_ListNodes all_nodes)"

text \<open>The nodes without active peers that were last written more than an hour ago, and how many nodes
  have active peers; a node whose peers cannot be counted is skipped.\<close>

fun scan_orphans :: "Node list \<Rightarrow> Db \<Rightarrow> (Node list \<times> nat) res \<times> Db" where
  "scan_orphans [] = returnS ([], 0)"
| "scan_orphans (n # ns) =
     bindS (tryS (peerSvc_CountActiveByNode (nd_ID n))) (\<lambda>r. bindS getS (\<lambda>d.
     bindS (scan_orphans ns) (\<lambda>(orphans, busy). returnS
       (case r of
          Inl _ \<Rightarrow> (orphans, busy)
        | Inr c \<Rightarrow> if c = 0 then (if clock d - nd_UpdatedAt n > 3600 then (n # orphans, busy) else (orphans, busy))
                   else (orphans, Suc busy)))))"

definition cleanupOrphanedNodes :: "(string \<Rightarrow> 'w \<Rightarrow> unit res \<times> 'w) \<Rightarrow> bool \<Rightarrow> ('w, int) clean_op" where
  "cleanupOrphanedNodes cloudDestroy dryRun =
     bindS (on_store list_active) (\<lambda>ns. bindS (on_store (scan_orphans ns)) (\<lambda>(orphans, busy).
     if busy \<le> 1 \<and> orphans \<noteq> [] then returnS 0
     else count_done dryRun (\<lambda>n. nodeSvc_DestroyNode cloudDestroy (nd_ID n)) orphans))"

definition in_service :: "Node \<Rightarrow> bool" where
  "in_service n = (Node_IsActive n \<or> nd_Status n = StatusProvisioning)"

text \<open>The nodes not in \<open>served\<close> for which a subnet is found.\<close>

fun scan_subnets :: "string set \<Rightarrow> Node list \<Rightarrow> Db \<Rightarrow> string list res \<times> Db" where
  "scan_subnets served [] = returnS []"
| "scan_subnets served (n # ns) =
     (if nd_ID n \<in> served then scan_subnets served ns
      else bindS (tryS (GetNodeSubnet_svc (nd_ID n))) (\<lambda>r. bindS (scan_subnets served ns) (\<lambda>unused.
           returnS (case r of Inr _ \<Rightarrow> nd_ID n # unused | Inl _ \<Rightarrow> unused))))"

definition unused_subnets :: "Db \<Rightarrow> string list res \<times> Db" where
  "unused_subnets = bindS list_all_nodes (\<lambda>ns. scan_subnets (nd_ID ` set (filter in_service ns)) ns)"

definition cleanupUnusedSubnets :: "bool \<Rightarrow> Db \<Rightarrow> int res \<times> Db" where
  "cleanupUnusedSubnets dryRun = bindS unused_subnets (count_done dryRun ReleaseNodeSubnet)"

text \<open>\<open>errors.Join\<close>: the texts, one a line.\<close>

definition errors_Join :: "go_error list \<Rightarrow> go_error" where
  "errors_Join es = PlainError (str_join [CHR 0x0A] (map error_text es))"

definition cleanup_step :: "bool \<Rightarrow> string \<Rightarrow> ('w, int) clean_op \<Rightarrow> ('w, go_error list) clean_op" where
  "cleanup_step selected what m =
     (if selected
      then bindS (tryS m) (\<lambda>r. returnS
        (case r of Inl e \<Rightarrow> [WrapWithDomain e DomainSystem ErrCodeInternal (what @ '' cleanup failed'') False] | Inr _ \<Rightarrow> []))
      else returnS [])"

definition CleanupInactiveResourcesWithOptions ::
  "(string \<Rightarrow> 'w \<Rightarrow> unit res \<times> 'w) \<Rightarrow> CleanupOptions \<Rightarrow> ('w, unit) clean_op" where
  "CleanupInactiveResourcesWithOptions cloudDestroy op =
     bindS (cleanup_step (co_InactivePeers op) ''inactive peers''
              (on_store (cleanupInactivePeers (co_InactiveMinutes op) (co_DryRun op)))) (\<lambda>e1.
     bindS (cleanup_step (co_OrphanedNodes op) ''orphaned nodes'' (cleanupOrphanedNodes cloudDestroy (co_DryRun op))) (\<lambda>e2.
     bindS (cleanup_step (co_UnusedSubnets op) ''unused subnets'' (on_store (cleanupUnusedSubnets (co_DryRun op)))) (\<lambda>e3.
     (let es = e1 @ e2 @ e3
      in if es \<noteq> []
         then failS (NewSystemError ErrCodeInternal (''cleanup completed with '' @ dec (length es) @ '' errors'') False
                (Some (errors_Join es)))
         else returnS ()))))"

definition CleanupInactiveResources :: "(string \<Rightarrow> 'w \<Rightarrow> unit res \<times> 'w) \<Rightarrow> ('w, unit) clean_op" where
  "CleanupInactiveResources cloudDestroy = CleanupInactiveResourcesWithOptions cloudDestroy
     \<lparr>co_InactivePeers = True, co_OrphanedNodes = True, co_UnusedSubnets = True, co_InactiveMinutes = 30,
      co_DryRun = False\<rparr>"

definition DetectOrphanedResources :: "Db \<Rightarrow> OrphanedResourcesReport res \<times> Db" where
  "DetectOrphanedResources =
     bindS (map_errS (\<lambda>e. WrapWithDomain e DomainPeer ErrCodePeerNotFound ''failed to detect inactive peers'' True)
              (peerSvc_GetInactive 30)) (\<lambda>ps.
     bindS list_active (\<lambda>ns. bindS (scan_orphans ns) (\<lambda>(orphans, _).
     bindS unused_subnets (\<lambda>unused.
     returnS \<lparr>or_InactivePeers = int (length ps), or_OrphanedNodes = int (length orphans),
              or_UnusedSubnets = int (length unused)\<rparr>))))"

section \<open>What every cleanup keeps\<close>

definition on_fst :: "('a \<Rightarrow> 'a \<Rightarrow> bool) \<Rightarrow> 'a \<times> 'w \<Rightarrow> 'a \<times> 'w \<Rightarrow> bool" where
  "on_fst R a b = R (fst a) (fst b)"

lemma on_fst_order: "reflp R \<Longrightarrow> reflp (on_fst R)" "transp R \<Longrightarrow> transp (on_fst R)"
  by (auto simp: on_fst_def reflp_def intro!: transpI dest: transpD)

lemma on_store_stays: "stays R m \<Longrightarrow> stays (on_fst R) (on_store m)"
  by (auto simp: stays_def on_fst_def on_store_def split: prod.splits) (metis snd_conv)

lemma count_done_stays:
  assumes "reflp R" "transp R" "\<And>x. x \<in> set xs \<Longrightarrow> stays R (f x)"
  shows "stays R (count_done dryRun f xs)"
  using assms(3)
  by (induction xs) (auto intro!: stays_bindS [OF assms(2)] stays_pure [OF assms(1)] stays_tryS split: sum.splits)

lemma count_done_dry: "count_done True f xs s = (Inr (int (length xs)), s)"
  by (induction xs) (simp_all add: bindS_def)

lemma nodeSvc_DestroyNode_stays:
  assumes R: "reflp R" "transp R" and repo: "stays R (nodeRepo_GetByID i)" "\<And>n. stays R (nodeRepo_Update n)"
    "stays R (nodeRepo_Delete i)"
  shows "stays (on_fst R) (nodeSvc_DestroyNode cloudDestroy i)"
  unfolding stays_def
proof
  fix s :: "Db \<times> 'a"
  obtain d w where s: "s = (d, w)" by (cases s)
  obtain q d1 where q: "nodeRepo_GetByID i d = (q, d1)" by (metis surj_pair)
  have 1: "R d d1" by (rule staysD [OF repo(1) q])
  have "R d (fst (snd (nodeSvc_DestroyNode cloudDestroy i (d, w))))"
  proof (cases "\<exists>n n'. q = Inr n \<and> Node_ValidateForDestruction n = Inr () \<and> Node_UpdateStatus (clock d1) StatusDestroying n = Inr n'")
    case False
    then show ?thesis using 1 q by (auto simp: nodeSvc_DestroyNode_def split: sum.splits)
  next
    case True
    then obtain n n' where n: "q = Inr n" "Node_ValidateForDestruction n = Inr ()"
      "Node_UpdateStatus (clock d1) StatusDestroying n = Inr n'" by blast
    obtain u d2 where u: "nodeRepo_Update n' d1 = (u, d2)" by (metis surj_pair)
    obtain x d3 where x: "nodeRepo_Delete i d2 = (x, d3)" by (metis surj_pair)
    have "R d d2" by (rule transpD [OF R(2) 1 staysD [OF repo(2) u]])
    moreover have "R d d3" by (rule transpD [OF R(2) \<open>R d d2\<close> staysD [OF repo(3) x]])
    ultimately show ?thesis using n by (cases u; cases x) (simp_all add: nodeSvc_DestroyNode_def q u x Let_def)
  qed
  then show "on_fst R s (snd (nodeSvc_DestroyNode cloudDestroy i s))" by (simp add: on_fst_def s)
qed

lemma cleanup_reads:
  "stays keep_tables (peerSvc_GetInactive m)" "stays keep_tables list_active" "stays keep_tables list_all_nodes"
  "stays keep_tables (peerSvc_CountActiveByNode i)" "stays keep_tables (GetNodeSubnet_svc i)"
proof -
  show "stays keep_tables (peerSvc_GetInactive m)" "stays keep_tables (peerSvc_CountActiveByNode i)"
    unfolding peerSvc_GetInactive_def peerSvc_CountActiveByNode_def peerRepo_GetInactive_def peerRepo_CountActiveByNode_def
      GetInactivePeers_def CountActivePeersByNode_def Let_def
    by (auto intro!: keep_reads stays_select stays_pure)
  have "stays keep_tables (nodeSvc_ListNodes f)" for f
    by (auto simp: stays_def nodeSvc_ListNodes_def nodeRepo_List_def GetNodesByStatus_def GetAllNodes_def
        split: prod.splits sum.splits option.splits) (metis select_keeps(2) snd_conv)+
  then show "stays keep_tables list_active" "stays keep_tables list_all_nodes"
    unfolding list_active_def list_all_nodes_def by (auto intro: stays_map_errS)
  show "stays keep_tables (GetNodeSubnet_svc i)"
    unfolding stays_def GetNodeSubnet_svc_def repo_GetSubnet_def GetNodeSubnet_def
    by (auto split: sum.splits prod.splits) (metis select_keeps(1) snd_conv)+
qed

lemma scan_orphans_reads: "stays keep_tables (scan_orphans ns)"
  by (induction ns) (auto intro!: keep_reads cleanup_reads simp: stays_def [of _ "Pair _"] split: sum.splits)

lemma scan_subnets_reads: "stays keep_tables (scan_subnets served ns)"
  by (induction ns) (auto intro!: keep_reads cleanup_reads simp: stays_def [of _ "Pair _"] split: sum.splits)

lemma unused_subnets_reads: "stays keep_tables unused_subnets"
  unfolding unused_subnets_def by (intro keep_reads cleanup_reads scan_subnets_reads)

text \<open>A relation that every statement of the cleanup keeps is kept by all of it, whatever the options and
  the failures.\<close>

locale cleanup_steps =
  fixes R :: "Db \<Rightarrow> Db \<Rightarrow> bool"
  assumes order: "reflp R" "transp R"
    and reads: "keep_tables d d' \<Longrightarrow> R d d'"
    and remove: "stays R (peerSvc_Remove i)"
    and update: "stays R (nodeRepo_Update n)"
    and delete: "stays R (nodeRepo_Delete i)"
    and release: "stays R (ReleaseNodeSubnet i)"
begin

lemma read_stays: "stays keep_tables m \<Longrightarrow> stays R m"
  using reads by (auto simp: stays_def)

lemma get_node: "stays R (nodeRepo_GetByID i)"
proof (rule read_stays)
  show "stays keep_tables (nodeRepo_GetByID i)"
    unfolding stays_def using nodeRepo_GetByID_result by (metis prod.collapse)
qed

lemma peers_step: "stays R (cleanupInactivePeers m dry)"
  unfolding cleanupInactivePeers_def
  by (intro stays_bindS [OF order(2)] stays_map_errS read_stays [OF cleanup_reads(1)] count_done_stays order remove)

lemma nodes_step: "stays (on_fst R) (cleanupOrphanedNodes cloudDestroy dry)"
proof -
  have "stays (on_fst R) (case p of (orphans, busy) \<Rightarrow> if busy \<le> 1 \<and> orphans \<noteq> [] then returnS 0
      else count_done dry (\<lambda>n. nodeSvc_DestroyNode cloudDestroy (nd_ID n)) orphans)" for p :: "Node list \<times> nat"
    using stays_pure(1) [OF on_fst_order(1) [OF order(1)]]
    by (cases p) (auto intro!: count_done_stays on_fst_order order nodeSvc_DestroyNode_stays get_node update delete)
  then show ?thesis
    unfolding cleanupOrphanedNodes_def
    by (intro stays_bindS [OF on_fst_order(2) [OF order(2)]] on_store_stays read_stays [OF cleanup_reads(2)]
        read_stays [OF scan_orphans_reads])
qed

lemma subnets_step: "stays R (cleanupUnusedSubnets dry)"
  unfolding cleanupUnusedSubnets_def
  by (intro stays_bindS [OF order(2)] read_stays [OF unused_subnets_reads] count_done_stays order release)

lemma one_step: "stays (on_fst R) m \<Longrightarrow> stays (on_fst R) (cleanup_step sel what m)"
  unfolding cleanup_step_def using on_fst_order(1) [OF order(1)] on_fst_order(2) [OF order(2)]
  by (auto intro!: stays_bindS stays_tryS stays_pure split: sum.splits)

lemma whole_cleanup: "stays (on_fst R) (CleanupInactiveResourcesWithOptions cloudDestroy op)"
  unfolding CleanupInactiveResourcesWithOptions_def Let_def
  using on_fst_order(1) [OF order(1)] on_fst_order(2) [OF order(2)]
  by (intro stays_bindS one_step on_store_stays peers_step nodes_step subnets_step)
    (auto intro: stays_pure)

end

text \<open>Nothing new appears, and what stays keeps its place.\<close>

definition shrinks :: "Db \<Rightarrow> Db \<Rightarrow> bool" where
  "shrinks d d' = (node_ids d' \<subseteq> node_ids d \<and> set (subnets d') \<subseteq> set (subnets d) \<and>
     (\<forall>p'\<in>set (peers d'). \<exists>p\<in>set (peers d). p_id p' = p_id p \<and> p_node_id p' = p_node_id p \<and>
        p_allocated_ip p' = p_allocated_ip p))"

lemma shrinks_order: "reflp shrinks" "transp shrinks"
proof -
  show "reflp shrinks" by (auto simp: shrinks_def reflp_def)
  show "transp shrinks"
  proof (rule transpI)
    fix a b c assume ab: "shrinks a b" and bc: "shrinks b c"
    have "\<exists>p\<in>set (peers a). p_id p' = p_id p \<and> p_node_id p' = p_node_id p \<and> p_allocated_ip p' = p_allocated_ip p"
      if "p' \<in> set (peers c)" for p'
      using that ab bc unfolding shrinks_def by metis
    then show "shrinks a c" using ab bc unfolding shrinks_def by blast
  qed
qed

lemma shrinks_keep: "keep_tables d d' \<Longrightarrow> shrinks d d'"
  by (auto simp: shrinks_def keep_tables_def node_ids_def)

lemma run_query_stays:
  assumes "transp R" "\<And>d d'. keep_tables d d' \<Longrightarrow> R d d'" "\<And>d. R d (snd (q d))"
  shows "stays R (run_query q)"
  unfolding stays_def
proof
  fix d
  show "R d (snd (run_query q d))"
  proof (cases rule: run_query_cases [of q d])
    case (io d')
    then show ?thesis using assms(2) by simp
  next
    case (ran d')
    have "R d (snd (q d'))" by (rule transpD [OF assms(1) assms(2) [OF ran(2)] assms(3)])
    then show ?thesis using ran(1) by simp
  qed
qed

lemmas shrinks_query = run_query_stays [OF shrinks_order(2) shrinks_keep]
lemmas shrinks_flow = stays_case [OF shrinks_order(2)] stays_branch(1-3,5) stays_branch(4) [OF shrinks_order(1)]

lemma shrinks_statements:
  "stays shrinks (DeleteNodeSubnet i)" "stays shrinks (DeleteNode i)" "stays shrinks (GetNodeSubnet i)"
proof -
  show "stays shrinks (DeleteNodeSubnet i)"
    unfolding DeleteNodeSubnet_def by (rule shrinks_query) (auto simp: shrinks_def node_ids_def)
  show "stays shrinks (DeleteNode i)"
    unfolding DeleteNode_def by (rule shrinks_query) (auto simp: shrinks_def node_ids_def delete_nodes_def Let_def)
  show "stays shrinks (GetNodeSubnet i)"
    using shrinks_keep by (auto simp: stays_def GetNodeSubnet_def)
qed

interpretation shrinking: cleanup_steps shrinks
proof
  show "stays shrinks (peerSvc_Remove i)" for i
    unfolding stays_def
  proof
    fix d
    obtain r d' where run: "peerSvc_Remove i d = (r, d')" by (metis surj_pair)
    have tabs: "node_ids d' = node_ids d" "subnets d' = subnets d"
      using peerSvc_Remove_outcome [OF run] by (simp_all add: node_ids_def)
    have "\<exists>p\<in>set (peers d). p_id p' = p_id p \<and> p_node_id p' = p_node_id p \<and> p_allocated_ip p' = p_allocated_ip p"
      if p': "p' \<in> set (peers d')" for p'
    proof -
      consider "p' \<in> set (peers d)" | "peer_changed i (\<lambda>p. p\<lparr>p_status := PeerRemoving\<rparr>) d d'"
        using peerSvc_Remove_outcome [OF run] p' by (cases r) (auto simp: keep_tables_def)
      then show ?thesis using p' by cases (auto simp: peer_changed_def)
    qed
    then have "shrinks d d'" using tabs by (simp add: shrinks_def)
    then show "shrinks d (snd (peerSvc_Remove i d))" by (simp add: run)
  qed
  show "stays shrinks (nodeRepo_Update n)" for n
    unfolding stays_def
  proof
    fix d
    obtain r d' where run: "nodeRepo_Update n d = (r, d')" by (metis surj_pair)
    have "only_node (nd_ID n) d d'" using nodeRepo_Update_result [OF run] by blast
    then show "shrinks d (snd (nodeRepo_Update n d))" by (auto simp: run only_node_def shrinks_def)
  qed
  show "stays shrinks (nodeRepo_Delete i)" for i
    unfolding nodeRepo_Delete_def by (intro shrinks_flow shrinks_statements)
  show "stays shrinks (ReleaseNodeSubnet i)" for i
    unfolding ReleaseNodeSubnet_def repo_SubnetExists_def repo_DeleteSubnet_def
    by (intro shrinks_flow shrinks_statements)
qed (auto intro: shrinks_order shrinks_keep)

lemma keeps_inv_remove: "stays (keeps_inv c b) (peerSvc_Remove i)"
proof -
  have T: "\<exists>P. subnets d = filter (\<lambda>r. P (s_node_id r)) (subnets d)" for d :: Db
    by (intro exI [of _ "\<lambda>_. True"]) simp
  have s: "stays (keeps_inv c b) (UpdatePeerStatus st i)" "stays (keeps_inv c b) (DeletePeer i)" for st
    by (rule keeps_inv_ok [OF UpdatePeerStatus_ok]; auto simp: UpdatePeerStatus_def intro!: subnets_query T)
      (rule keeps_inv_ok [OF DeletePeer_ok]; auto simp: DeletePeer_def intro!: subnets_query T)
  have "stays (keeps_inv c b) (peerRepo_UpdateStatus i st)" "stays (keeps_inv c b) (peerRepo_Delete i)" for st
    unfolding peerRepo_UpdateStatus_def peerRepo_Delete_def
    by (intro stays_map_errS s)+
  then show ?thesis
    unfolding peerSvc_Remove_def
    by (auto intro!: stays_bindS stays_tryS stays_pure keeps_inv_order keeps_inv_keep [OF peerRepo_reads(1)])
qed

interpretation cleaning: cleanup_steps "keeps_inv c b" for c b
  using keeps_inv_keep [of _ c b]
  by unfold_locales (auto intro: keeps_inv_order keeps_inv_remove keeps_inv_repo keeps_inv_release
      simp: keeps_inv_def store_inv_def db_good_keep)

text \<open>C20: whatever the options, the state of the cloud and the statements that fail, a cleanup keeps the
  schema's constraints and the disjointness of the subnets, creates nothing, and leaves every remaining
  peer on its node with its address.\<close>

theorem cleanup_keeps_invariant:
  assumes run: "CleanupInactiveResourcesWithOptions cloudDestroy op (d, w) = (r, (d', w'))"
    and inv: "store_inv c b d"
  shows "store_inv c b d' \<and> node_ids d' \<subseteq> node_ids d \<and> set (subnets d') \<subseteq> set (subnets d) \<and>
    (\<forall>p'\<in>set (peers d'). \<exists>p\<in>set (peers d). p_id p' = p_id p \<and> p_node_id p' = p_node_id p \<and>
        p_allocated_ip p' = p_allocated_ip p)"
proof -
  have "keeps_inv c b d d'" "shrinks d d'"
    using staysD [OF cleaning.whole_cleanup run] staysD [OF shrinking.whole_cleanup run] by (simp_all add: on_fst_def)
  then show ?thesis using inv by (simp add: keeps_inv_def shrinks_def)
qed

section \<open>Nodes in use are spared\<close>

definition has_active_peer :: "Db \<Rightarrow> string \<Rightarrow> bool" where
  "has_active_peer d i = (\<exists>p\<in>set (peers d). p_node_id p = i \<and> p_status p = ''active'')"

lemma has_active_peer_keep: "keep_tables d d' \<Longrightarrow> has_active_peer d' = has_active_peer d"
  by (simp add: has_active_peer_def keep_tables_def fun_eq_iff)

text \<open>Nodes outside \<open>A\<close> and their peers are left as they are.\<close>

definition spares :: "string set \<Rightarrow> Db \<Rightarrow> Db \<Rightarrow> bool" where
  "spares A d d' = (node_ids d - A \<subseteq> node_ids d' \<and> (\<forall>p\<in>set (peers d). p_node_id p \<notin> A \<longrightarrow> p \<in> set (peers d')))"

lemma spares_order: "reflp (spares A)" "transp (spares A)"
  by (auto simp: spares_def reflp_def transp_def)

lemma destroy_spares: "i \<in> A \<Longrightarrow> stays (on_fst (spares A)) (nodeSvc_DestroyNode cloudDestroy i)"
  unfolding stays_def
proof
  fix s :: "Db \<times> 'a" assume i: "i \<in> A"
  obtain d w where s: "s = (d, w)" by (cases s)
  obtain r d' w' where run: "nodeSvc_DestroyNode cloudDestroy i (d, w) = (r, (d', w'))" by (metis surj_pair)
  have "spares A d d'"
    using nodeSvc_DestroyNode_outcome [OF run] i by (cases r) (auto simp: spares_def node_ids_def)
  then show "on_fst (spares A) s (snd (nodeSvc_DestroyNode cloudDestroy i s))" by (simp add: s run on_fst_def)
qed

lemma CountActive_result:
  assumes "peerSvc_CountActiveByNode i d = (Inr n, d')"
  shows "n = 0 \<longleftrightarrow> \<not> has_active_peer d i"
proof -
  have "CountActivePeersByNode i d = (Inr n, d')"
    using assms by (simp add: peerSvc_CountActiveByNode_def peerRepo_CountActiveByNode_def split: if_splits)
  then have "n = int (length (filter (\<lambda>r. p_node_id r = i \<and> p_status r = ''active'') (peers d)))"
    unfolding CountActivePeersByNode_def by (auto dest!: select_many_result simp: keep_tables_def)
  then show ?thesis by (auto simp: has_active_peer_def filter_empty_conv)
qed

lemma scan_orphans_spec:
  assumes "scan_orphans ns d = (r, d')"
  shows "keep_tables d d' \<and> (case r of Inl _ \<Rightarrow> False | Inr (orphans, busy) \<Rightarrow>
    (\<forall>n\<in>set orphans. n \<in> set ns \<and> clock d - nd_UpdatedAt n > 3600 \<and> \<not> has_active_peer d (nd_ID n)) \<and>
    busy \<le> length (filter (\<lambda>n. has_active_peer d (nd_ID n)) ns))"
  using assms
proof (induction ns arbitrary: d r d')
  case Nil
  then show ?case by auto
next
  case (Cons n ns)
  obtain q d1 where q: "peerSvc_CountActiveByNode (nd_ID n) d = (q, d1)" by (metis surj_pair)
  obtain r2 d2 where r2: "scan_orphans ns d1 = (r2, d2)" by (metis surj_pair)
  have k: "keep_tables d d1" by (rule staysD [OF cleanup_reads(4) q])
  then have k2: "keep_tables d d2" "clock d1 = clock d" using Cons.IH [OF r2] keep_tables_trans by (auto simp: keep_tables_def)
  obtain orphans busy where ob: "r2 = Inr (orphans, busy)" using Cons.IH [OF r2] by (auto split: sum.splits)
  note IH = conjunct2 [OF Cons.IH [OF r2], unfolded ob sum.case prod.case k2(2) has_active_peer_keep [OF k]]
  have run: "(r, d') = (Inr (case q of Inl _ \<Rightarrow> (orphans, busy)
      | Inr c \<Rightarrow> if c = 0 then (if clock d1 - nd_UpdatedAt n > 3600 then (n # orphans, busy) else (orphans, busy))
                 else (orphans, Suc busy)), d2)"
    using Cons.prems q r2 ob by (auto simp: bindS_def tryS_def split: sum.splits)
  show ?case
  proof (cases q)
    case (Inl e)
    then show ?thesis using run IH k2 by auto
  next
    case (Inr c)
    then show ?thesis using run IH k2 CountActive_result [OF q [unfolded Inr]] by auto
  qed
qed

lemma list_active_result:
  assumes "list_active d = (Inr ns, d')"
  shows "keep_tables d d' \<and> (\<exists>rows. ns = map toDomainNode rows \<and> mset rows = mset (filter (\<lambda>r. n_status r = ''active'') (nodes d)))"
proof -
  have q: "GetNodesByStatus ''active'' d = (Inr rs, d') \<Longrightarrow> keep_tables d d' \<and>
      mset rs = mset (filter (\<lambda>r. n_status r = ''active'') (nodes d))" for rs
    unfolding GetNodesByStatus_def newest_first_def by (auto dest!: select_many_result simp: keep_tables_def)
  show ?thesis
    using assms q
    by (auto simp: list_active_def nodeSvc_ListNodes_def nodeRepo_List_def applyFilters_def page_def Let_def
        split: prod.splits sum.splits)
qed

text \<open>C23: destroying orphaned nodes spares what is in use: under any failures no active peer loses its
  row, every node that disappears was active, without active peers and last written more than an hour
  ago, and nothing disappears while at most one active node has active peers.\<close>

theorem orphan_cleanup_safe:
  assumes ok: "db_ok d" and run: "cleanupOrphanedNodes cloudDestroy dryRun (d, w) = (r, (d', w'))"
  shows "(\<forall>p\<in>set (peers d). p_status p = ''active'' \<longrightarrow> p \<in> set (peers d')) \<and>
    (\<forall>row\<in>set (nodes d). n_id row \<notin> node_ids d' \<longrightarrow> n_status row = ''active'' \<and>
      clock d - n_updated_at row > 3600 \<and> \<not> has_active_peer d (n_id row)) \<and>
    (length (filter (\<lambda>row. n_status row = ''active'' \<and> has_active_peer d (n_id row)) (nodes d)) \<le> 1 \<longrightarrow>
      node_ids d' = node_ids d)"
proof -
  have still: ?thesis if "keep_tables d d'"
  proof -
    have "peers d' = peers d" "node_ids d' = node_ids d" using that by (simp_all add: keep_tables_def node_ids_def)
    moreover have "n_id row \<in> node_ids d" if "row \<in> set (nodes d)" for row using that by (simp add: node_ids_def)
    ultimately show ?thesis by (intro conjI ballI impI) (blast | metis)+
  qed
  obtain q d1 where q: "list_active d = (q, d1)" by (metis surj_pair)
  have k1: "keep_tables d d1" by (rule staysD [OF cleanup_reads(2) q])
  show ?thesis
  proof (cases q)
    case (Inl e)
    then have "d' = d1" using run q by (simp add: cleanupOrphanedNodes_def bindS_def on_store_def)
    then have "keep_tables d d'" using k1 by simp
    then show ?thesis by (rule still)
  next
    case (Inr ns)
    obtain rows where rows: "ns = map toDomainNode rows" "mset rows = mset (filter (\<lambda>r. n_status r = ''active'') (nodes d))"
      using list_active_result [OF q [unfolded Inr]] by blast
    obtain q2 d2 where q2: "scan_orphans ns d1 = (q2, d2)" by (metis surj_pair)
    have k2: "keep_tables d d2" using scan_orphans_spec [OF q2] keep_tables_trans [OF k1] by blast
    obtain orphans busy where ob: "q2 = Inr (orphans, busy)" using scan_orphans_spec [OF q2] by (auto split: sum.splits)
    have clk: "clock d1 = clock d" using k1 by (simp add: keep_tables_def)
    note scan = conjunct2 [OF scan_orphans_spec [OF q2], unfolded ob sum.case prod.case clk has_active_peer_keep [OF k1]]
    have run': "(if busy \<le> 1 \<and> orphans \<noteq> [] then returnS 0
        else count_done dryRun (\<lambda>n. nodeSvc_DestroyNode cloudDestroy (nd_ID n)) orphans) (d2, w) = (r, (d', w'))"
      using run q q2 by (simp add: cleanupOrphanedNodes_def bindS_def on_store_def Inr ob)
    let ?A = "nd_ID ` set orphans"
    have rs: "set rows = set (filter (\<lambda>r. n_status r = ''active'') (nodes d))" using rows(2) mset_eq_setD by blast
    have A: "\<exists>row\<in>set (nodes d). n_id row = i \<and> n_status row = ''active'' \<and> clock d - n_updated_at row > 3600 \<and>
        \<not> has_active_peer d i" if i: "i \<in> ?A" for i

    proof -
      obtain n where n: "n \<in> set orphans" "i = nd_ID n" using i by blast
      then have n': "n \<in> set ns" "clock d - nd_UpdatedAt n > 3600" "\<not> has_active_peer d (nd_ID n)" using scan by blast+
      then obtain row where row: "row \<in> set rows" "n = toDomainNode row" using rows(1) by auto
      then have "nd_ID n = n_id row" "nd_UpdatedAt n = n_updated_at row" by (simp_all add: toDomainNode_def)
      moreover have "row \<in> set (nodes d)" "n_status row = ''active''" using row(1) rs by auto
      ultimately show ?thesis using n(2) n'(2,3) by (intro bexI [of _ row]) simp_all
    qed
    have "stays (on_fst (spares ?A)) (count_done dryRun (\<lambda>n. nodeSvc_DestroyNode cloudDestroy (nd_ID n)) orphans)"
      by (intro count_done_stays on_fst_order spares_order destroy_spares imageI)
    then have sp: "spares ?A d2 d'" if "\<not> (busy \<le> 1 \<and> orphans \<noteq> [])"
      using staysD [of "on_fst (spares ?A)" _ "(d2, w)" r "(d', w')"] run' that by (simp only: on_fst_def fst_conv if_False)
    have "busy \<le> length (filter (\<lambda>n. has_active_peer d (nd_ID n)) ns)" using scan by blast
    also have "\<dots> = size (filter_mset (\<lambda>r. has_active_peer d (n_id r)) (mset rows))"
      by (simp add: rows(1) filter_map o_def toDomainNode_def flip: mset_filter)
    also have "\<dots> = length (filter (\<lambda>row. n_status row = ''active'' \<and> has_active_peer d (n_id row)) (nodes d))"
      by (simp add: rows(2) conj_commute flip: mset_filter)
    finally have busy: "busy \<le> length (filter (\<lambda>row. n_status row = ''active'' \<and> has_active_peer d (n_id row)) (nodes d))" .
    show ?thesis
    proof (cases "busy \<le> 1")
      case True
      then have "d' = d2" using run' by (cases "orphans = []") auto
      then have "keep_tables d d'" using k2 by simp
      then show ?thesis by (rule still)
    next
      case False
      have uniq: "distinct (map n_id (nodes d))" using ok by (simp add: db_ok_def nodes_ok_def)
      have "spares ?A d2 d'" using sp False by blast
      then have s: "spares ?A d d'" using k2 by (simp add: spares_def keep_tables_def node_ids_def)
      have "p \<in> set (peers d')" if "p \<in> set (peers d)" "p_status p = ''active''" for p
      proof -
        have "p_node_id p \<notin> ?A" using A that by (force simp: has_active_peer_def)
        then show ?thesis using s that unfolding spares_def by blast
      qed
      moreover have "n_status row = ''active'' \<and> clock d - n_updated_at row > 3600 \<and> \<not> has_active_peer d (n_id row)"
        if "row \<in> set (nodes d)" "n_id row \<notin> node_ids d'" for row
      proof -
        have "n_id row \<in> ?A" using s that unfolding spares_def node_ids_def by blast
        then obtain row' where "row' \<in> set (nodes d)" "n_id row' = n_id row" "n_status row' = ''active''"
          "clock d - n_updated_at row' > 3600" "\<not> has_active_peer d (n_id row)" using A by metis
        then show ?thesis using distinct_map_unique [OF uniq] that(1) by metis
      qed
      ultimately show ?thesis using False busy by auto
    qed
  qed
qed

section \<open>Which peers are removed\<close>

definition inactive_row :: "int \<Rightarrow> int \<Rightarrow> PeerRow \<Rightarrow> bool" where
  "inactive_row minutes now p = (p_status p = ''active'' \<and>
     (p_last_handshake_at p = None \<or> elapsed (p_last_handshake_at p) 60 (Some minutes) now))"

lemma peerSvc_Remove_nofault:
  assumes nf: "faults d = []" and i: "i \<noteq> []" "i \<in> p_id ` set (peers d)"
  obtains d' where "peerSvc_Remove i d = (Inr (), d')" "faults d' = []" "nodes d' = nodes d" "subnets d' = subnets d"
    "peers d' = filter (\<lambda>p. p_id p \<noteq> i) (peers d)"
proof -
  have "find (\<lambda>r. p_id r = i) (peers d) \<noteq> None" using i(2) by (auto simp: find_None_all)
  then obtain row where row: "find (\<lambda>r. p_id r = i) (peers d) = Some row" by blast
  have get: "peerRepo_Get i d = (Inr (toDomainPeer row), d)"
    using row by (simp add: peerRepo_Get_def GetPeer_def select_nofault [OF nf] bindS_def map_errS_def)
  obtain d1 where u: "peerRepo_UpdateStatus i PeerRemoving d = (Inr (), d1)" "faults d1 = []"
    by (simp add: peerRepo_UpdateStatus_def UpdatePeerStatus_def run_query_nofault [OF nf] map_errS_def nf)
  obtain d2 where x: "peerRepo_Delete i d1 = (Inr (), d2)" "faults d2 = []"
    by (simp add: peerRepo_Delete_def DeletePeer_def run_query_nofault [OF u(2)] map_errS_def u(2))
  have run: "peerSvc_Remove i d = (Inr (), d2)" using i(1) by (simp add: peerSvc_Remove_def bindS_def get u(1) x(1))
  show thesis by (rule that [OF run x(2)]) (use peerSvc_Remove_outcome [OF run] in simp_all)
qed

lemma remove_loop:
  assumes "faults d = []" "distinct (map pr_ID ps)" "pr_ID ` set ps \<subseteq> p_id ` set (peers d)" "[] \<notin> pr_ID ` set ps"
  obtains d' where "count_done False (\<lambda>p. peerSvc_Remove (pr_ID p)) ps d = (Inr (int (length ps)), d')"
    "faults d' = []" "nodes d' = nodes d" "subnets d' = subnets d"
    "peers d' = filter (\<lambda>p. p_id p \<notin> pr_ID ` set ps) (peers d)"
  using assms
proof (induction ps arbitrary: d thesis)
  case Nil
  then show ?case by simp
next
  case (Cons p ps)
  obtain d1 where d1: "peerSvc_Remove (pr_ID p) d = (Inr (), d1)" "faults d1 = []" "nodes d1 = nodes d"
    "subnets d1 = subnets d" "peers d1 = filter (\<lambda>q. p_id q \<noteq> pr_ID p) (peers d)"
    by (rule peerSvc_Remove_nofault [OF Cons.prems(2), of "pr_ID p"]) (use Cons.prems in auto)
  have sub: "pr_ID ` set ps \<subseteq> p_id ` set (peers d1)"
  proof
    fix i assume i: "i \<in> pr_ID ` set ps"
    then have "i \<in> p_id ` set (peers d)" using Cons.prems(4) by auto
    then obtain q where q: "q \<in> set (peers d)" "i = p_id q" by (rule imageE)
    moreover have "pr_ID p \<notin> pr_ID ` set ps" using Cons.prems(3) by simp
    then have "i \<noteq> pr_ID p" using i by blast
    ultimately have "q \<in> set (peers d1)" by (simp add: d1(5))
    then show "i \<in> p_id ` set (peers d1)" using q(2) by simp
  qed
  obtain d2 where d2: "count_done False (\<lambda>p. peerSvc_Remove (pr_ID p)) ps d1 = (Inr (int (length ps)), d2)"
    "faults d2 = []" "nodes d2 = nodes d1" "subnets d2 = subnets d1"
    "peers d2 = filter (\<lambda>q. p_id q \<notin> pr_ID ` set ps) (peers d1)"
    by (rule Cons.IH [OF _ d1(2) _ sub]) (use Cons.prems in auto)
  have "count_done False (\<lambda>p. peerSvc_Remove (pr_ID p)) (p # ps) d = (Inr (int (length (p # ps))), d2)"
    by (simp add: bindS_def tryS_def d1(1) d2(1))
  then show ?case
    by (rule Cons.prems(1)) (auto simp: d2 d1 conj_commute intro: filter_cong)
qed

lemma GetInactive_rows:
  assumes nf: "faults d = []" and m: "0 < minutes"
  obtains rows where "peerSvc_GetInactive minutes d = (Inr (map toDomainPeer rows), d)"
    "mset rows = mset (filter (inactive_row minutes (clock d)) (peers d))"
proof -
  let ?rows = "filter (inactive_row minutes (clock d)) (peers d)"
  let ?out = "filter (\<lambda>r. p_last_handshake_at r = None) ?rows @
      sort_key (\<lambda>r. the (p_last_handshake_at r)) (filter (\<lambda>r. p_last_handshake_at r \<noteq> None) ?rows)"
  have "GetInactivePeers (Some minutes) d = (Inr ?out, d)"
    unfolding GetInactivePeers_def inactive_row_def by (simp add: select_nofault [OF nf] Let_def)
  then have "peerSvc_GetInactive minutes d = (Inr (map toDomainPeer ?out), d)"
    using m unfolding peerSvc_GetInactive_def peerRepo_GetInactive_def by (simp add: map_errS_def bindS_def)
  moreover have "mset ?out = mset ?rows"
    by (simp only: mset_append mset_sort mset_filter multiset_partition [symmetric] flip: multiset_partition)
  ultimately show thesis by (rule that)
qed

lemma cleanup_peers_run:
  assumes nf: "faults d = []" and ok: "db_ok d" and ids: "[] \<notin> p_id ` set (peers d)" and m: "0 < minutes"
  obtains d' where "cleanupInactivePeers minutes False d =
      (Inr (int (length (filter (inactive_row minutes (clock d)) (peers d)))), d')"
    "faults d' = []" "nodes d' = nodes d" "subnets d' = subnets d"
    "peers d' = filter (\<lambda>p. \<not> inactive_row minutes (clock d) p) (peers d)"
proof -
  let ?in = "inactive_row minutes (clock d)"
  obtain rows where rows: "peerSvc_GetInactive minutes d = (Inr (map toDomainPeer rows), d)"
    "mset rows = mset (filter ?in (peers d))" by (rule GetInactive_rows [OF nf m])
  have set: "set rows = set (filter ?in (peers d))" using rows(2) mset_eq_setD by blast
  have len: "length rows = length (filter ?in (peers d))" using rows(2) by (metis size_mset)
  have uniq: "distinct (map p_id (peers d))" using ok by (simp add: db_ok_def peers_ok_def)
  have id: "pr_ID (toDomainPeer r) = p_id r" for r by (simp add: toDomainPeer_def)
  have "mset (map p_id rows) = mset (map p_id (filter ?in (peers d)))" by (simp only: mset_map rows(2))
  then have "distinct (map p_id rows)"
    using distinct_map_filter_iff [OF uniq] by (rule mset_eq_imp_distinct_iff [THEN iffD2])
  moreover have "map pr_ID (map toDomainPeer rows) = map p_id rows" by (simp add: o_def id)
  ultimately have dist: "distinct (map pr_ID (map toDomainPeer rows))" by (simp only:)
  obtain d' where d': "count_done False (\<lambda>p. peerSvc_Remove (pr_ID p)) (map toDomainPeer rows) d =
      (Inr (int (length (map toDomainPeer rows))), d')"
    "faults d' = []" "nodes d' = nodes d" "subnets d' = subnets d"
    "peers d' = filter (\<lambda>p. p_id p \<notin> pr_ID ` set (map toDomainPeer rows)) (peers d)"
  proof (rule remove_loop [OF nf dist])
    have i: "pr_ID ` set (map toDomainPeer rows) = p_id ` set rows" by (simp add: image_image id)
    then show "pr_ID ` set (map toDomainPeer rows) \<subseteq> p_id ` set (peers d)" unfolding i set by auto
    then show "[] \<notin> pr_ID ` set (map toDomainPeer rows)" using ids by blast
  qed
  have "p_id p \<in> pr_ID ` set (map toDomainPeer rows) \<longleftrightarrow> ?in p" if p: "p \<in> set (peers d)" for p
  proof
    assume "p_id p \<in> pr_ID ` set (map toDomainPeer rows)"
    then obtain q where q: "q \<in> set rows" "p_id q = p_id p" by (auto simp: id)
    then have "q \<in> set (peers d)" "?in q" using set by simp_all
    then show "?in p" using distinct_map_unique [OF uniq _ p q(2)] by simp
  next
    assume "?in p"
    then have "p \<in> set rows" using p set by simp
    then show "p_id p \<in> pr_ID ` set (map toDomainPeer rows)" by (force simp: id)
  qed
  then have "peers d' = filter (\<lambda>p. \<not> ?in p) (peers d)" unfolding d'(5) by (intro filter_cong) auto
  moreover have "cleanupInactivePeers minutes False d = (Inr (int (length (filter ?in (peers d)))), d')"
    by (simp add: cleanupInactivePeers_def map_errS_def bindS_def rows(1) d'(1) len)
  ultimately show thesis using d' that by blast
qed

text \<open>A peer that was just created has no handshake on record, since no service ever records one, so
  the next cleanup without failures removes it, however short the time since its connection.\<close>

theorem fresh_peer_is_cleaned:
  assumes ok: "db_ok d" "[] \<notin> p_id ` set (peers d)"
    and create: "peerSvc_Create nano req d = (Inr p, d1)" "faults d1 = []"
    and clean: "0 < minutes" "cleanupInactivePeers minutes False d1 = (r, d2)"
  shows "pr_ID p \<in> p_id ` set (peers d1) \<and> pr_ID p \<notin> p_id ` set (peers d2) \<and> (\<exists>n\<ge>1. r = Inr n)"
proof -
  obtain row where row: "peers d1 = peers d @ [row]" "p_id row = pr_ID p" "p_status row = ''active''"
    "p_last_handshake_at row = None" and ok1: "db_ok d1"
    using peerSvc_Create_row [OF create(1)] ok(1) unfolding Let_def by blast
  have "pr_ID p = generatePeerID nano" using create(1) by (rule peerSvc_Create_Inr) simp
  then have ids: "[] \<notin> p_id ` set (peers d1)" using ok(2) row(1,2) by (auto simp: generatePeerID_def)
  obtain d' where d': "cleanupInactivePeers minutes False d1 =
      (Inr (int (length (filter (inactive_row minutes (clock d1)) (peers d1)))), d')"
    "peers d' = filter (\<lambda>p. \<not> inactive_row minutes (clock d1) p) (peers d1)"
    by (rule cleanup_peers_run [OF create(2) ok1 ids clean(1)])
  have inactive: "inactive_row minutes (clock d1) row" using row by (simp add: inactive_row_def)
  have "distinct (map p_id (peers d1))" using ok1 by (simp add: db_ok_def peers_ok_def)
  then have "p_id row \<notin> p_id ` set (peers d)" using row(1) by auto
  then have "pr_ID p \<notin> p_id ` set (peers d2)" using clean(2) d' inactive row(1,2) by auto
  moreover have "1 \<le> int (length (filter (inactive_row minutes (clock d1)) (peers d1)))" using row(1) inactive by simp
  ultimately show ?thesis using clean(2) d'(1) row(1,2) by auto
qed

section \<open>Which subnets are released\<close>

definition served :: "Db \<Rightarrow> string \<Rightarrow> bool" where
  "served d i = (\<exists>row\<in>set (nodes d). n_id row = i \<and> n_status row \<in> {''active'', ''provisioning''})"

definition valid_ids :: "Db \<Rightarrow> bool" where
  "valid_ids d = (\<forall>i\<in>node_ids d. i \<noteq> [] \<and> length i \<le> 255)"

lemma GetNodeSubnet_svc_nofault:
  assumes "faults d = []" "i \<noteq> []" "length i \<le> 255"
  shows "\<exists>r. GetNodeSubnet_svc i d = (r, d) \<and> ((\<exists>s. r = Inr s) \<longleftrightarrow> db_view d i \<noteq> None)"
proof -
  have "GetNodeSubnet i d = (scan_one (find (\<lambda>r. s_node_id r = i) (subnets d)), d)"
    by (simp add: GetNodeSubnet_def select_nofault(1) [OF assms(1)])
  then have "\<exists>q. repo_GetSubnet i d = (q, d) \<and> ((\<exists>s. q = Inr s) \<longleftrightarrow> db_view d i \<noteq> None)"
    by (cases "find (\<lambda>r. s_node_id r = i) (subnets d)") (auto simp: repo_GetSubnet_def db_view_def split: sum.splits)
  then obtain q where "repo_GetSubnet i d = (q, d)" "(\<exists>s. q = Inr s) \<longleftrightarrow> db_view d i \<noteq> None" by blast
  then show ?thesis
    using SubnetRequest_ok [OF assms(2,3)] by (cases q) (simp_all add: GetNodeSubnet_svc_def)
qed

lemma ReleaseNodeSubnet_nofault:
  assumes "faults d = []" "i \<noteq> []" "length i \<le> 255"
  shows "\<exists>d'. ReleaseNodeSubnet i d = (Inr (), d') \<and> faults d' = [] \<and> nodes d' = nodes d \<and> peers d' = peers d \<and>
    subnets d' = filter (\<lambda>s. s_node_id s \<noteq> i) (subnets d)"
proof (cases "find (\<lambda>s. s_node_id s = i) (subnets d)")
  case None
  then have "filter (\<lambda>s. s_node_id s \<noteq> i) (subnets d) = subnets d" by (auto simp: find_None_all filter_id_conv)
  then show ?thesis
    using None assms(1) SubnetRequest_ok [OF assms(2,3)]
    by (simp add: ReleaseNodeSubnet_def repo_SubnetExists_def GetNodeSubnet_def select_nofault)
next
  case (Some s)
  then show ?thesis
    using assms(1) SubnetRequest_ok [OF assms(2,3)]
    by (simp add: ReleaseNodeSubnet_def repo_SubnetExists_def GetNodeSubnet_def select_nofault repo_DeleteSubnet_def
        DeleteNodeSubnet_def run_query_nofault)
qed

lemma release_loop:
  assumes "faults d = []" "\<forall>i\<in>set us. i \<noteq> [] \<and> length i \<le> 255"
  obtains d' where "count_done False ReleaseNodeSubnet us d = (Inr (int (length us)), d')" "faults d' = []"
    "nodes d' = nodes d" "peers d' = peers d" "subnets d' = filter (\<lambda>s. s_node_id s \<notin> set us) (subnets d)"
  using assms
proof (induction us arbitrary: d thesis)
  case Nil
  then show ?case by simp
next
  case (Cons i us)
  obtain d1 where d1: "ReleaseNodeSubnet i d = (Inr (), d1)" "faults d1 = []" "nodes d1 = nodes d" "peers d1 = peers d"
    "subnets d1 = filter (\<lambda>s. s_node_id s \<noteq> i) (subnets d)"
    using ReleaseNodeSubnet_nofault [OF Cons.prems(2), of i] Cons.prems(3) by auto
  obtain d2 where d2: "count_done False ReleaseNodeSubnet us d1 = (Inr (int (length us)), d2)" "faults d2 = []"
    "nodes d2 = nodes d1" "peers d2 = peers d1" "subnets d2 = filter (\<lambda>s. s_node_id s \<notin> set us) (subnets d1)"
    by (rule Cons.IH [OF _ d1(2)]) (use Cons.prems(3) in auto)
  have "count_done False ReleaseNodeSubnet (i # us) d = (Inr (int (length (i # us))), d2)"
    by (simp add: bindS_def tryS_def d1(1) d2(1))
  then show ?case by (rule Cons.prems(1)) (auto simp: d2 d1 intro: filter_cong)
qed

lemma scan_subnets_run:
  assumes "faults d = []" "\<forall>n\<in>set ns. nd_ID n \<noteq> [] \<and> length (nd_ID n) \<le> 255"
  shows "scan_subnets S ns d =
    (Inr (map nd_ID (filter (\<lambda>n. nd_ID n \<notin> S \<and> db_view d (nd_ID n) \<noteq> None) ns)), d)"
  using assms(2)
proof (induction ns)
  case (Cons n ns)
  obtain r where r: "GetNodeSubnet_svc (nd_ID n) d = (r, d)" "(\<exists>s. r = Inr s) \<longleftrightarrow> db_view d (nd_ID n) \<noteq> None"
    using GetNodeSubnet_svc_nofault [OF assms(1), of "nd_ID n"] Cons.prems by auto
  then show ?case using Cons by (cases r) (auto simp: bindS_def tryS_def)
qed simp

lemma cleanup_subnets_run:
  assumes nf: "faults d = []" and g: "db_good d" and ids: "valid_ids d"
  obtains n d' where "cleanupUnusedSubnets False d = (Inr n, d')" "faults d' = []" "nodes d' = nodes d" "peers d' = peers d"
    "subnets d' = filter (\<lambda>s. served d (s_node_id s)) (subnets d)"
proof -
  let ?ns = "map toDomainNode (newest_first n_created_at (nodes d))"
  let ?S = "nd_ID ` set (filter in_service ?ns)"
  let ?us = "map nd_ID (filter (\<lambda>n. nd_ID n \<notin> ?S \<and> db_view d (nd_ID n) \<noteq> None) ?ns)"
  have id: "nd_ID (toDomainNode r) = n_id r" for r by (simp add: toDomainNode_def)
  have list: "list_all_nodes d = (Inr ?ns, d)"
    by (simp add: list_all_nodes_def nodeSvc_ListNodes_def nodeRepo_List_def GetAllNodes_def select_nofault [OF nf]
        map_errS_def applyFilters_def page_def Let_def)
  have valid: "\<forall>n\<in>set ?ns. nd_ID n \<noteq> [] \<and> length (nd_ID n) \<le> 255"
    using ids by (auto simp: valid_ids_def node_ids_def id)
  have us: "unused_subnets d = (Inr ?us, d)"
    by (simp only: unused_subnets_def bindS_def list prod.case sum.case scan_subnets_run [OF nf valid])
  obtain d' where d': "count_done False ReleaseNodeSubnet ?us d = (Inr (int (length ?us)), d')" "faults d' = []"
    "nodes d' = nodes d" "peers d' = peers d" "subnets d' = filter (\<lambda>s. s_node_id s \<notin> set ?us) (subnets d)"
    by (rule release_loop [OF nf, of ?us]) (use valid in auto)
  have S: "i \<in> ?S \<longleftrightarrow> served d i" for i
    by (auto simp: served_def in_service_def Node_IsActive_def toDomainNode_def image_iff)
  have "s_node_id s \<in> set ?us \<longleftrightarrow> \<not> served d (s_node_id s)" if s: "s \<in> set (subnets d)" for s
  proof -
    have "s_node_id s \<in> node_ids d" using g s by (auto simp: db_good_def db_ok_def subnets_ok_def)
    then have "s_node_id s \<in> nd_ID ` set ?ns" by (simp add: node_ids_def image_image id)
    moreover have "db_view d (s_node_id s) \<noteq> None" using db_view_row [OF g s] by auto
    moreover have "set (map f (filter (\<lambda>n. Q (f n)) xs)) = {x \<in> f ` set xs. Q x}" for f Q and xs :: "Node list" by auto
    note this [of nd_ID "\<lambda>i. i \<notin> ?S \<and> db_view d i \<noteq> None" ?ns]
    ultimately show ?thesis using S by simp
  qed
  then have "subnets d' = filter (\<lambda>s. served d (s_node_id s)) (subnets d)" unfolding d'(5) by (intro filter_cong) auto
  moreover have "cleanupUnusedSubnets False d = (Inr (int (length ?us)), d')"
    by (simp only: cleanupUnusedSubnets_def bindS_def us prod.case sum.case d'(1))
  ultimately show thesis using d' that by blast
qed

text \<open>C37: an unhealthy node keeps its peers, but the cleanup releases its subnet, and the next allocation
  hands the same network to another node, although peers of the first still hold addresses in it. Here
  the unhealthy node has the \<open>k\<close>-th subnet of the base network and all earlier ones stay in use.\<close>

theorem released_subnet_is_reused:
  assumes c: "config_base c b" and d: "store_inv c b d" "faults d = []" "valid_ids d"
    and sub: "s \<in> set (subnets d)" "\<not> served d (s_node_id s)" "s_subnet_cidr s = net_string (subnet_at c b k)"
    and k: "k < 2 ^ (nat (SubnetMask c) - net_ones b)"
      "\<forall>j<k. net_string (subnet_at c b j) \<in> s_subnet_cidr ` {t \<in> set (subnets d). served d (s_node_id t)}"
    and j: "j \<in> node_ids d" "j \<notin> s_node_id ` set (subnets d)"
    and clean: "cleanupUnusedSubnets False d = (r, d1)"
  shows "peers d1 = peers d \<and> s \<notin> set (subnets d1) \<and>
    (\<exists>d2. AllocateNodeSubnet_db c j d1 = (Inr (subnet_at c b k), d2))"
proof -
  have g: "db_good d" using d(1) by (simp add: store_inv_def)
  obtain n d' where d': "cleanupUnusedSubnets False d = (Inr n, d')" "faults d' = []" "nodes d' = nodes d"
    "peers d' = peers d" "subnets d' = filter (\<lambda>s. served d (s_node_id s)) (subnets d)"
    by (rule cleanup_subnets_run [OF d(2) g d(3)])
  then have d1: "d1 = d'" using clean by simp
  have "keeps_inv c b d d1" using staysD [OF cleaning.subnets_step clean] .
  then have g1: "db_good d1" using d(1) by (simp add: keeps_inv_def store_inv_def)
  have free: "net_string (subnet_at c b k) \<notin> s_subnet_cidr ` set (subnets d1)"
  proof
    assume "net_string (subnet_at c b k) \<in> s_subnet_cidr ` set (subnets d1)"
    then obtain t where t: "t \<in> set (subnets d)" "served d (s_node_id t)" "s_subnet_cidr t = s_subnet_cidr s"
      using sub(3) by (auto simp: d1 d'(5))
    have "distinct (map s_subnet_cidr (subnets d))" using g by (simp add: db_good_def db_ok_def subnets_ok_def)
    then have "t = s" using distinct_map_unique t(1,3) sub(1) by metis
    then show False using t(2) sub(2) by simp
  qed
  have used: "net_string (subnet_at c b i) \<in> s_subnet_cidr ` set (subnets d1)" if "i < k" for i
    using k(2) that by (auto simp: d1 d'(5))
  have first: "find (\<lambda>k. net_string (subnet_at c b k) \<notin> s_subnet_cidr ` set (subnets d1))
      [0..<2 ^ (nat (SubnetMask c) - net_ones b)] = Some k"
    using free used k(1) by (auto simp: find_Some_iff intro!: exI [of _ k])
  have "find (\<lambda>r. s_node_id r = j) (subnets d1) = None" using j(2) by (auto simp: find_None_all d1 d'(5))
  then have "db_view d1 j = None" by (simp add: db_view_def)
  moreover have "j \<noteq> []" "length j \<le> 255" "j \<in> node_ids d1"
    using d(3) j(1) d'(3) by (auto simp: valid_ids_def d1 node_ids_def)
  ultimately have "\<exists>d2. AllocateNodeSubnet_db c j d1 = (Inr (subnet_at c b k), d2)"
    using allocate_db_outcome [OF c g1, of j] d'(2) first by (simp add: d1)
  then show ?thesis using sub(2) by (simp add: d1 d')
qed

section \<open>Examples\<close>

definition row_of :: "string \<Rightarrow> string \<Rightarrow> string \<Rightarrow> NodeRow" where
  "row_of i key st = \<lparr>n_id = i, n_server_id = Some i, n_ip_address = ''1.2.3.4'', n_server_public_key = key,
     n_port = 51820, n_status = st, n_version = 1, n_created_at = 0, n_updated_at = 0, n_destroy_at = None,
     n_last_handshake_at = None, n_connected_clients = 0\<rparr>"

definition two_nodes :: "SubnetRow list \<Rightarrow> Db" where
  "two_nodes ss = \<lparr>nodes = [row_of ''node-1'' ''k1'' ''unhealthy'', row_of ''node-2'' ''k2'' ''active''], peers = [],
     subnets = ss, clock = 4000, faults = []\<rparr>"

text \<open>An unhealthy node that holds the first subnet, and an active one that has none yet.\<close>

lemma two_nodes_example:
  obtains s where "store_inv DefaultNetworkConfig default_base (two_nodes [s])" "s_node_id s = ''node-1''"
    "s_subnet_cidr s = net_string (subnet_at DefaultNetworkConfig default_base 0)" "valid_ids (two_nodes [s])"
proof -
  have k: "0 < (2 :: nat) ^ (nat (SubnetMask DefaultNetworkConfig) - net_ones default_base)" by simp
  obtain row s where row: "toDomainSubnet row = Inr s" "subnet_stored ''node-1'' s" "s_node_id row = ''node-1''"
    "s_subnet_cidr row = net_string (subnet_at DefaultNetworkConfig default_base 0)"
    "sn_Network s = subnet_at DefaultNetworkConfig default_base 0"
    by (rule subnet_row_exists [OF default_config_base k, of "''node-1''"]) (simp add: validateNodeID_def)
  have ids: "node_ids (two_nodes [row]) = {''node-1'', ''node-2''}"
    by (simp add: two_nodes_def node_ids_def row_of_def)
  have "db_ok (two_nodes [row])"
    using row(3) ids by (simp add: db_ok_def nodes_ok_def peers_ok_def subnets_ok_def two_nodes_def row_of_def)
  then have good: "db_good (two_nodes [row])" using row by (simp add: db_good_def two_nodes_def)
  have view: "db_view (two_nodes [row]) = [''node-1'' \<mapsto> s]" using row by (auto simp: db_view_def two_nodes_def fun_eq_iff)
  have "subnet_pool DefaultNetworkConfig default_base (db_view (two_nodes [row]))"
    unfolding view subnet_pool_def using k row(5) by (auto split: if_splits intro!: exI [of _ 0])
  then have "store_inv DefaultNetworkConfig default_base (two_nodes [row])" using good by (simp add: store_inv_def)
  moreover have "valid_ids (two_nodes [row])" by (simp add: valid_ids_def ids)
  ultimately show thesis using that row(3,4) by blast
qed

theorem released_subnet_is_reused_witness:
  "\<exists>s r d1 d2. s_node_id s = ''node-1'' \<and> cleanupUnusedSubnets False (two_nodes [s]) = (r, d1) \<and> s \<notin> set (subnets d1) \<and>
     AllocateNodeSubnet_db DefaultNetworkConfig ''node-2'' d1 =
       (Inr (subnet_at DefaultNetworkConfig default_base 0), d2)"
proof -
  obtain s where s: "store_inv DefaultNetworkConfig default_base (two_nodes [s])" "s_node_id s = ''node-1''"
    "s_subnet_cidr s = net_string (subnet_at DefaultNetworkConfig default_base 0)" "valid_ids (two_nodes [s])"
    by (rule two_nodes_example)
  obtain r d1 where d1: "cleanupUnusedSubnets False (two_nodes [s]) = (r, d1)" by (metis surj_pair)
  have "peers d1 = peers (two_nodes [s]) \<and> s \<notin> set (subnets d1) \<and>
    (\<exists>d2. AllocateNodeSubnet_db DefaultNetworkConfig ''node-2'' d1 = (Inr (subnet_at DefaultNetworkConfig default_base 0), d2))"
    by (rule released_subnet_is_reused [OF default_config_base s(1) _ s(4) _ _ s(3) _ _ _ _ d1])
      (simp_all add: two_nodes_def served_def row_of_def s(2) node_ids_def)
  then show ?thesis using s(2) d1 by blast
qed

theorem cleanup_keeps_invariant_witness:
  "\<exists>s. store_inv DefaultNetworkConfig default_base
     (fst (snd (CleanupInactiveResources (\<lambda>i w. (Inl ErrIO, w)) (two_nodes [s], ()))))"
proof -
  obtain s where s: "store_inv DefaultNetworkConfig default_base (two_nodes [s])" by (rule two_nodes_example)
  obtain r d' w' where run: "CleanupInactiveResources (\<lambda>i w. (Inl ErrIO, w)) (two_nodes [s], ()) = (r, (d', w'))"
    by (metis surj_pair)
  have "store_inv DefaultNetworkConfig default_base d'"
    using cleanup_keeps_invariant [OF run [unfolded CleanupInactiveResources_def] s] by blast
  then have "store_inv DefaultNetworkConfig default_base
      (fst (snd (CleanupInactiveResources (\<lambda>i w. (Inl ErrIO, w)) (two_nodes [s], ()))))"
    by (simp only: run fst_conv snd_conv)
  then show ?thesis by blast
qed

theorem orphan_cleanup_safe_witness:
  "node_ids (fst (snd (cleanupOrphanedNodes (\<lambda>i w. (Inr (), w)) False (two_nodes [], ())))) = {''node-1'', ''node-2''}"
proof -
  have ok: "db_ok (two_nodes [])"
    by (simp add: db_ok_def nodes_ok_def peers_ok_def subnets_ok_def two_nodes_def row_of_def)
  obtain r d' w' where run: "cleanupOrphanedNodes (\<lambda>i w. (Inr (), w)) False (two_nodes [], ()) = (r, (d', w'))"
    by (metis surj_pair)
  note keep = conjunct2 [OF conjunct2 [OF orphan_cleanup_safe [OF ok run]]]
  have "filter (\<lambda>row. n_status row = ''active'' \<and> has_active_peer (two_nodes []) (n_id row)) (nodes (two_nodes [])) = []"
    by (simp add: has_active_peer_def two_nodes_def)
  then have "node_ids d' = node_ids (two_nodes [])" using keep by simp
  also have "\<dots> = {''node-1'', ''node-2''}" by (simp add: two_nodes_def node_ids_def row_of_def)
  finally show ?thesis by (simp only: run fst_conv snd_conv)
qed

theorem fresh_peer_is_cleaned_witness:
  "\<exists>p d1. peerSvc_Create 5 create_example one_node_db = (Inr p, d1) \<and>
     pr_ID p \<notin> p_id ` set (peers (snd (cleanupInactivePeers 30 False d1)))"
proof -
  have nd: "pq_NodeID create_example \<in> node_ids one_node_db" by (simp add: create_example_def one_node_db_facts)
  obtain p d1 where p: "peerSvc_Create 5 create_example one_node_db = (Inr p, d1)" "faults d1 = []"
    by (rule peerSvc_Create_succeeds [OF one_node_db_facts(2) _ create_example_valid one_node_db_facts(6) nd, of 5])
      (simp_all add: create_example_def)
  obtain r d2 where d2: "cleanupInactivePeers 30 False d1 = (r, d2)" by (metis surj_pair)
  have "db_ok one_node_db" "[] \<notin> p_id ` set (peers one_node_db)" using one_node_db_facts by (simp_all add: db_good_def)
  from fresh_peer_is_cleaned [OF this p _ d2] show ?thesis using p(1) d2 by auto
qed

end
