(* ===== verification/PeerConnect.thy ===== *)
theory PeerConnect
  imports Cleanup PeerModel WireGuardRemote
begin

text \<open>
  Connecting and disconnecting peers: \<open>internal/rotator/services/peer_connection_async.go\<close> and
  \<open>peer_connection_service.go\<close>. A request is published as an event, the worker's handler takes it up in
  the background, and the tracker follows the events that the processing publishes. A panic is an error
  value that every caller passes on.
\<close>

section \<open>State and environment\<close>

text \<open>The field \<open>Config\<close> of a request, which nothing reads, is left out.\<close>

record ConnectRequest =
  cq_Protocol :: "string option"
  cq_Identifier :: "string option"
  cq_PublicKey :: "string option"
  cq_GenerateKeys :: bool

record PeerListParams =
  lp_NodeID :: "string option"
  lp_Status :: "string option"
  lp_Limit :: "int option"
  lp_Offset :: "int option"

record PeerInfo =
  pi_ID :: string
  pi_NodeID :: string
  pi_PublicKey :: string
  pi_AllocatedIP :: string
  pi_Status :: string
  pi_CreatedAt :: int
  pi_LastHandshakeAt :: "int option"

record PeersListResponse =
  plr_Peers :: "PeerInfo list"
  plr_TotalCount :: int
  plr_Offset :: int
  plr_Limit :: int

record svc_PeerStatus =
  sps_PeerID :: string
  sps_PublicKey :: string
  sps_AllocatedIP :: string
  sps_Status :: string
  sps_NodeID :: string
  sps_ServerIP :: string
  sps_ServerStatus :: string
  sps_ConnectedAt :: int
  sps_LastSeen :: int

record ('s, 'w) conn_env =
  ce_now :: "'w \<Rightarrow> int \<times> 'w"
  ce_uuid :: "'w \<Rightarrow> string \<times> 'w"
  ce_random :: "'w \<Rightarrow> byte list option \<times> 'w"
  ce_x25519 :: "byte list \<Rightarrow> byte list option"
  ce_commands :: "'s command_env"
  ce_interactor :: InteractorConfig
  ce_nodes :: NodeServiceConfig

text \<open>Database, hosts behind the interactor, connection tracker, the events an open bus has carried so
  far, whether it is open, and the world of time, identifiers and randomness.\<close>

record ('s, 'w) conn =
  cn_db :: Db
  cn_hosts :: "'s wg_state"
  cn_tracker :: conn_tracker
  cn_events :: "event list"
  cn_open :: bool
  cn_world :: 'w

type_synonym ('s, 'w, 'a) conn_step = "('s, 'w) conn \<Rightarrow> 'a res \<times> ('s, 'w) conn"

definition in_db :: "(Db \<Rightarrow> 'a res \<times> Db) \<Rightarrow> ('s, 'w, 'a) conn_step" where
  "in_db m s = (case m (cn_db s) of (r, d) \<Rightarrow> (r, s\<lparr>cn_db := d\<rparr>))"

definition on_hosts :: "('s wg_state \<Rightarrow> 'a res \<times> 's wg_state) \<Rightarrow> ('s, 'w, 'a) conn_step" where
  "on_hosts m s = (case m (cn_hosts s) of (r, h) \<Rightarrow> (r, s\<lparr>cn_hosts := h\<rparr>))"

definition draw :: "('w \<Rightarrow> 'a \<times> 'w) \<Rightarrow> ('s, 'w, 'a) conn_step" where
  "draw f s = (case f (cn_world s) of (x, w) \<Rightarrow> (Inr x, s\<lparr>cn_world := w\<rparr>))"

definition is_panic :: "go_error \<Rightarrow> bool" where
  "is_panic e = (case e of PlainError t \<Rightarrow> take 7 t = ''panic: '' | _ \<Rightarrow> False)"

text \<open>The outcome of a call whose error the caller handles; a panic is no such error.\<close>

definition attempt :: "('s \<Rightarrow> 'a res \<times> 's) \<Rightarrow> 's \<Rightarrow> 'a res res \<times> 's" where
  "attempt m = bindS (tryS m) (\<lambda>r.
     case r of Inl e \<Rightarrow> if is_panic e then failS e else returnS (Inl e) | Inr x \<Rightarrow> returnS (Inr x))"

section \<open>Events\<close>

text \<open>\<open>PublishSimple\<close>: an open bus hands the event to the tracker's handlers.\<close>

definition carry :: "event \<Rightarrow> int \<Rightarrow> ('s, 'w, unit) conn_step" where
  "carry e now s = (Inr (), s\<lparr>cn_events := cn_events s @ [e], cn_tracker := track_connection now e (cn_tracker s)\<rparr>)"

definition publish_event :: "('s, 'w) conn_env \<Rightarrow> string \<times> ev_metadata \<Rightarrow> ('s, 'w, unit) conn_step" where
  "publish_event env payload =
     bindS (draw (ce_uuid env)) (\<lambda>uuid. bindS (draw (ce_now env)) (\<lambda>created. bindS getS (\<lambda>s.
       if \<not> cn_open s then failS (PlainError ''event bus is closed'')
       else bindS (draw (ce_now env)) (carry (NewBaseEvent uuid created (fst payload) (snd payload))))))"

text \<open>\<open>ReportProgress\<close>, whose error is only logged.\<close>

definition conn_progress ::
  "('s, 'w) conn_env \<Rightarrow> string \<Rightarrow> string \<Rightarrow> string \<Rightarrow> rat \<Rightarrow> string \<Rightarrow> ('s, 'w, unit) conn_step" where
  "conn_progress env requestID peerID phase progress message =
     bindS (tryS (publish_event env (peer_connect_progress requestID peerID phase progress message None)))
       (\<lambda>_. returnS ())"

definition handleConnectionError :: "('s, 'w) conn_env \<Rightarrow> string \<Rightarrow> string \<Rightarrow> go_error \<Rightarrow> ('s, 'w, unit) conn_step" where
  "handleConnectionError env requestID phase e =
     bindS (tryS (publish_event env (peer_connect_failed requestID phase e))) (\<lambda>_. returnS ())"

section \<open>Requests\<close>

definition set_text :: "string option \<Rightarrow> bool" where
  "set_text t = (t \<noteq> None \<and> t \<noteq> Some [])"

definition validateConnectRequest :: "ConnectRequest \<Rightarrow> unit res" where
  "validateConnectRequest req =
     (let protocolName = (if set_text (cq_Protocol req) then the (cq_Protocol req) else ''wireguard'');
          i = (if set_text (cq_Identifier req) then the (cq_Identifier req)
               else if set_text (cq_PublicKey req) then the (cq_PublicKey req) else [])
      in if protocolName \<noteq> ''wireguard'' \<and> protocolName \<noteq> ''wg'' \<and> protocolName \<noteq> ''WireGuard'' then
           Inl (WithMetadata (NewDomainAPIError ErrCodeValidation
             ''unsupported protocol (only wireguard supported currently)'' False None) ''protocol'' (MString protocolName))
         else if i = [] \<and> \<not> cq_GenerateKeys req then
           Inl (NewDomainAPIError ErrCodeValidation ''identifier/public_key is required or generate_keys must be true'' False None)
         else if i \<noteq> [] \<and> \<not> IsValidWireGuardKey i then
           Inl (NewDomainAPIError ErrCodeValidation ''invalid WireGuard public key format'' False None)
         else Inr ())"

definition with_keys :: "('s, 'w) conn_env \<Rightarrow> ConnectRequest \<Rightarrow> ('s, 'w, ConnectRequest) conn_step" where
  "with_keys env req =
     (if cq_GenerateKeys req
      then bindS (draw (ce_random env)) (\<lambda>rnd.
             map_errS (\<lambda>e. if is_panic e then e
                           else NewSystemError ErrCodeInternal ''failed to generate key pair'' False (Some e))
               (bindS (liftS (GenerateKeyPair (ce_x25519 env) rnd)) (\<lambda>kp. returnS (req\<lparr>cq_PublicKey := Some (PublicKey kp)\<rparr>))))
      else returnS req)"

definition ConnectPeerAsync :: "('s, 'w) conn_env \<Rightarrow> ConnectRequest \<Rightarrow> ('s, 'w, string) conn_step" where
  "ConnectPeerAsync env req =
     bindS (draw (ce_uuid env)) (\<lambda>requestID.
     let protocolName = (if set_text (cq_Protocol req) then the (cq_Protocol req) else ''wireguard'');
         identifier = (if set_text (cq_Identifier req) then cq_Identifier req
                       else if set_text (cq_PublicKey req) then cq_PublicKey req else None)
     in bindS (with_keys env req) (\<lambda>req'.
        bindS (liftS (validateConnectRequest req')) (\<lambda>_.
        bindS (case identifier of
                 None \<Rightarrow> returnS False
               | Some i \<Rightarrow> bindS (tryS (in_db (peerSvc_GetByIdentifier protocolName i))) (\<lambda>r.
                   returnS (case r of Inr _ \<Rightarrow> True | Inl _ \<Rightarrow> False))) (\<lambda>exists.
        if exists then returnS requestID
        else bindS (map_errS (\<lambda>e. NewSystemError ErrCodeInternal ''failed to publish connect requested event'' True (Some e))
                      (publish_event env (peer_connect_requested requestID (cq_PublicKey req') (cq_GenerateKeys req'))))
               (\<lambda>_. returnS requestID)))))"

section \<open>Processing a request\<close>

definition active_nodes :: NodeFilters where
  "active_nodes = \<lparr>nf_Status = Some StatusActive, nf_ServerID = None, nf_IPAddress = None, nf_Limit = None, nf_Offset = None\<rparr>"

definition selectNodeWithProgress :: "('s, 'w) conn_env \<Rightarrow> string \<Rightarrow> ('s, 'w, Node) conn_step" where
  "selectNodeWithProgress env requestID =
     bindS (conn_progress env requestID [] ''selecting_node'' (1 / 10) ''Selecting optimal node'') (\<lambda>_.
     bindS (draw (ce_now env)) (\<lambda>nano.
     bindS (attempt (in_db (nodeSvc_SelectOptimalNode (ce_nodes env) nano active_nodes))) (\<lambda>r.
     case r of
       Inr n \<Rightarrow> returnS n
     | Inl e \<Rightarrow>
         if IsErrorCode (Some e) ErrCodeNodeNotFound \<or> IsErrorCode (Some e) ErrCodeNodeAtCapacity
         then bindS (tryS (publish_event env (provision_requested ''peer-connect'' ''no_capacity''))) (\<lambda>_.
                failS (WithMetadata (WithMetadata
                  (NewSystemError ErrCodeNodeNotReady
                     ''No active nodes available, provisioning requested. Please try again in a few minutes.'' True (Some e))
                  ''estimated_wait_sec'' (MInt 180)) ''retry_after_sec'' (MInt 90)))
         else failS (WrapWithDomain e DomainNode ErrCodeInternal ''failed to select node'' False))))"

text \<open>The record of the peer; an error releases the address, which only logs.\<close>

definition create_peer_record ::
  "('s, 'w) conn_env \<Rightarrow> Node \<Rightarrow> string \<Rightarrow> ip4 \<Rightarrow> ('s, 'w, Peer) conn_step" where
  "create_peer_record env n key ip =
     bindS (draw (ce_now env)) (\<lambda>nano.
     bindS (attempt (in_db (peerSvc_Create (nat nano)
       \<lparr>pq_NodeID = nd_ID n, pq_Protocol = [], pq_Identifier = [], pq_ProtocolConfig = None, pq_PublicKey = key,
        pq_AllocatedIP = print_ip ip, pq_PresharedKey = None\<rparr>))) (\<lambda>r.
     case r of
       Inr p \<Rightarrow> returnS p
     | Inl e \<Rightarrow> bindS (tryS (in_db (ReleaseClientIP (nd_ID n) ip))) (\<lambda>_.
         failS (WrapWithDomain e DomainPeer ErrCodePeerConflict ''failed to create peer'' False))))"

definition peer_protocol_config :: "Peer \<Rightarrow> ProtocolPeerConfig" where
  "peer_protocol_config p =
     \<lparr>ppc_Protocol = ''wireguard'', ppc_Identifier = (if pr_Identifier p = [] then pr_PublicKey p else pr_Identifier p),
      ppc_AllowedIPs = [pr_AllocatedIP p @ ''/32''], ppc_PresharedKey = pr_PresharedKey p\<rparr>"

text \<open>The peer on the node; an error removes the record again.\<close>

definition configure_peer :: "('s, 'w) conn_env \<Rightarrow> Node \<Rightarrow> Peer \<Rightarrow> ip4 \<Rightarrow> ('s, 'w, unit) conn_step" where
  "configure_peer env n p ip =
     bindS (attempt (on_hosts (protocol_AddPeer (ce_commands env) (ce_interactor env) (nd_IPAddress n)
                       (peer_protocol_config p)))) (\<lambda>r.
     case r of
       Inr _ \<Rightarrow> returnS ()
     | Inl e \<Rightarrow>
         bindS (attempt (in_db (peerSvc_Remove (pr_ID p)))) (\<lambda>_.
         bindS (tryS (in_db (ReleaseClientIP (nd_ID n) ip))) (\<lambda>_.
         failS (NewInfrastructureError ErrCodeSSHConnection ''failed to add peer to node infrastructure'' True (Some e)))))"

text \<open>\<open>if err != nil { handleConnectionError(\<dots>); return }\<close>, with the error that is reported.\<close>

definition or_report ::
  "('s, 'w) conn_env \<Rightarrow> string \<Rightarrow> string \<Rightarrow> (go_error \<Rightarrow> go_error) \<Rightarrow> ('s, 'w, 'a) conn_step
     \<Rightarrow> ('a \<Rightarrow> ('s, 'w, unit) conn_step) \<Rightarrow> ('s, 'w, unit) conn_step" where
  "or_report env requestID phase wrap m k =
     bindS (attempt m) (\<lambda>r. case r of
       Inl e \<Rightarrow> handleConnectionError env requestID phase (wrap e)
     | Inr x \<Rightarrow> k x)"

definition connected_data :: "Node \<Rightarrow> Peer \<Rightarrow> PeerConnectedData" where
  "connected_data n p =
     \<lparr>pcd_PeerID = pr_ID p, pcd_NodeID = nd_ID n, pcd_PublicKey = pr_PublicKey p, pcd_AllocatedIP = pr_AllocatedIP p,
      pcd_ServerPublicKey = nd_ServerPublicKey n, pcd_ServerIP = nd_IPAddress n, pcd_ServerPort = 51820,
      pcd_ClientPrivateKey = None\<rparr>"

definition report_connected :: "('s, 'w) conn_env \<Rightarrow> string \<Rightarrow> int \<Rightarrow> Node \<Rightarrow> Peer \<Rightarrow> ('s, 'w, unit) conn_step" where
  "report_connected env requestID start n p =
     bindS (conn_progress env requestID (pr_ID p) ''completed'' 1 ''Connection complete'') (\<lambda>_.
     bindS (draw (ce_now env)) (\<lambda>now.
     bindS (tryS (publish_event env (peer_connected requestID (connected_data n p) (now - start)))) (\<lambda>_. returnS ())))"

definition processConnectionRequest :: "('s, 'w) conn_env \<Rightarrow> string \<Rightarrow> string option \<Rightarrow> ('s, 'w, unit) conn_step" where
  "processConnectionRequest env requestID publicKey =
     bindS (draw (ce_now env)) (\<lambda>start.
     bindS (conn_progress env requestID [] ''initializing'' 0 ''Starting connection'') (\<lambda>_.
     or_report env requestID ''node_selection'' id (selectNodeWithProgress env requestID) (\<lambda>n.
     bindS (conn_progress env requestID [] ''validating_capacity'' (2 / 10) ''Validating node capacity'') (\<lambda>_.
     or_report env requestID ''capacity_validation''
       (\<lambda>e. WrapWithDomain e DomainNode ErrCodeNodeAtCapacity ''node capacity validation failed'' False)
       (in_db (nodeSvc_ValidateNodeCapacity (ce_nodes env) (nd_ID n) 1)) (\<lambda>_.
     bindS (conn_progress env requestID [] ''allocating_ip'' (4 / 10) ''Allocating IP address'') (\<lambda>_.
     or_report env requestID ''ip_allocation''
       (\<lambda>e. WrapWithDomain e DomainIP ErrCodeIPAllocation ''failed to allocate IP for peer'' True)
       (in_db (AllocateClientIP_db (nd_ID n))) (\<lambda>ip.
     bindS (conn_progress env requestID [] ''creating_peer'' (6 / 10) ''Creating peer record'') (\<lambda>_.
     case publicKey of
       None \<Rightarrow> failS (GoPanic ''nil pointer dereference'')
     | Some key \<Rightarrow>
         or_report env requestID ''peer_creation'' id (create_peer_record env n key ip) (\<lambda>p.
         bindS (conn_progress env requestID (pr_ID p) ''configuring_peer'' (8 / 10) ''Configuring peer on node'') (\<lambda>_.
         or_report env requestID ''peer_config'' id (configure_peer env n p ip) (\<lambda>_.
         report_connected env requestID start n p)))))))))))"

text \<open>The worker's handler: the request it starts to process in the background, if any.\<close>

definition connect_handler :: "event \<Rightarrow> (string \<times> string option) option" where
  "connect_handler e =
     (let requestID = meta_string (ev_meta e) ''request_id''; key = meta_string (ev_meta e) ''public_key''
      in if requestID = [] then None else Some (requestID, if key \<noteq> [] then Some key else None))"

section \<open>The other operations\<close>

definition DisconnectPeer :: "('s, 'w) conn_env \<Rightarrow> string \<Rightarrow> ('s, 'w, unit) conn_step" where
  "DisconnectPeer env peerID =
     bindS (in_db (peerSvc_Get peerID)) (\<lambda>p.
     bindS (attempt (in_db (nodeSvc_GetNode (pr_NodeID p)))) (\<lambda>r.
     bindS (case r of
              Inl _ \<Rightarrow> returnS ()
            | Inr n \<Rightarrow> bindS (attempt (on_hosts (protocol_RemovePeer (ce_commands env) (ce_interactor env) (nd_IPAddress n)
                         (if pr_Identifier p = [] then pr_PublicKey p else pr_Identifier p)))) (\<lambda>_. returnS ())) (\<lambda>_.
     bindS (case ParseIP (pr_AllocatedIP p) of
              None \<Rightarrow> returnS ()
            | Some ip \<Rightarrow> bindS (tryS (in_db (ReleaseClientIP (pr_NodeID p) ip))) (\<lambda>_. returnS ())) (\<lambda>_.
     map_errS (\<lambda>e. WrapWithDomain e DomainPeer ErrCodePeerConflict ''failed to remove peer from domain'' False)
       (in_db (peerSvc_Remove peerID))))))"

text \<open>\<open>ListPeers\<close>: \<open>int\<close> has 64 bits, so \<open>offset+limit\<close> wraps around; a slice whose bounds are not in
  order panics.\<close>

definition wrap64 :: "int \<Rightarrow> int" where
  "wrap64 x = (x + 2 ^ 63) mod 2 ^ 64 - 2 ^ 63"

definition slice :: "int \<Rightarrow> int \<Rightarrow> 'a list \<Rightarrow> 'a list res" where
  "slice start end xs =
     (if 0 \<le> start \<and> start \<le> end \<and> end \<le> int (length xs)
      then Inr (take (nat (end - start)) (drop (nat start) xs)) else Inl (GoPanic ''slice bounds out of range''))"

definition paginate :: "int option \<Rightarrow> int option \<Rightarrow> 'a list \<Rightarrow> ('a list \<times> int \<times> int) res" where
  "paginate offset limit xs =
     (let off = (case offset of Some k \<Rightarrow> k | None \<Rightarrow> 0);
          lim = (case limit of Some k \<Rightarrow> k | None \<Rightarrow> int (length xs))
      in bindr (slice (min off (int (length xs))) (min (wrap64 (off + lim)) (int (length xs))) xs)
           (\<lambda>ys. Inr (ys, off, lim)))"

definition peer_info :: "Peer \<Rightarrow> PeerInfo" where
  "peer_info p = \<lparr>pi_ID = pr_ID p, pi_NodeID = pr_NodeID p, pi_PublicKey = pr_PublicKey p,
     pi_AllocatedIP = pr_AllocatedIP p, pi_Status = pr_Status p, pi_CreatedAt = pr_CreatedAt p, pi_LastHandshakeAt = None\<rparr>"

definition conn_ListPeers :: "PeerListParams \<Rightarrow> Db \<Rightarrow> PeersListResponse res \<times> Db" where
  "conn_ListPeers params =
     bindS (peerSvc_List (Some \<lparr>pf_NodeID = None, pf_Status = Some PeerActive, pf_Limit = None, pf_Offset = None\<rparr>)) (\<lambda>ps.
     let filtered = (case lp_NodeID params of None \<Rightarrow> ps | Some i \<Rightarrow> filter (\<lambda>p. pr_NodeID p = i) ps)
     in bindS (liftS (paginate (lp_Offset params) (lp_Limit params) filtered)) (\<lambda>(ys, off, lim).
        returnS \<lparr>plr_Peers = map peer_info ys, plr_TotalCount = int (length filtered), plr_Offset = off, plr_Limit = lim\<rparr>))"

definition GetPeerStatus :: "string \<Rightarrow> Db \<Rightarrow> svc_PeerStatus res \<times> Db" where
  "GetPeerStatus peerID = bindS (peerSvc_Get peerID) (\<lambda>p. returnS
     \<lparr>sps_PeerID = pr_ID p, sps_PublicKey = pr_PublicKey p, sps_AllocatedIP = pr_AllocatedIP p, sps_Status = pr_Status p,
      sps_NodeID = pr_NodeID p, sps_ServerIP = [], sps_ServerStatus = [], sps_ConnectedAt = pr_CreatedAt p, sps_LastSeen = pr_UpdatedAt p\<rparr>)"

definition GetConnectionStatus :: "string \<Rightarrow> conn_tracker \<Rightarrow> PeerConnectionState res" where
  "GetConnectionStatus requestID t =
     (case GetConnectionState requestID t of
        None \<Rightarrow> Inl (WithMetadata (NewDomainAPIError ErrCodePeerNotFound ''connection request not found'' False None)
                  ''request_id'' (MString requestID))
      | Some st \<Rightarrow> Inr st)"

section \<open>Frames\<close>

definition db_of :: "(Db \<Rightarrow> Db \<Rightarrow> bool) \<Rightarrow> ('s, 'w) conn \<Rightarrow> ('s, 'w) conn \<Rightarrow> bool" where
  "db_of R s s' = (R (cn_db s) (cn_db s') \<and> cn_open s' = cn_open s)"

lemma db_of_order: "reflp R \<Longrightarrow> reflp (db_of R)" "transp R \<Longrightarrow> transp (db_of R)"
  by (auto simp: db_of_def reflp_def intro!: transpI dest: transpD)

lemma db_of_in_db: "stays R m \<Longrightarrow> stays (db_of R) (in_db m)"
  by (auto simp: stays_def db_of_def in_db_def split: prod.splits) (metis snd_conv)

lemma db_of_draw: "reflp R \<Longrightarrow> stays (db_of R) (draw f)"
  by (auto simp: stays_def db_of_def draw_def reflp_def split: prod.splits)

lemma db_of_hosts: "reflp R \<Longrightarrow> stays (db_of R) (on_hosts m)"
  by (auto simp: stays_def db_of_def on_hosts_def reflp_def split: prod.splits)

lemma db_of_publish: "reflp R \<Longrightarrow> transp R \<Longrightarrow> stays (db_of R) (publish_event env p)"
  unfolding publish_event_def using db_of_order [of R]
  by (auto intro!: stays_bindS stays_pure db_of_draw) (auto simp: stays_def carry_def db_of_def reflp_def)

lemma stays_attempt: "reflp R \<Longrightarrow> transp R \<Longrightarrow> stays R m \<Longrightarrow> stays R (attempt m)"
  unfolding attempt_def by (auto intro!: stays_bindS stays_tryS stays_pure split: sum.splits)

lemma db_of_reports:
  assumes "reflp R" "transp R"
  shows "stays (db_of R) (conn_progress env i j ph x msg)" "stays (db_of R) (handleConnectionError env i ph e)"
  unfolding conn_progress_def handleConnectionError_def using db_of_order [of R] assms
  by (auto intro!: stays_bindS stays_tryS stays_pure db_of_publish)

text \<open>Errors of the modelled services are no panics.\<close>

definition calm :: "('s \<Rightarrow> 'a res \<times> 's) \<Rightarrow> bool" where
  "calm m = (\<forall>s e s'. m s = (Inl e, s') \<longrightarrow> \<not> is_panic e)"

lemma is_panic_simps [simp]:
  "\<not> is_panic (BaseError d c t r x md)" "\<not> is_panic (WrapError t e)" "is_panic (GoPanic t)"
  by (simp_all add: is_panic_def GoPanic_def)

lemma calm_bindS: "calm m \<Longrightarrow> (\<And>x. calm (f x)) \<Longrightarrow> calm (bindS m f)"
  unfolding calm_def bindS_Inl_iff by blast

lemma calm_bindS_value: "calm m \<Longrightarrow> (\<And>s x s'. m s = (Inr x, s') \<Longrightarrow> calm (f x)) \<Longrightarrow> calm (bindS m f)"
  unfolding calm_def bindS_Inl_iff by blast

lemma calm_pure: "calm (returnS x)" "calm getS" "calm (tryS m)" "\<not> is_panic e \<Longrightarrow> calm (failS e)"
  "calm (liftS r) \<longleftrightarrow> (\<forall>e. r = Inl e \<longrightarrow> \<not> is_panic e)"
  by (auto simp: calm_def)

lemma calm_map_errS: "(\<And>e. \<not> is_panic (g e)) \<Longrightarrow> calm (map_errS g m)"
  by (auto simp: calm_def map_errS_Inl_iff)

lemma calm_lifted: "calm m \<Longrightarrow> calm (in_db m)" "calm h \<Longrightarrow> calm (on_hosts h)" "calm (draw f)"
proof -
  show "calm m \<Longrightarrow> calm (in_db m)" "calm (draw f)"
    by (auto simp: calm_def in_db_def draw_def split: prod.splits)
  assume h: "calm h"
  show "calm (on_hosts h)"
    unfolding calm_def
  proof (intro allI impI)
    fix s e s' assume run: "on_hosts h s = (Inl e, s')"
    obtain r h' where r: "h (cn_hosts s) = (r, h')" by (metis surj_pair)
    then have "r = Inl e" using run by (simp add: on_hosts_def)
    then show "\<not> is_panic e" using h r unfolding calm_def by blast
  qed
qed

lemma attempt_calm:
  assumes "calm m" shows "attempt m = tryS m"
proof
  fix s
  obtain r s' where "m s = (r, s')" by (metis surj_pair)
  then show "attempt m s = tryS m s" using assms by (auto simp: attempt_def bindS_def tryS_def calm_def split: sum.splits)
qed

lemma filter_available_keep: "set (fst (filter_available cfg ns d)) \<subseteq> set ns \<and> keep_tables d (snd (filter_available cfg ns d))"
proof (induction cfg ns d rule: filter_available.induct)
  case (2 cfg n ns d)
  obtain r d1 where r: "nodeSvc_ValidateNodeCapacity cfg (nd_ID n) 1 d = (r, d1)" by (metis surj_pair)
  obtain q d0 where q: "nodeRepo_GetByID (nd_ID n) d = (q, d0)" by (metis surj_pair)
  have "keep_tables d d0" using nodeRepo_GetByID_result [OF q] by blast
  then have "keep_tables d d1" using r by (auto simp: nodeSvc_ValidateNodeCapacity_def q split: sum.splits if_splits)
  then show ?case using 2 [OF r [symmetric]] keep_tables_trans
    by (auto simp: r split: prod.splits sum.splits)
qed simp

lemma capacity_keep: "stays keep_tables (nodeSvc_ValidateNodeCapacity cfg i k)"
  unfolding stays_def
proof
  fix d
  obtain q d0 where q: "nodeRepo_GetByID i d = (q, d0)" by (metis surj_pair)
  have "keep_tables d d0" using nodeRepo_GetByID_result [OF q] by blast
  then show "keep_tables d (snd (nodeSvc_ValidateNodeCapacity cfg i k d))"
    by (auto simp: nodeSvc_ValidateNodeCapacity_def q split: sum.splits)
qed

lemma store_error_calm [simp]: "\<not> is_panic (found_or m f e)" "\<not> is_panic (db_error f e)"
  "\<not> is_panic (WrapWithDomain e dmn code msg rt)" "\<not> is_panic (peer_db_error f e)"
  by (simp_all add: found_or_def db_error_def WrapWithDomain_def)

lemma nodeRepo_calm: "calm (nodeRepo_GetByID i)" "calm (nodeRepo_List f)"
  by (auto simp: calm_def nodeRepo_GetByID_def nodeRepo_List_def split: prod.splits sum.splits)

lemma capacity_calm: "calm (nodeSvc_ValidateNodeCapacity cfg i k)"
  unfolding calm_def
proof (intro allI impI)
  fix d e d' assume run: "nodeSvc_ValidateNodeCapacity cfg i k d = (Inl e, d')"
  obtain q d0 where q: "nodeRepo_GetByID i d = (q, d0)" by (metis surj_pair)
  have "q = Inl e' \<Longrightarrow> \<not> is_panic e'" for e' using nodeRepo_calm(1) [of i] q unfolding calm_def by blast
  moreover have "Node_ValidateCapacity k m n = Inl e' \<Longrightarrow> \<not> is_panic e'" for m n e'
    by (auto simp: Node_ValidateCapacity_def split: if_splits)
  ultimately show "\<not> is_panic e"
    using run by (auto simp: nodeSvc_ValidateNodeCapacity_def q split: sum.splits if_splits)
qed

lemma select_calm: "calm (nodeSvc_SelectOptimalNode cfg nano f)"
  unfolding calm_def
proof (intro allI impI)
  fix d e d' assume run: "nodeSvc_SelectOptimalNode cfg nano f d = (Inl e, d')"
  obtain q d0 where q: "nodeRepo_List (f\<lparr>nf_Status := Some StatusActive\<rparr>) d = (q, d0)" by (metis surj_pair)
  have qe: "\<not> is_panic e'" if "q = Inl e'" for e' using nodeRepo_calm(2) q that unfolding calm_def by blast
  have sel: "selectLeastLoadedNode ns = None \<longleftrightarrow> ns = []" "selectRoundRobinNode nano ns = None \<longleftrightarrow> ns = []"
    "selectRandomNode nano ns = None \<longleftrightarrow> ns = []" for ns
    by (simp_all add: selectLeastLoadedNode_def selectRoundRobinNode_def selectRandomNode_def split: list.splits)
  show "\<not> is_panic e"
  proof (cases q)
    case (Inl e')
    then show ?thesis using run qe by (simp add: nodeSvc_SelectOptimalNode_def q)
  next
    case (Inr ns)
    obtain as d2 where fa: "filter_available cfg ns d0 = (as, d2)" by (metis surj_pair)
    show ?thesis
      using run sel [of as]
      by (cases "ns = []"; cases "as = []") (auto simp: nodeSvc_SelectOptimalNode_def q Inr fa Let_def split: option.splits if_splits)
  qed
qed

lemma select_keep: "stays keep_tables (nodeSvc_SelectOptimalNode cfg nano f)"
  unfolding stays_def
proof
  fix d
  obtain q d0 where q: "nodeRepo_List (f\<lparr>nf_Status := Some StatusActive\<rparr>) d = (q, d0)" by (metis surj_pair)
  have k: "keep_tables d d0"
    using q by (auto simp: nodeRepo_List_def GetNodesByStatus_def split: prod.splits sum.splits)
      (metis select_keeps(2) snd_conv)+
  have "keep_tables d0 d2" if "filter_available cfg ns d0 = (as, d2)" for ns as d2
    using filter_available_keep [of cfg ns d0] that by simp
  then show "keep_tables d (snd (nodeSvc_SelectOptimalNode cfg nano f d))"
    using k keep_tables_trans
    by (auto simp: nodeSvc_SelectOptimalNode_def q Let_def split: sum.splits prod.splits option.splits)
qed

lemma peerSvc_calm: "calm (peerSvc_Remove i)" "calm (peerSvc_Get i)" "calm (peerSvc_GetByIdentifier pn i)"
  unfolding peerSvc_Remove_def peerSvc_Get_def peerSvc_GetByIdentifier_def peerRepo_Get_def peerRepo_Delete_def
    peerRepo_GetByPublicKey_def peerRepo_GetByIdentifier_def
  by (auto intro!: calm_bindS calm_map_errS calm_pure)

lemma alloc_calm: "calm (AllocateClientIP_db i)"
  unfolding calm_def
  by (auto simp: AllocateClientIP_def FindNextAvailableIP_def SubnetRequest_Validate_def validateNodeID_def
      split: prod.splits sum.splits if_splits option.splits)

lemma create_calm: "calm (peerSvc_Create nano req)"
proof -
  obtain v q where v: "PeerCreateRequest_Validate req = (v, q)" by fastforce
  have checks: "validatePeerNodeID a = Inl e \<Longrightarrow> \<not> is_panic e" "validatePublicKey a = Inl e \<Longrightarrow> \<not> is_panic e"
    "validatePresharedKey a = Inl e \<Longrightarrow> \<not> is_panic e" "validateIPAddress a = Inl e \<Longrightarrow> \<not> is_panic e" for a e
    by (auto simp: validatePeerNodeID_def validatePublicKey_def validatePresharedKey_def validateIPAddress_eq split: if_splits option.splits)
  have "v = Inl e \<Longrightarrow> \<not> is_panic e" for e
    using v checks unfolding PeerCreateRequest_Validate_def Let_def
    by (auto split: sum.splits if_splits option.splits simp: bindr_Inl_iff)
  then show ?thesis
    unfolding peerSvc_Create_def Let_def v peerRepo_Create_def
    by (cases v) (auto intro!: calm_bindS calm_map_errS calm_pure simp: WrapWithDomain_def)
qed

lemma calm_case: "calm (case x of None \<Rightarrow> a | Some y \<Rightarrow> b y) \<longleftrightarrow> (x = None \<longrightarrow> calm a) \<and> (\<forall>y. x = Some y \<longrightarrow> calm (b y))"
  "calm (case r of Inl e \<Rightarrow> f e | Inr z \<Rightarrow> g z) \<longleftrightarrow> (\<forall>e. r = Inl e \<longrightarrow> calm (f e)) \<and> (\<forall>z. r = Inr z \<longrightarrow> calm (g z))"
  by (auto split: option.splits sum.splits)

lemma addition_conflict_calm: "addition_conflict c ps = Some e \<Longrightarrow> \<not> is_panic e"
  by (induction c ps rule: addition_conflict.induct) (auto split: if_splits)

lemma AddPeer_calm:
  assumes "8 \<le> length (pwc_PublicKey c)"
  shows "calm (AddPeer env cfg host c)"
proof -
  have v: "validatePeerConfig c = Inl e \<Longrightarrow> \<not> is_panic e" for e
    by (auto simp: validatePeerConfig_def split: if_splits option.splits sum.splits)
  have "calm (ListPeers env cfg host)"
    unfolding ListPeers_def by (auto intro!: calm_bindS calm_map_errS calm_pure)
  then have "calm (validatePeerAddition env cfg host key)" for key
    unfolding validatePeerAddition_def by (auto intro!: calm_bindS calm_map_errS calm_pure)
  then have after: "\<not> is_panic e" if "fst (validatePeerAddition env cfg host key s) = Inl e" for key s e
    using that unfolding calm_def by (metis prod.collapse)
  have v': "calm (liftS (validatePeerConfig c))" using v by (simp add: calm_pure(5))
  show ?thesis
    using assms addition_conflict_calm
    unfolding AddPeer_def
    by (auto intro!: calm_bindS_value calm_map_errS calm_pure(1-4) v' split: option.splits sum.splits) (blast dest: after)+
qed

section \<open>Every request settles\<close>

definition placed_inv :: "NetworkConfig \<Rightarrow> IPNet \<Rightarrow> Db \<Rightarrow> bool" where
  "placed_inv c b d = (store_inv c b d \<and> peers_placed d)"

lemma placed_inv_keep: "keep_tables d d' \<Longrightarrow> placed_inv c b d \<Longrightarrow> placed_inv c b d'"
  using db_good_keep [of d d'] by (auto simp: placed_inv_def store_inv_def peers_placed_def keep_tables_def)

text \<open>What is left behind when a request fails, and what a success stores.\<close>

definition settled :: "string \<Rightarrow> ('s, 'w) conn \<Rightarrow> PeerConnectionState \<Rightarrow> bool" where
  "settled requestID s st = (GetConnectionState requestID (cn_tracker s) = Some st \<and> \<not> pcs_IsActive st)"

lemma publish_event_run:
  assumes "cn_open s"
  obtains s' now uuid created where "publish_event env p s = (Inr (), s')"
    "cn_tracker s' = track_connection now (NewBaseEvent uuid created (fst p) (snd p)) (cn_tracker s)"
    "cn_db s' = cn_db s" "cn_hosts s' = cn_hosts s" "cn_open s'"
proof -
  obtain u w1 where u: "ce_uuid env (cn_world s) = (u, w1)" by (metis surj_pair)
  obtain t w2 where t: "ce_now env w1 = (t, w2)" by (metis surj_pair)
  obtain n w3 where n: "ce_now env w2 = (n, w3)" by (metis surj_pair)
  let ?e = "NewBaseEvent u t (fst p) (snd p)"
  have "publish_event env p s = (Inr (), s\<lparr>cn_world := w3, cn_events := cn_events s @ [?e],
      cn_tracker := track_connection n ?e (cn_tracker s)\<rparr>)"
    using assms by (simp add: publish_event_def bindS_def draw_def u t n carry_def)
  then show thesis by (rule that) (simp_all add: assms)
qed

abbreviation never :: "go_error \<Rightarrow> 'a \<Rightarrow> bool" where
  "never e s \<equiv> False"

definition on_conn :: "(Db \<Rightarrow> bool) \<Rightarrow> ('s, 'w) conn \<Rightarrow> bool" where
  "on_conn P s = (P (cn_db s) \<and> cn_open s)"

lemma hoare_progress: "hoare (on_conn P) (conn_progress env i j ph x msg) (\<lambda>_. on_conn P) never"
proof (rule hoareI)
  fix s and u s'
  assume p: "on_conn P s" and run: "conn_progress env i j ph x msg s = (Inr u, s')"
  then have "cn_open s" by (simp add: on_conn_def)
  then obtain s1 where "publish_event env (peer_connect_progress i j ph x msg None) s = (Inr (), s1)"
    "cn_db s1 = cn_db s" "cn_open s1" by (rule publish_event_run)
  then show "on_conn P s'" using p run by (simp add: conn_progress_def bindS_def tryS_def on_conn_def)
next
  fix s and e s' assume "conn_progress env i j ph x msg s = (Inl e, s')"
  then show False by (simp add: conn_progress_def bindS_def)
qed

lemma hoare_draw: "hoare (on_conn P) (draw f) (\<lambda>_. on_conn P) never"
  by (rule hoareI) (auto simp: draw_def on_conn_def split: prod.splits)

lemma hoare_in_db:
  assumes "hoare P m Q E" shows "hoare (on_conn P) (in_db m) (\<lambda>x. on_conn (Q x)) (\<lambda>e. on_conn (E e))"
  using assms unfolding hoare_def in_db_def on_conn_def by (fastforce split: prod.splits sum.splits)

lemma hoare_hosts: "hoare (on_conn P) (on_hosts m) (\<lambda>_. on_conn P) (\<lambda>_. on_conn P)"
  by (rule hoareI) (auto simp: on_hosts_def on_conn_def split: prod.splits)

lemma hoare_return': "(\<And>s. P s \<Longrightarrow> Q x s) \<Longrightarrow> hoare P (returnS x) Q E"
  by (auto intro: hoareI)

lemma hoare_fail: "(\<And>s. P s \<Longrightarrow> E e s) \<Longrightarrow> hoare P (failS e) Q E"
  by (auto intro: hoareI)

text \<open>The end of a failed request.\<close>

lemma hoare_error:
  "hoare (on_conn P) (handleConnectionError env i ph e)
     (\<lambda>_ s. on_conn P s \<and> (\<exists>st. settled i s st \<and> pcs_Phase st = ph)) never"
proof (rule hoareI)
  fix s and u s'
  assume p: "on_conn P s" and run: "handleConnectionError env i ph e s = (Inr u, s')"
  then have "cn_open s" by (simp add: on_conn_def)
  then obtain s1 now uu cr where s1: "publish_event env (peer_connect_failed i ph e) s = (Inr (), s1)"
    "cn_tracker s1 = track_connection now (NewBaseEvent uu cr (fst (peer_connect_failed i ph e)) (snd (peer_connect_failed i ph e)))
       (cn_tracker s)"
    "cn_db s1 = cn_db s" "cn_open s1" by (rule publish_event_run)
  have "s' = s1" using run s1(1) by (simp add: handleConnectionError_def bindS_def tryS_def)
  obtain a b msg r md y where u: "UnpackError e = (a, b, msg, r, md, y)" by (metis surj_pair)
  have "\<exists>st. GetConnectionState i (cn_tracker s1) = Some st \<and> \<not> pcs_IsActive st \<and> pcs_Phase st = ph"
    unfolding s1(2) by (simp add: track_connection_def peer_connect_failed_def u NewBaseEvent_def handleConnectFailed_def
        Let_def GetConnectionState_def map_of_update_alist)
  then show "on_conn P s' \<and> (\<exists>st. settled i s' st \<and> pcs_Phase st = ph)"
    using p s1(3,4) by (auto simp: \<open>s' = s1\<close> on_conn_def settled_def)
next
  fix s and e' s' assume "handleConnectionError env i ph e s = (Inl e', s')"
  then show False by (simp add: handleConnectionError_def bindS_def)
qed

lemma hoare_or_report:
  assumes "calm m" "hoare P m Q (\<lambda>_. on_conn F)" "\<And>x. hoare (Q x) (k x) R never"
    and "\<And>s st. on_conn F s \<Longrightarrow> settled i s st \<Longrightarrow> pcs_Phase st = ph \<Longrightarrow> R () s"
  shows "hoare P (or_report env i ph wrap m k) R never"
  unfolding or_report_def attempt_calm [OF assms(1)]
proof (rule hoare_bind)
  show "hoare P (tryS m) (\<lambda>r s. case r of Inr x \<Rightarrow> Q x s | Inl e \<Rightarrow> on_conn F s) never"
    by (rule hoare_tryS) (simp add: assms(2))
  fix r
  show "hoare (\<lambda>s. case r of Inl e \<Rightarrow> on_conn F s | Inr x \<Rightarrow> Q x s)
      (case r of Inl e \<Rightarrow> handleConnectionError env i ph (wrap e) | Inr x \<Rightarrow> k x) R never"
  proof (cases r)
    case (Inl e)
    then show ?thesis using assms(4) by (auto intro: hoare_weaken [OF hoare_error [of F]])
  next
    case (Inr x)
    then show ?thesis by (simp add: assms(3))
  qed
qed

lemma hoare_connected:
  "hoare (on_conn P) (report_connected env i start n p)
     (\<lambda>_ s. on_conn P s \<and> (\<exists>st. settled i s st \<and> pcs_Phase st = ''completed'' \<and> pcs_PeerID st = pr_ID p \<and>
        pcs_NodeID st = nd_ID n \<and> pcs_AllocatedIP st = pr_AllocatedIP p \<and> pcs_ServerPort st = 51820 \<and>
        pcs_ClientPrivateKey st = None)) never"
  (is "hoare _ _ ?Q _")
  unfolding report_connected_def
proof (rule hoare_bind [OF hoare_progress], rule hoare_bind [OF hoare_draw])
  fix now
  show "hoare (on_conn P) (bindS (tryS (publish_event env (peer_connected i (connected_data n p) (now - start))))
      (\<lambda>_. returnS ())) ?Q never"
  proof (rule hoareI)
    fix s and u s'
    assume p: "on_conn P s" and run: "bindS (tryS (publish_event env (peer_connected i (connected_data n p) (now - start))))
      (\<lambda>_. returnS ()) s = (Inr u, s')"
    let ?p = "peer_connected i (connected_data n p) (now - start)"
    have "cn_open s" using p by (simp add: on_conn_def)
    then obtain s1 t uu cr where s1: "publish_event env ?p s = (Inr (), s1)"
      "cn_tracker s1 = track_connection t (NewBaseEvent uu cr (fst ?p) (snd ?p)) (cn_tracker s)"
      "cn_db s1 = cn_db s" "cn_open s1" by (rule publish_event_run)
    have "s' = s1" using run s1(1) by (simp add: bindS_def tryS_def)
    then show "?Q u s'"
      using p s1(3,4)
      by (simp add: on_conn_def settled_def s1(2) track_connection_def peer_connected_def NewBaseEvent_def
          handleConnected_def Let_def GetConnectionState_def map_of_update_alist connected_data_def)
  next
    fix s and e s'
    assume "bindS (tryS (publish_event env (peer_connected i (connected_data n p) (now - start)))) (\<lambda>_. returnS ()) s = (Inl e, s')"
    then show False by (simp add: bindS_def)
  qed
qed

section \<open>The steps of a request\<close>

lemma hoare_keeps:
  "stays (db_of keep_tables) m \<Longrightarrow> hoare (on_conn (keep_tables d0)) m (\<lambda>_. on_conn (keep_tables d0)) (\<lambda>_. on_conn (keep_tables d0))"
  by (erule hoare_stays) (auto simp: on_conn_def db_of_def intro: keep_tables_trans)

lemma keeps_reports:
  "stays (db_of keep_tables) (conn_progress env i j ph x msg)" "stays (db_of keep_tables) (publish_event env p)"
  "stays (db_of keep_tables) (draw f)"
  using keep_tables_order by (auto intro: db_of_reports(1) db_of_publish db_of_draw)

lemma selectNode_keeps: "stays (db_of keep_tables) (selectNodeWithProgress env i)"
  unfolding selectNodeWithProgress_def using db_of_order [of keep_tables] keep_tables_order
  by (intro stays_bindS) (auto intro!: keeps_reports stays_bindS stays_attempt stays_tryS stays_pure db_of_in_db select_keep
      split: sum.splits)

lemma publish_progress_calm: "calm (conn_progress env i j ph x msg)"
  unfolding conn_progress_def by (intro calm_bindS calm_pure)

lemma attempt_bindS_calm:
  "calm m \<Longrightarrow> (\<And>e. calm (f e)) \<Longrightarrow> (\<And>x. calm (g x)) \<Longrightarrow>
     calm (bindS (attempt m) (\<lambda>r. case r of Inl e \<Rightarrow> f e | Inr x \<Rightarrow> g x))"
  by (auto simp: attempt_calm intro!: calm_bindS calm_pure split: sum.splits)

lemma selectNode_calm: "calm (selectNodeWithProgress env i)"
  unfolding selectNodeWithProgress_def attempt_calm [OF calm_lifted(1) [OF select_calm]]
  by (intro calm_bindS publish_progress_calm calm_lifted(3) calm_pure(3))
    (auto intro!: calm_pure calm_bindS simp: is_panic_def NewSystemError_def WrapWithDomain_def split: sum.splits)

lemma create_record_calm: "calm (create_peer_record env n key ip)"
  unfolding create_peer_record_def
  by (intro calm_bindS calm_lifted(3) attempt_bindS_calm calm_lifted(1) create_calm calm_pure store_error_calm)

lemma alloc_keep: "stays keep_tables (AllocateClientIP_db i)"
proof -
  have ips: "stays keep_tables (repo_GetAllocatedIPs i)"
    unfolding stays_def
  proof
    fix d
    obtain q d1 where q: "GetAllocatedIPsByNode i d = (q, d1)" by (metis surj_pair)
    then have "keep_tables d d1" using staysD [OF stays_select(2)] unfolding GetAllocatedIPsByNode_def by blast
    then show "keep_tables d (snd (repo_GetAllocatedIPs i d))"
      by (auto simp: repo_GetAllocatedIPs_def q split: sum.splits)
  qed
  have get: "stays keep_tables (repo_GetSubnet i)"
    unfolding stays_def using repo_GetSubnet_result by (metis prod.collapse)
  show ?thesis
    unfolding stays_def
  proof
    fix d
    obtain r1 d1 where r1: "repo_GetSubnet i d = (r1, d1)" by (metis surj_pair)
    obtain r2 d2 where r2: "repo_GetAllocatedIPs i d1 = (r2, d2)" by (metis surj_pair)
    have "keep_tables d d1" "keep_tables d1 d2" using staysD [OF get r1] staysD [OF ips r2] by auto
    then show "keep_tables d (snd (AllocateClientIP_db i d))"
      using keep_tables_trans by (auto simp: AllocateClientIP_def r1 r2 split: sum.splits)
  qed
qed

text \<open>The address that was allocated, the row that was stored, and what a failure may leave.\<close>

definition free_on :: "Db \<Rightarrow> string \<Rightarrow> string \<Rightarrow> bool" where
  "free_on d0 nodeID text = (text \<notin> p_allocated_ip ` set (peers d0) \<and>
     (\<exists>sn a. db_view d0 nodeID = Some sn \<and> text = print_ip a \<and> net_contains (sn_Network sn) a \<and> a \<noteq> sn_Gateway sn))"

definition row_added :: "Db \<Rightarrow> PeerRow \<Rightarrow> Db \<Rightarrow> bool" where
  "row_added d0 row d = (nodes d = nodes d0 \<and> subnets d = subnets d0 \<and> peers d = peers d0 @ [row] \<and>
     free_on d0 (p_node_id row) (p_allocated_ip row))"

definition stored_for :: "NetworkConfig \<Rightarrow> IPNet \<Rightarrow> Db \<Rightarrow> Node \<Rightarrow> Peer \<Rightarrow> Db \<Rightarrow> bool" where
  "stored_for c b d0 n p d = (placed_inv c b d \<and> 8 \<le> length (pr_Identifier p) \<and> pr_ID p \<noteq> [] \<and>
     (\<exists>row. row_added d0 row d \<and> p_status row = PeerActive \<and> p_id row = pr_ID p \<and> p_node_id row = nd_ID n \<and>
        p_allocated_ip row = pr_AllocatedIP p))"

definition at_most_one_row :: "Db \<Rightarrow> Db \<Rightarrow> bool" where
  "at_most_one_row d0 d = (nodes d = nodes d0 \<and> subnets d = subnets d0 \<and>
     (peers d = peers d0 \<or> (\<exists>row. peers d = peers d0 @ [row] \<and> free_on d0 (p_node_id row) (p_allocated_ip row))))"

lemma hoare_alloc:
  assumes "placed_inv c b d0"
  shows "hoare (on_conn (keep_tables d0)) (in_db (AllocateClientIP_db i))
    (\<lambda>a. on_conn (\<lambda>d. keep_tables d0 d \<and> free_on d0 i (print_ip a))) (\<lambda>_. on_conn (keep_tables d0))"
proof (rule hoare_in_db, rule hoareI)
  fix d a d' assume k: "keep_tables d0 d" and run: "AllocateClientIP_db i d = (Inr a, d')"
  have "placed_inv c b d" by (rule placed_inv_keep [OF k assms])
  then have "print_ip a \<notin> p_allocated_ip ` set (peers d) \<and> keep_tables d d' \<and>
      (\<exists>s. db_view d i = Some s \<and> net_contains (sn_Network s) a \<and> a \<noteq> sn_Gateway s)"
    by (intro AllocateClientIP_fresh [OF _ _ _ run]) (auto simp: placed_inv_def store_inv_def)
  moreover have "db_view d = db_view d0" "peers d = peers d0"
    using assms k db_good_keep [OF k] by (auto simp: placed_inv_def store_inv_def keep_tables_def)
  ultimately show "keep_tables d0 d' \<and> free_on d0 i (print_ip a)"
    using k keep_tables_trans by (auto simp: free_on_def)
next
  fix d e d' assume "keep_tables d0 d" "AllocateClientIP_db i d = (Inl e, d')"
  then show "keep_tables d0 d'" using staysD [OF alloc_keep] keep_tables_trans by blast
qed

lemma peerSvc_Create_fields:
  assumes "peerSvc_Create nano req d = (Inr p, d')" shows "pr_AllocatedIP p = pq_AllocatedIP req \<and> pr_ID p \<noteq> []"
  using assms by (rule peerSvc_Create_Inr)
    (auto simp: generatePeerID_def dest!: NewPeerGeneric_Inr PeerCreateRequest_Validate_ok)

lemma placed_inv_add:
  assumes inv: "placed_inv c b d0" and row: "row_added d0 row d" and ok: "db_ok d"
  shows "placed_inv c b d"
proof -
  have view: "db_view d = db_view d0" using row by (auto simp: row_added_def db_view_def)
  moreover have "db_good d" using inv row ok by (auto simp: placed_inv_def store_inv_def db_good_def row_added_def)
  moreover have "peers_placed d"
    using inv row view by (auto simp: placed_inv_def peers_placed_def row_added_def free_on_def)
  ultimately show ?thesis using inv by (simp add: placed_inv_def store_inv_def)
qed

lemma create_record_db:
  assumes inv: "placed_inv c b d0" and k: "keep_tables d0 d" and free: "free_on d0 (nd_ID n) text"
    and run: "peerSvc_Create nano \<lparr>pq_NodeID = nd_ID n, pq_Protocol = [], pq_Identifier = [], pq_ProtocolConfig = None,
        pq_PublicKey = key, pq_AllocatedIP = text, pq_PresharedKey = None\<rparr> d = (Inr p, d')"
  shows "stored_for c b d0 n p d'"
proof -
  let ?q = "PeerCreateRequest_normalise \<lparr>pq_NodeID = nd_ID n, pq_Protocol = [], pq_Identifier = [], pq_ProtocolConfig = None,
        pq_PublicKey = key, pq_AllocatedIP = text, pq_PresharedKey = None\<rparr>"
  have "is_wireguard_name (pq_Protocol ?q)"
    by (simp add: PeerCreateRequest_normalise_def Let_def trim_space_def is_wireguard_name_def)
  then have key: "IsValidWireGuardKey (pr_Identifier p)"
    using peerSvc_Create_row [OF run] unfolding Let_def by simp
  obtain row where row: "nodes d' = nodes d" "subnets d' = subnets d" "peers d' = peers d @ [row]" "p_id row = pr_ID p"
    "p_status row = PeerActive" "p_node_id row = nd_ID n" "p_allocated_ip row = text" "db_ok d \<longrightarrow> db_ok d'"
    using peerSvc_Create_row [OF run] unfolding Let_def by auto
  have "pr_AllocatedIP p = text" "pr_ID p \<noteq> []" using peerSvc_Create_fields [OF run] by simp_all
  moreover have added: "row_added d0 row d'" using row k free by (simp add: row_added_def keep_tables_def)
  moreover have "db_ok d'"
    using row(8) placed_inv_keep [OF k inv] by (simp add: placed_inv_def store_inv_def db_good_def)
  ultimately show ?thesis
    using row placed_inv_add [OF inv added] key
    by (auto simp: stored_for_def IsValidWireGuardKey_def split: if_splits)
qed

lemma hoare_create:
  assumes "placed_inv c b d0"
  shows "hoare (on_conn (\<lambda>d. keep_tables d0 d \<and> free_on d0 (nd_ID n) (print_ip ip))) (create_peer_record env n key ip)
    (\<lambda>p. on_conn (stored_for c b d0 n p)) (\<lambda>_. on_conn (keep_tables d0))"
  unfolding create_peer_record_def attempt_calm [OF calm_lifted(1) [OF create_calm]]
proof (rule hoare_bind [OF hoare_weaken [OF hoare_draw]], assumption, assumption, simp)
  fix nano
  let ?m = "peerSvc_Create (nat nano) \<lparr>pq_NodeID = nd_ID n, pq_Protocol = [], pq_Identifier = [],
    pq_ProtocolConfig = None, pq_PublicKey = key, pq_AllocatedIP = print_ip ip, pq_PresharedKey = None\<rparr>"
  let ?fail = "\<lambda>e. bindS (tryS (in_db (ReleaseClientIP (nd_ID n) ip)))
      (\<lambda>_. failS (WrapWithDomain e DomainPeer ErrCodePeerConflict ''failed to create peer'' False))"
  show "hoare (on_conn (\<lambda>d. keep_tables d0 d \<and> free_on d0 (nd_ID n) (print_ip ip)))
     (bindS (tryS (in_db ?m)) (\<lambda>r. case r of Inl e \<Rightarrow> ?fail e | Inr p \<Rightarrow> returnS p))
     (\<lambda>p. on_conn (stored_for c b d0 n p)) (\<lambda>_. on_conn (keep_tables d0))"
  proof (rule hoare_bind [OF hoare_tryS])
    have made: "stored_for c b d0 n p d'"
      if "keep_tables d0 d \<and> free_on d0 (nd_ID n) (print_ip ip)" "?m d = (Inr p, d')" for d p d'
      using that create_record_db [OF assms] by blast
    have failed: "keep_tables d0 d'" if "keep_tables d0 d \<and> free_on d0 (nd_ID n) (print_ip ip)" "?m d = (Inl e, d')" for d e d'
      using that clean_failD [OF peerSvc_Create_clean] keep_tables_trans by blast
    show "hoare (on_conn (\<lambda>d. keep_tables d0 d \<and> free_on d0 (nd_ID n) (print_ip ip))) (in_db ?m)
      (\<lambda>x. case Inr x of Inl e \<Rightarrow> on_conn (keep_tables d0) | Inr p \<Rightarrow> on_conn (stored_for c b d0 n p))
      (\<lambda>e. case Inl e of Inl e \<Rightarrow> on_conn (keep_tables d0) | Inr p \<Rightarrow> on_conn (stored_for c b d0 n p))"
      unfolding sum.case by (intro hoare_in_db hoareI made failed)
    have "stays (db_of keep_tables) (?fail e)" for e
      using db_of_order [of keep_tables] keep_tables_order
      by (intro stays_bindS stays_tryS stays_pure db_of_in_db) (auto simp: stays_def ReleaseClientIP_def)
    then have err: "hoare (on_conn (keep_tables d0)) (?fail e) Q (\<lambda>_. on_conn (keep_tables d0))" for e Q
      using hoare_keeps [of "?fail e" d0] by (auto simp: hoare_def bindS_def split: prod.splits sum.splits)
    show "hoare (case r of Inl e \<Rightarrow> on_conn (keep_tables d0) | Inr p \<Rightarrow> on_conn (stored_for c b d0 n p))
        (case r of Inl e \<Rightarrow> ?fail e | Inr p \<Rightarrow> returnS p) (\<lambda>p. on_conn (stored_for c b d0 n p))
        (\<lambda>_. on_conn (keep_tables d0))" for r
      by (cases r) (simp_all add: err hoare_return')
  qed
qed

lemma configure_calm:
  assumes "8 \<le> length (pr_Identifier p)" shows "calm (configure_peer env n p ip)"
proof -
  have "calm (on_hosts (protocol_AddPeer (ce_commands env) (ce_interactor env) (nd_IPAddress n) (peer_protocol_config p)))"
    using assms unfolding protocol_AddPeer_def
    by (intro calm_lifted AddPeer_calm) (auto simp: peer_protocol_config_def to_wireguard_config_def)
  then show ?thesis
    unfolding configure_peer_def
    by (intro attempt_bindS_calm calm_pure calm_bindS)
      (auto simp: attempt_calm calm_lifted peerSvc_calm calm_pure NewInfrastructureError_def)
qed

lemma remove_placed:
  assumes "placed_inv c b d" "peerSvc_Remove i d = (r, d')" shows "placed_inv c b d'"
proof -
  have "shrinks d d'" "keeps_inv c b d d'"
    using staysD [OF shrinking.remove assms(2)] staysD [OF cleaning.remove assms(2)] .
  moreover have "db_view d' = db_view d"
    using peerSvc_Remove_outcome [OF assms(2)] by (simp add: db_view_def fun_eq_iff)
  ultimately show ?thesis
    using assms(1) unfolding placed_inv_def keeps_inv_def peers_placed_def shrinks_def by (metis (no_types))
qed

lemma remove_leaves:
  assumes stored: "stored_for c b d0 n p d" and run: "peerSvc_Remove (pr_ID p) d = (r, d')"
  shows "placed_inv c b d' \<and> at_most_one_row d0 d'"
proof -
  obtain row where row: "row_added d0 row d" "p_id row = pr_ID p" using stored by (auto simp: stored_for_def)
  have inv: "placed_inv c b d" using stored by (simp add: stored_for_def)
  then have "distinct (map p_id (peers d))"
    by (simp add: placed_inv_def store_inv_def db_good_def db_ok_def peers_ok_def)
  then have new: "pr_ID p \<notin> p_id ` set (peers d0)" using row by (auto simp: row_added_def)
  have rest: "filter (\<lambda>q. p_id q \<noteq> pr_ID p) (peers d0) = peers d0"
    "map (\<lambda>q. if p_id q = pr_ID p then (g q) else q) (peers d0) = peers d0" for g
    using new by (force intro!: filter_True map_idI)+
  note out = peerSvc_Remove_outcome [OF run]
  have "at_most_one_row d0 d'"
  proof (cases r)
    case (Inr u)
    then show ?thesis using out row rest(1) by (simp add: at_most_one_row_def row_added_def)
  next
    case (Inl e)
    then consider "keep_tables d d'" | "peer_changed (pr_ID p) (\<lambda>p. p\<lparr>p_status := PeerRemoving\<rparr>) d d'"
      using out by auto
    then show ?thesis
      using row rest(2) by cases (auto simp: at_most_one_row_def row_added_def keep_tables_def peer_changed_def)
  qed
  then show ?thesis using remove_placed [OF inv run] by simp
qed

lemma stored_leaves: "stored_for c b d0 n p d \<Longrightarrow> placed_inv c b d \<and> at_most_one_row d0 d"
  by (auto simp: stored_for_def at_most_one_row_def row_added_def)

lemma hoare_attempt: "hoare P m (\<lambda>_. P) (\<lambda>_. P) \<Longrightarrow> hoare P (attempt m) (\<lambda>_. P) (\<lambda>_. P)"
  unfolding attempt_def
  by (rule hoare_bind [where Q = "\<lambda>_. P"], rule hoare_tryS, assumption) (auto simp: hoare_def split: sum.splits)

lemma hoare_requires: "(\<And>s. P s \<Longrightarrow> l) \<Longrightarrow> (l \<Longrightarrow> hoare P m Q E) \<Longrightarrow> hoare P m Q E"
  by (cases l) (auto simp: hoare_def)

lemma hoare_configure:
  "hoare (on_conn (stored_for c b d0 n p)) (configure_peer env n p ip) (\<lambda>_. on_conn (stored_for c b d0 n p))
     (\<lambda>_. on_conn (\<lambda>d. placed_inv c b d \<and> at_most_one_row d0 d))"
  (is "hoare (on_conn ?S) _ _ (\<lambda>_. on_conn ?L)")
proof -
  let ?undo = "\<lambda>e. bindS (tryS (in_db (peerSvc_Remove (pr_ID p)))) (\<lambda>_.
     bindS (tryS (in_db (ReleaseClientIP (nd_ID n) ip))) (\<lambda>_.
       failS (NewInfrastructureError ErrCodeSSHConnection ''failed to add peer to node infrastructure'' True (Some e))))"
  have undo: "hoare (on_conn ?S) (?undo e) (\<lambda>_. on_conn ?S) (\<lambda>_. on_conn ?L)" for e
  proof (rule hoare_bind [OF hoare_tryS], rule hoare_in_db, rule hoareI)
    fix d x d' assume "?S d" "peerSvc_Remove (pr_ID p) d = (Inr x, d')"
    then show "?L d'" by (rule remove_leaves)
  next
    fix d e d' assume "?S d" "peerSvc_Remove (pr_ID p) d = (Inl e, d')"
    then show "?L d'" by (rule remove_leaves)
  next
    fix x
    show "hoare (on_conn ?L) (bindS (tryS (in_db (ReleaseClientIP (nd_ID n) ip))) (\<lambda>_.
       failS (NewInfrastructureError ErrCodeSSHConnection ''failed to add peer to node infrastructure'' True (Some e))))
       (\<lambda>_. on_conn ?S) (\<lambda>_. on_conn ?L)"
      by (auto simp: hoare_def bindS_def tryS_def in_db_def ReleaseClientIP_def on_conn_def)
  qed
  show ?thesis
    unfolding configure_peer_def attempt_calm [OF calm_lifted(1) [OF peerSvc_calm(1)]]
  proof (rule hoare_bind)
    show "hoare (on_conn ?S) (attempt (on_hosts (protocol_AddPeer (ce_commands env) (ce_interactor env) (nd_IPAddress n)
        (peer_protocol_config p)))) (\<lambda>_. on_conn ?S) (\<lambda>_. on_conn ?L)"
      by (rule hoare_weaken [OF hoare_attempt [OF hoare_hosts [of ?S]]]) (auto simp: on_conn_def stored_leaves)
    show "hoare (on_conn ?S) (case r of Inl e \<Rightarrow> ?undo e | Inr x \<Rightarrow> returnS ()) (\<lambda>_. on_conn ?S) (\<lambda>_. on_conn ?L)" for r
    proof (cases r)
      case (Inl e)
      show ?thesis unfolding Inl sum.case by (rule undo)
    next
      case (Inr x)
      show ?thesis unfolding Inr sum.case by (rule hoare_return')
    qed
  qed
qed

text \<open>The outcome of a request: the peer is stored and reported, or the failure is reported with its phase.\<close>

definition request_done :: "NetworkConfig \<Rightarrow> IPNet \<Rightarrow> Db \<Rightarrow> string \<Rightarrow> unit \<Rightarrow> ('s, 'w) conn \<Rightarrow> bool" where
  "request_done c b d0 requestID u s' = (placed_inv c b (cn_db s') \<and> (\<exists>st. settled requestID s' st \<and> pcs_Phase st \<noteq> ''failed'' \<and>
     (if pcs_Phase st = ''completed''
      then \<exists>row. row_added d0 row (cn_db s') \<and> p_status row = PeerActive \<and> pcs_PeerID st = p_id row \<and>
             pcs_NodeID st = p_node_id row \<and> pcs_AllocatedIP st = p_allocated_ip row \<and> pcs_PeerID st \<noteq> [] \<and>
             pcs_ServerPort st = 51820 \<and> pcs_ClientPrivateKey st = None
      else at_most_one_row d0 (cn_db s') \<and> (pcs_Phase st \<noteq> ''peer_config'' \<longrightarrow> peers (cn_db s') = peers d0))))"

lemma request_failed:
  assumes "placed_inv c b d0" "keep_tables d0 (cn_db s)" "settled i s st" "pcs_Phase st \<noteq> ''completed''"
    "pcs_Phase st \<noteq> ''failed''"
  shows "request_done c b d0 i u s"
  using assms(3-5) placed_inv_keep [OF assms(2,1)] assms(2)
  unfolding request_done_def at_most_one_row_def keep_tables_def by auto

lemma hoare_request:
  assumes inv: "placed_inv c b d0"
  shows "hoare (on_conn (keep_tables d0)) (processConnectionRequest env i (Some key)) (request_done c b d0 i) never"
proof -
  let ?K = "on_conn (keep_tables d0)" and ?R = "request_done c b d0 i"
  note keep = hoare_keeps [OF selectNode_keeps, of d0 env i]
    hoare_keeps [OF db_of_in_db [OF capacity_keep], of d0 "ce_nodes env" _ 1]
  have failed: "?R () s" if "?K s" "settled i s st" "pcs_Phase st = ph" "ph \<noteq> ''completed''" "ph \<noteq> ''failed''" for s st ph
    using request_failed [OF inv _ that(2)] that by (auto simp: on_conn_def)
  have config: "hoare (on_conn (stored_for c b d0 n p)) (or_report env i ''peer_config'' id (configure_peer env n p ip)
      (\<lambda>_. report_connected env i start n p)) ?R never" if l: "8 \<le> length (pr_Identifier p)" for n p ip start
  proof (rule hoare_or_report [OF configure_calm [OF l] hoare_configure])
    fix x show "hoare (on_conn (stored_for c b d0 n p)) (report_connected env i start n p) ?R never"
    proof (rule hoare_weaken [OF hoare_connected [of "stored_for c b d0 n p"]])
      fix u s assume "on_conn (stored_for c b d0 n p) s \<and> (\<exists>st. settled i s st \<and> pcs_Phase st = ''completed'' \<and>
        pcs_PeerID st = pr_ID p \<and> pcs_NodeID st = nd_ID n \<and> pcs_AllocatedIP st = pr_AllocatedIP p \<and>
        pcs_ServerPort st = 51820 \<and> pcs_ClientPrivateKey st = None)"
      then obtain st row where st: "placed_inv c b (cn_db s)" "settled i s st" "pcs_Phase st = ''completed''"
        "row_added d0 row (cn_db s)" "p_status row = PeerActive" "pcs_PeerID st = p_id row"
        "pcs_NodeID st = p_node_id row" "pcs_AllocatedIP st = p_allocated_ip row" "pcs_PeerID st \<noteq> []"
        "pcs_ServerPort st = 51820" "pcs_ClientPrivateKey st = None"
        by (auto simp: on_conn_def stored_for_def)
      then have "\<exists>row. row_added d0 row (cn_db s) \<and> p_status row = PeerActive \<and> pcs_PeerID st = p_id row \<and>
           pcs_NodeID st = p_node_id row \<and> pcs_AllocatedIP st = p_allocated_ip row \<and> pcs_PeerID st \<noteq> [] \<and>
           pcs_ServerPort st = 51820 \<and> pcs_ClientPrivateKey st = None"
        by (intro exI [of _ row]) simp
      with st show "?R u s" unfolding request_done_def by (intro conjI exI [of _ st]) simp_all
    qed
  next
    fix s st assume "on_conn (\<lambda>d. placed_inv c b d \<and> at_most_one_row d0 d) s" "settled i s st"
      "pcs_Phase st = ''peer_config''"
    then show "?R () s" by (auto simp: request_done_def on_conn_def)
  qed
  show ?thesis
    unfolding processConnectionRequest_def option.case
  proof (intro hoare_bind [OF hoare_draw] hoare_bind [OF hoare_progress] hoare_or_report [OF selectNode_calm keep(1)]
      hoare_or_report [OF calm_lifted(1) [OF capacity_calm] keep(2)]
      hoare_or_report [OF calm_lifted(1) [OF alloc_calm] hoare_alloc [OF inv]]
      hoare_or_report [OF create_record_calm hoare_create [OF inv]])
    fix n p ip start u v w x y z
    show "hoare (on_conn (stored_for c b d0 n p)) (or_report env i ''peer_config'' id (configure_peer env n p ip)
      (\<lambda>_. report_connected env i start n p)) ?R never"
      by (rule hoare_requires [where l = "8 \<le> length (pr_Identifier p)"]) (simp add: on_conn_def stored_for_def, rule config)
  qed (auto intro: failed)
qed

lemma request_settles:
  assumes "placed_inv c b (cn_db s)" "cn_open s"
  shows "\<exists>s'. processConnectionRequest env requestID (Some key) s = (Inr (), s') \<and> request_done c b (cn_db s) requestID () s'"
proof -
  obtain r s' where run: "processConnectionRequest env requestID (Some key) s = (r, s')" by (metis surj_pair)
  have pre: "on_conn (keep_tables (cn_db s)) s" using assms(2) by (simp add: on_conn_def)
  note triple = hoare_request [OF assms(1), of env requestID key]
  have "r = Inr ()" using hoareD(2) [OF triple pre] run by (cases r) auto
  then show ?thesis using hoareD(1) [OF triple pre] run by simp
qed

section \<open>Properties\<close>


definition example_conn_env :: "(nat, nat) conn_env" where
  "example_conn_env = \<lparr>ce_now = (\<lambda>w. (int w, Suc w)), ce_uuid = (\<lambda>w. (''request'', Suc w)), ce_random = Pair None,
     ce_x25519 = Some, ce_commands = demo_env, ce_interactor = demo_cfg, ce_nodes = default_service_config\<rparr>"

definition example_conn :: "Db \<Rightarrow> (nat, nat) conn" where
  "example_conn d = \<lparr>cn_db = d, cn_hosts = (Map.empty, 0), cn_tracker = [], cn_events = [], cn_open = True, cn_world = 0\<rparr>"


text \<open>A request for a peer that already exists is answered with a request identifier that the tracker has
  never heard of: no event is published, and asking for the status of the request is an error.\<close>

theorem existing_peer_untracked:
  assumes uuid: "ce_uuid env (cn_world s) = (i, w)" and new: "GetConnectionState i (cn_tracker s) = None"
    and keys: "\<not> cq_GenerateKeys req" "cq_Identifier req = None" "cq_PublicKey req = Some key" "cq_Protocol req = None"
    and valid: "IsValidWireGuardKey key" and known: "peerSvc_GetByIdentifier ''wireguard'' key (cn_db s) = (Inr p, d')"
  shows "\<exists>s'. ConnectPeerAsync env req s = (Inr i, s') \<and> cn_events s' = cn_events s \<and>
    (\<exists>e. GetConnectionStatus i (cn_tracker s') = Inl e \<and> GetErrorCode e = ErrCodePeerNotFound)"
proof -
  have "key \<noteq> []" using valid by (auto simp: IsValidWireGuardKey_def)
  then have ok: "validateConnectRequest req = Inr ()"
    using keys valid by (simp add: validateConnectRequest_def set_text_def Let_def)
  have "ConnectPeerAsync env req s = (Inr i, s\<lparr>cn_world := w, cn_db := d'\<rparr>)"
    using keys \<open>key \<noteq> []\<close> ok known
    by (simp add: ConnectPeerAsync_def bindS_def draw_def uuid with_keys_def set_text_def Let_def in_db_def tryS_def)
  then show ?thesis using new by (simp add: GetConnectionStatus_def)
qed

text \<open>A run that ends in a last step after steps that keep a relation, or in an error before it.\<close>

definition ends_in :: "('s \<Rightarrow> 's \<Rightarrow> bool) \<Rightarrow> ('s \<Rightarrow> 'a res \<times> 's) \<Rightarrow> ('s \<Rightarrow> 'a res \<times> 's) \<Rightarrow> bool" where
  "ends_in R m final = (\<forall>s. \<exists>s1. R s s1 \<and> ((\<exists>e. m s = (Inl e, s1)) \<or> m s = final s1))"

lemma ends_in_last: "reflp R \<Longrightarrow> ends_in R m m"
  by (auto simp: ends_in_def reflp_def)

lemma ends_in_bindS:
  assumes "transp R" "stays R m" "\<And>x. ends_in R (f x) final" shows "ends_in R (bindS m f) final"
  unfolding ends_in_def
proof
  fix s
  obtain r s1 where run: "m s = (r, s1)" by (metis surj_pair)
  then have step: "R s s1" using staysD [OF assms(2)] by blast
  show "\<exists>s2. R s s2 \<and> ((\<exists>e. bindS m f s = (Inl e, s2)) \<or> bindS m f s = final s2)"
  proof (cases r)
    case (Inl e)
    then show ?thesis using step run by (auto simp: bindS_def)
  next
    case (Inr x)
    obtain s2 where s2: "R s1 s2" "(\<exists>e. f x s1 = (Inl e, s2)) \<or> f x s1 = final s2"
      using assms(3) unfolding ends_in_def by blast
    have "bindS m f s = f x s1" using run Inr by (simp add: bindS_def)
    moreover have "R s s2" by (rule transpD [OF assms(1) step s2(1)])
    ultimately show ?thesis using s2(2) by metis
  qed
qed

definition quiet_on :: "('s, 'w) conn \<Rightarrow> ('s, 'w) conn \<Rightarrow> bool" where
  "quiet_on s s' = (keep_tables (cn_db s) (cn_db s') \<and> cn_events s' = cn_events s)"

lemma quiet_on_order: "reflp quiet_on" "transp quiet_on"
  by (auto simp: quiet_on_def reflp_def intro!: transpI dest: keep_tables_trans)

lemma quiet_on_steps: "stays keep_tables m \<Longrightarrow> stays quiet_on (in_db m)" "stays quiet_on (on_hosts h)"
  by (auto simp: stays_def quiet_on_def in_db_def on_hosts_def split: prod.splits) (metis snd_conv)

lemma disconnect_ends:
  "ends_in quiet_on (DisconnectPeer env i)
     (map_errS (\<lambda>e. WrapWithDomain e DomainPeer ErrCodePeerConflict ''failed to remove peer from domain'' False)
        (in_db (peerSvc_Remove i)))"
proof -
  have "stays keep_tables (nodeSvc_GetNode j)" for j
    unfolding stays_def nodeSvc_GetNode_def using nodeRepo_GetByID_result by (metis prod.collapse)
  moreover have "stays keep_tables (peerSvc_Get i)" "stays keep_tables (ReleaseClientIP j a)" for j a
    unfolding peerSvc_Get_def by (auto intro!: keep_reads peerRepo_reads) (simp add: stays_def ReleaseClientIP_def)
  ultimately show ?thesis
    unfolding DisconnectPeer_def using quiet_on_order
    by (intro ends_in_bindS ends_in_last)
      (auto intro!: stays_bindS stays_attempt stays_tryS stays_pure quiet_on_steps split: sum.splits option.splits)
qed

text \<open>Disconnecting a peer, whatever the node answers and whichever statements fail: a success deletes
  exactly the peer's row, an error deletes none and at most marks that row as removing.\<close>

theorem disconnect_exact:
  assumes run: "DisconnectPeer env i s = (r, s')"
  shows "nodes (cn_db s') = nodes (cn_db s) \<and> subnets (cn_db s') = subnets (cn_db s) \<and> cn_events s' = cn_events s \<and>
    (case r of
       Inr _ \<Rightarrow> i \<in> p_id ` set (peers (cn_db s)) \<and> peers (cn_db s') = filter (\<lambda>p. p_id p \<noteq> i) (peers (cn_db s))
     | Inl _ \<Rightarrow> map p_id (peers (cn_db s')) = map p_id (peers (cn_db s)) \<and>
         filter (\<lambda>p. p_id p \<noteq> i) (peers (cn_db s')) = filter (\<lambda>p. p_id p \<noteq> i) (peers (cn_db s)))"
proof -
  obtain s1 where s1: "quiet_on s s1" "(\<exists>e. DisconnectPeer env i s = (Inl e, s1)) \<or> DisconnectPeer env i s =
      map_errS (\<lambda>e. WrapWithDomain e DomainPeer ErrCodePeerConflict ''failed to remove peer from domain'' False)
        (in_db (peerSvc_Remove i)) s1"
    using disconnect_ends unfolding ends_in_def by blast
  obtain q d where q: "peerSvc_Remove i (cn_db s1) = (q, d)" by (metis surj_pair)
  from s1(2) show ?thesis
  proof
    assume "\<exists>e. DisconnectPeer env i s = (Inl e, s1)"
    then show ?thesis using run s1(1) by (auto simp: quiet_on_def keep_tables_def)
  next
    assume final: "DisconnectPeer env i s =
      map_errS (\<lambda>e. WrapWithDomain e DomainPeer ErrCodePeerConflict ''failed to remove peer from domain'' False)
        (in_db (peerSvc_Remove i)) s1"
    have s': "s' = s1\<lparr>cn_db := d\<rparr>" "(\<exists>e. r = Inl e) \<longleftrightarrow> (\<exists>e. q = Inl e)"
      using run final q by (auto simp: in_db_def map_errS_def split: sum.splits)
    have rows: "map p_id (map (\<lambda>p. if p_id p = i then g p else p) ps) = map p_id ps"
      "filter (\<lambda>p. p_id p \<noteq> i) (map (\<lambda>p. if p_id p = i then g p else p) ps) = filter (\<lambda>p. p_id p \<noteq> i) ps"
      if "\<And>p. p_id (g p) = p_id p" for g ps
      using that by (induction ps) auto
    have quiet: "keep_tables (cn_db s) (cn_db s1)" "cn_events s1 = cn_events s" using s1(1) by (auto simp: quiet_on_def)
    show ?thesis
    proof (cases q)
      case (Inr u)
      then obtain u' where "r = Inr u'" using s'(2) by (cases r) auto
      then show ?thesis using peerSvc_Remove_outcome [OF q] quiet Inr by (simp add: s'(1) keep_tables_def)
    next
      case (Inl e)
      then obtain e' where "r = Inl e'" using s'(2) by (cases r) auto
      moreover have "keep_tables (cn_db s1) d \<or> peer_changed i (\<lambda>p. p\<lparr>p_status := PeerRemoving\<rparr>) (cn_db s1) d"
        using Inl peerSvc_Remove_outcome [OF q] by auto
      ultimately show ?thesis
        using quiet rows [of "\<lambda>r. r\<lparr>p_status := PeerRemoving, p_updated_at := clock (cn_db s1)\<rparr>" "peers (cn_db s)"]
        by (auto simp: s'(1) keep_tables_def peer_changed_def)
    qed
  qed
qed

theorem disconnect_exact_witness:
  "\<exists>r s'. DisconnectPeer example_conn_env ''peer_1'' (example_conn one_peer_db) = (r, s') \<and>
     nodes (cn_db s') = nodes one_peer_db \<and> subnets (cn_db s') = subnets one_peer_db"
proof -
  obtain r s' where run: "DisconnectPeer example_conn_env ''peer_1'' (example_conn one_peer_db) = (r, s')"
    by (metis surj_pair)
  from disconnect_exact [OF run] run show ?thesis by (auto simp: example_conn_def)
qed

text \<open>C40: the page of a listing: \<open>offset\<close> and \<open>limit\<close> select the usual slice as long as their sum fits into
  an \<open>int\<close>; a larger sum wraps around and the request panics, whatever the list.\<close>

theorem list_page_exact:
  assumes "0 \<le> k" "k < 2 ^ 63" "0 \<le> n" "n < 2 ^ 63" "length xs < 2 ^ 63"
  shows "paginate (Some k) (Some n) xs =
    (if k + n < 2 ^ 63 then Inr (take (nat n) (drop (nat k) xs), k, n)
     else Inl (GoPanic ''slice bounds out of range''))"
proof (cases "k + n < 2 ^ 63")
  case True
  then have w: "wrap64 (k + n) = k + n" using assms by (simp add: wrap64_def)
  have "take (nat (min (k + n) (int (length xs)) - min k (int (length xs)))) (drop (nat (min k (int (length xs)))) xs) =
      take (nat n) (drop (nat k) xs)"
    using assms(1,3) by (cases "k \<le> int (length xs)"; cases "k + n \<le> int (length xs)") auto
  then show ?thesis using True assms(1,3) by (simp add: paginate_def w slice_def)
next
  case False
  have "(k + n + 2 ^ 63) mod 2 ^ 64 = (k + n - 2 ^ 63 + 1 * 2 ^ 64) mod 2 ^ 64" by (simp add: algebra_simps)
  also have "\<dots> = k + n - 2 ^ 63"
    using False assms unfolding mod_mult_self1 by (intro mod_pos_pos_trivial) simp_all
  finally have "wrap64 (k + n) = k + n - 2 ^ 64" by (simp add: wrap64_def)
  then have "wrap64 (k + n) < 0" using assms by simp
  then show ?thesis using False assms(1) by (auto simp: paginate_def slice_def Let_def)
qed

theorem list_page_exact_witness:
  "paginate (Some 1) (Some 2) ''abcd'' = Inr (''bc'', 1, 2) \<and>
   paginate (Some (2 ^ 63 - 1)) (Some 1) ''a'' = Inl (GoPanic ''slice bounds out of range'')"
  using list_page_exact [of 1 2 "''abcd''"] list_page_exact [of "2 ^ 63 - 1" 1 "''a''"] by simp

definition known_peer_db :: Db where
  "known_peer_db = one_node_db\<lparr>peers := [\<lparr>p_id = ''peer_1'', p_node_id = ''node-1'', p_protocol = ''wireguard'',
     p_identifier = wg_key_example, p_protocol_config = None, p_public_key = Some wg_key_example, p_preshared_key = None,
     p_allocated_ip = ''10.8.0.2'', p_status = PeerActive, p_created_at = 0, p_updated_at = 0,
     p_last_handshake_at = None\<rparr>]\<rparr>"

lemma known_peer_found:
  "IsValidWireGuardKey wg_key_example"
  "\<exists>p d. peerSvc_GetByIdentifier ''wireguard'' wg_key_example known_peer_db = (Inr p, d)"
proof -
  show "IsValidWireGuardKey wg_key_example" unfolding wg_key_example_def by (rule valid_key_encode) simp
  have ne: "trim_space wg_key_example \<noteq> []" "trim_space ''wireguard'' \<noteq> []" unfolding wg_key_example_def by code_simp+
  have "GetPeerByIdentifier ''wireguard'' wg_key_example known_peer_db = (Inr (hd (peers known_peer_db)), known_peer_db)"
    by (simp add: GetPeerByIdentifier_def select_nofault one_node_db_facts known_peer_db_def)
  moreover have "wg_key_example \<noteq> []" using ne by (auto simp: trim_space_def)
  ultimately show "\<exists>p d. peerSvc_GetByIdentifier ''wireguard'' wg_key_example known_peer_db = (Inr p, d)"
    using ne by (simp add: peerSvc_GetByIdentifier_def is_wireguard_name_def peerRepo_GetByPublicKey_def
        peerRepo_GetByIdentifier_def bindS_def map_errS_def)
qed

theorem existing_peer_untracked_witness:
  "\<exists>s'. ConnectPeerAsync example_conn_env \<lparr>cq_Protocol = None, cq_Identifier = None, cq_PublicKey = Some wg_key_example,
     cq_GenerateKeys = False\<rparr> (example_conn known_peer_db) = (Inr ''request'', s') \<and>
     (\<exists>e. GetConnectionStatus ''request'' (cn_tracker s') = Inl e \<and> GetErrorCode e = ErrCodePeerNotFound)"
proof -
  obtain p d where "peerSvc_GetByIdentifier ''wireguard'' wg_key_example (cn_db (example_conn known_peer_db)) = (Inr p, d)"
    using known_peer_found(2) by (auto simp: example_conn_def)
  from existing_peer_untracked [OF _ _ _ _ _ _ known_peer_found(1) this, where env = example_conn_env and i = "''request''"
      and req = "\<lparr>cq_Protocol = None, cq_Identifier = None, cq_PublicKey = Some wg_key_example, cq_GenerateKeys = False\<rparr>"]
  show ?thesis by (auto simp: example_conn_env_def example_conn_def GetConnectionState_def)
qed

end
