(* ===== verification/Rotation.thy ===== *)
theory Rotation
  imports PeerConnect
begin

text \<open>
  Rotating nodes and migrating peers: \<open>internal/rotator/services/node_rotation_service.go\<close>, and the node
  orchestrator on top of it. The health check of a node and the cloud are parameters; counts that are only
  logged are left out.
\<close>

section \<open>Model\<close>

record NodeRotationInfo =
  ri_NodeID :: string
  ri_Reason :: string
  ri_Priority :: int
  ri_SystemLoad :: rat
  ri_MemoryUsage :: rat
  ri_DiskUsage :: rat
  ri_IsHealthy :: bool
  ri_PeerCount :: int

record RotationDecision =
  rd_NodesToRotate :: "NodeRotationInfo list"
  rd_Reason :: string
  rd_Timestamp :: int

record ('s, 'w) rotation_env =
  re_conn :: "('s, 'w) conn_env"
  re_health :: "string \<Rightarrow> 'w \<Rightarrow> NodeHealthStatus res \<times> 'w"
  re_destroy :: "string \<Rightarrow> 'w \<Rightarrow> unit res \<times> 'w"

text \<open>An operation of the node service that also talks to the outside world.\<close>

definition in_db_world :: "(Db \<times> 'w \<Rightarrow> 'a res \<times> (Db \<times> 'w)) \<Rightarrow> ('s, 'w, 'a) conn_step" where
  "in_db_world m s = (case m (cn_db s, cn_world s) of (r, (d, w)) \<Rightarrow> (r, s\<lparr>cn_db := d, cn_world := w\<rparr>))"

text \<open>Wrapping an error; a panic passes.\<close>

definition wrapped :: "(go_error \<Rightarrow> go_error) \<Rightarrow> ('s \<Rightarrow> 'a res \<times> 's) \<Rightarrow> 's \<Rightarrow> 'a res \<times> 's" where
  "wrapped f = map_errS (\<lambda>e. if is_panic e then e else f e)"

subsection \<open>Migrating peers\<close>

definition migrated_peer_config :: "Peer \<Rightarrow> ip4 \<Rightarrow> ProtocolPeerConfig" where
  "migrated_peer_config p ip = peer_protocol_config (p\<lparr>pr_AllocatedIP := print_ip ip\<rparr>)"

text \<open>What follows once the target knows the peer; all its errors are only logged.\<close>

definition leave_source :: "('s, 'w) conn_env \<Rightarrow> Peer \<Rightarrow> string \<Rightarrow> ('s, 'w, unit) conn_step" where
  "leave_source env p source =
     bindS (attempt (in_db (nodeSvc_GetNode source))) (\<lambda>r.
     bindS (case r of
              Inl _ \<Rightarrow> returnS ()
            | Inr n \<Rightarrow> bindS (attempt (on_hosts (protocol_RemovePeer (ce_commands env) (ce_interactor env) (nd_IPAddress n)
                         (if pr_Identifier p = [] then pr_PublicKey p else pr_Identifier p)))) (\<lambda>_. returnS ())) (\<lambda>_.
     case ParseIP (pr_AllocatedIP p) of
       None \<Rightarrow> returnS ()
     | Some ip \<Rightarrow> bindS (tryS (in_db (ReleaseClientIP source ip))) (\<lambda>_. returnS ())))"

definition migrateSinglePeer ::
  "('s, 'w) conn_env \<Rightarrow> Peer \<Rightarrow> string \<Rightarrow> string \<Rightarrow> ('s, 'w, unit) conn_step" where
  "migrateSinglePeer env p source target =
     bindS (wrapped (\<lambda>e. NewIPError ErrCodeIPAllocation ''failed to allocate IP for peer migration'' False (Some e))
              (in_db (AllocateClientIP_db target))) (\<lambda>ip.
     bindS (attempt (in_db (peerSvc_Migrate (pr_ID p) target (print_ip ip)))) (\<lambda>r.
     case r of
       Inl e \<Rightarrow> bindS (tryS (in_db (ReleaseClientIP target ip))) (\<lambda>_.
         failS (WrapWithDomain e DomainPeer ErrCodePeerConflict ''failed to migrate peer in domain'' False))
     | Inr _ \<Rightarrow>
         bindS (wrapped (\<lambda>e. WrapWithDomain e DomainNode ErrCodeNodeNotFound ''failed to get target node'' False)
                  (in_db (nodeSvc_GetNode target))) (\<lambda>n.
         bindS (wrapped (\<lambda>e. NewInfrastructureError ErrCodeSSHConnection ''failed to add peer to target node'' True (Some e))
                  (on_hosts (protocol_AddPeer (ce_commands env) (ce_interactor env) (nd_IPAddress n)
                     (migrated_peer_config p ip)))) (\<lambda>_.
         leave_source env p source))))"

text \<open>The loop of the two migrations: the errors, in order; the others succeeded.\<close>

fun migrate_all :: "('s, 'w) conn_env \<Rightarrow> string \<Rightarrow> string \<Rightarrow> Peer list \<Rightarrow> ('s, 'w, go_error list) conn_step" where
  "migrate_all env source target [] = returnS []"
| "migrate_all env source target (p # ps) =
     bindS (attempt (migrateSinglePeer env p source target)) (\<lambda>r.
     bindS (migrate_all env source target ps) (\<lambda>es.
     returnS (case r of Inl e \<Rightarrow> e # es | Inr _ \<Rightarrow> es)))"

text \<open>The peers of the source, once the target has room for them.\<close>

definition peers_to_migrate :: "('s, 'w) conn_env \<Rightarrow> string \<Rightarrow> string \<Rightarrow> ('s, 'w, Peer list) conn_step" where
  "peers_to_migrate env source target =
     bindS (wrapped (\<lambda>e. WrapWithDomain e DomainPeer ErrCodePeerNotFound ''failed to get peers from source node'' True)
              (in_db (peerSvc_GetActiveByNode source))) (\<lambda>ps.
     if ps = [] then returnS []
     else bindS (wrapped (\<lambda>e. WrapWithDomain e DomainNode ErrCodeNodeAtCapacity ''target node capacity validation failed'' False)
                   (in_db (nodeSvc_ValidateNodeCapacity (ce_nodes env) target (int (length ps))))) (\<lambda>_. returnS ps))"

definition MigratePeersFromNode :: "('s, 'w) conn_env \<Rightarrow> string \<Rightarrow> string \<Rightarrow> ('s, 'w, unit) conn_step" where
  "MigratePeersFromNode env source target =
     bindS (peers_to_migrate env source target) (\<lambda>ps. bindS (migrate_all env source target ps) (\<lambda>es.
     if es \<noteq> []
     then failS (NewSystemError ErrCodeInternal (''peer migration completed with '' @ dec (length es) @ '' errors'') False
            (Some (errors_Join es)))
     else returnS ()))"

definition migratePeersWithRollback :: "('s, 'w) conn_env \<Rightarrow> string \<Rightarrow> string \<Rightarrow> ('s, 'w, nat) conn_step" where
  "migratePeersWithRollback env source target =
     bindS (peers_to_migrate env source target) (\<lambda>ps. bindS (migrate_all env source target ps) (\<lambda>es.
     returnS (length ps - length es)))"

subsection \<open>The decision\<close>

text \<open>One threshold pair: the reason it adds and the priority it raises.\<close>

definition grade :: "rat \<Rightarrow> rat \<Rightarrow> rat \<Rightarrow> string \<Rightarrow> string \<Rightarrow> string list \<times> int \<Rightarrow> string list \<times> int" where
  "grade v critical high criticalText highText acc = (case acc of (reasons, priority) \<Rightarrow>
     if v > critical then (reasons @ [criticalText], if priority > 1 then 1 else priority)
     else if v > high then (reasons @ [highText], if priority > 2 then 2 else priority)
     else (reasons, priority))"

text \<open>\<open>fmt.Sprintf("%v", list)\<close>.\<close>

definition sprint_list :: "string list \<Rightarrow> string" where
  "sprint_list ss = ''['' @ str_join '' '' ss @ '']''"

definition analyzeNodeForRotation :: "string \<Rightarrow> NodeHealthStatus \<Rightarrow> int \<Rightarrow> NodeRotationInfo option" where
  "analyzeNodeForRotation nodeID h peerCount =
     (let a0 = (if \<not> nh_IsHealthy h then ([''unhealthy''], 1) else ([], 4));
          a1 = grade (nh_SystemLoad h) (9 / 10) (8 / 10) ''high system load'' ''elevated system load'' a0;
          a2 = grade (nh_MemoryUsage h) (95 / 100) (85 / 100) ''critical memory usage'' ''high memory usage'' a1;
          a3 = grade (nh_DiskUsage h) (95 / 100) (85 / 100) ''critical disk usage'' ''high disk usage'' a2;
          (reasons, priority) = (if nh_ResponseTime h > 5 * 10 ^ 9
             then (fst a3 @ [''slow response time''], if snd a3 > 2 then 2 else snd a3) else a3)
      in if reasons = [] then None
         else Some \<lparr>ri_NodeID = nodeID, ri_Reason = sprint_list reasons, ri_Priority = priority,
           ri_SystemLoad = nh_SystemLoad h, ri_MemoryUsage = nh_MemoryUsage h, ri_DiskUsage = nh_DiskUsage h,
           ri_IsHealthy = nh_IsHealthy h, ri_PeerCount = peerCount\<rparr>)"

text \<open>A node whose health is unknown is skipped; a count that fails is taken as zero.\<close>

fun analyze_nodes :: "('s, 'w) rotation_env \<Rightarrow> Node list \<Rightarrow> ('s, 'w, NodeRotationInfo list) conn_step" where
  "analyze_nodes env [] = returnS []"
| "analyze_nodes env (n # ns) =
     bindS (tryS (in_db_world (nodeSvc_CheckNodeHealth (re_health env) (nd_ID n)))) (\<lambda>r.
     case r of
       Inl _ \<Rightarrow> analyze_nodes env ns
     | Inr h \<Rightarrow>
         bindS (tryS (in_db (peerSvc_CountActiveByNode (nd_ID n)))) (\<lambda>c.
         bindS (analyze_nodes env ns) (\<lambda>rest.
         returnS (case analyzeNodeForRotation (nd_ID n) h (case c of Inl _ \<Rightarrow> 0 | Inr k \<Rightarrow> k) of
             None \<Rightarrow> rest | Some info \<Rightarrow> info # rest))))"

text \<open>The sort by exchange: the inner loop leaves at the outer position a node of least priority.\<close>

fun exchange_pass :: "NodeRotationInfo \<Rightarrow> NodeRotationInfo list \<Rightarrow> NodeRotationInfo \<times> NodeRotationInfo list" where
  "exchange_pass x [] = (x, [])"
| "exchange_pass x (y # ys) =
     (if ri_Priority x > ri_Priority y
      then (case exchange_pass y ys of (m, zs) \<Rightarrow> (m, x # zs))
      else (case exchange_pass x ys of (m, zs) \<Rightarrow> (m, y # zs)))"

lemma exchange_pass_length: "length (snd (exchange_pass x ys)) = length ys"
  by (induction x ys rule: exchange_pass.induct) (auto split: prod.splits)

function sort_by_priority :: "NodeRotationInfo list \<Rightarrow> NodeRotationInfo list" where
  "sort_by_priority [] = []"
| "sort_by_priority (x # xs) = (let p = exchange_pass x xs in fst p # sort_by_priority (snd p))"
  by pat_completeness auto
termination
  by (relation "measure length") (simp_all add: exchange_pass_length)

definition makeRotationDecision :: "('s, 'w) rotation_env \<Rightarrow> ('s, 'w, RotationDecision) conn_step" where
  "makeRotationDecision env =
     bindS (in_db list_active) (\<lambda>ns.
     if ns = [] then bindS (draw (ce_now (re_conn env))) (\<lambda>now.
       returnS \<lparr>rd_NodesToRotate = [], rd_Reason = ''no active nodes found'', rd_Timestamp = now\<rparr>)
     else bindS (analyze_nodes env ns) (\<lambda>infos. bindS (draw (ce_now (re_conn env))) (\<lambda>now.
       returnS \<lparr>rd_NodesToRotate = sort_by_priority infos,
         rd_Reason = (if infos = [] then ''healthy system''
           else ''rotation needed: '' @ sprint_list (map (\<lambda>i. ''node '' @ ri_NodeID i @ '': '' @ ri_Reason i) infos)),
         rd_Timestamp = now\<rparr>)))"

subsection \<open>Rotation\<close>

definition createReplacementNode :: "('s, 'w) rotation_env \<Rightarrow> NodeRotationInfo \<Rightarrow> ('s, 'w, Node) conn_step" where
  "createReplacementNode env info =
     bindS (tryS (publish_event (re_conn env) (provision_requested (''rotation-'' @ ri_NodeID info) ''rotation''))) (\<lambda>_.
     failS (NewSystemError ErrCodeProvisionInProgress
       ''provisioning requested via event bus, rotation will continue asynchronously'' False None))"

definition shouldDeferRotation :: bool where
  "shouldDeferRotation = False"

text \<open>One node: the errors it adds.\<close>

definition rotate_node :: "('s, 'w) rotation_env \<Rightarrow> NodeRotationInfo \<Rightarrow> ('s, 'w, go_error list) conn_step" where
  "rotate_node env info =
     bindS (attempt (createReplacementNode env info)) (\<lambda>r.
     case r of
       Inl e \<Rightarrow> returnS [e]
     | Inr n \<Rightarrow>
         bindS (attempt (migratePeersWithRollback (re_conn env) (ri_NodeID info) (nd_ID n))) (\<lambda>m.
         case m of
           Inl e \<Rightarrow> bindS (attempt (in_db_world (nodeSvc_DestroyNode (re_destroy env) (nd_ID n)))) (\<lambda>d.
             returnS (case d of Inl e' \<Rightarrow> [e, e'] | Inr _ \<Rightarrow> [e]))
         | Inr _ \<Rightarrow> bindS (attempt (in_db_world (nodeSvc_DestroyNode (re_destroy env) (ri_NodeID info)))) (\<lambda>d.
             returnS (case d of Inl e' \<Rightarrow> [e'] | Inr _ \<Rightarrow> []))))"

fun rotate_all :: "('s, 'w) rotation_env \<Rightarrow> NodeRotationInfo list \<Rightarrow> ('s, 'w, go_error list) conn_step" where
  "rotate_all env [] = returnS []"
| "rotate_all env (i # is) = bindS (rotate_node env i) (\<lambda>es. bindS (rotate_all env is) (\<lambda>fs. returnS (es @ fs)))"

definition RotateNodes :: "('s, 'w) rotation_env \<Rightarrow> ('s, 'w, unit) conn_step" where
  "RotateNodes env =
     bindS (map_errS (\<lambda>e. WrapWithDomain e DomainNode ErrCodeNodeNotFound ''failed to make rotation decision'' True)
              (makeRotationDecision env)) (\<lambda>decision.
     if rd_NodesToRotate decision = [] then returnS ()
     else if shouldDeferRotation then returnS ()
     else bindS (rotate_all env (rd_NodesToRotate decision)) (\<lambda>es.
       if es \<noteq> []
       then failS (NewSystemError ErrCodeInternal (''node rotation completed with '' @ dec (length es) @ '' errors'') False
              (Some (errors_Join es)))
       else returnS ()))"

subsection \<open>The orchestrator\<close>

text \<open>\<open>internal/rotator/orchestrator/node_orchestrator.go\<close> and the adapter of the scheduler. The status is made up
  of the nodes that are being provisioned; durations are nanoseconds.\<close>

record RotationStatus =
  rs_InProgress :: bool
  rs_LastRotation :: int
  rs_NodesRotated :: int
  rs_PeersMigrated :: int
  rs_RotationReason :: string
  rs_EstimatedComplete :: "int option"

definition orch_RotateNodes :: "('s, 'w) rotation_env \<Rightarrow> ('s, 'w, unit) conn_step" where
  "orch_RotateNodes env = RotateNodes env"

definition ForceRotation :: "('s, 'w) rotation_env \<Rightarrow> ('s, 'w, unit) conn_step" where
  "ForceRotation env = RotateNodes env"

definition GetRotationStatus :: "('s, 'w) rotation_env \<Rightarrow> ('s, 'w, RotationStatus) conn_step" where
  "GetRotationStatus env =
     bindS (map_errS (\<lambda>e. WrapWithDomain e DomainNode ErrCodeNodeNotFound ''failed to check provisioning nodes'' True)
              (in_db (nodeSvc_ListNodes (all_nodes\<lparr>nf_Status := Some StatusProvisioning\<rparr>)))) (\<lambda>ns.
     bindS (draw (ce_now (re_conn env))) (\<lambda>now.
     let status = \<lparr>rs_InProgress = (ns \<noteq> []), rs_LastRotation = now - 24 * 3600 * 10 ^ 9, rs_NodesRotated = 0,
           rs_PeersMigrated = 0, rs_RotationReason = [], rs_EstimatedComplete = None\<rparr>
     in if rs_InProgress status
        then bindS (draw (ce_now (re_conn env))) (\<lambda>later.
          returnS (status\<lparr>rs_RotationReason := ''rotation in progress'',
            rs_EstimatedComplete := Some (later + 10 * 60 * 10 ^ 9)\<rparr>))
        else returnS status))"

definition orch_MigratePeersFromNode :: "('s, 'w) rotation_env \<Rightarrow> string \<Rightarrow> string \<Rightarrow> ('s, 'w, unit) conn_step" where
  "orch_MigratePeersFromNode env source target = MigratePeersFromNode (re_conn env) source target"

definition sched_CleanupInactiveResources :: "('s, 'w) rotation_env \<Rightarrow> ('s, 'w, unit) conn_step" where
  "sched_CleanupInactiveResources env = in_db_world (CleanupInactiveResources (re_destroy env))"

section \<open>The decision\<close>

lemma exchange_pass_least:
  "exchange_pass x ys = (m, zs) \<Longrightarrow> mset (m # zs) = mset (x # ys) \<and> (\<forall>z\<in>set zs. ri_Priority m \<le> ri_Priority z)"
proof (induction x ys arbitrary: m zs rule: exchange_pass.induct)
  case (2 x y ys)
  define a b where "a = (if ri_Priority x > ri_Priority y then y else x)" and
    "b = (if ri_Priority x > ri_Priority y then x else y)"
  obtain m' zs' where p: "exchange_pass a ys = (m', zs')" by (metis surj_pair)
  have res: "m = m'" "zs = b # zs'" using 2(3) p by (auto simp: a_def b_def split: if_splits prod.splits)
  have IH: "mset (m' # zs') = mset (a # ys)" "\<forall>z\<in>set zs'. ri_Priority m' \<le> ri_Priority z"
    using 2(1) [of m' zs'] 2(2) [of m' zs'] p by (auto simp: a_def split: if_splits)
  have "ri_Priority m' \<le> ri_Priority a"
    using IH by (metis (no_types, lifting) dual_order.refl set_ConsD list.set_intros(1) set_mset_mset)
  then have "ri_Priority m' \<le> ri_Priority b" by (auto simp: a_def b_def split: if_splits)
  moreover have "mset (a # b # ys) = mset (x # y # ys)" by (auto simp: a_def b_def)
  ultimately show ?case using IH res by (auto simp: add_mset_commute)
qed simp

lemma sort_by_priority_sorts:
  "sorted (map ri_Priority (sort_by_priority is)) \<and> mset (sort_by_priority is) = mset is"
proof (induction "is" rule: sort_by_priority.induct)
  case (2 x xs)
  obtain m zs where p: "exchange_pass x xs = (m, zs)" by (metis surj_pair)
  have least: "mset (m # zs) = mset (x # xs)" "\<forall>z\<in>set zs. ri_Priority m \<le> ri_Priority z"
    using exchange_pass_least [OF p] by auto
  have IH: "sorted (map ri_Priority (sort_by_priority zs))" "mset (sort_by_priority zs) = mset zs"
    using 2 p by auto
  then have "set (sort_by_priority zs) = set zs" by (metis set_mset_mset)
  then show ?case using p least IH by auto
qed simp

text \<open>When a node is to be rotated, and how urgent it is.\<close>

definition critical_health :: "NodeHealthStatus \<Rightarrow> bool" where
  "critical_health h = (\<not> nh_IsHealthy h \<or> nh_SystemLoad h > 9 / 10 \<or> nh_MemoryUsage h > 95 / 100 \<or> nh_DiskUsage h > 95 / 100)"

definition poor_health :: "NodeHealthStatus \<Rightarrow> bool" where
  "poor_health h = (nh_SystemLoad h > 8 / 10 \<or> nh_MemoryUsage h > 85 / 100 \<or> nh_DiskUsage h > 85 / 100 \<or>
     nh_ResponseTime h > 5 * 10 ^ 9)"

definition grades :: "bool \<Rightarrow> bool \<Rightarrow> string list \<times> int \<Rightarrow> bool" where
  "grades crit poor acc = ((fst acc = [] \<longleftrightarrow> \<not> crit \<and> \<not> poor) \<and> snd acc = (if crit then 1 else if poor then 2 else 4))"

lemma grade_grades:
  "grades crit poor acc \<Longrightarrow> high \<le> critical \<Longrightarrow>
     grades (crit \<or> v > critical) (poor \<or> v > high) (grade v critical high a b acc)"
  by (cases acc) (auto simp: grades_def grade_def)

lemma analyze_spec:
  "case analyzeNodeForRotation i h k of
     None \<Rightarrow> \<not> critical_health h \<and> \<not> poor_health h
   | Some info \<Rightarrow> (critical_health h \<or> poor_health h) \<and> ri_NodeID info = i \<and> ri_PeerCount info = k \<and>
       ri_Priority info = (if critical_health h then 1 else 2)"
proof -
  define a0 where "a0 = (if \<not> nh_IsHealthy h then ([''unhealthy''], 1) else ([] :: string list, 4 :: int))"
  define a1 where "a1 = grade (nh_SystemLoad h) (9 / 10) (8 / 10) ''high system load'' ''elevated system load'' a0"
  define a2 where "a2 = grade (nh_MemoryUsage h) (95 / 100) (85 / 100) ''critical memory usage'' ''high memory usage'' a1"
  define a3 where "a3 = grade (nh_DiskUsage h) (95 / 100) (85 / 100) ''critical disk usage'' ''high disk usage'' a2"
  have g0: "grades (\<not> nh_IsHealthy h) False a0" by (simp add: grades_def a0_def)
  have g: "grades (((\<not> nh_IsHealthy h \<or> nh_SystemLoad h > 9 / 10) \<or> nh_MemoryUsage h > 95 / 100) \<or> nh_DiskUsage h > 95 / 100)
      (((False \<or> nh_SystemLoad h > 8 / 10) \<or> nh_MemoryUsage h > 85 / 100) \<or> nh_DiskUsage h > 85 / 100) a3"
    unfolding a3_def a2_def a1_def by (intro grade_grades g0) simp_all
  obtain rs p where a3: "a3 = (rs, p)" by (cases a3)
  show ?thesis
    unfolding analyzeNodeForRotation_def Let_def a0_def [symmetric] a1_def [symmetric] a2_def [symmetric] a3_def [symmetric]
    using g by (auto simp: a3 grades_def critical_health_def poor_health_def split: prod.splits)
qed

text \<open>A health check writes the status it finds to the node's row; peers, subnets and the set of nodes stay.\<close>

definition same_nodes :: "Db \<Rightarrow> Db \<Rightarrow> bool" where
  "same_nodes d d' = (peers d' = peers d \<and> subnets d' = subnets d \<and> node_ids d' = node_ids d)"

lemma same_nodes_intros: "keep_tables d d' \<Longrightarrow> same_nodes d d'" "only_node i d d' \<Longrightarrow> same_nodes d d'"
  "same_nodes a b \<Longrightarrow> same_nodes b c \<Longrightarrow> same_nodes a c" "same_nodes d d"
  by (auto simp: same_nodes_def keep_tables_def node_ids_def only_node_def)

lemma CheckNodeHealth_same: "stays (on_fst same_nodes) (nodeSvc_CheckNodeHealth check i)"
  unfolding stays_def
proof
  fix s :: "Db \<times> 'a"
  obtain d w where s: "s = (d, w)" by (cases s)
  obtain r d1 where r: "nodeRepo_GetByID i d = (r, d1)" by (metis surj_pair)
  then have 1: "same_nodes d d1" using nodeRepo_GetByID_result same_nodes_intros(1) by blast
  have upd: "same_nodes d1 (snd (nodeSvc_UpdateNodeStatus i st d1))" for st
  proof -
    obtain q d2 where q: "nodeRepo_GetByID i d1 = (q, d2)" by (metis surj_pair)
    then have 2: "same_nodes d1 d2" using nodeRepo_GetByID_result same_nodes_intros(1) by blast
    have "same_nodes d2 (snd (nodeRepo_Update n d2))" for n
      using nodeRepo_Update_result [of n d2] same_nodes_intros(2) by (metis prod.collapse)
    then show ?thesis using 2 same_nodes_intros(3) by (auto simp: nodeSvc_UpdateNodeStatus_def q split: sum.splits)
  qed
  show "on_fst same_nodes s (snd (nodeSvc_CheckNodeHealth check i s))"
    using 1 upd same_nodes_intros(3) [OF 1]
    by (auto simp: s nodeSvc_CheckNodeHealth_def r on_fst_def Let_def split: sum.splits prod.splits)
qed

text \<open>A step that publishes nothing and changes no more than a health check does.\<close>

definition asks :: "('s, 'w) conn \<Rightarrow> ('s, 'w) conn \<Rightarrow> bool" where
  "asks s s' = (same_nodes (cn_db s) (cn_db s') \<and> cn_hosts s' = cn_hosts s \<and> cn_tracker s' = cn_tracker s \<and>
     cn_events s' = cn_events s \<and> cn_open s' = cn_open s)"

lemma asks_order: "reflp asks" "transp asks"
  by (auto simp: asks_def reflp_def same_nodes_intros(4) intro!: transpI intro: same_nodes_intros(3))

lemma asks_steps: "stays keep_tables m \<Longrightarrow> stays asks (in_db m)" "stays asks (draw f)"
  "stays (on_fst same_nodes) h \<Longrightarrow> stays asks (in_db_world h)"
proof -
  show "stays asks (draw f)" by (auto simp: stays_def asks_def draw_def same_nodes_intros(4) split: prod.splits)
  show "stays asks (in_db m)" if "stays keep_tables m"
    using that same_nodes_intros(1) by (auto simp: stays_def asks_def in_db_def split: prod.splits) (metis snd_conv)
  show "stays asks (in_db_world h)" if "stays (on_fst same_nodes) h"
    using that by (auto simp: stays_def asks_def in_db_world_def on_fst_def split: prod.splits) (metis fst_conv snd_conv)
qed

lemma analyze_nodes_asks: "stays asks (analyze_nodes env ns)"
proof (induction ns)
  case Nil
  show ?case using asks_order(1) by (simp add: stays_def reflp_def)
next
  case (Cons n ns)
  show ?case unfolding analyze_nodes.simps
    by (intro stays_bindS asks_order stays_tryS asks_steps CheckNodeHealth_same)
      (auto intro!: stays_bindS stays_tryS stays_pure asks_order asks_steps cleanup_reads Cons split: sum.splits)
qed

lemma makeRotationDecision_asks: "stays asks (makeRotationDecision env)"
  unfolding makeRotationDecision_def
  by (auto intro!: stays_bindS stays_tryS stays_pure asks_order asks_steps cleanup_reads analyze_nodes_asks)

text \<open>Every node that is listed was active and seen in poor health.\<close>

definition to_rotate :: "('s, 'w) rotation_env \<Rightarrow> string set \<Rightarrow> NodeRotationInfo \<Rightarrow> bool" where
  "to_rotate env active info = (ri_NodeID info \<in> active \<and> (\<exists>address w h w'.
     re_health env address w = (Inr h, w') \<and> (critical_health h \<or> poor_health h) \<and>
     ri_Priority info = (if critical_health h then 1 else 2)))"

lemma CheckNodeHealth_Inr:
  "nodeSvc_CheckNodeHealth check i s = (Inr h, s') \<Longrightarrow> \<exists>address w w'. check address w = (Inr h, w')"
  by (auto simp: nodeSvc_CheckNodeHealth_def Let_def split: prod.splits sum.splits)

lemma analyze_nodes_sound:
  assumes "analyze_nodes env ns s = (Inr infos, s')"
  shows "\<forall>info\<in>set infos. to_rotate env (nd_ID ` set ns) info"
  using assms
proof (induction ns arbitrary: s infos s')
  case (Cons n ns)
  obtain r s1 where r: "in_db_world (nodeSvc_CheckNodeHealth (re_health env) (nd_ID n)) s = (r, s1)" by (metis surj_pair)
  have mono: "to_rotate env (nd_ID ` set ns) x \<Longrightarrow> to_rotate env (nd_ID ` set (n # ns)) x" for x
    by (auto simp: to_rotate_def)
  show ?case
  proof (cases r)
    case (Inl e)
    then have "analyze_nodes env ns s1 = (Inr infos, s')" using Cons.prems r by (simp add: bindS_def tryS_def)
    then show ?thesis using Cons.IH mono by blast
  next
    case (Inr h)
    obtain address w w' where h: "re_health env address w = (Inr h, w')"
      using r Inr CheckNodeHealth_Inr by (fastforce simp: in_db_world_def split: prod.splits)
    obtain c s2 where c: "in_db (peerSvc_CountActiveByNode (nd_ID n)) s1 = (c, s2)" by (metis surj_pair)
    obtain rest s3 where rest: "analyze_nodes env ns s2 = (Inr rest, s3)"
      "infos = (case analyzeNodeForRotation (nd_ID n) h (case c of Inl _ \<Rightarrow> 0 | Inr k \<Rightarrow> k) of None \<Rightarrow> rest | Some i \<Rightarrow> i # rest)"
      using Cons.prems r Inr c by (auto simp: bindS_def tryS_def split: sum.splits prod.splits)
    have "to_rotate env (nd_ID ` set (n # ns)) i" if "analyzeNodeForRotation (nd_ID n) h k = Some i" for i k
      using analyze_spec [where i = "nd_ID n" and h = h and k = k] that h by (auto simp: to_rotate_def)
    then show ?thesis using Cons.IH [OF rest(1)] mono rest(2) by (auto split: option.splits)
  qed
qed simp

section \<open>Rotating\<close>

text \<open>An error, and at most one event, a provisioning request.\<close>

definition requests :: "('s, 'w) conn \<Rightarrow> ('s, 'w) conn \<Rightarrow> nat \<Rightarrow> bool" where
  "requests s s' k = (same_nodes (cn_db s) (cn_db s') \<and> cn_hosts s' = cn_hosts s \<and> cn_open s' = cn_open s \<and>
     (\<exists>es. cn_events s' = cn_events s @ es \<and> length es = (if cn_open s then k else 0) \<and>
        (\<forall>e\<in>set es. ev_type e = EventProvisionRequested)))"

lemma requests_trans:
  assumes "requests a b j" "requests b c k" shows "requests a c (j + k)"
proof -
  obtain es where es: "cn_events b = cn_events a @ es" "length es = (if cn_open a then j else 0)"
    "\<forall>e\<in>set es. ev_type e = EventProvisionRequested" using assms(1) by (auto simp: requests_def)
  obtain fs where fs: "cn_events c = cn_events b @ fs" "length fs = (if cn_open b then k else 0)"
    "\<forall>e\<in>set fs. ev_type e = EventProvisionRequested" using assms(2) by (auto simp: requests_def)
  have "cn_events c = cn_events a @ (es @ fs)" "length (es @ fs) = (if cn_open a then j + k else 0)"
    "\<forall>e\<in>set (es @ fs). ev_type e = EventProvisionRequested"
    using es fs assms(1) by (auto simp: requests_def)
  then show ?thesis using assms same_nodes_intros(3) unfolding requests_def by auto
qed

lemma publish_request:
  "\<exists>s'. tryS (publish_event env (provision_requested i source)) s = (Inr (fst (publish_event env (provision_requested i source) s)), s') \<and>
     requests s s' 1"
proof -
  obtain u w1 where u: "ce_uuid env (cn_world s) = (u, w1)" by (metis surj_pair)
  obtain t w2 where t: "ce_now env w1 = (t, w2)" by (metis surj_pair)
  obtain n w3 where n: "ce_now env w2 = (n, w3)" by (metis surj_pair)
  show ?thesis
    by (cases "cn_open s")
      (simp_all add: publish_event_def bindS_def draw_def u t n carry_def requests_def same_nodes_def
        NewBaseEvent_def provision_requested_def tryS_def)
qed

lemma rotate_node_requests: "\<exists>e s'. rotate_node env info s = (Inr [e], s') \<and> requests s s' 1"
proof -
  let ?p = "publish_event (re_conn env) (provision_requested (''rotation-'' @ ri_NodeID info) ''rotation'')"
  obtain s' where s': "tryS ?p s = (Inr (fst (?p s)), s')" "requests s s' 1" using publish_request by blast
  have "createReplacementNode env info s = (Inl (NewSystemError ErrCodeProvisionInProgress
      ''provisioning requested via event bus, rotation will continue asynchronously'' False None), s')"
    using s'(1) by (simp add: createReplacementNode_def bindS_def)
  then have "rotate_node env info s = (Inr [NewSystemError ErrCodeProvisionInProgress
      ''provisioning requested via event bus, rotation will continue asynchronously'' False None], s')"
    by (simp add: rotate_node_def attempt_def bindS_def tryS_def NewSystemError_def is_panic_def)
  then show ?thesis using s'(2) by blast
qed

lemma rotate_all_requests: "\<exists>es s'. rotate_all env is s = (Inr es, s') \<and> length es = length is \<and> requests s s' (length is)"
proof (induction "is" arbitrary: s)
  case Nil
  show ?case by (simp add: requests_def same_nodes_def)
next
  case (Cons i "is")
  obtain e s1 where 1: "rotate_node env i s = (Inr [e], s1)" "requests s s1 1" using rotate_node_requests by blast
  obtain es s2 where 2: "rotate_all env is s1 = (Inr es, s2)" "length es = length is" "requests s1 s2 (length is)"
    using Cons by blast
  have "requests s s2 (1 + length is)" by (rule requests_trans [OF 1(2) 2(3)])
  then show ?case using 1 2 by (auto simp: bindS_def)
qed


text \<open>C28: a rotation never rotates: no peer, subnet or node changes hands and no host is touched. For each
  node of the decision it publishes one provisioning request, if the bus is open, and then it ends with an
  error; it only succeeds when there is nothing to do.\<close>

theorem rotation_only_requests:
  assumes run: "RotateNodes env s = (r, s')"
  shows "same_nodes (cn_db s) (cn_db s') \<and> cn_hosts s' = cn_hosts s \<and>
    (\<exists>es. cn_events s' = cn_events s @ es \<and> (\<forall>e\<in>set es. ev_type e = EventProvisionRequested) \<and>
      (case fst (makeRotationDecision env s) of
         Inl _ \<Rightarrow> r \<noteq> Inr () \<and> es = []
       | Inr decision \<Rightarrow> (r = Inr () \<longleftrightarrow> rd_NodesToRotate decision = []) \<and>
           length es = (if cn_open s then length (rd_NodesToRotate decision) else 0)))"
proof -
  obtain q s1 where q: "makeRotationDecision env s = (q, s1)" by (metis surj_pair)
  have asked: "same_nodes (cn_db s) (cn_db s1)" "cn_hosts s1 = cn_hosts s" "cn_events s1 = cn_events s" "cn_open s1 = cn_open s"
    using staysD [OF makeRotationDecision_asks q] by (auto simp: asks_def)
  show ?thesis
  proof (cases q)
    case (Inl e)
    then have "s' = s1" "r \<noteq> Inr ()" using run q by (auto simp: RotateNodes_def bindS_def map_errS_def)
    then show ?thesis using q Inl asked by simp
  next
    case (Inr decision)
    show ?thesis
    proof (cases "rd_NodesToRotate decision = []")
      case True
      then have "s' = s1" "r = Inr ()" using run q Inr by (auto simp: RotateNodes_def bindS_def map_errS_def)
      then show ?thesis using q Inr asked True by simp
    next
      case False
      obtain es s2 where es: "rotate_all env (rd_NodesToRotate decision) s1 = (Inr es, s2)"
        "length es = length (rd_NodesToRotate decision)" "requests s1 s2 (length (rd_NodesToRotate decision))"
        using rotate_all_requests by blast
      then have "es \<noteq> []" using False by auto
      then have "s' = s2" "r \<noteq> Inr ()"
        using run q Inr False es(1) by (auto simp: RotateNodes_def bindS_def map_errS_def shouldDeferRotation_def)
      then show ?thesis
        using es(3) asked same_nodes_intros(3) [OF asked(1)] False q Inr by (auto simp: requests_def)
    qed
  qed
qed

section \<open>Migrating\<close>

text \<open>Only rows with identifiers in \<open>A\<close> change, and only by moving to the target.\<close>

definition moved :: "string set \<Rightarrow> string \<Rightarrow> Db \<Rightarrow> Db \<Rightarrow> bool" where
  "moved A target d d' = (nodes d' = nodes d \<and> subnets d' = subnets d \<and>
     list_all2 (\<lambda>p p'. p' = p \<or> (p_id p \<in> A \<and>
       (\<exists>a u. p' = p\<lparr>p_node_id := target, p_allocated_ip := a, p_updated_at := u\<rparr>))) (peers d) (peers d'))"

lemma list_all2_mem: "list_all2 P xs ys \<Longrightarrow> y \<in> set ys \<Longrightarrow> \<exists>x\<in>set xs. P x y"
  by (induction rule: list_all2_induct) auto

lemma moved_keep: "keep_tables d d' \<Longrightarrow> moved A t d d'"
  by (simp add: moved_def keep_tables_def list.rel_refl)

lemma moved_trans:
  assumes "moved A t a b" "moved A t b c" shows "moved A t a c"
proof -
  let ?P = "\<lambda>p p'. p' = p \<or> (p_id p \<in> A \<and> (\<exists>a u. p' = p\<lparr>p_node_id := t, p_allocated_ip := a, p_updated_at := u\<rparr>))"
  have "list_all2 ?P (peers a) (peers b)" "list_all2 ?P (peers b) (peers c)" using assms by (auto simp: moved_def)
  moreover have "?P p q \<Longrightarrow> ?P q r \<Longrightarrow> ?P p r" for p q r :: PeerRow
  proof -
    assume pq: "?P p q" and qr: "?P q r"
    have again: "p\<lparr>p_node_id := t, p_allocated_ip := a, p_updated_at := u\<rparr>\<lparr>p_node_id := t, p_allocated_ip := a', p_updated_at := u'\<rparr> =
        p\<lparr>p_node_id := t, p_allocated_ip := a', p_updated_at := u'\<rparr>" for a u a' u' by simp
    show "?P p r" using pq qr again by metis
  qed
  ultimately have "list_all2 ?P (peers a) (peers c)" by (rule list_all2_trans [rotated])
  then show ?thesis using assms by (simp add: moved_def)
qed

lemma moved_ids: "moved A t d d' \<Longrightarrow> map p_id (peers d') = map p_id (peers d)"
proof -
  assume "moved A t d d'"
  then have "list_all2 (\<lambda>p p'. p_id p' = p_id p) (peers d) (peers d')"
    unfolding moved_def by (elim conjE) (erule list_all2_mono, auto)
  then show ?thesis by (induction rule: list_all2_induct) auto
qed

lemma moved_change:
  assumes "i \<in> A" "peer_changed i (\<lambda>r. r\<lparr>p_node_id := t, p_allocated_ip := a\<rparr>) d d'"
  shows "moved A t d d'"
proof -
  have "list_all2 (\<lambda>p p'. p' = p \<or> (p_id p \<in> A \<and>
       (\<exists>a u. p' = p\<lparr>p_node_id := t, p_allocated_ip := a, p_updated_at := u\<rparr>))) (peers d)
     (map (\<lambda>r. if p_id r = i then r\<lparr>p_node_id := t, p_allocated_ip := a, p_updated_at := clock d\<rparr> else r) (peers d))"
    unfolding list.rel_map using assms(1) by (intro list.rel_refl) auto
  then show ?thesis using assms(2) by (simp add: moved_def peer_changed_def)
qed

text \<open>The invariant of the loop: the rows in \<open>B\<close> are on the target already.\<close>

definition migrating :: "NetworkConfig \<Rightarrow> IPNet \<Rightarrow> string set \<Rightarrow> string \<Rightarrow> Db \<Rightarrow> string set \<Rightarrow> Db \<Rightarrow> bool" where
  "migrating c b A t d0 B d = (placed_inv c b d \<and> moved A t d0 d \<and> (\<forall>p\<in>set (peers d). p_id p \<in> B \<longrightarrow> p_node_id p = t))"

lemma migrating_keep:
  assumes "keep_tables d d'" "migrating c b A t d0 B d" shows "migrating c b A t d0 B d'"
  using assms placed_inv_keep [OF assms(1)] moved_trans [OF _ moved_keep [OF assms(1)]]
  by (auto simp: migrating_def keep_tables_def)

lemma placed_inv_move:
  assumes inv: "placed_inv c b d" and ok: "db_ok d'" and free: "free_on d t a"
    and ch: "peer_changed i (\<lambda>r. r\<lparr>p_node_id := t, p_allocated_ip := a\<rparr>) d d'"
  shows "placed_inv c b d'"
proof -
  have view: "db_view d' = db_view d" using ch by (simp add: peer_changed_def db_view_def fun_eq_iff)
  have "db_good d'" using inv ok ch by (auto simp: placed_inv_def store_inv_def db_good_def peer_changed_def)
  moreover have "peers_placed d'"
    using inv free ch view by (auto simp: placed_inv_def peers_placed_def free_on_def peer_changed_def)
  ultimately show ?thesis using inv view by (simp add: placed_inv_def store_inv_def)
qed

lemma migrate_db:
  assumes m: "migrating c b A t d0 B d" and free: "free_on d t a" and i: "i \<in> A"
    and run: "peerSvc_Migrate i t a d = (r, d')"
  shows "migrating c b A t d0 B d' \<and> (r = Inr () \<longrightarrow> migrating c b A t d0 (insert i B) d')"
proof -
  have ok: "db_ok d" using m by (simp add: migrating_def placed_inv_def store_inv_def db_good_def)
  note out = peerSvc_Migrate_outcome [OF ok run]
  show ?thesis
  proof (cases r)
    case (Inl e)
    then show ?thesis using out migrating_keep [OF _ m] by auto
  next
    case (Inr u)
    then have ch: "peer_changed i (\<lambda>r. r\<lparr>p_node_id := t, p_allocated_ip := a\<rparr>) d d'" using out by simp
    have "placed_inv c b d'" using placed_inv_move [OF _ _ free ch] m out by (auto simp: migrating_def)
    moreover have "moved A t d0 d'" using moved_trans [OF _ moved_change [OF i ch]] m by (simp add: migrating_def)
    moreover have "\<forall>p\<in>set (peers d'). p_id p \<in> insert i B \<longrightarrow> p_node_id p = t"
      using m ch by (auto simp: migrating_def peer_changed_def)
    ultimately show ?thesis by (auto simp: migrating_def)
  qed
qed

lemma hoare_attempt_cases:
  "hoare P m (\<lambda>x. Q (Inr x)) (\<lambda>e s. Q (Inl e) s \<and> E e s) \<Longrightarrow> hoare P (attempt m) Q E"
  unfolding attempt_def
  by (rule hoare_bind [OF hoare_tryS, where Q = "\<lambda>r s. case r of Inr x \<Rightarrow> Q (Inr x) s | Inl e \<Rightarrow> Q (Inl e) s \<and> E e s"])
    (auto simp: hoare_def split: sum.splits)

lemma hoare_wrapped:
  assumes "hoare P m Q (\<lambda>_. E)" shows "hoare P (wrapped f m) Q (\<lambda>_. E)"
proof (rule hoareI)
  fix s x s' assume "P s" "wrapped f m s = (Inr x, s')"
  then show "Q x s'" using hoareD(1) [OF assms] by (simp add: wrapped_def map_errS_Inr_iff)
next
  fix s e s' assume "P s" "wrapped f m s = (Inl e, s')"
  then show "E s'" using hoareD(2) [OF assms] by (auto simp: wrapped_def map_errS_Inl_iff)
qed

abbreviation db_has :: "(Db \<Rightarrow> bool) \<Rightarrow> ('s, 'w) conn \<Rightarrow> bool" where
  "db_has P s \<equiv> P (cn_db s)"

lemma hoare_db:
  assumes "hoare P m Q E" shows "hoare (db_has P) (in_db m) (\<lambda>x. db_has (Q x)) (\<lambda>e. db_has (E e))"
  using assms unfolding hoare_def in_db_def by (fastforce split: prod.splits sum.splits)

lemma hoare_migrating:
  assumes "stays (db_of keep_tables) m"
  shows "hoare (db_has (migrating c b A t d0 B)) m (\<lambda>_. db_has (migrating c b A t d0 B)) (\<lambda>_. db_has (migrating c b A t d0 B))"
  by (rule hoare_stays [OF assms]) (auto simp: db_of_def intro: migrating_keep)

lemma keeps_get_node: "stays (db_of keep_tables) (in_db (nodeSvc_GetNode i))"
  by (rule db_of_in_db) (simp add: stays_def nodeSvc_GetNode_def, metis nodeRepo_GetByID_result prod.collapse)

lemma keeps_release: "stays (db_of keep_tables) (in_db (ReleaseClientIP i a))"
  by (rule db_of_in_db) (simp add: stays_def ReleaseClientIP_def)

lemma keeps_wrapped: "stays R m \<Longrightarrow> stays R (wrapped f m)"
  unfolding wrapped_def by (rule stays_map_errS)

lemma leave_source_keeps: "stays (db_of keep_tables) (leave_source env p source)"
  unfolding leave_source_def using db_of_order [of keep_tables] keep_tables_order
  by (auto intro!: stays_bindS stays_attempt stays_tryS stays_pure keeps_get_node keeps_release db_of_hosts
      split: sum.splits option.splits)

lemma hoare_alloc_free:
  "hoare (db_has (migrating c b A t d0 B)) (in_db (AllocateClientIP_db i))
     (\<lambda>a. db_has (\<lambda>d. migrating c b A t d0 B d \<and> free_on d i (print_ip a))) (\<lambda>_. db_has (migrating c b A t d0 B))"
proof (rule hoare_db, rule hoareI)
  fix d a d' assume m: "migrating c b A t d0 B d" and run: "AllocateClientIP_db i d = (Inr a, d')"
  have inv: "placed_inv c b d" using m by (simp add: migrating_def)
  then have g: "db_good d" "subnet_pool c b (db_view d)" "peers_placed d" by (auto simp: placed_inv_def store_inv_def)
  note f = AllocateClientIP_fresh [OF g run]
  then have k: "keep_tables d d'" by simp
  have same: "db_view d' = db_view d" "peers d' = peers d" using db_good_keep [OF k g(1)] k by (auto simp: keep_tables_def)
  have "free_on d' i (print_ip a)" unfolding free_on_def same using f by blast
  then show "migrating c b A t d0 B d' \<and> free_on d' i (print_ip a)" using migrating_keep [OF k m] by simp
next
  fix d e d' assume "migrating c b A t d0 B d" "AllocateClientIP_db i d = (Inl e, d')"
  then show "migrating c b A t d0 B d'" using staysD [OF alloc_keep] migrating_keep by blast
qed

lemma migrate_peer_triple:
  assumes i: "pr_ID p \<in> A"
  shows "hoare (db_has (migrating c b A t d0 B)) (migrateSinglePeer env p source t)
    (\<lambda>_. db_has (migrating c b A t d0 (insert (pr_ID p) B))) (\<lambda>_. db_has (migrating c b A t d0 B))"
  unfolding migrateSinglePeer_def
proof (rule hoare_bind [OF hoare_wrapped [OF hoare_alloc_free]], rule hoare_bind [OF hoare_attempt_cases])
  fix ip
  show "hoare (db_has (\<lambda>d. migrating c b A t d0 B d \<and> free_on d t (print_ip ip)))
      (in_db (peerSvc_Migrate (pr_ID p) t (print_ip ip)))
      (\<lambda>x. (case Inr x of Inl e \<Rightarrow> db_has (migrating c b A t d0 B) | Inr _ \<Rightarrow> db_has (migrating c b A t d0 (insert (pr_ID p) B))))
      (\<lambda>e s. (case Inl e of Inl e \<Rightarrow> db_has (migrating c b A t d0 B) | Inr _ \<Rightarrow> db_has (migrating c b A t d0 (insert (pr_ID p) B))) s \<and>
        db_has (migrating c b A t d0 B) s)"
    unfolding sum.case conj_absorb
  proof (rule hoare_db, rule hoareI)
    fix d x d' assume "migrating c b A t d0 B d \<and> free_on d t (print_ip ip)"
      "peerSvc_Migrate (pr_ID p) t (print_ip ip) d = (Inr x, d')"
    then show "migrating c b A t d0 (insert (pr_ID p) B) d'" using migrate_db [OF _ _ i] by auto
  next
    fix d e d' assume "migrating c b A t d0 B d \<and> free_on d t (print_ip ip)"
      "peerSvc_Migrate (pr_ID p) t (print_ip ip) d = (Inl e, d')"
    then show "migrating c b A t d0 B d'" using migrate_db [OF _ _ i] by auto
  qed
next
  fix ip and r :: "unit res"
  let ?N = "db_has (migrating c b A t d0 (insert (pr_ID p) B))"
  have keep: "hoare ?N m (\<lambda>_. ?N) (\<lambda>_. db_has (migrating c b A t d0 B))" if "stays (db_of keep_tables) m" for m
    by (rule hoare_weaken [OF hoare_migrating [OF that, of c b A t d0 "insert (pr_ID p) B"]]) (auto simp: migrating_def)
  show "hoare (case r of Inl e \<Rightarrow> db_has (migrating c b A t d0 B) | Inr _ \<Rightarrow> db_has (migrating c b A t d0 (insert (pr_ID p) B)))
     (case r of
       Inl e \<Rightarrow> bindS (tryS (in_db (ReleaseClientIP t ip))) (\<lambda>_.
         failS (WrapWithDomain e DomainPeer ErrCodePeerConflict ''failed to migrate peer in domain'' False))
     | Inr _ \<Rightarrow>
         bindS (wrapped (\<lambda>e. WrapWithDomain e DomainNode ErrCodeNodeNotFound ''failed to get target node'' False)
                  (in_db (nodeSvc_GetNode t))) (\<lambda>n.
         bindS (wrapped (\<lambda>e. NewInfrastructureError ErrCodeSSHConnection ''failed to add peer to target node'' True (Some e))
                  (on_hosts (protocol_AddPeer (ce_commands env) (ce_interactor env) (nd_IPAddress n)
                     (migrated_peer_config p ip)))) (\<lambda>_.
         leave_source env p source)))
     (\<lambda>_. db_has (migrating c b A t d0 (insert (pr_ID p) B))) (\<lambda>_. db_has (migrating c b A t d0 B))"
  proof (cases r)
    case (Inl e)
    have "hoare (db_has (migrating c b A t d0 B)) (bindS (tryS (in_db (ReleaseClientIP t ip))) (\<lambda>_.
         failS (WrapWithDomain e DomainPeer ErrCodePeerConflict ''failed to migrate peer in domain'' False)))
      (\<lambda>_. db_has (migrating c b A t d0 (insert (pr_ID p) B))) (\<lambda>_. db_has (migrating c b A t d0 B))"
      by (auto simp: hoare_def bindS_def tryS_def in_db_def ReleaseClientIP_def)
    then show ?thesis unfolding Inl sum.case .
  next
    case (Inr u)
    show ?thesis unfolding Inr sum.case
      by (intro hoare_bind [OF keep] keep leave_source_keeps keeps_wrapped keeps_get_node db_of_hosts keep_tables_order)
  qed
qed

lemma migrate_all_triple:
  "pr_ID ` set ps \<subseteq> A \<Longrightarrow> hoare (db_has (migrating c b A t d0 B)) (migrate_all env source t ps)
    (\<lambda>es. db_has (\<lambda>d. migrating c b A t d0 B d \<and> (es = [] \<longrightarrow> migrating c b A t d0 (pr_ID ` set ps \<union> B) d)))
    (\<lambda>_. db_has (migrating c b A t d0 B))"
proof (induction ps arbitrary: B)
  case Nil
  show ?case by (auto simp: hoare_def)
next
  case (Cons p ps)
  let ?B' = "insert (pr_ID p) B"
  have weaker: "migrating c b A t d0 ?B' d \<Longrightarrow> migrating c b A t d0 B d" for d
    by (simp add: migrating_def)
  show ?case
    unfolding migrate_all.simps
  proof (rule hoare_bind [OF hoare_attempt_cases])
    show "hoare (db_has (migrating c b A t d0 B)) (migrateSinglePeer env p source t)
      (\<lambda>x. case Inr x of Inl e \<Rightarrow> db_has (migrating c b A t d0 B) | Inr _ \<Rightarrow> db_has (migrating c b A t d0 ?B'))
      (\<lambda>e s. (case Inl e of Inl e \<Rightarrow> db_has (migrating c b A t d0 B) | Inr _ \<Rightarrow> db_has (migrating c b A t d0 ?B')) s \<and>
        db_has (migrating c b A t d0 B) s)"
      unfolding sum.case conj_absorb by (rule migrate_peer_triple) (use Cons.prems in simp)
    fix r :: "unit res"
    show "hoare (case r of Inl e \<Rightarrow> db_has (migrating c b A t d0 B) | Inr _ \<Rightarrow> db_has (migrating c b A t d0 ?B'))
      (bindS (migrate_all env source t ps) (\<lambda>es. returnS (case r of Inl e \<Rightarrow> e # es | Inr _ \<Rightarrow> es)))
      (\<lambda>es. db_has (\<lambda>d. migrating c b A t d0 B d \<and> (es = [] \<longrightarrow> migrating c b A t d0 (pr_ID ` set (p # ps) \<union> B) d)))
      (\<lambda>_. db_has (migrating c b A t d0 B))"
    proof (cases r)
      case (Inl e)
      have "hoare (db_has (migrating c b A t d0 B)) (migrate_all env source t ps) (\<lambda>_. db_has (migrating c b A t d0 B))
          (\<lambda>_. db_has (migrating c b A t d0 B))"
        by (rule hoare_weaken [OF Cons.IH]) (use Cons.prems in auto)
      then show ?thesis unfolding Inl sum.case by (rule hoare_bind) (rule hoare_return', simp)
    next
      case (Inr u)
      have "hoare (db_has (migrating c b A t d0 ?B')) (migrate_all env source t ps)
          (\<lambda>es. db_has (\<lambda>d. migrating c b A t d0 B d \<and> (es = [] \<longrightarrow> migrating c b A t d0 (pr_ID ` set (p # ps) \<union> B) d)))
          (\<lambda>_. db_has (migrating c b A t d0 B))"
        by (rule hoare_weaken [OF Cons.IH [of ?B']]) (use Cons.prems weaker in auto)
      then show ?thesis unfolding Inr sum.case by (rule hoare_bind) (rule hoare_return', simp)
    qed
  qed
qed

lemma peers_to_migrate_keeps: "stays (db_of keep_tables) (peers_to_migrate env source t)"
proof -
  have "stays keep_tables (peerSvc_GetActiveByNode source)"
    unfolding peerSvc_GetActiveByNode_def by (auto intro!: keep_reads peerRepo_reads)
  then show ?thesis
    unfolding peers_to_migrate_def using db_of_order [of keep_tables] keep_tables_order
    by (auto intro!: stays_bindS stays_pure keeps_wrapped db_of_in_db capacity_keep)
qed

lemma GetActiveByNode_rows:
  assumes "peerSvc_GetActiveByNode i d = (Inr ps, d')"
  shows "pr_ID ` set ps = {p_id r | r. r \<in> set (peers d) \<and> p_node_id r = i \<and> p_status r = PeerActive}"
proof -
  obtain rs where "GetPeersByNode i d = (Inr rs, d')" "ps = filter (\<lambda>p. pr_Status p = PeerActive) (map toDomainPeer rs)"
    using assms by (auto simp: peerSvc_GetActiveByNode_def peerRepo_GetActiveByNode_def peerRepo_GetByNode_def
        bindS_Inr_iff map_errS_Inr_iff split: if_splits)
  moreover from this(1) have rows: "set rs = {r \<in> set (peers d). p_node_id r = i}"
    unfolding GetPeersByNode_def by (auto dest!: select_many_result simp: keep_tables_def)
  moreover have fld: "pr_ID (toDomainPeer r) = p_id r" "pr_Status (toDomainPeer r) = p_status r" for r
    by (simp_all add: toDomainPeer_def)
  ultimately have "pr_ID ` set ps = p_id ` {r \<in> set rs. p_status r = PeerActive}"
    by (auto simp: filter_map o_def image_image)
  then show ?thesis unfolding rows by auto
qed

lemma peers_to_migrate_rows:
  assumes "peers_to_migrate env source t s = (Inr ps, s')"
  shows "pr_ID ` set ps = {p_id r | r. r \<in> set (peers (cn_db s)) \<and> p_node_id r = source \<and> p_status r = PeerActive}"
proof -
  obtain d where "peerSvc_GetActiveByNode source (cn_db s) = (Inr ps, d)"
    using assms by (auto simp: peers_to_migrate_def wrapped_def bindS_Inr_iff map_errS_Inr_iff in_db_def
        split: if_splits prod.splits)
  then show ?thesis by (rule GetActiveByNode_rows)
qed

text \<open>C25: a migration moves active peers of the source and nothing else: whatever fails, the constraints, the
  disjoint subnets and the places of the peers hold afterwards, no row is lost, and every row is as it was
  or is an active row of the source that is now on the target. If it succeeds, no active peer is left on
  the source.\<close>

theorem migrate_peers_safe:
  assumes inv: "placed_inv c b (cn_db s)" and run: "MigratePeersFromNode env source target s = (r, s')"
    and other: "source \<noteq> target"
  shows "placed_inv c b (cn_db s') \<and>
    moved {p_id p | p. p \<in> set (peers (cn_db s)) \<and> p_node_id p = source \<and> p_status p = PeerActive} target (cn_db s) (cn_db s') \<and>
    (r = Inr () \<longrightarrow> (\<forall>p\<in>set (peers (cn_db s')). \<not> (p_node_id p = source \<and> p_status p = PeerActive)))"
proof -
  let ?A = "{p_id p | p. p \<in> set (peers (cn_db s)) \<and> p_node_id p = source \<and> p_status p = PeerActive}"
  let ?M = "migrating c b ?A target (cn_db s)"
  obtain q s1 where q: "peers_to_migrate env source target s = (q, s1)" by (metis surj_pair)
  have k: "keep_tables (cn_db s) (cn_db s1)" using staysD [OF peers_to_migrate_keeps q] by (simp add: db_of_def)
  have start: "?M {} (cn_db s1)"
    using inv moved_keep [OF k] placed_inv_keep [OF k inv] by (simp add: migrating_def)
  have ran: "?M {} (cn_db s') \<and> (r = Inr () \<longrightarrow> ?M ?A (cn_db s'))"
  proof (cases q)
    case (Inl e)
    then have "s' = s1" "r \<noteq> Inr ()" using run q by (auto simp: MigratePeersFromNode_def bindS_def)
    then show ?thesis using start by simp
  next
    case (Inr ps)
    have ids: "pr_ID ` set ps = ?A" using peers_to_migrate_rows q Inr by blast
    obtain v s2 where v: "migrate_all env source target ps s1 = (v, s2)" by (metis surj_pair)
    note triple = migrate_all_triple [of ps ?A c b target "cn_db s" "{}" env source]
    show ?thesis
    proof (cases v)
      case (Inl e)
      then have "s' = s2" "r \<noteq> Inr ()" using run q Inr v by (auto simp: MigratePeersFromNode_def bindS_def)
      moreover have "?M {} (cn_db s2)" using hoareD(2) [OF triple] start ids v Inl by auto
      ultimately show ?thesis by simp
    next
      case es: (Inr es)
      then have "s' = s2" "r = Inr () \<longrightarrow> es = []"
        using run q Inr v by (auto simp: MigratePeersFromNode_def bindS_def split: if_splits)
      moreover have "?M {} (cn_db s2) \<and> (es = [] \<longrightarrow> ?M (pr_ID ` set ps \<union> {}) (cn_db s2))"
        using hoareD(1) [OF triple] start ids v es by auto
      ultimately show ?thesis unfolding ids by simp
    qed
  qed
  have left: "\<not> (p_node_id p' = source \<and> p_status p' = PeerActive)" if m: "?M ?A (cn_db s')" and mem: "p' \<in> set (peers (cn_db s'))" for p'
  proof -
    obtain p where p: "p \<in> set (peers (cn_db s))" "p' = p \<or> p_id p \<in> ?A \<and>
        (\<exists>a u. p' = p\<lparr>p_node_id := target, p_allocated_ip := a, p_updated_at := u\<rparr>)"
      using m list_all2_mem [OF _ mem] unfolding migrating_def moved_def by blast
    from p(2) show ?thesis
    proof
      assume "p' = p"
      then show ?thesis using m mem p(1) other unfolding migrating_def by blast
    qed (use other in auto)
  qed
  have "placed_inv c b (cn_db s')" "moved ?A target (cn_db s) (cn_db s')" using ran by (simp_all only: migrating_def)
  moreover have "r = Inr () \<longrightarrow> (\<forall>p\<in>set (peers (cn_db s')). \<not> (p_node_id p = source \<and> p_status p = PeerActive))"
    using ran left by blast
  ultimately show ?thesis by (intro conjI)
qed

section \<open>Examples\<close>

text \<open>Every node answers its health check with the same report.\<close>

definition sick_report :: NodeHealthStatus where
  "sick_report = \<lparr>nh_IsHealthy = False, nh_ResponseTime = 0, nh_SystemLoad = 0, nh_MemoryUsage = 0, nh_DiskUsage = 0,
     nh_WireGuardStatus = ''down'', nh_ConnectedPeers = 0, nh_LastChecked = 0, nh_Errors = []\<rparr>"

definition example_rotation_env :: "(nat, nat) rotation_env" where
  "example_rotation_env = \<lparr>re_conn = example_conn_env, re_health = (\<lambda>_ w. (Inr sick_report, w)), re_destroy = (\<lambda>_ w. (Inr (), w))\<rparr>"

lemma analyze_nodes_total: "\<exists>infos s'. analyze_nodes env ns s = (Inr infos, s')"
proof (induction ns arbitrary: s)
  case (Cons n ns)
  obtain r s1 where r: "in_db_world (nodeSvc_CheckNodeHealth (re_health env) (nd_ID n)) s = (r, s1)" by (metis surj_pair)
  obtain c s2 where c: "in_db (peerSvc_CountActiveByNode (nd_ID n)) s1 = (c, s2)" by (metis surj_pair)
  show ?case
  proof (cases r)
    case (Inl e)
    then show ?thesis using Cons [of s1] r by (simp add: bindS_def tryS_def)
  next
    case (Inr h)
    obtain rest s3 where "analyze_nodes env ns s2 = (Inr rest, s3)" using Cons by blast
    then show ?thesis using r c Inr by (simp add: bindS_def tryS_def)
  qed
qed simp

lemma makeRotationDecision_nofault:
  assumes "faults (cn_db s) = []" shows "\<exists>decision s'. makeRotationDecision env s = (Inr decision, s')"
proof -
  have "\<exists>ns. list_active (cn_db s) = (Inr ns, cn_db s)"
    by (simp add: list_active_def nodeSvc_ListNodes_def nodeRepo_List_def GetNodesByStatus_def select_nofault [OF assms] map_errS_def)
  then obtain ns where ns: "in_db list_active s = (Inr ns, s)" by (auto simp: in_db_def)
  obtain infos s1 where a: "analyze_nodes env ns s = (Inr infos, s1)" using analyze_nodes_total by blast
  have drawn: "\<exists>t s'. draw (ce_now (re_conn env)) u = (Inr t, s')" for u by (auto simp: draw_def split: prod.splits)
  obtain t s2 t' s3 where "draw (ce_now (re_conn env)) s = (Inr t, s2)" "draw (ce_now (re_conn env)) s1 = (Inr t', s3)"
    using drawn by metis
  then show ?thesis using ns a by (simp add: makeRotationDecision_def bindS_def)
qed


theorem rotation_only_requests_witness:
  "\<exists>r s'. RotateNodes example_rotation_env (example_conn one_peer_db) = (r, s') \<and>
     same_nodes one_peer_db (cn_db s') \<and> cn_hosts s' = (Map.empty, 0)"
proof -
  obtain r s' where run: "RotateNodes example_rotation_env (example_conn one_peer_db) = (r, s')" by (metis surj_pair)
  from rotation_only_requests [OF run] run show ?thesis by (auto simp: example_conn_def)
qed

theorem migrate_peers_safe_witness:
  "\<exists>d :: Db. \<exists>r s'. MigratePeersFromNode example_conn_env ''node-1'' ''node-2'' (example_conn d) = (r, s') \<and>
     placed_inv DefaultNetworkConfig default_base (cn_db s') \<and> map p_id (peers (cn_db s')) = map p_id (peers d)"
proof -
  obtain d :: Db where "db_good d" "subnet_pool DefaultNetworkConfig default_base (db_view d)" "peers_placed d"
    using placed_example by blast
  then have inv: "placed_inv DefaultNetworkConfig default_base (cn_db (example_conn d))"
    by (simp add: placed_inv_def store_inv_def example_conn_def)
  obtain r s' where run: "MigratePeersFromNode example_conn_env ''node-1'' ''node-2'' (example_conn d) = (r, s')"
    by (metis surj_pair)
  have ne: "''node-1'' \<noteq> (''node-2'' :: string)" by simp
  have d: "cn_db (example_conn d) = d" by (simp add: example_conn_def)
  note safe = migrate_peers_safe [OF inv run ne, unfolded d]
  from safe moved_ids have "map p_id (peers (cn_db s')) = map p_id (peers d)" by blast
  with safe run show ?thesis by blast
qed

end
