(* ===== verification/Admin.thy ===== *)
theory Admin
  imports Rotation
begin

text \<open>
  The admin orchestrator: \<open>internal/rotator/orchestrator/admin_orchestrator.go\<close> with the response types of
  \<open>pkg/api/responses.go\<close> it fills. A Go map is an association list without duplicate keys; shares and
  averages are rationals.
\<close>

section \<open>Responses\<close>

record ProvisioningInfo =
  pri_IsActive :: bool
  pri_Phase :: string
  pri_Progress :: rat
  pri_EstimatedETA :: "int option"

record api_NodeStatus =
  ans_NodeID :: string
  ans_Status :: string
  ans_PeerCount :: int
  ans_IsHealthy :: bool
  ans_SystemLoad :: rat
  ans_MemoryUsage :: rat
  ans_DiskUsage :: rat
  ans_ResponseTime :: int
  ans_Issues :: "string list"
  ans_Timestamp :: int

record SystemStatus =
  sys_TotalNodes :: int
  sys_ActiveNodes :: int
  sys_TotalPeers :: int
  sys_ActivePeers :: int
  sys_NodeDistribution :: "(string \<times> int) list"
  sys_SystemHealth :: string
  sys_NodeStatuses :: "(string \<times> api_NodeStatus) list"
  sys_Provisioning :: "ProvisioningInfo option"
  sys_Timestamp :: int

record api_NodeStatistics =
  ast_TotalNodes :: int
  ast_ActiveNodes :: int
  ast_ProvisioningNodes :: int
  ast_UnhealthyNodes :: int
  ast_AverageLoad :: rat
  ast_AverageMemory :: rat
  ast_AverageDisk :: rat
  ast_NodeDistribution :: "(string \<times> int) list"
  ast_Timestamp :: int

record PeerStatsResponse =
  psr_TotalPeers :: int
  psr_ActiveNodes :: int
  psr_Distribution :: "(string \<times> int) list"
  psr_Timestamp :: int

record HealthIssue =
  his_Severity :: string
  his_Component :: string
  his_ComponentID :: string
  his_Message :: string
  his_Timestamp :: int

record SystemMetrics =
  smx_TotalCapacity :: int
  smx_UsedCapacity :: int
  smx_CapacityUsage :: rat
  smx_AverageLoad :: rat
  smx_AverageMemory :: rat
  smx_AverageDisk :: rat
  smx_AverageResponse :: int

record HealthReport =
  hrp_OverallHealth :: string
  hrp_NodeHealth :: "(string \<times> api_NodeStatus) list"
  hrp_SystemMetrics :: SystemMetrics
  hrp_Issues :: "HealthIssue list"
  hrp_Recommendations :: "string list"
  hrp_Timestamp :: int

record api_NodeCapacity =
  anc_NodeID :: string
  anc_MaxPeers :: int
  anc_CurrentPeers :: int
  anc_AvailablePeers :: int
  anc_CapacityUsed :: rat

record CapacityReport =
  crp_TotalCapacity :: int
  crp_TotalUsed :: int
  crp_TotalAvailable :: int
  crp_OverallUsage :: rat
  crp_Nodes :: "(string \<times> api_NodeCapacity) list"
  crp_Timestamp :: int

section \<open>Shared steps\<close>

definition now_of :: "('s, 'w) rotation_env \<Rightarrow> ('s, 'w, int) conn_step" where
  "now_of env = draw (ce_now (re_conn env))"

definition check_health :: "('s, 'w) rotation_env \<Rightarrow> string \<Rightarrow> ('s, 'w, NodeHealthStatus) conn_step" where
  "check_health env i = in_db_world (nodeSvc_CheckNodeHealth (re_health env) i)"

definition node_stats :: "('s, 'w, NodeStatistics) conn_step" where
  "node_stats = map_errS (\<lambda>e. WrapWithDomain e DomainNode ''stats_failed'' ''failed to get node statistics'' True)
     (in_db nodeSvc_GetNodeStatistics)"

definition peer_stats :: "('s, 'w, PeerStatistics) conn_step" where
  "peer_stats = map_errS (\<lambda>e. WrapWithDomain e DomainPeer ''stats_failed'' ''failed to get peer statistics'' True)
     (in_db peerSvc_GetStatistics)"

text \<open>The switch on the share of healthy nodes.\<close>

definition health_level :: "rat \<Rightarrow> string" where
  "health_level share = (if share \<ge> 8 / 10 then ''healthy'' else if share \<ge> 5 / 10 then ''degraded'' else ''unhealthy'')"

definition calculateSystemHealth :: "(string \<times> api_NodeStatus) list \<Rightarrow> string" where
  "calculateSystemHealth statuses =
     (if statuses = [] then ''unhealthy''
      else health_level (of_nat (length (filter (\<lambda>(_, st). ans_IsHealthy st) statuses)) / of_nat (length statuses)))"

definition provisioning_info :: "ProvisioningState \<Rightarrow> ProvisioningInfo" where
  "provisioning_info st = \<lparr>pri_IsActive = pvs_IsActive st, pri_Phase = pvs_Phase st, pri_Progress = pvs_Progress st,
     pri_EstimatedETA = pvs_EstimatedETA st\<rparr>"

section \<open>System status\<close>

definition no_answer :: "int \<Rightarrow> NodeHealthStatus" where
  "no_answer now = \<lparr>nh_IsHealthy = False, nh_ResponseTime = 0, nh_SystemLoad = 0, nh_MemoryUsage = 0, nh_DiskUsage = 0,
     nh_WireGuardStatus = [], nh_ConnectedPeers = 0, nh_LastChecked = now, nh_Errors = []\<rparr>"

fun status_loop :: "('s, 'w) rotation_env \<Rightarrow> Node list \<Rightarrow> (string \<times> int) list \<Rightarrow> (string \<times> api_NodeStatus) list
    \<Rightarrow> ('s, 'w, (string \<times> int) list \<times> (string \<times> api_NodeStatus) list) conn_step" where
  "status_loop env [] spread statuses = returnS (spread, statuses)"
| "status_loop env (n # ns) spread statuses =
     bindS (tryS (in_db (peerSvc_CountActiveByNode (nd_ID n)))) (\<lambda>c.
     bindS (tryS (check_health env (nd_ID n))) (\<lambda>r.
     bindS (case r of Inr h \<Rightarrow> returnS h | Inl _ \<Rightarrow> bindS (now_of env) (\<lambda>now. returnS (no_answer now))) (\<lambda>h.
     let peerCount = (case c of Inl _ \<Rightarrow> 0 | Inr k \<Rightarrow> k);
         st = \<lparr>ans_NodeID = nd_ID n, ans_Status = nd_Status n, ans_PeerCount = peerCount,
           ans_IsHealthy = nh_IsHealthy h, ans_SystemLoad = nh_SystemLoad h, ans_MemoryUsage = nh_MemoryUsage h,
           ans_DiskUsage = nh_DiskUsage h, ans_ResponseTime = 0, ans_Issues = [], ans_Timestamp = nh_LastChecked h\<rparr>
     in status_loop env ns (AList.update (nd_ID n) peerCount spread) (AList.update (nd_ID n) st statuses))))"

definition GetSystemStatus ::
  "('s, 'w) rotation_env \<Rightarrow> (prov_tracker \<Rightarrow> prov_tracker) \<Rightarrow> prov_tracker option \<Rightarrow> ('s, 'w, SystemStatus) conn_step" where
  "GetSystemStatus env order tracker =
     bindS node_stats (\<lambda>nodeStats. bindS peer_stats (\<lambda>peerStats. bindS (in_db list_active) (\<lambda>ns.
     bindS (status_loop env ns [] []) (\<lambda>(spread, statuses). bindS (now_of env) (\<lambda>now.
     returnS \<lparr>sys_TotalNodes = ns_TotalNodes nodeStats, sys_ActiveNodes = ns_ActiveNodes nodeStats,
       sys_TotalPeers = pst_TotalPeers peerStats, sys_ActivePeers = pst_ActivePeers peerStats,
       sys_NodeDistribution = spread, sys_SystemHealth = calculateSystemHealth statuses, sys_NodeStatuses = statuses,
       sys_Provisioning = (case tracker of None \<Rightarrow> None | Some t \<Rightarrow> map_option provisioning_info (GetActiveProvisioning order t)),
       sys_Timestamp = now\<rparr>)))))"

section \<open>Statistics\<close>

text \<open>Nodes by status, the loads added up over the active nodes that answer, and how many are healthy.\<close>

fun statistics_loop :: "('s, 'w) rotation_env \<Rightarrow> Node list \<Rightarrow> (string \<times> int) list \<times> rat \<times> rat \<times> rat \<times> int
    \<Rightarrow> ('s, 'w, (string \<times> int) list \<times> rat \<times> rat \<times> rat \<times> int) conn_step" where
  "statistics_loop env [] acc = returnS acc"
| "statistics_loop env (n # ns) (spread, load, memory, disk, healthy) =
     (let spread' = AList.update (nd_Status n) ((case map_of spread (nd_Status n) of None \<Rightarrow> 0 | Some k \<Rightarrow> k) + 1) spread
      in if nd_Status n = StatusActive
         then bindS (tryS (check_health env (nd_ID n))) (\<lambda>r. case r of
             Inl _ \<Rightarrow> statistics_loop env ns (spread', load, memory, disk, healthy)
           | Inr h \<Rightarrow> statistics_loop env ns (spread', load + nh_SystemLoad h, memory + nh_MemoryUsage h, disk + nh_DiskUsage h,
               if nh_IsHealthy h then healthy + 1 else healthy))
         else statistics_loop env ns (spread', load, memory, disk, healthy))"

definition admin_GetNodeStatistics :: "('s, 'w) rotation_env \<Rightarrow> ('s, 'w, api_NodeStatistics) conn_step" where
  "admin_GetNodeStatistics env =
     bindS node_stats (\<lambda>stats. bindS (in_db list_all_nodes) (\<lambda>ns.
     bindS (statistics_loop env ns ([], 0, 0, 0, 0)) (\<lambda>(spread, load, memory, disk, healthy). bindS (now_of env) (\<lambda>now.
     let active = ns_ActiveNodes stats; average = (\<lambda>total. if active > 0 then total / of_int active else 0)
     in returnS \<lparr>ast_TotalNodes = ns_TotalNodes stats, ast_ActiveNodes = active,
          ast_ProvisioningNodes = ns_ProvisioningNodes stats, ast_UnhealthyNodes = active - healthy,
          ast_AverageLoad = average load, ast_AverageMemory = average memory, ast_AverageDisk = average disk,
          ast_NodeDistribution = spread, ast_Timestamp = now\<rparr>))))"

fun distribution_loop :: "Node list \<Rightarrow> (string \<times> int) list \<Rightarrow> Db \<Rightarrow> (string \<times> int) list res \<times> Db" where
  "distribution_loop [] spread = returnS spread"
| "distribution_loop (n # ns) spread =
     bindS (tryS (peerSvc_CountActiveByNode (nd_ID n))) (\<lambda>c.
     distribution_loop ns (case c of Inl _ \<Rightarrow> spread | Inr k \<Rightarrow> AList.update (nd_ID n) k spread))"

definition admin_GetPeerStatistics :: "('s, 'w) rotation_env \<Rightarrow> ('s, 'w, PeerStatsResponse) conn_step" where
  "admin_GetPeerStatistics env =
     bindS peer_stats (\<lambda>stats. bindS (in_db list_active) (\<lambda>ns. bindS (in_db (distribution_loop ns [])) (\<lambda>spread.
     bindS (now_of env) (\<lambda>now.
     returnS \<lparr>psr_TotalPeers = pst_TotalPeers stats, psr_ActiveNodes = int (length ns), psr_Distribution = spread,
       psr_Timestamp = now\<rparr>))))"

section \<open>Health report\<close>

definition health_issues :: "NodeHealthStatus \<Rightarrow> string list" where
  "health_issues h = (if \<not> nh_IsHealthy h then [''node reported as unhealthy''] else []) @
     (if nh_SystemLoad h > 8 / 10 then [''high system load''] else [])"

definition node_health :: "Node \<Rightarrow> NodeHealthStatus \<Rightarrow> api_NodeStatus" where
  "node_health n h = \<lparr>ans_NodeID = nd_ID n, ans_Status = nd_Status n, ans_PeerCount = 0, ans_IsHealthy = nh_IsHealthy h,
     ans_SystemLoad = nh_SystemLoad h, ans_MemoryUsage = nh_MemoryUsage h, ans_DiskUsage = nh_DiskUsage h,
     ans_ResponseTime = nh_ResponseTime h div 10 ^ 6, ans_Issues = health_issues h, ans_Timestamp = nh_LastChecked h\<rparr>"

text \<open>One issue of a node; each is stamped on its own.\<close>

fun issue_loop :: "('s, 'w) rotation_env \<Rightarrow> string \<Rightarrow> string \<Rightarrow> string list \<Rightarrow> ('s, 'w, HealthIssue list) conn_step" where
  "issue_loop env severity i [] = returnS []"
| "issue_loop env severity i (msg # msgs) =
     bindS (now_of env) (\<lambda>now. bindS (issue_loop env severity i msgs) (\<lambda>rest.
     returnS (\<lparr>his_Severity = severity, his_Component = ''node'', his_ComponentID = i, his_Message = msg,
       his_Timestamp = now\<rparr> # rest)))"

record health_totals =
  ht_healthy :: nat
  ht_total :: nat
  ht_load :: rat
  ht_memory :: rat
  ht_disk :: rat
  ht_response :: rat
  ht_nodes :: "(string \<times> api_NodeStatus) list"
  ht_issues :: "HealthIssue list"

definition add_health :: "Node \<Rightarrow> NodeHealthStatus \<Rightarrow> HealthIssue list \<Rightarrow> health_totals \<Rightarrow> health_totals" where
  "add_health n h issues t =
     t\<lparr>ht_healthy := (if nh_IsHealthy h then ht_healthy t + 1 else ht_healthy t), ht_total := ht_total t + 1,
       ht_load := ht_load t + nh_SystemLoad h, ht_memory := ht_memory t + nh_MemoryUsage h,
       ht_disk := ht_disk t + nh_DiskUsage h, ht_response := ht_response t + of_int (nh_ResponseTime h div 10 ^ 6),
       ht_nodes := AList.update (nd_ID n) (node_health n h) (ht_nodes t), ht_issues := ht_issues t @ issues\<rparr>"

fun health_loop :: "('s, 'w) rotation_env \<Rightarrow> Node list \<Rightarrow> health_totals \<Rightarrow> ('s, 'w, health_totals) conn_step" where
  "health_loop env [] t = returnS t"
| "health_loop env (n # ns) t =
     bindS (tryS (check_health env (nd_ID n))) (\<lambda>r. case r of
       Inl e \<Rightarrow> bindS (now_of env) (\<lambda>now. health_loop env ns (t\<lparr>ht_total := ht_total t + 1,
         ht_issues := ht_issues t @ [\<lparr>his_Severity = ''warning'', his_Component = ''node'', his_ComponentID = nd_ID n,
           his_Message = ''failed to check node health: '' @ error_text e, his_Timestamp = now\<rparr>]\<rparr>))
     | Inr h \<Rightarrow>
         bindS (issue_loop env (if nh_SystemLoad h > 9 / 10 \<or> nh_MemoryUsage h > 95 / 100 \<or> nh_DiskUsage h > 95 / 100
             then ''critical'' else ''warning'') (nd_ID n) (health_issues h)) (\<lambda>issues.
         health_loop env ns (add_health n h issues t)))"

definition no_metrics :: SystemMetrics where
  "no_metrics = \<lparr>smx_TotalCapacity = 0, smx_UsedCapacity = 0, smx_CapacityUsage = 0, smx_AverageLoad = 0,
     smx_AverageMemory = 0, smx_AverageDisk = 0, smx_AverageResponse = 0\<rparr>"

definition metrics_of :: "health_totals \<Rightarrow> SystemMetrics" where
  "metrics_of t = (let n = of_nat (ht_total t) :: rat in
     \<lparr>smx_TotalCapacity = int (ht_total t) * 100, smx_UsedCapacity = int (ht_total t) - int (ht_healthy t),
      smx_CapacityUsage = of_int (int (ht_total t) - int (ht_healthy t)) / n, smx_AverageLoad = ht_load t / n,
      smx_AverageMemory = ht_memory t / n, smx_AverageDisk = ht_disk t / n,
      smx_AverageResponse = \<lfloor>ht_response t / n\<rfloor>\<rparr>)"

definition ValidateSystemHealth :: "('s, 'w) rotation_env \<Rightarrow> ('s, 'w, HealthReport) conn_step" where
  "ValidateSystemHealth env =
     bindS (now_of env) (\<lambda>start. bindS (in_db list_active) (\<lambda>ns.
     if ns = [] then bindS (now_of env) (\<lambda>now.
       returnS \<lparr>hrp_OverallHealth = ''unhealthy'', hrp_NodeHealth = [], hrp_SystemMetrics = no_metrics,
         hrp_Issues = [\<lparr>his_Severity = ''critical'', his_Component = ''system'', his_ComponentID = [],
           his_Message = ''no active nodes available'', his_Timestamp = now\<rparr>],
         hrp_Recommendations = [''Create at least one active node''], hrp_Timestamp = start\<rparr>)
     else bindS (health_loop env ns \<lparr>ht_healthy = 0, ht_total = 0, ht_load = 0, ht_memory = 0, ht_disk = 0,
         ht_response = 0, ht_nodes = [], ht_issues = []\<rparr>) (\<lambda>t.
       returnS \<lparr>hrp_OverallHealth = health_level (of_nat (ht_healthy t) / of_nat (ht_total t)),
         hrp_NodeHealth = ht_nodes t, hrp_SystemMetrics = metrics_of t, hrp_Issues = ht_issues t,
         hrp_Recommendations = [], hrp_Timestamp = start\<rparr>)))"

section \<open>Capacity report\<close>

definition node_capacity :: "string \<Rightarrow> int \<Rightarrow> int \<Rightarrow> api_NodeCapacity" where
  "node_capacity i peerCount available =
     \<lparr>anc_NodeID = i, anc_MaxPeers = available + peerCount, anc_CurrentPeers = peerCount, anc_AvailablePeers = available,
      anc_CapacityUsed = (if available + peerCount > 0 then of_int peerCount / of_int (available + peerCount) else 0)\<rparr>"

text \<open>The entries, the capacity and the use so far; a node whose counts fail is skipped.\<close>

fun capacity_loop :: "Node list \<Rightarrow> (string \<times> api_NodeCapacity) list \<times> int \<times> int \<Rightarrow> Db
    \<Rightarrow> ((string \<times> api_NodeCapacity) list \<times> int \<times> int) res \<times> Db" where
  "capacity_loop [] acc = returnS acc"
| "capacity_loop (n # ns) (entries, capacity, used) =
     bindS (tryS (peerSvc_CountActiveByNode (nd_ID n))) (\<lambda>c. case c of
       Inl _ \<Rightarrow> capacity_loop ns (entries, capacity, used)
     | Inr k \<Rightarrow> bindS (tryS (GetAvailableIPCount (nd_ID n))) (\<lambda>a. case a of
           Inl _ \<Rightarrow> capacity_loop ns (entries, capacity, used)
         | Inr m \<Rightarrow> let entry = node_capacity (nd_ID n) k m in
             capacity_loop ns (AList.update (nd_ID n) entry entries, capacity + anc_MaxPeers entry,
               used + anc_CurrentPeers entry)))"

definition GetCapacityReport :: "('s, 'w) rotation_env \<Rightarrow> ('s, 'w, CapacityReport) conn_step" where
  "GetCapacityReport env =
     bindS (in_db list_active) (\<lambda>ns. bindS (now_of env) (\<lambda>now.
     bindS (in_db (capacity_loop ns ([], 0, 0))) (\<lambda>(entries, capacity, used).
     returnS \<lparr>crp_TotalCapacity = capacity, crp_TotalUsed = used, crp_TotalAvailable = capacity - used,
       crp_OverallUsage = (if capacity > 0 then of_int used / of_int capacity else 0), crp_Nodes = entries,
       crp_Timestamp = now\<rparr>)))"

section \<open>The totals of the capacity report\<close>

lemma update_new_key: "k \<notin> fst ` set al \<Longrightarrow> AList.update k v al = al @ [(k, v)]"
  by (induction al) auto

lemma count_active_value:
  assumes "peerSvc_CountActiveByNode i d = (Inr n, d')"
  shows "n = int (length (filter (\<lambda>r. p_node_id r = i \<and> p_status r = ''active'') (peers d))) \<and> keep_tables d d'"
proof -
  have "CountActivePeersByNode i d = (Inr n, d')"
    using assms by (simp add: peerSvc_CountActiveByNode_def peerRepo_CountActiveByNode_def split: if_splits)
  then show ?thesis unfolding CountActivePeersByNode_def by (auto dest!: select_many_result simp: keep_tables_def)
qed

definition entry_ok :: "Db \<Rightarrow> string set \<Rightarrow> string \<times> api_NodeCapacity \<Rightarrow> bool" where
  "entry_ok d ids x = (fst x \<in> ids \<and> anc_NodeID (snd x) = fst x \<and>
     anc_CurrentPeers (snd x) = int (length (filter (\<lambda>r. p_node_id r = fst x \<and> p_status r = ''active'') (peers d))) \<and>
     anc_MaxPeers (snd x) = anc_CurrentPeers (snd x) + anc_AvailablePeers (snd x))"

definition capacity_ok :: "Db \<Rightarrow> string set \<Rightarrow> (string \<times> api_NodeCapacity) list \<times> int \<times> int \<Rightarrow> bool" where
  "capacity_ok d ids acc = (case acc of (es, c, u) \<Rightarrow> distinct (map fst es) \<and> (\<forall>x\<in>set es. entry_ok d ids x) \<and>
     c = (\<Sum>x\<leftarrow>es. anc_MaxPeers (snd x)) \<and> u = (\<Sum>x\<leftarrow>es. anc_CurrentPeers (snd x)))"

lemma capacity_ok_add:
  assumes "capacity_ok d ids (es, c, u)" "i \<notin> ids"
    and "k = int (length (filter (\<lambda>r. p_node_id r = i \<and> p_status r = ''active'') (peers d)))"
  shows "capacity_ok d (insert i ids) (AList.update i (node_capacity i k m) es,
    c + anc_MaxPeers (node_capacity i k m), u + anc_CurrentPeers (node_capacity i k m))"
proof -
  have "i \<notin> fst ` set es" using assms(1,2) by (auto simp: capacity_ok_def entry_ok_def)
  then show ?thesis
    using assms by (auto simp: capacity_ok_def update_new_key entry_ok_def node_capacity_def)
qed

lemma capacity_ok_more: "capacity_ok d ids acc \<Longrightarrow> capacity_ok d (insert i ids) acc"
  by (auto simp: capacity_ok_def entry_ok_def)

lemma GetAvailableIPCount_reads: "stays keep_tables (GetAvailableIPCount i)"
  unfolding stays_def
proof
  fix d
  obtain r1 d1 where r1: "repo_GetSubnet i d = (r1, d1)" by (metis surj_pair)
  obtain r2 d2 where r2: "CountPeersByNode i d1 = (r2, d2)" by (metis surj_pair)
  have "keep_tables d d1" using repo_GetSubnet_result [OF r1] by blast
  moreover have "keep_tables d1 d2" using r2 select_keeps(2) unfolding CountPeersByNode_def by (metis snd_conv)
  ultimately show "keep_tables d (snd (GetAvailableIPCount i d))"
    using keep_tables_trans by (auto simp: GetAvailableIPCount_def r1 r2 repo_CountAllocatedIPs_def split: sum.splits)
qed

lemma capacity_loop_ok:
  "capacity_ok d0 ids acc \<Longrightarrow> keep_tables d0 d \<Longrightarrow> distinct (map nd_ID ns) \<Longrightarrow> ids \<inter> nd_ID ` set ns = {} \<Longrightarrow>
   capacity_loop ns acc d = (r, d') \<Longrightarrow>
     keep_tables d0 d' \<and> (\<exists>acc'. r = Inr acc' \<and> capacity_ok d0 (ids \<union> nd_ID ` set ns) acc')"
proof (induction ns acc arbitrary: ids d rule: capacity_loop.induct)
  case (2 n ns es c u)
  obtain q d1 where q: "peerSvc_CountActiveByNode (nd_ID n) d = (q, d1)" by (metis surj_pair)
  have k1: "keep_tables d0 d1" using keep_tables_trans [OF 2(5) staysD [OF cleanup_reads(4) q]] .
  have rest: "insert (nd_ID n) ids \<inter> nd_ID ` set ns = {}" "distinct (map nd_ID ns)"
    "insert (nd_ID n) ids \<union> nd_ID ` set ns = ids \<union> nd_ID ` set (n # ns)" "nd_ID n \<notin> ids"
    using 2(6,7) by auto
  show ?case
  proof (cases q)
    case (Inl e)
    then have "capacity_loop ns (es, c, u) d1 = (r, d')" using 2(8) q by (simp add: bindS_def tryS_def)
    from 2(1) [OF capacity_ok_more [OF 2(4)] k1 rest(2,1) this] show ?thesis unfolding rest(3) .
  next
    case k: (Inr k)
    obtain a d2 where a: "GetAvailableIPCount (nd_ID n) d1 = (a, d2)" by (metis surj_pair)
    have k2: "keep_tables d0 d2" using keep_tables_trans [OF k1 staysD [OF GetAvailableIPCount_reads a]] .
    show ?thesis
    proof (cases a)
      case (Inl e)
      then have "capacity_loop ns (es, c, u) d2 = (r, d')" using 2(8) q k a by (simp add: bindS_def tryS_def)
      from 2(2) [OF capacity_ok_more [OF 2(4)] k2 rest(2,1) this] show ?thesis unfolding rest(3) .
    next
      case (Inr m)
      have run: "capacity_loop ns (AList.update (nd_ID n) (node_capacity (nd_ID n) k m) es,
          c + anc_MaxPeers (node_capacity (nd_ID n) k m), u + anc_CurrentPeers (node_capacity (nd_ID n) k m)) d2 = (r, d')"
        using 2(8) q k a Inr by (simp add: bindS_def tryS_def Let_def)
      have "k = int (length (filter (\<lambda>r. p_node_id r = nd_ID n \<and> p_status r = ''active'') (peers d0)))"
        using count_active_value [of "nd_ID n" d k d1] q k 2(5) by (simp add: keep_tables_def)
      from 2(3) [OF refl capacity_ok_add [OF 2(4) rest(4) this] k2 rest(2,1) run]
      show ?thesis unfolding rest(3) .
    qed
  qed
qed auto

text \<open>The capacity report adds up: its totals are the sums over its entries, every entry is for a
  different active node and counts that node's active peers, and what is available is what the nodes have
  left; making the report changes nothing.\<close>

theorem capacity_report_adds_up:
  assumes ok: "db_ok (cn_db s)" and run: "GetCapacityReport env s = (Inr report, s')"
  shows "keep_tables (cn_db s) (cn_db s') \<and> distinct (map fst (crp_Nodes report)) \<and>
    crp_TotalCapacity report = (\<Sum>x\<leftarrow>crp_Nodes report. anc_MaxPeers (snd x)) \<and>
    crp_TotalUsed report = (\<Sum>x\<leftarrow>crp_Nodes report. anc_CurrentPeers (snd x)) \<and>
    crp_TotalAvailable report = (\<Sum>x\<leftarrow>crp_Nodes report. anc_AvailablePeers (snd x)) \<and>
    (\<forall>(i, entry)\<in>set (crp_Nodes report). (\<exists>row\<in>set (nodes (cn_db s)). n_id row = i \<and> n_status row = ''active'') \<and>
       anc_CurrentPeers entry = int (length (filter (\<lambda>p. p_node_id p = i \<and> p_status p = ''active'') (peers (cn_db s)))))"
proof -
  obtain q d1 where q: "list_active (cn_db s) = (q, d1)" by (metis surj_pair)
  then obtain ns where ns: "q = Inr ns" using run by (cases q) (auto simp: GetCapacityReport_def bindS_def in_db_def)
  obtain now w where now: "ce_now (re_conn env) (cn_world s) = (now, w)" by (metis surj_pair)
  obtain r d2 where loop: "capacity_loop ns ([], 0, 0) d1 = (r, d2)" by (metis surj_pair)
  obtain rows where rows: "keep_tables (cn_db s) d1" "ns = map toDomainNode rows"
    "mset rows = mset (filter (\<lambda>r. n_status r = ''active'') (nodes (cn_db s)))"
    using list_active_result q ns by blast
  have "distinct (map n_id (filter (\<lambda>r. n_status r = ''active'') (nodes (cn_db s))))"
    using ok by (simp add: db_ok_def nodes_ok_def distinct_map_filter)
  moreover have "mset (map n_id rows) = mset (map n_id (filter (\<lambda>r. n_status r = ''active'') (nodes (cn_db s))))"
    using rows(3) by simp
  ultimately have "distinct (map n_id rows)" using mset_eq_imp_distinct_iff by blast
  moreover have idn: "map nd_ID ns = map n_id rows" by (simp add: rows(2) toDomainNode_def)
  ultimately have dn: "distinct (map nd_ID ns)" by simp
  have "capacity_ok (cn_db s) {} ([], 0, 0)" by (simp add: capacity_ok_def)
  from capacity_loop_ok [OF this rows(1) dn _ loop] obtain es c u where
    acc: "keep_tables (cn_db s) d2" "r = Inr (es, c, u)" "capacity_ok (cn_db s) (nd_ID ` set ns) (es, c, u)"
    by (auto simp: capacity_ok_def)
  have rep: "report = \<lparr>crp_TotalCapacity = c, crp_TotalUsed = u, crp_TotalAvailable = c - u,
      crp_OverallUsage = (if c > 0 then of_int u / of_int c else 0), crp_Nodes = es, crp_Timestamp = now\<rparr>" "cn_db s' = d2"
    using run q ns now loop acc(2) by (auto simp: GetCapacityReport_def bindS_def in_db_def now_of_def draw_def)
  have "(\<Sum>x\<leftarrow>es. anc_MaxPeers (snd x)) = (\<Sum>x\<leftarrow>es. anc_CurrentPeers (snd x)) + (\<Sum>x\<leftarrow>es. anc_AvailablePeers (snd x))"
    unfolding sum_list_addf [symmetric] using acc(3)
    by (intro arg_cong [where f = sum_list] map_cong) (auto simp: capacity_ok_def entry_ok_def)
  moreover have "set rows = {row \<in> set (nodes (cn_db s)). n_status row = ''active''}"
    using rows(3) by (metis set_filter set_mset_mset)
  then have "nd_ID ` set ns = n_id ` {row \<in> set (nodes (cn_db s)). n_status row = ''active''}"
    by (metis idn list.set_map)
  then have "\<exists>row\<in>set (nodes (cn_db s)). n_id row = i \<and> n_status row = ''active''" if "i \<in> nd_ID ` set ns" for i
    using that by auto
  moreover have "distinct (map fst es)" "c = (\<Sum>x\<leftarrow>es. anc_MaxPeers (snd x))" "u = (\<Sum>x\<leftarrow>es. anc_CurrentPeers (snd x))"
    "\<forall>x\<in>set es. entry_ok (cn_db s) (nd_ID ` set ns) x"
    using acc(3) unfolding capacity_ok_def prod.case by blast+
  ultimately show ?thesis
    using acc(1) by (simp add: rep entry_ok_def case_prod_beta)
qed

text \<open>Without failures the report is made.\<close>

theorem capacity_report_adds_up_witness:
  "\<exists>report s'. GetCapacityReport example_rotation_env (example_conn one_peer_db) = (Inr report, s') \<and>
     crp_TotalAvailable report = (\<Sum>x\<leftarrow>crp_Nodes report. anc_AvailablePeers (snd x))"
proof -
  have nf: "faults (cn_db (example_conn one_peer_db)) = []" and ok: "db_ok (cn_db (example_conn one_peer_db))"
    using one_peer_db_facts by (simp_all add: example_conn_def)
  have "\<exists>ns. list_active (cn_db (example_conn one_peer_db)) = (Inr ns, cn_db (example_conn one_peer_db))"
    by (simp add: list_active_def nodeSvc_ListNodes_def nodeRepo_List_def GetNodesByStatus_def select_nofault [OF nf] map_errS_def)
  then obtain ns where ns: "list_active (cn_db (example_conn one_peer_db)) = (Inr ns, cn_db (example_conn one_peer_db))" by blast
  obtain rows where rows: "ns = map toDomainNode rows"
    "mset rows = mset (filter (\<lambda>r. n_status r = ''active'') (nodes (cn_db (example_conn one_peer_db))))"
    using list_active_result [OF ns] by blast
  have dn: "distinct (map nd_ID ns)"
  proof -
    have "distinct (map n_id (filter (\<lambda>r. n_status r = ''active'') (nodes (cn_db (example_conn one_peer_db)))))"
      using ok by (simp add: db_ok_def nodes_ok_def distinct_map_filter)
    moreover have "mset (map n_id rows) = mset (map n_id (filter (\<lambda>r. n_status r = ''active'') (nodes (cn_db (example_conn one_peer_db)))))"
      using rows(2) by simp
    ultimately have "distinct (map n_id rows)" using mset_eq_imp_distinct_iff by blast
    moreover have "map nd_ID ns = map n_id rows" by (simp add: rows(1) toDomainNode_def)
    ultimately show ?thesis by simp
  qed
  obtain r d2 where loop: "capacity_loop ns ([], 0, 0) (cn_db (example_conn one_peer_db)) = (r, d2)" by (metis surj_pair)
  have "capacity_ok (cn_db (example_conn one_peer_db)) {} ([], 0, 0)" by (simp add: capacity_ok_def)
  from capacity_loop_ok [OF this keep_tables_refl dn _ loop] obtain acc where acc: "r = Inr acc" by auto
  have "\<exists>report s'. GetCapacityReport example_rotation_env (example_conn one_peer_db) = (Inr report, s')"
    using ns loop acc by (cases acc) (simp add: GetCapacityReport_def bindS_def in_db_def now_of_def draw_def
        example_rotation_env_def example_conn_env_def example_conn_def)
  then obtain report s' where run: "GetCapacityReport example_rotation_env (example_conn one_peer_db) = (Inr report, s')" by blast
  from capacity_report_adds_up [OF ok run] run show ?thesis by blast
qed

end
