(* ===== verification/Scheduler.thy ===== *)
theory Scheduler
  imports DomainErrors
begin

text \<open>
  The scheduler of rotations and cleanups: \<open>internal/rotator/scheduler/manager.go\<close> and
  \<open>unified_scheduler.go\<close>. The goroutines are counted: the scheduling loops, each with the context it was
  started with, and the checks in flight. The steps interleave in any order; a select that has several
  channels ready may take any of them.
\<close>

section \<open>Model\<close>

record UnifiedScheduler =
  us_rotationInterval :: int
  us_cleanupInterval :: int
  us_rotationTicker :: bool
  us_cleanupTicker :: bool
  us_stopClosed :: bool
  us_running :: bool

text \<open>A ticker is live or stopped. The manager holds the context of its last start; the rest is the state of
  the goroutines and contexts.\<close>

record UnifiedManager =
  um_scheduler :: UnifiedScheduler
  um_cancel :: "nat option"
  um_running :: bool
  g_loops :: "nat list"
  g_rotations :: nat
  g_cleanups :: nat
  g_cancelled :: "nat set"
  g_contexts :: nat

definition NewUnifiedManager :: "int \<Rightarrow> int \<Rightarrow> UnifiedManager" where
  "NewUnifiedManager rotationInterval cleanupInterval =
     \<lparr>um_scheduler = \<lparr>us_rotationInterval = rotationInterval, us_cleanupInterval = cleanupInterval,
        us_rotationTicker = False, us_cleanupTicker = False, us_stopClosed = False, us_running = False\<rparr>,
      um_cancel = None, um_running = False, g_loops = [], g_rotations = 0, g_cleanups = 0, g_cancelled = {},
      g_contexts = 0\<rparr>"

text \<open>\<open>Start\<close> of the scheduler: \<open>time.NewTicker\<close> panics on an interval that is not positive. The loop and the
  two first checks start in the background.\<close>

definition us_Start :: "nat \<Rightarrow> UnifiedManager \<Rightarrow> unit res \<times> UnifiedManager" where
  "us_Start context m =
     (let s = um_scheduler m in
      if us_running s then (Inr (), m)
      else let s1 = s\<lparr>us_running := True\<rparr> in
        if us_rotationInterval s \<le> 0 then (Inl (GoPanic ''non-positive interval for NewTicker''), m\<lparr>um_scheduler := s1\<rparr>)
        else let s2 = s1\<lparr>us_rotationTicker := True\<rparr> in
        if us_cleanupInterval s \<le> 0 then (Inl (GoPanic ''non-positive interval for NewTicker''), m\<lparr>um_scheduler := s2\<rparr>)
        else (Inr (), m\<lparr>um_scheduler := s2\<lparr>us_cleanupTicker := True\<rparr>, g_loops := context # g_loops m,
               g_rotations := g_rotations m + 1, g_cleanups := g_cleanups m + 1\<rparr>))"

text \<open>\<open>Stop\<close> of the scheduler: closing a closed channel panics.\<close>

definition us_Stop :: "UnifiedManager \<Rightarrow> unit res \<times> UnifiedManager" where
  "us_Stop m =
     (let s = um_scheduler m in
      if \<not> us_running s then (Inr (), m)
      else let s1 = s\<lparr>us_rotationTicker := False, us_cleanupTicker := False\<rparr> in
        if us_stopClosed s then (Inl (GoPanic ''close of closed channel''), m\<lparr>um_scheduler := s1\<rparr>)
        else (Inr (), m\<lparr>um_scheduler := s1\<lparr>us_stopClosed := True, us_running := False\<rparr>\<rparr>))"

definition us_IsRunning :: "UnifiedScheduler \<Rightarrow> bool" where
  "us_IsRunning s = us_running s"

definition um_Start :: "UnifiedManager \<Rightarrow> unit res \<times> UnifiedManager" where
  "um_Start m =
     (if um_running m then (Inr (), m)
      else let m1 = m\<lparr>um_cancel := Some (g_contexts m), g_contexts := g_contexts m + 1\<rparr> in
        case us_Start (g_contexts m) m1 of
          (Inl e, m2) \<Rightarrow> (Inl e, m2)
        | (Inr _, m2) \<Rightarrow> (Inr (), m2\<lparr>um_running := True\<rparr>))"

definition um_Stop :: "UnifiedManager \<Rightarrow> unit res \<times> UnifiedManager" where
  "um_Stop m =
     (if \<not> um_running m then (Inr (), m)
      else let m1 = (case um_cancel m of None \<Rightarrow> m | Some c \<Rightarrow> m\<lparr>g_cancelled := insert c (g_cancelled m)\<rparr>) in
        case us_Stop m1 of
          (Inl e, m2) \<Rightarrow> (Inl e, m2)
        | (Inr _, m2) \<Rightarrow> (Inr (), m2\<lparr>um_running := False\<rparr>))"

definition um_IsRunning :: "UnifiedManager \<Rightarrow> bool" where
  "um_IsRunning m = um_running m"

text \<open>The steps of the goroutines.\<close>

definition tickers_stopped :: "UnifiedManager \<Rightarrow> UnifiedManager" where
  "tickers_stopped m = m\<lparr>um_scheduler := (um_scheduler m)\<lparr>us_rotationTicker := False, us_cleanupTicker := False\<rparr>\<rparr>"

inductive scheduler_step :: "UnifiedManager \<Rightarrow> UnifiedManager \<Rightarrow> bool" where
  start: "um_Start m = (Inr (), m') \<Longrightarrow> scheduler_step m m'"
| stop: "um_Stop m = (Inr (), m') \<Longrightarrow> scheduler_step m m'"
| cancel: "c < g_contexts m \<Longrightarrow> scheduler_step m (m\<lparr>g_cancelled := insert c (g_cancelled m)\<rparr>)"
| loop_ends: "c \<in> set (g_loops m) \<Longrightarrow> c \<in> g_cancelled m \<or> us_stopClosed (um_scheduler m) \<Longrightarrow>
    scheduler_step m (tickers_stopped (m\<lparr>g_loops := remove1 c (g_loops m)\<rparr>))"
| rotation_tick: "g_loops m \<noteq> [] \<Longrightarrow> us_rotationTicker (um_scheduler m) \<Longrightarrow>
    scheduler_step m (m\<lparr>g_rotations := g_rotations m + 1\<rparr>)"
| cleanup_tick: "g_loops m \<noteq> [] \<Longrightarrow> us_cleanupTicker (um_scheduler m) \<Longrightarrow>
    scheduler_step m (m\<lparr>g_cleanups := g_cleanups m + 1\<rparr>)"
| rotation_ends: "0 < g_rotations m \<Longrightarrow> scheduler_step m (m\<lparr>g_rotations := g_rotations m - 1\<rparr>)"
| cleanup_ends: "0 < g_cleanups m \<Longrightarrow> scheduler_step m (m\<lparr>g_cleanups := g_cleanups m - 1\<rparr>)"

inductive_cases scheduler_stepE: "scheduler_step m m'"

inductive scheduler_reaches :: "UnifiedManager \<Rightarrow> UnifiedManager \<Rightarrow> bool" for m where
  refl: "scheduler_reaches m m"
| step: "scheduler_reaches m m' \<Longrightarrow> scheduler_step m' m'' \<Longrightarrow> scheduler_reaches m m''"

section \<open>The flags and the loops\<close>

text \<open>The flags of the manager and of the scheduler agree; until the scheduler has been stopped, there is one
  loop while it runs, or none when its context has been cancelled, and none before it runs.\<close>

definition scheduler_ok :: "UnifiedManager \<Rightarrow> bool" where
  "scheduler_ok m = (us_running (um_scheduler m) = um_running m \<and>
     (um_running m \<longrightarrow> 0 < us_rotationInterval (um_scheduler m) \<and> 0 < us_cleanupInterval (um_scheduler m)) \<and>
     (\<not> us_stopClosed (um_scheduler m) \<longrightarrow> length (g_loops m) \<le> (if um_running m then 1 else 0)))"

lemma um_Start_Inr:
  "um_Start m = (Inr u, m') \<Longrightarrow> scheduler_ok m \<Longrightarrow> m' = m \<and> um_running m \<or>
     (\<not> um_running m \<and> 0 < us_rotationInterval (um_scheduler m) \<and> 0 < us_cleanupInterval (um_scheduler m) \<and>
      m' = m\<lparr>um_cancel := Some (g_contexts m), g_contexts := g_contexts m + 1, um_running := True,
        um_scheduler := (um_scheduler m)\<lparr>us_running := True, us_rotationTicker := True, us_cleanupTicker := True\<rparr>,
        g_loops := g_contexts m # g_loops m, g_rotations := g_rotations m + 1, g_cleanups := g_cleanups m + 1\<rparr>)"
  by (auto simp: um_Start_def us_Start_def Let_def scheduler_ok_def split: if_splits)

lemma scheduler_ok_step: "scheduler_step m m' \<Longrightarrow> scheduler_ok m \<Longrightarrow> scheduler_ok m'"
proof (induction rule: scheduler_step.cases)
  case (start m m')
  then show ?case using um_Start_Inr [of m "()" m'] by (auto simp: scheduler_ok_def)
next
  case (stop m m')
  then show ?case by (auto simp: um_Stop_def us_Stop_def Let_def scheduler_ok_def split: if_splits option.splits)
next
  case (loop_ends c m)
  then show ?case by (auto simp: scheduler_ok_def tickers_stopped_def length_remove1 split: if_splits)
qed (auto simp: scheduler_ok_def)

lemma scheduler_reaches_ok: "scheduler_reaches m m' \<Longrightarrow> scheduler_ok m \<Longrightarrow> scheduler_ok m'"
  by (induction rule: scheduler_reaches.induct) (auto intro: scheduler_ok_step)

lemma new_manager_ok: "scheduler_ok (NewUnifiedManager a b)"
  by (simp add: scheduler_ok_def NewUnifiedManager_def)

text \<open>However starts, stops, ticks and checks interleave, the two flags agree, and until the first stop
  at most one scheduling loop exists, and only while the scheduler runs.\<close>

theorem scheduler_single_loop:
  assumes "scheduler_reaches (NewUnifiedManager a b) m"
  shows "us_IsRunning (um_scheduler m) = um_IsRunning m \<and>
    (\<not> us_stopClosed (um_scheduler m) \<longrightarrow> length (g_loops m) \<le> 1 \<and> (\<not> um_IsRunning m \<longrightarrow> g_loops m = []))"
  using scheduler_reaches_ok [OF assms new_manager_ok] by (auto simp: scheduler_ok_def us_IsRunning_def um_IsRunning_def split: if_splits)

text \<open>C33: a scheduler that was stopped cannot be used again. A start after a stop reports success and
  \<open>IsRunning\<close> says yes, but the stop channel stays closed, so its loop may end at once, and the next stop
  panics.\<close>

theorem restarted_scheduler_broken:
  assumes reach: "scheduler_reaches (NewUnifiedManager a b) m" and stopped: "us_stopClosed (um_scheduler m)"
    and again: "um_Start m = (Inr (), m')" and idle: "\<not> um_running m"
  shows "um_IsRunning m' \<and> (\<exists>m''. um_Stop m' = (Inl (GoPanic ''close of closed channel''), m'')) \<and>
    (\<exists>m''. scheduler_step m' m'' \<and> length (g_loops m'') = length (g_loops m) \<and> um_IsRunning m'' \<and>
       \<not> us_rotationTicker (um_scheduler m'') \<and> \<not> us_cleanupTicker (um_scheduler m''))"
proof -
  have ok: "scheduler_ok m" by (rule scheduler_reaches_ok [OF reach new_manager_ok])
  have m': "m' = m\<lparr>um_cancel := Some (g_contexts m), g_contexts := g_contexts m + 1, um_running := True,
        um_scheduler := (um_scheduler m)\<lparr>us_running := True, us_rotationTicker := True, us_cleanupTicker := True\<rparr>,
        g_loops := g_contexts m # g_loops m, g_rotations := g_rotations m + 1, g_cleanups := g_cleanups m + 1\<rparr>"
    using um_Start_Inr [OF again ok] idle by simp
  have "um_IsRunning m'" by (simp add: m' um_IsRunning_def)
  moreover have "\<exists>m''. um_Stop m' = (Inl (GoPanic ''close of closed channel''), m'')"
    using stopped by (simp add: m' um_Stop_def us_Stop_def Let_def)
  moreover have "\<exists>m''. scheduler_step m' m'' \<and> length (g_loops m'') = length (g_loops m) \<and> um_IsRunning m'' \<and>
       \<not> us_rotationTicker (um_scheduler m'') \<and> \<not> us_cleanupTicker (um_scheduler m'')"
  proof (intro exI conjI)
    show "scheduler_step m' (tickers_stopped (m'\<lparr>g_loops := remove1 (g_contexts m) (g_loops m')\<rparr>))"
      by (rule scheduler_step.loop_ends) (simp_all add: m' stopped)
  qed (simp_all add: m' tickers_stopped_def um_IsRunning_def)
  ultimately show ?thesis by blast
qed

text \<open>Nothing keeps a check from starting while earlier ones still run: with positive intervals any
  number of rotations can be in flight at once.\<close>

theorem overlapping_rotations_reachable:
  assumes "0 < a" "0 < b"
  shows "\<exists>m. scheduler_reaches (NewUnifiedManager a b) m \<and> um_IsRunning m \<and> n \<le> g_rotations m"
proof -
  have "\<exists>m. scheduler_reaches (NewUnifiedManager a b) m \<and> um_running m \<and> g_loops m \<noteq> [] \<and>
      us_rotationTicker (um_scheduler m) \<and> n \<le> g_rotations m"
  proof (induction n)
    case 0
    obtain m where start: "um_Start (NewUnifiedManager a b) = (Inr (), m)"
      and m: "um_running m" "g_loops m \<noteq> []" "us_rotationTicker (um_scheduler m)"
      using assms by (simp add: um_Start_def us_Start_def NewUnifiedManager_def)
    then show ?case by (blast intro: scheduler_reaches.intros scheduler_step.start)
  next
    case (Suc n)
    then obtain m where m: "scheduler_reaches (NewUnifiedManager a b) m" "um_running m" "g_loops m \<noteq> []"
      "us_rotationTicker (um_scheduler m)" "n \<le> g_rotations m" by blast
    have "scheduler_reaches (NewUnifiedManager a b) (m\<lparr>g_rotations := g_rotations m + 1\<rparr>)"
      by (rule scheduler_reaches.step [OF m(1) scheduler_step.rotation_tick [OF m(3,4)]])
    then show ?case using m by (intro exI [of _ "m\<lparr>g_rotations := g_rotations m + 1\<rparr>"]) simp
  qed
  then show ?thesis by (auto simp: um_IsRunning_def)
qed

section \<open>Examples\<close>

lemma restart_run:
  "\<exists>m m'. scheduler_reaches (NewUnifiedManager 1 1) m \<and> us_stopClosed (um_scheduler m) \<and> \<not> um_running m \<and>
     um_Start m = (Inr (), m')"
proof -
  obtain m1 where m1: "um_Start (NewUnifiedManager 1 1) = (Inr (), m1)" by (simp add: um_Start_def us_Start_def NewUnifiedManager_def)
  obtain m2 where m2: "um_Stop m1 = (Inr (), m2)" and closed: "us_stopClosed (um_scheduler m2)" "\<not> um_running m2"
    "\<exists>m'. um_Start m2 = (Inr (), m')"
    using m1 by (auto simp: um_Start_def us_Start_def um_Stop_def us_Stop_def NewUnifiedManager_def)
  have "scheduler_reaches (NewUnifiedManager 1 1) m2"
    by (rule scheduler_reaches.step [OF scheduler_reaches.step [OF scheduler_reaches.refl scheduler_step.start [OF m1]]
        scheduler_step.stop [OF m2]])
  then show ?thesis using closed by blast
qed

theorem scheduler_single_loop_witness:
  "\<exists>m. scheduler_reaches (NewUnifiedManager 1 1) m \<and> us_IsRunning (um_scheduler m) = um_IsRunning m"
proof -
  obtain m where m: "scheduler_reaches (NewUnifiedManager 1 1) m" using restart_run by blast
  from scheduler_single_loop [OF m] m show ?thesis by blast
qed

theorem restarted_scheduler_broken_witness:
  "\<exists>m. scheduler_reaches (NewUnifiedManager 1 1) m \<and>
     (\<exists>m' m''. um_Start m = (Inr (), m') \<and> um_Stop m' = (Inl (GoPanic ''close of closed channel''), m''))"
proof -
  obtain m m' where m: "scheduler_reaches (NewUnifiedManager 1 1) m" "us_stopClosed (um_scheduler m)" "\<not> um_running m"
    "um_Start m = (Inr (), m')" using restart_run by blast
  from restarted_scheduler_broken [OF m(1,2,4,3)] m show ?thesis by blast
qed

theorem overlapping_rotations_reachable_witness:
  "\<exists>m. scheduler_reaches (NewUnifiedManager 1 1) m \<and> um_IsRunning m \<and> 2 \<le> g_rotations m"
  by (rule overlapping_rotations_reachable) simp_all

end
