(* ===== verification/Http.thy ===== *)
theory Http
  imports PeerConnect
begin

text \<open>
  The layers of the HTTP server below its handlers: \<open>internal/rotator/api/middleware.go\<close>,
  \<open>responses.go\<close>, \<open>validation.go\<close> and the routes of \<open>server.go\<close>, over \<open>net/http\<close> and
  \<open>encoding/json\<close>. The members of a JSON object have no order; a time stands for its text.
\<close>

section \<open>JSON\<close>

datatype json = JNull | JBool bool | JInt int | JFloat rat | JStr string | JTime int
  | JArr "json list" | JObj "(string \<times> json) list"

text \<open>The zero \<open>time.Time\<close>, in nanoseconds since 1970.\<close>

definition zero_time :: int where
  "zero_time = - 62135596800 * 10 ^ 9"

text \<open>Members of an object: a member with \<open>omitempty\<close> is left out when it has its zero value.\<close>

definition omit_text :: "string \<Rightarrow> string \<Rightarrow> (string \<times> json) list" where
  "omit_text k v = (if v = [] then [] else [(k, JStr v)])"

definition omit_none :: "string \<Rightarrow> ('a \<Rightarrow> json) \<Rightarrow> 'a option \<Rightarrow> (string \<times> json) list" where
  "omit_none k enc v = (case v of None \<Rightarrow> [] | Some x \<Rightarrow> [(k, enc x)])"

definition omit_empty :: "string \<Rightarrow> ('a \<Rightarrow> json) \<Rightarrow> 'a list \<Rightarrow> (string \<times> json) list" where
  "omit_empty k enc xs = (if xs = [] then [] else [(k, JArr (map enc xs))])"

fun meta_json :: "meta_value \<Rightarrow> json" where
  "meta_json (MString t) = JStr t"
| "meta_json (MInt n) = JInt n"
| "meta_json (MBool b) = JBool b"

subsection \<open>Decoding\<close>

text \<open>The fields of a struct by their JSON names; a name is matched exactly or, failing that, without regard
  to case. Each decoder gets the value of the member and the struct so far.\<close>

type_synonym 'r fields = "(string \<times> (json \<Rightarrow> 'r \<Rightarrow> 'r res)) list"

definition find_field :: "'r fields \<Rightarrow> string \<Rightarrow> (json \<Rightarrow> 'r \<Rightarrow> 'r res) option" where
  "find_field fs k = (case map_of fs k of
       Some f \<Rightarrow> Some f
     | None \<Rightarrow> map_option snd (find (\<lambda>(name, _). to_lower name = to_lower k) fs))"

fun decode_members :: "'r fields \<Rightarrow> (string \<times> json) list \<Rightarrow> 'r \<Rightarrow> 'r res" where
  "decode_members fs [] r = Inr r"
| "decode_members fs ((k, v) # ms) r =
     (case find_field fs k of
        None \<Rightarrow> Inl (PlainError (''json: unknown field '' @ [CHR 0x22] @ k @ [CHR 0x22]))
      | Some f \<Rightarrow> bindr (f v r) (decode_members fs ms))"

definition type_mismatch :: "'a res" where
  "type_mismatch = Inl (PlainError ''json: cannot unmarshal value'')"

text \<open>A value of another JSON type is an error; \<open>null\<close> sets a pointer to nil and leaves everything else.\<close>

fun decode_struct :: "'r fields \<Rightarrow> json \<Rightarrow> 'r \<Rightarrow> 'r res" where
  "decode_struct fs (JObj ms) r = decode_members fs ms r"
| "decode_struct fs JNull r = Inr r"
| "decode_struct fs _ r = type_mismatch"

definition decode_text :: "(string \<Rightarrow> 'r \<Rightarrow> 'r) \<Rightarrow> json \<Rightarrow> 'r \<Rightarrow> 'r res" where
  "decode_text upd v r = (case v of JStr t \<Rightarrow> Inr (upd t r) | JNull \<Rightarrow> Inr r | _ \<Rightarrow> type_mismatch)"

definition decode_text_ptr :: "(string option \<Rightarrow> 'r \<Rightarrow> 'r) \<Rightarrow> json \<Rightarrow> 'r \<Rightarrow> 'r res" where
  "decode_text_ptr upd v r = (case v of JStr t \<Rightarrow> Inr (upd (Some t) r) | JNull \<Rightarrow> Inr (upd None r) | _ \<Rightarrow> type_mismatch)"

definition decode_bool :: "(bool \<Rightarrow> 'r \<Rightarrow> 'r) \<Rightarrow> json \<Rightarrow> 'r \<Rightarrow> 'r res" where
  "decode_bool upd v r = (case v of JBool b \<Rightarrow> Inr (upd b r) | JNull \<Rightarrow> Inr r | _ \<Rightarrow> type_mismatch)"

definition decode_int :: "(int \<Rightarrow> 'r \<Rightarrow> 'r) \<Rightarrow> json \<Rightarrow> 'r \<Rightarrow> 'r res" where
  "decode_int upd v r = (case v of
       JInt n \<Rightarrow> if - (2 ^ 63) \<le> n \<and> n < 2 ^ 63 then Inr (upd n r) else type_mismatch
     | JNull \<Rightarrow> Inr r | _ \<Rightarrow> type_mismatch)"

section \<open>Requests and responses\<close>

text \<open>The body is what the JSON parser makes of its first value. \<open>Get\<close> of a header or of the query gives the
  empty text when there is none. The path is as it was sent; the context carries the request identifier.\<close>

record request =
  rq_Method :: string
  rq_Path :: string
  rq_Header :: "string \<Rightarrow> string"
  rq_Query :: "string \<Rightarrow> string"
  rq_Body :: "json res"
  rq_PathValue :: "string \<Rightarrow> string"
  rq_RequestID :: "string option"

type_synonym header = "string \<rightharpoonup> string"

datatype body = BJson json | BText string

text \<open>The connection: the header as the handlers see it, the status code with the header as it was sent, the
  body; of the wrapper of the logging middleware the code it keeps and whether it was written to; and what
  that middleware logged.\<close>

record writer =
  w_Header :: header
  w_sent :: "(int \<times> header) option"
  w_body :: "body list"
  w_statusCode :: int
  w_written :: bool
  w_log :: "(string \<times> string \<times> int) list"

definition set_header :: "string \<Rightarrow> string \<Rightarrow> writer \<Rightarrow> writer" where
  "set_header k v w = w\<lparr>w_Header := (w_Header w)(k \<mapsto> v)\<rparr>"

text \<open>\<open>net/http\<close>: only the first status code counts, and the header is sent with it.\<close>

definition net_WriteHeader :: "int \<Rightarrow> writer \<Rightarrow> writer" where
  "net_WriteHeader code w = (case w_sent w of Some _ \<Rightarrow> w | None \<Rightarrow> w\<lparr>w_sent := Some (code, w_Header w)\<rparr>)"

definition net_Write :: "body \<Rightarrow> writer \<Rightarrow> writer" where
  "net_Write b w = (let w' = net_WriteHeader 200 w in w'\<lparr>w_body := w_body w' @ [b]\<rparr>)"

text \<open>The wrapper \<open>responseWriter\<close>; the count of bytes, which nothing reads, is left out.\<close>

definition rw_WriteHeader :: "int \<Rightarrow> writer \<Rightarrow> writer" where
  "rw_WriteHeader code w =
     (if w_written w then w else (net_WriteHeader code (w\<lparr>w_statusCode := code\<rparr>))\<lparr>w_written := True\<rparr>)"

definition rw_Write :: "body \<Rightarrow> writer \<Rightarrow> writer" where
  "rw_Write b w = net_Write b (if w_written w then w else rw_WriteHeader 200 w)"

text \<open>The methods of an \<open>http.ResponseWriter\<close>: the connection itself or the wrapper.\<close>

type_synonym writer_ops = "(int \<Rightarrow> writer \<Rightarrow> writer) \<times> (body \<Rightarrow> writer \<Rightarrow> writer)"

definition net_writer :: writer_ops where
  "net_writer = (net_WriteHeader, net_Write)"

definition wrapped_writer :: writer_ops where
  "wrapped_writer = (rw_WriteHeader, rw_Write)"

section \<open>Responses\<close>

definition WriteJSON :: "writer_ops \<Rightarrow> int \<Rightarrow> json \<Rightarrow> writer \<Rightarrow> writer" where
  "WriteJSON ops code data w =
     snd ops (BJson data) (fst ops code (set_header ''Content-Type'' ''application/json'' w))"

definition WriteSuccess :: "writer_ops \<Rightarrow> json \<Rightarrow> writer \<Rightarrow> writer" where
  "WriteSuccess ops data = WriteJSON ops 200 (JObj [(''success'', JBool True), (''data'', data)])"

definition mapErrorCodeToHTTP :: "go_error \<Rightarrow> int \<times> string" where
  "mapErrorCodeToHTTP e =
     (let code = GetErrorCode e; errMsg = error_text e in
      if code \<in> {ErrCodeValidation, ErrCodePeerValidation, ErrCodeInvalidCIDR, ErrCodeInvalidIPAddress}
      then (400, ''Validation failed: '' @ errMsg)
      else if code \<in> {ErrCodeNodeNotFound, ErrCodePeerNotFound, ErrCodeSubnetNotFound}
      then (404, ''Resource not found: '' @ errMsg)
      else if code \<in> {ErrCodeNodeConflict, ErrCodePeerConflict, ErrCodePeerIPConflict, ErrCodePeerKeyConflict}
      then (409, ''Resource conflict: '' @ errMsg)
      else if code = ErrCodeNodeNotReady
      then (503, ''Service is not ready, provisioning in progress. Please try again.'')
      else if code \<in> {ErrCodeNodeAtCapacity, ErrCodeCapacityExceeded, ErrCodeSubnetExhausted}
      then (503, ''Service capacity exceeded. Please try again later.'')
      else (500, ''An internal server error occurred''))"

fun Metadata :: "go_error \<Rightarrow> (string \<times> meta_value) list" where
  "Metadata (BaseError d c m r cause md) = md"
| "Metadata e = []"

fun print_meta :: "meta_value \<Rightarrow> string" where
  "print_meta (MString t) = t"
| "print_meta (MInt n) = (if n < 0 then ''-'' @ dec (nat (- n)) else dec (nat n))"
| "print_meta (MBool b) = (if b then ''true'' else ''false'')"

definition retry_after :: "go_error \<Rightarrow> string option" where
  "retry_after e =
     (if GetErrorCode e = ErrCodeNodeNotReady
      then map_option print_meta (case map_of (Metadata e) ''retry_after_sec'' of
             Some v \<Rightarrow> Some v | None \<Rightarrow> map_of (Metadata e) ''estimated_wait_sec'')
      else None)"

definition error_info :: "request \<Rightarrow> string \<Rightarrow> string \<Rightarrow> (string \<times> meta_value) list \<Rightarrow> json" where
  "error_info r code message md =
     JObj [(''success'', JBool False), (''error'', JObj
       ([(''code'', JStr code), (''message'', JStr message)] @
        omit_text ''request_id'' (case rq_RequestID r of Some i \<Rightarrow> i | None \<Rightarrow> []) @
        (if md = [] then [] else [(''metadata'', JObj (map (\<lambda>(k, v). (k, meta_json v)) md))])))]"

definition WriteErrorResponse :: "writer_ops \<Rightarrow> request \<Rightarrow> go_error \<Rightarrow> writer \<Rightarrow> writer" where
  "WriteErrorResponse ops r e w =
     (if IsDomainError e
      then let (statusCode, message) = mapErrorCodeToHTTP e;
               w' = (case retry_after e of Some t \<Rightarrow> set_header ''Retry-After'' t w | None \<Rightarrow> w)
           in WriteJSON ops statusCode (error_info r (GetErrorCode e) message (Metadata e)) w'
      else WriteJSON ops 500 (error_info r ErrCodeInternal ''An internal server error occurred'' []) w)"

section \<open>Validation\<close>

text \<open>The requests of \<open>pkg/api/requests.go\<close>.\<close>

record api_ConnectRequest =
  acq_PublicKey :: "string option"
  acq_GenerateKeys :: bool

record DisconnectRequest =
  dq_PeerID :: string

definition connect_fields :: "api_ConnectRequest fields" where
  "connect_fields = [(''public_key'', decode_text_ptr (\<lambda>t r. r\<lparr>acq_PublicKey := t\<rparr>)),
     (''generate_keys'', decode_bool (\<lambda>b r. r\<lparr>acq_GenerateKeys := b\<rparr>))]"

definition disconnect_fields :: "DisconnectRequest fields" where
  "disconnect_fields = [(''peer_id'', decode_text (\<lambda>t r. r\<lparr>dq_PeerID := t\<rparr>))]"

definition cleanup_fields :: "CleanupOptions fields" where
  "cleanup_fields = [(''inactive_peers'', decode_bool (\<lambda>b r. r\<lparr>co_InactivePeers := b\<rparr>)),
     (''orphaned_nodes'', decode_bool (\<lambda>b r. r\<lparr>co_OrphanedNodes := b\<rparr>)),
     (''unused_subnets'', decode_bool (\<lambda>b r. r\<lparr>co_UnusedSubnets := b\<rparr>)),
     (''inactive_minutes'', decode_int (\<lambda>n r. r\<lparr>co_InactiveMinutes := n\<rparr>)),
     (''dry_run'', decode_bool (\<lambda>b r. r\<lparr>co_DryRun := b\<rparr>))]"

definition ParseJSONRequest :: "'r fields \<Rightarrow> 'r \<Rightarrow> request \<Rightarrow> 'r res" where
  "ParseJSONRequest fs zero r =
     (if \<not> str_contains (rq_Header r ''Content-Type'') ''application/json''
      then Inl (NewDomainAPIError ErrCodeValidation ''content-type must be application/json'' False None)
      else case bindr (rq_Body r) (\<lambda>v. decode_struct fs v zero) of
        Inl e \<Rightarrow> Inl (NewDomainAPIError ErrCodeValidation ''invalid JSON'' False (Some e))
      | Inr x \<Rightarrow> Inr x)"

definition api_validateWireGuardPublicKey :: "string \<Rightarrow> unit res" where
  "api_validateWireGuardPublicKey key =
     (if key = [] \<or> \<not> IsValidWireGuardKey key
      then Inl (NewDomainAPIError ErrCodeValidation ''public key cannot be empty'' False None) else Inr ())"

definition ValidateConnectRequest :: "api_ConnectRequest \<Rightarrow> unit res" where
  "ValidateConnectRequest req =
     (if acq_PublicKey req = None \<and> \<not> acq_GenerateKeys req
      then Inl (WithMetadata (NewDomainAPIError ErrCodeValidation
             ''either provide a public_key or set generate_keys to true'' False None) ''field'' (MString ''public_key''))
      else bindr (case acq_PublicKey req of Some key \<Rightarrow> api_validateWireGuardPublicKey key | None \<Rightarrow> Inr ()) (\<lambda>_.
      if acq_PublicKey req \<noteq> None \<and> acq_GenerateKeys req
      then Inl (WithMetadata (NewDomainAPIError ErrCodeValidation
             ''cannot provide public_key and request key generation simultaneously'' False None)
             ''field'' (MString ''generate_keys''))
      else Inr ()))"

definition ValidateDisconnectRequest :: "DisconnectRequest \<Rightarrow> unit res" where
  "ValidateDisconnectRequest req =
     (if trim_space (dq_PeerID req) = []
      then Inl (WithMetadata (NewDomainAPIError ErrCodeValidation ''peer_id is required and cannot be empty'' False None)
             ''field'' (MString ''peer_id''))
      else Inr ())"

definition isValidPeerStatus :: "string \<Rightarrow> bool" where
  "isValidPeerStatus status = (status \<in> {''active'', ''disconnected'', ''removing''})"

text \<open>\<open>strconv.Atoi\<close>; its error says whether the text is no number or out of range.\<close>

definition Atoi :: "string \<Rightarrow> int res" where
  "Atoi s = (case ParseInt64 s of
       Some n \<Rightarrow> Inr n
     | None \<Rightarrow> let ds = (if s \<noteq> [] \<and> hd s \<in> {CHR ''-'', CHR ''+''} then tl s else s) in
         Inl (PlainError (''strconv.Atoi: parsing '' @ [CHR 0x22] @ s @ [CHR 0x22] @
           (if ds \<noteq> [] \<and> list_all is_digit ds then '': value out of range'' else '': invalid syntax''))))"

definition bad_param :: "string \<Rightarrow> string \<Rightarrow> go_error option \<Rightarrow> 'a res" where
  "bad_param name message cause =
     Inl (WithMetadata (NewDomainAPIError ErrCodeValidation message False cause) ''field'' (MString name))"

text \<open>A number in a query: nothing when it is absent.\<close>

definition number_param :: "request \<Rightarrow> string \<Rightarrow> (int \<Rightarrow> bool) \<Rightarrow> string \<Rightarrow> int option res" where
  "number_param r name ok message =
     (let t = rq_Query r name in
      if t = [] then Inr None
      else case Atoi t of
        Inl e \<Rightarrow> bad_param name message (Some e)
      | Inr n \<Rightarrow> if ok n then Inr (Some n) else bad_param name message None)"

definition ValidatePeerListParams :: "request \<Rightarrow> PeerListParams res" where
  "ValidatePeerListParams r =
     (let node = rq_Query r ''node_id''; status = rq_Query r ''status'' in
      if node \<noteq> [] \<and> trim_space node = [] then bad_param ''node_id'' ''node_id cannot be empty'' None
      else if status \<noteq> [] \<and> \<not> isValidPeerStatus status
      then bad_param ''status'' ''status must be one of: active, disconnected, removing'' None
      else bindr (number_param r ''limit'' (\<lambda>n. \<not> (n < 1 \<or> n > 1000)) ''limit must be a number between 1 and 1000'') (\<lambda>limit.
           bindr (number_param r ''offset'' (\<lambda>n. \<not> n < 0) ''offset must be a non-negative number'') (\<lambda>offset.
           Inr \<lparr>lp_NodeID = (if node = [] then None else Some node),
                lp_Status = (if status = [] then None else Some status), lp_Limit = limit, lp_Offset = offset\<rparr>)))"

end
