(* ===== verification/ApiJson.thy ===== *)
theory ApiJson
  imports Http Admin
begin

text \<open>
  The response types of \<open>pkg/api/responses.go\<close> with their JSON form, and \<open>internal/rotator/api/converters.go\<close>,
  which turns the types of the services into them.
\<close>

section \<open>Converters\<close>

definition ConvertToServiceConnectRequest :: "api_ConnectRequest \<Rightarrow> ConnectRequest" where
  "ConvertToServiceConnectRequest req =
     \<lparr>cq_Protocol = None, cq_Identifier = None, cq_PublicKey = acq_PublicKey req, cq_GenerateKeys = acq_GenerateKeys req\<rparr>"

record api_Peer =
  ap_ID :: string
  ap_PublicKey :: string
  ap_AllocatedIP :: string
  ap_Status :: string
  ap_NodeID :: string
  ap_ServerIP :: string
  ap_ServerStatus :: string
  ap_CreatedAt :: int
  ap_LastHandshakeAt :: "int option"

definition ConvertToAPIPeerStatus :: "svc_PeerStatus \<Rightarrow> api_Peer" where
  "ConvertToAPIPeerStatus p =
     \<lparr>ap_ID = sps_PeerID p, ap_PublicKey = sps_PublicKey p, ap_AllocatedIP = sps_AllocatedIP p, ap_Status = sps_Status p,
      ap_NodeID = sps_NodeID p, ap_ServerIP = sps_ServerIP p, ap_ServerStatus = sps_ServerStatus p,
      ap_CreatedAt = sps_ConnectedAt p, ap_LastHandshakeAt = None\<rparr>"

record PeersList =
  pls_Peers :: "api_Peer list"
  pls_TotalCount :: int
  pls_Offset :: int
  pls_Limit :: int

definition api_peer_of :: "PeerInfo \<Rightarrow> api_Peer" where
  "api_peer_of p =
     \<lparr>ap_ID = pi_ID p, ap_PublicKey = pi_PublicKey p, ap_AllocatedIP = pi_AllocatedIP p, ap_Status = pi_Status p,
      ap_NodeID = pi_NodeID p, ap_ServerIP = [], ap_ServerStatus = [], ap_CreatedAt = pi_CreatedAt p,
      ap_LastHandshakeAt = pi_LastHandshakeAt p\<rparr>"

definition ConvertToAPIPeersListResponse :: "PeersListResponse \<Rightarrow> PeersList" where
  "ConvertToAPIPeersListResponse l =
     \<lparr>pls_Peers = map api_peer_of (plr_Peers l), pls_TotalCount = plr_TotalCount l, pls_Offset = plr_Offset l,
      pls_Limit = plr_Limit l\<rparr>"

record ConnectResponse =
  cr_PeerID :: string
  cr_ServerPublicKey :: string
  cr_ServerIP :: string
  cr_ServerPort :: int
  cr_ClientIP :: string
  cr_ClientPrivateKey :: "string option"
  cr_DNS :: "string list"
  cr_AllowedIPs :: "string list"

record PeerConnectionStatus =
  pct_RequestID :: string
  pct_PeerID :: string
  pct_Phase :: string
  pct_Progress :: rat
  pct_IsActive :: bool
  pct_Message :: string
  pct_ErrorMessage :: string
  pct_StartedAt :: int
  pct_LastUpdated :: int
  pct_EstimatedETA :: "int option"
  pct_ConnectionDetails :: "ConnectResponse option"

definition connection_details :: "PeerConnectionState \<Rightarrow> ConnectResponse option" where
  "connection_details st =
     (if pcs_Phase st = ''completed'' \<and> pcs_PeerID st \<noteq> []
      then Some \<lparr>cr_PeerID = pcs_PeerID st, cr_ServerPublicKey = pcs_ServerPublicKey st, cr_ServerIP = pcs_ServerIP st,
        cr_ServerPort = pcs_ServerPort st, cr_ClientIP = pcs_AllocatedIP st, cr_ClientPrivateKey = pcs_ClientPrivateKey st,
        cr_DNS = [''1.1.1.1'', ''8.8.8.8''], cr_AllowedIPs = [''0.0.0.0/0'']\<rparr>
      else None)"

definition connection_status :: "PeerConnectionState \<Rightarrow> PeerConnectionStatus" where
  "connection_status st =
     \<lparr>pct_RequestID = pcs_RequestID st, pct_PeerID = pcs_PeerID st, pct_Phase = pcs_Phase st, pct_Progress = pcs_Progress st,
      pct_IsActive = pcs_IsActive st, pct_Message = pcs_Message st, pct_ErrorMessage = pcs_ErrorMessage st,
      pct_StartedAt = pcs_StartedAt st, pct_LastUpdated = pcs_LastUpdated st, pct_EstimatedETA = pcs_EstimatedETA st,
      pct_ConnectionDetails = connection_details st\<rparr>"

section \<open>JSON\<close>

definition peer_json :: "api_Peer \<Rightarrow> json" where
  "peer_json p = JObj ([(''id'', JStr (ap_ID p)), (''public_key'', JStr (ap_PublicKey p)),
     (''allocated_ip'', JStr (ap_AllocatedIP p)), (''status'', JStr (ap_Status p)), (''node_id'', JStr (ap_NodeID p))] @
     omit_text ''server_ip'' (ap_ServerIP p) @ omit_text ''server_status'' (ap_ServerStatus p) @
     [(''created_at'', JTime (ap_CreatedAt p))] @ omit_none ''last_handshake_at'' JTime (ap_LastHandshakeAt p))"

definition peers_list_json :: "PeersList \<Rightarrow> json" where
  "peers_list_json l = JObj [(''peers'', JArr (map peer_json (pls_Peers l))), (''total_count'', JInt (pls_TotalCount l)),
     (''offset'', JInt (pls_Offset l)), (''limit'', JInt (pls_Limit l))]"

definition connect_response_json :: "ConnectResponse \<Rightarrow> json" where
  "connect_response_json c = JObj ([(''peer_id'', JStr (cr_PeerID c)), (''server_public_key'', JStr (cr_ServerPublicKey c)),
     (''server_ip'', JStr (cr_ServerIP c)), (''server_port'', JInt (cr_ServerPort c)), (''client_ip'', JStr (cr_ClientIP c))] @
     omit_none ''client_private_key'' JStr (cr_ClientPrivateKey c) @
     [(''dns'', JArr (map JStr (cr_DNS c))), (''allowed_ips'', JArr (map JStr (cr_AllowedIPs c)))])"

definition connection_status_json :: "PeerConnectionStatus \<Rightarrow> json" where
  "connection_status_json c = JObj ([(''request_id'', JStr (pct_RequestID c))] @ omit_text ''peer_id'' (pct_PeerID c) @
     [(''phase'', JStr (pct_Phase c)), (''progress'', JFloat (pct_Progress c)), (''is_active'', JBool (pct_IsActive c))] @
     omit_text ''message'' (pct_Message c) @ omit_text ''error_message'' (pct_ErrorMessage c) @
     [(''started_at'', JTime (pct_StartedAt c)), (''last_updated'', JTime (pct_LastUpdated c))] @
     omit_none ''estimated_eta'' JTime (pct_EstimatedETA c) @
     omit_none ''connection_details'' connect_response_json (pct_ConnectionDetails c))"

definition disconnect_json :: "string \<Rightarrow> string \<Rightarrow> json" where
  "disconnect_json message peerID = JObj [(''message'', JStr message), (''peer_id'', JStr peerID)]"

definition provisioning_json :: "ProvisioningInfo \<Rightarrow> json" where
  "provisioning_json p = JObj ([(''is_active'', JBool (pri_IsActive p))] @ omit_text ''phase'' (pri_Phase p) @
     [(''progress'', JFloat (pri_Progress p))] @ omit_none ''estimated_eta'' JTime (pri_EstimatedETA p))"

definition health_json :: "ProvisioningInfo option \<Rightarrow> json" where
  "health_json p = JObj ([(''status'', JStr ''healthy''), (''version'', JStr ''1.0.0'')] @
     omit_none ''provisioning'' provisioning_json p)"

definition counts_json :: "(string \<times> int) list \<Rightarrow> json" where
  "counts_json m = JObj (map (\<lambda>(k, n). (k, JInt n)) m)"

definition node_status_json :: "api_NodeStatus \<Rightarrow> json" where
  "node_status_json n = JObj ([(''node_id'', JStr (ans_NodeID n)), (''status'', JStr (ans_Status n)),
     (''peer_count'', JInt (ans_PeerCount n)), (''is_healthy'', JBool (ans_IsHealthy n)),
     (''system_load'', JFloat (ans_SystemLoad n)), (''memory_usage'', JFloat (ans_MemoryUsage n)),
     (''disk_usage'', JFloat (ans_DiskUsage n))] @
     (if ans_ResponseTime n = 0 then [] else [(''response_time_ms'', JInt (ans_ResponseTime n))]) @
     omit_empty ''issues'' JStr (ans_Issues n) @ [(''timestamp'', JTime (ans_Timestamp n))])"

definition statuses_json :: "(string \<times> api_NodeStatus) list \<Rightarrow> json" where
  "statuses_json m = JObj (map (\<lambda>(k, n). (k, node_status_json n)) m)"

definition system_status_json :: "SystemStatus \<Rightarrow> json" where
  "system_status_json st = JObj ([(''total_nodes'', JInt (sys_TotalNodes st)), (''active_nodes'', JInt (sys_ActiveNodes st)),
     (''total_peers'', JInt (sys_TotalPeers st)), (''active_peers'', JInt (sys_ActivePeers st)),
     (''node_distribution'', counts_json (sys_NodeDistribution st)), (''system_health'', JStr (sys_SystemHealth st)),
     (''node_statuses'', statuses_json (sys_NodeStatuses st))] @
     omit_none ''provisioning'' provisioning_json (sys_Provisioning st) @ [(''timestamp'', JTime (sys_Timestamp st))])"

definition node_statistics_json :: "api_NodeStatistics \<Rightarrow> json" where
  "node_statistics_json st = JObj [(''total_nodes'', JInt (ast_TotalNodes st)), (''active_nodes'', JInt (ast_ActiveNodes st)),
     (''provisioning_nodes'', JInt (ast_ProvisioningNodes st)), (''unhealthy_nodes'', JInt (ast_UnhealthyNodes st)),
     (''average_load'', JFloat (ast_AverageLoad st)), (''average_memory'', JFloat (ast_AverageMemory st)),
     (''average_disk'', JFloat (ast_AverageDisk st)), (''node_distribution'', counts_json (ast_NodeDistribution st)),
     (''timestamp'', JTime (ast_Timestamp st))]"

definition peer_statistics_json :: "PeerStatsResponse \<Rightarrow> json" where
  "peer_statistics_json st = JObj [(''total_peers'', JInt (psr_TotalPeers st)), (''active_nodes'', JInt (psr_ActiveNodes st)),
     (''distribution'', counts_json (psr_Distribution st)), (''timestamp'', JTime (psr_Timestamp st))]"

text \<open>A \<open>time.Time\<close> is a struct, which \<open>omitempty\<close> never leaves out.\<close>

definition rotation_status_json :: "RotationStatus \<Rightarrow> json" where
  "rotation_status_json st = JObj ([(''in_progress'', JBool (rs_InProgress st)), (''last_rotation'', JTime (rs_LastRotation st)),
     (''nodes_rotated'', JInt (rs_NodesRotated st)), (''peers_migrated'', JInt (rs_PeersMigrated st))] @
     omit_text ''rotation_reason'' (rs_RotationReason st) @
     [(''estimated_complete'', JTime (case rs_EstimatedComplete st of Some t \<Rightarrow> t | None \<Rightarrow> zero_time))])"

text \<open>The handler sets the duration and the timestamp of a \<open>CleanupResult\<close>, nothing else.\<close>

definition cleanup_result_json :: "int \<Rightarrow> int \<Rightarrow> json" where
  "cleanup_result_json duration now = JObj [(''peers_removed'', JInt 0), (''nodes_destroyed'', JInt 0),
     (''subnets_released'', JInt 0), (''duration_ms'', JInt duration), (''timestamp'', JTime now)]"

definition metrics_json :: "SystemMetrics \<Rightarrow> json" where
  "metrics_json m = JObj [(''total_capacity'', JInt (smx_TotalCapacity m)), (''used_capacity'', JInt (smx_UsedCapacity m)),
     (''capacity_usage'', JFloat (smx_CapacityUsage m)), (''average_load'', JFloat (smx_AverageLoad m)),
     (''average_memory'', JFloat (smx_AverageMemory m)), (''average_disk'', JFloat (smx_AverageDisk m)),
     (''average_response_ms'', JInt (smx_AverageResponse m))]"

definition issue_json :: "HealthIssue \<Rightarrow> json" where
  "issue_json i = JObj ([(''severity'', JStr (his_Severity i)), (''component'', JStr (his_Component i))] @
     omit_text ''component_id'' (his_ComponentID i) @
     [(''message'', JStr (his_Message i)), (''timestamp'', JTime (his_Timestamp i))])"

definition health_report_json :: "HealthReport \<Rightarrow> json" where
  "health_report_json h = JObj ([(''overall_health'', JStr (hrp_OverallHealth h)),
     (''node_health'', statuses_json (hrp_NodeHealth h)), (''system_metrics'', metrics_json (hrp_SystemMetrics h))] @
     omit_empty ''issues'' issue_json (hrp_Issues h) @ omit_empty ''recommendations'' JStr (hrp_Recommendations h) @
     [(''timestamp'', JTime (hrp_Timestamp h))])"

end
