(* ===== verification/Api.thy ===== *)
theory Api
  imports ApiJson
begin

text \<open>
  The HTTP API: the middleware of \<open>internal/rotator/api/middleware.go\<close>, the routes of \<open>server.go\<close>, and the
  handlers of \<open>handlers_peer.go\<close>, \<open>handlers_admin.go\<close> and \<open>handlers_health.go\<close> with \<open>converters.go\<close>,
  over the services. A handler that panics ends with a panic as its error.
\<close>

section \<open>Steps of a handler\<close>

type_synonym ('s, 'w, 'a) api_step = "writer \<times> ('s, 'w) conn \<Rightarrow> 'a res \<times> (writer \<times> ('s, 'w) conn)"
type_synonym ('s, 'w) http_handler = "request \<Rightarrow> ('s, 'w, unit) api_step"

text \<open>The services behind the server, the provisioning tracker as it stands when a request is served, the
  configured origins, and the file server of the static files, which belongs to \<open>net/http\<close>.\<close>

record ('s, 'w) server =
  srv_rotation :: "('s, 'w) rotation_env"
  srv_order :: "prov_tracker \<Rightarrow> prov_tracker"
  srv_tracker :: prov_tracker
  srv_corsOrigins :: "string list"
  srv_static :: "request \<Rightarrow> writer \<Rightarrow> writer"

definition in_conn :: "('s, 'w, 'a) conn_step \<Rightarrow> ('s, 'w, 'a) api_step" where
  "in_conn m x = (case m (snd x) of (r, s) \<Rightarrow> (r, (fst x, s)))"

definition on_writer :: "(writer \<Rightarrow> writer) \<Rightarrow> ('s, 'w, unit) api_step" where
  "on_writer f x = (Inr (), (f (fst x), snd x))"

definition write_error :: "request \<Rightarrow> go_error \<Rightarrow> ('s, 'w, unit) api_step" where
  "write_error r e = on_writer (WriteErrorResponse wrapped_writer r e)"

definition write_success :: "json \<Rightarrow> ('s, 'w, unit) api_step" where
  "write_success data = on_writer (WriteSuccess wrapped_writer data)"

text \<open>\<open>x, err := f(); if err != nil { WriteErrorResponse(w, r, err); return }\<close>\<close>

definition or_error :: "request \<Rightarrow> ('s, 'w, 'a) api_step \<Rightarrow> ('a \<Rightarrow> ('s, 'w, unit) api_step) \<Rightarrow> ('s, 'w, unit) api_step" where
  "or_error r m k = bindS (attempt m) (\<lambda>x. case x of Inl e \<Rightarrow> write_error r e | Inr a \<Rightarrow> k a)"

section \<open>Middleware\<close>

type_synonym ('s, 'w) middleware = "('s, 'w) http_handler \<Rightarrow> ('s, 'w) http_handler"

definition Chain :: "('s, 'w) middleware list \<Rightarrow> ('s, 'w) middleware" where
  "Chain ms final = foldr (\<lambda>m h. m h) ms final"

definition RequestID :: "('s, 'w) server \<Rightarrow> ('s, 'w) middleware" where
  "RequestID srv next r =
     bindS (if rq_Header r ''X-Request-ID'' = [] then in_conn (draw (ce_uuid (re_conn (srv_rotation srv))))
            else returnS (rq_Header r ''X-Request-ID'')) (\<lambda>requestID.
     bindS (on_writer (set_header ''X-Request-ID'' requestID)) (\<lambda>_.
     next (r\<lparr>rq_RequestID := Some requestID\<rparr>)))"

definition panic_text :: "go_error \<Rightarrow> string" where
  "panic_text e = drop 7 (error_text e)"

text \<open>The error of a handler that panicked is its panic; it is answered on the connection itself.\<close>

definition Recovery :: "('s, 'w) middleware" where
  "Recovery next r =
     bindS (tryS (next r)) (\<lambda>x. case x of
       Inr _ \<Rightarrow> returnS ()
     | Inl p \<Rightarrow> on_writer (WriteErrorResponse net_writer r (WithMetadata (WithMetadata
         (NewSystemError ErrCodeInternal ''panic recovered'' False (Some (PlainError (panic_text p))))
         ''path'' (MString (rq_Path r))) ''method'' (MString (rq_Method r)))))"

definition Logging :: "('s, 'w) middleware" where
  "Logging next r =
     bindS (on_writer (\<lambda>w. w\<lparr>w_statusCode := 200, w_written := False\<rparr>)) (\<lambda>_.
     bindS (next r) (\<lambda>_.
     on_writer (\<lambda>w. w\<lparr>w_log := w_log w @ [(rq_Method r, rq_Path r, w_statusCode w)]\<rparr>)))"

definition origin_allowed :: "string list \<Rightarrow> string \<Rightarrow> bool" where
  "origin_allowed allowedOrigins origin = list_ex (\<lambda>a. a = ''*'' \<or> a = origin) allowedOrigins"

definition cors_headers :: "string list \<Rightarrow> string \<Rightarrow> writer \<Rightarrow> writer" where
  "cors_headers allowedOrigins origin w =
     (if origin_allowed allowedOrigins origin
      then set_header ''Access-Control-Max-Age'' ''3600''
        (set_header ''Access-Control-Expose-Headers'' ''X-Request-ID, Retry-After''
        (set_header ''Access-Control-Allow-Headers'' ''Content-Type, Authorization, X-Request-ID''
        (set_header ''Access-Control-Allow-Methods'' ''GET, POST, PUT, DELETE, OPTIONS''
        (if origin \<noteq> [] then set_header ''Access-Control-Allow-Origin'' origin w
         else if allowedOrigins \<noteq> [] \<and> hd allowedOrigins = ''*'' then set_header ''Access-Control-Allow-Origin'' ''*'' w
         else w))))
      else w)"

definition CORS :: "string list \<Rightarrow> ('s, 'w) middleware" where
  "CORS allowedOrigins next r =
     bindS (on_writer (cors_headers allowedOrigins (rq_Header r ''Origin''))) (\<lambda>_.
     if rq_Method r = ''OPTIONS'' then on_writer (rw_WriteHeader 204) else next r)"

section \<open>Handlers\<close>

definition connectHandler :: "('s, 'w) server \<Rightarrow> ('s, 'w) http_handler" where
  "connectHandler srv r =
     or_error r (liftS (ParseJSONRequest connect_fields \<lparr>acq_PublicKey = None, acq_GenerateKeys = False\<rparr> r)) (\<lambda>req.
     or_error r (liftS (ValidateConnectRequest req)) (\<lambda>_.
     or_error r (in_conn (ConnectPeerAsync (re_conn (srv_rotation srv)) (ConvertToServiceConnectRequest req))) (\<lambda>requestID.
     bindS (on_writer (rw_WriteHeader 202)) (\<lambda>_.
     write_success (JObj [(''request_id'', JStr requestID),
       (''message'', JStr (''Connection request accepted. Poll /api/v1/connections/'' @ requestID @ '' for status''))])))))"

definition disconnectHandler :: "('s, 'w) server \<Rightarrow> ('s, 'w) http_handler" where
  "disconnectHandler srv r =
     or_error r (liftS (ParseJSONRequest disconnect_fields \<lparr>dq_PeerID = []\<rparr> r)) (\<lambda>req.
     or_error r (liftS (ValidateDisconnectRequest req)) (\<lambda>_.
     or_error r (in_conn (DisconnectPeer (re_conn (srv_rotation srv)) (dq_PeerID req))) (\<lambda>_.
     write_success (disconnect_json ''Peer disconnected successfully'' (dq_PeerID req)))))"

definition listPeersHandler :: "('s, 'w) http_handler" where
  "listPeersHandler r =
     or_error r (liftS (ValidatePeerListParams r)) (\<lambda>params.
     or_error r (in_conn (in_db (conn_ListPeers params))) (\<lambda>l.
     write_success (peers_list_json (ConvertToAPIPeersListResponse l))))"

definition getPeerHandler :: "('s, 'w) http_handler" where
  "getPeerHandler r =
     (if rq_PathValue r ''peerID'' = []
      then write_error r (NewDomainAPIError ErrCodeValidation ''Peer ID is required in URL path'' False None)
      else or_error r (in_conn (in_db (GetPeerStatus (rq_PathValue r ''peerID'')))) (\<lambda>st.
           write_success (peer_json (ConvertToAPIPeerStatus st))))"

definition getConnectionStatusHandler :: "('s, 'w) http_handler" where
  "getConnectionStatusHandler r =
     (if rq_PathValue r ''requestID'' = []
      then write_error r (NewDomainAPIError ErrCodeValidation ''Request ID is required in URL path'' False None)
      else or_error r (\<lambda>x. (GetConnectionStatus (rq_PathValue r ''requestID'') (cn_tracker (snd x)), x)) (\<lambda>st.
           write_success (connection_status_json (connection_status st))))"

definition systemStatusHandler :: "('s, 'w) server \<Rightarrow> ('s, 'w) http_handler" where
  "systemStatusHandler srv r =
     or_error r (in_conn (GetSystemStatus (srv_rotation srv) (srv_order srv) (Some (srv_tracker srv)))) (\<lambda>st.
     write_success (system_status_json st))"

definition nodeStatsHandler :: "('s, 'w) server \<Rightarrow> ('s, 'w) http_handler" where
  "nodeStatsHandler srv r =
     or_error r (in_conn (admin_GetNodeStatistics (srv_rotation srv))) (\<lambda>st. write_success (node_statistics_json st))"

definition peerStatsHandler :: "('s, 'w) server \<Rightarrow> ('s, 'w) http_handler" where
  "peerStatsHandler srv r =
     or_error r (in_conn (admin_GetPeerStatistics (srv_rotation srv))) (\<lambda>st. write_success (peer_statistics_json st))"

definition forceRotationHandler :: "('s, 'w) server \<Rightarrow> ('s, 'w) http_handler" where
  "forceRotationHandler srv r =
     or_error r (in_conn (ForceRotation (srv_rotation srv))) (\<lambda>_.
     write_success (JObj [(''message'', JStr ''Node rotation initiated successfully'')]))"

definition rotationStatusHandler :: "('s, 'w) server \<Rightarrow> ('s, 'w) http_handler" where
  "rotationStatusHandler srv r =
     or_error r (in_conn (GetRotationStatus (srv_rotation srv))) (\<lambda>st. write_success (rotation_status_json st))"

text \<open>The operation was started, and its clock read, before the body was parsed.\<close>

definition manualCleanupHandler :: "('s, 'w) server \<Rightarrow> ('s, 'w) http_handler" where
  "manualCleanupHandler srv r =
     bindS (in_conn (now_of (srv_rotation srv))) (\<lambda>start.
     or_error r (liftS (ParseJSONRequest cleanup_fields \<lparr>co_InactivePeers = False, co_OrphanedNodes = False,
         co_UnusedSubnets = False, co_InactiveMinutes = 0, co_DryRun = False\<rparr> r)) (\<lambda>options.
     or_error r (in_conn (in_db_world (CleanupInactiveResourcesWithOptions (re_destroy (srv_rotation srv)) options))) (\<lambda>_.
     bindS (in_conn (now_of (srv_rotation srv))) (\<lambda>now.
     bindS (in_conn (now_of (srv_rotation srv))) (\<lambda>later.
     write_success (cleanup_result_json ((later - start) div 10 ^ 6) now))))))"

definition systemHealthHandler :: "('s, 'w) server \<Rightarrow> ('s, 'w) http_handler" where
  "systemHealthHandler srv r =
     or_error r (in_conn (ValidateSystemHealth (srv_rotation srv))) (\<lambda>h. write_success (health_report_json h))"

definition orch_GetProvisioningStatus :: "('s, 'w) server \<Rightarrow> ProvisioningState option" where
  "orch_GetProvisioningStatus srv = GetActiveProvisioning (srv_order srv) (srv_tracker srv)"

definition no_provisioning :: ProvisioningInfo where
  "no_provisioning = \<lparr>pri_IsActive = False, pri_Phase = [], pri_Progress = 0, pri_EstimatedETA = None\<rparr>"

definition provisioningStatusHandler :: "('s, 'w) server \<Rightarrow> ('s, 'w) http_handler" where
  "provisioningStatusHandler srv r =
     write_success (provisioning_json (case orch_GetProvisioningStatus srv of
       None \<Rightarrow> no_provisioning | Some st \<Rightarrow> provisioning_info st))"

definition healthHandler :: "('s, 'w) server \<Rightarrow> ('s, 'w) http_handler" where
  "healthHandler srv r =
     write_success (health_json
       (if IsProvisioning (srv_tracker srv) then map_option provisioning_info (orch_GetProvisioningStatus srv) else None))"

section \<open>Routes\<close>

datatype endpoint = StaticFiles | Health | Connect | Disconnect | ListPeers | GetPeer | GetConnection | SystemStatusRoute
  | NodeStats | PeerStats | RotationForce | RotationInfo | ManualCleanup | SystemHealth | ProvisioningRoute

datatype segment = Lit string | Wild string

text \<open>Method, path and handler. The first route stands for a whole subtree.\<close>

definition routes :: "(string option \<times> segment list \<times> endpoint) list" where
  "routes =
     [(None, [Lit ''static''], StaticFiles),
      (None, [Lit ''health''], Health),
      (Some ''POST'', [Lit ''api'', Lit ''v1'', Lit ''connect''], Connect),
      (Some ''DELETE'', [Lit ''api'', Lit ''v1'', Lit ''disconnect''], Disconnect),
      (Some ''GET'', [Lit ''api'', Lit ''v1'', Lit ''peers''], ListPeers),
      (Some ''GET'', [Lit ''api'', Lit ''v1'', Lit ''peers'', Wild ''peerID''], GetPeer),
      (Some ''GET'', [Lit ''api'', Lit ''v1'', Lit ''connections'', Wild ''requestID''], GetConnection),
      (Some ''GET'', [Lit ''api'', Lit ''v1'', Lit ''admin'', Lit ''status''], SystemStatusRoute),
      (Some ''GET'', [Lit ''api'', Lit ''v1'', Lit ''admin'', Lit ''nodes'', Lit ''stats''], NodeStats),
      (Some ''GET'', [Lit ''api'', Lit ''v1'', Lit ''admin'', Lit ''peers'', Lit ''stats''], PeerStats),
      (Some ''POST'', [Lit ''api'', Lit ''v1'', Lit ''admin'', Lit ''rotation'', Lit ''force''], RotationForce),
      (Some ''GET'', [Lit ''api'', Lit ''v1'', Lit ''admin'', Lit ''rotation'', Lit ''status''], RotationInfo),
      (Some ''POST'', [Lit ''api'', Lit ''v1'', Lit ''admin'', Lit ''cleanup''], ManualCleanup),
      (Some ''GET'', [Lit ''api'', Lit ''v1'', Lit ''admin'', Lit ''health''], SystemHealth),
      (Some ''GET'', [Lit ''api'', Lit ''v1'', Lit ''provisioning'', Lit ''status''], ProvisioningRoute)]"

text \<open>\<open>http.ServeMux\<close>: the cleaned path, its unescaped segments (a slash at the end is a segment of its own), and
  the values of the wildcards, which match one segment each.\<close>

definition hex_value :: "char \<Rightarrow> nat option" where
  "hex_value c = (if is_digit c then Some (digit_val c)
     else if of_char c \<in> {65..70 :: nat} then Some (of_char c - 55)
     else if of_char c \<in> {97..102 :: nat} then Some (of_char c - 87) else None)"

fun unescape :: "string \<Rightarrow> string option" where
  "unescape [] = Some []"
| "unescape (c # cs) =
     (if c = CHR 0x25 then
        case cs of
          a # b # rest \<Rightarrow>
            (case (hex_value a, hex_value b) of
               (Some x, Some y) \<Rightarrow> map_option (\<lambda>t. char_of (16 * x + y) # t) (unescape rest)
             | _ \<Rightarrow> None)
        | _ \<Rightarrow> None
      else map_option (\<lambda>t. c # t) (unescape cs))"

definition path_unescape :: "string \<Rightarrow> string" where
  "path_unescape t = (case unescape t of Some u \<Rightarrow> u | None \<Rightarrow> t)"

definition segments :: "string \<Rightarrow> string list" where
  "segments path = (let ss = tl (split_on (CHR ''/'') path) in
     if ss = [] then [] else map path_unescape (butlast ss) @ [if last ss = [] then ''/'' else path_unescape (last ss)])"

fun clean_segments :: "string list \<Rightarrow> string list \<Rightarrow> string list" where
  "clean_segments acc [] = rev acc"
| "clean_segments acc (t # ts) =
     (if t = [] \<or> t = ''.'' then clean_segments acc ts
      else if t = ''..'' then clean_segments (drop 1 acc) ts
      else clean_segments (t # acc) ts)"

definition clean_path :: "string \<Rightarrow> string" where
  "clean_path p =
     (let q = (if p = [] \<or> hd p \<noteq> CHR ''/'' then CHR ''/'' # p else p);
          np = CHR ''/'' # str_join ''/'' (clean_segments [] (split_on (CHR ''/'') q))
      in if last q = CHR ''/'' \<and> np \<noteq> ''/'' then np @ ''/'' else np)"

fun match_segments :: "segment list \<Rightarrow> string list \<Rightarrow> (string \<times> string) list option" where
  "match_segments [] [] = Some []"
| "match_segments (Lit a # ps) (t # ts) = (if a = t then match_segments ps ts else None)"
| "match_segments (Wild x # ps) (t # ts) = (if t = ''/'' then None else map_option (\<lambda>m. (x, t) # m) (match_segments ps ts))"
| "match_segments _ _ = None"

definition match_path :: "segment list \<times> endpoint \<Rightarrow> string list \<Rightarrow> (string \<times> string) list option" where
  "match_path p ts =
     (if snd p = StaticFiles then if length ts \<ge> 2 \<and> match_segments (fst p) (take 1 ts) = Some [] then Some [] else None
      else match_segments (fst p) ts)"

definition method_fits :: "string option \<Rightarrow> string \<Rightarrow> bool" where
  "method_fits m method = (m = None \<or> m = Some method \<or> (m = Some ''GET'' \<and> method = ''HEAD''))"

datatype route_result = Found endpoint "(string \<times> string) list" | Redirect string | MethodNotAllowed "string list" | NotFound

definition allowed_methods :: "string list \<Rightarrow> string list" where
  "allowed_methods ts = filter (\<lambda>m. list_ex (\<lambda>(rm, p). method_fits rm m \<and> match_path p ts \<noteq> None) routes)
     [''DELETE'', ''GET'', ''HEAD'', ''POST'']"

definition route :: "string \<Rightarrow> string \<Rightarrow> route_result" where
  "route method path =
     (let p = clean_path path; ts = segments p in
      if ts = [''static''] then Redirect ''/static/''
      else if p \<noteq> path then Redirect p
      else case find (\<lambda>(m, q). method_fits m method \<and> match_path q ts \<noteq> None) routes of
        Some (m, q) \<Rightarrow> Found (snd q) (the (match_path q ts))
      | None \<Rightarrow> if allowed_methods ts \<noteq> [] then MethodNotAllowed (allowed_methods ts) else NotFound)"

definition dispatch :: "('s, 'w) server \<Rightarrow> endpoint \<Rightarrow> ('s, 'w) http_handler" where
  "dispatch srv ep r = (case ep of
       StaticFiles \<Rightarrow> on_writer (srv_static srv r)
     | Health \<Rightarrow> healthHandler srv r
     | Connect \<Rightarrow> connectHandler srv r
     | Disconnect \<Rightarrow> disconnectHandler srv r
     | ListPeers \<Rightarrow> listPeersHandler r
     | GetPeer \<Rightarrow> getPeerHandler r
     | GetConnection \<Rightarrow> getConnectionStatusHandler r
     | SystemStatusRoute \<Rightarrow> systemStatusHandler srv r
     | NodeStats \<Rightarrow> nodeStatsHandler srv r
     | PeerStats \<Rightarrow> peerStatsHandler srv r
     | RotationForce \<Rightarrow> forceRotationHandler srv r
     | RotationInfo \<Rightarrow> rotationStatusHandler srv r
     | ManualCleanup \<Rightarrow> manualCleanupHandler srv r
     | SystemHealth \<Rightarrow> systemHealthHandler srv r
     | ProvisioningRoute \<Rightarrow> provisioningStatusHandler srv r)"

text \<open>\<open>http.Error\<close>.\<close>

definition http_Error :: "string \<Rightarrow> int \<Rightarrow> writer \<Rightarrow> writer" where
  "http_Error t code w = rw_Write (BText (t @ [CHR 0x0A])) (rw_WriteHeader code
     (set_header ''X-Content-Type-Options'' ''nosniff'' (set_header ''Content-Type'' ''text/plain; charset=utf-8'' w)))"

definition path_values :: "(string \<times> string) list \<Rightarrow> string \<Rightarrow> string" where
  "path_values m k = (case map_of m k of Some v \<Rightarrow> v | None \<Rightarrow> [])"

definition mux :: "('s, 'w) server \<Rightarrow> ('s, 'w) http_handler" where
  "mux srv r = (case route (rq_Method r) (rq_Path r) of
       Found ep values \<Rightarrow> dispatch srv ep (r\<lparr>rq_PathValue := path_values values\<rparr>)
     | Redirect p \<Rightarrow> on_writer (\<lambda>w. rw_WriteHeader 301 (set_header ''Location'' p w))
     | MethodNotAllowed ms \<Rightarrow> on_writer (\<lambda>w. http_Error ''Method Not Allowed'' 405 (set_header ''Allow'' (str_join '', '' ms) w))
     | NotFound \<Rightarrow> on_writer (http_Error ''404 page not found'' 404))"

definition registerRoutes :: "('s, 'w) server \<Rightarrow> ('s, 'w) http_handler" where
  "registerRoutes srv = Chain [RequestID srv, Recovery, Logging, CORS (srv_corsOrigins srv)] (mux srv)"

text \<open>A request on a new connection: when nothing was sent, the server sends the code 200 at the end.\<close>

definition new_writer :: writer where
  "new_writer = \<lparr>w_Header = Map.empty, w_sent = None, w_body = [], w_statusCode = 0, w_written = False, w_log = []\<rparr>"

definition serve :: "('s, 'w) server \<Rightarrow> request \<Rightarrow> ('s, 'w) conn \<Rightarrow> unit res \<times> (writer \<times> ('s, 'w) conn)" where
  "serve srv r s = (case registerRoutes srv r (new_writer, s) of
       (Inr _, (w, s')) \<Rightarrow> (Inr (), (net_WriteHeader 200 w, s'))
     | (Inl e, x) \<Rightarrow> (Inl e, x))"

end
