(* ===== verification/ApiProps.thy ===== *)
theory ApiProps
  imports Api
begin

text \<open>What every answer of the API looks like, and what the routes do to the state.\<close>

section \<open>Routes\<close>

lemma route_examples:
  "route ''GET'' ''/api/v1/peers/p%201'' = Found GetPeer [(''peerID'', ''p 1'')]"
  "route ''HEAD'' ''/api/v1/peers'' = Found ListPeers []"
  "route ''PUT'' ''/api/v1/peers'' = MethodNotAllowed [''GET'', ''HEAD'']"
  "route ''GET'' ''/api//v1/./peers/'' = Redirect ''/api/v1/peers/''"
  "route ''GET'' ''/api/v1/peers/'' = NotFound"
  "route ''GET'' ''/static/app.js'' = Found StaticFiles []"
  "route ''GET'' ''/static'' = Redirect ''/static/''"
  by code_simp+

section \<open>The shape of an answer\<close>

text \<open>Nothing was sent yet; the header names the request.\<close>

definition unsent :: "string \<Rightarrow> writer \<Rightarrow> bool" where
  "unsent i w = (w_sent w = None \<and> w_body w = [] \<and> \<not> w_written w \<and> w_log w = [] \<and> w_Header w ''X-Request-ID'' = Some i \<and>
     w_Header w ''Content-Type'' = None \<and> w_Header w ''Retry-After'' = None)"

definition json_type :: "header \<Rightarrow> bool" where
  "json_type h = (h ''Content-Type'' = Some ''application/json'')"

definition success_body :: "body list \<Rightarrow> bool" where
  "success_body b = (\<exists>data. b = [BJson (JObj [(''success'', JBool True), (''data'', data)])])"

text \<open>The error object has a code and a message and names the request.\<close>

definition error_body :: "string \<Rightarrow> body list \<Rightarrow> bool" where
  "error_body i b = (\<exists>code message md. b = [BJson (JObj [(''success'', JBool False), (''error'', JObj
     ([(''code'', JStr code), (''message'', JStr message)] @ omit_text ''request_id'' i @ md))])])"

definition answer_ok :: "string \<Rightarrow> int \<Rightarrow> header \<Rightarrow> body list \<Rightarrow> bool" where
  "answer_ok i code h b = (h ''X-Request-ID'' = Some i \<and>
     ((code = 200 \<and> json_type h \<and> success_body b) \<or>
      (code = 202 \<and> h ''Content-Type'' = None \<and> success_body b) \<or>
      (code \<in> {400, 404, 409, 500, 503} \<and> json_type h \<and> error_body i b \<and> (h ''Retry-After'' \<noteq> None \<longrightarrow> code = 503)) \<or>
      (code \<in> {404, 405} \<and> (\<exists>t. b = [BText t])) \<or> (code \<in> {204, 301} \<and> b = [])))"

definition answered :: "string \<Rightarrow> writer \<Rightarrow> bool" where
  "answered i w = (\<exists>code h. w_sent w = Some (code, h) \<and> answer_ok i code h (w_body w))"

text \<open>An answer through the wrapper, which keeps the code for the log.\<close>

definition handled :: "string \<Rightarrow> writer \<Rightarrow> bool" where
  "handled i w = (\<exists>code h. w_sent w = Some (code, h) \<and> answer_ok i code h (w_body w) \<and> w_statusCode w = code \<and> w_log w = [])"

lemmas writer_defs = net_writer_def wrapped_writer_def net_WriteHeader_def net_Write_def rw_WriteHeader_def rw_Write_def
  set_header_def

lemma wrapped_json:
  "w_sent w = None \<Longrightarrow> \<not> w_written w \<Longrightarrow> WriteJSON wrapped_writer code data w =
     w\<lparr>w_Header := (w_Header w)(''Content-Type'' \<mapsto> ''application/json''), w_statusCode := code, w_written := True,
       w_sent := Some (code, (w_Header w)(''Content-Type'' \<mapsto> ''application/json'')), w_body := w_body w @ [BJson data]\<rparr>"
  by (simp add: WriteJSON_def writer_defs)

lemma net_json:
  "w_sent w = None \<Longrightarrow> WriteJSON net_writer code data w =
     w\<lparr>w_Header := (w_Header w)(''Content-Type'' \<mapsto> ''application/json''),
       w_sent := Some (code, (w_Header w)(''Content-Type'' \<mapsto> ''application/json'')), w_body := w_body w @ [BJson data]\<rparr>"
  by (simp add: WriteJSON_def writer_defs)

lemma error_codes: "fst (mapErrorCodeToHTTP e) \<in> {400, 404, 409, 500, 503}"
  by (simp add: mapErrorCodeToHTTP_def Let_def)

lemma retry_after_503: "retry_after e = Some t \<Longrightarrow> fst (mapErrorCodeToHTTP e) = 503"
  by (auto simp: retry_after_def mapErrorCodeToHTTP_def Let_def split: if_splits)

lemma error_info_body: "rq_RequestID r = Some i \<Longrightarrow> error_body i [BJson (error_info r code message md)]"
  by (auto simp: error_body_def error_info_def)

lemma error_response:
  assumes "unsent i w" "rq_RequestID r = Some i"
  obtains code data w' where "WriteErrorResponse ops r e w = WriteJSON ops code data w'" "error_body i [BJson data]"
    "code \<in> {400, 404, 409, 500, 503}" "w' = w \<or> (code = 503 \<and> (\<exists>t. w' = set_header ''Retry-After'' t w))"
proof (cases "IsDomainError e")
  case True
  obtain code message where c: "mapErrorCodeToHTTP e = (code, message)" by (metis surj_pair)
  then have code: "code \<in> {400, 404, 409, 500, 503}" using error_codes [of e] by simp
  show thesis
  proof (cases "retry_after e")
    case None
    show thesis
      by (rule that [OF _ error_info_body [OF assms(2)] code]) (use True c None in \<open>auto simp: WriteErrorResponse_def\<close>)
  next
    case (Some t)
    then have "code = 503" using retry_after_503 c by fastforce
    then show thesis
      by (intro that [OF _ error_info_body [OF assms(2)] code]) (use True c Some in \<open>auto simp: WriteErrorResponse_def\<close>)
  qed
next
  case False
  show thesis
    by (rule that [where code = 500 and w' = w, OF _ error_info_body [OF assms(2)]])
      (use False in \<open>auto simp: WriteErrorResponse_def\<close>)
qed

lemma error_handled:
  assumes "unsent i w" "rq_RequestID r = Some i"
  shows "handled i (WriteErrorResponse wrapped_writer r e w)"
  using assms by (rule error_response [where ops = wrapped_writer and e = e])
    (use assms(1) in \<open>auto simp: wrapped_json set_header_def unsent_def handled_def answer_ok_def json_type_def\<close>)

lemma success_handled: "unsent i w \<Longrightarrow> handled i (WriteSuccess wrapped_writer data w)"
  by (simp add: WriteSuccess_def wrapped_json unsent_def handled_def answer_ok_def json_type_def success_body_def)

text \<open>The status code is sent before the content type is set.\<close>

lemma accepted_handled: "unsent i w \<Longrightarrow> handled i (WriteSuccess wrapped_writer data (rw_WriteHeader 202 w))"
  by (simp add: WriteSuccess_def WriteJSON_def writer_defs unsent_def handled_def answer_ok_def success_body_def)

lemma plain_handled:
  "unsent i w \<Longrightarrow> handled i (rw_WriteHeader 301 (set_header ''Location'' p w))"
  "unsent i w \<Longrightarrow> handled i (rw_WriteHeader 204 w)"
  "unsent i w \<Longrightarrow> handled i (http_Error ''404 page not found'' 404 w)"
  "unsent i w \<Longrightarrow> handled i (http_Error ''Method Not Allowed'' 405 (set_header ''Allow'' t w))"
  by (simp_all add: http_Error_def writer_defs unsent_def handled_def answer_ok_def)

subsection \<open>Handlers\<close>

text \<open>A handler answers, or it panics before anything was sent.\<close>

definition answers :: "string \<Rightarrow> ('s, 'w, 'a) api_step \<Rightarrow> bool" where
  "answers i m = hoare (\<lambda>x. unsent i (fst x)) m (\<lambda>_ x. handled i (fst x)) (\<lambda>_ x. unsent i (fst x))"

definition silent :: "('s, 'w, 'a) api_step \<Rightarrow> bool" where
  "silent m = (\<forall>x. fst (snd (m x)) = fst x)"

lemma silent_steps: "silent (in_conn m)" "silent (liftS r)" "silent (returnS y)" "silent (failS e)"
  by (simp_all add: silent_def in_conn_def liftS_def split: prod.splits)

lemma silent_attempt: "silent m \<Longrightarrow> silent (attempt m)"
  by (simp add: silent_def attempt_def bindS_def tryS_def split: prod.splits sum.splits)

lemma answers_bind:
  assumes "silent m" "\<And>a. answers i (k a)"
  shows "answers i (bindS m k)"
  unfolding answers_def
proof (rule hoare_bind)
  show "hoare (\<lambda>x. unsent i (fst x)) m (\<lambda>_ x. unsent i (fst x)) (\<lambda>_ x. unsent i (fst x))"
  proof (rule hoareI)
    show "unsent i (fst x')" if "unsent i (fst x)" "m x = (Inr a, x')" for x a x'
      using that assms(1) unfolding silent_def by (metis snd_conv)
    show "unsent i (fst x')" if "unsent i (fst x)" "m x = (Inl e, x')" for x e x'
      using that assms(1) unfolding silent_def by (metis snd_conv)
  qed
qed (use assms(2) in \<open>simp add: answers_def\<close>)

lemma answers_writer: "(\<And>w. unsent i w \<Longrightarrow> handled i (f w)) \<Longrightarrow> answers i (on_writer f)"
  by (auto simp: answers_def hoare_def on_writer_def)

lemma answers_write:
  "rq_RequestID r = Some i \<Longrightarrow> answers i (write_error r e)" "answers i (write_success data)"
  "answers i (bindS (on_writer (rw_WriteHeader 202)) (\<lambda>_. write_success data))"
  unfolding write_error_def write_success_def
  by (auto intro!: answers_writer error_handled success_handled)
    (auto simp: answers_def hoare_def bindS_def on_writer_def accepted_handled)

lemma answers_or_error:
  assumes "rq_RequestID r = Some i" "silent m" "\<And>a. answers i (k a)"
  shows "answers i (or_error r m k)"
  unfolding or_error_def
  by (rule answers_bind) (auto simp: silent_attempt assms answers_write split: sum.splits)

lemma silent_tracker: "silent (\<lambda>x. (f (snd x), x))"
  by (simp add: silent_def)

lemma dispatch_answers:
  assumes "rq_RequestID r = Some i" "ep \<noteq> StaticFiles"
  shows "answers i (dispatch srv ep r)"
  using assms
  by (cases ep) (auto simp: dispatch_def connectHandler_def disconnectHandler_def listPeersHandler_def getPeerHandler_def
      getConnectionStatusHandler_def systemStatusHandler_def nodeStatsHandler_def peerStatsHandler_def
      forceRotationHandler_def rotationStatusHandler_def manualCleanupHandler_def systemHealthHandler_def
      provisioningStatusHandler_def healthHandler_def
      intro!: answers_or_error answers_bind silent_steps silent_tracker answers_write)

lemma mux_answers:
  assumes "rq_RequestID r = Some i" "\<forall>vs. route (rq_Method r) (rq_Path r) \<noteq> Found StaticFiles vs"
  shows "answers i (mux srv r)"
  using assms by (cases "route (rq_Method r) (rq_Path r)")
    (auto simp: mux_def intro!: dispatch_answers answers_writer plain_handled)

subsection \<open>Middleware\<close>

lemma cors_unsent: "unsent i w \<Longrightarrow> unsent i (cors_headers origins origin w)"
  by (simp add: cors_headers_def unsent_def set_header_def)

lemma CORS_answers: "answers i (next r) \<Longrightarrow> answers i (CORS origins next r)"
  unfolding answers_def CORS_def
  by (rule hoare_bind [where Q = "\<lambda>_ x. unsent i (fst x)"])
    (auto simp: hoare_def on_writer_def cors_unsent plain_handled split: prod.splits sum.splits)

text \<open>The answer after logging: the log shows the code that was sent.\<close>

definition logged :: "string \<Rightarrow> request \<Rightarrow> writer \<Rightarrow> bool" where
  "logged i r w = (\<exists>code h. w_sent w = Some (code, h) \<and> answer_ok i code h (w_body w) \<and>
     (w_log w = [(rq_Method r, rq_Path r, code)] \<or> w_log w = [] \<and> code = 500))"

lemma Logging_logs:
  assumes "answers i (next r)"
  shows "hoare (\<lambda>x. unsent i (fst x)) (Logging next r) (\<lambda>_ x. logged i r (fst x)) (\<lambda>_ x. unsent i (fst x))"
  unfolding Logging_def
proof (rule hoare_bind [where Q = "\<lambda>_ x. unsent i (fst x)"])
  show "hoare (\<lambda>x. unsent i (fst x)) (bindS (next r) (\<lambda>_. on_writer (\<lambda>w. w\<lparr>w_log := w_log w @ [(rq_Method r, rq_Path r, w_statusCode w)]\<rparr>)))
      (\<lambda>_ x. logged i r (fst x)) (\<lambda>_ x. unsent i (fst x))"
    by (rule hoare_bind [OF assms [unfolded answers_def]]) (auto simp: hoare_def on_writer_def handled_def logged_def)
qed (auto simp: hoare_def on_writer_def unsent_def)

lemma panic_logged:
  assumes "unsent i w" "rq_RequestID r = Some i"
  shows "logged i r (WriteErrorResponse net_writer r (WithMetadata (WithMetadata
    (NewSystemError ErrCodeInternal ''panic recovered'' False (Some e)) ''path'' p) ''method'' m) w)"
  using assms error_info_body [OF assms(2)]
  by (simp add: WriteErrorResponse_def mapErrorCodeToHTTP_def retry_after_def Let_def net_json unsent_def logged_def
      answer_ok_def json_type_def)

lemma Recovery_answers:
  assumes r: "rq_RequestID r = Some i"
    and inner: "hoare (\<lambda>x. unsent i (fst x)) (h r) (\<lambda>_ x. logged i r (fst x)) (\<lambda>_ x. unsent i (fst x))"
  shows "hoare (\<lambda>x. unsent i (fst x)) (Recovery h r) (\<lambda>_ x. logged i r (fst x)) (\<lambda>_ _. False)"
  unfolding Recovery_def
proof (rule hoare_bind)
  show "hoare (\<lambda>x. unsent i (fst x)) (tryS (h r))
      (\<lambda>q x. case q of Inr _ \<Rightarrow> logged i r (fst x) | Inl _ \<Rightarrow> unsent i (fst x)) (\<lambda>_ _. False)"
    by (rule hoare_tryS) (use inner in simp)
qed (auto simp: hoare_def on_writer_def panic_logged r split: sum.splits simp del: new_error_defs)

text \<open>The identifier of a request: its own or a new one.\<close>

definition request_id :: "('s, 'w) server \<Rightarrow> request \<Rightarrow> ('s, 'w) conn \<Rightarrow> string" where
  "request_id srv r s = (if rq_Header r ''X-Request-ID'' = [] then fst (ce_uuid (re_conn (srv_rotation srv)) (cn_world s))
     else rq_Header r ''X-Request-ID'')"

text \<open>What \<open>serve\<close> runs once the request has its identifier.\<close>

definition inner_chain :: "('s, 'w) server \<Rightarrow> ('s, 'w) http_handler" where
  "inner_chain srv = Recovery (Logging (CORS (srv_corsOrigins srv) (mux srv)))"

definition with_id :: "string \<Rightarrow> request \<Rightarrow> request" where
  "with_id i r = r\<lparr>rq_RequestID := Some i\<rparr>"

definition started :: "('s, 'w) server \<Rightarrow> request \<Rightarrow> ('s, 'w) conn \<Rightarrow> ('s, 'w) conn" where
  "started srv r s = (if rq_Header r ''X-Request-ID'' = []
     then s\<lparr>cn_world := snd (ce_uuid (re_conn (srv_rotation srv)) (cn_world s))\<rparr> else s)"

lemma started_simps [simp]: "cn_db (started srv r s) = cn_db s" "cn_hosts (started srv r s) = cn_hosts s"
  "cn_tracker (started srv r s) = cn_tracker s" "cn_events (started srv r s) = cn_events s"
  "cn_open (started srv r s) = cn_open s"
  by (simp_all add: started_def)

lemma registerRoutes_eq:
  "registerRoutes srv r (new_writer, s) = inner_chain srv (with_id (request_id srv r s) r)
     (set_header ''X-Request-ID'' (request_id srv r s) new_writer, started srv r s)"
  by (cases "ce_uuid (re_conn (srv_rotation srv)) (cn_world s)")
    (simp add: registerRoutes_def Chain_def RequestID_def request_id_def inner_chain_def with_id_def bindS_def in_conn_def
      draw_def on_writer_def started_def)


section \<open>Requests that only read\<close>

text \<open>The state of the services, whatever the answer.\<close>

definition on_state :: "(('s, 'w) conn \<Rightarrow> ('s, 'w) conn \<Rightarrow> bool) \<Rightarrow> writer \<times> ('s, 'w) conn \<Rightarrow> writer \<times> ('s, 'w) conn \<Rightarrow> bool" where
  "on_state R x y = R (snd x) (snd y)"

lemma on_state_order: "reflp R \<Longrightarrow> reflp (on_state R)" "transp R \<Longrightarrow> transp (on_state R)"
  by (auto simp: on_state_def reflp_def intro!: transpI dest: transpD)

lemma on_state_steps: "stays R m \<Longrightarrow> stays (on_state R) (in_conn m)" "reflp R \<Longrightarrow> stays (on_state R) (on_writer f)"
  "reflp R \<Longrightarrow> stays (on_state R) (liftS z)" "reflp R \<Longrightarrow> stays (on_state R) (\<lambda>x. (g (snd x), x))"
  by (auto simp: stays_def on_state_def in_conn_def on_writer_def liftS_def reflp_def split: prod.splits sum.splits)
    (metis snd_conv)+

lemma on_state_or_error:
  assumes "reflp R" "transp R" "stays (on_state R) m" "\<And>a. stays (on_state R) (k a)"
  shows "stays (on_state R) (or_error r m k)"
  unfolding or_error_def write_error_def
  by (intro stays_bindS stays_attempt on_state_order assms(1,2,3))
    (auto simp: assms on_state_steps split: sum.splits)

lemma reports_read:
  "stays keep_tables nodeSvc_GetNodeStatistics" "stays keep_tables peerSvc_GetStatistics" "stays keep_tables (peerSvc_Get i)"
  "stays keep_tables (peerSvc_List f)" "stays keep_tables (nodeSvc_ListNodes g)" "stays keep_tables (GetPeerStatus i)"
  "stays keep_tables (conn_ListPeers params)"
proof -
  show "stays keep_tables nodeSvc_GetNodeStatistics"
    unfolding stays_def
  proof
    fix d
    obtain q1 d1 where 1: "GetNodeCount d = (q1, d1)" by (metis surj_pair)
    obtain q2 d2 where 2: "GetTotalConnectedClients d1 = (q2, d2)" by (metis surj_pair)
    obtain q3 d3 where 3: "GetNodesByStatus StatusUnhealthy d2 = (q3, d3)" by (metis surj_pair)
    have 12: "keep_tables d d1" "keep_tables d1 d2" "keep_tables d2 d3"
      using staysD [OF stays_select(2) 1 [unfolded GetNodeCount_def]]
        staysD [OF stays_select(2) 2 [unfolded GetTotalConnectedClients_def]]
        staysD [OF stays_select(2) 3 [unfolded GetNodesByStatus_def]] by blast+
    have "keep_tables d d2" using 12(1,2) by (rule keep_tables_trans)
    moreover from this 12(3) have "keep_tables d d3" by (rule keep_tables_trans)
    ultimately show "keep_tables d (snd (nodeSvc_GetNodeStatistics d))"
      by (simp add: nodeSvc_GetNodeStatistics_def nodeRepo_GetStatistics_def 1 2 3 12 split: sum.splits)
  qed
  show "stays keep_tables peerSvc_GetStatistics"
    unfolding peerSvc_GetStatistics_def peerRepo_GetStatistics_def GetPeerStatistics_def
    by (auto intro!: keep_reads stays_select stays_pure)
  show get: "stays keep_tables (peerSvc_Get i)" for i
    unfolding peerSvc_Get_def peerRepo_Get_def GetPeer_def by (auto intro!: keep_reads stays_select stays_pure)
  show list: "stays keep_tables (peerSvc_List f)" for f
    unfolding peerSvc_List_def peerRepo_List_def GetAllPeers_def GetPeersByNode_def GetPeersByStatus_def
    by (auto intro!: keep_reads stays_select stays_pure split: option.splits)
  show "stays keep_tables (nodeSvc_ListNodes g)"
    by (auto simp: stays_def nodeSvc_ListNodes_def nodeRepo_List_def GetNodesByStatus_def GetAllNodes_def
        split: prod.splits sum.splits option.splits) (metis select_keeps(2) snd_conv)+
  show "stays keep_tables (GetPeerStatus i)"
    unfolding GetPeerStatus_def by (intro keep_reads get stays_pure keep_tables_order)
  show "stays keep_tables (conn_ListPeers params)"
    unfolding conn_ListPeers_def Let_def
    by (auto intro!: keep_reads list stays_pure split: prod.splits option.splits)
qed

lemma asks_reads: "stays keep_tables m \<Longrightarrow> stays asks (in_db m)" "stays asks (now_of env)" "stays asks (check_health env i)"
  "stays asks node_stats" "stays asks peer_stats"
  unfolding now_of_def check_health_def node_stats_def peer_stats_def
  by (auto intro!: asks_steps stays_map_errS reports_read CheckNodeHealth_same)

lemmas asks_rules = stays_bindS [OF asks_order(2)] stays_tryS stays_map_errS stays_pure [OF asks_order(1)] asks_reads
  reports_read cleanup_reads

lemma stays_Pair: "reflp R \<Longrightarrow> stays R (Pair x)"
  by (simp add: stays_def reflp_def)

lemma loops_ask:
  "stays asks (status_loop env ns a b)" "stays asks (statistics_loop env ns acc)" "stays asks (issue_loop env sev i msgs)"
  "stays asks (health_loop env ns t)"
proof -
  show "stays asks (status_loop env ns a b)"
    by (induction env ns a b rule: status_loop.induct) (auto simp: Let_def intro!: asks_rules stays_Pair asks_order split: sum.splits)
  show "stays asks (statistics_loop env ns acc)"
    by (induction env ns acc rule: statistics_loop.induct) (auto simp: Let_def intro!: asks_rules stays_Pair asks_order split: sum.splits)
  show issues: "stays asks (issue_loop env sev i msgs)" for env :: "('a, 'b) rotation_env" and sev i msgs
    by (induction msgs) (auto intro!: asks_rules stays_Pair asks_order)
  show "stays asks (health_loop env ns t)"
    by (induction env ns t rule: health_loop.induct) (auto intro!: asks_rules issues stays_Pair asks_order split: sum.splits)
qed

lemma reads_keep: "stays keep_tables (distribution_loop ns spread)" "stays keep_tables (capacity_loop ns acc)"
proof -
  show "stays keep_tables (distribution_loop ns spread)"
    by (induction ns spread rule: distribution_loop.induct) (auto intro!: keep_reads cleanup_reads stays_pure stays_Pair split: sum.splits)
  show "stays keep_tables (capacity_loop ns acc)"
    by (induction ns acc rule: capacity_loop.induct)
      (auto simp: Let_def intro!: keep_reads cleanup_reads GetAvailableIPCount_reads stays_pure stays_Pair split: sum.splits)
qed

lemma reports_ask:
  "stays asks (GetSystemStatus env order t)" "stays asks (admin_GetNodeStatistics env)" "stays asks (admin_GetPeerStatistics env)"
  "stays asks (ValidateSystemHealth env)" "stays asks (GetCapacityReport env)" "stays asks (GetRotationStatus env)"
  unfolding GetSystemStatus_def admin_GetNodeStatistics_def admin_GetPeerStatistics_def ValidateSystemHealth_def
    GetCapacityReport_def GetRotationStatus_def Let_def now_of_def [symmetric]
  by (auto intro!: asks_rules loops_ask reads_keep split: prod.splits)

lemma route_found:
  assumes "route m p = Found ep vs"
  shows "\<exists>rm q. (rm, q) \<in> set routes \<and> method_fits rm m \<and> snd q = ep \<and> match_path q (segments (clean_path p)) = Some vs"
proof -
  obtain rm q where f: "find (\<lambda>(rm, q). method_fits rm m \<and> match_path q (segments (clean_path p)) \<noteq> None) routes = Some (rm, q)"
    and ep: "snd q = ep" "vs = the (match_path q (segments (clean_path p)))"
    using assms by (auto simp: route_def Let_def split: if_splits option.splits)
  from f obtain i where "i < length routes" "routes ! i = (rm, q)" "method_fits rm m" "match_path q (segments (clean_path p)) \<noteq> None"
    by (auto simp: find_Some_iff)
  then show ?thesis using ep by (metis nth_mem option.collapse)
qed

text \<open>The routes whose methods change something.\<close>

lemma writing_routes:
  assumes "route m p = Found ep vs" "ep \<in> {Connect, Disconnect, RotationForce, ManualCleanup}"
  shows "m = ''POST'' \<or> m = ''DELETE''"
  using route_found [OF assms(1)] assms(2) by (auto simp: routes_def method_fits_def)

lemma dispatch_asks:
  assumes "ep \<notin> {Connect, Disconnect, RotationForce, ManualCleanup}"
  shows "stays (on_state asks) (dispatch srv ep r)"
  using assms
  by (cases ep) (auto simp: dispatch_def listPeersHandler_def getPeerHandler_def write_error_def write_success_def
      getConnectionStatusHandler_def systemStatusHandler_def nodeStatsHandler_def peerStatsHandler_def
      rotationStatusHandler_def systemHealthHandler_def provisioningStatusHandler_def healthHandler_def
      intro!: on_state_or_error asks_order on_state_steps reports_ask asks_reads reports_read)

lemma inner_chain_stays:
  assumes "reflp R" "transp R" "stays (on_state R) (mux srv r)"
  shows "stays (on_state R) (inner_chain srv r)"
  unfolding inner_chain_def Recovery_def Logging_def CORS_def
  using assms by (auto intro!: stays_bindS [OF on_state_order(2)] stays_tryS stays_pure on_state_order on_state_steps split: sum.splits)

text \<open>A request with another method than POST and DELETE reads: whatever it asks for and whatever fails,
  the peers, the subnets and the set of nodes, the configuration of the nodes, the tracker and the events stay as
  they were. Only statuses of nodes may be refreshed, by the health checks of the reports.\<close>

theorem other_methods_read_only:
  assumes m: "rq_Method r \<notin> {''POST'', ''DELETE''}" and run: "serve srv r s = (x, (w, s'))"
  shows "peers (cn_db s') = peers (cn_db s) \<and> subnets (cn_db s') = subnets (cn_db s) \<and>
    node_ids (cn_db s') = node_ids (cn_db s) \<and> cn_hosts s' = cn_hosts s \<and> cn_tracker s' = cn_tracker s \<and>
    cn_events s' = cn_events s"
proof -
  let ?r = "with_id (request_id srv r s) r"
  note eq = registerRoutes_eq [of srv r s]
  have "rq_Method ?r = rq_Method r" by (simp add: with_id_def)
  then have "stays (on_state asks) (mux srv ?r)"
    using writing_routes m unfolding mux_def
    by (cases "route (rq_Method ?r) (rq_Path ?r)") (auto intro!: dispatch_asks on_state_steps asks_order)
  from inner_chain_stays [OF asks_order this]
  have "asks (started srv r s) (snd (snd (registerRoutes srv r (new_writer, s))))"
    by (simp add: eq stays_def on_state_def)
  moreover have "snd (snd (registerRoutes srv r (new_writer, s))) = s'"
    using run by (auto simp: serve_def split: prod.splits sum.splits)
  ultimately show ?thesis by (simp add: asks_def same_nodes_def)
qed

section \<open>Single routes\<close>

text \<open>What the handler of a route starts from.\<close>

definition routed :: "('s, 'w) server \<Rightarrow> request \<Rightarrow> (string \<times> string) list \<Rightarrow> ('s, 'w) conn \<Rightarrow> request" where
  "routed srv r vs s = (with_id (request_id srv r s) r)\<lparr>rq_PathValue := path_values vs\<rparr>"

definition start_writer :: "('s, 'w) server \<Rightarrow> request \<Rightarrow> ('s, 'w) conn \<Rightarrow> writer" where
  "start_writer srv r s = cors_headers (srv_corsOrigins srv) (rq_Header r ''Origin'')
     ((set_header ''X-Request-ID'' (request_id srv r s) new_writer)\<lparr>w_statusCode := 200, w_written := False\<rparr>)"

lemma start_unsent: "unsent (request_id srv r s) (start_writer srv r s)"
  unfolding start_writer_def by (rule cors_unsent) (simp add: unsent_def set_header_def new_writer_def)

lemma serve_route:
  assumes "route (rq_Method r) (rq_Path r) = Found ep vs" "rq_Method r \<noteq> ''OPTIONS''"
    and run: "dispatch srv ep (routed srv r vs s) (start_writer srv r s, started srv r s) = (Inr (), (w, s'))"
    and sent: "handled i w"
  shows "\<exists>w'. serve srv r s = (Inr (), (w', s')) \<and> w_sent w' = w_sent w \<and> w_body w' = w_body w"
proof -
  have "rq_Method (with_id (request_id srv r s) r) = rq_Method r" "rq_Path (with_id (request_id srv r s) r) = rq_Path r"
    "rq_Header (with_id (request_id srv r s) r) = rq_Header r"
    by (simp_all add: with_id_def)
  then have "inner_chain srv (with_id (request_id srv r s) r)
      (set_header ''X-Request-ID'' (request_id srv r s) new_writer, started srv r s) =
      (Inr (), (w\<lparr>w_log := w_log w @ [(rq_Method r, rq_Path r, w_statusCode w)]\<rparr>, s'))"
    using assms(1,2) run
    by (simp add: inner_chain_def Recovery_def Logging_def CORS_def bindS_def tryS_def on_writer_def mux_def routed_def
        start_writer_def)
  then show ?thesis using sent by (auto simp: serve_def registerRoutes_eq net_WriteHeader_def handled_def)
qed

lemma routed_simps [simp]: "rq_RequestID (routed srv r vs s) = Some (request_id srv r s)"
  "rq_Header (routed srv r vs s) = rq_Header r" "rq_Body (routed srv r vs s) = rq_Body r"
  "rq_Query (routed srv r vs s) = rq_Query r" "rq_PathValue (routed srv r vs s) = path_values vs"
  by (simp_all add: routed_def with_id_def)

lemma or_error_run:
  assumes "m (snd x) = (q, s')"
  shows "or_error r (in_conn m) k x = (case q of
      Inl e \<Rightarrow> if is_panic e then (Inl e, (fst x, s')) else write_error r e (fst x, s')
    | Inr a \<Rightarrow> k a (fst x, s'))"
  using assms by (simp add: or_error_def attempt_def bindS_def tryS_def in_conn_def split: sum.splits)

lemma error_code_sent:
  assumes "unsent i w" "rq_RequestID r = Some i" "IsDomainError e"
  shows "\<exists>h. w_sent (WriteErrorResponse wrapped_writer r e w) = Some (fst (mapErrorCodeToHTTP e), h)"
  using assms
  by (cases "retry_after e"; cases "mapErrorCodeToHTTP e") (auto simp: WriteErrorResponse_def wrapped_json unsent_def set_header_def)

lemma success_sent:
  "unsent i w \<Longrightarrow> \<exists>h. w_sent (WriteSuccess wrapped_writer data w) = Some (200, h) \<and>
     w_body (WriteSuccess wrapped_writer data w) = [BJson (JObj [(''success'', JBool True), (''data'', data)])]"
  by (auto simp: WriteSuccess_def wrapped_json unsent_def)

lemma accepted_sent:
  "unsent i w \<Longrightarrow> \<exists>h. w_sent (WriteSuccess wrapped_writer data (rw_WriteHeader 202 w)) = Some (202, h) \<and>
     w_body (WriteSuccess wrapped_writer data (rw_WriteHeader 202 w)) = [BJson (JObj [(''success'', JBool True), (''data'', data)])]"
  by (simp add: WriteSuccess_def WriteJSON_def writer_defs unsent_def)

subsection \<open>Forced rotation\<close>

lemma RotateNodes_outcome:
  assumes "RotateNodes env s = (q, s')"
  shows "case fst (makeRotationDecision env s) of
      Inl _ \<Rightarrow> \<exists>e. q = Inl e \<and> IsDomainError e \<and> GetErrorCode e = ErrCodeNodeNotFound
    | Inr decision \<Rightarrow> if rd_NodesToRotate decision = [] then q = Inr ()
        else \<exists>e. q = Inl e \<and> IsDomainError e \<and> GetErrorCode e = ErrCodeInternal"
proof -
  obtain q1 s1 where q1: "makeRotationDecision env s = (q1, s1)" by (metis surj_pair)
  show ?thesis
  proof (cases q1)
    case (Inl e)
    then show ?thesis using assms q1 by (auto simp: RotateNodes_def bindS_def map_errS_def WrapWithDomain_def)
  next
    case (Inr decision)
    show ?thesis
    proof (cases "rd_NodesToRotate decision = []")
      case True
      then show ?thesis using assms q1 Inr by (auto simp: RotateNodes_def bindS_def map_errS_def)
    next
      case False
      obtain es s2 where es: "rotate_all env (rd_NodesToRotate decision) s1 = (Inr es, s2)" "length es = length (rd_NodesToRotate decision)"
        using rotate_all_requests by blast
      then have "es \<noteq> []" using False by auto
      then show ?thesis using assms q1 Inr False es(1) by (auto simp: RotateNodes_def bindS_def map_errS_def shouldDeferRotation_def)
    qed
  qed
qed

text \<open>C29: a forced rotation is answered with success only when there is nothing to rotate. When there is, the
  answer is an internal error although the requests were published; when the decision fails, for whatever
  reason, it is a not found.\<close>

theorem force_rotation_answer:
  assumes req: "rq_Method r = ''POST''" "rq_Path r = ''/api/v1/admin/rotation/force''" and run: "serve srv r s = (x, (w, s'))"
  shows "\<exists>h. w_sent w = Some (case fst (makeRotationDecision (srv_rotation srv) (started srv r s)) of
      Inl _ \<Rightarrow> 404 | Inr decision \<Rightarrow> if rd_NodesToRotate decision = [] then 200 else 500, h)"
proof -
  let ?d = "fst (makeRotationDecision (srv_rotation srv) (started srv r s))"
  let ?r = "routed srv r [] s" and ?w = "start_writer srv r s"
  have found: "route (rq_Method r) (rq_Path r) = Found RotationForce []" unfolding req by code_simp
  obtain q s1 where q: "RotateNodes (srv_rotation srv) (started srv r s) = (q, s1)" by (metis surj_pair)
  note out = RotateNodes_outcome [OF q]
  have "\<exists>w1 h. dispatch srv RotationForce ?r (?w, started srv r s) = (Inr (), (w1, s1)) \<and> handled (request_id srv r s) w1 \<and>
      w_sent w1 = Some (case ?d of Inl _ \<Rightarrow> 404 | Inr decision \<Rightarrow> if rd_NodesToRotate decision = [] then 200 else 500, h)"
  proof (cases q)
    case (Inl e)
    have e: "IsDomainError e" "GetErrorCode e = (case ?d of Inl _ \<Rightarrow> ErrCodeNodeNotFound | Inr _ \<Rightarrow> ErrCodeInternal)"
      "\<forall>decision. ?d = Inr decision \<longrightarrow> rd_NodesToRotate decision \<noteq> []"
      using out Inl by (auto split: sum.splits if_splits)
    then have "\<not> is_panic e" by (cases e) auto
    then have "dispatch srv RotationForce ?r (?w, started srv r s) = write_error ?r e (?w, s1)"
      using or_error_run [where x = "(?w, started srv r s)" and m = "ForceRotation (srv_rotation srv)"] q Inl
      by (simp add: dispatch_def forceRotationHandler_def ForceRotation_def)
    moreover obtain h where "w_sent (WriteErrorResponse wrapped_writer ?r e ?w) = Some (fst (mapErrorCodeToHTTP e), h)"
      using error_code_sent [OF start_unsent _ e(1), of ?r srv r s] by auto
    moreover have "fst (mapErrorCodeToHTTP e) = (case ?d of Inl _ \<Rightarrow> 404 | Inr decision \<Rightarrow> if rd_NodesToRotate decision = [] then 200 else 500)"
      using e(2,3) by (auto simp: mapErrorCodeToHTTP_def Let_def split: sum.splits)
    ultimately show ?thesis
      using error_handled [OF start_unsent, of ?r srv r s e] by (auto simp: write_error_def on_writer_def)
  next
    case (Inr u)
    then obtain decision where d: "?d = Inr decision" "rd_NodesToRotate decision = []"
      using out by (auto split: sum.splits if_splits)
    have "dispatch srv RotationForce ?r (?w, started srv r s) =
        write_success (JObj [(''message'', JStr ''Node rotation initiated successfully'')]) (?w, s1)"
      using or_error_run [where x = "(?w, started srv r s)" and m = "ForceRotation (srv_rotation srv)"] q Inr
      by (simp add: dispatch_def forceRotationHandler_def ForceRotation_def)
    moreover obtain h where "w_sent (WriteSuccess wrapped_writer (JObj [(''message'', JStr ''Node rotation initiated successfully'')]) ?w) =
        Some (200, h)" using success_sent [OF start_unsent] by blast
    ultimately show ?thesis using success_handled [OF start_unsent] d by (auto simp: write_success_def on_writer_def)
  qed
  then obtain w1 h where w1: "dispatch srv RotationForce ?r (?w, started srv r s) = (Inr (), (w1, s1))" "handled (request_id srv r s) w1"
    "w_sent w1 = Some (case ?d of Inl _ \<Rightarrow> 404 | Inr decision \<Rightarrow> if rd_NodesToRotate decision = [] then 200 else 500, h)"
    by blast
  obtain w' where "serve srv r s = (Inr (), (w', s1))" "w_sent w' = w_sent w1"
    using serve_route [OF found _ w1(1,2)] req(1) by auto
  then show ?thesis using run w1(3) by auto
qed

subsection \<open>Connecting\<close>

lemma publish_requested:
  assumes "cn_open s"
  shows "\<exists>s' e. publish_event env p s = (Inr (), s') \<and> cn_events s' = cn_events s @ [e] \<and> ev_type e = fst p \<and>
    ev_meta e = snd p \<and> cn_db s' = cn_db s \<and> cn_hosts s' = cn_hosts s"
proof -
  obtain u w1 where u: "ce_uuid env (cn_world s) = (u, w1)" by (metis surj_pair)
  obtain t w2 where t: "ce_now env w1 = (t, w2)" by (metis surj_pair)
  obtain n w3 where n: "ce_now env w2 = (n, w3)" by (metis surj_pair)
  show ?thesis using assms
    by (simp add: publish_event_def bindS_def draw_def u t n carry_def NewBaseEvent_def)
qed

text \<open>Random bytes, the curve and the generator of identifiers deliver what their documentation says.\<close>

definition keys_work :: "('s, 'w) conn_env \<Rightarrow> bool" where
  "keys_work env = ((\<forall>w. \<exists>bs w'. ce_random env w = (Some bs, w') \<and> length bs = 32) \<and>
     (\<forall>k. length k = 32 \<longrightarrow> (\<exists>p. ce_x25519 env k = Some p \<and> length p = 32)) \<and> (\<forall>w. fst (ce_uuid env w) \<noteq> []))"

lemma generated_key:
  assumes "length bs = 32" "\<forall>k. length k = 32 \<longrightarrow> (\<exists>p. x25519 k = Some p \<and> length p = 32)"
  shows "\<exists>kp. GenerateKeyPair x25519 (Some bs) = Inr kp \<and> IsValidWireGuardKey (PublicKey kp)"
proof -
  obtain k where k: "clampPrivateKey bs = Some k" using clampPrivateKey_Some [of bs] assms(1) by auto
  moreover obtain p where "x25519 k = Some p" "length p = 32" using assms clampPrivateKey_length [OF k] by auto
  ultimately show ?thesis using valid_key_encode by (simp add: GenerateKeyPair_def)
qed

text \<open>The event, if any, of an accepted request.\<close>

definition requested :: "('s, 'w) conn \<Rightarrow> ('s, 'w) conn \<Rightarrow> string \<Rightarrow> string \<Rightarrow> bool" where
  "requested s s' requestID key = (keep_tables (cn_db s) (cn_db s') \<and> cn_hosts s' = cn_hosts s \<and>
     (cn_events s' = cn_events s \<or> (\<exists>e. cn_events s' = cn_events s @ [e] \<and> ev_type e = EventPeerConnectRequested \<and>
        connect_handler e = Some (requestID, Some key))))"

lemma valid_key_text: "IsValidWireGuardKey key \<Longrightarrow> key \<noteq> []"
  by (auto simp: IsValidWireGuardKey_def)

lemma peer_connect_requested_event:
  assumes "ev_type e = fst (peer_connect_requested i (Some key) g)" "ev_meta e = snd (peer_connect_requested i (Some key) g)"
    "i \<noteq> []" "key \<noteq> []"
  shows "ev_type e = EventPeerConnectRequested \<and> connect_handler e = Some (i, Some key)"
  using assms by (simp add: peer_connect_requested_def connect_handler_def Let_def meta_string_def)

lemma GetByIdentifier_reads: "stays keep_tables (peerSvc_GetByIdentifier pn i)"
  unfolding peerSvc_GetByIdentifier_def peerRepo_GetByIdentifier_def peerRepo_GetByPublicKey_def GetPeerByIdentifier_def
  by (auto intro!: keep_reads stays_select stays_pure)

lemma publish_accepts:
  assumes "cn_open t" "keep_tables (cn_db s) (cn_db t)" "cn_hosts t = cn_hosts s" "cn_events t = cn_events s" "i \<noteq> []" "key \<noteq> []"
  shows "\<exists>s'. publish_event env (peer_connect_requested i (Some key) g) t = (Inr (), s') \<and> requested s s' i key"
  using publish_requested [OF assms(1), of env "peer_connect_requested i (Some key) g"] assms(2-6)
    peer_connect_requested_event [of _ i key g] by (fastforce simp: requested_def)

lemma ConnectPeerAsync_accepts:
  assumes valid: "ValidateConnectRequest req = Inr ()" and bus: "cn_open s" and env: "keys_work env"
  shows "\<exists>i s' key. ConnectPeerAsync env (ConvertToServiceConnectRequest req) s = (Inr i, s') \<and> IsValidWireGuardKey key \<and>
    (acq_PublicKey req = None \<or> acq_PublicKey req = Some key) \<and> requested s s' i key"
proof -
  obtain i w1 where i: "ce_uuid env (cn_world s) = (i, w1)" by (metis surj_pair)
  then have ine: "i \<noteq> []" using env by (metis keys_work_def fst_conv)
  let ?s1 = "s\<lparr>cn_world := w1\<rparr>"
  show ?thesis
  proof (cases "acq_PublicKey req")
    case (Some key)
    then have key: "IsValidWireGuardKey key" "\<not> acq_GenerateKeys req"
      using valid by (auto simp: ValidateConnectRequest_def api_validateWireGuardPublicKey_def split: if_splits)
    then have ne: "key \<noteq> []" by (simp add: valid_key_text)
    obtain q d' where q: "peerSvc_GetByIdentifier ''wireguard'' key (cn_db s) = (q, d')" by (metis surj_pair)
    have k: "keep_tables (cn_db s) d'" by (rule staysD [OF GetByIdentifier_reads q])
    obtain s2 where s2: "publish_event env (peer_connect_requested i (Some key) False) (?s1\<lparr>cn_db := d'\<rparr>) = (Inr (), s2)"
      "requested s s2 i key"
      using publish_accepts [of "?s1\<lparr>cn_db := d'\<rparr>" s i key env False] bus k ine ne by auto
    have "requested s (?s1\<lparr>cn_db := d'\<rparr>) i key" using k by (simp add: requested_def)
    moreover have "ConnectPeerAsync env (ConvertToServiceConnectRequest req) s =
        (Inr i, if q = Inl (projl q) then s2 else ?s1\<lparr>cn_db := d'\<rparr>)"
      using Some key ne q s2(1)
      by (cases q) (simp_all add: ConnectPeerAsync_def ConvertToServiceConnectRequest_def bindS_def draw_def i with_keys_def
          validateConnectRequest_def set_text_def Let_def in_db_def tryS_def map_errS_def)
    ultimately show ?thesis using key(1) Some s2(2) by auto
  next
    case None
    then have gen: "acq_GenerateKeys req" using valid by (auto simp: ValidateConnectRequest_def split: if_splits)
    obtain bs w2 where bs: "ce_random env w1 = (Some bs, w2)" "length bs = 32"
      using env unfolding keys_work_def by blast
    obtain kp where kp: "GenerateKeyPair (ce_x25519 env) (Some bs) = Inr kp" "IsValidWireGuardKey (PublicKey kp)"
      using generated_key [OF bs(2)] env unfolding keys_work_def by blast
    then have ne: "PublicKey kp \<noteq> []" by (simp add: valid_key_text)
    obtain s2 where s2: "publish_event env (peer_connect_requested i (Some (PublicKey kp)) True) (s\<lparr>cn_world := w2\<rparr>) = (Inr (), s2)"
      "requested s s2 i (PublicKey kp)"
      using publish_accepts [of "s\<lparr>cn_world := w2\<rparr>" s i "PublicKey kp" env True] bus ine ne by auto
    have "ConnectPeerAsync env (ConvertToServiceConnectRequest req) s = (Inr i, s2)"
      using None gen kp ne s2(1) bs(1)
      by (simp add: ConnectPeerAsync_def ConvertToServiceConnectRequest_def bindS_def draw_def i with_keys_def
          validateConnectRequest_def set_text_def Let_def in_db_def tryS_def map_errS_def)
    then show ?thesis using kp(2) None s2(2) by auto
  qed
qed

definition accepted_json :: "string \<Rightarrow> json" where
  "accepted_json i = JObj [(''request_id'', JStr i),
     (''message'', JStr (''Connection request accepted. Poll /api/v1/connections/'' @ i @ '' for status''))]"

lemma connect_served:
  assumes req: "rq_Method r = ''POST''" "rq_Path r = ''/api/v1/connect''"
    and parsed: "ParseJSONRequest connect_fields \<lparr>acq_PublicKey = None, acq_GenerateKeys = False\<rparr> r = Inr c"
    and valid: "ValidateConnectRequest c = Inr ()"
    and async: "ConnectPeerAsync (re_conn (srv_rotation srv)) (ConvertToServiceConnectRequest c) (started srv r s) = (Inr i, s1)"
  obtains w h where "serve srv r s = (Inr (), (w, s1))" "w_sent w = Some (202, h)"
    "w_body w = [BJson (JObj [(''success'', JBool True), (''data'', accepted_json i)])]"
proof -
  let ?r = "routed srv r [] s" and ?w = "start_writer srv r s"
  have found: "route (rq_Method r) (rq_Path r) = Found Connect []" unfolding req by code_simp
  have "ParseJSONRequest fs z ?r = ParseJSONRequest fs z r" for fs and z :: api_ConnectRequest
    by (simp add: ParseJSONRequest_def)
  then have "ParseJSONRequest connect_fields \<lparr>acq_PublicKey = None, acq_GenerateKeys = False\<rparr> ?r = Inr c"
    using parsed by simp
  then have "dispatch srv Connect ?r (?w, started srv r s) =
      (Inr (), (WriteSuccess wrapped_writer (accepted_json i) (rw_WriteHeader 202 ?w), s1))"
    using valid async
    by (simp add: dispatch_def connectHandler_def or_error_def attempt_def bindS_def tryS_def liftS_def in_conn_def
        on_writer_def write_success_def accepted_json_def)
  then obtain w' where w': "serve srv r s = (Inr (), (w', s1))"
    "w_sent w' = w_sent (WriteSuccess wrapped_writer (accepted_json i) (rw_WriteHeader 202 ?w))"
    "w_body w' = w_body (WriteSuccess wrapped_writer (accepted_json i) (rw_WriteHeader 202 ?w))"
    using serve_route [OF found _ _ accepted_handled [OF start_unsent]] req(1) by fastforce
  then show ?thesis using that accepted_sent [OF start_unsent, of "accepted_json i" srv r s] by auto
qed


section \<open>Examples\<close>

definition example_server :: "(nat, nat) server" where
  "example_server = \<lparr>srv_rotation = example_rotation_env\<lparr>re_conn := example_conn_env\<lparr>ce_random := Pair (Some (replicate 32 7))\<rparr>\<rparr>,
     srv_order = id, srv_tracker = [], srv_corsOrigins = [''*''], srv_static = (\<lambda>_ w. w)\<rparr>"

definition example_request :: "string \<Rightarrow> string \<Rightarrow> request" where
  "example_request method path = \<lparr>rq_Method = method, rq_Path = path,
     rq_Header = (\<lambda>k. if k = ''Content-Type'' then ''application/json'' else []), rq_Query = (\<lambda>_. []),
     rq_Body = Inr (JObj [(''generate_keys'', JBool True)]), rq_PathValue = (\<lambda>_. []), rq_RequestID = None\<rparr>"

lemma example_routes:
  "route ''GET'' ''/api/v1/admin/status'' = Found SystemStatusRoute []" "route ''GET'' ''/api/v1/peers'' = Found ListPeers []"
  by code_simp+


theorem other_methods_read_only_witness:
  "\<exists>x w s'. serve example_server (example_request ''GET'' ''/api/v1/peers'') (example_conn one_peer_db) = (x, (w, s')) \<and>
     peers (cn_db s') = peers one_peer_db"
proof -
  obtain x w s' where run: "serve example_server (example_request ''GET'' ''/api/v1/peers'') (example_conn one_peer_db) = (x, (w, s'))"
    by (metis surj_pair)
  have "rq_Method (example_request ''GET'' ''/api/v1/peers'') \<notin> {''POST'', ''DELETE''}" by (simp add: example_request_def)
  from other_methods_read_only [OF this run] run show ?thesis by (auto simp: example_conn_def)
qed

theorem force_rotation_answer_witness:
  "\<exists>x w s' code h. serve example_server (example_request ''POST'' ''/api/v1/admin/rotation/force'') (example_conn one_peer_db) = (x, (w, s')) \<and>
     w_sent w = Some (code, h) \<and> code \<in> {200, 404, 500}"
proof -
  obtain x w s' where run: "serve example_server (example_request ''POST'' ''/api/v1/admin/rotation/force'') (example_conn one_peer_db) = (x, (w, s'))"
    by (metis surj_pair)
  have "rq_Method (example_request ''POST'' ''/api/v1/admin/rotation/force'') = ''POST''"
    "rq_Path (example_request ''POST'' ''/api/v1/admin/rotation/force'') = ''/api/v1/admin/rotation/force''"
    by (simp_all add: example_request_def)
  from force_rotation_answer [OF this run] run show ?thesis by (auto split: sum.splits)
qed


end
