(* ===== verification/Client.thy ===== *)
theory Client
  imports ApiJson
begin

text \<open>
  The API client of the connector: \<open>internal/connector/client/client.go\<close>. What \<open>net/http\<close>, the context and the
  clock do is a parameter; the answers of the server are decoded as \<open>encoding/json\<close> does it. Durations are
  nanoseconds.
\<close>

section \<open>Decoding answers\<close>

text \<open>\<open>json.Unmarshal\<close> skips members that the struct does not have. A time is not read from other texts.\<close>

fun unmarshal_members :: "'r fields \<Rightarrow> (string \<times> json) list \<Rightarrow> 'r \<Rightarrow> 'r res" where
  "unmarshal_members fs [] r = Inr r"
| "unmarshal_members fs ((k, v) # ms) r =
     (case find_field fs k of None \<Rightarrow> unmarshal_members fs ms r | Some f \<Rightarrow> bindr (f v r) (unmarshal_members fs ms))"

fun unmarshal_struct :: "'r fields \<Rightarrow> json \<Rightarrow> 'r \<Rightarrow> 'r res" where
  "unmarshal_struct fs (JObj ms) r = unmarshal_members fs ms r"
| "unmarshal_struct fs JNull r = Inr r"
| "unmarshal_struct fs _ r = type_mismatch"

definition decode_float :: "(rat \<Rightarrow> 'r \<Rightarrow> 'r) \<Rightarrow> json \<Rightarrow> 'r \<Rightarrow> 'r res" where
  "decode_float upd v r = (case v of JFloat q \<Rightarrow> Inr (upd q r) | JInt n \<Rightarrow> Inr (upd (of_int n) r) | JNull \<Rightarrow> Inr r
     | _ \<Rightarrow> type_mismatch)"

definition decode_time :: "(int \<Rightarrow> 'r \<Rightarrow> 'r) \<Rightarrow> json \<Rightarrow> 'r \<Rightarrow> 'r res" where
  "decode_time upd v r = (case v of JTime t \<Rightarrow> Inr (upd t r) | JNull \<Rightarrow> Inr r | _ \<Rightarrow> type_mismatch)"

definition decode_time_ptr :: "(int option \<Rightarrow> 'r \<Rightarrow> 'r) \<Rightarrow> json \<Rightarrow> 'r \<Rightarrow> 'r res" where
  "decode_time_ptr upd v r = (case v of JTime t \<Rightarrow> Inr (upd (Some t) r) | JNull \<Rightarrow> Inr (upd None r) | _ \<Rightarrow> type_mismatch)"

fun json_texts :: "json list \<Rightarrow> string list res" where
  "json_texts [] = Inr []"
| "json_texts (v # vs) = bindr (case v of JStr t \<Rightarrow> Inr t | JNull \<Rightarrow> Inr [] | _ \<Rightarrow> type_mismatch)
     (\<lambda>t. bindr (json_texts vs) (\<lambda>ts. Inr (t # ts)))"

definition decode_texts :: "(string list \<Rightarrow> 'r \<Rightarrow> 'r) \<Rightarrow> json \<Rightarrow> 'r \<Rightarrow> 'r res" where
  "decode_texts upd v r = (case v of JArr vs \<Rightarrow> bindr (json_texts vs) (\<lambda>ts. Inr (upd ts r)) | JNull \<Rightarrow> Inr (upd [] r)
     | _ \<Rightarrow> type_mismatch)"

text \<open>A pointer to a struct: \<open>null\<close> makes it nil, anything else is decoded into what it points to.\<close>

definition decode_struct_ptr ::
  "('r \<Rightarrow> 'a option) \<Rightarrow> ('a option \<Rightarrow> 'r \<Rightarrow> 'r) \<Rightarrow> 'a fields \<Rightarrow> 'a \<Rightarrow> json \<Rightarrow> 'r \<Rightarrow> 'r res" where
  "decode_struct_ptr get upd fs zero v r =
     (if v = JNull then Inr (upd None r)
      else bindr (unmarshal_struct fs v (case get r of Some x \<Rightarrow> x | None \<Rightarrow> zero)) (\<lambda>x. Inr (upd (Some x) r)))"

fun json_text_map :: "(string \<times> json) list \<Rightarrow> (string \<times> string) list \<Rightarrow> (string \<times> string) list res" where
  "json_text_map [] m = Inr m"
| "json_text_map ((k, v) # ms) m = bindr (case v of JStr t \<Rightarrow> Inr t | JNull \<Rightarrow> Inr [] | _ \<Rightarrow> type_mismatch)
     (\<lambda>t. json_text_map ms (AList.update k t m))"

text \<open>The types of the answers; the metadata of an error, which the client does not read, are only checked.\<close>

record ErrorInfo =
  ei_Code :: string
  ei_Message :: string
  ei_RequestID :: string

record 'd api_Response =
  ars_Success :: bool
  ars_Data :: 'd
  ars_Error :: "ErrorInfo option"

record DisconnectResponse =
  drs_Message :: string
  drs_PeerID :: string

record HealthResponse =
  hlr_Status :: string
  hlr_Version :: string
  hlr_Provisioning :: "ProvisioningInfo option"

definition error_fields :: "ErrorInfo fields" where
  "error_fields = [(''code'', decode_text (\<lambda>t r. r\<lparr>ei_Code := t\<rparr>)), (''message'', decode_text (\<lambda>t r. r\<lparr>ei_Message := t\<rparr>)),
     (''request_id'', decode_text (\<lambda>t r. r\<lparr>ei_RequestID := t\<rparr>)),
     (''metadata'', \<lambda>v r. case v of JObj _ \<Rightarrow> Inr r | JNull \<Rightarrow> Inr r | _ \<Rightarrow> type_mismatch)]"

definition response_fields :: "(json \<Rightarrow> 'd \<Rightarrow> 'd res) \<Rightarrow> 'd api_Response fields" where
  "response_fields decoder = [(''success'', decode_bool (\<lambda>b r. r\<lparr>ars_Success := b\<rparr>)),
     (''data'', \<lambda>v r. bindr (decoder v (ars_Data r)) (\<lambda>d. Inr (r\<lparr>ars_Data := d\<rparr>))),
     (''error'', decode_struct_ptr ars_Error (\<lambda>e r. r\<lparr>ars_Error := e\<rparr>) error_fields
        \<lparr>ei_Code = [], ei_Message = [], ei_RequestID = []\<rparr>)]"

text \<open>Data of type \<open>any\<close>, and a map of texts, which is nil when there is no data.\<close>

definition any_data :: "json \<Rightarrow> unit \<Rightarrow> unit res" where
  "any_data v u = Inr ()"

definition map_data :: "json \<Rightarrow> (string \<times> string) list option \<Rightarrow> (string \<times> string) list option res" where
  "map_data v m = (case v of
       JObj ms \<Rightarrow> bindr (json_text_map ms (case m of Some x \<Rightarrow> x | None \<Rightarrow> [])) (\<lambda>x. Inr (Some x))
     | JNull \<Rightarrow> Inr None | _ \<Rightarrow> type_mismatch)"

definition provisioning_fields :: "ProvisioningInfo fields" where
  "provisioning_fields = [(''is_active'', decode_bool (\<lambda>b r. r\<lparr>pri_IsActive := b\<rparr>)),
     (''phase'', decode_text (\<lambda>t r. r\<lparr>pri_Phase := t\<rparr>)), (''progress'', decode_float (\<lambda>q r. r\<lparr>pri_Progress := q\<rparr>)),
     (''estimated_eta'', decode_time_ptr (\<lambda>t r. r\<lparr>pri_EstimatedETA := t\<rparr>))]"

definition zero_provisioning :: ProvisioningInfo where
  "zero_provisioning = \<lparr>pri_IsActive = False, pri_Phase = [], pri_Progress = 0, pri_EstimatedETA = None\<rparr>"

definition connect_response_fields :: "ConnectResponse fields" where
  "connect_response_fields = [(''peer_id'', decode_text (\<lambda>t r. r\<lparr>cr_PeerID := t\<rparr>)),
     (''server_public_key'', decode_text (\<lambda>t r. r\<lparr>cr_ServerPublicKey := t\<rparr>)),
     (''server_ip'', decode_text (\<lambda>t r. r\<lparr>cr_ServerIP := t\<rparr>)), (''server_port'', decode_int (\<lambda>n r. r\<lparr>cr_ServerPort := n\<rparr>)),
     (''client_ip'', decode_text (\<lambda>t r. r\<lparr>cr_ClientIP := t\<rparr>)),
     (''client_private_key'', decode_text_ptr (\<lambda>t r. r\<lparr>cr_ClientPrivateKey := t\<rparr>)),
     (''dns'', decode_texts (\<lambda>ts r. r\<lparr>cr_DNS := ts\<rparr>)), (''allowed_ips'', decode_texts (\<lambda>ts r. r\<lparr>cr_AllowedIPs := ts\<rparr>))]"

definition zero_connect_response :: ConnectResponse where
  "zero_connect_response = \<lparr>cr_PeerID = [], cr_ServerPublicKey = [], cr_ServerIP = [], cr_ServerPort = 0, cr_ClientIP = [],
     cr_ClientPrivateKey = None, cr_DNS = [], cr_AllowedIPs = []\<rparr>"

definition connection_status_fields :: "PeerConnectionStatus fields" where
  "connection_status_fields = [(''request_id'', decode_text (\<lambda>t r. r\<lparr>pct_RequestID := t\<rparr>)),
     (''peer_id'', decode_text (\<lambda>t r. r\<lparr>pct_PeerID := t\<rparr>)), (''phase'', decode_text (\<lambda>t r. r\<lparr>pct_Phase := t\<rparr>)),
     (''progress'', decode_float (\<lambda>q r. r\<lparr>pct_Progress := q\<rparr>)), (''is_active'', decode_bool (\<lambda>b r. r\<lparr>pct_IsActive := b\<rparr>)),
     (''message'', decode_text (\<lambda>t r. r\<lparr>pct_Message := t\<rparr>)), (''error_message'', decode_text (\<lambda>t r. r\<lparr>pct_ErrorMessage := t\<rparr>)),
     (''started_at'', decode_time (\<lambda>t r. r\<lparr>pct_StartedAt := t\<rparr>)), (''last_updated'', decode_time (\<lambda>t r. r\<lparr>pct_LastUpdated := t\<rparr>)),
     (''estimated_eta'', decode_time_ptr (\<lambda>t r. r\<lparr>pct_EstimatedETA := t\<rparr>)),
     (''connection_details'', decode_struct_ptr pct_ConnectionDetails (\<lambda>c r. r\<lparr>pct_ConnectionDetails := c\<rparr>)
        connect_response_fields zero_connect_response)]"

definition zero_connection_status :: PeerConnectionStatus where
  "zero_connection_status = \<lparr>pct_RequestID = [], pct_PeerID = [], pct_Phase = [], pct_Progress = 0, pct_IsActive = False,
     pct_Message = [], pct_ErrorMessage = [], pct_StartedAt = zero_time, pct_LastUpdated = zero_time, pct_EstimatedETA = None,
     pct_ConnectionDetails = None\<rparr>"

definition peer_fields :: "api_Peer fields" where
  "peer_fields = [(''id'', decode_text (\<lambda>t r. r\<lparr>ap_ID := t\<rparr>)), (''public_key'', decode_text (\<lambda>t r. r\<lparr>ap_PublicKey := t\<rparr>)),
     (''allocated_ip'', decode_text (\<lambda>t r. r\<lparr>ap_AllocatedIP := t\<rparr>)), (''status'', decode_text (\<lambda>t r. r\<lparr>ap_Status := t\<rparr>)),
     (''node_id'', decode_text (\<lambda>t r. r\<lparr>ap_NodeID := t\<rparr>)), (''server_ip'', decode_text (\<lambda>t r. r\<lparr>ap_ServerIP := t\<rparr>)),
     (''server_status'', decode_text (\<lambda>t r. r\<lparr>ap_ServerStatus := t\<rparr>)), (''created_at'', decode_time (\<lambda>t r. r\<lparr>ap_CreatedAt := t\<rparr>)),
     (''last_handshake_at'', decode_time_ptr (\<lambda>t r. r\<lparr>ap_LastHandshakeAt := t\<rparr>))]"

definition zero_peer :: api_Peer where
  "zero_peer = \<lparr>ap_ID = [], ap_PublicKey = [], ap_AllocatedIP = [], ap_Status = [], ap_NodeID = [], ap_ServerIP = [],
     ap_ServerStatus = [], ap_CreatedAt = zero_time, ap_LastHandshakeAt = None\<rparr>"

definition disconnect_response_fields :: "DisconnectResponse fields" where
  "disconnect_response_fields = [(''message'', decode_text (\<lambda>t r. r\<lparr>drs_Message := t\<rparr>)),
     (''peer_id'', decode_text (\<lambda>t r. r\<lparr>drs_PeerID := t\<rparr>))]"

definition health_fields :: "HealthResponse fields" where
  "health_fields = [(''status'', decode_text (\<lambda>t r. r\<lparr>hlr_Status := t\<rparr>)), (''version'', decode_text (\<lambda>t r. r\<lparr>hlr_Version := t\<rparr>)),
     (''provisioning'', decode_struct_ptr hlr_Provisioning (\<lambda>p r. r\<lparr>hlr_Provisioning := p\<rparr>) provisioning_fields
        zero_provisioning)]"

section \<open>Environment\<close>

text \<open>A response: reading its body can fail, and what was read can be no JSON.\<close>

record http_response =
  hr_StatusCode :: int
  hr_Header :: "string \<Rightarrow> string"
  hr_Body :: "json res res"

record http_request =
  hq_Method :: string
  hq_URL :: string
  hq_ContentType :: string
  hq_Body :: "json option"

text \<open>The client with what it runs on: \<open>http.NewRequest\<close> fails on a malformed address, \<open>Do\<close> sends a request;
  the context may be done, at once or while the client sleeps or waits for a tick; \<open>goutil.ToInt\<close> reads a number.\<close>

record 'w api_client =
  cl_baseURL :: string
  cl_maxProvisioningWaits :: int
  cl_statusCheckInterval :: int
  cl_newRequest :: "string \<Rightarrow> string \<Rightarrow> go_error option"
  cl_do :: "http_request \<Rightarrow> 'w \<Rightarrow> http_response res \<times> 'w"
  cl_now :: "'w \<Rightarrow> int \<times> 'w"
  cl_ctxErr :: "'w \<Rightarrow> go_error option"
  cl_sleep :: "int \<Rightarrow> 'w \<Rightarrow> go_error option \<times> 'w"
  cl_tick :: "int \<Rightarrow> 'w \<Rightarrow> go_error option \<times> 'w"
  cl_toInt :: "string \<Rightarrow> int option"

type_synonym ('w, 'a) client_step = "'w \<Rightarrow> 'a res \<times> 'w"

definition second :: int where
  "second = 10 ^ 9"

text \<open>A new client on an environment.\<close>

definition api_NewClient :: "string \<Rightarrow> 'w api_client \<Rightarrow> 'w api_client" where
  "api_NewClient baseURL c =
     c\<lparr>cl_baseURL := baseURL, cl_maxProvisioningWaits := 5, cl_statusCheckInterval := 15 * second\<rparr>"

definition SetProvisioningWaitConfig :: "int \<Rightarrow> int \<Rightarrow> 'w api_client \<Rightarrow> 'w api_client" where
  "SetProvisioningWaitConfig maxWaits interval c =
     c\<lparr>cl_maxProvisioningWaits := maxWaits, cl_statusCheckInterval := interval\<rparr>"

definition clock :: "'w api_client \<Rightarrow> ('w, int) client_step" where
  "clock c w = (case cl_now c w of (t, w') \<Rightarrow> (Inr t, w'))"

definition or_done :: "('w \<Rightarrow> go_error option \<times> 'w) \<Rightarrow> ('w, unit) client_step" where
  "or_done m w = (case m w of (None, w') \<Rightarrow> (Inr (), w') | (Some e, w') \<Rightarrow> (Inl e, w'))"

text \<open>A request up to the body of its response.\<close>

definition http_call :: "'w api_client \<Rightarrow> string \<Rightarrow> string \<Rightarrow> json option \<Rightarrow> ('w, http_response \<times> json res) client_step" where
  "http_call c method path body =
     (let url = cl_baseURL c @ path in
      case cl_newRequest c method url of
        Some e \<Rightarrow> failS (WrapError ''failed to create request'' e)
      | None \<Rightarrow>
          bindS (map_errS (WrapError ''failed to make request'') (cl_do c \<lparr>hq_Method = method, hq_URL = url,
            hq_ContentType = (if body = None then [] else ''application/json''), hq_Body = body\<rparr>)) (\<lambda>resp.
          case hr_Body resp of
            Inl e \<Rightarrow> failS (WrapError ''failed to read response body'' e)
          | Inr b \<Rightarrow> returnS (resp, b)))"

definition decode_response :: "(json \<Rightarrow> 'd \<Rightarrow> 'd res) \<Rightarrow> 'd \<Rightarrow> json res \<Rightarrow> 'd api_Response res" where
  "decode_response decoder zero b =
     bindr b (\<lambda>v. unmarshal_struct (response_fields decoder) v \<lparr>ars_Success = False, ars_Data = zero, ars_Error = None\<rparr>)"

definition wrap_error :: "string \<Rightarrow> 'a res \<Rightarrow> 'a res" where
  "wrap_error t r = (case r of Inl e \<Rightarrow> Inl (WrapError t e) | Inr x \<Rightarrow> Inr x)"

definition success_data :: "string \<Rightarrow> (json \<Rightarrow> 'd \<Rightarrow> 'd res) \<Rightarrow> 'd \<Rightarrow> json res \<Rightarrow> 'd res" where
  "success_data t decoder zero b =
     bindr (wrap_error t (decode_response decoder zero b)) (\<lambda>r.
     if \<not> ars_Success r then Inl (PlainError ''API returned success=false without error details'') else Inr (ars_Data r))"

definition internal_error :: "json res \<Rightarrow> 'a res" where
  "internal_error b =
     bindr (wrap_error ''received 500 but failed to decode error'' (decode_response any_data () b)) (\<lambda>r.
     Inl (PlainError (case ars_Error r of
         Some i \<Rightarrow> ''internal server error: '' @ ei_Message i @ '' (request ID: '' @ ei_RequestID i @ '')''
       | None \<Rightarrow> ''internal server error (no details provided)'')))"

definition bad_request :: "json res \<Rightarrow> 'a res" where
  "bad_request b =
     bindr (wrap_error ''received 400 but failed to decode error'' (decode_response any_data () b)) (\<lambda>r.
     Inl (PlainError (case ars_Error r of Some i \<Rightarrow> ''bad request: '' @ ei_Message i
       | None \<Rightarrow> ''bad request (no details provided)'')))"

definition unexpected_status :: "int \<Rightarrow> 'a res" where
  "unexpected_status code = Inl (PlainError (''API returned unexpected status '' @ print_meta (MInt code)))"

section \<open>Single calls\<close>

definition client_GetProvisioningStatus :: "'w api_client \<Rightarrow> ('w, ProvisioningInfo) client_step" where
  "client_GetProvisioningStatus c =
     bindS (http_call c ''GET'' ''/api/v1/provisioning/status'' None) (\<lambda>(resp, b).
     let code = hr_StatusCode resp; decoder = unmarshal_struct provisioning_fields in
     liftS (if code = 200 then success_data ''failed to decode API response'' decoder zero_provisioning b
       else if code = 503 then success_data ''received 503 but failed to decode error'' decoder zero_provisioning b
       else if code = 500 then internal_error b else unexpected_status code))"

definition client_GetConnectionStatus :: "'w api_client \<Rightarrow> string \<Rightarrow> ('w, PeerConnectionStatus) client_step" where
  "client_GetConnectionStatus c requestID =
     bindS (http_call c ''GET'' (''/api/v1/connections/'' @ requestID) None) (\<lambda>(resp, b).
     let code = hr_StatusCode resp in
     liftS (if code = 200
       then success_data ''failed to decode API response'' (unmarshal_struct connection_status_fields) zero_connection_status b
       else if code = 404 then Inl (PlainError ''connection request not found'')
       else if code = 500 then internal_error b else unexpected_status code))"

definition client_GetPeerStatus :: "'w api_client \<Rightarrow> string \<Rightarrow> ('w, api_Peer) client_step" where
  "client_GetPeerStatus c peerID =
     bindS (http_call c ''GET'' (''/api/v1/peers/'' @ peerID) None) (\<lambda>(resp, b).
     let code = hr_StatusCode resp in
     liftS (if code = 200 then success_data ''failed to decode API response'' (unmarshal_struct peer_fields) zero_peer b
       else if code = 404 then Inl (PlainError ''peer not found'')
       else if code = 500 then internal_error b else unexpected_status code))"

definition client_GetHealth :: "'w api_client \<Rightarrow> ('w, HealthResponse) client_step" where
  "client_GetHealth c =
     bindS (http_call c ''GET'' ''/health'' None) (\<lambda>(resp, b).
     liftS (if hr_StatusCode resp = 200
       then success_data ''failed to decode API response'' (unmarshal_struct health_fields)
              \<lparr>hlr_Status = [], hlr_Version = [], hlr_Provisioning = None\<rparr> b
       else unexpected_status (hr_StatusCode resp)))"

definition disconnectPeerOnce :: "'w api_client \<Rightarrow> string \<Rightarrow> ('w, DisconnectResponse) client_step" where
  "disconnectPeerOnce c peerID =
     bindS (http_call c ''DELETE'' ''/api/v1/disconnect'' (Some (JObj [(''peer_id'', JStr peerID)]))) (\<lambda>(resp, b).
     let code = hr_StatusCode resp in
     liftS (if code = 200
       then success_data ''failed to decode API response'' (unmarshal_struct disconnect_response_fields)
              \<lparr>drs_Message = [], drs_PeerID = []\<rparr> b
       else if code = 404 then Inl (PlainError ''peer not found'')
       else if code = 400 then bad_request b
       else if code = 500 then internal_error b else unexpected_status code))"

section \<open>Connecting\<close>

text \<open>\<open>pollConnectionStatus\<close>: the last argument counts the attempts that are left after this one. One attempt
  ends the polling with the details or an error, or gives the status it saw.\<close>

definition poll_once :: "'w api_client \<Rightarrow> string \<Rightarrow> ('w, PeerConnectionStatus + ConnectResponse) client_step" where
  "poll_once c requestID w =
     (case cl_ctxErr c w of
        Some e \<Rightarrow> (Inl (WrapError ''connection polling cancelled'' e), w)
      | None \<Rightarrow>
          bindS (map_errS (WrapError ''failed to get connection status'') (client_GetConnectionStatus c requestID)) (\<lambda>st.
          if pct_Phase st = ''completed''
          then (case pct_ConnectionDetails st of
                  None \<Rightarrow> failS (PlainError ''connection completed but no connection details provided'')
                | Some d \<Rightarrow> returnS (Inr d))
          else if pct_Phase st = ''failed'' then failS (PlainError (''peer connection failed: '' @ pct_Message st))
          else returnS (Inl st)) w)"

text \<open>\<open>%.0f\<close> and \<open>%.1f\<close> round halves to even digits.\<close>

definition half_even :: "rat \<Rightarrow> int" where
  "half_even q = (let n = floor q; r = q - of_int n in
     if r < 1 / 2 \<or> (r = 1 / 2 \<and> even n) then n else n + 1)"

definition print_rounded :: "rat \<Rightarrow> string" where
  "print_rounded q = print_meta (MInt (half_even q))"

definition poll_timeout :: "PeerConnectionStatus \<Rightarrow> go_error" where
  "poll_timeout st = PlainError (''connection polling timed out after 60 attempts (phase: '' @ pct_Phase st @
     '', progress: '' @ print_rounded (pct_Progress st) @ ''%)'')"

fun poll_loop :: "'w api_client \<Rightarrow> string \<Rightarrow> nat \<Rightarrow> ('w, ConnectResponse) client_step" where
  "poll_loop c requestID 0 =
     bindS (poll_once c requestID) (\<lambda>r. case r of Inr d \<Rightarrow> returnS d | Inl st \<Rightarrow> failS (poll_timeout st))"
| "poll_loop c requestID (Suc n) =
     bindS (poll_once c requestID) (\<lambda>r. case r of
       Inr d \<Rightarrow> returnS d
     | Inl st \<Rightarrow> bindS (map_errS (WrapError ''connection polling cancelled'') (or_done (cl_sleep c (2 * second)))) (\<lambda>_.
         poll_loop c requestID n))"

definition pollConnectionStatus :: "'w api_client \<Rightarrow> string \<Rightarrow> ('w, ConnectResponse) client_step" where
  "pollConnectionStatus c requestID = poll_loop c requestID 59"

text \<open>The errors of one connection attempt: \<open>ProvisioningInProgressError\<close> is told apart by its type.\<close>

datatype connect_error = ProvisioningInProgress (pip_Message: string) (pip_EstimatedWait: int) (pip_RetryAfter: int)
  | OtherError go_error

definition as_other :: "('w, 'a) client_step \<Rightarrow> 'w \<Rightarrow> (connect_error + 'a) \<times> 'w" where
  "as_other m w = (case m w of (Inl e, w') \<Rightarrow> (Inl (OtherError e), w') | (Inr x, w') \<Rightarrow> (Inr x, w'))"

definition connect_request_json :: "api_ConnectRequest \<Rightarrow> json" where
  "connect_request_json req = JObj (omit_none ''public_key'' JStr (acq_PublicKey req) @
     (if acq_GenerateKeys req then [(''generate_keys'', JBool True)] else []))"

definition accepted_id :: "json res \<Rightarrow> string res" where
  "accepted_id b =
     bindr (wrap_error ''failed to decode async response'' (decode_response map_data None b)) (\<lambda>r.
     case ars_Data r of
       Some m \<Rightarrow>
         if \<not> ars_Success r then Inl (PlainError ''received 202 but invalid response structure'')
         else (case map_of m ''request_id'' of
                 Some i \<Rightarrow> if i = [] then Inl (PlainError ''received 202 but missing request_id'') else Inr i
               | None \<Rightarrow> Inl (PlainError ''received 202 but missing request_id''))
     | None \<Rightarrow> Inl (PlainError ''received 202 but invalid response structure''))"

definition print_tenths :: "rat \<Rightarrow> string" where
  "print_tenths q = (let n = half_even (q * 10); a = nat \<bar>n\<bar> in
     (if n < 0 then ''-'' else []) @ dec (a div 10) @ ''.'' @ dec (a mod 10))"

definition provisioning_message :: "ProvisioningInfo \<Rightarrow> string" where
  "provisioning_message p = ''Service provisioning in progress (phase: '' @ pri_Phase p @ '', progress: '' @
     print_tenths (pri_Progress p * 100) @ ''%)''"

text \<open>The answer 503 is read as provisioning information; the clock is only read for an arrival time.\<close>

definition unavailable :: "'w api_client \<Rightarrow> http_response \<Rightarrow> json res \<Rightarrow> 'w \<Rightarrow> (connect_error + 'a) \<times> 'w" where
  "unavailable c resp b =
     bindS (as_other (liftS (wrap_error ''received 503 but failed to decode provisioning response''
       (bindr b (\<lambda>v. unmarshal_struct provisioning_fields v zero_provisioning))))) (\<lambda>p.
     bindS (case pri_EstimatedETA p of
         None \<Rightarrow> returnS 0
       | Some eta \<Rightarrow> bindS (as_other (clock c)) (\<lambda>now. returnS (sgn (eta - now) * (\<bar>eta - now\<bar> div second)))) (\<lambda>estimatedWait.
     let header = hr_Header resp ''Retry-After'';
         retryAfter = (if header = [] then 0 else case cl_toInt c header of Some n \<Rightarrow> n | None \<Rightarrow> 0)
     in failS (ProvisioningInProgress (provisioning_message p) estimatedWait retryAfter)))"

definition connectPeerOnce :: "'w api_client \<Rightarrow> api_ConnectRequest \<Rightarrow> 'w \<Rightarrow> (connect_error + ConnectResponse) \<times> 'w" where
  "connectPeerOnce c req =
     bindS (as_other (http_call c ''POST'' ''/api/v1/connect'' (Some (connect_request_json req)))) (\<lambda>(resp, b).
     let code = hr_StatusCode resp in
     if code = 202 then as_other (bindS (liftS (accepted_id b)) (pollConnectionStatus c))
     else if code = 400 then as_other (liftS (bad_request b))
     else if code = 503 then unavailable c resp b
     else if code = 500 then as_other (liftS (internal_error b))
     else as_other (liftS (unexpected_status code)))"

section \<open>Waiting and retrying\<close>

text \<open>The loop over the ticks; the last argument bounds them, and running out of it is an error of its own.\<close>

definition OutOfFuel :: go_error where
  "OutOfFuel = PlainError ''out of fuel''"

fun wait_loop :: "'w api_client \<Rightarrow> int \<Rightarrow> int \<Rightarrow> nat \<Rightarrow> ('w, unit) client_step" where
  "wait_loop c interval deadline 0 = failS OutOfFuel"
| "wait_loop c interval deadline (Suc n) =
     bindS (or_done (cl_tick c interval)) (\<lambda>_. bindS (clock c) (\<lambda>now.
     if now > deadline then returnS ()
     else bindS (tryS (client_GetProvisioningStatus c)) (\<lambda>r. case r of
         Inl _ \<Rightarrow> wait_loop c interval deadline n
       | Inr p \<Rightarrow> if pri_IsActive p then wait_loop c interval deadline n else returnS ())))"

definition check_interval :: "'w api_client \<Rightarrow> int \<Rightarrow> int" where
  "check_interval c waitTime =
     (if waitTime < cl_statusCheckInterval c
      then (if waitTime div 3 < 5 * second then 5 * second else waitTime div 3) else cl_statusCheckInterval c)"

text \<open>A ticker comes once in an interval, so that the deadline is past after \<open>waitTime div interval + 1\<close> ticks.\<close>

definition wait_fuel :: "int \<Rightarrow> int \<Rightarrow> nat" where
  "wait_fuel waitTime interval = nat (waitTime div interval) + 1"

definition waitWithProvisioningStatusCheck :: "'w api_client \<Rightarrow> int \<Rightarrow> ('w, unit) client_step" where
  "waitWithProvisioningStatusCheck c waitTime =
     (let interval = check_interval c waitTime in
      bindS (clock c) (\<lambda>start.
      if interval \<le> 0 then failS (GoPanic ''non-positive interval for NewTicker'')
      else wait_loop c interval (start + waitTime) (wait_fuel waitTime interval)))"

text \<open>\<open>fmt.Errorf\<close> with \<open>%w\<close> and no error.\<close>

definition after_retries :: "string \<Rightarrow> go_error option \<Rightarrow> go_error" where
  "after_retries t last_error = (case last_error of Some e \<Rightarrow> WrapError t e | None \<Rightarrow> PlainError (t @ '': %!w(<nil>)''))"

text \<open>The back-off after an attempt; there is none, and no other attempt, after the last one and when the context is done.\<close>

definition back_off :: "'w api_client \<Rightarrow> nat \<Rightarrow> bool \<Rightarrow> ('w, bool) client_step" where
  "back_off c k is_last w =
     (if is_last \<or> cl_ctxErr c w \<noteq> None then (Inr False, w)
      else bindS (map_errS (WrapError ''context cancelled during retry'') (or_done (cl_sleep c (2 ^ k * second))))
             (\<lambda>_. returnS True) w)"

definition outcome :: "('w \<Rightarrow> 'a \<times> 'w) \<Rightarrow> ('w, 'a) client_step" where
  "outcome m w = (case m w of (r, w') \<Rightarrow> (Inr r, w'))"

text \<open>The attempts that are left. A wait for provisioning uses one up like any other failure.\<close>

fun connect_attempts ::
  "'w api_client \<Rightarrow> api_ConnectRequest \<Rightarrow> nat list \<Rightarrow> int \<Rightarrow> go_error option \<Rightarrow> ('w, ConnectResponse) client_step" where
  "connect_attempts c req [] waits last_error = failS (after_retries ''failed to connect peer after retries'' last_error)"
| "connect_attempts c req (a # as) waits last_error =
     bindS (outcome (connectPeerOnce c req)) (\<lambda>r. case r of
       Inr resp \<Rightarrow> returnS resp
     | Inl (ProvisioningInProgress m wait retryAfter) \<Rightarrow>
         if waits + 1 > cl_maxProvisioningWaits c
         then failS (WrapError (''provisioning taking too long, exceeded '' @ print_meta (MInt (cl_maxProvisioningWaits c)) @
                '' wait attempts'') (PlainError m))
         else bindS (map_errS (\<lambda>e. if is_panic e then e else WrapError ''context cancelled during provisioning wait'' e)
                (waitWithProvisioningStatusCheck c (wrap64 (retryAfter * second)))) (\<lambda>_.
              connect_attempts c req as (waits + 1) last_error)
     | Inl (OtherError e) \<Rightarrow> bindS (back_off c a (as = [])) (\<lambda>go_on.
         if go_on then connect_attempts c req as waits (Some e)
         else failS (after_retries ''failed to connect peer after retries'' (Some e))))"

definition connectPeerWithRetry :: "'w api_client \<Rightarrow> api_ConnectRequest \<Rightarrow> ('w, ConnectResponse) client_step" where
  "connectPeerWithRetry c req = connect_attempts c req [0, 1, 2] 0 None"

definition ConnectPeer :: "'w api_client \<Rightarrow> api_ConnectRequest \<Rightarrow> ('w, ConnectResponse) client_step" where
  "ConnectPeer c req = connectPeerWithRetry c req"

definition ConnectPeerWithoutWait :: "'w api_client \<Rightarrow> api_ConnectRequest \<Rightarrow> 'w \<Rightarrow> (connect_error + ConnectResponse) \<times> 'w" where
  "ConnectPeerWithoutWait c req = connectPeerOnce c req"

fun disconnect_attempts :: "'w api_client \<Rightarrow> string \<Rightarrow> nat list \<Rightarrow> go_error option \<Rightarrow> ('w, DisconnectResponse) client_step" where
  "disconnect_attempts c peerID [] last_error = failS (after_retries ''failed to disconnect peer after retries'' last_error)"
| "disconnect_attempts c peerID (a # as) last_error =
     bindS (tryS (disconnectPeerOnce c peerID)) (\<lambda>r. case r of
       Inr resp \<Rightarrow> returnS resp
     | Inl e \<Rightarrow> bindS (back_off c a (as = [])) (\<lambda>go_on.
         if go_on then disconnect_attempts c peerID as (Some e)
         else failS (after_retries ''failed to disconnect peer after retries'' (Some e))))"

definition client_DisconnectPeer :: "'w api_client \<Rightarrow> string \<Rightarrow> ('w, DisconnectResponse) client_step" where
  "client_DisconnectPeer c peerID = disconnect_attempts c peerID [0, 1, 2] None"

end
