(* ===== verification/ClientProps.thy ===== *)
theory ClientProps
  imports Client ApiProps
begin

text \<open>What the client makes of the answers of the server, and how its loops end.\<close>

section \<open>The client reads what the server wrote\<close>

lemma success_data_json:
  "success_data t d z (Inr (JObj [(''success'', JBool True), (''data'', v)])) = bindr (wrap_error t (d v z)) Inr"
  by (cases "d v z") (simp_all add: success_data_def decode_response_def response_fields_def find_field_def decode_bool_def
      wrap_error_def)

lemmas decode_defs = decode_text_def decode_text_ptr_def decode_bool_def decode_int_def decode_float_def decode_time_def
  decode_time_ptr_def decode_texts_def decode_struct_ptr_def find_field_def omit_text_def omit_none_def

lemma json_texts_map [simp]: "json_texts (map JStr ts) = Inr ts"
  by (induction ts) auto

lemma unmarshal_peer: "unmarshal_struct peer_fields (peer_json p) zero_peer = Inr p"
  by (cases p) (simp add: peer_json_def peer_fields_def zero_peer_def decode_defs split: option.splits)

lemma unmarshal_provisioning: "unmarshal_struct provisioning_fields (provisioning_json p) zero_provisioning = Inr p"
  by (cases p) (simp add: provisioning_json_def provisioning_fields_def zero_provisioning_def decode_defs split: option.splits)

definition port_ok :: "int \<Rightarrow> bool" where
  "port_ok n = (- (2 ^ 63) \<le> n \<and> n < 2 ^ 63)"

lemma unmarshal_connect_response:
  "port_ok (cr_ServerPort d) \<Longrightarrow> unmarshal_struct connect_response_fields (connect_response_json d) zero_connect_response = Inr d"
  by (cases d) (simp add: connect_response_json_def connect_response_fields_def zero_connect_response_def decode_defs port_ok_def
      split: option.splits)

lemma connect_response_json_obj: "connect_response_json d \<noteq> JNull"
  by (simp add: connect_response_json_def)

lemma unmarshal_connection_status:
  assumes "\<And>d. pct_ConnectionDetails st = Some d \<Longrightarrow> port_ok (cr_ServerPort d)"
  shows "unmarshal_struct connection_status_fields (connection_status_json st) zero_connection_status = Inr st"
  using assms
  by (cases st) (auto simp: connection_status_json_def connection_status_fields_def zero_connection_status_def decode_defs
      unmarshal_connect_response connect_response_json_obj split: option.splits)

text \<open>The document of a successful answer.\<close>

definition answer_json :: "json \<Rightarrow> json" where
  "answer_json v = JObj [(''success'', JBool True), (''data'', v)]"

lemma unmarshal_health:
  "unmarshal_struct health_fields (health_json p) \<lparr>hlr_Status = [], hlr_Version = [], hlr_Provisioning = None\<rparr> =
     Inr \<lparr>hlr_Status = ''healthy'', hlr_Version = ''1.0.0'', hlr_Provisioning = p\<rparr>"
proof -
  have "provisioning_json q \<noteq> JNull" for q by (simp add: provisioning_json_def)
  then show ?thesis
    by (simp add: health_json_def health_fields_def decode_defs unmarshal_provisioning split: option.splits)
qed


section \<open>The client at the server\<close>

text \<open>A request of the client is served and its answer goes back; the base address is left out.\<close>

definition to_server :: "http_request \<Rightarrow> request" where
  "to_server q = \<lparr>rq_Method = hq_Method q, rq_Path = hq_URL q,
     rq_Header = (\<lambda>k. if k = ''Content-Type'' then hq_ContentType q else []), rq_Query = (\<lambda>_. []),
     rq_Body = (case hq_Body q of Some v \<Rightarrow> Inr v | None \<Rightarrow> Inl (PlainError ''EOF'')), rq_PathValue = (\<lambda>_. []),
     rq_RequestID = None\<rparr>"

definition from_server :: "writer \<Rightarrow> http_response" where
  "from_server w = (case w_sent w of
       Some (code, h) \<Rightarrow> \<lparr>hr_StatusCode = code, hr_Header = (\<lambda>k. case h k of Some v \<Rightarrow> v | None \<Rightarrow> []),
         hr_Body = Inr (case w_body w of [BJson v] \<Rightarrow> Inr v | _ \<Rightarrow> Inl (PlainError ''invalid character''))\<rparr>
     | None \<Rightarrow> \<lparr>hr_StatusCode = 200, hr_Header = (\<lambda>_. []), hr_Body = Inr (Inl (PlainError ''unexpected end of JSON input''))\<rparr>)"

definition transport :: "('s, 'w) server \<Rightarrow> http_request \<Rightarrow> ('s, 'w) conn \<Rightarrow> http_response res \<times> ('s, 'w) conn" where
  "transport srv q s = (case serve srv (to_server q) s of (_, (w, s')) \<Rightarrow> (Inr (from_server w), s'))"

text \<open>A client of this server whose context is never done; other requests may be served while it sleeps.\<close>

definition client_of :: "('s, 'w) server \<Rightarrow> ('s, 'w) conn api_client \<Rightarrow> bool" where
  "client_of srv c = (cl_baseURL c = [] \<and> cl_newRequest c = (\<lambda>_ _. None) \<and> cl_do c = transport srv \<and> cl_ctxErr c = (\<lambda>_. None) \<and>
     (\<forall>d s. fst (cl_sleep c d s) = None))"

text \<open>Identifiers without characters that mean something in a path.\<close>

definition plain_id :: "string \<Rightarrow> bool" where
  "plain_id i = (i \<noteq> [] \<and> i \<noteq> ''.'' \<and> i \<noteq> ''..'' \<and> list_all (\<lambda>c. c \<noteq> CHR ''/'' \<and> c \<noteq> CHR 0x25) i)"

lemma unescape_plain: "list_all (\<lambda>c. c \<noteq> CHR 0x25) i \<Longrightarrow> unescape i = Some i"
  by (induction i) auto

lemma split_path:
  "list_all (\<lambda>c. c \<noteq> CHR ''/'') i \<Longrightarrow>
     split_on (CHR ''/'') (''/api/v1/connections/'' @ i) = [[], ''api'', ''v1'', ''connections'', i]"
  by (simp add: split_on_no_sep)

lemma last_plain: "plain_id i \<Longrightarrow> last (''/api/v1/connections/'' @ i) \<noteq> CHR ''/''"
proof -
  assume "plain_id i"
  then have "i \<noteq> []" "\<forall>c\<in>set i. c \<noteq> CHR ''/''" by (simp_all add: plain_id_def list_all_iff)
  then have "last i \<noteq> CHR ''/''" "last (''/api/v1/connections/'' @ i) = last i" by (auto simp: last_append)
  then show ?thesis by (simp only: not_False_eq_True)
qed

lemma find_connection:
  "i \<noteq> ''/'' \<Longrightarrow> find (\<lambda>(m, q). method_fits m ''GET'' \<and> match_path q [''api'', ''v1'', ''connections'', i] \<noteq> None) routes =
     Some (Some ''GET'', [Lit ''api'', Lit ''v1'', Lit ''connections'', Wild ''requestID''], GetConnection)"
  by (simp add: routes_def method_fits_def match_path_def)

lemma connection_route:
  assumes "plain_id i"
  shows "route ''GET'' (''/api/v1/connections/'' @ i) = Found GetConnection [(''requestID'', i)]"
proof -
  let ?p = "''/api/v1/connections/'' @ i"
  have i: "list_all (\<lambda>c. c \<noteq> CHR ''/'') i" "list_all (\<lambda>c. c \<noteq> CHR 0x25) i" "i \<noteq> []" "i \<noteq> ''.''" "i \<noteq> ''..''"
    using assms by (simp_all add: plain_id_def list_all_iff)
  have clean: "clean_path ?p = ?p"
    using last_plain [OF assms] split_path [OF i(1)] i(3-5) by (simp add: clean_path_def Let_def)
  have "path_unescape i = i" by (simp add: path_unescape_def unescape_plain i(2))
  moreover have "path_unescape ''api'' = ''api''" "path_unescape ''v1'' = ''v1''" "path_unescape ''connections'' = ''connections''"
    by (simp_all add: path_unescape_def)
  ultimately have segs: "segments ?p = [''api'', ''v1'', ''connections'', i]"
    using split_path [OF i(1)] i(3) by (simp add: segments_def Let_def)
  have "i \<noteq> ''/''" using i(1) by (cases i) auto
  then show ?thesis
    unfolding route_def Let_def clean segs find_connection [OF \<open>i \<noteq> ''/''\<close>] by (simp add: match_path_def)
qed

text \<open>The status of a request: what the tracker holds, or that the request is not known.\<close>

definition status_query :: "string \<Rightarrow> http_request" where
  "status_query i = \<lparr>hq_Method = ''GET'', hq_URL = ''/api/v1/connections/'' @ i, hq_ContentType = [], hq_Body = None\<rparr>"

lemma connection_answer:
  assumes i: "plain_id i"
    and d: "dispatch srv GetConnection (routed srv (to_server (status_query i)) [(''requestID'', i)] s)
        (start_writer srv (to_server (status_query i)) s, started srv (to_server (status_query i)) s) = (Inr (), (w, s'))"
    and h: "handled k w"
  shows "\<exists>w'. transport srv (status_query i) s = (Inr (from_server w'), s') \<and> w_sent w' = w_sent w \<and> w_body w' = w_body w"
proof -
  have r: "rq_Method (to_server (status_query i)) = ''GET''" "rq_Path (to_server (status_query i)) = ''/api/v1/connections/'' @ i"
    by (simp_all add: to_server_def status_query_def)
  have "route (rq_Method (to_server (status_query i))) (rq_Path (to_server (status_query i))) = Found GetConnection [(''requestID'', i)]"
    unfolding r by (rule connection_route [OF i])
  from serve_route [OF this _ d h] r(1) show ?thesis by (auto simp: transport_def)
qed

lemma client_status:
  assumes c: "client_of srv c" and i: "plain_id i"
  shows "\<exists>s'. client_GetConnectionStatus c i s = (case GetConnectionState i (cn_tracker s) of
        Some st \<Rightarrow> success_data ''failed to decode API response'' (unmarshal_struct connection_status_fields) zero_connection_status
          (Inr (answer_json (connection_status_json (connection_status st))))
      | None \<Rightarrow> Inl (PlainError ''connection request not found''), s') \<and> cn_tracker s' = cn_tracker s \<and> cn_events s' = cn_events s"
proof -
  let ?q = "status_query i"
  let ?r = "routed srv (to_server ?q) [(''requestID'', i)] s" and ?w = "start_writer srv (to_server ?q) s"
    and ?s = "started srv (to_server ?q) s"
  have ne: "i \<noteq> []" using i by (simp add: plain_id_def)
  have id: "rq_PathValue ?r ''requestID'' = i" by (simp add: path_values_def)
  have call: "http_call c ''GET'' (''/api/v1/connections/'' @ i) None s =
      (case transport srv ?q s of (Inr resp, s') \<Rightarrow> (case hr_Body resp of Inl e \<Rightarrow> (Inl (WrapError ''failed to read response body'' e), s')
          | Inr b \<Rightarrow> (Inr (resp, b), s')) | (Inl e, s') \<Rightarrow> (Inl (WrapError ''failed to make request'' e), s'))"
    using c by (simp add: http_call_def client_of_def status_query_def bindS_def map_errS_def split: prod.splits sum.splits)
  show ?thesis
  proof (cases "GetConnectionState i (cn_tracker s)")
    case None
    let ?e = "WithMetadata (NewDomainAPIError ErrCodePeerNotFound ''connection request not found'' False None) ''request_id'' (MString i)"
    have d: "dispatch srv GetConnection ?r (?w, ?s) = (Inr (), (WriteErrorResponse wrapped_writer ?r ?e ?w, ?s))"
      using None ne id
      by (simp add: dispatch_def getConnectionStatusHandler_def or_error_def attempt_def bindS_def tryS_def GetConnectionStatus_def
          write_error_def on_writer_def)
    have id': "rq_RequestID ?r = Some (request_id srv (to_server ?q) s)" by simp
    obtain w' where w': "transport srv ?q s = (Inr (from_server w'), ?s)"
      "w_sent w' = w_sent (WriteErrorResponse wrapped_writer ?r ?e ?w)"
      using connection_answer [OF i d error_handled [OF start_unsent id']] by blast
    obtain h where "w_sent (WriteErrorResponse wrapped_writer ?r ?e ?w) = Some (404, h)"
      using error_code_sent [OF start_unsent id', of ?e] by (auto simp: mapErrorCodeToHTTP_def)
    then show ?thesis using None w' call
      by (auto simp: from_server_def client_GetConnectionStatus_def bindS_def liftS_def)
  next
    case (Some st)
    let ?v = "connection_status_json (connection_status st)"
    have d: "dispatch srv GetConnection ?r (?w, ?s) = (Inr (), (WriteSuccess wrapped_writer ?v ?w, ?s))"
      using Some ne id
      by (simp add: dispatch_def getConnectionStatusHandler_def or_error_def attempt_def bindS_def tryS_def GetConnectionStatus_def
          write_success_def on_writer_def)
    obtain w' where w': "transport srv ?q s = (Inr (from_server w'), ?s)"
      "w_sent w' = w_sent (WriteSuccess wrapped_writer ?v ?w)" "w_body w' = w_body (WriteSuccess wrapped_writer ?v ?w)"
      using connection_answer [OF i d success_handled [OF start_unsent]] by blast
    obtain h where "w_sent (WriteSuccess wrapped_writer ?v ?w) = Some (200, h)"
      "w_body (WriteSuccess wrapped_writer ?v ?w) = [BJson (answer_json ?v)]"
      using success_sent [OF start_unsent] unfolding answer_json_def by blast
    then show ?thesis using Some w' call
      by (auto simp: from_server_def client_GetConnectionStatus_def bindS_def liftS_def)
  qed
qed

section \<open>Polling\<close>

lemma status_read:
  assumes "pcs_Phase st = ''completed'' \<Longrightarrow> port_ok (pcs_ServerPort st)"
  shows "success_data t (unmarshal_struct connection_status_fields) zero_connection_status
    (Inr (answer_json (connection_status_json (connection_status st)))) = Inr (connection_status st)"
proof -
  have "\<And>d. pct_ConnectionDetails (connection_status st) = Some d \<Longrightarrow> port_ok (cr_ServerPort d)"
    using assms by (auto simp: connection_status_def connection_details_def split: if_splits)
  from unmarshal_connection_status [OF this] show ?thesis
    by (simp add: answer_json_def success_data_json wrap_error_def)
qed

text \<open>While the client sleeps, the entry of its request stays what it is.\<close>

definition entry_kept :: "('s, 'w) conn api_client \<Rightarrow> string \<Rightarrow> PeerConnectionState \<Rightarrow> bool" where
  "entry_kept c i st = (\<forall>d s. GetConnectionState i (cn_tracker s) = Some st \<longrightarrow>
     GetConnectionState i (cn_tracker (snd (cl_sleep c d s))) = Some st)"

lemma poll_once_known:
  assumes c: "client_of srv c" "plain_id i" and st: "GetConnectionState i (cn_tracker s) = Some st"
    and ok: "pcs_Phase st = ''completed'' \<Longrightarrow> port_ok (pcs_ServerPort st)"
  shows "\<exists>s'. poll_once c i s = (if pcs_Phase st = ''completed''
        then (case connection_details st of None \<Rightarrow> Inl (PlainError ''connection completed but no connection details provided'')
              | Some d \<Rightarrow> Inr (Inr d))
        else if pcs_Phase st = ''failed'' then Inl (PlainError (''peer connection failed: '' @ pcs_Message st))
        else Inr (Inl (connection_status st)), s') \<and> GetConnectionState i (cn_tracker s') = Some st"
proof -
  obtain s' where s': "client_GetConnectionStatus c i s = (Inr (connection_status st), s')" "cn_tracker s' = cn_tracker s"
    using client_status [OF c, of s] by (auto simp: st status_read [OF ok])
  have "cl_ctxErr c s = None" using c(1) by (simp add: client_of_def)
  then show ?thesis using s' st
    by (auto simp: poll_once_def bindS_def map_errS_def connection_status_def split: option.splits)
qed

lemma sleep_keeps:
  assumes "client_of srv c" "entry_kept c i st" "GetConnectionState i (cn_tracker s) = Some st"
  obtains s' where "cl_sleep c d s = (None, s')" "GetConnectionState i (cn_tracker s') = Some st"
proof -
  obtain x s' where x: "cl_sleep c d s = (x, s')" by (metis surj_pair)
  then have "x = None" using assms(1) by (simp add: client_of_def) (metis fst_conv)
  moreover have "GetConnectionState i (cn_tracker s') = Some st" using assms(2,3) x by (simp add: entry_kept_def) (metis snd_conv)
  ultimately show ?thesis using x that by simp
qed

text \<open>An entry that is neither completed nor failed is polled until the attempts are used up.\<close>

lemma poll_unsettled:
  assumes c: "client_of srv c" "plain_id i" "entry_kept c i st"
    and ph: "pcs_Phase st \<noteq> ''completed''" "pcs_Phase st \<noteq> ''failed''"
  shows "GetConnectionState i (cn_tracker s) = Some st \<Longrightarrow>
    \<exists>s'. poll_loop c i n s = (Inl (poll_timeout (connection_status st)), s') \<and> GetConnectionState i (cn_tracker s') = Some st"
proof (induction n arbitrary: s)
  case 0
  then show ?case using poll_once_known [OF c(1,2) 0] ph by (auto simp: bindS_def)
next
  case (Suc n)
  obtain s1 where s1: "poll_once c i s = (Inr (Inl (connection_status st)), s1)" "GetConnectionState i (cn_tracker s1) = Some st"
    using poll_once_known [OF c(1,2) Suc.prems] ph by auto
  obtain s2 where s2: "cl_sleep c (2 * second) s1 = (None, s2)" "GetConnectionState i (cn_tracker s2) = Some st"
    by (rule sleep_keeps [OF c(1,3) s1(2)])
  show ?case using Suc.IH [OF s2(2)] s1(1) s2(1) by (simp add: bindS_def map_errS_def or_done_def)
qed


section \<open>A request that is not tracked\<close>

definition connect_query :: "api_ConnectRequest \<Rightarrow> http_request" where
  "connect_query req = \<lparr>hq_Method = ''POST'', hq_URL = ''/api/v1/connect'', hq_ContentType = ''application/json'',
     hq_Body = Some (connect_request_json req)\<rparr>"

text \<open>The server reads exactly the request that the client wrote, and the client the identifier of the answer.\<close>

lemma connect_request_read:
  "ParseJSONRequest connect_fields \<lparr>acq_PublicKey = None, acq_GenerateKeys = False\<rparr> (to_server (connect_query req)) = Inr req"
proof -
  have "str_contains ''application/json'' ''application/json''" by code_simp
  then show ?thesis
    by (cases req) (auto simp: ParseJSONRequest_def to_server_def connect_query_def connect_request_json_def connect_fields_def
        find_field_def decode_text_ptr_def decode_bool_def omit_none_def split: option.splits)
qed

lemma accepted_id_read: "i \<noteq> [] \<Longrightarrow> accepted_id (Inr (answer_json (accepted_json i))) = Inr i"
  by (simp add: accepted_id_def decode_response_def answer_json_def accepted_json_def response_fields_def find_field_def
      decode_bool_def map_data_def wrap_error_def)

text \<open>The answer to an accepted request leads to polling for its identifier.\<close>

lemma connect_accepted:
  assumes c: "client_of srv c" and valid: "ValidateConnectRequest req = Inr ()" and i: "i \<noteq> []"
    and async: "ConnectPeerAsync (re_conn (srv_rotation srv)) (ConvertToServiceConnectRequest req)
        (started srv (to_server (connect_query req)) s) = (Inr i, s1)"
  shows "connectPeerOnce c req s = as_other (pollConnectionStatus c i) s1"
proof -
  have r: "rq_Method (to_server (connect_query req)) = ''POST''" "rq_Path (to_server (connect_query req)) = ''/api/v1/connect''"
    by (simp_all add: to_server_def connect_query_def)
  obtain w h where w: "serve srv (to_server (connect_query req)) s = (Inr (), (w, s1))" "w_sent w = Some (202, h)"
    "w_body w = [BJson (answer_json (accepted_json i))]"
    using connect_served [OF r connect_request_read valid async] unfolding answer_json_def by blast
  have "http_call c ''POST'' ''/api/v1/connect'' (Some (connect_request_json req)) s =
      (Inr (from_server w, Inr (answer_json (accepted_json i))), s1)"
    using c w by (simp add: http_call_def client_of_def transport_def bindS_def map_errS_def connect_query_def from_server_def)
  then show ?thesis using w(2)
    by (simp add: connectPeerOnce_def bindS_def as_other_def from_server_def accepted_id_read [OF i] liftS_def
        split: prod.splits sum.splits)
qed

text \<open>C24: a client whose key is known already is told that its request does not exist, although nothing failed: the
  server accepts the request, but publishes no event, and the first poll is answered 404.\<close>

theorem known_key_not_found:
  assumes c: "client_of srv c" and key: "IsValidWireGuardKey key"
    and known: "peerSvc_GetByIdentifier ''wireguard'' key (cn_db s) = (Inr p, d')"
    and ids: "\<And>v. plain_id (fst (ce_uuid (re_conn (srv_rotation srv)) v))"
    and new: "\<And>v. GetConnectionState (fst (ce_uuid (re_conn (srv_rotation srv)) v)) (cn_tracker s) = None"
  shows "\<exists>s'. connectPeerOnce c \<lparr>acq_PublicKey = Some key, acq_GenerateKeys = False\<rparr> s =
      (Inl (OtherError (WrapError ''failed to get connection status'' (PlainError ''connection request not found''))), s') \<and>
    cn_events s' = cn_events s"
proof -
  let ?req = "\<lparr>acq_PublicKey = Some key, acq_GenerateKeys = False\<rparr>" and ?env = "re_conn (srv_rotation srv)"
  let ?s = "started srv (to_server (connect_query ?req)) s"
  obtain i v where i: "ce_uuid ?env (cn_world ?s) = (i, v)" by (metis surj_pair)
  have plain: "plain_id i" using ids [of "cn_world ?s"] i by simp
  have free: "GetConnectionState i (cn_tracker ?s) = None" using new [of "cn_world ?s"] i by simp
  have "peerSvc_GetByIdentifier ''wireguard'' key (cn_db ?s) = (Inr p, d')" using known by simp
  then obtain s1 where s1: "ConnectPeerAsync ?env (ConvertToServiceConnectRequest ?req) ?s = (Inr i, s1)"
    "cn_events s1 = cn_events ?s" "\<exists>e. GetConnectionStatus i (cn_tracker s1) = Inl e"
    using existing_peer_untracked [OF i free _ _ _ _ key, of "ConvertToServiceConnectRequest ?req"]
    by (auto simp: ConvertToServiceConnectRequest_def)
  have none: "GetConnectionState i (cn_tracker s1) = None" using s1(3) by (auto simp: GetConnectionStatus_def split: option.splits)
  have "key \<noteq> []" using key by (auto simp: IsValidWireGuardKey_def)
  then have valid: "ValidateConnectRequest ?req = Inr ()"
    using key by (simp add: ValidateConnectRequest_def api_validateWireGuardPublicKey_def)
  have "i \<noteq> []" using plain by (simp add: plain_id_def)
  from connect_accepted [OF c valid this s1(1)]
  have run: "connectPeerOnce c ?req s = as_other (pollConnectionStatus c i) s1" .
  obtain s2 where s2: "client_GetConnectionStatus c i s1 = (Inl (PlainError ''connection request not found''), s2)"
    "cn_events s2 = cn_events s1"
    using client_status [OF c plain, of s1] none by auto
  have "cl_ctxErr c s1 = None" using c by (simp add: client_of_def)
  then have "pollConnectionStatus c i s1 =
      (Inl (WrapError ''failed to get connection status'' (PlainError ''connection request not found'')), s2)"
    using s2(1) by (simp add: pollConnectionStatus_def eval_nat_numeral poll_once_def bindS_def map_errS_def)
  then show ?thesis using run s1(2) s2(2) by (simp add: as_other_def)
qed

section \<open>Waiting for a node\<close>

text \<open>\<open>D k w\<close>: \<open>k\<close> ticks of a ticker that was made at \<open>begun\<close> have come. Ticks are an interval apart and the
  clock does not run behind them.\<close>

definition ticker_law :: "'w api_client \<Rightarrow> int \<Rightarrow> int \<Rightarrow> (nat \<Rightarrow> 'w \<Rightarrow> bool) \<Rightarrow> bool" where
  "ticker_law c interval begun D =
     ((\<forall>k w q. D k w \<longrightarrow> D k (snd (cl_do c q w))) \<and>
      (\<forall>k w. D k w \<longrightarrow> D k (snd (cl_now c w)) \<and> begun + int k * interval \<le> fst (cl_now c w)) \<and>
      (\<forall>k w. D k w \<longrightarrow> D (Suc k) (snd (cl_tick c interval w)) \<and> fst (cl_tick c interval w) \<noteq> Some OutOfFuel))"

lemma ticker_lawD:
  assumes "ticker_law c interval begun D" "D k w"
  shows "D k (snd (cl_do c q w))" "D k (snd (cl_now c w))" "begun + int k * interval \<le> fst (cl_now c w)"
    "D (Suc k) (snd (cl_tick c interval w))" "fst (cl_tick c interval w) \<noteq> Some OutOfFuel"
  using assms unfolding ticker_law_def by blast+

lemma status_request_keeps:
  assumes "ticker_law c interval begun D" "D k w"
  shows "D k (snd (client_GetProvisioningStatus c w))"
proof -
  have "D k (snd (http_call c m p b w))" for m p b
  proof -
    have "D k (snd (cl_do c q w))" for q by (rule ticker_lawD(1) [OF assms])
    then show ?thesis using assms(2)
      by (auto simp: http_call_def bindS_def map_errS_def Let_def split: option.splits prod.splits sum.splits) (metis snd_conv)+
  qed
  then show ?thesis
    by (auto simp: client_GetProvisioningStatus_def bindS_def liftS_def Let_def split: prod.splits sum.splits) (metis snd_conv)+
qed

lemma wait_loop_ends:
  assumes law: "ticker_law c interval begun D"
  shows "D k w \<Longrightarrow> 0 < n \<Longrightarrow> deadline < begun + int (k + n) * interval \<Longrightarrow>
    fst (wait_loop c interval deadline n w) \<noteq> Inl OutOfFuel"
proof (induction n arbitrary: k w)
  case 0
  then show ?case by simp
next
  case (Suc n)
  obtain e w1 where w1: "cl_tick c interval w = (e, w1)" by (metis surj_pair)
  then have tick: "D (Suc k) w1" "e \<noteq> Some OutOfFuel" using ticker_lawD(4,5) [OF law Suc.prems(1)] by simp_all
  obtain t w2 where w2: "cl_now c w1 = (t, w2)" by (metis surj_pair)
  then have now: "D (Suc k) w2" "begun + int (Suc k) * interval \<le> t" using ticker_lawD(2,3) [OF law tick(1)] by simp_all
  obtain q w3 where w3: "client_GetProvisioningStatus c w2 = (q, w3)" by (metis surj_pair)
  have d3: "D (Suc k) w3" using status_request_keeps [OF law now(1)] w3 by simp
  have "fst (wait_loop c interval deadline n w3) \<noteq> Inl OutOfFuel" if "t \<le> deadline"
  proof (rule Suc.IH [OF d3])
    show "deadline < begun + int (Suc k + n) * interval" using Suc.prems(3) by simp
    show "0 < n" using that now(2) Suc.prems(3) by (cases n) auto
  qed
  then show ?case
    using w1 w2 w3 tick(2) by (auto simp: bindS_def or_done_def clock_def tryS_def split: option.splits sum.splits)
qed

lemma wait_loop_more:
  "fst (wait_loop c interval deadline n w) \<noteq> Inl OutOfFuel \<Longrightarrow>
     wait_loop c interval deadline (n + m) w = wait_loop c interval deadline n w"
proof (induction n arbitrary: w)
  case (Suc n)
  obtain e w1 where w1: "cl_tick c interval w = (e, w1)" by (metis surj_pair)
  obtain t w2 where w2: "cl_now c w1 = (t, w2)" by (metis surj_pair)
  obtain q w3 where w3: "client_GetProvisioningStatus c w2 = (q, w3)" by (metis surj_pair)
  have eq: "wait_loop c interval deadline (Suc k) w = (case e of Some x \<Rightarrow> (Inl x, w1)
      | None \<Rightarrow> if deadline < t then (Inr (), w2)
        else if (case q of Inl _ \<Rightarrow> True | Inr p \<Rightarrow> pri_IsActive p) then wait_loop c interval deadline k w3
        else (Inr (), w3))" for k
    using w1 w2 w3 by (simp add: bindS_def or_done_def clock_def tryS_def split: option.split sum.split)
  show ?case using Suc.IH [of w3] Suc.prems
    unfolding add_Suc eq by (auto simp del: wait_loop.simps split: option.splits if_splits)
qed simp

text \<open>C22: waiting for a node ends: if ticks are an interval apart and the clock does not run behind them, the bound on
  the ticks is never reached, whatever the status requests answer, so that the result is the one of the unbounded
  loop.\<close>

theorem provisioning_wait_ends:
  assumes now: "cl_now c w = (start, w1)" and pos: "0 < check_interval c waitTime"
    and law: "ticker_law c (check_interval c waitTime) start D" and first: "D 0 w1"
  shows "fst (waitWithProvisioningStatusCheck c waitTime w) \<noteq> Inl OutOfFuel \<and>
    (\<forall>m. waitWithProvisioningStatusCheck c waitTime w =
       wait_loop c (check_interval c waitTime) (start + waitTime) (wait_fuel waitTime (check_interval c waitTime) + m) w1)"
proof -
  let ?i = "check_interval c waitTime"
  have run: "waitWithProvisioningStatusCheck c waitTime w = wait_loop c ?i (start + waitTime) (wait_fuel waitTime ?i) w1"
    using pos now by (simp add: waitWithProvisioningStatusCheck_def Let_def bindS_def clock_def)
  have "waitTime < (waitTime div ?i + 1) * ?i"
    using pos by (metis add.commute distrib_right mult_1 mult.commute div_mult_mod_eq pos_mod_bound add_strict_left_mono)
  also have "\<dots> \<le> int (wait_fuel waitTime ?i) * ?i"
    using pos by (intro mult_right_mono) (simp_all add: wait_fuel_def)
  finally have "start + waitTime < start + int (0 + wait_fuel waitTime ?i) * ?i" by simp
  from wait_loop_ends [OF law first _ this] have "fst (waitWithProvisioningStatusCheck c waitTime w) \<noteq> Inl OutOfFuel"
    by (simp add: run wait_fuel_def)
  then show ?thesis using wait_loop_more unfolding run by metis
qed

text \<open>A wait for provisioning uses up an attempt: if every request finds the service provisioning and every wait
  ends, the client gives up after three requests with an error that wraps none, however many waits are
  allowed.\<close>

theorem provisioning_waits_use_attempts:
  assumes busy: "\<And>s. \<exists>m wait r s1 s2. connectPeerOnce c req s = (Inl (ProvisioningInProgress m wait r), s1) \<and>
      waitWithProvisioningStatusCheck c (wrap64 (r * second)) s1 = (Inr (), s2)"
    and "3 \<le> cl_maxProvisioningWaits c"
  shows "fst (connectPeerWithRetry c req s) = Inl (PlainError ''failed to connect peer after retries: %!w(<nil>)'')"
proof -
  have step: "\<exists>s2. connect_attempts c req (a # as) waits None s = connect_attempts c req as (waits + 1) None s2"
    if "waits + 1 \<le> cl_maxProvisioningWaits c" for a as waits s
  proof -
    obtain m wait r s1 s2 where b: "connectPeerOnce c req s = (Inl (ProvisioningInProgress m wait r), s1)"
      "waitWithProvisioningStatusCheck c (wrap64 (r * second)) s1 = (Inr (), s2)"
      using busy [of s] by blast
    then show ?thesis using that by (auto simp: bindS_def outcome_def map_errS_def intro!: exI [of _ s2])
  qed
  obtain s1 where s1: "connect_attempts c req [0, 1, 2] 0 None s = connect_attempts c req [1, 2] (0 + 1) None s1"
    using step [of 0] assms(2) by fastforce
  obtain s2 where s2: "connect_attempts c req [1, 2] (0 + 1) None s1 = connect_attempts c req [2] (0 + 1 + 1) None s2"
    using step [of "0 + 1"] assms(2) by fastforce
  obtain s3 where "connect_attempts c req [2] (0 + 1 + 1) None s2 = connect_attempts c req [] (0 + 1 + 1 + 1) None s3"
    using step [of "0 + 1 + 1"] assms(2) by fastforce
  then show ?thesis using s1 s2 by (simp add: connectPeerWithRetry_def after_retries_def)
qed

section \<open>Examples\<close>


definition example_client :: "(nat, nat) server \<Rightarrow> (nat, nat) conn api_client" where
  "example_client srv = \<lparr>cl_baseURL = [], cl_maxProvisioningWaits = 5, cl_statusCheckInterval = 30 * second,
     cl_newRequest = \<lambda>_ _. None, cl_do = transport srv, cl_now = Pair 0, cl_ctxErr = \<lambda>_. None, cl_sleep = \<lambda>_. Pair None,
     cl_tick = \<lambda>_. Pair None, cl_toInt = \<lambda>_. None\<rparr>"

lemma example_client: "client_of srv (example_client srv)" "entry_kept (example_client srv) i st"
  by (simp_all add: client_of_def entry_kept_def example_client_def)


theorem known_key_not_found_witness:
  "\<exists>s'. connectPeerOnce (example_client example_server) \<lparr>acq_PublicKey = Some wg_key_example, acq_GenerateKeys = False\<rparr>
      (example_conn known_peer_db) =
      (Inl (OtherError (WrapError ''failed to get connection status'' (PlainError ''connection request not found''))), s') \<and>
    cn_events s' = []"
proof -
  obtain p d where known: "peerSvc_GetByIdentifier ''wireguard'' wg_key_example (cn_db (example_conn known_peer_db)) = (Inr p, d)"
    using known_peer_found(2) by (auto simp: example_conn_def)
  have ids: "fst (ce_uuid (re_conn (srv_rotation example_server)) v) = ''request''" for v
    by (simp add: example_server_def example_conn_env_def)
  have plain: "plain_id (fst (ce_uuid (re_conn (srv_rotation example_server)) v))" for v
    unfolding ids by (simp add: plain_id_def)
  have new: "GetConnectionState (fst (ce_uuid (re_conn (srv_rotation example_server)) v)) (cn_tracker (example_conn known_peer_db)) = None" for v
    by (simp add: example_conn_def GetConnectionState_def)
  from known_key_not_found [OF example_client(1) known_peer_found(1) known plain new]
  show ?thesis by (simp add: example_conn_def)
qed

text \<open>A clock that only the ticks move, and a service that always answers 503 with an empty body.\<close>

definition clock_client :: "int api_client" where
  "clock_client = \<lparr>cl_baseURL = [], cl_maxProvisioningWaits = 5, cl_statusCheckInterval = 30 * second,
     cl_newRequest = \<lambda>_ _. None, cl_do = \<lambda>_. Pair (Inr \<lparr>hr_StatusCode = 503, hr_Header = \<lambda>_. [], hr_Body = Inr (Inr (JObj []))\<rparr>),
     cl_now = \<lambda>w. (w, w), cl_ctxErr = \<lambda>_. None, cl_sleep = \<lambda>d w. (None, w + d), cl_tick = \<lambda>d w. (None, w + d),
     cl_toInt = \<lambda>_. None\<rparr>"

lemma clock_client_ticks: "ticker_law clock_client interval begun (\<lambda>k w. w = begun + int k * interval)"
  by (simp add: ticker_law_def clock_client_def algebra_simps)

theorem provisioning_wait_ends_witness:
  "fst (waitWithProvisioningStatusCheck clock_client (60 * second) 7) \<noteq> Inl OutOfFuel"
proof -
  have "cl_now clock_client 7 = (7, 7)" "0 < check_interval clock_client (60 * second)"
    by (simp_all add: clock_client_def check_interval_def second_def)
  from provisioning_wait_ends [OF this clock_client_ticks] show ?thesis by simp
qed

theorem provisioning_waits_use_attempts_witness:
  "fst (connectPeerWithRetry clock_client \<lparr>acq_PublicKey = None, acq_GenerateKeys = True\<rparr> 0) =
     Inl (PlainError ''failed to connect peer after retries: %!w(<nil>)'')"
proof (rule provisioning_waits_use_attempts)
  let ?req = "\<lparr>acq_PublicKey = None, acq_GenerateKeys = True\<rparr>"
  fix s
  have "connectPeerOnce clock_client ?req s = (Inl (ProvisioningInProgress (provisioning_message zero_provisioning) 0 0), s)"
    by (simp add: connectPeerOnce_def http_call_def clock_client_def bindS_def as_other_def map_errS_def unavailable_def
        liftS_def wrap_error_def zero_provisioning_def)
  moreover have "waitWithProvisioningStatusCheck clock_client (wrap64 (0 * second)) s = (Inr (), s + 5 * second)"
    by (simp add: waitWithProvisioningStatusCheck_def clock_client_def wrap64_def check_interval_def second_def wait_fuel_def
        bindS_def clock_def or_done_def)
  ultimately show "\<exists>m wait r s1 s2. connectPeerOnce clock_client ?req s = (Inl (ProvisioningInProgress m wait r), s1) \<and>
      waitWithProvisioningStatusCheck clock_client (wrap64 (r * second)) s1 = (Inr (), s2)" by blast
qed (simp add: clock_client_def)

end
