(* ===== verification/WgLocal.thy ===== *)
theory WgLocal
  imports Client "HOL-Library.AList"
begin

text \<open>
  The local side of the connector: the files of the machine as far as package \<open>os\<close> shows them, the keys of
  \<open>internal/connector/wireguard/keys.go\<close> and the configurations of \<open>wireguard/config.go\<close>. Permissions are left
  out, and there are no symbolic links.
\<close>

section \<open>Paths\<close>

text \<open>Package \<open>path/filepath\<close> on Unix.\<close>

fun resolve_segments :: "bool \<Rightarrow> string list \<Rightarrow> string list \<Rightarrow> string list" where
  "resolve_segments rooted acc [] = rev acc"
| "resolve_segments rooted acc (t # ts) =
     (if t = [] \<or> t = ''.'' then resolve_segments rooted acc ts
      else if t = ''..'' then
        (case acc of
           a # as \<Rightarrow> if a \<noteq> ''..'' then resolve_segments rooted as ts else resolve_segments rooted (t # acc) ts
         | [] \<Rightarrow> if rooted then resolve_segments rooted [] ts else resolve_segments rooted [t] ts)
      else resolve_segments rooted (t # acc) ts)"

definition is_rooted :: "string \<Rightarrow> bool" where
  "is_rooted p = has_prefix p ''/''"

definition path_parts :: "string \<Rightarrow> string list" where
  "path_parts p = resolve_segments (is_rooted p) [] (split_on (CHR ''/'') p)"

definition make_path :: "bool \<Rightarrow> string list \<Rightarrow> string" where
  "make_path rooted ts = (if rooted then CHR ''/'' # str_join ''/'' ts else if ts = [] then ''.'' else str_join ''/'' ts)"

definition filepath_Clean :: "string \<Rightarrow> string" where
  "filepath_Clean p = make_path (is_rooted p) (path_parts p)"

definition filepath_Dir :: "string \<Rightarrow> string" where
  "filepath_Dir p = filepath_Clean (rev (dropWhile (\<lambda>c. c \<noteq> CHR ''/'') (rev p)))"

definition filepath_Base :: "string \<Rightarrow> string" where
  "filepath_Base p =
     (if p = [] then ''.''
      else let q = dropWhile (\<lambda>c. c = CHR ''/'') (rev p); b = rev (takeWhile (\<lambda>c. c \<noteq> CHR ''/'') q)
           in if b = [] then ''/'' else b)"

definition filepath_Join :: "string list \<Rightarrow> string" where
  "filepath_Join ps = (let qs = filter (\<lambda>p. p \<noteq> []) ps in if qs = [] then [] else filepath_Clean (str_join ''/'' qs))"

text \<open>The directories on the way to a path, and the path itself.\<close>

definition path_chain :: "string \<Rightarrow> string list" where
  "path_chain p = map (\<lambda>k. make_path (is_rooted p) (take k (path_parts p))) [1..<Suc (length (path_parts p))]"

section \<open>Files\<close>

text \<open>Every system call takes the next fault, if there is one left: it fails, and a call that works in steps may have
  done some of them. \<open>mc_suffixes\<close> and \<open>mc_random\<close> are what the random sources transport.\<close>

datatype fs_entry = RegularFile string | Directory

datatype io_fault = NoFault | Fails | FailsAfter nat

record machine =
  mc_files :: "(string \<times> fs_entry) list"
  mc_faults :: "io_fault list"
  mc_suffixes :: "nat list"
  mc_random :: "byte list option list"

type_synonym 'a io = "machine \<Rightarrow> 'a res \<times> machine"

definition ENOENT :: go_error where "ENOENT = PlainError ''no such file or directory''"
definition ENOTDIR :: go_error where "ENOTDIR = PlainError ''not a directory''"
definition EISDIR :: go_error where "EISDIR = PlainError ''is a directory''"
definition EEXIST :: go_error where "EEXIST = PlainError ''file exists''"
definition ENOTEMPTY :: go_error where "ENOTEMPTY = PlainError ''directory not empty''"
definition EIO :: go_error where "EIO = PlainError ''input/output error''"

definition path_error :: "string \<Rightarrow> string \<Rightarrow> go_error \<Rightarrow> go_error" where
  "path_error op' p e = WrapError (op' @ '' '' @ p) e"

definition os_IsNotExist :: "go_error \<Rightarrow> bool" where
  "os_IsNotExist e = (case e of WrapError _ x \<Rightarrow> x = ENOENT | _ \<Rightarrow> False)"

definition file_at :: "machine \<Rightarrow> string \<Rightarrow> fs_entry option" where
  "file_at m p = (let q = filepath_Clean p in if q = ''/'' \<or> q = ''.'' then Some Directory else map_of (mc_files m) q)"

definition set_file :: "string \<Rightarrow> fs_entry \<Rightarrow> machine \<Rightarrow> machine" where
  "set_file p x m = m\<lparr>mc_files := AList.update (filepath_Clean p) x (mc_files m)\<rparr>"

definition delete_file :: "string \<Rightarrow> machine \<Rightarrow> machine" where
  "delete_file p m = m\<lparr>mc_files := AList.delete (filepath_Clean p) (mc_files m)\<rparr>"

definition is_regular :: "machine \<Rightarrow> string \<Rightarrow> bool" where
  "is_regular m p = (case file_at m p of Some (RegularFile _) \<Rightarrow> True | _ \<Rightarrow> False)"

definition absent :: "machine \<Rightarrow> string \<Rightarrow> go_error" where
  "absent m p = (if list_ex (is_regular m) (path_chain (filepath_Dir p)) then ENOTDIR else ENOENT)"

definition next_fault :: "machine \<Rightarrow> io_fault \<times> machine" where
  "next_fault m = (case mc_faults m of [] \<Rightarrow> (NoFault, m) | f # fs \<Rightarrow> (f, m\<lparr>mc_faults := fs\<rparr>))"

text \<open>A call that is done or not.\<close>

definition sys_call :: "string \<Rightarrow> string \<Rightarrow> 'a io \<Rightarrow> 'a io" where
  "sys_call op' p body m = (case next_fault m of
       (NoFault, m') \<Rightarrow> body m'
     | (_, m') \<Rightarrow> (Inl (path_error op' p EIO), m'))"

text \<open>\<open>os.Stat\<close> says whether the path is a directory.\<close>

definition os_Stat :: "string \<Rightarrow> bool io" where
  "os_Stat p = sys_call ''stat'' p (\<lambda>m. case file_at m p of
       None \<Rightarrow> (Inl (path_error ''stat'' p (absent m p)), m)
     | Some x \<Rightarrow> (Inr (x = Directory), m))"

definition os_ReadFile :: "string \<Rightarrow> string io" where
  "os_ReadFile p = sys_call ''open'' p (\<lambda>m. case file_at m p of
       None \<Rightarrow> (Inl (path_error ''open'' p (absent m p)), m)
     | Some Directory \<Rightarrow> (Inl (path_error ''read'' p EISDIR), m)
     | Some (RegularFile c) \<Rightarrow> (Inr c, m))"

definition make_dirs :: "string list \<Rightarrow> machine \<Rightarrow> machine" where
  "make_dirs ps m = fold (\<lambda>p. set_file p Directory) ps m"

definition os_MkdirAll :: "string \<Rightarrow> unit io" where
  "os_MkdirAll p m =
     (let missing = filter (\<lambda>q. file_at m q = None) (path_chain p) in
      case next_fault m of
        (NoFault, m') \<Rightarrow> if list_ex (is_regular m) (path_chain p) then (Inl (path_error ''mkdir'' p ENOTDIR), m')
                       else (Inr (), make_dirs missing m')
      | (Fails, m') \<Rightarrow> (Inl (path_error ''mkdir'' p EIO), m')
      | (FailsAfter n, m') \<Rightarrow> (Inl (path_error ''mkdir'' p EIO),
          if list_ex (is_regular m) (path_chain p) then m' else make_dirs (take n missing) m'))"

text \<open>What keeps a file from being opened for writing.\<close>

definition cannot_create :: "machine \<Rightarrow> string \<Rightarrow> go_error option" where
  "cannot_create m p =
     (if file_at m (filepath_Dir p) \<noteq> Some Directory then Some (absent m p)
      else if file_at m p = Some Directory then Some EISDIR else None)"

definition os_WriteFile :: "string \<Rightarrow> string \<Rightarrow> unit io" where
  "os_WriteFile p c m =
     (case cannot_create m p of
        Some e \<Rightarrow> (Inl (path_error ''open'' p e), snd (next_fault m))
      | None \<Rightarrow> (case next_fault m of
            (NoFault, m') \<Rightarrow> (Inr (), set_file p (RegularFile c) m')
          | (Fails, m') \<Rightarrow> (Inl (path_error ''open'' p EIO), m')
          | (FailsAfter n, m') \<Rightarrow> (Inl (path_error ''write'' p EIO), set_file p (RegularFile (take n c)) m')))"

text \<open>\<open>os.CreateTemp\<close> with the pattern \<open>wgkey-*\<close> tries suffixes until a name is free.\<close>

definition temp_name :: "string \<Rightarrow> nat \<Rightarrow> string" where
  "temp_name d n = d @ ''/wgkey-'' @ dec n"

fun try_temp :: "string \<Rightarrow> nat list \<Rightarrow> string io" where
  "try_temp d [] m = (Inl (path_error ''createtemp'' (d @ ''/wgkey-*'') EEXIST), m\<lparr>mc_suffixes := []\<rparr>)"
| "try_temp d (n # ns) m =
     (if file_at m (temp_name d n) \<noteq> None then try_temp d ns m
      else case cannot_create m (temp_name d n) of
          Some e \<Rightarrow> (Inl (path_error ''open'' (temp_name d n) e), m\<lparr>mc_suffixes := ns\<rparr>)
        | None \<Rightarrow> (Inr (temp_name d n), set_file (temp_name d n) (RegularFile []) (m\<lparr>mc_suffixes := ns\<rparr>)))"

definition os_CreateTemp :: "string \<Rightarrow> string io" where
  "os_CreateTemp d = sys_call ''open'' (d @ ''/wgkey-*'') (\<lambda>m. try_temp d (mc_suffixes m) m)"

text \<open>Writing to, setting the mode of and closing an open file, by its name.\<close>

definition file_Write :: "string \<Rightarrow> string \<Rightarrow> unit io" where
  "file_Write p c m =
     (let old = (case file_at m p of Some (RegularFile x) \<Rightarrow> x | _ \<Rightarrow> []) in
      case next_fault m of
        (NoFault, m') \<Rightarrow> (Inr (), set_file p (RegularFile (old @ c)) m')
      | (Fails, m') \<Rightarrow> (Inl (path_error ''write'' p EIO), m')
      | (FailsAfter n, m') \<Rightarrow> (Inl (path_error ''write'' p EIO), set_file p (RegularFile (old @ take n c)) m'))"

definition file_Chmod :: "string \<Rightarrow> unit io" where
  "file_Chmod p = sys_call ''chmod'' p (returnS ())"

definition file_Close :: "string \<Rightarrow> unit io" where
  "file_Close p = sys_call ''close'' p (returnS ())"

definition os_Rename :: "string \<Rightarrow> string \<Rightarrow> unit io" where
  "os_Rename old new = sys_call ''rename'' old (\<lambda>m. case file_at m old of
       Some (RegularFile c) \<Rightarrow>
         (case cannot_create m new of
            Some e \<Rightarrow> (Inl (path_error ''rename'' old e), m)
          | None \<Rightarrow> (Inr (), set_file new (RegularFile c) (delete_file old m)))
     | Some Directory \<Rightarrow> (Inl (path_error ''rename'' old EIO), m)
     | None \<Rightarrow> (Inl (path_error ''rename'' old (absent m old)), m))"

definition os_Remove :: "string \<Rightarrow> unit io" where
  "os_Remove p = sys_call ''remove'' p (\<lambda>m. case file_at m p of
       None \<Rightarrow> (Inl (path_error ''remove'' p (absent m p)), m)
     | Some (RegularFile _) \<Rightarrow> (Inr (), delete_file p m)
     | Some Directory \<Rightarrow>
         (if list_ex (\<lambda>(q, _). has_prefix q (filepath_Clean p @ ''/'')) (mc_files m)
          then (Inl (path_error ''remove'' p ENOTEMPTY), m) else (Inr (), delete_file p m)))"

definition draw_random :: "byte list option io" where
  "draw_random m = (case mc_random m of [] \<Rightarrow> (Inr None, m) | b # bs \<Rightarrow> (Inr b, m\<lparr>mc_random := bs\<rparr>))"

text \<open>A deferred function runs after the body; its own result is lost.\<close>

definition deferS :: "('s \<Rightarrow> 'a \<times> 's) \<Rightarrow> ('s \<Rightarrow> 'b \<times> 's) \<Rightarrow> 's \<Rightarrow> 'a \<times> 's" where
  "deferS body f s = (case body s of (r, s') \<Rightarrow> (r, snd (f s')))"

section \<open>Keys\<close>

definition expandHomeDir :: "string res \<Rightarrow> string \<Rightarrow> string" where
  "expandHomeDir home path =
     (if has_prefix path ''~/'' then (case home of Inr h \<Rightarrow> h | Inl _ \<Rightarrow> []) @ ''/'' @ drop 2 path else path)"

text \<open>Writing a key to a temporary file and moving it into place.\<close>

definition install_key :: "string \<Rightarrow> string \<Rightarrow> unit io" where
  "install_key privateKey keyPath =
     bindS (map_errS (WrapError ''failed to create temp file for key'') (os_CreateTemp (filepath_Dir keyPath))) (\<lambda>tmpName.
     deferS
       (bindS (map_errS (WrapError ''failed to write private key to temp file'') (file_Write tmpName (privateKey @ [CHR 0x0A]))) (\<lambda>_.
        bindS (map_errS (WrapError ''failed to set permissions on temp key file'') (file_Chmod tmpName)) (\<lambda>_.
        bindS (map_errS (WrapError ''failed to close temp key file'') (file_Close tmpName)) (\<lambda>_.
        map_errS (WrapError ''failed to move temp key file into place'') (os_Rename tmpName keyPath)))))
       (bindS (tryS (file_Close tmpName)) (\<lambda>_. os_Remove tmpName)))"

definition LoadExistingKey :: "string res \<Rightarrow> string \<Rightarrow> string io" where
  "LoadExistingKey home path =
     (let keyPath = expandHomeDir home path in
      bindS (map_errS (\<lambda>e. if os_IsNotExist e then PlainError (''key file does not exist: '' @ keyPath)
          else WrapError ''failed to check key file'' e) (os_Stat keyPath)) (\<lambda>_.
      bindS (map_errS (WrapError ''failed to read private key'') (os_ReadFile keyPath)) (\<lambda>c.
      let privateKey = trim_space c in
      if \<not> IsValidWireGuardKey privateKey then failS (PlainError (''invalid private key format in '' @ keyPath))
      else returnS privateKey)))"

definition new_key_pair :: "(byte list \<Rightarrow> byte list option) \<Rightarrow> KeyPair io" where
  "new_key_pair x25519 = map_errS (\<lambda>e. if is_panic e then e else WrapError ''failed to generate key pair'' e)
     (bindS draw_random (\<lambda>b. liftS (GenerateKeyPair x25519 b)))"

definition LoadOrCreateKey :: "string res \<Rightarrow> (byte list \<Rightarrow> byte list option) \<Rightarrow> string \<Rightarrow> string io" where
  "LoadOrCreateKey home x25519 path =
     (let keyPath = expandHomeDir home path in
      bindS (tryS (os_Stat keyPath)) (\<lambda>st. case st of
        Inr _ \<Rightarrow> LoadExistingKey home keyPath
      | Inl e \<Rightarrow>
          if \<not> os_IsNotExist e then failS (WrapError ''failed to check key file'' e)
          else bindS (map_errS (WrapError ''failed to create key directory'') (os_MkdirAll (filepath_Dir keyPath))) (\<lambda>_.
               bindS (new_key_pair x25519) (\<lambda>kp.
               bindS (install_key (PrivateKey kp) keyPath) (\<lambda>_. returnS (PrivateKey kp))))))"

definition GetPublicKey :: "(byte list \<Rightarrow> byte list option) \<Rightarrow> string \<Rightarrow> string res" where
  "GetPublicKey x25519 privateKey = (case DerivePublicKey x25519 privateKey of
       Inl e \<Rightarrow> Inl (if is_panic e then e else WrapError ''failed to derive public key'' e) | Inr k \<Rightarrow> Inr k)"

definition DeleteKey :: "string res \<Rightarrow> string \<Rightarrow> unit io" where
  "DeleteKey home path = map_errS (WrapError ''failed to delete key file'') (os_Remove (expandHomeDir home path))"

definition km_GenerateKeyPair :: "(byte list \<Rightarrow> byte list option) \<Rightarrow> (string \<times> string) io" where
  "km_GenerateKeyPair x25519 = bindS (new_key_pair x25519) (\<lambda>kp. returnS (PrivateKey kp, PublicKey kp))"

definition SavePrivateKey :: "string res \<Rightarrow> string \<Rightarrow> string \<Rightarrow> unit io" where
  "SavePrivateKey home privateKey path =
     (let keyPath = expandHomeDir home path in
      if \<not> IsValidWireGuardKey privateKey then failS (PlainError ''invalid private key format'')
      else bindS (map_errS (WrapError ''failed to create key directory'') (os_MkdirAll (filepath_Dir keyPath))) (\<lambda>_.
           install_key privateKey keyPath))"

definition km_ValidatePrivateKey :: "string \<Rightarrow> unit res" where
  "km_ValidatePrivateKey k = (if \<not> IsValidWireGuardKey k then Inl (PlainError ''invalid WireGuard private key format'') else Inr ())"

definition km_ValidatePublicKey :: "string \<Rightarrow> unit res" where
  "km_ValidatePublicKey k = (if \<not> IsValidWireGuardKey k then Inl (PlainError ''invalid WireGuard public key format'') else Inr ())"

end
