(* ===== verification/WgConfig.thy ===== *)
theory WgConfig
  imports WgLocal
begin

text \<open>
  \<open>internal/connector/wireguard/config.go\<close>: making, checking, editing and applying WireGuard configurations. The
  commands \<open>wg\<close> and \<open>wg-quick\<close> are parameters.
\<close>

section \<open>Texts\<close>

definition newline :: char where
  "newline = CHR 0x0A"

definition text_lines :: "string \<Rightarrow> string list" where
  "text_lines t = split_on newline t"

definition join_lines :: "string list \<Rightarrow> string" where
  "join_lines ls = str_join [newline] ls"

text \<open>\<open>strings.Split\<close> by a longer text, \<open>strings.TrimPrefix\<close> and \<open>strings.TrimSuffix\<close>.\<close>

function split_text :: "string \<Rightarrow> string \<Rightarrow> string \<Rightarrow> string list" where
  "split_text sep acc [] = [rev acc]"
| "split_text sep acc (c # cs) =
     (if sep \<noteq> [] \<and> has_prefix (c # cs) sep then rev acc # split_text sep [] (drop (length sep - 1) cs)
      else split_text sep (c # acc) cs)"
  by pat_completeness auto
termination
  by (relation "measure (\<lambda>(sep, acc, t). length t)") auto

definition trim_prefix :: "string \<Rightarrow> string \<Rightarrow> string" where
  "trim_prefix t p = (if has_prefix t p then drop (length p) t else t)"

definition trim_suffix :: "string \<Rightarrow> string \<Rightarrow> string" where
  "trim_suffix t p = (if has_prefix (rev t) (rev p) then take (length t - length p) t else t)"

section \<open>Environment\<close>

text \<open>The home directory, the curve, and the commands: arguments, what is added to the environment, the files, and
  the combined output, with the error if there is one.\<close>

record 'w local_env =
  le_home :: "string res"
  le_x25519 :: "byte list \<Rightarrow> byte list option"
  le_run :: "string list \<Rightarrow> string list \<Rightarrow> machine \<Rightarrow> 'w \<Rightarrow> (string \<times> go_error option) \<times> 'w"

type_synonym ('w, 'a) local_step = "machine \<times> 'w \<Rightarrow> 'a res \<times> machine \<times> 'w"

definition in_machine :: "'a io \<Rightarrow> ('w, 'a) local_step" where
  "in_machine f x = (case f (fst x) of (r, m) \<Rightarrow> (r, (m, snd x)))"

definition run_command :: "'w local_env \<Rightarrow> string list \<Rightarrow> string list \<Rightarrow> ('w, string \<times> go_error option) local_step" where
  "run_command env args vars x = (case le_run env args vars (fst x) (snd x) of (r, w) \<Rightarrow> (Inr r, (fst x, w)))"

section \<open>Generating\<close>

definition config_lines :: "string \<Rightarrow> string \<Rightarrow> string \<Rightarrow> string \<Rightarrow> int \<Rightarrow> string \<Rightarrow> string list" where
  "config_lines privateKey dns serverPublicKey serverIP serverPort allowedIPs =
     [''[Interface]'', ''PrivateKey = '' @ privateKey, ''Address = 10.100.0.2/32'', ''DNS = '' @ dns, ''MTU = 1420'', [],
      ''[Peer]'', ''PublicKey = '' @ serverPublicKey, ''Endpoint = '' @ serverIP @ '':'' @ print_meta (MInt serverPort),
      ''AllowedIPs = '' @ allowedIPs, ''PersistentKeepalive = 25'', []]"

definition GenerateConfig ::
  "string res \<Rightarrow> (byte list \<Rightarrow> byte list option) \<Rightarrow> string \<Rightarrow> string \<Rightarrow> string \<Rightarrow> int \<Rightarrow> string \<Rightarrow> string \<Rightarrow> string io" where
  "GenerateConfig home x25519 clientKeyPath serverPublicKey serverIP serverPort allowedIPs dns =
     bindS (map_errS (\<lambda>e. if is_panic e then e else WrapError ''failed to load/create client key'' e)
       (LoadOrCreateKey home x25519 clientKeyPath)) (\<lambda>privateKey.
     returnS (join_lines (config_lines privateKey dns serverPublicKey serverIP serverPort allowedIPs)))"

definition WriteConfigFile :: "string \<Rightarrow> string \<Rightarrow> unit io" where
  "WriteConfigFile configContent configPath =
     bindS (map_errS (WrapError ''failed to create config directory'') (os_MkdirAll (filepath_Dir configPath))) (\<lambda>_.
     map_errS (WrapError ''failed to write config file'') (os_WriteFile configPath configContent))"

section \<open>Applying\<close>

text \<open>The interface named in the output of \<open>wg-quick\<close>: \<open>Interface for wg-wg0 is utun6\<close>.\<close>

definition named_interface :: "string \<Rightarrow> string option" where
  "named_interface l =
     (let line = trim_space l in
      if str_contains line ''Interface for '' \<and> str_contains line '' is '' then
        let parts = split_text '' is '' [] line; cand = trim_space (last parts)
        in if length parts \<ge> 2 \<and> cand \<noteq> [] then Some cand else None
      else None)"

fun actual_interface :: "string list \<Rightarrow> string" where
  "actual_interface [] = []"
| "actual_interface (l # ls) = (case named_interface l of Some i \<Rightarrow> i | None \<Rightarrow> actual_interface ls)"

definition command_failed :: "string \<Rightarrow> go_error \<Rightarrow> string \<Rightarrow> go_error" where
  "command_failed t e out = PlainError (t @ '': '' @ error_text e @ '', output: '' @ out)"

definition ApplyConfig :: "'w local_env \<Rightarrow> string \<Rightarrow> string \<Rightarrow> ('w, string) local_step" where
  "ApplyConfig env configPath interfaceName =
     bindS (run_command env [''wg-quick'', ''up'', configPath]
       [''WG_INTERFACE_NAME='' @ interfaceName, ''WG_ENDPOINT_RESOLUTION_RETRIES=5'']) (\<lambda>(out, err). liftS (case err of
         Some e \<Rightarrow> Inl (command_failed ''failed to apply WireGuard config'' e out)
       | None \<Rightarrow> let actualIf = actual_interface (text_lines out)
                 in Inr (if actualIf \<noteq> [] \<and> actualIf \<noteq> interfaceName then actualIf else interfaceName)))"

definition RemoveConfig :: "'w local_env \<Rightarrow> string \<Rightarrow> ('w, unit) local_step" where
  "RemoveConfig env configPath =
     bindS (run_command env [''wg-quick'', ''down'', configPath] []) (\<lambda>(out, err). liftS (case err of
         Some e \<Rightarrow> Inl (command_failed ''failed to remove WireGuard config'' e out) | None \<Rightarrow> Inr ()))"

definition InterfaceExists :: "'w local_env \<Rightarrow> string \<Rightarrow> ('w, bool) local_step" where
  "InterfaceExists env interfaceName =
     bindS (run_command env [''wg'', ''show'', interfaceName] []) (\<lambda>(out, err). returnS (err = None))"

section \<open>Checking and editing\<close>

definition isValidEndpoint :: "string \<Rightarrow> bool" where
  "isValidEndpoint endpoint = (case split_on (CHR '':'') endpoint of
       [ip, port] \<Rightarrow>
         if length ip < 7 \<or> 15 < length ip then False
         else if \<not> list_all is_digit port then False
         else let portNum = (case ParseInt64 port of Some n \<Rightarrow> n | None \<Rightarrow> 0) in 0 < portNum \<and> portNum < 65536
     | _ \<Rightarrow> False)"

record checks =
  hasInterface :: bool
  hasPeer :: bool
  privateKeyValid :: bool
  publicKeyValid :: bool
  endpointValid :: bool

text \<open>The text after the first \<open>=\<close>; without one the index is out of range.\<close>

definition field_value :: "string \<Rightarrow> string res" where
  "field_value line = (case dropWhile (\<lambda>c. c \<noteq> CHR ''='') line of
       [] \<Rightarrow> Inl (GoPanic ''index out of range'') | _ # v \<Rightarrow> Inr (trim_space v))"

definition check_line :: "string \<Rightarrow> checks \<Rightarrow> checks res" where
  "check_line l k =
     (let line = trim_space l in
      if has_prefix line ''[Interface]'' then Inr (k\<lparr>hasInterface := True\<rparr>)
      else if has_prefix line ''[Peer]'' then Inr (k\<lparr>hasPeer := True\<rparr>)
      else if has_prefix line ''PrivateKey'' then bindr (field_value line) (\<lambda>v. Inr (k\<lparr>privateKeyValid := IsValidWireGuardKey v\<rparr>))
      else if has_prefix line ''PublicKey'' then bindr (field_value line) (\<lambda>v. Inr (k\<lparr>publicKeyValid := IsValidWireGuardKey v\<rparr>))
      else if has_prefix line ''Endpoint'' then bindr (field_value line) (\<lambda>v. Inr (k\<lparr>endpointValid := isValidEndpoint v\<rparr>))
      else Inr k)"

fun check_lines :: "string list \<Rightarrow> checks \<Rightarrow> checks res" where
  "check_lines [] k = Inr k"
| "check_lines (l # ls) k = bindr (check_line l k) (check_lines ls)"

definition ValidateConfig :: "string \<Rightarrow> unit res" where
  "ValidateConfig configContent =
     bindr (check_lines (text_lines configContent) \<lparr>hasInterface = False, hasPeer = False, privateKeyValid = False,
       publicKeyValid = False, endpointValid = False\<rparr>) (\<lambda>k.
     if \<not> hasInterface k \<or> \<not> hasPeer k then Inl (PlainError ''configuration missing required sections'')
     else if \<not> privateKeyValid k then Inl (PlainError ''invalid private key format'')
     else if \<not> publicKeyValid k then Inl (PlainError ''invalid public key format'')
     else if \<not> endpointValid k then Inl (PlainError ''invalid endpoint format'')
     else Inr ())"

fun update_line :: "string \<Rightarrow> string \<Rightarrow> string list \<Rightarrow> string list" where
  "update_line fld v [] = []"
| "update_line fld v (l # ls) = (if has_prefix (trim_space l) fld then (fld @ '' = '' @ v) # ls else l # update_line fld v ls)"

definition UpdateConfigField :: "string \<Rightarrow> string \<Rightarrow> string \<Rightarrow> string" where
  "UpdateConfigField config fld v = join_lines (update_line fld v (text_lines config))"

end
