(* ===== verification/Connector.thy ===== *)
theory Connector
  imports WgConfig
begin

text \<open>
  \<open>internal/connector/connector.go\<close> and \<open>config/config.go\<close>: connecting this machine to the service, and the state
  that outlives the process. Messages on the terminal are left out.
\<close>

section \<open>State\<close>

record connector_Config =
  cc_APIURL :: string
  cc_Interface :: string
  cc_PollInterval :: int
  cc_AllowedIPs :: string
  cc_DNS :: string
  cc_LogLevel :: string
  cc_LogFormat :: string
  cc_KeyPath :: string
  cc_GenerateKeys :: bool

record connector =
  ct_config :: connector_Config
  ct_peerID :: string
  ct_tempConfigPath :: string
  ct_connected :: bool

text \<open>The environment adds the API client to what the local machine has: under the context of the caller, and under
  the timeout of a disconnection.\<close>

record 'w connector_env = "'w local_env" +
  ke_client :: "'w api_client"
  ke_closing :: "'w api_client"
  ke_pause :: "int \<Rightarrow> 'w \<Rightarrow> 'w"

record 'w app =
  ap_connector :: connector
  ap_machine :: machine
  ap_world :: 'w

type_synonym ('w, 'a) app_step = "'w app \<Rightarrow> 'a res \<times> 'w app"

definition on_local :: "('w, 'a) local_step \<Rightarrow> ('w, 'a) app_step" where
  "on_local f s = (case f (ap_machine s, ap_world s) of (r, (m, w)) \<Rightarrow> (r, s\<lparr>ap_machine := m, ap_world := w\<rparr>))"

definition on_files :: "'a io \<Rightarrow> ('w, 'a) app_step" where
  "on_files f s = (case f (ap_machine s) of (r, m) \<Rightarrow> (r, s\<lparr>ap_machine := m\<rparr>))"

definition on_api :: "('w \<Rightarrow> 'a \<times> 'w) \<Rightarrow> 'w app \<Rightarrow> 'a \<times> 'w app" where
  "on_api f s = (case f (ap_world s) of (r, w) \<Rightarrow> (r, s\<lparr>ap_world := w\<rparr>))"

definition set_connector :: "(connector \<Rightarrow> connector) \<Rightarrow> ('w, unit) app_step" where
  "set_connector f s = (Inr (), s\<lparr>ap_connector := f (ap_connector s)\<rparr>)"

definition config_of :: "'w app \<Rightarrow> connector_Config" where
  "config_of s = ct_config (ap_connector s)"

definition set_interface :: "string \<Rightarrow> connector \<Rightarrow> connector" where
  "set_interface i c = c\<lparr>ct_config := (ct_config c)\<lparr>cc_Interface := i\<rparr>\<rparr>"

definition wrap_unless_panic :: "string \<Rightarrow> go_error \<Rightarrow> go_error" where
  "wrap_unless_panic t e = (if is_panic e then e else WrapError t e)"

section \<open>Set-up\<close>

definition expandPath :: "string res \<Rightarrow> string \<Rightarrow> string" where
  "expandPath home path =
     (if path = [] \<or> hd path \<noteq> CHR 0x7E then path
      else case home of Inl _ \<Rightarrow> path | Inr h \<Rightarrow> if length path = 1 then h else filepath_Join [h, tl path])"

definition connector_defaults :: "string res \<Rightarrow> connector_Config \<Rightarrow> connector_Config" where
  "connector_defaults home cfg = cfg
     \<lparr>cc_KeyPath := expandPath home (if cc_KeyPath cfg = [] then ''~/.vpn-rotator/client.key'' else cc_KeyPath cfg),
      cc_Interface := (if cc_Interface cfg = [] then ''wg0'' else cc_Interface cfg),
      cc_PollInterval := (if cc_PollInterval cfg = 0 then 15 else cc_PollInterval cfg),
      cc_AllowedIPs := (if cc_AllowedIPs cfg = [] then ''0.0.0.0/0'' else cc_AllowedIPs cfg),
      cc_DNS := (if cc_DNS cfg = [] then ''9.9.9.9,149.112.112.112'' else cc_DNS cfg)\<rparr>"

definition NewConnector :: "string res \<Rightarrow> connector_Config \<Rightarrow> connector" where
  "NewConnector home cfg = \<lparr>ct_config = connector_defaults home cfg, ct_peerID = [], ct_tempConfigPath = [], ct_connected = False\<rparr>"

definition connector_SetProvisioningWaitConfig :: "int \<Rightarrow> int \<Rightarrow> 'w connector_env \<Rightarrow> 'w connector_env" where
  "connector_SetProvisioningWaitConfig maxWaits interval env =
     env\<lparr>ke_client := SetProvisioningWaitConfig maxWaits interval (ke_client env)\<rparr>"

section \<open>The state file\<close>

definition getStateFile :: "connector_Config \<Rightarrow> string" where
  "getStateFile cfg = filepath_Join [filepath_Dir (cc_KeyPath cfg), ''.'' @ cc_Interface cfg @ ''-state'']"

text \<open>\<open>fmt.Sprintf\<close> with arguments that are texts, for verbs without flags and widths. Arguments that no verb takes
  are appended.\<close>

fun sprintf_verbs :: "string \<Rightarrow> string list \<Rightarrow> string \<times> string list" where
  "sprintf_verbs [] args = ([], args)"
| "sprintf_verbs (c # cs) args =
     (if c \<noteq> CHR 0x25 then (case sprintf_verbs cs args of (t, rest) \<Rightarrow> (c # t, rest))
      else case cs of
        [] \<Rightarrow> (''%!(NOVERB)'', args)
      | v # vs \<Rightarrow>
          if v = CHR 0x25 then (case sprintf_verbs vs args of (t, rest) \<Rightarrow> (CHR 0x25 # t, rest))
          else (case args of
              [] \<Rightarrow> (case sprintf_verbs vs [] of (t, rest) \<Rightarrow> (''%!'' @ [v] @ ''(MISSING)'' @ t, rest))
            | a # as \<Rightarrow> (case sprintf_verbs vs as of (t, rest) \<Rightarrow>
                ((if v = CHR ''s'' \<or> v = CHR ''v'' then a else ''%!'' @ [v] @ ''(string='' @ a @ '')'') @ t, rest))))"

definition sprintf :: "string \<Rightarrow> string list \<Rightarrow> string" where
  "sprintf format args = (case sprintf_verbs format args of (t, rest) \<Rightarrow>
     t @ (if rest = [] then [] else ''%!(EXTRA '' @ str_join '', '' (map (\<lambda>a. ''string='' @ a) rest) @ '')''))"

definition saveConnectionState :: "('w, unit) app_step" where
  "saveConnectionState s =
     (let c = ap_connector s; stateFile = getStateFile (ct_config c) in
      if ct_peerID c = [] then returnS () s
      else bindS (map_errS (WrapError ''failed to create state directory'') (on_files (os_MkdirAll (filepath_Dir stateFile)))) (\<lambda>_.
           map_errS (WrapError ''failed to write connection state'')
             (on_files (os_WriteFile stateFile (sprintf (ct_peerID c) ['':'', ct_tempConfigPath c])))) s)"

definition cleanupConnectionState :: "('w, unit) app_step" where
  "cleanupConnectionState s = bindS (tryS (on_files (os_Remove (getStateFile (config_of s))))) (\<lambda>_. returnS ()) s"

text \<open>The interface in the name of a configuration file.\<close>

definition path_interface :: "string \<Rightarrow> string" where
  "path_interface path = trim_prefix (trim_suffix (filepath_Base path) ''.conf'') ''wg-''"

definition LoadConnectionState :: "'w connector_env \<Rightarrow> ('w, unit) app_step" where
  "LoadConnectionState env s =
     bindS (tryS (on_files (os_ReadFile (getStateFile (config_of s))))) (\<lambda>r. case r of
       Inl e \<Rightarrow> if os_IsNotExist e then returnS () else failS (WrapError ''failed to read connection state'' e)
     | Inr content \<Rightarrow> (case split_on (CHR '':'') content of
         [peerID, path] \<Rightarrow>
           bindS (set_connector (\<lambda>c. c\<lparr>ct_tempConfigPath := path, ct_peerID := peerID\<rparr>)) (\<lambda>_.
           bindS (on_local (InterfaceExists (local_env.truncate env) (cc_Interface (config_of s)))) (\<lambda>exists.
           if exists then returnS ()
           else bindS (on_local (InterfaceExists (local_env.truncate env) (path_interface path))) (\<lambda>other.
                if other then set_connector (set_interface (path_interface path)) else returnS ())))
       | _ \<Rightarrow> failS (PlainError ''invalid connection state format''))) s"

section \<open>Connecting\<close>

definition prepareConnectRequest :: "'w connector_env \<Rightarrow> ('w, api_ConnectRequest) app_step" where
  "prepareConnectRequest env s =
     (if cc_GenerateKeys (config_of s) then returnS \<lparr>acq_PublicKey = None, acq_GenerateKeys = True\<rparr> s
      else bindS (map_errS (wrap_unless_panic ''failed to load or create key'')
             (on_files (LoadOrCreateKey (le_home env) (le_x25519 env) (cc_KeyPath (config_of s))))) (\<lambda>privateKey.
           bindS (map_errS (wrap_unless_panic ''failed to derive public key'') (liftS (GetPublicKey (le_x25519 env) privateKey))) (\<lambda>publicKey.
           returnS \<lparr>acq_PublicKey = Some publicKey, acq_GenerateKeys = False\<rparr>)) s)"

definition handleServerKeys :: "'w connector_env \<Rightarrow> ConnectResponse \<Rightarrow> ('w, unit) app_step" where
  "handleServerKeys env resp s =
     (case cr_ClientPrivateKey resp of
        None \<Rightarrow> returnS () s
      | Some key \<Rightarrow>
          if \<not> cc_GenerateKeys (config_of s) then returnS () s
          else bindS (map_errS (WrapError ''failed to create key directory'')
                 (on_files (os_MkdirAll (filepath_Dir (cc_KeyPath (config_of s)))))) (\<lambda>_.
               map_errS (WrapError ''failed to save server-generated key'')
                 (on_files (SavePrivateKey (le_home env) key (cc_KeyPath (config_of s))))) s)"

fun joinStrings :: "string list \<Rightarrow> string \<Rightarrow> string" where
  "joinStrings [] sep = []"
| "joinStrings [t] sep = t"
| "joinStrings (t # ts) sep = foldl (\<lambda>r u. r @ sep @ u) t ts"

definition updateClientIP :: "string \<Rightarrow> string \<Rightarrow> string" where
  "updateClientIP config clientIP = UpdateConfigField config ''Address'' (clientIP @ ''/32'')"

definition updateDNS :: "string \<Rightarrow> string list \<Rightarrow> string" where
  "updateDNS config servers = UpdateConfigField config ''DNS'' (joinStrings servers '','')"

definition updateAllowedIPs :: "string \<Rightarrow> string list \<Rightarrow> string" where
  "updateAllowedIPs config ips = UpdateConfigField config ''AllowedIPs'' (joinStrings ips '','')"

definition server_values :: "ConnectResponse \<Rightarrow> string \<Rightarrow> string" where
  "server_values resp t0 =
     (let t1 = (if cr_ClientIP resp \<noteq> [] then updateClientIP t0 (cr_ClientIP resp) else t0);
          t2 = (if cr_DNS resp \<noteq> [] then updateDNS t1 (cr_DNS resp) else t1)
      in if cr_AllowedIPs resp \<noteq> [] then updateAllowedIPs t2 (cr_AllowedIPs resp) else t2)"

definition config_path :: "string \<Rightarrow> string" where
  "config_path i = ''/tmp/wg-'' @ i @ ''.conf''"

definition applyWireGuardConfig :: "'w connector_env \<Rightarrow> ConnectResponse \<Rightarrow> ('w, string) app_step" where
  "applyWireGuardConfig env resp s =
     (let cfg = config_of s; iface = cc_Interface cfg; path = config_path iface in
      bindS (map_errS (wrap_unless_panic ''failed to generate config'') (on_files (GenerateConfig (le_home env) (le_x25519 env)
        (cc_KeyPath cfg) (cr_ServerPublicKey resp) (cr_ServerIP resp) (cr_ServerPort resp) (cc_AllowedIPs cfg) (cc_DNS cfg)))) (\<lambda>t0.
      let content = server_values resp t0 in
      bindS (map_errS (wrap_unless_panic ''invalid WireGuard config'') (liftS (ValidateConfig content))) (\<lambda>_.
      bindS (set_connector (\<lambda>c. c\<lparr>ct_tempConfigPath := path\<rparr>)) (\<lambda>_.
      bindS (map_errS (WrapError ''failed to write config file'') (on_files (WriteConfigFile content path))) (\<lambda>_.
      bindS (map_errS (WrapError ''failed to apply WireGuard config'') (on_local (ApplyConfig (local_env.truncate env) path iface))) (\<lambda>actual.
      if actual \<noteq> [] \<and> actual \<noteq> iface then
        bindS (tryS (on_files (os_Remove path))) (\<lambda>_.
        bindS (set_connector (\<lambda>c. (set_interface actual c)\<lparr>ct_tempConfigPath := config_path actual\<rparr>)) (\<lambda>_.
        bindS (map_errS (WrapError ''failed to write config file'') (on_files (WriteConfigFile content (config_path actual)))) (\<lambda>_.
        returnS (config_path actual))))
      else returnS path))))) s)"

text \<open>What follows the answer of the service.\<close>

definition establish :: "'w connector_env \<Rightarrow> ConnectResponse \<Rightarrow> ('w, unit) app_step" where
  "establish env resp =
     bindS (map_errS (WrapError ''failed to handle server keys'') (handleServerKeys env resp)) (\<lambda>_.
     bindS (map_errS (wrap_unless_panic ''failed to apply WireGuard config'') (applyWireGuardConfig env resp)) (\<lambda>path.
     bindS (set_connector (\<lambda>c. c\<lparr>ct_peerID := cr_PeerID resp, ct_tempConfigPath := path, ct_connected := True\<rparr>)) (\<lambda>_.
     bindS (tryS saveConnectionState) (\<lambda>_. returnS ()))))"

definition Connect_vpn :: "'w connector_env \<Rightarrow> ('w, unit) app_step" where
  "Connect_vpn env =
     bindS (map_errS (wrap_unless_panic ''failed to prepare connection request'') (prepareConnectRequest env)) (\<lambda>req.
     bindS (map_errS (wrap_unless_panic ''failed to connect peer'') (on_api (ConnectPeer (ke_client env) req))) (establish env))"

text \<open>The errors of \<open>ConnectPeer\<close> are made by \<open>fmt.Errorf\<close>, so that none of them is a \<open>ProvisioningInProgressError\<close> and
  the branch for it is never taken.\<close>

definition ConnectWithProvisioningFeedback :: "'w connector_env \<Rightarrow> ('w, unit) app_step" where
  "ConnectWithProvisioningFeedback env = Connect_vpn env"

definition ConnectWithoutWait :: "'w connector_env \<Rightarrow> 'w app \<Rightarrow> (connect_error + unit) \<times> 'w app" where
  "ConnectWithoutWait env =
     bindS (as_other (map_errS (wrap_unless_panic ''failed to prepare connection request'') (prepareConnectRequest env))) (\<lambda>req.
     bindS (on_api (ConnectPeerWithoutWait (ke_client env) req)) (\<lambda>resp. as_other (establish env resp)))"

section \<open>Disconnecting and reconnecting\<close>

definition Disconnect_vpn :: "'w connector_env \<Rightarrow> ('w, unit) app_step" where
  "Disconnect_vpn env s =
     bindS (if ct_peerID (ap_connector s) \<noteq> []
       then bindS (tryS (on_api (client_DisconnectPeer (ke_closing env) (ct_peerID (ap_connector s))))) (\<lambda>_. returnS ())
       else returnS ()) (\<lambda>_.
     bindS (map_errS (WrapError ''failed to remove WireGuard configuration'')
       (on_local (RemoveConfig (local_env.truncate env) (ct_tempConfigPath (ap_connector s))))) (\<lambda>_.
     bindS cleanupConnectionState (\<lambda>_.
     set_connector (\<lambda>c. c\<lparr>ct_connected := False, ct_peerID := []\<rparr>)))) s"

definition Reconnect_vpn :: "'w connector_env \<Rightarrow> ('w, unit) app_step" where
  "Reconnect_vpn env s =
     bindS (tryS (on_files (os_Stat (getStateFile (config_of s))))) (\<lambda>st. case st of
       Inl e \<Rightarrow> failS (WrapError ''no existing connection state found, cannot reconnect'' e)
     | Inr is_dir \<Rightarrow>
         if is_dir then failS (after_retries ''no existing connection state found, cannot reconnect'' None)
         else
           bindS (if ct_connected (ap_connector s)
             then bindS (map_errS (WrapError ''failed to disconnect before reconnect'') (Disconnect_vpn env)) (\<lambda>_.
                  on_api (\<lambda>w. (Inr (), ke_pause env second w)))
             else returnS ()) (\<lambda>_.
           bindS getS (\<lambda>s1.
           bindS (map_errS (WrapError ''failed to reconnect WireGuard config'') (on_local (ApplyConfig (local_env.truncate env)
             (ct_tempConfigPath (ap_connector s1)) (cc_Interface (config_of s1))))) (\<lambda>actual.
           bindS (set_connector (\<lambda>c. (if actual \<noteq> [] \<and> actual \<noteq> cc_Interface (ct_config c) then set_interface actual c else c)
             \<lparr>ct_connected := True\<rparr>)) (\<lambda>_.
           Connect_vpn env))))) s"

definition IsConnected :: "'w connector_env \<Rightarrow> ('w, bool) app_step" where
  "IsConnected env s =
     (if ct_connected (ap_connector s) then on_local (InterfaceExists (local_env.truncate env) (cc_Interface (config_of s))) s
      else returnS False s)"

definition GetPeerID :: "connector \<Rightarrow> string" where
  "GetPeerID c = ct_peerID c"

section \<open>Monitoring\<close>

text \<open>The loop ends with the context; the last argument bounds the ticks.\<close>

fun monitor_loop :: "'w api_client \<Rightarrow> string \<Rightarrow> int \<Rightarrow> nat \<Rightarrow> string \<Rightarrow> ('w, unit) client_step" where
  "monitor_loop c peerID interval 0 lastNodeID = failS OutOfFuel"
| "monitor_loop c peerID interval (Suc n) lastNodeID =
     bindS (or_done (cl_tick c interval)) (\<lambda>_.
     bindS (tryS (client_GetPeerStatus c peerID)) (\<lambda>r. case r of
         Inl _ \<Rightarrow> monitor_loop c peerID interval n lastNodeID
       | Inr p \<Rightarrow> monitor_loop c peerID interval n (ap_NodeID p)))"

definition MonitorRotation :: "'w connector_env \<Rightarrow> nat \<Rightarrow> ('w, unit) app_step" where
  "MonitorRotation env ticks s =
     (let c = ap_connector s; interval = wrap64 (cc_PollInterval (ct_config c) * (60 * second)) in
      if \<not> ct_connected c \<or> ct_peerID c = [] then failS (PlainError ''not connected - cannot monitor rotation'') s
      else if interval \<le> 0 then failS (GoPanic ''non-positive interval for NewTicker'') s
      else on_api (monitor_loop (ke_client env) (ct_peerID c) interval ticks []) s)"

end
