(* ===== verification/ConnectorProps.thy ===== *)
theory ConnectorProps
  imports Connector ClientProps
begin

text \<open>
  What the connector leaves on the machine: the key file is never torn or overwritten, the configuration that
  \<open>wg-quick\<close> runs is the one of the answer, and the saved state is not what is read back.
\<close>

section \<open>Files\<close>

lemma file_at_other:
  "filepath_Clean q \<noteq> filepath_Clean p \<Longrightarrow> file_at (set_file p x m) q = file_at m q"
  "filepath_Clean q \<noteq> filepath_Clean p \<Longrightarrow> file_at (delete_file p m) q = file_at m q"
  by (simp_all add: file_at_def set_file_def delete_file_def map_of_update_alist map_of_delete_alist Let_def)

definition ordinary :: "string \<Rightarrow> bool" where
  "ordinary p = (filepath_Clean p \<noteq> ''/'' \<and> filepath_Clean p \<noteq> ''.'')"

lemma file_at_set: "ordinary p \<Longrightarrow> file_at (set_file p x m) p = Some x"
  by (simp add: file_at_def set_file_def map_of_update_alist Let_def ordinary_def)

lemma special_directory: "\<not> ordinary p \<Longrightarrow> file_at m p = Some Directory"
  by (auto simp: ordinary_def file_at_def Let_def)

lemma file_fields [simp]: "mc_suffixes (set_file p x m) = mc_suffixes m" "mc_random (set_file p x m) = mc_random m"
  "mc_faults (set_file p x m) = mc_faults m" "mc_suffixes (delete_file p m) = mc_suffixes m"
  "mc_random (delete_file p m) = mc_random m" "mc_faults (delete_file p m) = mc_faults m"
  by (simp_all add: set_file_def delete_file_def)

lemma file_at_same [simp]: "file_at (m\<lparr>mc_faults := f\<rparr>) = file_at m" "file_at (m\<lparr>mc_suffixes := ns\<rparr>) = file_at m"
  "file_at (m\<lparr>mc_random := bs\<rparr>) = file_at m"
  by (simp_all add: file_at_def Let_def fun_eq_iff)

lemma next_fault_same:
  assumes "next_fault m = (f, m')"
  shows "mc_files m' = mc_files m" "file_at m' = file_at m" "mc_suffixes m' = mc_suffixes m" "mc_random m' = mc_random m"
  using assms by (auto simp: next_fault_def split: list.splits)

lemma sys_call_cases:
  assumes "sys_call op' p body m = (r, m')"
  obtains (failed) "r = Inl (path_error op' p EIO)" "file_at m' = file_at m" "mc_suffixes m' = mc_suffixes m"
      "mc_random m' = mc_random m"
    | (made) m1 where "body m1 = (r, m')" "file_at m1 = file_at m" "mc_suffixes m1 = mc_suffixes m" "mc_random m1 = mc_random m"
proof -
  obtain f m1 where f: "next_fault m = (f, m1)" by (metis surj_pair)
  show ?thesis
    using assms f next_fault_same [OF f] by (cases f) (auto simp: sys_call_def intro: failed made)
qed

text \<open>What a call leaves at a path.\<close>

definition keeps_at :: "string \<Rightarrow> machine \<Rightarrow> machine \<Rightarrow> bool" where
  "keeps_at q m m' = (file_at m' q = file_at m q \<and> mc_suffixes m' = mc_suffixes m \<and> mc_random m' = mc_random m)"

lemma keeps_at_order [simp]: "reflp (keeps_at q)" "transp (keeps_at q)"
  by (auto simp: keeps_at_def reflp_def intro!: transpI)

lemma keeps_sys_call:
  assumes "stays (keeps_at q) body" shows "stays (keeps_at q) (sys_call op' p body)"
  unfolding stays_def
proof (intro allI)
  fix m
  obtain r m' where run: "sys_call op' p body m = (r, m')" by (metis surj_pair)
  have "keeps_at q m m'"
    using run
  proof (cases rule: sys_call_cases)
    case failed
    then show ?thesis by (simp add: keeps_at_def)
  next
    case (made m1)
    then show ?thesis using staysD [OF assms made(1)] by (simp add: keeps_at_def)
  qed
  then show "keeps_at q m (snd (sys_call op' p body m))" by (simp add: run)
qed

lemma read_calls_keep:
  "stays (keeps_at q) (os_Stat p)" "stays (keeps_at q) (os_ReadFile p)" "stays (keeps_at q) (file_Chmod p)"
  "stays (keeps_at q) (file_Close p)"
  unfolding os_Stat_def os_ReadFile_def file_Chmod_def file_Close_def
  by (rule keeps_sys_call, simp add: stays_def keeps_at_def split: option.split fs_entry.split)+

lemma remove_keeps: "filepath_Clean q \<noteq> filepath_Clean p \<Longrightarrow> stays (keeps_at q) (os_Remove p)"
  unfolding os_Remove_def
  by (rule keeps_sys_call) (auto simp: stays_def keeps_at_def file_at_other split: option.splits fs_entry.splits)

lemma make_dirs_keep:
  "filepath_Clean q \<notin> filepath_Clean ` set ps \<Longrightarrow> keeps_at q m (make_dirs ps m)"
proof (induction ps arbitrary: m)
  case (Cons p ps)
  have "keeps_at q m (set_file p Directory m)"
    using Cons.prems by (simp add: keeps_at_def file_at_other)
  then show ?case using Cons.IH [of "set_file p Directory m"] Cons.prems
    by (auto simp: make_dirs_def intro: transpD [OF keeps_at_order(2)])
qed (simp add: make_dirs_def keeps_at_def)

lemma mkdir_keeps:
  assumes "filepath_Clean q \<notin> filepath_Clean ` set (path_chain p)" shows "stays (keeps_at q) (os_MkdirAll p)"
  unfolding stays_def
proof (intro allI)
  fix m
  let ?ps = "filter (\<lambda>q. file_at m q = None) (path_chain p)"
  obtain f m1 where f: "next_fault m = (f, m1)" by (metis surj_pair)
  have k: "keeps_at q m m1" using next_fault_same [OF f] by (simp add: keeps_at_def)
  have "filepath_Clean q \<notin> filepath_Clean ` set (take n ?ps)" "filepath_Clean q \<notin> filepath_Clean ` set ?ps" for n
    using assms by (auto dest: in_set_takeD)
  then have "keeps_at q m (make_dirs ?ps m1)" "keeps_at q m (make_dirs (take n ?ps) m1)" for n
    using make_dirs_keep transpD [OF keeps_at_order(2) k] by blast+
  then show "keeps_at q m (snd (os_MkdirAll p m))"
    using k f by (cases f) (auto simp: os_MkdirAll_def Let_def)
qed

section \<open>Keys\<close>

text \<open>A path a key can be stored at: no directory on the way to itself, and no name of a temporary file.\<close>

definition key_path_ok :: "string \<Rightarrow> nat list \<Rightarrow> bool" where
  "key_path_ok k ns = (\<not> has_prefix k ''~/'' \<and> ordinary k \<and>
     filepath_Clean k \<notin> filepath_Clean ` set (path_chain (filepath_Dir k)) \<and>
     (\<forall>n\<in>set ns. filepath_Clean (temp_name (filepath_Dir k) n) \<noteq> filepath_Clean k))"

definition temp_ok :: "string \<Rightarrow> fs_entry option \<Rightarrow> string \<Rightarrow> string \<Rightarrow> machine \<Rightarrow> bool" where
  "temp_ok k x t c m = (file_at m k = x \<and> file_at m t = Some (RegularFile c) \<and> filepath_Clean t \<noteq> filepath_Clean k)"

lemma temp_ok_keep: "temp_ok k x t c m \<Longrightarrow> file_at m' = file_at m \<Longrightarrow> temp_ok k x t c m'"
  by (simp add: temp_ok_def)

lemma hoare_cases:
  assumes "\<And>s r s'. P s \<Longrightarrow> f s = (r, s') \<Longrightarrow> case r of Inl e \<Rightarrow> E e s' | Inr x \<Rightarrow> Q x s'"
  shows "hoare P f Q E"
  using assms unfolding hoare_def by (fastforce split: prod.splits sum.splits)

lemma try_temp_makes:
  assumes "\<forall>n\<in>set ns. filepath_Clean (temp_name d n) \<noteq> filepath_Clean k" "file_at m k = x"
    and "try_temp d ns m = (r, m')"
  shows "case r of Inr t \<Rightarrow> temp_ok k x t [] m' | Inl _ \<Rightarrow> file_at m' k = x"
  using assms
proof (induction ns arbitrary: m)
  case (Cons n ns)
  show ?case
  proof (cases "file_at m (temp_name d n) = None")
    case True
    then have "ordinary (temp_name d n)" using special_directory by fastforce
    then show ?thesis using Cons.prems True
      by (auto simp: temp_ok_def file_at_other file_at_set split: option.splits)
  next
    case False
    then show ?thesis using Cons by auto
  qed
qed auto

lemma create_temp_makes:
  "hoare (\<lambda>m. file_at m k = x \<and> key_path_ok k (mc_suffixes m)) (os_CreateTemp (filepath_Dir k))
     (\<lambda>t. temp_ok k x t []) (\<lambda>_ m. file_at m k = x)"
proof -
  have "case r of Inr t \<Rightarrow> temp_ok k x t [] m' | Inl _ \<Rightarrow> file_at m' k = x"
    if p: "file_at m k = x" "key_path_ok k (mc_suffixes m)" and run: "os_CreateTemp (filepath_Dir k) m = (r, m')" for m r m'
    using run unfolding os_CreateTemp_def
  proof (cases rule: sys_call_cases)
    case failed
    then show ?thesis using p by simp
  next
    case (made m1)
    then show ?thesis using p try_temp_makes [of "mc_suffixes m1" "filepath_Dir k" k m1 x r m'] by (simp add: key_path_ok_def)
  qed
  then show ?thesis by (intro hoare_cases) blast
qed

lemma write_makes: "hoare (temp_ok k x t c) (file_Write t d) (\<lambda>_. temp_ok k x t (c @ d)) (\<lambda>_ m. file_at m k = x)"
proof -
  have "case r of Inr u \<Rightarrow> temp_ok k x t (c @ d) m' | Inl _ \<Rightarrow> file_at m' k = x"
    if p: "temp_ok k x t c m" and run: "file_Write t d m = (r, m')" for m r m'
  proof -
    obtain f m1 where f: "next_fault m = (f, m1)" by (metis surj_pair)
    have "ordinary t" using p special_directory by (fastforce simp: temp_ok_def)
    then show ?thesis
      using p run f next_fault_same [OF f]
      by (cases f) (auto simp: file_Write_def temp_ok_def file_at_other file_at_set)
  qed
  then show ?thesis by (intro hoare_cases) blast
qed

lemma hoare_map_errS: "hoare P m Q (\<lambda>e. E (g e)) \<Longrightarrow> hoare P (map_errS g m) Q E"
  unfolding hoare_def map_errS_def by (fastforce split: prod.splits sum.splits)

lemma plain_call_keeps:
  "hoare (temp_ok k x t c) (sys_call op' p (returnS ())) (\<lambda>_. temp_ok k x t c) (\<lambda>_ m. file_at m k = x)"
proof -
  have keep: "temp_ok k x t c m'" if p: "temp_ok k x t c m" and run: "sys_call op' p (returnS ()) m = (r, m')" for m m' and r :: "unit res"
    using run by (cases rule: sys_call_cases) (auto intro: temp_ok_keep [OF p])
  show ?thesis
  proof (rule hoareI)
    fix m u m' assume "temp_ok k x t c m" "sys_call op' p (returnS ()) m = (Inr u, m')"
    then show "temp_ok k x t c m'" by (rule keep)
  next
    fix m e m' assume "temp_ok k x t c m" "sys_call op' p (returnS ()) m = (Inl e, m')"
    from keep [OF this] show "file_at m' k = x" by (simp add: temp_ok_def)
  qed
qed

lemma rename_makes:
  assumes "ordinary k"
  shows "hoare (temp_ok k x t c) (os_Rename t k) (\<lambda>_ m. file_at m k = Some (RegularFile c)) (\<lambda>_ m. file_at m k = x)"
proof -
  have "case r of Inr u \<Rightarrow> file_at m' k = Some (RegularFile c) | Inl _ \<Rightarrow> file_at m' k = x"
    if p: "temp_ok k x t c m" and run: "os_Rename t k m = (r, m')" for m r m'
    using run unfolding os_Rename_def
  proof (cases rule: sys_call_cases)
    case failed
    then show ?thesis using p by (simp add: temp_ok_def)
  next
    case (made m1)
    then show ?thesis using p assms by (auto simp: temp_ok_def file_at_other file_at_set split: option.splits)
  qed
  then show ?thesis by (intro hoare_cases) blast
qed

lemma hoare_deferS:
  assumes "hoare P body Q E" "stays R f" "\<And>x s s'. Q x s \<Longrightarrow> R s s' \<Longrightarrow> Q' x s'" "\<And>e s s'. E e s \<Longrightarrow> R s s' \<Longrightarrow> E' e s'"
  shows "hoare P (deferS body f) Q' E'"
  using assms unfolding hoare_def deferS_def stays_def by (fastforce split: prod.splits sum.splits)

text \<open>Whatever fails, the key file is what it was, or the key was moved into place whole.\<close>

lemma install_makes:
  "hoare (\<lambda>m. file_at m k = x \<and> key_path_ok k (mc_suffixes m)) (install_key key k)
     (\<lambda>_ m. file_at m k = Some (RegularFile (key @ [CHR 0x0A]))) (\<lambda>_ m. file_at m k = x)"
proof (cases "ordinary k")
  case True
  let ?done = "\<lambda>_ m. file_at m k = Some (RegularFile (key @ [CHR 0x0A]))" and ?failed = "\<lambda>_ m. file_at m k = x"
  show ?thesis
    unfolding install_key_def
  proof (rule hoare_bind [OF hoare_map_errS [OF create_temp_makes]])
    fix t
    let ?body = "bindS (map_errS (WrapError ''failed to write private key to temp file'') (file_Write t (key @ [CHR 0x0A]))) (\<lambda>_.
        bindS (map_errS (WrapError ''failed to set permissions on temp key file'') (file_Chmod t)) (\<lambda>_.
        bindS (map_errS (WrapError ''failed to close temp key file'') (file_Close t)) (\<lambda>_.
        map_errS (WrapError ''failed to move temp key file into place'') (os_Rename t k))))"
    let ?after = "bindS (tryS (file_Close t)) (\<lambda>_. os_Remove t)"
    have body: "hoare (temp_ok k x t []) ?body ?done ?failed"
    proof -
      have w: "hoare (temp_ok k x t []) (file_Write t (key @ [CHR 0x0A])) (\<lambda>_. temp_ok k x t (key @ [CHR 0x0A])) ?failed"
        using write_makes [of k x t "[]" "key @ [CHR 0x0A]"] by simp
      show ?thesis
        unfolding file_Chmod_def file_Close_def
        by (rule hoare_bind [OF hoare_map_errS [OF w]], rule hoare_bind [OF hoare_map_errS [OF plain_call_keeps]],
            rule hoare_bind [OF hoare_map_errS [OF plain_call_keeps]], rule hoare_map_errS [OF rename_makes [OF True]])
    qed
    show "hoare (temp_ok k x t []) (deferS ?body ?after) ?done ?failed"
    proof (cases "filepath_Clean k = filepath_Clean t")
      case True
      then show ?thesis by (simp add: hoare_def temp_ok_def)
    next
      case False
      then have "stays (keeps_at k) ?after"
        by (intro stays_bindS stays_tryS read_calls_keep remove_keeps keeps_at_order) auto
      from hoare_deferS [OF body this] show ?thesis by (simp add: keeps_at_def)
    qed
  qed
next
  case False
  then show ?thesis by (simp add: hoare_def key_path_ok_def)
qed

lemma valid_key_not_space: "IsValidWireGuardKey k \<Longrightarrow> k \<noteq> [] \<and> list_all (\<lambda>c. \<not> is_space c) k"
proof -
  assume "IsValidWireGuardKey k"
  then have k: "length k = 44" "b64_regexp k" by (simp_all add: IsValidWireGuardKey_def split: if_splits)
  have "\<not> is_space c" if "c \<in> set k" for c
  proof -
    have "c \<in> set (takeWhile is_b64_char k) \<or> c \<in> set (dropWhile is_b64_char k)"
      using that by (metis Un_iff set_append takeWhile_dropWhile_id)
    then have "is_b64_char c \<or> c = CHR ''=''"
      using k(2) by (auto simp: b64_regexp_def list_all_iff dest: set_takeWhileD)
    then show ?thesis by (auto simp: is_space_def is_b64_char_def b64_val_def Let_def split: if_splits)
  qed
  then show "k \<noteq> [] \<and> list_all (\<lambda>c. \<not> is_space c) k" using k(1) by (auto simp: list_all_iff)
qed

lemma trim_key_line: "IsValidWireGuardKey k \<Longrightarrow> trim_space (k @ [CHR 0x0A]) = k"
proof -
  assume "IsValidWireGuardKey k"
  then have k: "k \<noteq> []" "list_all (\<lambda>c. \<not> is_space c) k" using valid_key_not_space by auto
  then have a: "dropWhile is_space (k @ [CHR 0x0A]) = k @ [CHR 0x0A]" by (cases k) auto
  have "rev k \<noteq> []" "\<not> is_space (hd (rev k))" using k by (auto simp: hd_rev list_all_iff)
  then have "dropWhile is_space (rev k) = rev k" by (cases "rev k") auto
  moreover have "is_space (CHR 0x0A)" by (simp add: is_space_def)
  ultimately show ?thesis by (simp add: trim_space_def a)
qed

text \<open>A key file holds a line with a valid key.\<close>

definition holds_key :: "string \<Rightarrow> string \<Rightarrow> machine \<Rightarrow> bool" where
  "holds_key k key m = (IsValidWireGuardKey key \<and> (\<exists>c. file_at m k = Some (RegularFile c) \<and> trim_space c = key))"

lemma load_existing:
  assumes "\<not> has_prefix k ''~/''"
  shows "hoare (\<lambda>m. file_at m k = x) (LoadExistingKey home k) (\<lambda>key m. file_at m k = x \<and> holds_key k key m) (\<lambda>_ m. file_at m k = x)"
proof (rule hoare_cases)
  fix m r m' assume x: "file_at m k = x" and run: "LoadExistingKey home k m = (r, m')"
  have e: "expandHomeDir home k = k" using assms by (simp add: expandHomeDir_def)
  obtain q m1 where q: "os_Stat k m = (q, m1)" by (metis surj_pair)
  obtain q2 m2 where q2: "os_ReadFile k m1 = (q2, m2)" by (metis surj_pair)
  have keep: "file_at m1 k = x" "file_at m2 k = x"
    using staysD [OF read_calls_keep(1) q, of k] staysD [OF read_calls_keep(2) q2, of k] x by (simp_all add: keeps_at_def)
  have "file_at m2 k = Some (RegularFile c)" if "q2 = Inr c" for c
    using q2 unfolding os_ReadFile_def that
    by (cases rule: sys_call_cases) (auto split: option.splits fs_entry.splits)
  then show "case r of Inl e \<Rightarrow> file_at m' k = x | Inr key \<Rightarrow> file_at m' k = x \<and> holds_key k key m'"
    using run q q2 keep
    by (auto simp: LoadExistingKey_def e Let_def bindS_def map_errS_def holds_key_def split: sum.splits if_splits)
qed

lemma mkdir_makes:
  "hoare (\<lambda>m. file_at m k = x \<and> key_path_ok k (mc_suffixes m) \<and> P (mc_random m)) (os_MkdirAll (filepath_Dir k))
     (\<lambda>_ m. file_at m k = x \<and> key_path_ok k (mc_suffixes m) \<and> P (mc_random m)) (\<lambda>_ m. file_at m k = x)"
proof (rule hoare_cases)
  fix m r m' assume p: "file_at m k = x \<and> key_path_ok k (mc_suffixes m) \<and> P (mc_random m)" and run: "os_MkdirAll (filepath_Dir k) m = (r, m')"
  then have "keeps_at k m m'" using staysD [OF mkdir_keeps run] by (simp add: key_path_ok_def)
  then show "case r of Inl e \<Rightarrow> file_at m' k = x | Inr y \<Rightarrow> file_at m' k = x \<and> key_path_ok k (mc_suffixes m') \<and> P (mc_random m')"
    using p by (auto simp: keeps_at_def split: sum.splits)
qed

text \<open>The random source delivers 32 bytes or fails, and so does the curve.\<close>

definition full_random :: "byte list option list \<Rightarrow> bool" where
  "full_random bs = (\<forall>b. Some b \<in> set bs \<longrightarrow> length b = 32)"

definition full_curve :: "(byte list \<Rightarrow> byte list option) \<Rightarrow> bool" where
  "full_curve x25519 = (\<forall>k. length k = 32 \<longrightarrow> (\<exists>p. x25519 k = Some p \<and> length p = 32))"

lemma new_key_makes:
  assumes "full_curve x25519"
  shows "hoare (\<lambda>m. P m \<and> full_random (mc_random m) \<and> (\<forall>bs. P (m\<lparr>mc_random := bs\<rparr>))) (new_key_pair x25519)
    (\<lambda>kp m. P m \<and> IsValidWireGuardKey (PrivateKey kp)) (\<lambda>_. P)"
proof (rule hoare_cases)
  fix m r m' assume p: "P m \<and> full_random (mc_random m) \<and> (\<forall>bs. P (m\<lparr>mc_random := bs\<rparr>))" and run: "new_key_pair x25519 m = (r, m')"
  obtain b m1 where b: "draw_random m = (Inr b, m1)" by (cases "mc_random m") (auto simp: draw_random_def)
  have m1: "P m1" "b = None \<or> (\<exists>bs. b = Some bs \<and> length bs = 32)"
    using b p by (auto simp: draw_random_def full_random_def split: list.splits)
  have "IsValidWireGuardKey (PrivateKey kp)" if made: "GenerateKeyPair x25519 b = Inr kp" for kp
  proof -
    obtain bs where "b = Some bs" "length bs = 32" using m1(2) made by (auto simp: GenerateKeyPair_def)
    then show ?thesis using generated_keys_valid [of bs x25519] assms made by (auto simp: full_curve_def)
  qed
  then show "case r of Inl e \<Rightarrow> P m' | Inr kp \<Rightarrow> P m' \<and> IsValidWireGuardKey (PrivateKey kp)"
    using run b m1(1) by (auto simp: new_key_pair_def bindS_def map_errS_def liftS_def split: sum.splits)
qed

text \<open>What a successful or failed call of \<open>LoadOrCreateKey\<close> leaves.\<close>

lemma load_or_create:
  assumes k: "expandHomeDir home path = k" and curve: "full_curve x25519"
  shows "hoare (\<lambda>m. file_at m k = x \<and> key_path_ok k (mc_suffixes m) \<and> full_random (mc_random m)) (LoadOrCreateKey home x25519 path)
    (\<lambda>key m. holds_key k key m \<and> (x \<noteq> None \<longrightarrow> file_at m k = x)) (\<lambda>_ m. file_at m k = x)"
    (is "hoare ?P _ ?Q ?E")
proof (cases "has_prefix k ''~/''")
  case True
  then show ?thesis by (simp add: hoare_def key_path_ok_def)
next
  case False
  show ?thesis
    unfolding LoadOrCreateKey_def Let_def k
  proof (rule hoare_bind)
    let ?S = "\<lambda>st m. ?P m \<and> (case st of Inl e \<Rightarrow> os_IsNotExist e \<longrightarrow> x = None | Inr _ \<Rightarrow> True)"
    show "hoare ?P (tryS (os_Stat k)) ?S ?E"
    proof (rule hoare_tryS, rule hoare_cases)
      fix m r m' assume p: "?P m" and run: "os_Stat k m = (r, m')"
      have keep: "?P m'" using p staysD [OF read_calls_keep(1) run, of k] by (simp add: keeps_at_def)
      have "x = None" if "r = Inl e" "os_IsNotExist e" for e
        using run unfolding os_Stat_def
      proof (cases rule: sys_call_cases)
        case failed
        then show ?thesis using that by (simp add: os_IsNotExist_def path_error_def EIO_def ENOENT_def)
      next
        case (made m1)
        then show ?thesis using that p by (auto split: option.splits)
      qed
      then show "case r of Inl e \<Rightarrow> ?S (Inl e) m' | Inr y \<Rightarrow> ?S (Inr y) m'" using keep by (auto split: sum.splits)
    qed
    fix st
    show "hoare (?S st) (case st of Inr _ \<Rightarrow> LoadExistingKey home k
        | Inl e \<Rightarrow> if \<not> os_IsNotExist e then failS (WrapError ''failed to check key file'' e)
          else bindS (map_errS (WrapError ''failed to create key directory'') (os_MkdirAll (filepath_Dir k))) (\<lambda>_.
               bindS (new_key_pair x25519) (\<lambda>kp. bindS (install_key (PrivateKey kp) k) (\<lambda>_. returnS (PrivateKey kp))))) ?Q ?E"
    proof (cases st)
      case (Inr d)
      show ?thesis unfolding Inr sum.case
        by (rule hoare_weaken [OF load_existing [OF False, of x home]]) auto
    next
      case (Inl e)
      show ?thesis
      proof (cases "os_IsNotExist e")
        case True
        let ?G = "\<lambda>m. file_at m k = x \<and> key_path_ok k (mc_suffixes m)"
        have gen: "hoare (\<lambda>m. file_at m k = x \<and> key_path_ok k (mc_suffixes m) \<and> full_random (mc_random m)) (new_key_pair x25519)
            (\<lambda>kp m. ?G m \<and> IsValidWireGuardKey (PrivateKey kp)) ?E"
          by (rule hoare_weaken [OF new_key_makes [OF curve, of ?G]]) simp_all
        have inst: "hoare (\<lambda>m. ?G m \<and> IsValidWireGuardKey key) (install_key key k)
            (\<lambda>_ m. IsValidWireGuardKey key \<and> file_at m k = Some (RegularFile (key @ [CHR 0x0A]))) ?E" for key
        proof (cases "IsValidWireGuardKey key")
          case True
          show ?thesis using True by (intro hoare_weaken [OF install_makes [of k x key]]) simp_all
        qed (simp add: hoare_def)
        have ret: "hoare (\<lambda>m. IsValidWireGuardKey key \<and> file_at m k = Some (RegularFile (key @ [CHR 0x0A]))) (returnS key)
            (\<lambda>key m. holds_key k key m) ?E" for key
          by (rule hoare_cases) (auto simp: holds_key_def trim_key_line)
        have "hoare ?P (bindS (map_errS (WrapError ''failed to create key directory'') (os_MkdirAll (filepath_Dir k))) (\<lambda>_.
               bindS (new_key_pair x25519) (\<lambda>kp. bindS (install_key (PrivateKey kp) k) (\<lambda>_. returnS (PrivateKey kp)))))
            (\<lambda>key m. holds_key k key m) ?E"
          by (intro hoare_bind [OF hoare_map_errS [OF mkdir_makes]] hoare_bind [OF gen] hoare_bind [OF inst] ret)
        then show ?thesis unfolding Inl sum.case using True
          by (cases "x = None") (auto simp: hoare_def split: prod.splits sum.splits)
      qed (simp add: Inl hoare_def)
    qed
  qed
qed

text \<open>C8: the key file is never torn and never overwritten, whatever system calls fail: a failing call leaves it as it
  was; a successful one leaves a valid key that is the one it returned, leaves an existing file alone, and the key is
  loaded again as long as the file stays.\<close>

theorem key_file_atomic:
  assumes run: "LoadOrCreateKey home x25519 path m = (r, m')" and k: "key_path_ok (expandHomeDir home path) (mc_suffixes m)"
    and sources: "full_random (mc_random m)" "full_curve x25519"
  shows "case r of
      Inl _ \<Rightarrow> file_at m' (expandHomeDir home path) = file_at m (expandHomeDir home path)
    | Inr key \<Rightarrow> holds_key (expandHomeDir home path) key m' \<and>
        (file_at m (expandHomeDir home path) \<noteq> None \<longrightarrow> file_at m' (expandHomeDir home path) = file_at m (expandHomeDir home path)) \<and>
        (\<forall>m2. mc_faults m2 = [] \<and> file_at m2 (expandHomeDir home path) = file_at m' (expandHomeDir home path) \<longrightarrow>
          fst (LoadOrCreateKey home x25519 path m2) = Inr key)"
proof -
  let ?k = "expandHomeDir home path"
  have pre: "file_at m ?k = file_at m ?k \<and> key_path_ok ?k (mc_suffixes m) \<and> full_random (mc_random m)" using k sources by simp
  note triple = load_or_create [OF refl sources(2), of home path "file_at m ?k"]
  show ?thesis
  proof (cases r)
    case (Inl e)
    then show ?thesis using hoareD(2) [OF triple pre] run by simp
  next
    case (Inr key)
    then have h: "holds_key ?k key m'" "file_at m ?k \<noteq> None \<longrightarrow> file_at m' ?k = file_at m ?k"
      using hoareD(1) [OF triple pre] run by simp_all
    have home: "expandHomeDir home ?k = ?k" using k by (simp add: key_path_ok_def expandHomeDir_def)
    have "fst (LoadOrCreateKey home x25519 path m2) = Inr key" if m2: "mc_faults m2 = []" "file_at m2 ?k = file_at m' ?k" for m2
    proof -
      obtain c where c: "file_at m2 ?k = Some (RegularFile c)" "trim_space c = key" "IsValidWireGuardKey key"
        using h(1) m2(2) by (auto simp: holds_key_def)
      have "next_fault m2 = (NoFault, m2)" using m2(1) by (simp add: next_fault_def)
      then have "os_Stat ?k m2 = (Inr False, m2)" "os_ReadFile ?k m2 = (Inr c, m2)"
        using c(1) by (simp_all add: os_Stat_def os_ReadFile_def sys_call_def)
      then show ?thesis using c(2,3)
        by (simp add: LoadOrCreateKey_def LoadExistingKey_def Let_def bindS_def map_errS_def home)
    qed
    then show ?thesis using Inr h by simp
  qed
qed

section \<open>Configurations\<close>

definition one_line :: "string \<Rightarrow> bool" where
  "one_line t = list_all (\<lambda>c. c \<noteq> newline) t"

lemma split_join:
  "ls \<noteq> [] \<Longrightarrow> \<forall>l\<in>set ls. list_all (\<lambda>c. c \<noteq> d) l \<Longrightarrow> split_on d (str_join [d] ls) = ls"
proof (induction "[d]" ls rule: str_join.induct)
  case (2 l)
  then show ?case by (simp add: split_on_no_sep)
next
  case (3 l u us)
  then show ?case using split_on_append_sep [of d l "str_join [d] (u # us)"] by simp
qed simp

lemma lines_of_join: "ls \<noteq> [] \<Longrightarrow> \<forall>l\<in>set ls. one_line l \<Longrightarrow> text_lines (join_lines ls) = ls"
  by (simp add: text_lines_def join_lines_def one_line_def split_join)

definition rtrim :: "string \<Rightarrow> string" where
  "rtrim t = rev (dropWhile is_space (rev t))"

lemma rtrim_append: "a \<noteq> [] \<Longrightarrow> \<not> is_space (last a) \<Longrightarrow> rtrim (a @ x) = a @ rtrim x"
proof -
  assume a: "a \<noteq> []" "\<not> is_space (last a)"
  then have "rev a \<noteq> []" "\<not> is_space (hd (rev a))" by (simp_all add: hd_rev)
  then have "dropWhile is_space (rev a) = rev a" by (cases "rev a") auto
  then have "dropWhile is_space (rev x @ rev a) = dropWhile is_space (rev x) @ rev a"
    by (cases "\<forall>c\<in>set (rev x). is_space c") (auto simp: dropWhile_append)
  then show ?thesis by (simp add: rtrim_def)
qed

lemma trim_eq: "trim_space t = rtrim (dropWhile is_space t)"
  by (simp add: trim_space_def rtrim_def)

lemma trim_rtrim: "trim_space (rtrim t) = trim_space t"
proof (cases "\<forall>c\<in>set t. is_space c")
  case True
  then have "rtrim t = []" "dropWhile is_space t = []" by (simp_all add: rtrim_def)
  note gone = this
  show ?thesis unfolding trim_space_def gone by simp
next
  case False
  then obtain ys c zs where t: "t = ys @ c # zs" "\<not> is_space c" "\<forall>z\<in>set zs. is_space z" 
    using split_list_last_prop [of t "\<lambda>c. \<not> is_space c"] by auto
  then have "rtrim zs = []" by (simp add: rtrim_def)
  then have r: "rtrim t = ys @ [c]" using rtrim_append [of "ys @ [c]" zs] t by simp
  have "dropWhile is_space (ys @ c # x) = dropWhile is_space ys @ c # x" for x using t(2) by (induction ys) auto
  then obtain u where u: "dropWhile is_space (ys @ [c]) = u @ [c]" "dropWhile is_space t = u @ c # zs" using t(1) by blast
  have "rtrim [] = []" by (simp add: rtrim_def)
  then have "rtrim (u @ [c]) = u @ [c]" using rtrim_append [of "u @ [c]" "[]"] t(2) by simp
  moreover have "rtrim (u @ c # zs) = u @ [c]" using rtrim_append [of "u @ [c]" zs] t(2) \<open>rtrim zs = []\<close> by simp
  ultimately have "rtrim (u @ [c]) = u @ [c]" "rtrim (u @ c # zs) = u @ [c]" by blast+
  note ends = this
  show ?thesis unfolding trim_eq r u ends ..
qed

lemma trim_append: "a \<noteq> [] \<Longrightarrow> \<not> is_space (hd a) \<Longrightarrow> \<not> is_space (last a) \<Longrightarrow> trim_space (a @ x) = a @ rtrim x"
proof -
  assume a: "a \<noteq> []" "\<not> is_space (hd a)" "\<not> is_space (last a)"
  then have "dropWhile is_space (a @ x) = a @ x" by (cases a) auto
  then have "trim_space (a @ x) = rtrim (a @ x)" by (simp add: trim_space_def rtrim_def)
  then show ?thesis using rtrim_append [OF a(1,3)] by simp
qed

lemma has_prefix_append [simp]: "has_prefix (p @ t) p"
  by (induction p) auto

text \<open>A line of a configuration: \<open>name = value\<close>.\<close>

definition plain_name :: "string \<Rightarrow> bool" where
  "plain_name p = (p \<noteq> [] \<and> list_all (\<lambda>c. \<not> is_space c \<and> c \<noteq> CHR ''='') p)"

lemma trim_field: "plain_name p \<Longrightarrow> trim_space (p @ '' = '' @ v) = p @ '' ='' @ rtrim (CHR '' '' # v)"
proof -
  assume p: "plain_name p"
  then have "\<not> is_space (hd p)" by (cases p) (simp_all add: plain_name_def)
  then have "trim_space ((p @ '' ='') @ (CHR '' '' # v)) = (p @ '' ='') @ rtrim (CHR '' '' # v)"
    using p by (intro trim_append) (simp_all add: plain_name_def is_space_def)
  then show ?thesis by simp
qed

lemma field_value_line: "plain_name p \<Longrightarrow> field_value (p @ '' ='' @ rtrim (CHR '' '' # v)) = Inr (trim_space v)"
proof -
  assume p: "plain_name p"
  then have "dropWhile (\<lambda>c. c \<noteq> CHR ''='') (p @ '' ='' @ rtrim (CHR '' '' # v)) = CHR ''='' # rtrim (CHR '' '' # v)"
    by (auto simp: dropWhile_append2 plain_name_def list_all_iff)
  moreover have "is_space (CHR '' '')" by (simp add: is_space_def)
  then have "trim_space (CHR '' '' # v) = trim_space v" by (simp add: trim_space_def)
  ultimately show ?thesis by (simp add: field_value_def trim_rtrim)
qed

lemma config_names: "plain_name ''PrivateKey''" "plain_name ''Address''" "plain_name ''DNS''" "plain_name ''PublicKey''"
  "plain_name ''Endpoint''" "plain_name ''AllowedIPs''"
  by (simp_all add: plain_name_def is_space_def)

lemmas config_fields = config_names [THEN trim_field, simplified]

lemmas config_values = config_names(1,4,5) [THEN field_value_line, simplified]

lemma plain_lines:
  "trim_space ''[Interface]'' = ''[Interface]''" "trim_space ''Address = 10.100.0.2/32'' = ''Address = 10.100.0.2/32''"
  "trim_space ''MTU = 1420'' = ''MTU = 1420''" "trim_space [] = []" "trim_space ''[Peer]'' = ''[Peer]''"
  "trim_space ''PersistentKeepalive = 25'' = ''PersistentKeepalive = 25''"
  by code_simp+

text \<open>The values of the server replace the address, the name servers and the networks of the generated text.\<close>

definition final_lines :: "string \<Rightarrow> ConnectResponse \<Rightarrow> string list" where
  "final_lines key resp =
     [''[Interface]'', ''PrivateKey = '' @ key, ''Address = '' @ cr_ClientIP resp @ ''/32'',
      ''DNS = '' @ joinStrings (cr_DNS resp) '','', ''MTU = 1420'', [], ''[Peer]'', ''PublicKey = '' @ cr_ServerPublicKey resp,
      ''Endpoint = '' @ cr_ServerIP resp @ '':'' @ print_meta (MInt (cr_ServerPort resp)),
      ''AllowedIPs = '' @ joinStrings (cr_AllowedIPs resp) '','', ''PersistentKeepalive = 25'', []]"

definition response_ok :: "ConnectResponse \<Rightarrow> bool" where
  "response_ok resp = (cr_ClientIP resp \<noteq> [] \<and> cr_DNS resp \<noteq> [] \<and> cr_AllowedIPs resp \<noteq> [] \<and> one_line (cr_ClientIP resp) \<and>
     list_all one_line (cr_DNS resp) \<and> list_all one_line (cr_AllowedIPs resp) \<and> one_line (cr_ServerPublicKey resp) \<and>
     one_line (cr_ServerIP resp))"

lemma one_line_append [simp]: "one_line (a @ b) \<longleftrightarrow> one_line a \<and> one_line b" "one_line []" "one_line (c # t) \<longleftrightarrow> c \<noteq> newline \<and> one_line t"
  by (simp_all add: one_line_def)

lemma one_line_number: "one_line (print_meta (MInt n))"
proof -
  have "one_line (dec k)" for k
    using dec_digits [of k] by (auto simp: one_line_def list_all_iff is_digit_def newline_def)
  then show ?thesis by (simp add: newline_def)
qed

lemma one_line_join: "list_all one_line ts \<Longrightarrow> one_line (joinStrings ts '','')"
proof -
  have step: "one_line t \<Longrightarrow> list_all one_line us \<Longrightarrow> one_line (foldl (\<lambda>r u. r @ CHR '','' # u) t us)" for t us
    by (induction us arbitrary: t) (simp_all add: newline_def)
  show "list_all one_line ts \<Longrightarrow> one_line (joinStrings ts '','')"
    by (cases "(ts, '','')" rule: joinStrings.cases) (simp_all add: step newline_def)
qed

lemma update_final:
  "update_line ''AllowedIPs'' (joinStrings (cr_AllowedIPs resp) '','') (update_line ''DNS'' (joinStrings (cr_DNS resp) '','')
     (update_line ''Address'' (cr_ClientIP resp @ ''/32'')
       (config_lines key dns (cr_ServerPublicKey resp) (cr_ServerIP resp) (cr_ServerPort resp) ips))) = final_lines key resp"
  by (simp add: config_lines_def final_lines_def config_fields plain_lines)

lemma update_keeps:
  assumes "ls \<noteq> []" "\<forall>l\<in>set ls. one_line l" "one_line (f @ '' = '' @ v)"
  shows "update_line f v ls \<noteq> []" "\<forall>l\<in>set (update_line f v ls). one_line l"
proof -
  show "update_line f v ls \<noteq> []" using assms(1) by (cases ls) simp_all
  show "\<forall>l\<in>set (update_line f v ls). one_line l" using assms(2)
  proof (induction ls)
    case (Cons l ls)
    then show ?case using assms(3) by (cases "has_prefix (trim_space l) f") simp_all
  qed simp
qed

lemma server_values_final:
  assumes "response_ok resp" "one_line key" "one_line dns" "one_line ips"
  shows "server_values resp (join_lines (config_lines key dns (cr_ServerPublicKey resp) (cr_ServerIP resp) (cr_ServerPort resp) ips)) =
    join_lines (final_lines key resp)"
proof -
  let ?ls = "config_lines key dns (cr_ServerPublicKey resp) (cr_ServerIP resp) (cr_ServerPort resp) ips"
  have l0: "?ls \<noteq> []" "\<forall>l\<in>set ?ls. one_line l"
    using assms one_line_number [of "cr_ServerPort resp"] by (simp_all add: config_lines_def response_ok_def newline_def)
  let ?l1 = "update_line ''Address'' (cr_ClientIP resp @ ''/32'') ?ls"
  have l1: "?l1 \<noteq> []" "\<forall>l\<in>set ?l1. one_line l"
    using update_keeps [OF l0, of "''Address''" "cr_ClientIP resp @ ''/32''"] assms(1) by (simp_all add: response_ok_def newline_def)
  let ?l2 = "update_line ''DNS'' (joinStrings (cr_DNS resp) '','') ?l1"
  have l2: "?l2 \<noteq> []" "\<forall>l\<in>set ?l2. one_line l"
    using update_keeps [OF l1, of "''DNS''" "joinStrings (cr_DNS resp) '',''"] assms(1) one_line_join
    by (simp_all add: response_ok_def newline_def)
  show ?thesis
    using assms(1) unfolding server_values_def response_ok_def Let_def updateClientIP_def updateDNS_def updateAllowedIPs_def
      UpdateConfigField_def
    by (simp only: lines_of_join [OF l0] lines_of_join [OF l1] lines_of_join [OF l2] update_final if_True simp_thms)
qed

lemma validate_final:
  assumes "response_ok resp" "one_line key"
  shows "ValidateConfig (join_lines (final_lines key resp)) =
    (if \<not> IsValidWireGuardKey (trim_space key) then Inl (PlainError ''invalid private key format'')
     else if \<not> IsValidWireGuardKey (trim_space (cr_ServerPublicKey resp)) then Inl (PlainError ''invalid public key format'')
     else if \<not> isValidEndpoint (trim_space (cr_ServerIP resp @ '':'' @ print_meta (MInt (cr_ServerPort resp))))
     then Inl (PlainError ''invalid endpoint format'') else Inr ())"
proof -
  have "\<forall>l\<in>set (final_lines key resp). one_line l"
    using assms one_line_number [of "cr_ServerPort resp"] one_line_join
    by (simp_all add: final_lines_def response_ok_def newline_def)
  then have "text_lines (join_lines (final_lines key resp)) = final_lines key resp"
    by (intro lines_of_join) (simp_all add: final_lines_def)
  then show ?thesis
    by (simp add: ValidateConfig_def final_lines_def check_line_def config_fields config_values plain_lines Let_def)
qed

section \<open>Applying the answer\<close>

lemma write_file:
  assumes "os_WriteFile p t m = (Inr (), m')"
  shows "file_at m' p = Some (RegularFile t)"
proof -
  have "cannot_create m p = None" "next_fault m = (NoFault, m1) \<Longrightarrow> m' = set_file p (RegularFile t) m1"
      "fst (next_fault m) = NoFault" for m1
    using assms by (auto simp: os_WriteFile_def split: option.splits prod.splits io_fault.splits)
  moreover from this(1) have "ordinary p" using special_directory [of p m] by (auto simp: cannot_create_def split: if_splits)
  ultimately show ?thesis using file_at_set by (metis prod.collapse)
qed

lemma write_config:
  assumes "WriteConfigFile t p m = (Inr (), m')"
  shows "file_at m' p = Some (RegularFile t)"
  using assms write_file by (auto simp: WriteConfigFile_def bindS_Inr_iff)

lemma apply_keeps: "ApplyConfig env p i x = (r, x') \<Longrightarrow> fst x' = fst x"
  by (auto simp: ApplyConfig_def bindS_def run_command_def liftS_def split: prod.splits sum.splits)

lemma on_files_run: "on_files f s = (r, s') \<longleftrightarrow> (\<exists>m. f (ap_machine s) = (r, m) \<and> s' = s\<lparr>ap_machine := m\<rparr>)"
  by (auto simp: on_files_def split: prod.splits)

text \<open>A key that was loaded or made has no line break.\<close>

lemma loaded_key_line:
  assumes "LoadOrCreateKey home x25519 path m = (Inr key, m')" shows "one_line key"
proof -
  have valid: "one_line k" if "IsValidWireGuardKey k" for k
    using valid_key_not_space [OF that] by (auto simp: one_line_def list_all_iff is_space_def newline_def)
  have loaded: "one_line k" if "LoadExistingKey home p m1 = (Inr k, m2)" for p k m1 m2
    using that by (auto simp: LoadExistingKey_def Let_def bindS_Inr_iff split: if_splits intro: valid)
  have made: "one_line (PrivateKey kp)" if new: "new_key_pair x25519 m1 = (Inr kp, m2)" for kp m1 m2
  proof -
    obtain b where "GenerateKeyPair x25519 b = Inr kp"
      using new unfolding new_key_pair_def map_errS_Inr_iff bindS_Inr_iff liftS_def by blast
    then obtain bs where "PrivateKey kp = b64_encode bs"
      by (auto simp: GenerateKeyPair_def split: option.splits)
    then show ?thesis using b64_encode_no_newline [of bs] by (auto simp: one_line_def list_all_iff newline_def filter_id_conv)
  qed
  show ?thesis using assms unfolding LoadOrCreateKey_def Let_def
    by (auto simp: bindS_Inr_iff split: sum.splits if_splits intro: loaded made)
qed

text \<open>C10: when applying an answer of the service succeeds, the returned file is the configuration of the interface that
  came up and holds exactly the key of the client, the address, name servers and networks that the service assigned, and
  the key and endpoint of the server, which passed the checks.\<close>

theorem applied_config_exact:
  assumes run: "applyWireGuardConfig env resp s = (Inr path, s')" and resp: "response_ok resp"
    and texts: "one_line (cc_DNS (config_of s))" "one_line (cc_AllowedIPs (config_of s))"
  shows "\<exists>key m. LoadOrCreateKey (le_home env) (le_x25519 env) (cc_KeyPath (config_of s)) (ap_machine s) = (Inr key, m) \<and>
    path = config_path (cc_Interface (config_of s')) \<and> ct_tempConfigPath (ap_connector s') = path \<and>
    file_at (ap_machine s') path = Some (RegularFile (join_lines (final_lines key resp))) \<and>
    IsValidWireGuardKey (trim_space key) \<and> IsValidWireGuardKey (trim_space (cr_ServerPublicKey resp)) \<and>
    isValidEndpoint (trim_space (cr_ServerIP resp @ '':'' @ print_meta (MInt (cr_ServerPort resp))))"
proof -
  let ?cfg = "config_of s" and ?p = "config_path (cc_Interface (config_of s))"
  obtain t0 s1 u s2 s3 actual s4 where gen: "on_files (GenerateConfig (le_home env) (le_x25519 env) (cc_KeyPath ?cfg)
      (cr_ServerPublicKey resp) (cr_ServerIP resp) (cr_ServerPort resp) (cc_AllowedIPs ?cfg) (cc_DNS ?cfg)) s = (Inr t0, s1)"
    and valid: "ValidateConfig (server_values resp t0) = Inr u"
    and set: "set_connector (\<lambda>c. c\<lparr>ct_tempConfigPath := ?p\<rparr>) s1 = (Inr (), s2)"
    and wrote: "on_files (WriteConfigFile (server_values resp t0) ?p) s2 = (Inr (), s3)"
    and up: "on_local (ApplyConfig (local_env.truncate env) ?p (cc_Interface ?cfg)) s3 = (Inr actual, s4)"
    and rest: "(if actual \<noteq> [] \<and> actual \<noteq> cc_Interface ?cfg then
        bindS (tryS (on_files (os_Remove ?p))) (\<lambda>_.
        bindS (set_connector (\<lambda>c. (set_interface actual c)\<lparr>ct_tempConfigPath := config_path actual\<rparr>)) (\<lambda>_.
        bindS (map_errS (WrapError ''failed to write config file'') (on_files (WriteConfigFile (server_values resp t0) (config_path actual)))) (\<lambda>_.
        returnS (config_path actual))))
      else returnS ?p) s4 = (Inr path, s')"
    using run unfolding applyWireGuardConfig_def Let_def bindS_Inr_iff map_errS_Inr_iff liftS_def prod.inject unit_all_eq1
    by (elim exE conjE) (rule that, assumption, assumption, simp_all)
  obtain m1 where m1: "GenerateConfig (le_home env) (le_x25519 env) (cc_KeyPath ?cfg) (cr_ServerPublicKey resp)
      (cr_ServerIP resp) (cr_ServerPort resp) (cc_AllowedIPs ?cfg) (cc_DNS ?cfg) (ap_machine s) = (Inr t0, m1)"
    "s1 = s\<lparr>ap_machine := m1\<rparr>"
    using gen unfolding on_files_run by blast
  have u: "u = ()" by simp
  obtain key where key: "LoadOrCreateKey (le_home env) (le_x25519 env) (cc_KeyPath ?cfg) (ap_machine s) = (Inr key, m1)"
    "t0 = join_lines (config_lines key (cc_DNS ?cfg) (cr_ServerPublicKey resp) (cr_ServerIP resp) (cr_ServerPort resp) (cc_AllowedIPs ?cfg))"
    using m1(1) by (auto simp: GenerateConfig_def bindS_Inr_iff)
  have content: "server_values resp t0 = join_lines (final_lines key resp)"
    unfolding key(2) by (rule server_values_final [OF resp loaded_key_line [OF key(1)] texts])
  have checks: "IsValidWireGuardKey (trim_space key)" "IsValidWireGuardKey (trim_space (cr_ServerPublicKey resp))"
    "isValidEndpoint (trim_space (cr_ServerIP resp @ '':'' @ print_meta (MInt (cr_ServerPort resp))))"
    using valid unfolding u content validate_final [OF resp loaded_key_line [OF key(1)]] by (simp_all split: if_splits)
  have "path = config_path (cc_Interface (config_of s')) \<and> ct_tempConfigPath (ap_connector s') = path \<and>
    file_at (ap_machine s') path = Some (RegularFile (join_lines (final_lines key resp)))"
  proof (cases "actual \<noteq> [] \<and> actual \<noteq> cc_Interface ?cfg")
    case True
    obtain v s5 u6 s6 u7 s7 where m: "tryS (on_files (os_Remove ?p)) s4 = (Inr v :: unit res res, s5)"
      "set_connector (\<lambda>c. (set_interface actual c)\<lparr>ct_tempConfigPath := config_path actual\<rparr>) s5 = (Inr u6, s6)"
      "on_files (WriteConfigFile (server_values resp t0) (config_path actual)) s6 = (Inr u7, s7)"
      "returnS (config_path actual) s7 = (Inr path :: string res, s')"
      using rest unfolding if_P [OF True] bindS_Inr_iff map_errS_Inr_iff
      by blast
    obtain m7 where m7: "WriteConfigFile (server_values resp t0) (config_path actual) (ap_machine s6) = (Inr u7, m7)"
      "s7 = s6\<lparr>ap_machine := m7\<rparr>"
      using m(3) unfolding on_files_run by blast
    have "path = config_path actual" "s' = s7" using m(4) by (simp_all add: returnS_def)
    note m7 = m7(1) this(2) [unfolded m7(2)] this(1)
    have "ap_connector s6 = (set_interface actual (ap_connector s5))\<lparr>ct_tempConfigPath := config_path actual\<rparr>"
      using m(2) by (auto simp: set_connector_def)
    then have "cc_Interface (config_of s') = actual" "ct_tempConfigPath (ap_connector s') = path"
      unfolding m7(2,3) config_of_def set_interface_def by simp_all
    then show ?thesis using write_config [of _ _ "ap_machine s6" m7] m7 content by simp
  next
    case False
    then have "s' = s4" "path = ?p" using rest by (auto simp: returnS_def)
    moreover have "ap_machine s4 = ap_machine s3" "ap_connector s4 = ap_connector s3"
      using up by (auto simp: on_local_def split: prod.splits dest: apply_keeps)
    moreover have "file_at (ap_machine s3) ?p = Some (RegularFile (server_values resp t0))" "ap_connector s3 = ap_connector s2"
      using wrote write_config by (auto simp: on_files_run)
    moreover have "ct_tempConfigPath (ap_connector s2) = ?p" "ct_config (ap_connector s2) = ?cfg"
      using set m1(2) by (auto simp: set_connector_def config_of_def)
    ultimately show ?thesis using content by (simp add: config_of_def)
  qed
  then show ?thesis using key(1) checks by blast
qed

section \<open>The saved state\<close>

lemma sprintf_plain: "list_all (\<lambda>c. c \<noteq> CHR 0x25) t \<Longrightarrow> sprintf_verbs t args = (t, args)"
  by (induction t) auto

lemma split_once:
  "list_all (\<lambda>c. c \<noteq> d) a \<Longrightarrow> list_all (\<lambda>c. c \<noteq> d) b \<Longrightarrow> split_on d (a @ d # b) = [a, b]"
  by (simp add: split_on_append_sep split_on_no_sep)

lemma interface_exists_run:
  obtains e w where "on_local (InterfaceExists env i) s = (Inr e, s\<lparr>ap_world := w\<rparr>)"
proof -
  obtain out err w where "le_run env [''wg'', ''show'', i] [] (ap_machine s) (ap_world s) = ((out, err), w)" by (metis surj_pair)
  then have "on_local (InterfaceExists env i) s = (Inr (err = None), s\<lparr>ap_world := w\<rparr>)"
    by (simp add: on_local_def InterfaceExists_def run_command_def bindS_def)
  then show ?thesis using that by blast
qed

text \<open>C19: the connection state that was saved is not the one that is loaded: the identifier of the peer is used as the
  format, so that the separator and the path end up as surplus arguments. A later process that finds the file as it was
  written, with no call failing, accepts it and takes a text that is no peer identifier for the peer and one that is no
  path for the path.\<close>

theorem saved_state_misread:
  assumes id: "ct_peerID (ap_connector s) \<noteq> []" "list_all (\<lambda>c. c \<noteq> CHR 0x25 \<and> c \<noteq> CHR '':'') (ct_peerID (ap_connector s))"
    and path: "list_all (\<lambda>c. c \<noteq> CHR '':'') (ct_tempConfigPath (ap_connector s))"
    and saved: "saveConnectionState s = (Inr (), s1)"
    and later: "config_of s2 = config_of s" "mc_files (ap_machine s2) = mc_files (ap_machine s1)" "mc_faults (ap_machine s2) = []"
  shows "\<exists>s3. LoadConnectionState env s2 = (Inr (), s3) \<and>
    ct_peerID (ap_connector s3) = ct_peerID (ap_connector s) @ ''%!(EXTRA string='' \<and>
    ct_tempConfigPath (ap_connector s3) = '', string='' @ ct_tempConfigPath (ap_connector s) @ '')''"
proof -
  let ?pid = "ct_peerID (ap_connector s)" and ?path = "ct_tempConfigPath (ap_connector s)" and ?file = "getStateFile (config_of s)"
  let ?text = "(?pid @ ''%!(EXTRA string='') @ (CHR '':'' # '', string='' @ ?path @ '')'')"
  have "sprintf_verbs ?pid ['':'', ?path] = (?pid, ['':'', ?path])"
    using id(2) by (intro sprintf_plain) (simp add: list_all_iff)
  then have saved_text: "sprintf ?pid ['':'', ?path] = ?text" by (simp add: sprintf_def)
  obtain m m' where m: "os_WriteFile ?file (sprintf ?pid ['':'', ?path]) m = (Inr (), m')" "ap_machine s1 = m'"
    using saved id(1) unfolding saveConnectionState_def Let_def config_of_def
    by (auto simp: bindS_Inr_iff on_files_run)
  have "file_at (ap_machine s2) ?file = file_at m' ?file" unfolding file_at_def later(2) m(2) ..
  then have "file_at (ap_machine s2) ?file = Some (RegularFile ?text)" using write_file [OF m(1)] saved_text by simp
  then have "os_ReadFile ?file (ap_machine s2) = (Inr ?text, ap_machine s2)"
    using later(3) by (simp add: os_ReadFile_def sys_call_def next_fault_def)
  then have read: "on_files (os_ReadFile (getStateFile (config_of s2))) s2 = (Inr ?text, s2)"
    unfolding on_files_run later(1) by (intro exI [of _ "ap_machine s2"]) simp
  have parts: "split_on (CHR '':'') ?text = [?pid @ ''%!(EXTRA string='', '', string='' @ ?path @ '')'']"
    using id(2) path by (intro split_once) (simp_all add: list_all_iff)
  let ?c = "\<lambda>c. c\<lparr>ct_tempConfigPath := '', string='' @ ?path @ '')'', ct_peerID := ?pid @ ''%!(EXTRA string=''\<rparr>"
  let ?s = "s2\<lparr>ap_connector := ?c (ap_connector s2)\<rparr>" and ?env = "local_env.truncate env"
  obtain e1 w1 where e1: "on_local (InterfaceExists ?env (cc_Interface (config_of s2))) ?s = (Inr e1, ?s\<lparr>ap_world := w1\<rparr>)"
    by (rule interface_exists_run)
  obtain e2 w2 where e2: "on_local (InterfaceExists ?env (path_interface ('', string='' @ ?path @ '')''))) (?s\<lparr>ap_world := w1\<rparr>) =
      (Inr e2, ?s\<lparr>ap_world := w1\<rparr>\<lparr>ap_world := w2\<rparr>)"
    by (rule interface_exists_run)
  show ?thesis
    unfolding LoadConnectionState_def bindS_def tryS_def read
    by (cases e1; cases e2)
      (simp_all only: prod.case sum.case parts list.case set_connector_def e1 e2 returnS_def if_True if_False,
       simp_all add: set_interface_def)
qed

section \<open>Endpoints\<close>

lemma endpoint_iff:
  assumes "list_all (\<lambda>c. c \<noteq> CHR '':'') host" "- (2 ^ 63) \<le> n" "n < 2 ^ 63"
  shows "isValidEndpoint (host @ '':'' @ print_meta (MInt n)) \<longleftrightarrow> 7 \<le> length host \<and> length host \<le> 15 \<and> 1 \<le> n \<and> n \<le> 65535"
proof -
  have "list_all (\<lambda>c. c \<noteq> CHR '':'') (dec k)" for k using dec_no_sep [of k] by (simp add: list_all_iff)
  then have "list_all (\<lambda>c. c \<noteq> CHR '':'') (print_meta (MInt n))" by simp
  then have parts: "split_on (CHR '':'') (host @ '':'' @ print_meta (MInt n)) = [host, print_meta (MInt n)]"
    using split_once [OF assms(1)] by simp
  show ?thesis
  proof (cases "n < 0")
    case True
    have "\<not> is_digit (CHR ''-'')" by (simp add: is_digit_def)
    then show ?thesis using True unfolding isValidEndpoint_def parts by simp
  next
    case False
    have "ParseInt64 (dec (nat n)) = Some n" using False assms(3) ParseInt64_dec [of n] by simp
    then show ?thesis using False dec_digits [of "nat n"] unfolding isValidEndpoint_def parts by auto
  qed
qed

text \<open>An endpoint made of a host and a port passes the check exactly when the host has between 7 and 15
  characters and the port lies between 1 and 65535.\<close>

theorem endpoint_bounds:
  assumes "list_all (\<lambda>c. c \<noteq> CHR '':'') host" "- (2 ^ 63) \<le> n" "n < 2 ^ 63"
  shows "isValidEndpoint (host @ '':'' @ print_meta (MInt n)) \<longleftrightarrow> 7 \<le> length host \<and> length host \<le> 15 \<and> 1 \<le> n \<and> n \<le> 65535"
  using assms by (rule endpoint_iff)

section \<open>Examples\<close>

theorem key_file_atomic_witness:
  "\<exists>r m'. LoadOrCreateKey (Inr ''/home'') Some ''~/k'' \<lparr>mc_files = [], mc_faults = [NoFault, NoFault, NoFault, FailsAfter 5],
      mc_suffixes = [1, 2], mc_random = [Some (replicate 32 7)]\<rparr> = (r, m') \<and>
    (case r of Inl _ \<Rightarrow> file_at m' ''/home/k'' = None | Inr key \<Rightarrow> holds_key ''/home/k'' key m')"
proof -
  let ?m = "\<lparr>mc_files = [], mc_faults = [NoFault, NoFault, NoFault, FailsAfter 5], mc_suffixes = [1, 2],
    mc_random = [Some (replicate 32 7)]\<rparr>"
  obtain r m' where run: "LoadOrCreateKey (Inr ''/home'') Some ''~/k'' ?m = (r, m')" by (metis surj_pair)
  have home: "expandHomeDir (Inr ''/home'') ''~/k'' = ''/home/k''" by (simp add: expandHomeDir_def)
  have k: "key_path_ok (expandHomeDir (Inr ''/home'') ''~/k'') (mc_suffixes ?m)" unfolding home machine.simps by code_simp
  have "full_random (mc_random ?m)" "full_curve Some" by (simp_all add: full_random_def full_curve_def)
  note result = key_file_atomic [OF run k this]
  have "file_at ?m ''/home/k'' = None"
  proof -
    have "filepath_Clean ''/home/k'' = ''/home/k''" by code_simp
    then show ?thesis by (simp add: file_at_def)
  qed
  then show ?thesis using run result unfolding home by (cases r) auto
qed

definition example_machine :: machine where
  "example_machine = \<lparr>mc_files = [(''/tmp'', Directory), (''/k'', Directory), (''/k/key'', RegularFile (wg_key_example @ [CHR 0x0A]))],
     mc_faults = [], mc_suffixes = [1, 2], mc_random = []\<rparr>"

definition example_connector :: connector where
  "example_connector = (NewConnector (Inr ''/home'') \<lparr>cc_APIURL = ''http://vpn'', cc_Interface = [], cc_PollInterval = 0,
     cc_AllowedIPs = [], cc_DNS = [], cc_LogLevel = [], cc_LogFormat = [], cc_KeyPath = ''/k/key'', cc_GenerateKeys = False\<rparr>)
     \<lparr>ct_peerID := ''peer_1'', ct_tempConfigPath := ''/tmp/wg-wg0.conf''\<rparr>"

definition example_app :: "int app" where
  "example_app = \<lparr>ap_connector = example_connector, ap_machine = example_machine, ap_world = 0\<rparr>"

definition example_local :: "int connector_env" where
  "example_local = \<lparr>le_home = Inr ''/home'', le_x25519 = Some, le_run = \<lambda>_ _ _ w. (([], None), w),
     ke_client = clock_client, ke_closing = clock_client, ke_pause = (+)\<rparr>"

definition example_response :: ConnectResponse where
  "example_response = \<lparr>cr_PeerID = ''peer_1'', cr_ServerPublicKey = wg_key_example, cr_ServerIP = ''10.1.1.1'', cr_ServerPort = 51820,
     cr_ClientIP = ''10.8.0.2'', cr_ClientPrivateKey = None, cr_DNS = [''1.1.1.1'', ''8.8.8.8''], cr_AllowedIPs = [''0.0.0.0/0'']\<rparr>"

lemma example_config: "cc_Interface (config_of example_app) = ''wg0''" "cc_KeyPath (config_of example_app) = ''/k/key''"
  "cc_DNS (config_of example_app) = ''9.9.9.9,149.112.112.112''" "cc_AllowedIPs (config_of example_app) = ''0.0.0.0/0''"
  "ap_machine example_app = example_machine" "ct_peerID (ap_connector example_app) = ''peer_1''"
  "ct_tempConfigPath (ap_connector example_app) = ''/tmp/wg-wg0.conf''"
  by (simp_all add: example_app_def example_connector_def NewConnector_def connector_defaults_def expandPath_def config_of_def)

lemma example_key_line: "trim_space wg_key_example = wg_key_example" "one_line wg_key_example"
proof -
  have k: "wg_key_example \<noteq> []" "list_all (\<lambda>c. \<not> is_space c) wg_key_example"
    using valid_key_not_space [OF known_peer_found(1)] by auto
  then show "trim_space wg_key_example = wg_key_example" by (intro trim_space_id) (auto simp: list_all_iff)
  show "one_line wg_key_example" using k(2) by (auto simp: one_line_def list_all_iff is_space_def newline_def)
qed

lemma example_load:
  "LoadOrCreateKey (Inr ''/home'') Some ''/k/key'' example_machine = (Inr wg_key_example, example_machine)"
proof -
  have "filepath_Clean ''/k/key'' = ''/k/key''" by code_simp
  then have "file_at example_machine ''/k/key'' = Some (RegularFile (wg_key_example @ [CHR 0x0A]))"
    by (simp add: file_at_def example_machine_def)
  moreover have "next_fault example_machine = (NoFault, example_machine)" by (simp add: next_fault_def example_machine_def)
  ultimately have "os_Stat ''/k/key'' example_machine = (Inr False, example_machine)"
    "os_ReadFile ''/k/key'' example_machine = (Inr (wg_key_example @ [CHR 0x0A]), example_machine)"
    by (simp_all add: os_Stat_def os_ReadFile_def sys_call_def)
  then show ?thesis
    by (simp add: LoadOrCreateKey_def LoadExistingKey_def expandHomeDir_def Let_def bindS_def map_errS_def
        trim_key_line [OF known_peer_found(1)] known_peer_found(1))
qed

lemma example_write: "WriteConfigFile t ''/tmp/wg-wg0.conf'' example_machine =
    (Inr (), set_file ''/tmp/wg-wg0.conf'' (RegularFile t) example_machine)"
proof -
  have "filepath_Dir ''/tmp/wg-wg0.conf'' = ''/tmp''" "path_chain ''/tmp'' = [''/tmp'']" "filepath_Clean ''/tmp'' = ''/tmp''"
    "filepath_Clean ''/tmp/wg-wg0.conf'' = ''/tmp/wg-wg0.conf''" by code_simp+
  then show ?thesis
    by (simp add: WriteConfigFile_def bindS_def map_errS_def os_MkdirAll_def os_WriteFile_def next_fault_def cannot_create_def
        file_at_def is_regular_def make_dirs_def example_machine_def)
qed

lemma example_response_ok: "response_ok example_response"
  by (simp add: response_ok_def example_response_def example_key_line(2) newline_def)

lemma example_applied: "\<exists>s'. applyWireGuardConfig example_local example_response example_app = (Inr ''/tmp/wg-wg0.conf'', s')"
proof -
  let ?t = "join_lines (config_lines wg_key_example ''9.9.9.9,149.112.112.112'' (cr_ServerPublicKey example_response)
    (cr_ServerIP example_response) (cr_ServerPort example_response) ''0.0.0.0/0'')"
  have gen: "GenerateConfig (Inr ''/home'') Some ''/k/key'' (cr_ServerPublicKey example_response) (cr_ServerIP example_response)
      (cr_ServerPort example_response) ''0.0.0.0/0'' ''9.9.9.9,149.112.112.112'' example_machine = (Inr ?t, example_machine)"
    by (simp add: GenerateConfig_def bindS_def map_errS_def example_load)
  have vals: "server_values example_response ?t = join_lines (final_lines wg_key_example example_response)"
    by (rule server_values_final [OF example_response_ok example_key_line(2)]) (simp_all add: newline_def)
  have "isValidEndpoint (''10.1.1.1'' @ '':'' @ print_meta (MInt 51820))"
    using endpoint_iff [of "''10.1.1.1''" 51820] by simp
  moreover have "print_meta (MInt 51820) = ''51820''" by (simp add: dec.simps digit_char_def) code_simp
  moreover have "trim_space ''10.1.1.1:51820'' = ''10.1.1.1:51820''" by code_simp
  ultimately have "isValidEndpoint (trim_space (''10.1.1.1'' @ '':'' @ print_meta (MInt 51820)))" by simp
  then have "isValidEndpoint (trim_space (cr_ServerIP example_response @ '':'' @ print_meta (MInt (cr_ServerPort example_response))))"
    by (simp add: example_response_def)
  moreover have "cr_ServerPublicKey example_response = wg_key_example" by (simp add: example_response_def)
  ultimately have valid: "ValidateConfig (join_lines (final_lines wg_key_example example_response)) = Inr ()"
    using known_peer_found(1) example_key_line(1)
    by (simp only: validate_final [OF example_response_ok example_key_line(2)] simp_thms if_False)
  have env: "le_home example_local = Inr ''/home''" "le_x25519 example_local = Some" by (simp_all add: example_local_def)
  have path: "config_path ''wg0'' = ''/tmp/wg-wg0.conf''" by (simp add: config_path_def)
  have up: "ApplyConfig (local_env.truncate example_local) p ''wg0'' x = (Inr ''wg0'', x)" for p x
    by (simp add: ApplyConfig_def bindS_def run_command_def example_local_def local_env.truncate_def text_lines_def named_interface_def
        trim_space_def liftS_def)
  have mach: "ap_machine example_app = example_machine" by (simp add: example_config)
  show ?thesis
    unfolding applyWireGuardConfig_def Let_def example_config env path
    by (simp add: bindS_def map_errS_def on_files_def mach gen vals valid liftS_def set_connector_def example_write on_local_def up)
qed

theorem applied_config_exact_witness:
  "\<exists>s'. applyWireGuardConfig example_local example_response example_app = (Inr ''/tmp/wg-wg0.conf'', s') \<and>
     file_at (ap_machine s') ''/tmp/wg-wg0.conf'' = Some (RegularFile (join_lines (final_lines wg_key_example example_response)))"
proof -
  obtain s' where run: "applyWireGuardConfig example_local example_response example_app = (Inr ''/tmp/wg-wg0.conf'', s')"
    using example_applied by blast
  have "one_line (cc_DNS (config_of example_app))" "one_line (cc_AllowedIPs (config_of example_app))"
    unfolding example_config by (simp_all add: newline_def)
  from applied_config_exact [OF run example_response_ok this] run show ?thesis
    by (auto simp: example_config example_local_def example_load)
qed

theorem saved_state_misread_witness:
  "\<exists>s1 s3. saveConnectionState example_app = (Inr (), s1) \<and> LoadConnectionState example_local s1 = (Inr (), s3) \<and>
     ct_peerID (ap_connector s3) = ''peer_1%!(EXTRA string=''"
proof -
  obtain u s1 where run: "saveConnectionState example_app = (u, s1)" by (metis surj_pair)
  have "fst (saveConnectionState example_app) = Inr ()" by code_simp
  then have saved: "saveConnectionState example_app = (Inr (), s1)" using run by simp
  have "mc_faults (ap_machine (snd (saveConnectionState example_app))) = []" by code_simp
  then have nf: "mc_faults (ap_machine s1) = []" by (simp add: saved)
  have "config_of s1 = config_of example_app"
    using saved by (auto simp: saveConnectionState_def Let_def bindS_Inr_iff on_files_run config_of_def returnS_def split: if_splits)
  from saved_state_misread [OF _ _ _ saved this refl nf, of example_local]
  show ?thesis using saved by (auto simp: example_config)
qed

theorem endpoint_bounds_witness:
  "isValidEndpoint (''10.1.1.1'' @ '':'' @ print_meta (MInt 51820)) \<and> \<not> isValidEndpoint (''vpn'' @ '':'' @ print_meta (MInt 51820))"
  using endpoint_bounds [of "''10.1.1.1''" 51820] endpoint_bounds [of "''vpn''" 51820] by simp

end
