(* ===== verification/Hetzner.thy ===== *)
theory Hetzner
  imports ProvisioningProps Http
begin

text \<open>
  The cloud provisioner of \<open>internal/rotator/infrastructure/provisioner\<close>: \<open>hetzner.go\<close> and \<open>factory.go\<close>. The
  client of the Hetzner cloud library is a record of its calls, which act on a state \<open>'w\<close> of the world; the
  embedded cloud-init template is a parameter that comes parsed, and its rendering is modelled.
\<close>

section \<open>The cloud client\<close>

text \<open>The calls of the library that the provisioner makes, with the codes it asks an error for.
  \<open>GetByID\<close> answers no server and no error when there is none.\<close>

datatype hcloud_code = NotFound | RateLimitExceeded | ResourceUnavailable

record cloud_server =
  srv_ID :: int
  srv_Status :: string
  srv_IPv4 :: "ip4 option"

record 'k ServerCreateOpts =
  sco_Name :: string
  sco_ServerType :: string
  sco_Image :: string
  sco_Location :: string
  sco_EnableIPv4 :: bool
  sco_EnableIPv6 :: bool
  sco_SSHKeys :: 'k
  sco_UserData :: string
  sco_Labels :: "string \<rightharpoonup> string"

record ('w, 'k) hcloud_client =
  hc_SSHKey_All :: "'w \<Rightarrow> 'k res \<times> 'w"
  hc_Server_Create :: "'k ServerCreateOpts \<Rightarrow> 'w \<Rightarrow> cloud_server res \<times> 'w"
  hc_Server_Delete :: "int \<Rightarrow> 'w \<Rightarrow> unit res \<times> 'w"
  hc_Server_GetByID :: "int \<Rightarrow> 'w \<Rightarrow> cloud_server option res \<times> 'w"
  hc_IsError :: "go_error \<Rightarrow> hcloud_code \<Rightarrow> bool"

record HetznerConfig =
  hzc_ServerType :: string
  hzc_Image :: string
  hzc_Location :: string
  hzc_SSHPublicKey :: string

record ('w, 'k) HetznerProvisioner =
  hp_client :: "('w, 'k) hcloud_client"
  hp_config :: HetznerConfig

definition NewHetznerProvisioner ::
  "(string \<Rightarrow> ('w, 'k) hcloud_client) \<Rightarrow> string \<Rightarrow> HetznerConfig option \<Rightarrow> ('w, 'k) HetznerProvisioner res" where
  "NewHetznerProvisioner newClient apiToken config =
     (if apiToken = [] then Inl (NewSystemError ErrCodeConfiguration ''Hetzner API token is required'' False None)
      else (case config of
          None \<Rightarrow> Inl (NewSystemError ErrCodeConfiguration ''Hetzner config is required'' False None)
        | Some c \<Rightarrow> Inr \<lparr>hp_client = newClient apiToken, hp_config = c\<rparr>))"

record provisioner_Config =
  pvc_Provider :: string
  pvc_Hetzner :: "HetznerConfig option"

abbreviation ProviderTypeHetzner :: string where "ProviderTypeHetzner \<equiv> ''hetzner''"

definition NewCloudProvisioner ::
  "(string \<Rightarrow> ('w, 'k) hcloud_client) \<Rightarrow> provisioner_Config option \<Rightarrow> string \<Rightarrow> ('w, 'k) HetznerProvisioner res" where
  "NewCloudProvisioner newClient config apiToken =
     (case config of
        None \<Rightarrow> Inl (NewSystemError ErrCodeConfiguration ''provisioner config is required'' False None)
      | Some c \<Rightarrow>
          if pvc_Provider c = ProviderTypeHetzner then
            (case pvc_Hetzner c of
               None \<Rightarrow> Inl (NewSystemError ErrCodeConfiguration ''Hetzner config is required for Hetzner provider'' False None)
             | Some h \<Rightarrow> NewHetznerProvisioner newClient apiToken (Some h))
          else Inl (NewSystemError ErrCodeConfiguration (''unsupported provider type: '' @ pvc_Provider c) False None))"

definition DefaultHetznerConfig :: HetznerConfig where
  "DefaultHetznerConfig = \<lparr>hzc_ServerType = ''cx11'', hzc_Image = ''ubuntu-22.04'', hzc_Location = ''nbg1'', hzc_SSHPublicKey = []\<rparr>"

section \<open>The cloud-init document\<close>

record CloudInitData =
  ci_ServerPrivateKey :: string
  ci_ServerPublicKey :: string
  ci_SSHPublicKeys :: "string list"
  ci_SubnetCIDR :: string
  ci_GatewayIP :: string

text \<open>Package \<open>text/template\<close>, as far as the template uses it: text, fields of the data, and a loop over a field that
  is a list, in which a dot is the element.\<close>

datatype template_item = TText string | TField string | TRange string "range_item list"
  and range_item = RText string | RDot

definition template_field :: "CloudInitData \<Rightarrow> string \<Rightarrow> string res" where
  "template_field d f =
     (if f = ''ServerPrivateKey'' then Inr (ci_ServerPrivateKey d)
      else if f = ''ServerPublicKey'' then Inr (ci_ServerPublicKey d)
      else if f = ''SubnetCIDR'' then Inr (ci_SubnetCIDR d)
      else if f = ''GatewayIP'' then Inr (ci_GatewayIP d)
      else Inl (PlainError (''cannot evaluate field '' @ f)))"

definition template_list :: "CloudInitData \<Rightarrow> string \<Rightarrow> string list res" where
  "template_list d f = (if f = ''SSHPublicKeys'' then Inr (ci_SSHPublicKeys d) else Inl (PlainError (''cannot evaluate field '' @ f)))"

fun range_text :: "range_item list \<Rightarrow> string \<Rightarrow> string" where
  "range_text [] x = []"
| "range_text (RText s # is) x = s @ range_text is x"
| "range_text (RDot # is) x = x @ range_text is x"

fun template_Execute :: "template_item list \<Rightarrow> CloudInitData \<Rightarrow> string res" where
  "template_Execute [] d = Inr []"
| "template_Execute (TText s # is) d = bindr (template_Execute is d) (\<lambda>r. Inr (s @ r))"
| "template_Execute (TField f # is) d = bindr (template_field d f) (\<lambda>s. bindr (template_Execute is d) (\<lambda>r. Inr (s @ r)))"
| "template_Execute (TRange f body # is) d = bindr (template_list d f) (\<lambda>xs. bindr (template_Execute is d)
     (\<lambda>r. Inr (concat (map (range_text body) xs) @ r)))"

section \<open>Environment\<close>

text \<open>Random bytes, the curve, the clock, files, connections and sleeping, and the parsed template.\<close>

record 'w hetzner_env =
  hz_random :: "'w \<Rightarrow> byte list option \<times> 'w"
  hz_x25519 :: "byte list \<Rightarrow> byte list option"
  hz_now :: "'w \<Rightarrow> int \<times> 'w"
  hz_ReadFile :: "string \<Rightarrow> 'w \<Rightarrow> string res \<times> 'w"
  hz_DialTimeout :: "string \<Rightarrow> string \<Rightarrow> int \<Rightarrow> 'w \<Rightarrow> unit res \<times> 'w"
  hz_Sleep :: "int \<Rightarrow> 'w \<Rightarrow> 'w"
  hz_template :: "template_item list res"

type_synonym ('w, 'a) cloud_op = "'w \<Rightarrow> 'a res \<times> 'w"

definition observe :: "('w \<Rightarrow> 'a \<times> 'w) \<Rightarrow> ('w, 'a) cloud_op" where
  "observe f w = (case f w of (x, w') \<Rightarrow> (Inr x, w'))"

definition sleep_for :: "'w hetzner_env \<Rightarrow> int \<Rightarrow> ('w, unit) cloud_op" where
  "sleep_for env d w = (Inr (), hz_Sleep env d w)"

abbreviation second :: int where "second \<equiv> 1000000000"

definition readSSHPublicKeys :: "'w hetzner_env \<Rightarrow> string \<Rightarrow> ('w, string list) cloud_op" where
  "readSSHPublicKeys env keySource =
     (if keySource = [] then returnS []
      else if has_prefix keySource ''ssh-'' \<or> has_prefix keySource ''ecdsa-'' \<or> has_prefix keySource ''ed25519-''
      then returnS [trim_space keySource]
      else bindS (map_errS (\<lambda>e. WithMetadata (NewProvisioningError ErrCodeConfiguration
                   ''failed to read SSH public key file'' False (Some e)) ''path'' (MString keySource))
                 (hz_ReadFile env keySource)) (\<lambda>keyBytes.
           returnS (filter (\<lambda>line. line \<noteq> [] \<and> \<not> has_prefix line ''#'')
                      (map trim_space (split_on (CHR 0x0A) keyBytes)))))"

definition subnet_gateway :: "IPNet \<Rightarrow> ip4" where
  "subnet_gateway subnet = ip_of_bytes ((ip_bytes (net_ip subnet))[3 := 1])"

definition cloud_init_data :: "KeyPair \<Rightarrow> IPNet option \<Rightarrow> string list \<Rightarrow> CloudInitData" where
  "cloud_init_data keys subnet sshKeys =
     \<lparr>ci_ServerPrivateKey = PrivateKey keys, ci_ServerPublicKey = PublicKey keys, ci_SSHPublicKeys = sshKeys,
      ci_SubnetCIDR = (case subnet of Some n \<Rightarrow> net_string n | None \<Rightarrow> ''10.8.0.0/24''),
      ci_GatewayIP = (case subnet of Some n \<Rightarrow> print_ip (subnet_gateway n) | None \<Rightarrow> ''10.8.0.1'')\<rparr>"

definition generateCloudInitWithSubnet ::
  "'w hetzner_env \<Rightarrow> KeyPair \<Rightarrow> IPNet option \<Rightarrow> string \<Rightarrow> ('w, string) cloud_op" where
  "generateCloudInitWithSubnet env keys subnet sshPublicKey =
     bindS (liftS (case hz_template env of
         Inl e \<Rightarrow> Inl (NewProvisioningError ErrCodeConfiguration ''failed to parse cloud-init template'' False (Some e))
       | Inr tmpl \<Rightarrow> Inr tmpl)) (\<lambda>tmpl.
     bindS (readSSHPublicKeys env sshPublicKey) (\<lambda>sshKeys.
     map_errS (\<lambda>e. NewProvisioningError ErrCodeConfiguration ''failed to render cloud-init template'' False (Some e))
       (liftS (template_Execute tmpl (cloud_init_data keys subnet sshKeys)))))"

section \<open>Health checks\<close>

definition checkSSHConnectivity :: "'w hetzner_env \<Rightarrow> string \<Rightarrow> ('w, unit) cloud_op" where
  "checkSSHConnectivity env ipAddress =
     map_errS (\<lambda>e. WithMetadata (NewProvisioningError ErrCodeHealthCheckFailed ''SSH port not accessible'' True (Some e))
         ''ip_address'' (MString ipAddress))
       (hz_DialTimeout env ''tcp'' (ipAddress @ '':22'') (10 * second))"

definition checkWireGuardPort :: "'w hetzner_env \<Rightarrow> string \<Rightarrow> ('w, unit) cloud_op" where
  "checkWireGuardPort env ipAddress =
     map_errS (\<lambda>e. WithMetadata (NewProvisioningError ErrCodeHealthCheckFailed
           ''WireGuard UDP port 51820 not accessible'' True (Some e)) ''ip_address'' (MString ipAddress))
       (hz_DialTimeout env ''udp'' (ipAddress @ '':51820'') (5 * second))"

definition healthCheck :: "'w hetzner_env \<Rightarrow> string \<Rightarrow> ('w, unit) cloud_op" where
  "healthCheck env ipAddress = bindS (checkSSHConnectivity env ipAddress) (\<lambda>_. checkWireGuardPort env ipAddress)"

abbreviation maxHealthChecks :: nat where "maxHealthChecks \<equiv> 10"

text \<open>The loop, with the number of checks still to make and the last error.\<close>

fun health_checks_loop :: "'w hetzner_env \<Rightarrow> string \<Rightarrow> nat \<Rightarrow> go_error option \<Rightarrow> ('w, unit) cloud_op" where
  "health_checks_loop env ipAddress 0 lastErr =
     failS (WithMetadata (NewProvisioningError ErrCodeHealthCheckFailed
       (''server failed health checks after '' @ dec maxHealthChecks @ '' attempts'') True lastErr)
       ''ip_address'' (MString ipAddress))"
| "health_checks_loop env ipAddress (Suc n) lastErr =
     bindS (tryS (healthCheck env ipAddress)) (\<lambda>r. case r of
       Inr _ \<Rightarrow> returnS ()
     | Inl e \<Rightarrow> bindS (if n \<noteq> 0 then sleep_for env (10 * second) else returnS ()) (\<lambda>_.
         health_checks_loop env ipAddress n (Some e)))"

definition performHealthChecks :: "'w hetzner_env \<Rightarrow> string \<Rightarrow> ('w, unit) cloud_op" where
  "performHealthChecks env ipAddress = health_checks_loop env ipAddress maxHealthChecks None"

section \<open>Operations\<close>

definition isTransientError :: "('w, 'k) HetznerProvisioner \<Rightarrow> go_error \<Rightarrow> bool" where
  "isTransientError h e =
     (if hc_IsError (hp_client h) e RateLimitExceeded then True
      else if hc_IsError (hp_client h) e ResourceUnavailable then True else False)"

text \<open>\<open>fmt.Sprintf("%d")\<close> of an identifier and \<open>net.IP.String\<close>.\<close>

definition server_id_text :: "int \<Rightarrow> string" where
  "server_id_text n = print_meta (MInt n)"

definition ip_text :: "ip4 option \<Rightarrow> string" where
  "ip_text a = (case a of Some x \<Rightarrow> print_ip x | None \<Rightarrow> ''<nil>'')"

definition parse_server_id :: "string \<Rightarrow> ('w, int) cloud_op" where
  "parse_server_id serverID = liftS (case ParseInt64 serverID of
       Some n \<Rightarrow> Inr n
     | None \<Rightarrow> Inl (NewInfrastructureError ErrCodeValidation ''invalid server ID format'' False
         (Some (PlainError (''strconv.ParseInt: parsing '' @ serverID @ '': invalid syntax'')))))"

definition DestroyNode :: "('w, 'k) HetznerProvisioner \<Rightarrow> string \<Rightarrow> ('w, unit) cloud_op" where
  "DestroyNode h serverID =
     bindS (parse_server_id serverID) (\<lambda>hetznerID.
     bindS (tryS (hc_Server_Delete (hp_client h) hetznerID)) (\<lambda>r. case r of
       Inr _ \<Rightarrow> returnS ()
     | Inl e \<Rightarrow>
         if hc_IsError (hp_client h) e NotFound then returnS ()
         else failS (NewInfrastructureError ErrCodeDestructionFailed ''failed to delete Hetzner server'' True (Some e))))"

record CloudNodeStatus =
  cns_ServerID :: string
  cns_Status :: string
  cns_IPAddress :: string

text \<open>The fields of the answer are read through the pointer, which is nil when there is no server.\<close>

definition GetNodeStatus :: "('w, 'k) HetznerProvisioner \<Rightarrow> string \<Rightarrow> ('w, CloudNodeStatus) cloud_op" where
  "GetNodeStatus h serverID =
     bindS (parse_server_id serverID) (\<lambda>hetznerID.
     bindS (tryS (hc_Server_GetByID (hp_client h) hetznerID)) (\<lambda>r. case r of
       Inl e \<Rightarrow>
         if hc_IsError (hp_client h) e NotFound
         then returnS \<lparr>cns_ServerID = serverID, cns_Status = ''not_found'', cns_IPAddress = []\<rparr>
         else failS (NewInfrastructureError ErrCodeNetworkError ''failed to get server status'' True (Some e))
     | Inr None \<Rightarrow> failS (GoPanic ''nil pointer dereference'')
     | Inr (Some server) \<Rightarrow>
         returnS \<lparr>cns_ServerID = serverID, cns_Status = srv_Status server,
                  cns_IPAddress = (case srv_IPv4 server of Some a \<Rightarrow> print_ip a | None \<Rightarrow> [])\<rparr>))"

definition server_request :: "ProvisioningConfig \<Rightarrow> string \<Rightarrow> 'k \<Rightarrow> string \<Rightarrow> 'k ServerCreateOpts" where
  "server_request config name sshKeys cloudInit =
     \<lparr>sco_Name = name, sco_ServerType = pcfg_InstanceType config, sco_Image = pcfg_ImageID config,
      sco_Location = pcfg_Region config, sco_EnableIPv4 = True, sco_EnableIPv6 = False,
      sco_SSHKeys = sshKeys, sco_UserData = cloudInit, sco_Labels = pcfg_Tags config\<rparr>"

definition key_failure :: "go_error \<Rightarrow> go_error" where
  "key_failure e = (if is_panic e then e
     else NewProvisioningError ErrCodeInternal ''failed to generate WireGuard keys'' False (Some e))"

text \<open>Steps 1 to 4: everything up to the creation of the server.\<close>

definition create_server ::
  "'w hetzner_env \<Rightarrow> ('w, 'k) HetznerProvisioner \<Rightarrow> ProvisioningConfig \<Rightarrow> ('w, KeyPair \<times> cloud_server) cloud_op" where
  "create_server env h config =
     bindS (map_errS key_failure (bindS (observe (hz_random env)) (\<lambda>b. liftS (GenerateKeyPair (hz_x25519 env) b)))) (\<lambda>keys.
     bindS (generateCloudInitWithSubnet env keys (Some (pcfg_Subnet config)) (pcfg_SSHPublicKey config)) (\<lambda>cloudInit.
     bindS (map_errS (\<lambda>e. NewProvisioningError ErrCodeProvisionFailed ''failed to get SSH keys from Hetzner'' True (Some e))
       (hc_SSHKey_All (hp_client h))) (\<lambda>allSSHKeys.
     bindS (observe (hz_now env)) (\<lambda>t.
     bindS (map_errS (\<lambda>e. NewProvisioningError ErrCodeProvisionFailed ''failed to create Hetzner server''
              (isTransientError h e) (Some e))
       (hc_Server_Create (hp_client h) (server_request config (''vpn-rotator-'' @ dec (nat t)) allSSHKeys cloudInit)))
       (\<lambda>server. returnS (keys, server))))))"

text \<open>Steps 5 and 6: the wait, the health checks, and the removal of a server that fails them.\<close>

definition await_server ::
  "'w hetzner_env \<Rightarrow> ('w, 'k) HetznerProvisioner \<Rightarrow> string \<Rightarrow> string \<Rightarrow> ('w, unit) cloud_op" where
  "await_server env h serverID ipAddress =
     bindS (sleep_for env (60 * second)) (\<lambda>_.
     bindS (tryS (performHealthChecks env ipAddress)) (\<lambda>r. case r of
       Inr _ \<Rightarrow> returnS ()
     | Inl e \<Rightarrow> bindS (tryS (DestroyNode h serverID)) (\<lambda>_.
         failS (NewProvisioningError ErrCodeHealthCheckFailed ''server failed health checks'' True (Some e)))))"

definition ProvisionNode ::
  "'w hetzner_env \<Rightarrow> ('w, 'k) HetznerProvisioner \<Rightarrow> ProvisioningConfig \<Rightarrow> ('w, ProvisionedNode) cloud_op" where
  "ProvisionNode env h config =
     bindS (create_server env h config) (\<lambda>(keys, server).
     bindS (await_server env h (server_id_text (srv_ID server)) (ip_text (srv_IPv4 server))) (\<lambda>_.
     returnS \<lparr>pn_ServerID = server_id_text (srv_ID server), pn_IPAddress = ip_text (srv_IPv4 server),
       pn_PublicKey = PublicKey keys, pn_Status = ''active'', pn_Region = pcfg_Region config\<rparr>))"

text \<open>The provisioning service on this provisioner.\<close>

definition on_hetzner :: "'w hetzner_env \<Rightarrow> ('w, 'k) HetznerProvisioner \<Rightarrow> 'w prov_env \<Rightarrow> 'w prov_env" where
  "on_hetzner hz h env = env\<lparr>env_provision := ProvisionNode hz h, env_destroy := DestroyNode h\<rparr>"

end
