(* ===== verification/HetznerProps.thy ===== *)
theory HetznerProps
  imports Hetzner
begin

text \<open>
  The properties of the cloud provisioner: the key and the gateway a server is set up with, and the servers that
  exist after a run of the provisioner and of the provisioning service on it.
\<close>

section \<open>The set-up of a server\<close>

lemma generated_pair:
  assumes "GenerateKeyPair x rnd = Inr kp"
  shows "DerivePublicKey x (PrivateKey kp) = Inr (PublicKey kp) \<or> (\<exists>b. rnd = Some b \<and> length b \<noteq> 32)"
proof -
  obtain b k p where b: "rnd = Some b" "clampPrivateKey b = Some k" "x k = Some p"
      "kp = \<lparr>PrivateKey = b64_encode k, PublicKey = b64_encode p\<rparr>"
    using assms by (auto simp: GenerateKeyPair_def split: option.splits)
  then show ?thesis
    using clampPrivateKey_length [OF b(2)] clampPrivateKey_idem [OF b(2)] by (auto simp: DerivePublicKey_def)
qed

text \<open>The identifier in the record of a node is read back as that of the server.\<close>

lemma ParseInt64_id: "- (2 ^ 63) \<le> n \<Longrightarrow> n < 2 ^ 63 \<Longrightarrow> ParseInt64 (server_id_text n) = Some n"
proof (cases "n < 0")
  case True
  assume "- (2 ^ 63) \<le> n"
  then show ?thesis using True dec_digits [of "nat (- n)"] by (simp add: server_id_text_def ParseInt64_def)
qed (simp add: server_id_text_def ParseInt64_dec)

lemma observe_simps [simp]: "fst (observe f w) = Inr (fst (f w))" "snd (observe f w) = snd (f w)"
  by (simp_all add: observe_def case_prod_beta)

lemma observe_Inr: "observe f w = (Inr x, w') \<longleftrightarrow> f w = (x, w')"
  by (auto simp: observe_def split: prod.splits)

lemma create_server_Inr:
  assumes "create_server env h config w = (Inr (keys, server), w')"
  shows "\<exists>tmpl sshKeys allKeys name cloudInit w1 b.
    GenerateKeyPair (hz_x25519 env) b = Inr keys \<and> (\<exists>w0. fst (hz_random env w0) = b) \<and> hz_template env = Inr tmpl \<and>
    template_Execute tmpl (cloud_init_data keys (Some (pcfg_Subnet config)) sshKeys) = Inr cloudInit \<and>
    hc_Server_Create (hp_client h) (server_request config name allKeys cloudInit) w1 = (Inr server, w')"
proof -
  obtain b w1 w2 cloudInit allKeys w3 t w4 where
    b: "hz_random env w = (b, w1)" and keys: "GenerateKeyPair (hz_x25519 env) b = Inr keys"
    and ci: "generateCloudInitWithSubnet env keys (Some (pcfg_Subnet config)) (pcfg_SSHPublicKey config) w1 = (Inr cloudInit, w2)"
    and cr: "hc_Server_Create (hp_client h) (server_request config (''vpn-rotator-'' @ dec (nat t)) allKeys cloudInit) w4 = (Inr server, w')"
    using assms unfolding create_server_def by (fastforce simp: bindS_Inr_iff observe_Inr)
  obtain tmpl sshKeys where "hz_template env = Inr tmpl"
    "template_Execute tmpl (cloud_init_data keys (Some (pcfg_Subnet config)) sshKeys) = Inr cloudInit"
    using ci unfolding generateCloudInitWithSubnet_def by (auto simp: bindS_Inr_iff split: sum.splits)
  then show ?thesis using b keys cr by (metis fst_conv)
qed

text \<open>C15: the record of a provisioned node fits the server it was made from. The public key is that of the private
  key which the template was rendered with, the subnet, region, type and image are those asked for, the identifier
  reads back as that of the server, and the address is the address of the server.\<close>

theorem provisioned_server_fits:
  assumes "ProvisionNode env h config w = (Inr pn, w')"
    and random: "\<And>w b. fst (hz_random env w) = Some b \<Longrightarrow> length b = 32"
    and ids: "\<And>opts w s. fst (hc_Server_Create (hp_client h) opts w) = Inr s \<Longrightarrow> - (2 ^ 63) \<le> srv_ID s \<and> srv_ID s < 2 ^ 63"
  shows "\<exists>tmpl keys sshKeys opts server w1 w2.
    hz_template env = Inr tmpl \<and>
    template_Execute tmpl (cloud_init_data keys (Some (pcfg_Subnet config)) sshKeys) = Inr (sco_UserData opts) \<and>
    DerivePublicKey (hz_x25519 env) (PrivateKey keys) = Inr (pn_PublicKey pn) \<and> PublicKey keys = pn_PublicKey pn \<and>
    sco_Location opts = pcfg_Region config \<and> sco_ServerType opts = pcfg_InstanceType config \<and>
    sco_Image opts = pcfg_ImageID config \<and> pn_Region pn = pcfg_Region config \<and>
    hc_Server_Create (hp_client h) opts w1 = (Inr server, w2) \<and>
    ParseInt64 (pn_ServerID pn) = Some (srv_ID server) \<and> pn_IPAddress pn = ip_text (srv_IPv4 server)"
proof -
  obtain keys server w2 where c: "create_server env h config w = (Inr (keys, server), w2)"
    and pn: "pn = \<lparr>pn_ServerID = server_id_text (srv_ID server), pn_IPAddress = ip_text (srv_IPv4 server),
       pn_PublicKey = PublicKey keys, pn_Status = ''active'', pn_Region = pcfg_Region config\<rparr>"
    using assms(1) unfolding ProvisionNode_def by (auto simp: bindS_Inr_iff)
  obtain tmpl sshKeys allKeys name cloudInit w1 b w0 where s:
    "GenerateKeyPair (hz_x25519 env) b = Inr keys" "fst (hz_random env w0) = b" "hz_template env = Inr tmpl"
    "template_Execute tmpl (cloud_init_data keys (Some (pcfg_Subnet config)) sshKeys) = Inr cloudInit"
    "hc_Server_Create (hp_client h) (server_request config name allKeys cloudInit) w1 = (Inr server, w2)"
    using create_server_Inr [OF c] by blast
  have "DerivePublicKey (hz_x25519 env) (PrivateKey keys) = Inr (PublicKey keys)"
    using generated_pair [OF s(1)] random s(2) by blast
  moreover have "ParseInt64 (server_id_text (srv_ID server)) = Some (srv_ID server)"
    using ids [of _ w1] s(5) by (intro ParseInt64_id) (metis fst_conv)+
  ultimately show ?thesis
    using s(3-5) unfolding pn
    by (intro exI [of _ tmpl] exI [of _ keys] exI [of _ sshKeys] exI [of _ "server_request config name allKeys cloudInit"]
        exI [of _ server] exI [of _ w1] exI [of _ w2]) (simp add: server_request_def)
qed

text \<open>C30: the gateway in the cloud-init document is the address that the address service reserves for the gateway of
  the subnet exactly when the last byte of the network is zero: always for masks up to 24, and for longer masks only
  in the first subnet of each block of 256 addresses.\<close>

theorem cloud_gateway_agrees:
  assumes "net_aligned n" "net_ones n \<le> 30" "NewSubnet nodeID (Some n) = Inr s"
  shows "ci_GatewayIP (cloud_init_data keys (Some n) sshKeys) = print_ip (sn_Gateway s)
    \<longleftrightarrow> (net_ones n \<le> 24 \<or> unat (net_ip n) mod 256 = 0)"
proof -
  have "validateNodeID nodeID = Inr ()" using assms(3) by (auto simp: NewSubnet_def split: sum.splits)
  then have g: "unat (sn_Gateway s) = unat (net_ip n) + 1"
    using NewSubnet_layout [OF assms(1,2)] assms(3) by (metis Inr_inject subnet_layout_def)
  obtain a b c d where *: "ip_bytes (net_ip n) = [a, b, c, d]" "a < 256" "b < 256" "c < 256" "d < 256"
      "unat (net_ip n) = ((a * 256 + b) * 256 + c) * 256 + d"
    by (rule ip_bytes_ex)
  define m where "m = ((a * 256 + b) * 256 + c) * 256 + 1"
  have "m < 4294967296" using *(2-5) by (simp add: m_def)
  then have "unat (word_of_nat m :: ip4) = m" by (simp add: unat_of_nat take_bit_eq_mod)
  moreover have "foldl (\<lambda>a b. a * 256 + b) 0 ((ip_bytes (net_ip n))[3 := 1]) = m" by (simp add: *(1) m_def)
  ultimately have u: "unat (subnet_gateway n) = m" by (simp only: subnet_gateway_def ip_of_bytes_def)
  have "subnet_gateway n = sn_Gateway s \<longleftrightarrow> d = 0"
    unfolding word_unat_eq_iff g u *(6) by (simp add: m_def)
  moreover have "unat (net_ip n) mod 256 = d" by (simp only: *(6) mod_mult_self3 mod_less [OF *(5)])
  moreover have "unat (net_ip n) mod 256 = 0" if "net_ones n \<le> 24"
  proof -
    have "(2 :: nat) ^ 8 dvd 2 ^ (32 - net_ones n)" by (rule le_imp_power_dvd) (use that in simp)
    then have "256 dvd net_size n" by (simp add: net_size_def)
    then show ?thesis using net_aligned_dvd [OF assms(1)] by (metis dvd_trans dvd_imp_mod_0)
  qed
  ultimately show ?thesis by (auto simp: cloud_init_data_def print_ip_inj)
qed

section \<open>The servers that exist\<close>

text \<open>What is relied on of the cloud: a created server is a new one, a call that fails creates nothing, a deletion
  removes the server, an error with the code for a missing one says that it is not there, and nothing else that the
  provisioner does creates or deletes servers. \<open>v\<close> reads off the servers that exist.\<close>

definition same_servers :: "('w \<Rightarrow> int set) \<Rightarrow> 'w \<Rightarrow> 'w \<Rightarrow> bool" where
  "same_servers v w w' = (v w' = v w)"

definition cloud_ledger :: "'w hetzner_env \<Rightarrow> ('w, 'k) HetznerProvisioner \<Rightarrow> ('w \<Rightarrow> int set) \<Rightarrow> bool" where
  "cloud_ledger env h v =
     ((\<forall>w. v (snd (hz_random env w)) = v w \<and> v (snd (hz_now env w)) = v w) \<and>
      (\<forall>p. stays (same_servers v) (hz_ReadFile env p)) \<and> (\<forall>n a d. stays (same_servers v) (hz_DialTimeout env n a d)) \<and>
      (\<forall>d w. v (hz_Sleep env d w) = v w) \<and> stays (same_servers v) (hc_SSHKey_All (hp_client h)) \<and>
      (\<forall>opts w. case hc_Server_Create (hp_client h) opts w of
         (Inr s, w') \<Rightarrow> srv_ID s \<notin> v w \<and> - (2 ^ 63) \<le> srv_ID s \<and> srv_ID s < 2 ^ 63 \<and> v w' = insert (srv_ID s) (v w)
       | (Inl e, w') \<Rightarrow> v w' = v w) \<and>
      (\<forall>n w. case hc_Server_Delete (hp_client h) n w of
         (Inr _, w') \<Rightarrow> v w' = v w - {n}
       | (Inl e, w') \<Rightarrow> v w' = v w \<and> (hc_IsError (hp_client h) e NotFound \<longrightarrow> n \<notin> v w)))"

definition deletes_work :: "('w, 'k) HetznerProvisioner \<Rightarrow> bool" where
  "deletes_work h = (\<forall>n w e. fst (hc_Server_Delete (hp_client h) n w) = Inl e \<longrightarrow> hc_IsError (hp_client h) e NotFound)"

lemma ledger_calls:
  assumes "cloud_ledger env h v"
  shows "hc_Server_Create (hp_client h) opts w = (Inr s, w') \<Longrightarrow>
      srv_ID s \<notin> v w \<and> - (2 ^ 63) \<le> srv_ID s \<and> srv_ID s < 2 ^ 63 \<and> v w' = insert (srv_ID s) (v w)"
    and "hc_Server_Create (hp_client h) opts w = (Inl e, w') \<Longrightarrow> v w' = v w"
    and "hc_Server_Delete (hp_client h) n w = (Inr u, w') \<Longrightarrow> v w' = v w - {n}"
    and "hc_Server_Delete (hp_client h) n w = (Inl e, w') \<Longrightarrow> v w' = v w \<and> (hc_IsError (hp_client h) e NotFound \<longrightarrow> n \<notin> v w)"
proof -
  note parts = assms [unfolded cloud_ledger_def, THEN conjunct2, THEN conjunct2, THEN conjunct2, THEN conjunct2, THEN conjunct2]
  note calls = parts [THEN conjunct1, THEN spec [of _ opts], THEN spec [of _ w]]
    parts [THEN conjunct2, THEN spec [of _ n], THEN spec [of _ w]]
  show "hc_Server_Create (hp_client h) opts w = (Inr s, w') \<Longrightarrow>
      srv_ID s \<notin> v w \<and> - (2 ^ 63) \<le> srv_ID s \<and> srv_ID s < 2 ^ 63 \<and> v w' = insert (srv_ID s) (v w)"
    "hc_Server_Create (hp_client h) opts w = (Inl e, w') \<Longrightarrow> v w' = v w"
    "hc_Server_Delete (hp_client h) n w = (Inr u, w') \<Longrightarrow> v w' = v w - {n}"
    "hc_Server_Delete (hp_client h) n w = (Inl e, w') \<Longrightarrow> v w' = v w \<and> (hc_IsError (hp_client h) e NotFound \<longrightarrow> n \<notin> v w)"
    using calls by simp_all
qed

lemma same_order: "reflp (same_servers v)" "transp (same_servers v)"
  by (auto simp: same_servers_def reflp_def transp_def)

lemmas same_pure = stays_pure [OF same_order(1)]
lemmas same_bind = stays_bindS [OF same_order(2)]

lemma same_observe: "(\<And>w. v (snd (f w)) = v w) \<Longrightarrow> stays (same_servers v) (observe f)"
  by (simp add: stays_def same_servers_def)

lemma same_health:
  assumes "cloud_ledger env h v"
  shows "stays (same_servers v) (health_checks_loop env ip n e)"
proof -
  have dial: "stays (same_servers v) (hz_DialTimeout env k a d)" for k a d using assms by (simp add: cloud_ledger_def)
  have check: "stays (same_servers v) (healthCheck env ip)"
    unfolding healthCheck_def checkSSHConnectivity_def checkWireGuardPort_def
    by (intro same_bind stays_map_errS dial)
  have sleep: "stays (same_servers v) (sleep_for env d)" for d
    using assms by (simp add: cloud_ledger_def stays_def same_servers_def sleep_for_def)
  show ?thesis
  proof (induction n arbitrary: e)
    case (Suc n)
    show ?case
      unfolding health_checks_loop.simps
      by (intro same_bind stays_tryS check) (auto split: sum.splits intro!: same_bind sleep same_pure Suc.IH)
  qed (simp add: same_pure)
qed

lemma create_server_servers:
  fixes env :: "'w hetzner_env"
  assumes "cloud_ledger env h v"
  shows "hoare (\<lambda>w. v w = S) (create_server env h config)
    (\<lambda>(keys, s) w. srv_ID s \<notin> S \<and> - (2 ^ 63) \<le> srv_ID s \<and> srv_ID s < 2 ^ 63 \<and> v w = insert (srv_ID s) S) (\<lambda>_ w. v w = S)"
proof -
  have keep: "hoare (\<lambda>w. v w = S) m (\<lambda>_ w. v w = S) (\<lambda>_ w. v w = S)" if "stays (same_servers v) m" for m :: "('w, 'b) cloud_op"
    by (rule hoare_stays [OF that]) (simp add: same_servers_def)
  have parts: "stays (same_servers v) (observe (hz_random env))" "stays (same_servers v) (observe (hz_now env))"
    "stays (same_servers v) (hz_ReadFile env p)" "stays (same_servers v) (hc_SSHKey_All (hp_client h))" for p
    using assms by (auto simp: cloud_ledger_def intro: same_observe)
  have read: "stays (same_servers v) (readSSHPublicKeys env p)" for p
    unfolding readSSHPublicKeys_def by (intro stays_if same_bind stays_map_errS parts same_pure)
  have init: "stays (same_servers v) (generateCloudInitWithSubnet env keys n p)" for keys n p
    unfolding generateCloudInitWithSubnet_def by (intro same_bind stays_map_errS same_pure read)
  have made: "hoare (\<lambda>w. v w = S) (bindS (map_errS f (hc_Server_Create (hp_client h) opts)) (\<lambda>server. returnS (keys, server)))
    (\<lambda>(keys, s) w. srv_ID s \<notin> S \<and> - (2 ^ 63) \<le> srv_ID s \<and> srv_ID s < 2 ^ 63 \<and> v w = insert (srv_ID s) S) (\<lambda>_ w. v w = S)"
    for f opts and keys :: KeyPair
    by (rule hoareI) (auto simp: bindS_Inr_iff bindS_Inl_iff map_errS_Inl_iff dest: ledger_calls(1,2) [OF assms])
  show ?thesis
    unfolding create_server_def by (intro hoare_bind [OF keep] made stays_map_errS same_bind parts same_pure init)
qed

lemma DestroyNode_servers:
  assumes "cloud_ledger env h v" "deletes_work h" "- (2 ^ 63) \<le> k" "k < 2 ^ 63"
  shows "fst (DestroyNode h (server_id_text k) w) = Inr () \<and> v (snd (DestroyNode h (server_id_text k) w)) = v w - {k}"
proof -
  obtain r w' where d: "hc_Server_Delete (hp_client h) k w = (r, w')" by (metis surj_pair)
  note calls = ledger_calls(3,4) [OF assms(1), of k w]
  have "r = Inl e \<Longrightarrow> hc_IsError (hp_client h) e NotFound" for e
    using assms(2) d unfolding deletes_work_def by (metis fst_conv)
  moreover have "ParseInt64 (server_id_text k) = Some k" by (rule ParseInt64_id [OF assms(3,4)])
  ultimately show ?thesis
    using calls d by (cases r) (auto simp: DestroyNode_def parse_server_id_def bindS_def)
qed

lemma await_server_servers:
  assumes l: "cloud_ledger env h v" and "deletes_work h" "- (2 ^ 63) \<le> k" "k < 2 ^ 63" "k \<notin> S"
  shows "hoare (\<lambda>w. v w = insert k S) (await_server env h (server_id_text k) ip) (\<lambda>_ w. v w = insert k S) (\<lambda>_ w. v w = S)"
proof -
  have sleep: "v (hz_Sleep env d w) = v w" for d w using l by (simp add: cloud_ledger_def)
  have health: "v (snd (performHealthChecks env ip w)) = v w" for w
    using same_health [OF l] by (simp add: stays_def same_servers_def performHealthChecks_def)
  note destroy = DestroyNode_servers [OF l assms(2-4)]
  have run: "await_server env h (server_id_text k) ip w = (case performHealthChecks env ip (hz_Sleep env (60 * second) w) of
      (Inr _, w2) \<Rightarrow> (Inr (), w2)
    | (Inl e, w2) \<Rightarrow> (Inl (NewProvisioningError ErrCodeHealthCheckFailed ''server failed health checks'' True (Some e)),
        snd (DestroyNode h (server_id_text k) w2)))" for w
    by (simp add: await_server_def bindS_def sleep_for_def tryS_def split: prod.splits sum.splits)
  show ?thesis
  proof (rule hoareI)
    fix w x w' assume w: "v w = insert k S" "await_server env h (server_id_text k) ip w = (Inr x, w')"
    then have "w' = snd (performHealthChecks env ip (hz_Sleep env (60 * second) w))"
      unfolding run by (auto split: prod.splits sum.splits)
    then show "v w' = insert k S" by (simp only: health sleep w(1))
  next
    fix w e w' assume w: "v w = insert k S" "await_server env h (server_id_text k) ip w = (Inl e, w')"
    then have "w' = snd (DestroyNode h (server_id_text k) (snd (performHealthChecks env ip (hz_Sleep env (60 * second) w))))"
      unfolding run by (auto split: prod.splits sum.splits)
    then have "v w' = insert k S - {k}" by (simp only: destroy health sleep w(1))
    then show "v w' = S" using assms(5) by auto
  qed
qed

lemma ProvisionNode_servers:
  assumes "cloud_ledger env h v" "deletes_work h"
  shows "hoare (\<lambda>w. v w = S) (ProvisionNode env h config)
    (\<lambda>pn w. \<exists>k. pn_ServerID pn = server_id_text k \<and> k \<notin> S \<and> - (2 ^ 63) \<le> k \<and> k < 2 ^ 63 \<and> v w = insert k S) (\<lambda>_ w. v w = S)"
  unfolding ProvisionNode_def
proof (rule hoare_bind_pair [OF create_server_servers [OF assms(1)]])
  fix keys :: KeyPair and server
  show "hoare (\<lambda>w. srv_ID server \<notin> S \<and> - (2 ^ 63) \<le> srv_ID server \<and> srv_ID server < 2 ^ 63 \<and> v w = insert (srv_ID server) S)
     (bindS (await_server env h (server_id_text (srv_ID server)) (ip_text (srv_IPv4 server)))
       (\<lambda>_. returnS \<lparr>pn_ServerID = server_id_text (srv_ID server), pn_IPAddress = ip_text (srv_IPv4 server),
          pn_PublicKey = PublicKey keys, pn_Status = ''active'', pn_Region = pcfg_Region config\<rparr>))
     (\<lambda>pn w. \<exists>k. pn_ServerID pn = server_id_text k \<and> k \<notin> S \<and> - (2 ^ 63) \<le> k \<and> k < 2 ^ 63 \<and> v w = insert k S) (\<lambda>_ w. v w = S)"
  proof (cases "srv_ID server \<notin> S \<and> - (2 ^ 63) \<le> srv_ID server \<and> srv_ID server < 2 ^ 63")
    case True
    then have a: "hoare (\<lambda>w. v w = insert (srv_ID server) S)
      (await_server env h (server_id_text (srv_ID server)) (ip_text (srv_IPv4 server)))
      (\<lambda>_ w. v w = insert (srv_ID server) S) (\<lambda>_ w. v w = S)"
      by (intro await_server_servers [OF assms]) auto
    have fin: "hoare (\<lambda>w. v w = insert (srv_ID server) S) (returnS pn)
        (\<lambda>pn w. \<exists>k. pn_ServerID pn = server_id_text k \<and> k \<notin> S \<and> - (2 ^ 63) \<le> k \<and> k < 2 ^ 63 \<and> v w = insert k S) (\<lambda>_ w. v w = S)"
      if "pn_ServerID pn = server_id_text (srv_ID server)" for pn
      using True that by (auto simp: hoare_def)
    show ?thesis
      by (rule hoare_bind [where Q = "\<lambda>_ w. v w = insert (srv_ID server) S", OF _ fin]) (use a True in \<open>simp_all add: hoare_def\<close>)
  next
    case False
    then show ?thesis unfolding hoare_def by blast
  qed
qed

section \<open>The provisioning service on this cloud\<close>

text \<open>What the service does besides, the health checks included, creates and deletes no servers.\<close>

definition keeps_servers :: "'w prov_env \<Rightarrow> ('w \<Rightarrow> int set) \<Rightarrow> bool" where
  "keeps_servers env v =
     ((\<forall>w. v (snd (prov_env.env_now env w)) = v w \<and> v (snd (env_uuid env w)) = v w \<and> v (snd (env_ticks env w)) = v w) \<and>
      (\<forall>ip w. v (snd (env_health env ip w)) = v w))"

definition world_rel :: "('w \<Rightarrow> int set) \<Rightarrow> 'w prov \<Rightarrow> 'w prov \<Rightarrow> bool" where
  "world_rel v s s' = (v (pv_world s') = v (pv_world s))"

lemma world_order: "reflp (world_rel v)" "transp (world_rel v)"
  by (auto simp: world_rel_def reflp_def transp_def)

lemmas world_pure = stays_pure [OF world_order(1)]
lemmas world_bind = stays_bindS [OF world_order(2)]

lemma world_steps:
  "stays (world_rel v) (on_db m)" "(\<And>w. v (snd (f w)) = v w) \<Longrightarrow> stays (world_rel v) (ask f)"
  "(\<And>w. v (snd (g w)) = v w) \<Longrightarrow> stays (world_rel v) (on_world g)" "stays (world_rel v) (deliver env e t)"
  by (auto simp: stays_def world_rel_def on_db_def ask_def on_world_def deliver_def case_prod_beta)

lemma world_reports:
  assumes "keeps_servers env v"
  shows "stays (world_rel v) (publish env p)" "stays (world_rel v) (reportProgress env i phase q msg md)"
    "stays (world_rel v) (reportPhaseStart env i phase msg)" "stays (world_rel v) (reportError env i phase e)"
    "stays (world_rel v) (ask (prov_env.env_now env))" "stays (world_rel v) (waitForNodeReadiness env i ip)"
proof -
  have asks: "stays (world_rel v) (ask (prov_env.env_now env))" "stays (world_rel v) (ask (env_uuid env))"
    "stays (world_rel v) (ask (env_ticks env))" "stays (world_rel v) (on_world (env_health env ip))" for ip
    using assms by (auto simp: keeps_servers_def intro!: world_steps)
  have p: "stays (world_rel v) (publish env p)" for p
    unfolding publish_def by (intro world_bind asks) (auto intro!: world_bind asks world_steps world_pure)
  then show "stays (world_rel v) (publish env p)" .
  show r: "stays (world_rel v) (reportProgress env i phase q msg md)"
    "stays (world_rel v) (reportPhaseStart env i phase msg)" "stays (world_rel v) (reportError env i phase e)"
    for i phase q msg md e
    unfolding reportProgress_def reportPhaseStart_def reportError_def by (intro stays_quiet p)+
  have "stays (world_rel v) (readiness_loop env i ip k n)" for k n
  proof (induction n arbitrary: k)
    case (Suc n)
    show ?case
      unfolding readiness_loop.simps
      by (intro world_bind stays_tryS r asks) (auto split: sum.splits intro: Suc.IH world_pure)
  qed (simp add: world_pure)
  then show "stays (world_rel v) (waitForNodeReadiness env i ip)" unfolding waitForNodeReadiness_def by (intro world_bind asks)
  show "stays (world_rel v) (ask (prov_env.env_now env))" by (rule asks)
qed

lemma on_hetzner_parts [simp]:
  "prov_env.env_now (on_hetzner hz h env) = prov_env.env_now env" "env_uuid (on_hetzner hz h env) = env_uuid env"
  "env_ticks (on_hetzner hz h env) = env_ticks env" "env_health (on_hetzner hz h env) = env_health env"
  "env_provision (on_hetzner hz h env) = ProvisionNode hz h" "env_destroy (on_hetzner hz h env) = DestroyNode h"
  by (simp_all add: on_hetzner_def)

lemma keeps_on_hetzner: "keeps_servers env v \<Longrightarrow> keeps_servers (on_hetzner hz h env) v"
  by (simp add: keeps_servers_def)

text \<open>Before the server: the servers are the old ones. Afterwards: the one which the rollback knows is there as well.\<close>

definition old_servers :: "('w \<Rightarrow> int set) \<Rightarrow> int set \<Rightarrow> 'w prov \<Rightarrow> bool" where
  "old_servers v S s = (v (pv_world s) = S)"

definition one_more :: "('w \<Rightarrow> int set) \<Rightarrow> int set \<Rightarrow> provisioningRollback \<Rightarrow> 'w prov \<Rightarrow> bool" where
  "one_more v S rb s = (\<exists>k. k \<notin> S \<and> - (2 ^ 63) \<le> k \<and> k < 2 ^ 63 \<and> v (pv_world s) = insert k S \<and>
     rb_serverID rb = server_id_text k \<and> ''cloud'' \<in> rb_allocated rb)"

lemma world_hoare:
  assumes "stays (world_rel v) m"
  shows "hoare (old_servers v S) m (\<lambda>_. old_servers v S) (\<lambda>_. old_servers v S)"
    "hoare (one_more v S rb) m (\<lambda>_. one_more v S rb) (\<lambda>_. one_more v S rb)"
  using assms by (auto intro!: hoare_stays simp: old_servers_def one_more_def world_rel_def)

text \<open>A report never fails, so its error condition is free.\<close>

lemma report_hoare:
  assumes "keeps_servers env v"
  shows "hoare (old_servers v S) (reportProgress env i phase q msg md) (\<lambda>_. old_servers v S) E"
    "hoare (old_servers v S) (reportPhaseStart env i phase msg) (\<lambda>_. old_servers v S) E"
    "hoare (one_more v S rb) (reportProgress env i phase q msg md) (\<lambda>_. one_more v S rb) E"
    "hoare (one_more v S rb) (reportPhaseStart env i phase msg) (\<lambda>_. one_more v S rb) E"
    "hoare (one_more v S rb) (ask (prov_env.env_now env)) (\<lambda>_. one_more v S rb) E"
    "hoare (one_more v S rb) (quiet (publish env p)) (\<lambda>_. one_more v S rb) E"
    "hoare (old_servers v S) (reportError env i phase e) (\<lambda>_. old_servers v S) E"
    "hoare (one_more v S rb) (reportError env i phase e) (\<lambda>_. one_more v S rb) E"
proof -
  note w = world_reports [OF assms]
  have lift: "hoare P m (\<lambda>_. P) E" if "hoare P m (\<lambda>_. P) (\<lambda>_. P)" "\<And>s e s'. m s \<noteq> (Inl e, s')"
    for P :: "'a prov \<Rightarrow> bool" and m :: "('a, 'b) prov_op" and E
    by (rule hoareI) (use that(2) hoareD(1) [OF that(1)] in auto)
  have never: "quiet m s \<noteq> (Inl e, s')" "ask f s \<noteq> (Inl e, s')" for s s' :: "'a prov" and m :: "('a, 'b) prov_op" and f :: "'a \<Rightarrow> 'b \<times> 'a" and e
    by (auto simp: quiet_def ask_def split: prod.splits)
  show "hoare (old_servers v S) (reportProgress env i phase q msg md) (\<lambda>_. old_servers v S) E"
    "hoare (old_servers v S) (reportPhaseStart env i phase msg) (\<lambda>_. old_servers v S) E"
    "hoare (one_more v S rb) (reportProgress env i phase q msg md) (\<lambda>_. one_more v S rb) E"
    "hoare (one_more v S rb) (reportPhaseStart env i phase msg) (\<lambda>_. one_more v S rb) E"
    "hoare (one_more v S rb) (ask (prov_env.env_now env)) (\<lambda>_. one_more v S rb) E"
    "hoare (one_more v S rb) (quiet (publish env p)) (\<lambda>_. one_more v S rb) E"
    "hoare (old_servers v S) (reportError env i phase e) (\<lambda>_. old_servers v S) E"
    "hoare (one_more v S rb) (reportError env i phase e) (\<lambda>_. one_more v S rb) E"
    by (rule lift; (rule world_hoare, rule w stays_quiet [OF w(1)] | (unfold reportProgress_def reportPhaseStart_def reportError_def)?, rule never))+
qed

lemma hoare_map_errS_const: "hoare P m Q (\<lambda>_. R) \<Longrightarrow> hoare P (map_errS f m) Q (\<lambda>_. R)"
  by (rule hoareI) (auto simp: map_errS_Inl_iff dest: hoareD)

lemma failed_step_servers:
  assumes "keeps_servers env v"
    and m: "hoare P m Q (\<lambda>_. P)" and report: "\<And>e. hoare P (reportError env i phase e) (\<lambda>_. P) (\<lambda>_. F)"
    and undo: "hoare P undo (\<lambda>_. F) (\<lambda>_. F)"
  shows "hoare P (step_failed env i phase undo m) Q (\<lambda>_. F)"
proof (rule hoareI)
  fix s e s' assume p: "P s" and "step_failed env i phase undo m s = (Inl e, s')"
  then obtain s1 where 1: "m s = (Inl e, s1)" "s' = snd (bindS (reportError env i phase e) (\<lambda>_. undo) s1)"
    by (auto simp: step_failed_def split: prod.splits sum.splits)
  have "hoare P (bindS (reportError env i phase e) (\<lambda>_. undo)) (\<lambda>_. F) (\<lambda>_. F)"
    by (rule hoare_bind [OF report undo])
  note u = hoareD [OF this hoareD(2) [OF m p 1(1)]]
  obtain r t where r: "bindS (reportError env i phase e) (\<lambda>_. undo) s1 = (r, t)" by (metis surj_pair)
  then show "F s'" using u [of _ t] 1(2) by (cases r) auto
qed (auto simp: step_failed_Inr intro: hoareD(1) [OF m])

lemma rollback_servers:
  assumes "cloud_ledger hz h v" "deletes_work h" "ps_CleanupOnFailure cfg"
  shows "hoare (one_more v S rb) (performRollback (on_hetzner hz h env) cfg rb) (\<lambda>_. old_servers v S) (\<lambda>_. old_servers v S)"
    and "''cloud'' \<notin> rb_allocated rb' \<Longrightarrow>
      hoare (old_servers v S) (performRollback (on_hetzner hz h env) cfg rb') (\<lambda>_. old_servers v S) (\<lambda>_. old_servers v S)"
proof -
  have rest: "stays (world_rel v) (bindS (if P then quiet (on_db (ReleaseNodeSubnet j)) else returnS ()) (\<lambda>_. quiet (on_db (nodeRepo_Delete j))))" for P j
    by (intro world_bind stays_if stays_quiet world_steps world_pure)
  note rest = world_hoare(1) [OF rest]
  show "hoare (one_more v S rb) (performRollback (on_hetzner hz h env) cfg rb) (\<lambda>_. old_servers v S) (\<lambda>_. old_servers v S)"
    unfolding performRollback_def rollback_execute_def using assms(3)
  proof (simp only: not_True_eq_False if_False, intro hoare_bind [OF _ rest])
    show "hoare (one_more v S rb) (if ''cloud'' \<in> rb_allocated rb \<and> rb_serverID rb \<noteq> []
        then quiet (on_world (env_destroy (on_hetzner hz h env) (rb_serverID rb))) else returnS ())
      (\<lambda>_. old_servers v S) (\<lambda>_. old_servers v S)"
    proof (rule hoareI)
      fix s x s' assume s: "one_more v S rb s" and run: "(if ''cloud'' \<in> rb_allocated rb \<and> rb_serverID rb \<noteq> []
        then quiet (on_world (env_destroy (on_hetzner hz h env) (rb_serverID rb))) else returnS ()) s = (Inr x, s')"
      obtain k where k: "k \<notin> S" "- (2 ^ 63) \<le> k" "k < 2 ^ 63" "v (pv_world s) = insert k S"
        "rb_serverID rb = server_id_text k" "''cloud'' \<in> rb_allocated rb"
        using s unfolding one_more_def by blast
      have "server_id_text k \<noteq> []" by (simp add: server_id_text_def)
      then have "pv_world s' = snd (DestroyNode h (server_id_text k) (pv_world s))"
        using run k(5,6) by (auto simp: quiet_def on_world_def split: prod.splits)
      then show "old_servers v S s'"
        using DestroyNode_servers [OF assms(1,2) k(2,3), of "pv_world s"] k(1,4) by (simp add: old_servers_def)
    qed (auto simp: quiet_def split: if_splits)
  qed
  show "hoare (old_servers v S) (performRollback (on_hetzner hz h env) cfg rb') (\<lambda>_. old_servers v S) (\<lambda>_. old_servers v S)"
    if "''cloud'' \<notin> rb_allocated rb'"
    unfolding performRollback_def rollback_execute_def
    by (simp only: assms(3) that not_True_eq_False simp_thms if_False, rule hoare_bind [OF hoare_return rest])
qed

lemma cloud_servers:
  assumes "cloud_ledger hz h v" "deletes_work h" "keeps_servers env v"
  shows "hoare (old_servers v S) (provisionCloudInfrastructure (on_hetzner hz h env) cfg i subnet rb)
    (\<lambda>(pn, rb') s. one_more v S rb' s) (\<lambda>_. old_servers v S)"
proof -
  note keep = keeps_on_hetzner [OF assms(3), of hz h]
  define cl where "cl pn s = (\<exists>k. k \<notin> S \<and> - (2 ^ 63) \<le> k \<and> k < 2 ^ 63 \<and> v (pv_world s) = insert k S \<and>
     pn_ServerID pn = server_id_text k)" for pn :: ProvisionedNode and s :: "'a prov"
  have made: "hoare (old_servers v S) (map_errS f (on_world (env_provision (on_hetzner hz h env) c))) cl (\<lambda>_. old_servers v S)" for f c
  proof -
    have "hoare (old_servers v S) (on_world (ProvisionNode hz h c)) cl (\<lambda>_. old_servers v S)"
    proof (rule hoareI)
      fix s x s' assume s: "old_servers v S s" "on_world (ProvisionNode hz h c) s = (Inr x, s')"
      then obtain w where w: "ProvisionNode hz h c (pv_world s) = (Inr x, w)" "pv_world s' = w" by (auto simp: on_world_Inr)
      have "v (pv_world s) = S" using s(1) by (simp add: old_servers_def)
      then show "cl x s'" using hoareD(1) [OF ProvisionNode_servers [OF assms(1,2)] _ w(1)] w(2) unfolding cl_def by blast
    next
      fix s e s' assume s: "old_servers v S s" "on_world (ProvisionNode hz h c) s = (Inl e, s')"
      then obtain w where w: "ProvisionNode hz h c (pv_world s) = (Inl e, w)" "pv_world s' = w"
        by (auto simp: on_world_def split: prod.splits)
      have "v (pv_world s) = S" using s(1) by (simp add: old_servers_def)
      then show "old_servers v S s'"
        using hoareD(2) [OF ProvisionNode_servers [OF assms(1,2)] _ w(1)] w(2) unfolding old_servers_def by blast
    qed
    then show ?thesis by (simp add: hoare_map_errS_const)
  qed
  have report: "hoare (cl pn) (reportProgress (on_hetzner hz h env) i phase q msg md) (\<lambda>_. cl pn) E" for pn phase q msg md E
  proof (rule hoareI)
    fix s x s' assume "cl pn s" "reportProgress (on_hetzner hz h env) i phase q msg md s = (Inr x, s')"
    then show "cl pn s'" using staysD [OF world_reports(2) [OF keep]] unfolding cl_def world_rel_def by metis
  qed (simp add: reportProgress_def quiet_def)
  show ?thesis
    unfolding provisionCloudInfrastructure_def
    by (intro hoare_bind [OF report_hoare(1) [OF keep]] hoare_bind [OF made] hoare_bind [OF report])
      (auto simp: hoare_def cl_def one_more_def)
qed

lemma details_servers:
  "hoare (one_more v S rb) (updateNodeDetails n pn rb) (\<lambda>(m, rb') s. one_more v S rb' s) (\<lambda>_. one_more v S rb)"
proof (rule hoareI)
  have st: "stays (world_rel v) (updateNodeDetails n pn rb)"
    unfolding updateNodeDetails_def Let_def by (intro world_bind world_pure world_steps)
  fix s y s' assume s: "one_more v S rb s" and run: "updateNodeDetails n pn rb s = (Inr y, s')"
  have "one_more v S rb s'" by (rule hoareD(1) [OF world_hoare(2) [OF st] s run])
  moreover obtain m where "y = (m, rb\<lparr>rb_allocated := insert ''details'' (rb_allocated rb)\<rparr>)"
    using run by (auto simp: updateNodeDetails_def Let_def bindS_Inr_iff)
  ultimately show "(\<lambda>(m, rb') s. one_more v S rb' s) y s'" by (auto simp: one_more_def)
next
  have st: "stays (world_rel v) (updateNodeDetails n pn rb)"
    unfolding updateNodeDetails_def Let_def by (intro world_bind world_pure world_steps)
  show "one_more v S rb s'" if "one_more v S rb s" "updateNodeDetails n pn rb s = (Inl e, s')" for s e s'
    by (rule hoareD(2) [OF world_hoare(2) [OF st] that])
qed

lemma allocate_servers:
  "hoare (old_servers v S) (allocateSubnet c i rb)
    (\<lambda>(x, rb') s. old_servers v S s \<and> (''cloud'' \<in> rb_allocated rb' \<longleftrightarrow> ''cloud'' \<in> rb_allocated rb)) (\<lambda>_. old_servers v S)"
proof -
  have st: "stays (world_rel v) (allocateSubnet c i rb)"
    unfolding allocateSubnet_def by (intro world_bind world_pure world_steps)
  note keep = hoareD [OF world_hoare(1) [OF st]]
  show ?thesis
    by (rule hoareI) (auto simp: allocateSubnet_def bindS_Inr_iff dest: keep split: prod.splits)
qed

lemma run_servers:
  assumes led: "cloud_ledger hz h v" "deletes_work h" and cleanup: "ps_CleanupOnFailure cfg" and "keeps_servers env v"
  shows "hoare (old_servers v S) (provision_phases (on_hetzner hz h env) cfg c start i)
    (\<lambda>_ s. \<exists>k. k \<notin> S \<and> v (pv_world s) = insert k S) (\<lambda>_. old_servers v S)"
proof -
  let ?env = "on_hetzner hz h env"
  note keep = keeps_on_hetzner [OF assms(4), of hz h]
  note undo_back = rollback_servers [OF led cleanup]
  note step_old = failed_step_servers [OF keep _ report_hoare(7) [OF keep] undo_back(2)]
  note step_new = failed_step_servers [OF keep _ report_hoare(8) [OF keep] undo_back(1)]
  have creates: "stays (world_rel v) (createProvisioningRecord i)"
    unfolding createProvisioningRecord_def by (rule world_steps)
  have activate: "stays (world_rel v) (activateNode n)" for n
    unfolding activateNode_def by (intro world_bind world_pure world_steps)
  have undone: "hoare (old_servers v S) (returnS ()) (\<lambda>_. old_servers v S) (\<lambda>_. old_servers v S)"
    by (rule hoare_return)
  have final: "hoare (one_more v S rb) (bindS (tryS (on_db (nodeRepo_GetByID i))) (\<lambda>r. returnS (f r)))
    (\<lambda>_ s. \<exists>k. k \<notin> S \<and> v (pv_world s) = insert k S) (\<lambda>_. old_servers v S)" for rb and f :: "Node res \<Rightarrow> Node"
    by (auto simp: hoare_def bindS_def tryS_def on_db_def one_more_def split: prod.splits)
  have pure: "hoare (\<lambda>s. old_servers v S s \<and> A) m Q E" if "A \<Longrightarrow> hoare (old_servers v S) m Q E"
    for A and m :: "('a, 'x) prov_op" and Q E using that by (auto simp: hoare_def)
  note reports = report_hoare [OF keep]
  note steps = hoare_bind [OF failed_step_servers [OF keep world_hoare(1) [OF creates] reports(7) undone]]
    hoare_bind_pair [OF step_old [OF allocate_servers]]
    hoare_bind_pair [OF step_old [OF cloud_servers [OF led assms(4)]]]
    hoare_bind_pair [OF step_new [OF details_servers]]
    hoare_bind [OF step_new [OF world_hoare(2) [OF world_reports(6) [OF keep]]]]
    hoare_bind [OF step_new [OF world_hoare(2) [OF activate]]] final
    hoare_bind [OF reports(1)] hoare_bind [OF reports(2)] hoare_bind [OF reports(3)] hoare_bind [OF reports(4)]
    hoare_bind [OF reports(5)] hoare_bind [OF reports(6)]
  show ?thesis
    unfolding provision_phases_def Let_def
    by (rule steps | (rule pure) | (simp; fail))+
qed


section \<open>Examples\<close>

text \<open>A cloud that counts its servers and keeps the set of them.\<close>

definition demo_cloud :: "(int \<times> int set, unit) HetznerProvisioner" where
  "demo_cloud = \<lparr>hp_client = \<lparr>hc_SSHKey_All = Pair (Inr ()),
      hc_Server_Create = (\<lambda>_ (n, S). if 0 \<le> n \<and> n < 2 ^ 63
        then (Inr \<lparr>srv_ID = n, srv_Status = ''running'', srv_IPv4 = Some 84281096\<rparr>, (n + 1, insert n S))
        else (Inl (PlainError ''resource_unavailable''), (n, S))),
      hc_Server_Delete = (\<lambda>k (n, S). (Inr (), (n, S - {k}))), hc_Server_GetByID = (\<lambda>_. Pair (Inr None)),
      hc_IsError = (\<lambda>_ _. False)\<rparr>, hp_config = DefaultHetznerConfig\<rparr>"

definition demo_servers :: "int \<times> int set \<Rightarrow> int set" where
  "demo_servers w = {k \<in> snd w. k < fst w}"

definition demo_hetzner :: "(int \<times> int set) hetzner_env" where
  "demo_hetzner = \<lparr>hz_random = Pair (Some (replicate 32 7)), hz_x25519 = Some, hz_now = Pair 1000,
     hz_ReadFile = (\<lambda>_. Pair (Inl (PlainError ''no such file or directory''))),
     hz_DialTimeout = (\<lambda>_ _ _. Pair (Inr ())), hz_Sleep = (\<lambda>_. id),
     hz_template = Inr [TText ''Address = '', TField ''GatewayIP'', TText ''/24'']\<rparr>"

definition demo_service :: "(int \<times> int set) prov_env" where
  "demo_service = \<lparr>prov_env.env_now = Pair 1000, env_uuid = Pair ''u'', env_provision = (\<lambda>_. Pair (Inr demo_server)),
     env_destroy = (\<lambda>_. Pair (Inr ())), env_health = (\<lambda>_. Pair (Inl (PlainError ''unreachable''))), env_ticks = Pair 0,
     env_ctx_err = PlainError ''context deadline exceeded'', env_order = id\<rparr>"

lemma demo_cloud_facts:
  "cloud_ledger demo_hetzner demo_cloud demo_servers" "deletes_work demo_cloud" "keeps_servers demo_service demo_servers"
  by (auto simp: cloud_ledger_def stays_def same_servers_def deletes_work_def keeps_servers_def demo_hetzner_def
      demo_cloud_def demo_service_def demo_servers_def split: prod.splits)


lemma demo_provisions: "\<exists>pn w'. ProvisionNode demo_hetzner demo_cloud (cloud_config demo_config example_net) (7, {3}) = (Inr pn, w')"
proof -
  obtain kp where kp: "GenerateKeyPair Some (Some (replicate 32 7)) = Inr kp"
    by (simp add: GenerateKeyPair_def clampPrivateKey_def)
  have net: "hz_random demo_hetzner w = (Some (replicate 32 7), w)" "hz_x25519 demo_hetzner = Some" "hz_now demo_hetzner w = (1000, w)"
    "hz_template demo_hetzner = Inr [TText ''Address = '', TField ''GatewayIP'', TText ''/24'']"
    "hz_DialTimeout demo_hetzner n a d w = (Inr (), w)" "hz_Sleep demo_hetzner d w = w" for w n a d
    by (simp_all add: demo_hetzner_def)
  have cloud: "hc_SSHKey_All (hp_client demo_cloud) w = (Inr (), w)"
    "hc_Server_Create (hp_client demo_cloud) opts (7, {3}) =
      (Inr \<lparr>srv_ID = 7, srv_Status = ''running'', srv_IPv4 = Some 84281096\<rparr>, (8, {7, 3}))" for w opts
    by (simp_all add: demo_cloud_def)
  have key: "pcfg_SSHPublicKey (cloud_config demo_config example_net) = []" by (simp add: cloud_config_def demo_config_def)
  have "\<exists>t. template_Execute [TText ''Address = '', TField ''GatewayIP'', TText ''/24''] d = Inr t" for d
    by (simp add: template_field_def)
  then obtain t where t: "template_Execute [TText ''Address = '', TField ''GatewayIP'', TText ''/24'']
      (cloud_init_data kp (Some (pcfg_Subnet (cloud_config demo_config example_net))) []) = Inr t" by blast
  have gen: "generateCloudInitWithSubnet demo_hetzner kp (Some (pcfg_Subnet (cloud_config demo_config example_net))) [] w = (Inr t, w)" for w
    by (simp add: generateCloudInitWithSubnet_def readSSHPublicKeys_def net bindS_def map_errS_def t del: template_Execute.simps)
  have "\<exists>srv. create_server demo_hetzner demo_cloud (cloud_config demo_config example_net) (7, {3}) = (Inr (kp, srv), (8, {7, 3}))"
    by (simp add: create_server_def bindS_def map_errS_def observe_def net kp key gen cloud)
  moreover have "performHealthChecks demo_hetzner ip w = (Inr (), w)" for ip w
    by (simp add: performHealthChecks_def numeral_eq_Suc healthCheck_def checkSSHConnectivity_def checkWireGuardPort_def
        bindS_def map_errS_def net)
  ultimately show ?thesis
    by (auto simp: ProvisionNode_def await_server_def bindS_def sleep_for_def net)
qed

theorem provisioned_server_fits_witness:
  "\<exists>(pn :: ProvisionedNode) tmpl keys sshKeys opts server w1 w2. hz_template demo_hetzner = Inr tmpl \<and>
    template_Execute tmpl (cloud_init_data keys (Some (pcfg_Subnet (cloud_config demo_config example_net))) sshKeys) = Inr (sco_UserData opts) \<and>
    DerivePublicKey (hz_x25519 demo_hetzner) (PrivateKey keys) = Inr (pn_PublicKey pn) \<and>
    hc_Server_Create (hp_client demo_cloud) opts w1 = (Inr server, w2) \<and> ParseInt64 (pn_ServerID pn) = Some (srv_ID server)"
proof -
  obtain pn w' where run: "ProvisionNode demo_hetzner demo_cloud (cloud_config demo_config example_net) (7, {3}) = (Inr pn, w')"
    using demo_provisions by blast
  have "length b = 32" if "fst (hz_random demo_hetzner w) = Some b" for w b using that by (auto simp: demo_hetzner_def)
  moreover have "- (2 ^ 63) \<le> srv_ID s \<and> srv_ID s < 2 ^ 63" if "fst (hc_Server_Create (hp_client demo_cloud) opts w) = Inr s" for opts w s
    using that by (auto simp: demo_cloud_def split: prod.splits if_splits)
  ultimately obtain tmpl keys sshKeys opts server w1 w2 where fits: "hz_template demo_hetzner = Inr tmpl"
    "template_Execute tmpl (cloud_init_data keys (Some (pcfg_Subnet (cloud_config demo_config example_net))) sshKeys) = Inr (sco_UserData opts)"
    "DerivePublicKey (hz_x25519 demo_hetzner) (PrivateKey keys) = Inr (pn_PublicKey pn)"
    "hc_Server_Create (hp_client demo_cloud) opts w1 = (Inr server, w2)" "ParseInt64 (pn_ServerID pn) = Some (srv_ID server)"
    using provisioned_server_fits [OF run] by metis
  show ?thesis by (intro exI conjI) (rule fits)+
qed

theorem cloud_gateway_agrees_witness:
  "\<exists>s. NewSubnet ''node-1'' (Some \<lparr>net_ip = word_of_nat 168296576, net_ones = 25\<rparr>) = Inr s \<and>
    ci_GatewayIP (cloud_init_data \<lparr>PrivateKey = ''k'', PublicKey = ''p''\<rparr>
      (Some \<lparr>net_ip = word_of_nat 168296576, net_ones = 25\<rparr>) []) \<noteq> print_ip (sn_Gateway s)"
proof -
  let ?n = "\<lparr>net_ip = word_of_nat 168296576, net_ones = 25\<rparr>"
  have u: "unat (word_of_nat 168296576 :: ip4) = 168296576" by (rule unat_word_of_nat32) simp
  then have n: "net_aligned ?n" "net_ones ?n \<le> 30" by (simp_all add: net_aligned_def ip_mask_dvd)
  have "validateNodeID ''node-1'' = Inr ()" by (simp add: validateNodeID_def)
  then obtain s where s: "NewSubnet ''node-1'' (Some ?n) = Inr s" using NewSubnet_layout [OF n] by blast
  then show ?thesis using cloud_gateway_agrees [OF n s, of "\<lparr>PrivateKey = ''k'', PublicKey = ''p''\<rparr>" "[]"] u by simp
qed

end
