(* ===== verification/Spec2Isabelle.thy ===== *)
theory Spec2Isabelle
  imports IpService PeerModel WireGuardRemote ProvisioningProps Cleanup PeerConnect Rotation Admin Scheduler ApiProps
    ClientProps ConnectorProps HetznerProps
begin

text \<open>
  The VPN rotator: a service that provisions WireGuard nodes in a cloud, hands each node a subnet of a base
  network, connects peers to the nodes, and cleans up what is no longer in use.

  \<^bold>\<open>Parts and their interaction.\<close> The HTTP handlers call orchestrators, which call services. A request to
  connect is published on the event bus; a worker takes it up, asks the node service for a node, the address
  service for an address, the peer service for a record, and the protocol manager to configure the node over
  SSH, and publishes its progress, which a tracker collects. Provisioning works the same way with its own
  worker and tracker. All services share one SQLite database.

  \<^bold>\<open>Theories and sources\<close> (paths under \<open>src/\<close>):
  \<^item> \<open>Prelude\<close>: results \<open>go_error + 'a\<close>, the state monad \<open>bindS\<close>, \<open>tryS\<close>, \<open>map_errS\<close>, frames \<open>stays\<close> and triples
    \<open>hoare\<close>, and texts (\<open>trim_space\<close>, \<open>to_lower\<close>, splitting, numbers).
  \<^item> \<open>DomainErrors\<close>: \<open>pkg/errors/domain_errors.go\<close>, errors as a datatype with their chains and metadata.
  \<^item> \<open>Crypto\<close>: \<open>pkg/crypto/wireguard.go\<close>; the curve and the random source are parameters.
  \<^item> \<open>IpNet\<close>, \<open>IpAlloc\<close>, \<open>IpService\<close>: \<open>internal/rotator/ip\<close> and \<open>store/subnet_repository.go\<close>; addresses are
    32-bit words.
  \<^item> \<open>Store\<close>, \<open>StoreInv\<close>: the tables, constraints and queries of \<open>store/db\<close>; \<open>Db\<close> holds the rows, a clock and a
    list of faults, one for each statement, which says whether the statement fails.
  \<^item> \<open>NodeModel\<close>, \<open>PeerModel\<close>: \<open>internal/rotator/node\<close>, \<open>internal/rotator/peer\<close> and their repositories.
  \<^item> \<open>Remote\<close>, \<open>WireGuardRemote\<close>: \<open>infrastructure/remote\<close> and \<open>infrastructure/protocols\<close>: circuit breakers,
    retries, the connection pool, commands and parsers; the host is a parameter \<open>command_env\<close>.
  \<^item> \<open>Events\<close>, \<open>Trackers\<close>: \<open>pkg/events\<close>, \<open>internal/rotator/events\<close> and the two trackers.
  \<^item> \<open>Provisioning\<close>, \<open>ProvisioningRun\<close>, \<open>ProvisioningProps\<close>: \<open>services/provisioning_service.go\<close>.
  \<^item> \<open>Hetzner\<close>, \<open>HetznerProps\<close>: \<open>infrastructure/provisioner\<close>, the cloud behind a provisioning run; the client of the cloud
    library is a record of its calls.
  \<^item> \<open>Cleanup\<close>: \<open>services/resource_cleanup_service.go\<close>.
  \<^item> \<open>PeerConnect\<close>: \<open>services/peer_connection_service.go\<close> and \<open>peer_connection_async.go\<close>.
  \<^item> \<open>Rotation\<close>: \<open>services/node_rotation_service.go\<close> and the node orchestrator.
  \<^item> \<open>Admin\<close>: \<open>orchestrator/admin_orchestrator.go\<close> and the responses of \<open>pkg/api/responses.go\<close>.
  \<^item> \<open>Http\<close>, \<open>ApiJson\<close>, \<open>Api\<close>, \<open>ApiProps\<close>: \<open>internal/rotator/api\<close> and \<open>pkg/api\<close>: middleware, validation, routes,
    handlers and JSON, over a model of \<open>net/http\<close>; a response writer records what was sent.
  \<^item> \<open>Scheduler\<close>: \<open>internal/rotator/scheduler\<close> as a step relation over its goroutines.
  \<^item> \<open>Client\<close>, \<open>ClientProps\<close>: \<open>internal/connector/client/client.go\<close>; requests go through a parameter, which the properties
    instantiate with the modelled server.
  \<^item> \<open>WgLocal\<close>, \<open>WgConfig\<close>, \<open>Connector\<close>, \<open>ConnectorProps\<close>: \<open>internal/connector/wireguard\<close> and \<open>connector.go\<close>, over a
    model of the files that package \<open>os\<close> shows, with a list of faults, one for each system call.

  \<^bold>\<open>State and errors.\<close> A Go struct is a record, a pointer that may be nil an option, a method of a service a
  function from its arguments and the state to a result and the new state. Errors are values; every early
  return is a branch. Panics (nil dereference, slice bounds) are error values that callers pass on. Logging
  has no effect and is left out; a call whose error is only logged is \<open>tryS\<close>. A context that has expired is a
  statement that fails. Floating-point numbers that only serve as fractions are rationals.

  \<^bold>\<open>What the lemmas show.\<close> The locales state the interfaces: the subnet store the address service relies on
  (interpreted on the repository), the steps a cleanup is made of, and others in the theories. The invariant
  \<open>store_inv\<close> (schema constraints and disjoint subnets) and \<open>placed_inv\<close> (peers have addresses of their nodes'
  subnets) is kept by every operation whatever fails; the services' results are stated on every branch;
  requests and provisioning runs always end and their trackers settle. On the side of the connector, what the
  client decodes is what the server wrote, key files are replaced whole or not at all, and the file that is applied
  holds what the service assigned.

  \<^bold>\<open>Bounds.\<close> Loops over lists are structural. The search for an address recurses on the distance to the end of
  the range. The readiness loop is bounded by the ticks before its deadline, which is its fuel; a theorem
  about it says how many health checks it makes. A retry loop recurses on the list of attempts left.
  The wait for a node is bounded by the ticks that fit into it; the property about it shows that the bound is not
  reached. Monitoring a rotation takes the number of its ticks, as it only ends with its context.
  \<open>int\<close> wraps at 64 bits where the code does not exclude it.

  \<^bold>\<open>Not modelled.\<close> The cloud library, SSH, the base64 and curve libraries and the event manager are parameters.
  Start-up and wiring, command-line front ends, logging, test helpers and instrumentation wrappers have no
  logic to verify. Handlers run one after the other in the models; where the code runs them in parallel the
  step relations say which interleavings are covered.
\<close>

end
